(* ===== verification/Prelude.thy ===== *)
theory Prelude
  imports Main "HOL-Library.Sublist" "HOL-Library.AList" "HOL-Library.Signed_Division"
begin

text \<open>
  What every component of the driver uses: Go strings as lists of bytes (the driver's
  identifiers, labels and parameters are ASCII) with the functions of package strings the
  source calls, 64-bit signed integers with their wrap-around written out, Go maps as
  association lists in iteration order, and results that are an error or a value.

  The collections \<open>go_str\<close> and \<open>int64\<close> gather the facts on strings and on
  in-range arithmetic, so that component proofs are \<^theory_text>\<open>auto simp: go_str\<close>.
\<close>

named_theorems go_str \<open>facts on the functions of package strings\<close>
named_theorems int64 \<open>in-range facts on 64-bit arithmetic\<close>

section \<open>Signed 64-bit arithmetic\<close>

text \<open>Every arithmetic result of the source on int64 is passed through \<open>i64\<close>, which
  wraps it as Go does. Division truncates towards zero (\<^term>\<open>a sdiv b\<close>).\<close>

definition i64 :: "int \<Rightarrow> int" where
  "i64 x = (x + 2 ^ 63) mod 2 ^ 64 - 2 ^ 63"

definition in_i64 :: "int \<Rightarrow> bool" where
  "in_i64 x = (- (2 ^ 63) \<le> x \<and> x < 2 ^ 63)"

lemma i64_id [int64]: "in_i64 x \<Longrightarrow> i64 x = x"
  by (simp add: i64_def in_i64_def)

lemma in_i64_i64 [simp]: "in_i64 (i64 x)"
proof -
  have "0 \<le> (x + 2 ^ 63) mod 2 ^ 64" "(x + 2 ^ 63) mod 2 ^ 64 < 2 ^ 64"
    by (rule pos_mod_sign, simp, rule pos_mod_bound, simp)
  then show ?thesis by (simp add: in_i64_def i64_def)
qed

lemma sdiv_nonneg [int64]: "0 \<le> a \<Longrightarrow> 0 < b \<Longrightarrow> a sdiv b = a div (b::int)"
  by (cases "a = 0") (simp_all add: signed_divide_int_def)

lemma smod_nonneg [int64]: "0 \<le> a \<Longrightarrow> 0 < b \<Longrightarrow> a smod b = a mod (b::int)"
  by (cases "a = 0") (simp_all add: signed_modulo_int_def)

section \<open>Functions of package strings\<close>

text \<open>\<open>strings.Split\<close> for a one-byte separator: n separators give n + 1 pieces, and the
  empty string gives one empty piece.\<close>

fun split :: "char \<Rightarrow> string \<Rightarrow> string list" where
  "split c [] = [[]]"
| "split c (x # xs) =
     (if x = c then [] # split c xs
      else (case split c xs of [] \<Rightarrow> [[x]] | y # ys \<Rightarrow> (x # y) # ys))"

text \<open>\<open>strings.Join\<close>\<close>

fun join :: "string \<Rightarrow> string list \<Rightarrow> string" where
  "join sep [] = []"
| "join sep [x] = x"
| "join sep (x # y # ys) = x @ sep @ join sep (y # ys)"

text \<open>\<open>strings.ReplaceAll\<close> of one byte by another\<close>

definition replace_char :: "char \<Rightarrow> char \<Rightarrow> string \<Rightarrow> string" where
  "replace_char a b s = map (\<lambda>x. if x = a then b else x) s"

text \<open>\<open>strings.Contains\<close>\<close>

fun contains :: "string \<Rightarrow> string \<Rightarrow> bool" where
  "contains [] sub = (sub = [])"
| "contains (x # xs) sub = (prefix sub (x # xs) \<or> contains xs sub)"

definition hasPrefix :: "string \<Rightarrow> string \<Rightarrow> bool" where
  "hasPrefix s p = prefix p s"

definition to_lower_char :: "char \<Rightarrow> char" where
  "to_lower_char c = (let n = of_char c :: nat in
     if 65 \<le> n \<and> n \<le> 90 then char_of (n + 32) else c)"

definition toLower :: "string \<Rightarrow> string" where
  "toLower s = map to_lower_char s"

definition equalFold :: "string \<Rightarrow> string \<Rightarrow> bool" where
  "equalFold s t = (toLower s = toLower t)"

definition is_space :: "char \<Rightarrow> bool" where
  "is_space c = (let n = of_char c :: nat in n = 32 \<or> (9 \<le> n \<and> n \<le> 13))"

definition trimSpace :: "string \<Rightarrow> string" where
  "trimSpace s = rev (dropWhile is_space (rev (dropWhile is_space s)))"

definition is_digit :: "char \<Rightarrow> bool" where
  "is_digit c = (let n = of_char c :: nat in 48 \<le> n \<and> n \<le> 57)"

definition is_lower :: "char \<Rightarrow> bool" where
  "is_lower c = (let n = of_char c :: nat in 97 \<le> n \<and> n \<le> 122)"

definition is_upper :: "char \<Rightarrow> bool" where
  "is_upper c = (let n = of_char c :: nat in 65 \<le> n \<and> n \<le> 90)"

text \<open>Rendering of integers by \<open>%d\<close> and \<open>%v\<close>\<close>

definition digit_char :: "nat \<Rightarrow> char" where
  "digit_char d = char_of (48 + d)"

fun show_nat :: "nat \<Rightarrow> string" where
  "show_nat n = (if n < 10 then [digit_char n] else show_nat (n div 10) @ [digit_char (n mod 10)])"

declare show_nat.simps [simp del]

definition show_int :: "int \<Rightarrow> string" where
  "show_int i = (if i < 0 then CHR 0x2D # show_nat (nat (- i)) else show_nat (nat i))"

text \<open>The value of a digit string, and \<open>strconv.ParseInt(s, 10, 64)\<close> with its error texts\<close>

definition dec_val :: "string \<Rightarrow> nat" where
  "dec_val s = foldl (\<lambda>v c. v * 10 + (of_char c - 48)) 0 s"

definition dec_int :: "string \<Rightarrow> int" where
  "dec_int s = foldl (\<lambda>v c. v * 10 + int (of_char c - 48)) 0 s"

text \<open>Rendering of a string by \<open>%q\<close> (\<open>strconv.Quote\<close> on ASCII)\<close>

definition hex_char :: "nat \<Rightarrow> char" where
  "hex_char d = (if d < 10 then char_of (48 + d) else char_of (87 + d))"

definition quote_char :: "char \<Rightarrow> string" where
  "quote_char c = (let n = of_char c :: nat in
     if n = 34 then [CHR 0x5C, CHR 0x22]
     else if n = 92 then [CHR 0x5C, CHR 0x5C]
     else if n = 7 then CHR 0x5C # ''a''
     else if n = 8 then CHR 0x5C # ''b''
     else if n = 9 then CHR 0x5C # ''t''
     else if n = 10 then CHR 0x5C # ''n''
     else if n = 11 then CHR 0x5C # ''v''
     else if n = 12 then CHR 0x5C # ''f''
     else if n = 13 then CHR 0x5C # ''r''
     else if n < 32 \<or> 127 \<le> n then CHR 0x5C # ''x'' @ [hex_char (n div 16), hex_char (n mod 16)]
     else [c])"

definition quote :: "string \<Rightarrow> string" where
  "quote s = CHR 0x22 # concat (map quote_char s) @ [CHR 0x22]"

definition ParseInt :: "string \<Rightarrow> string + int" where
  "ParseInt s =
     (let neg = (s \<noteq> [] \<and> hd s = CHR ''-'');
          body = (if s \<noteq> [] \<and> (hd s = CHR ''-'' \<or> hd s = CHR ''+'') then tl s else s);
          v = (if neg then - dec_int body else dec_int body);
          err = (\<lambda>what. Inl (''strconv.ParseInt: parsing '' @ quote s @ '': '' @ what)) in
      if body = [] \<or> \<not> list_all is_digit body then err ''invalid syntax''
      else if \<not> in_i64 v then err ''value out of range''
      else Inr v)"

section \<open>Facts on strings\<close>

lemma split_not_Nil [simp]: "split c s \<noteq> []"
  by (induction s) (auto split: list.splits)

lemma split_no_sep [go_str]: "c \<notin> set s \<Longrightarrow> split c s = [s]"
  by (induction s) auto

lemma split_append [go_str]: "c \<notin> set s \<Longrightarrow> split c (s @ c # t) = s # split c t"
  by (induction s) auto

lemma set_split: "p \<in> set (split c s) \<Longrightarrow> c \<notin> set p"
  by (induction s arbitrary: p) (auto split: list.splits if_splits)

lemma split_join [go_str]:
  "ps \<noteq> [] \<Longrightarrow> \<forall>p\<in>set ps. c \<notin> set p \<Longrightarrow> split c (join [c] ps) = ps"
  by (induction "[c]" ps rule: join.induct) (auto simp: go_str)

lemma join_split [go_str]: "join [c] (split c s) = s"
proof (induction s)
  case (Cons x xs)
  then show ?case
    by (cases "split c xs"; cases "tl (split c xs)") auto
qed simp

lemma split_append_sep: "split c (s @ c # t) = split c s @ split c t"
  by (induction s) (auto split: list.splits)

lemma join_snoc: "ps \<noteq> [] \<Longrightarrow> join sep (ps @ [p]) = join sep ps @ sep @ p"
  by (induction sep ps rule: join.induct) auto

lemma split_inject: "split c s = split c t \<Longrightarrow> s = t"
  by (metis join_split)

lemma contains_sublist: "contains s sub = sublist sub s"
  by (induction s) (auto simp: sublist_Cons_right)

lemma contains_refl [simp, go_str]: "contains s s"
  by (simp add: contains_sublist)

lemma contains_append_left [simp]: "contains s t \<Longrightarrow> contains (r @ s) t"
  by (auto simp: contains_sublist sublist_def) (metis append.assoc)

lemma contains_append_right [simp]: "contains s t \<Longrightarrow> contains (s @ r) t"
  by (auto simp: contains_sublist sublist_def) blast

lemma hasPrefix_append [simp, go_str]: "hasPrefix (p @ s) p"
  by (simp add: hasPrefix_def)

lemma replace_char_length [simp]: "length (replace_char a b s) = length s"
  by (simp add: replace_char_def)

lemma replace_char_inv [go_str]: "b \<notin> set s \<Longrightarrow> replace_char b a (replace_char a b s) = s"
  by (induction s) (auto simp: replace_char_def)

lemma replace_char_gone [simp]: "a \<noteq> b \<Longrightarrow> a \<notin> set (replace_char a b s)"
  by (induction s) (auto simp: replace_char_def)

lemma to_lower_char_idem [simp]: "to_lower_char (to_lower_char c) = to_lower_char c"
  by (auto simp: to_lower_char_def Let_def)

lemma toLower_idem [simp]: "toLower (toLower s) = toLower s"
  by (simp add: toLower_def comp_def)

lemma toLower_length [simp]: "length (toLower s) = length s"
  by (simp add: toLower_def)

lemma equalFold_refl [simp]: "equalFold s s"
  by (simp add: equalFold_def)

lemma dropWhile_is_space_hd: "dropWhile is_space s = [] \<or> \<not> is_space (hd (dropWhile is_space s))"
  by (induction s) auto

text \<open>Rendered naturals are non-empty digit strings, and different naturals render
  differently.\<close>

lemma digit_char_of [simp]: "d < 10 \<Longrightarrow> of_char (digit_char d) = 48 + d"
  by (simp add: digit_char_def)

lemma digit_chars:
  "digit_char 0 = CHR ''0''" "digit_char 1 = CHR ''1''" "digit_char (Suc 0) = CHR ''1''"
  "digit_char 2 = CHR ''2''" "digit_char 3 = CHR ''3''" "digit_char 4 = CHR ''4''"
  "digit_char 5 = CHR ''5''" "digit_char 6 = CHR ''6''" "digit_char 7 = CHR ''7''"
  "digit_char 8 = CHR ''8''" "digit_char 9 = CHR ''9''"
  by code_simp+

lemma digit_char_inject: "d < 10 \<Longrightarrow> e < 10 \<Longrightarrow> digit_char d = digit_char e \<Longrightarrow> d = e"
  by (metis digit_char_of add_left_cancel)

lemma show_nat_not_Nil [simp]: "show_nat n \<noteq> []"
  by (subst show_nat.simps) simp

lemma dec_val_snoc [simp]: "dec_val (s @ [c]) = dec_val s * 10 + (of_char c - 48)"
  by (simp add: dec_val_def)

lemma dec_val_Nil [simp]: "dec_val [] = 0"
  by (simp add: dec_val_def)

lemma dec_val_show_nat [simp]: "dec_val (show_nat n) = n"
proof (induction n rule: show_nat.induct)
  case (1 n)
  have one: "dec_val [c] = of_char c - 48" for c by (simp add: dec_val_def)
  show ?case
    by (subst show_nat.simps) (auto simp: 1 one)
qed

lemma show_nat_digits: "\<forall>c \<in> set (show_nat n). is_digit c"
proof (induction n rule: show_nat.induct)
  case (1 n)
  then show ?case
    by (subst show_nat.simps) (auto simp: is_digit_def Let_def)
qed

lemma show_nat_inject: "show_nat m = show_nat n \<Longrightarrow> m = n"
proof (induction m arbitrary: n rule: show_nat.induct)
  case (1 m)
  show ?case
  proof (cases "m < 10")
    case True
    then show ?thesis
    proof (cases "n < 10")
      case True
      with \<open>m < 10\<close> 1(2) show ?thesis by (simp add: show_nat.simps digit_char_inject)
    next
      case False
      have "length (show_nat n) \<ge> 2"
        using False by (subst show_nat.simps) (simp add: Suc_le_eq)
      moreover have "length (show_nat m) = 1" using True by (simp add: show_nat.simps)
      ultimately show ?thesis using 1(2) by simp
    qed
  next
    case False
    have lm: "length (show_nat m) \<ge> 2"
      using False by (subst show_nat.simps) (simp add: Suc_le_eq)
    have n: "\<not> n < 10"
    proof
      assume "n < 10"
      then have "length (show_nat n) = 1" by (simp add: show_nat.simps)
      with lm 1(2) show False by simp
    qed
    have "show_nat (m div 10) @ [digit_char (m mod 10)] = show_nat (n div 10) @ [digit_char (n mod 10)]"
      using 1(2) False n by (metis show_nat.simps)
    then have "m div 10 = n div 10" "m mod 10 = n mod 10"
      using 1(1)[OF False] by (auto intro: digit_char_inject)
    then show ?thesis by (metis div_mult_mod_eq)
  qed
qed

section \<open>Maps\<close>

text \<open>A Go map is an association list in the order an iteration meets its keys; the order is
  arbitrary, and theorems that need one key per entry say \<open>distinct (map fst m)\<close>.\<close>

type_synonym ('k, 'v) gomap = "('k \<times> 'v) list"
type_synonym labels = "(string, string) gomap"

definition mlookup :: "('k, 'v) gomap \<Rightarrow> 'k \<Rightarrow> 'v option" where
  "mlookup m k = map_of m k"

definition minsert :: "'k \<Rightarrow> 'v \<Rightarrow> ('k, 'v) gomap \<Rightarrow> ('k, 'v) gomap" where
  "minsert k v m = AList.update k v m"

definition mdelete :: "'k \<Rightarrow> ('k, 'v) gomap \<Rightarrow> ('k, 'v) gomap" where
  "mdelete k m = AList.delete k m"

definition keys :: "('k, 'v) gomap \<Rightarrow> 'k list" where
  "keys m = map fst m"

text \<open>\<open>m[k]\<close> on a \<open>map[string]string\<close>: the empty string when absent\<close>

definition mget :: "labels \<Rightarrow> string \<Rightarrow> string" where
  "mget m k = (case mlookup m k of None \<Rightarrow> [] | Some v \<Rightarrow> v)"

definition go_map :: "('k, 'v) gomap \<Rightarrow> bool" where
  "go_map m = distinct (keys m)"

lemma mlookup_minsert [simp]: "mlookup (minsert k v m) k' = (if k' = k then Some v else mlookup m k')"
  by (simp add: mlookup_def minsert_def update_conv')

lemma mlookup_mdelete [simp]: "mlookup (mdelete k m) k' = (if k' = k then None else mlookup m k')"
  by (simp add: mlookup_def mdelete_def delete_conv')

lemma mlookup_Nil [simp]: "mlookup [] k = None"
  by (simp add: mlookup_def)

lemma mlookup_Cons [simp]: "mlookup ((k, v) # m) k' = (if k' = k then Some v else mlookup m k')"
  by (simp add: mlookup_def)

lemma go_map_minsert [simp]: "go_map m \<Longrightarrow> go_map (minsert k v m)"
  by (simp add: go_map_def keys_def minsert_def distinct_update)

lemma go_map_mdelete [simp]: "go_map m \<Longrightarrow> go_map (mdelete k m)"
  by (simp add: go_map_def keys_def mdelete_def distinct_delete)

lemma go_map_Nil [simp]: "go_map []"
  by (simp add: go_map_def keys_def)

lemma keys_simps [simp]: "keys [] = []" "keys ((k, v) # m) = k # keys m"
  by (simp_all add: keys_def)

lemma set_keys_minsert [simp]: "set (keys (minsert k v m)) = insert k (set (keys m))"
  by (simp add: keys_def minsert_def dom_update)

lemma set_keys_mdelete [simp]: "set (keys (mdelete k m)) = set (keys m) - {k}"
  by (auto simp: keys_def mdelete_def delete_keys simp flip: delete_conv' split: if_splits)

lemma mlookup_Some_keys: "mlookup m k = Some v \<Longrightarrow> k \<in> set (keys m)"
  by (force simp: mlookup_def keys_def dest: map_of_SomeD)

lemma mlookup_None_keys: "mlookup m k = None \<longleftrightarrow> k \<notin> set (keys m)"
  by (simp add: mlookup_def keys_def map_of_eq_None_iff)

lemma mlookup_perm:
  "go_map m \<Longrightarrow> set m = set m' \<Longrightarrow> go_map m' \<Longrightarrow> mlookup m k = mlookup m' k"
  unfolding mlookup_def go_map_def keys_def by (rule map_of_inject_set [THEN iffD2, THEN fun_cong]) auto

section \<open>Results\<close>

text \<open>A Go function returning \<open>(T, error)\<close> is a sum: \<open>Inl\<close> the error, \<open>Inr\<close> the value.\<close>

definition rbind :: "'e + 'a \<Rightarrow> ('a \<Rightarrow> 'e + 'b) \<Rightarrow> 'e + 'b" where
  "rbind r f = (case r of Inl e \<Rightarrow> Inl e | Inr a \<Rightarrow> f a)"

definition map_err :: "('e \<Rightarrow> 'f) \<Rightarrow> 'e + 'a \<Rightarrow> 'f + 'a" where
  "map_err f r = (case r of Inl e \<Rightarrow> Inl (f e) | Inr a \<Rightarrow> Inr a)"

lemma rbind_simps [simp]: "rbind (Inl e) f = Inl e" "rbind (Inr a) f = f a"
  by (simp_all add: rbind_def)

lemma map_err_simps [simp]: "map_err f (Inl e) = Inl (f e)" "map_err f (Inr a) = Inr a"
  by (simp_all add: map_err_def)

lemma rbind_Inr_iff: "rbind r f = Inr b \<longleftrightarrow> (\<exists>a. r = Inr a \<and> f a = Inr b)"
  by (cases r) auto

lemma map_err_Inr_iff [simp]: "map_err f r = Inr a \<longleftrightarrow> r = Inr a"
  by (cases r) auto

lemma ParseInt_in_i64: "ParseInt s = Inr v \<Longrightarrow> in_i64 v"
  by (auto simp: ParseInt_def Let_def split: if_splits)

end
