(* ===== verification/Error_Codes.thy ===== *)
theory Error_Codes
  imports Prelude
begin

text \<open>
  The driver's errors: the gRPC status codes, the kinds of error values the source builds or
  receives (plain and wrapping \<open>fmt.Errorf\<close>, \<open>status.Error\<close>, \<open>common.TemporaryError\<close> of
  \<open>pkg/common/errors.go\<close>, \<open>googleapi.Error\<close> and the \<open>apierror.APIError\<close> that wraps one), the
  searches \<open>errors.As\<close> and \<open>status.FromError\<close> make through a chain of errors, and the
  classification of \<open>pkg/cloud_provider/file/file.go\<close> (\<open>codeForError\<close>, \<open>StatusError\<close>).
\<close>

section \<open>Codes and errors\<close>

datatype code = OK | Canceled | Unknown | InvalidArgument | DeadlineExceeded | NotFound
  | AlreadyExists | PermissionDenied | ResourceExhausted | FailedPrecondition | Aborted
  | OutOfRange | Unimplemented | Internal | Unavailable | DataLoss | Unauthenticated

text \<open>
  \<open>ErrText m\<close> is \<open>errors.New(m)\<close> or an \<open>Errorf\<close> without \<open>%w\<close>; \<open>ErrWrap pre e post\<close> is
  \<open>Errorf(pre%wpost, e)\<close>; \<open>GoogleApiErr http text reasons\<close> is a \<open>googleapi.Error\<close> with its HTTP
  code, its rendered text and the reasons of its \<open>Errors\<close>; \<open>ApiErr c http text e\<close> is an
  \<open>apierror.APIError\<close> around \<open>e\<close> with the status code and the HTTP code it reports. \<open>Panic m\<close> is
  no error value: it stands for a run-time panic (nil dereference, index out of range) and is only
  passed on.
\<close>

datatype go_error =
    ErrText string
  | ErrWrap string go_error string
  | StatusErr code string
  | TemporaryErr code go_error
  | GoogleApiErr int string "string list"
  | ApiErr code int string go_error
  | Panic string

text \<open>\<open>codes.Code.String\<close>\<close>

fun code_name :: "code \<Rightarrow> string" where
  "code_name OK = ''OK''"
| "code_name Canceled = ''Canceled''"
| "code_name Unknown = ''Unknown''"
| "code_name InvalidArgument = ''InvalidArgument''"
| "code_name DeadlineExceeded = ''DeadlineExceeded''"
| "code_name NotFound = ''NotFound''"
| "code_name AlreadyExists = ''AlreadyExists''"
| "code_name PermissionDenied = ''PermissionDenied''"
| "code_name ResourceExhausted = ''ResourceExhausted''"
| "code_name FailedPrecondition = ''FailedPrecondition''"
| "code_name Aborted = ''Aborted''"
| "code_name OutOfRange = ''OutOfRange''"
| "code_name Unimplemented = ''Unimplemented''"
| "code_name Internal = ''Internal''"
| "code_name Unavailable = ''Unavailable''"
| "code_name DataLoss = ''DataLoss''"
| "code_name Unauthenticated = ''Unauthenticated''"

fun error_text :: "go_error \<Rightarrow> string" where
  "error_text (ErrText m) = m"
| "error_text (ErrWrap pre e post) = pre @ error_text e @ post"
| "error_text (TemporaryErr c e) = error_text e"
| "error_text (GoogleApiErr n m rs) = m"
| "error_text (ApiErr c n m e) = m"
| "error_text (Panic m) = m"
| "error_text (StatusErr c m) = ''rpc error: code = '' @ code_name c @ '' desc = '' @ m"

text \<open>\<open>status.Error(c, msg)\<close>: nil for code OK\<close>

definition status_err :: "code \<Rightarrow> string \<Rightarrow> go_error option" where
  "status_err c msg = (if c = OK then None else Some (StatusErr c msg))"

section \<open>Searches through an error chain\<close>

text \<open>\<open>errors.As\<close> for \<open>*googleapi.Error\<close>, \<open>*common.TemporaryError\<close> and \<open>*apierror.APIError\<close>\<close>

fun as_googleapi :: "go_error \<Rightarrow> (int \<times> string list) option" where
  "as_googleapi (GoogleApiErr n m rs) = Some (n, rs)"
| "as_googleapi (ErrWrap pre e post) = as_googleapi e"
| "as_googleapi (TemporaryErr c e) = as_googleapi e"
| "as_googleapi (ApiErr c n m e) = as_googleapi e"
| "as_googleapi _ = None"

fun as_temporary :: "go_error \<Rightarrow> (code \<times> go_error) option" where
  "as_temporary (TemporaryErr c e) = Some (c, e)"
| "as_temporary (ErrWrap pre e post) = as_temporary e"
| "as_temporary (ApiErr c n m e) = as_temporary e"
| "as_temporary _ = None"

fun as_apierror :: "go_error \<Rightarrow> int option" where
  "as_apierror (ApiErr c n m e) = Some n"
| "as_apierror (ErrWrap pre e post) = as_apierror e"
| "as_apierror (TemporaryErr c e) = as_apierror e"
| "as_apierror _ = None"

text \<open>\<open>TemporaryError.GRPCStatus\<close>; its wrapped error is never nil, every caller of
  \<open>NewTemporaryError\<close> passes one.\<close>

definition temporary_GRPCStatus :: "code \<Rightarrow> go_error \<Rightarrow> code \<times> string" where
  "temporary_GRPCStatus c e = (c, error_text e)"

text \<open>\<open>status.FromError\<close> followed by \<open>Code\<close>: the code of the first error of the chain that has a
  \<open>GRPCStatus\<close>, or None where the boolean is false\<close>

fun fromError_code :: "go_error \<Rightarrow> code option" where
  "fromError_code (StatusErr c m) = Some c"
| "fromError_code (TemporaryErr c e) = Some (fst (temporary_GRPCStatus c e))"
| "fromError_code (ApiErr c n m e) = Some c"
| "fromError_code (ErrWrap pre e post) = fromError_code e"
| "fromError_code _ = None"

section \<open>Classification\<close>

definition userErrorCodeMap :: "int \<Rightarrow> code option" where
  "userErrorCodeMap h =
     (if h = 403 then Some PermissionDenied
      else if h = 400 then Some InvalidArgument
      else if h = 429 then Some ResourceExhausted
      else if h = 404 then Some NotFound
      else None)"

definition IsNotFoundErr :: "go_error \<Rightarrow> bool" where
  "IsNotFoundErr e = (case as_googleapi e of None \<Rightarrow> False
     | Some (n, rs) \<Rightarrow> list_ex (\<lambda>r. r = ''notFound'') rs)"

definition containsUserErrStr :: "go_error \<Rightarrow> code option" where
  "containsUserErrStr e =
     (if contains (error_text e) ''PERMISSION_DENIED'' then Some PermissionDenied
      else if contains (error_text e) ''RESOURCE_EXHAUSTED'' then Some ResourceExhausted
      else if contains (error_text e) ''INVALID_ARGUMENT'' then Some InvalidArgument
      else if contains (error_text e) ''NOT_FOUND'' then Some NotFound
      else None)"

definition isUserOperationError :: "go_error \<Rightarrow> code option" where
  "isUserOperationError e =
     (case as_googleapi e of None \<Rightarrow> containsUserErrStr e | Some _ \<Rightarrow> None)"

definition isFilestoreLimitError :: "go_error \<Rightarrow> code option" where
  "isFilestoreLimitError e =
     (if contains (error_text e) ''System limit for internal resources has been reached''
      then Some ResourceExhausted else None)"

definition isContextError :: "go_error \<Rightarrow> code option" where
  "isContextError e =
     (if contains (error_text e) ''context deadline exceeded'' then Some DeadlineExceeded
      else if contains (error_text e) ''context canceled'' then Some Canceled
      else None)"

definition existingErrorCode :: "go_error \<Rightarrow> code option" where
  "existingErrorCode e =
     (case (case as_temporary e of Some _ \<Rightarrow> fromError_code e | None \<Rightarrow> None) of
        Some c \<Rightarrow> Some c
      | None \<Rightarrow> (case as_googleapi e of None \<Rightarrow> fromError_code e | Some _ \<Rightarrow> None))"

definition isGoogleAPIError :: "go_error \<Rightarrow> code option" where
  "isGoogleAPIError e =
     (case as_googleapi e of
        None \<Rightarrow> None
      | Some (http, rs) \<Rightarrow>
          userErrorCodeMap (case as_apierror e of Some h \<Rightarrow> h | None \<Rightarrow> http))"

definition codeForError :: "go_error \<Rightarrow> code" where
  "codeForError e =
     (case existingErrorCode e of Some c \<Rightarrow> c | None \<Rightarrow>
     (case isUserOperationError e of Some c \<Rightarrow> c | None \<Rightarrow>
     (case isContextError e of Some c \<Rightarrow> c | None \<Rightarrow>
     (case isFilestoreLimitError e of Some c \<Rightarrow> c | None \<Rightarrow>
     (case isGoogleAPIError e of Some c \<Rightarrow> c | None \<Rightarrow> Internal)))))"

definition StatusError :: "go_error option \<Rightarrow> go_error option" where
  "StatusError oe = (case oe of None \<Rightarrow> None
     | Some e \<Rightarrow> status_err (codeForError e) (error_text e))"

section \<open>Properties\<close>

text \<open>An error is well formed when no status inside it has code OK; \<open>status.Error\<close> never
  builds one and the driver's temporary errors are \<open>Unavailable\<close>.\<close>

fun err_wf :: "go_error \<Rightarrow> bool" where
  "err_wf (StatusErr c m) = (c \<noteq> OK)"
| "err_wf (TemporaryErr c e) = (c \<noteq> OK \<and> err_wf e)"
| "err_wf (ApiErr c n m e) = (c \<noteq> OK \<and> err_wf e)"
| "err_wf (ErrWrap pre e post) = err_wf e"
| "err_wf _ = True"

lemma fromError_not_OK: "err_wf e \<Longrightarrow> fromError_code e \<noteq> Some OK"
  by (induction e) (auto simp: temporary_GRPCStatus_def)

lemma existing_not_OK: "err_wf e \<Longrightarrow> existingErrorCode e \<noteq> Some OK"
  by (auto simp: existingErrorCode_def fromError_not_OK split: option.splits)

lemma later_codes_not_OK:
  "isUserOperationError e \<noteq> Some OK" "isContextError e \<noteq> Some OK"
  "isFilestoreLimitError e \<noteq> Some OK" "isGoogleAPIError e \<noteq> Some OK"
  by (auto simp: isUserOperationError_def containsUserErrStr_def isContextError_def
      isFilestoreLimitError_def isGoogleAPIError_def userErrorCodeMap_def split: option.splits)

lemma codeForError_not_OK: "err_wf e \<Longrightarrow> codeForError e \<noteq> OK"
  using existing_not_OK[of e] later_codes_not_OK[of e]
  by (auto simp: codeForError_def split: option.splits)

lemma temporary_fromError:
  "as_temporary e = Some (c, e') \<Longrightarrow> \<exists>c'. fromError_code e = Some c'"
  by (induction e) (auto simp: temporary_GRPCStatus_def)

lemma codeForError_existing: "existingErrorCode e = Some c \<Longrightarrow> codeForError e = c"
  by (simp add: codeForError_def)

lemma codeForError_status [simp]: "codeForError (StatusErr c m) = c"
  by (simp add: codeForError_def existingErrorCode_def)

lemma codeForError_temporary [simp]: "codeForError (TemporaryErr c e) = c"
  by (simp add: codeForError_def existingErrorCode_def temporary_GRPCStatus_def)

lemma codeForError_wrap_status [simp]: "codeForError (ErrWrap pre (StatusErr c m) post) = c"
  by (simp add: codeForError_def existingErrorCode_def)

text \<open>A status error never has code OK.\<close>

fun is_status :: "go_error \<Rightarrow> bool" where
  "is_status (StatusErr c m) = (c \<noteq> OK)"
| "is_status _ = False"

lemma status_err_is_status: "status_err c m = Some e \<Longrightarrow> is_status e"
  by (auto simp: status_err_def split: if_splits)

lemma StatusError_is_status: "StatusError oe = Some e \<Longrightarrow> is_status e"
  by (auto simp: StatusError_def split: option.splits intro: status_err_is_status)

text \<open>An error passed up through any number of \<open>Errorf("...%w...")\<close> calls\<close>

fun wraps :: "(string \<times> string) list \<Rightarrow> go_error \<Rightarrow> go_error" where
  "wraps [] e = e"
| "wraps ((pre, post) # ws) e = ErrWrap pre (wraps ws e) post"

lemma wraps_searches [simp]:
  "as_googleapi (wraps ws e) = as_googleapi e"
  "as_temporary (wraps ws e) = as_temporary e"
  "as_apierror (wraps ws e) = as_apierror e"
  "fromError_code (wraps ws e) = fromError_code e"
  "err_wf (wraps ws e) = err_wf e"
  by (induction ws e rule: wraps.induct) auto

lemma existingErrorCode_wraps [simp]: "existingErrorCode (wraps ws e) = existingErrorCode e"
  unfolding existingErrorCode_def wraps_searches ..

text \<open>The code an HTTP error maps to, once the texts searched before the HTTP code are taken into
  account: the reference for \<open>codeForError\<close> on errors of the Filestore client.\<close>

definition http_error_code :: "int \<Rightarrow> string \<Rightarrow> code" where
  "http_error_code http t =
     (if contains t ''context deadline exceeded'' then DeadlineExceeded
      else if contains t ''context canceled'' then Canceled
      else if contains t ''System limit for internal resources has been reached''
        then ResourceExhausted
      else if http = 400 then InvalidArgument
      else if http = 403 then PermissionDenied
      else if http = 404 then NotFound
      else if http = 429 then ResourceExhausted
      else Internal)"

lemma codeForError_http:
  "codeForError (wraps ws (GoogleApiErr http m rs))
     = http_error_code http (error_text (wraps ws (GoogleApiErr http m rs)))"
proof -
  let ?e = "wraps ws (GoogleApiErr http m rs)"
  have "existingErrorCode ?e = None" "isUserOperationError ?e = None"
       "isGoogleAPIError ?e = userErrorCodeMap http"
    by (simp_all add: existingErrorCode_def isUserOperationError_def isGoogleAPIError_def)
  then show ?thesis
    by (simp add: codeForError_def isContextError_def isFilestoreLimitError_def
        http_error_code_def userErrorCodeMap_def del: error_text.simps)
qed

lemma codeForError_wraps_status [simp]: "codeForError (wraps ws (StatusErr c m)) = c"
  by (rule codeForError_existing) (simp add: existingErrorCode_def)

lemma codeForError_wraps_temporary [simp]: "codeForError (wraps ws (TemporaryErr c e)) = c"
  by (rule codeForError_existing) (simp add: existingErrorCode_def temporary_GRPCStatus_def)

text \<open>The gRPC code the driver reports for a failure. However many \<open>Errorf("...%w...")\<close>
  layers a failure passes through, a temporary error or a status inside them keeps its own code,
  whatever its cause says, and an HTTP error of the Filestore client gets the code of the first
  rule that applies: the context and limit texts first, then its HTTP status (400, 403, 404,
  429), and Internal for all others.\<close>

theorem codeForError_classification:
  "codeForError (wraps ws (TemporaryErr c cause)) = c
   \<and> codeForError (wraps ws (StatusErr c m)) = c
   \<and> codeForError (wraps ws (GoogleApiErr http m rs))
       = http_error_code http (error_text (wraps ws (GoogleApiErr http m rs)))"
  by (simp add: codeForError_http)

text \<open>A failed operation is never answered as a success: for every well-formed error
  \<open>StatusError\<close> returns a status error, with a code other than OK and the whole message of the
  error, while a nil error stays nil.\<close>

theorem StatusError_total:
  "err_wf e \<Longrightarrow>
     StatusError (Some e) = Some (StatusErr (codeForError e) (error_text e))
     \<and> codeForError e \<noteq> OK \<and> StatusError None = None"
  by (simp add: StatusError_def status_err_def codeForError_not_OK)

theorem StatusError_total_witness:
  "StatusError (Some (ErrWrap ''resize: '' (TemporaryErr Unavailable (ErrText ''x'')) []))
     = Some (StatusErr Unavailable ''resize: x'')"
proof -
  have "codeForError (ErrWrap ''resize: '' (TemporaryErr Unavailable (ErrText ''x'')) [])
      = Unavailable"
    by code_simp
  then show ?thesis
    using StatusError_total[of "ErrWrap ''resize: '' (TemporaryErr Unavailable (ErrText ''x'')) []"]
    by simp
qed

section \<open>Effects\<close>

text \<open>A call that reads and changes a state and returns a value or an error\<close>

type_synonym ('w, 'a) eff = "'w \<Rightarrow> (go_error + 'a) \<times> 'w"

definition ret :: "'a \<Rightarrow> ('w, 'a) eff" where
  "ret a = (\<lambda>w. (Inr a, w))"

definition fail :: "go_error \<Rightarrow> ('w, 'a) eff" where
  "fail e = (\<lambda>w. (Inl e, w))"

text \<open>A rewriting of an error does not apply to a panic.\<close>

definition rewrite_err :: "(go_error \<Rightarrow> go_error) \<Rightarrow> go_error \<Rightarrow> go_error" where
  "rewrite_err h e = (case e of Panic m \<Rightarrow> Panic m | _ \<Rightarrow> h e)"

text \<open>\<open>bind m f\<close> returns early with the error of \<open>m\<close>; \<open>attempt m f\<close> gives \<open>f\<close> the error too;
  \<open>bind_err h m f\<close> returns early with the error rewritten by \<open>h\<close>.\<close>

definition bind :: "('w, 'a) eff \<Rightarrow> ('a \<Rightarrow> ('w, 'b) eff) \<Rightarrow> ('w, 'b) eff" where
  "bind m f = (\<lambda>w. case m w of (Inl e, w') \<Rightarrow> (Inl e, w') | (Inr a, w') \<Rightarrow> f a w')"

definition attempt :: "('w, 'a) eff \<Rightarrow> (go_error + 'a \<Rightarrow> ('w, 'b) eff) \<Rightarrow> ('w, 'b) eff" where
  "attempt m f = (\<lambda>w. case m w of (r, w') \<Rightarrow> f r w')"

definition bind_err ::
  "(go_error \<Rightarrow> go_error) \<Rightarrow> ('w, 'a) eff \<Rightarrow> ('a \<Rightarrow> ('w, 'b) eff) \<Rightarrow> ('w, 'b) eff" where
  "bind_err h m f = (\<lambda>w. case m w of (Inl e, w') \<Rightarrow> (Inl (rewrite_err h e), w') | (Inr a, w') \<Rightarrow> f a w')"

definition lift :: "go_error + 'a \<Rightarrow> ('w, 'a) eff" where
  "lift r = (\<lambda>w. (r, w))"

lemma eff_simps [simp]:
  "ret a w = (Inr a, w)" "fail e w = (Inl e, w)" "lift r w = (r, w)"
  by (simp_all add: ret_def fail_def lift_def)

lemma bind_ret [simp]: "bind (ret a) f = f a" "bind m ret = m"
  by (auto simp: bind_def ret_def fun_eq_iff split: sum.split prod.split)

lemma bind_assoc: "bind (bind m f) g = bind m (\<lambda>a. bind (f a) g)"
  by (auto simp: bind_def fun_eq_iff split: sum.split prod.split)

lemma bind_Inr_iff:
  "bind m f w = (Inr b, w') \<longleftrightarrow> (\<exists>a w1. m w = (Inr a, w1) \<and> f a w1 = (Inr b, w'))"
  by (auto simp: bind_def split: sum.split prod.split)

lemma bind_err_Inr_iff:
  "bind_err h m f w = (Inr b, w') \<longleftrightarrow> (\<exists>a w1. m w = (Inr a, w1) \<and> f a w1 = (Inr b, w'))"
  by (auto simp: bind_err_def split: sum.split prod.split)

lemma lift_Inr: "lift r w = (Inr a, w') \<longleftrightarrow> r = Inr a \<and> w' = w"
  by (auto simp: lift_def)

lemma attempt_eq: "attempt m f w = f (fst (m w)) (snd (m w))"
  by (simp add: attempt_def split: prod.split)

text \<open>A call whose error is logged: the rest on success, and what the loop goes on with otherwise. A
  panic goes through.\<close>

definition logged :: "('w, 'a) eff \<Rightarrow> (go_error \<Rightarrow> ('w, 'b) eff) \<Rightarrow> ('a \<Rightarrow> ('w, 'b) eff) \<Rightarrow> ('w, 'b) eff" where
  "logged m h f = attempt m (\<lambda>r. case r of
       Inr a \<Rightarrow> f a
     | Inl e \<Rightarrow> (case e of Panic p \<Rightarrow> fail (Panic p) | _ \<Rightarrow> h e))"

lemma logged_Inr: "m w = (Inr a, w1) \<Longrightarrow> logged m h f w = f a w1"
  by (simp add: logged_def attempt_eq)

lemma bind_Inr: "m w = (Inr a, w1) \<Longrightarrow> bind m f w = f a w1"
  by (simp add: bind_def)

lemma logged_Inr_cases:
  "logged m h f w = (Inr b, w') \<Longrightarrow> (\<And>a w1. m w = (Inr a, w1) \<Longrightarrow> f a w1 = (Inr b, w') \<Longrightarrow> P)
     \<Longrightarrow> (\<And>e w1. m w = (Inl e, w1) \<Longrightarrow> h e w1 = (Inr b, w') \<Longrightarrow> P) \<Longrightarrow> P"
  by (cases "m w"; cases "fst (m w)") (auto simp: logged_def attempt_eq split: go_error.splits)

lemmas eff_defs = bind_def attempt_def bind_err_def

end
