(* ===== verification/Util.thy ===== *)
theory Util
  imports Error_Codes
begin

text \<open>
  \<open>pkg/util/util.go\<close> and \<open>pkg/util/multishare_defs.go\<close>: byte arithmetic on int64, label
  parsing, the parsers of locations and resource names, the operation types and the status
  conversions of the multishare custom resources.
\<close>

section \<open>Sizes\<close>

definition Mb :: int where "Mb = 1024 * 1024"
definition Gb :: int where "Gb = 1024 * Mb"
definition Tb :: int where "Tb = 1024 * Gb"

definition RoundBytesToGb :: "int \<Rightarrow> int" where
  "RoundBytesToGb bytes = i64 (i64 (i64 (bytes + Gb) - 1) sdiv Gb)"

definition BytesToGb :: "int \<Rightarrow> int" where
  "BytesToGb bytes = i64 (bytes sdiv Gb)"

definition GbToBytes :: "int \<Rightarrow> int" where
  "GbToBytes gbs = i64 (gbs * Gb)"

definition MbToBytes :: "int \<Rightarrow> int" where
  "MbToBytes mbs = i64 (mbs * Mb)"

definition Min :: "int \<Rightarrow> int \<Rightarrow> int" where
  "Min a b = (if a < b then a else b)"

definition Max :: "int \<Rightarrow> int \<Rightarrow> int" where
  "Max a b = (if a > b then a else b)"

definition AlignBytes :: "int \<Rightarrow> int \<Rightarrow> int" where
  "AlignBytes currBytes stepBytes =
     (if stepBytes = 0 then currBytes
      else i64 (i64 (i64 (i64 (currBytes + stepBytes) - 1) sdiv stepBytes) * stepBytes))"

text \<open>\<open>IsAligned\<close>: the remainder by zero panics, which is None.\<close>

definition IsAligned :: "int \<Rightarrow> int \<Rightarrow> bool option" where
  "IsAligned curSizeBytes expectedBytes =
     (if expectedBytes = 0 then None else Some (curSizeBytes smod expectedBytes = 0))"

lemma Mb_val: "Mb = 2 ^ 20" and Gb_val: "Gb = 2 ^ 30" and Tb_val: "Tb = 2 ^ 40"
  by (simp_all add: Mb_def Gb_def Tb_def)

lemma Gb_pos [simp]: "0 < Gb" and Mb_pos [simp]: "0 < Mb" and Tb_pos [simp]: "0 < Tb"
  by (simp_all add: Mb_val Gb_val Tb_val)

lemma Min_eq [simp]: "Min a b = min a b" and Max_eq [simp]: "Max a b = max a b"
  by (auto simp: Min_def Max_def)

lemma align_up_bounds:
  assumes "0 < (s::int)"
  shows "s dvd (x + s - 1) div s * s" "x \<le> (x + s - 1) div s * s" "(x + s - 1) div s * s < x + s"
proof -
  have "(x + s - 1) div s * s = x + s - 1 - (x + s - 1) mod s"
    by (simp add: minus_mod_eq_div_mult)
  moreover have "0 \<le> (x + s - 1) mod s" "(x + s - 1) mod s < s"
    using assms by (simp_all add: pos_mod_sign pos_mod_bound del: mod_pos_pos_trivial)
  ultimately show "x \<le> (x + s - 1) div s * s" "(x + s - 1) div s * s < x + s" by linarith+
qed simp

lemma AlignBytes_exact:
  assumes "0 \<le> x" "0 < s" "x + s < 2 ^ 63"
  shows "AlignBytes x s = (x + s - 1) div s * s"
proof -
  have a: "i64 (i64 (x + s) - 1) = x + s - 1"
    using assms by (simp add: int64 in_i64_def)
  have q: "0 \<le> (x + s - 1) div s" "(x + s - 1) div s * s \<le> x + s - 1"
    using assms align_up_bounds(3)[of s x] by (simp_all add: pos_imp_zdiv_nonneg_iff)
  have "(x + s - 1) div s \<le> (x + s - 1) div s * s"
    using q(1) assms(2) by (simp add: mult_le_cancel_left1)
  then show ?thesis
    using assms q a by (simp add: AlignBytes_def int64 in_i64_def)
qed

lemma dvd_least:
  assumes "0 < (s::int)" "s dvd m" "s dvd r" "r < x + s" "x \<le> m"
  shows "r \<le> m"
proof (rule ccontr)
  assume "\<not> r \<le> m"
  then have "s \<le> r - m" using assms by (intro zdvd_imp_le) simp_all
  then show False using assms by linarith
qed

text \<open>\<open>AlignBytes\<close> returns the least multiple of the step that is at least the given size,
  for every non-negative size and positive step whose sum fits in an int64; it moves the size by
  less than one step, and the result passes \<open>IsAligned\<close>.\<close>

theorem AlignBytes_least:
  assumes "0 \<le> x" "0 < s" "x + s < 2 ^ 63"
  shows "x \<le> AlignBytes x s \<and> AlignBytes x s < x + s \<and> IsAligned (AlignBytes x s) s = Some True
    \<and> (\<forall>m. x \<le> m \<longrightarrow> s dvd m \<longrightarrow> AlignBytes x s \<le> m)"
proof -
  let ?r = "(x + s - 1) div s * s"
  have r: "AlignBytes x s = ?r" "s dvd ?r" "x \<le> ?r" "?r < x + s"
    using AlignBytes_exact[OF assms] align_up_bounds[OF assms(2), of x] by auto
  moreover have "?r smod s = 0"
    using r assms by (simp add: int64)
  ultimately show ?thesis
    using assms dvd_least[OF assms(2)] by (auto simp: IsAligned_def)
qed

theorem AlignBytes_least_witness:
  "Tb + 1 \<le> AlignBytes (Tb + 1) (256 * Gb) \<and> AlignBytes (Tb + 1) (256 * Gb) < Tb + 1 + 256 * Gb"
  using AlignBytes_least[of "Tb + 1" "256 * Gb"] by (simp add: Tb_val Gb_val)

lemma RoundBytesToGb_exact:
  assumes "0 \<le> x" "x + Gb < 2 ^ 63"
  shows "RoundBytesToGb x = (x + Gb - 1) div Gb"
proof -
  have "i64 (i64 (x + Gb) - 1) = x + Gb - 1"
    using assms by (simp add: int64 in_i64_def Gb_val)
  moreover have "0 \<le> (x + Gb - 1) div Gb" "(x + Gb - 1) div Gb \<le> x + Gb - 1"
    using assms by (auto simp: Gb_val zdiv_mono2 intro: order_trans[OF zdiv_mono2[of _ 1]])
  ultimately show ?thesis
    using assms by (simp add: RoundBytesToGb_def int64 in_i64_def Gb_val)
qed

lemma GbToBytes_exact: "0 \<le> g \<Longrightarrow> g < 2 ^ 33 \<Longrightarrow> GbToBytes g = g * Gb"
  by (simp add: GbToBytes_def Gb_val int64 in_i64_def)

lemma BytesToGb_exact: "0 \<le> b \<Longrightarrow> b < 2 ^ 63 \<Longrightarrow> BytesToGb b = b div Gb"
  by (simp add: BytesToGb_def Gb_val int64 in_i64_def div_le_dividend order.strict_trans1[of _ b])

lemma BytesToGb_GbToBytes [simp]: "0 \<le> g \<Longrightarrow> g < 2 ^ 33 \<Longrightarrow> BytesToGb (GbToBytes g) = g"
  by (simp add: GbToBytes_exact BytesToGb_exact Gb_val)

lemma RoundBytesToGb_GbToBytes [simp]:
  "0 \<le> g \<Longrightarrow> g < 2 ^ 33 - 1 \<Longrightarrow> RoundBytesToGb (GbToBytes g) = g"
  by (simp add: GbToBytes_exact RoundBytesToGb_exact Gb_val)

text \<open>Converting a request in bytes to the GiB the Filestore API takes loses nothing: the GiB
  read back as bytes hold the request and exceed it by less than one GiB, and whole GiB counts
  convert to bytes and back unchanged.\<close>

theorem gb_roundtrip:
  assumes "0 \<le> bytes" "bytes + Gb < 2 ^ 63" "0 \<le> g" "g < 2 ^ 33 - 1"
  shows "bytes \<le> GbToBytes (RoundBytesToGb bytes)
    \<and> GbToBytes (RoundBytesToGb bytes) < bytes + Gb
    \<and> RoundBytesToGb (GbToBytes g) = g \<and> BytesToGb (GbToBytes g) = g"
proof -
  let ?q = "(bytes + Gb - 1) div Gb"
  have q: "bytes \<le> ?q * Gb" "?q * Gb < bytes + Gb"
    using align_up_bounds[of Gb bytes] by simp_all
  moreover have "0 \<le> ?q" "?q < 2 ^ 33"
    using assms(1,2) by (auto simp: Gb_val)
  ultimately show ?thesis
    using assms RoundBytesToGb_GbToBytes[of g] BytesToGb_GbToBytes[of g]
    by (simp add: RoundBytesToGb_exact GbToBytes_exact[of ?q])
qed

theorem gb_roundtrip_witness:
  "GbToBytes (RoundBytesToGb 1099511627777) < 1099511627777 + Gb"
  using gb_roundtrip[of 1099511627777 100] by (simp add: Gb_val)

section \<open>Labels\<close>

text \<open>The regular expressions of the label rules, on ASCII text\<close>

definition label_char :: "char \<Rightarrow> bool" where
  "label_char c = (is_lower c \<or> is_digit c \<or> c = CHR ''_'' \<or> c = CHR ''-'')"

definition regexKey :: "string \<Rightarrow> bool" where
  "regexKey key = (case key of [] \<Rightarrow> False
     | c # cs \<Rightarrow> is_lower c \<and> list_all label_char cs \<and> length cs \<le> 62)"

definition regexValue :: "string \<Rightarrow> bool" where
  "regexValue value = (list_all label_char value \<and> length value \<le> 63)"

definition checkLabelKeyFn :: "string \<Rightarrow> go_error option" where
  "checkLabelKeyFn key = (if regexKey key then None else Some (ErrText (''label value '' @ quote key @
     '' is invalid (should start with lowercase letter / lowercase letter, digit, _ and - chars are allowed / 1-63 characters'')))"

definition checkLabelValueFn :: "string \<Rightarrow> go_error option" where
  "checkLabelValueFn value = (if regexValue value then None else Some (ErrText (''label value '' @ quote value @
     '' is invalid (lowercase letter, digit, _ and - chars are allowed / 0-63 characters'')))"

definition CheckLabelValueRegex :: "string \<Rightarrow> go_error option" where
  "CheckLabelValueRegex value = (if regexValue value then None else Some (ErrText (''value '' @ quote value @
     '' is invalid (lowercase letter, digit, _ and - chars are allowed / 0-63 characters'')))"

text \<open>The loop over the comma-separated pieces of \<open>ConvertLabelsStringToMap\<close>\<close>

fun convert_pieces :: "string \<Rightarrow> string list \<Rightarrow> labels \<Rightarrow> go_error + labels" where
  "convert_pieces labels [] m = Inr m"
| "convert_pieces labels (kv # kvs) m =
     (let keyValue = split (CHR ''='') kv in
      if length keyValue \<noteq> 2
      then Inl (ErrText (''labels '' @ quote labels @ '' are invalid, correct format: 'key1=value1,key2=value2'' @ [CHR 0x27]))
      else let key = trimSpace (keyValue ! 0); value = trimSpace (keyValue ! 1) in
        (case checkLabelKeyFn key of Some e \<Rightarrow> Inl e | None \<Rightarrow>
        (case checkLabelValueFn value of Some e \<Rightarrow> Inl e | None \<Rightarrow>
          convert_pieces labels kvs (minsert key value m))))"

definition ConvertLabelsStringToMap :: "string \<Rightarrow> go_error + labels" where
  "ConvertLabelsStringToMap labels =
     (if labels = [] then Inr []
      else rbind (convert_pieces labels (split (CHR '','') labels) []) (\<lambda>m.
        if length m > 64
        then Inl (ErrText (''more than 64 labels is not allowed, given: '' @ show_nat (length m)))
        else Inr m))"

text \<open>What a label map must satisfy\<close>

definition valid_labels :: "labels \<Rightarrow> bool" where
  "valid_labels m = (go_map m \<and> list_all (\<lambda>(k, v). regexKey k \<and> regexValue v) m)"

definition show_labels :: "labels \<Rightarrow> string" where
  "show_labels m = join '','' (map (\<lambda>(k, v). k @ CHR ''='' # v) m)"

lemma checkLabel_None [simp]:
  "checkLabelKeyFn k = None \<longleftrightarrow> regexKey k" "checkLabelValueFn v = None \<longleftrightarrow> regexValue v"
  by (simp_all add: checkLabelKeyFn_def checkLabelValueFn_def)

lemma CheckLabelValueRegex_None [simp]: "CheckLabelValueRegex v = None \<longleftrightarrow> regexValue v"
  by (simp add: CheckLabelValueRegex_def)

lemma valid_labels_Nil [simp]: "valid_labels []"
  by (simp add: valid_labels_def)

lemma update_entries:
  "list_all P m \<Longrightarrow> P (k, v) \<Longrightarrow> list_all P (AList.update k v m)"
  by (induction m) auto

lemma valid_labels_minsert [simp]:
  "valid_labels m \<Longrightarrow> regexKey k \<Longrightarrow> regexValue v \<Longrightarrow> valid_labels (minsert k v m)"
  by (auto simp: valid_labels_def minsert_def[of k v m, folded] update_entries go_map_minsert[unfolded minsert_def] minsert_def)

lemma convert_pieces_valid:
  "convert_pieces l kvs m = Inr m' \<Longrightarrow> valid_labels m \<Longrightarrow> valid_labels m'"
  by (induction l kvs m rule: convert_pieces.induct)
     (auto simp: Let_def split: if_splits option.splits)

lemma label_char_facts:
  "label_char c \<Longrightarrow> c \<noteq> CHR ''='' \<and> c \<noteq> CHR '','' \<and> \<not> is_space c"
  by (auto simp: label_char_def is_lower_def is_digit_def is_space_def Let_def)

lemma is_lower_label_char: "is_lower c \<Longrightarrow> label_char c"
  by (simp add: label_char_def)

lemma regexKey_chars: "regexKey k \<Longrightarrow> \<forall>c \<in> set k. label_char c"
  by (auto simp: regexKey_def list_all_iff is_lower_label_char split: list.splits)

lemma regexValue_chars: "regexValue v \<Longrightarrow> \<forall>c \<in> set v. label_char c"
  by (auto simp: regexValue_def list_all_iff)

lemma dropWhile_none: "\<forall>c \<in> set s. \<not> P c \<Longrightarrow> dropWhile P s = s"
  by (cases s) auto

lemma trimSpace_id: "\<forall>c \<in> set s. \<not> is_space c \<Longrightarrow> trimSpace s = s"
  using dropWhile_none[of s is_space] dropWhile_none[of "rev s" is_space] by (simp add: trimSpace_def)

lemma label_piece:
  assumes "regexKey k" "regexValue v"
  shows "split (CHR ''='') (k @ CHR ''='' # v) = [k, v]" "trimSpace k = k" "trimSpace v = v"
    "CHR '','' \<notin> set (k @ CHR ''='' # v)"
proof -
  have no: "CHR ''='' \<notin> set k" "CHR ''='' \<notin> set v" "\<forall>c \<in> set k. \<not> is_space c"
      "\<forall>c \<in> set v. \<not> is_space c" "CHR '','' \<notin> set k" "CHR '','' \<notin> set v"
    using regexKey_chars[OF assms(1)] regexValue_chars[OF assms(2)] label_char_facts by blast+
  then show "split (CHR ''='') (k @ CHR ''='' # v) = [k, v]" "trimSpace k = k" "trimSpace v = v"
    "CHR '','' \<notin> set (k @ CHR ''='' # v)"
    by (simp_all add: go_str trimSpace_id)
qed

lemma convert_pieces_show:
  "valid_labels m \<Longrightarrow> \<forall>k \<in> set (keys m). k \<notin> set (keys acc) \<Longrightarrow>
     convert_pieces l (map (\<lambda>(k, v). k @ CHR ''='' # v) m) acc = Inr (acc @ m)"
proof (induction m arbitrary: acc)
  case (Cons p m)
  obtain k v where p: "p = (k, v)" by force
  have kv: "regexKey k" "regexValue v" "k \<notin> set (keys m)" "k \<notin> set (keys acc)"
    using Cons.prems p by (auto simp: valid_labels_def go_map_def keys_def)
  then have "minsert k v acc = acc @ [(k, v)]"
    unfolding minsert_def keys_def by (induction acc) auto
  moreover have "convert_pieces l (map (\<lambda>(k, v). k @ CHR ''='' # v) m) (acc @ [(k, v)]) = Inr (acc @ [(k, v)] @ m)"
    using Cons.IH[of "acc @ [(k, v)]"] Cons.prems p kv by (auto simp: valid_labels_def go_map_def keys_def)
  ultimately show ?case
    using kv label_piece[OF kv(1,2)] by (simp add: p checkLabelKeyFn_def checkLabelValueFn_def)
qed simp

lemma show_labels_not_Nil: "m \<noteq> [] \<Longrightarrow> valid_labels m \<Longrightarrow> show_labels m \<noteq> []"
  by (cases m; cases "tl m") (auto simp: show_labels_def valid_labels_def)

text \<open>Parsing the \<open>labels\<close> parameter. Every accepted string gives a map with distinct keys, every
  key and value within Filestore's rules and at most 64 entries; and every label map that obeys
  the rules, written as key=value pairs with commas, is parsed back exactly.\<close>

theorem ConvertLabelsStringToMap_correct:
  "(\<forall>s m. ConvertLabelsStringToMap s = Inr m \<longrightarrow> valid_labels m \<and> length m \<le> 64)
   \<and> (valid_labels m0 \<and> length m0 \<le> 64 \<longrightarrow> ConvertLabelsStringToMap (show_labels m0) = Inr m0)"
proof (intro conjI allI impI)
  fix s m
  assume "ConvertLabelsStringToMap s = Inr m"
  then show "valid_labels m" "length m \<le> 64"
    by (auto simp: ConvertLabelsStringToMap_def rbind_Inr_iff dest!: convert_pieces_valid split: if_splits)
next
  assume m: "valid_labels m0 \<and> length m0 \<le> 64"
  show "ConvertLabelsStringToMap (show_labels m0) = Inr m0"
  proof (cases "m0 = []")
    case True then show ?thesis by (simp add: ConvertLabelsStringToMap_def show_labels_def)
  next
    case False
    have "split (CHR '','') (show_labels m0) = map (\<lambda>(k, v). k @ CHR ''='' # v) m0"
      using m False label_piece(4) unfolding show_labels_def
      by (intro split_join) (fastforce simp: valid_labels_def list_all_iff)+
    then show ?thesis
      using m False show_labels_not_Nil convert_pieces_show[of m0 "[]"]
      by (simp add: ConvertLabelsStringToMap_def keys_def)
  qed
qed

theorem ConvertLabelsStringToMap_correct_witness:
  "ConvertLabelsStringToMap (show_labels [(''team'', ''storage-1''), (''env'', [])])
     = Inr [(''team'', ''storage-1''), (''env'', [])]"
proof -
  have "valid_labels [(''team'', ''storage-1''), (''env'', [])]" by code_simp
  then show ?thesis
    using ConvertLabelsStringToMap_correct[of "[(''team'', ''storage-1''), (''env'', [])]"] by simp
qed

section \<open>Locations, handles and resource names\<close>

definition GetRegionFromZone :: "string \<Rightarrow> go_error + string" where
  "GetRegionFromZone location =
     (let tokens = split (CHR ''-'') location in
      if length tokens \<noteq> 3 \<and> length tokens \<noteq> 4
      then Inl (ErrText (''failed to parse location '' @ location))
      else Inr (join ''-'' (take (length tokens - 1) tokens)))"

text \<open>\<open>ParseTimestamp\<close>: \<open>time.Parse\<close> on RFC 3339 text and \<open>timestamppb\<close>'s \<open>CheckValid\<close> are
  parameters; each returns its error text.\<close>

definition ParseTimestamp ::
  "(string \<Rightarrow> string + 'ts) \<Rightarrow> ('ts \<Rightarrow> string option) \<Rightarrow> string \<Rightarrow> go_error + 'ts" where
  "ParseTimestamp time_parse check_valid timestamp =
     (case time_parse timestamp of
        Inl err \<Rightarrow> Inl (StatusErr Internal (''failed to parse timestamp '' @ timestamp @ '': '' @ err))
      | Inr tp \<Rightarrow>
          (case check_valid tp of
             Some err \<Rightarrow> Inl (StatusErr Internal (''failed to convert timestamp '' @ timestamp @ '': '' @ err))
           | None \<Rightarrow> Inr tp))"

definition IsBackupHandle :: "string \<Rightarrow> go_error + bool" where
  "IsBackupHandle handle =
     (let splitId = split (CHR ''/'') handle in
      if length splitId \<noteq> 6
      then Inl (ErrText (''failed to get id components. Expected 'projects/{project}/location/{zone|region}/[snapshots|backups]/{name}'. Got: '' @ handle))
      else Inr (splitId ! 4 = ''backups''))"

text \<open>A nil parameter map is None.\<close>

definition IsSnapshotTypeSupported :: "labels option \<Rightarrow> go_error + bool" where
  "IsSnapshotTypeSupported params =
     (case params of None \<Rightarrow> Inl (ErrText ''empty parameters in VolumeSnapshot'')
      | Some m \<Rightarrow>
          (case mlookup m ''type'' of
             None \<Rightarrow> Inl (ErrText ''volume snapshot type is missing'')
           | Some snapType \<Rightarrow>
               if snapType \<noteq> ''backup''
               then Inl (ErrText (''volume snapshot type '' @ quote snapType @ '' not supported''))
               else Inr True))"

definition GetBackupLocation :: "labels option \<Rightarrow> string" where
  "GetBackupLocation params = (case params of None \<Rightarrow> [] | Some m \<Rightarrow> mget m ''location'')"

definition BackupVolumeSourceToCSIVolumeHandle :: "string \<Rightarrow> string \<Rightarrow> string \<Rightarrow> go_error + string" where
  "BackupVolumeSourceToCSIVolumeHandle mode sourceInstance sourceShare =
     (let splitId = split (CHR ''/'') sourceInstance in
      if mode = ''modeInstance'' \<and> length splitId \<noteq> 6
      then Inl (ErrText (''failed to get id components. Expected 'projects/{project}/location/{zone}/instances/{name}'. Got: '' @ sourceInstance))
      else if mode \<noteq> ''modeInstance'' \<and> length splitId \<noteq> 8
      then Inl (ErrText (''failed to get id components. Expected 'projects/{project}/location/{zone}/instances/{name}/shares/{share}'. Got: '' @ sourceInstance))
      else Inr (mode @ ''/'' @ splitId ! 3 @ ''/'' @ splitId ! 5 @ ''/'' @ sourceShare))"

definition ConvertVolToShareName :: "string \<Rightarrow> string" where
  "ConvertVolToShareName csiVolName = replace_char (CHR ''-'') (CHR ''_'') (toLower csiVolName)"

definition ParseInstanceURI :: "string \<Rightarrow> go_error + string \<times> string \<times> string" where
  "ParseInstanceURI uri =
     (let splitStr = split (CHR ''/'') uri;
          err = Inl (ErrText (''unknown instance URI format '' @ quote uri)) in
      if length splitStr \<noteq> 6 then err
      else let project = splitStr ! 1; location = splitStr ! 3; instanceName = splitStr ! 5 in
        if project = [] \<or> location = [] \<or> instanceName = [] then err
        else Inr (project, location, instanceName))"

definition ParseShareURI :: "string \<Rightarrow> go_error + string \<times> string \<times> string \<times> string" where
  "ParseShareURI uri =
     (let splitStr = split (CHR ''/'') uri;
          err = Inl (ErrText (''unknown share URI format '' @ quote uri)) in
      if length splitStr \<noteq> 8 then err
      else let project = splitStr ! 1; location = splitStr ! 3; instanceName = splitStr ! 5;
               shareName = splitStr ! 7 in
        if project = [] \<or> location = [] \<or> instanceName = [] \<or> shareName = [] then err
        else Inr (project, location, instanceName, shareName))"

definition InstanceURIToInstanceInfoName :: "string \<Rightarrow> string" where
  "InstanceURIToInstanceInfoName uri = replace_char (CHR ''/'') (CHR ''.'') uri"

definition InstanceInfoNameToInstanceURI :: "string \<Rightarrow> string" where
  "InstanceInfoNameToInstanceURI iiName = replace_char (CHR ''.'') (CHR ''/'') iiName"

definition ShareToShareInfoName :: "string \<Rightarrow> string" where
  "ShareToShareInfoName shareName = replace_char (CHR ''_'') (CHR ''-'') shareName"

definition ShareInfoToShareName :: "string \<Rightarrow> string" where
  "ShareInfoToShareName siName = replace_char (CHR ''-'') (CHR ''_'') (toLower siName)"

section \<open>Operation types and custom resource states\<close>

datatype OperationType = InstanceCreate | InstanceDelete | InstanceUpdate | ShareCreate
  | ShareDelete | ShareUpdate | UnknownOp

datatype OperationStatus = StatusSuccess | StatusRunning | StatusFailed | StatusUnknown

fun OperationType_String :: "OperationType \<Rightarrow> string" where
  "OperationType_String InstanceCreate = ''instance'' @ ''create''"
| "OperationType_String InstanceDelete = ''instance'' @ ''delete''"
| "OperationType_String InstanceUpdate = ''instance'' @ ''update''"
| "OperationType_String ShareCreate = ''share'' @ ''create''"
| "OperationType_String ShareDelete = ''share'' @ ''delete''"
| "OperationType_String ShareUpdate = ''share'' @ ''update''"
| "OperationType_String UnknownOp = ''unknown''"

definition ConvertInstanceOpVerbToType :: "string \<Rightarrow> OperationType" where
  "ConvertInstanceOpVerbToType v =
     (if v = ''create'' then InstanceCreate else if v = ''delete'' then InstanceDelete
      else if v = ''update'' then InstanceUpdate else UnknownOp)"

definition ConvertShareOpVerbToType :: "string \<Rightarrow> OperationType" where
  "ConvertShareOpVerbToType v =
     (if v = ''create'' then ShareCreate else if v = ''delete'' then ShareDelete
      else if v = ''update'' then ShareUpdate else UnknownOp)"

text \<open>Timeout and polling interval of an operation, in seconds\<close>

fun GetMultishareOpsTimeoutConfig :: "OperationType \<Rightarrow> go_error + nat \<times> nat" where
  "GetMultishareOpsTimeoutConfig InstanceCreate = Inr (3600, 60)"
| "GetMultishareOpsTimeoutConfig ShareDelete = Inr (3600, 60)"
| "GetMultishareOpsTimeoutConfig InstanceDelete = Inr (600, 60)"
| "GetMultishareOpsTimeoutConfig InstanceUpdate = Inr (600, 5)"
| "GetMultishareOpsTimeoutConfig ShareCreate = Inr (600, 5)"
| "GetMultishareOpsTimeoutConfig ShareUpdate = Inr (600, 5)"
| "GetMultishareOpsTimeoutConfig UnknownOp =
     Inl (ErrText (''unknown op type '' @ OperationType_String UnknownOp))"

text \<open>\<open>FilestoreStatus\<close> of \<open>pkg/apis/multishare/v1/types.go\<close>\<close>

datatype FilestoreStatus = FS_Unset | CREATING | READY | UPDATING | DELETED

definition ShareStateToCRDStatus :: "string \<Rightarrow> go_error + FilestoreStatus" where
  "ShareStateToCRDStatus state =
     (if state = ''CREATING'' then Inr CREATING
      else if state = ''READY'' then Inr READY
      else if state = ''DELETING'' \<or> state = ''STATE_UNSPECIFIED'' then Inr UPDATING
      else Inl (ErrText (''unknown share state: '' @ quote state)))"

definition InstanceStateToCRDStatus :: "string \<Rightarrow> go_error + FilestoreStatus" where
  "InstanceStateToCRDStatus state =
     (if state = ''CREATING'' then Inr CREATING
      else if state = ''READY'' then Inr READY
      else if state \<in> set [''DELETING'', ''STATE_UNSPECIFIED'', ''REPAIRING'', ''ERROR'',
             ''RESTORING'', ''SUSPENDED'', ''REVERTING'', ''RESUMING''] then Inr UPDATING
      else Inl (ErrText (''unknown share state: '' @ quote state)))"

section \<open>Constants of multishare_defs.go\<close>

definition MinMultishareInstanceSizeBytes :: int where "MinMultishareInstanceSizeBytes = 1 * Tb"
definition MaxMultishareInstanceSizeBytes :: int where "MaxMultishareInstanceSizeBytes = 10 * Tb"
definition MaxShareSizeBytes :: int where "MaxShareSizeBytes = 1 * Tb"
definition MinShareSizeBytes :: int where "MinShareSizeBytes = 100 * Gb"
definition DefaultStepSizeGb :: int where "DefaultStepSizeGb = MinMultishareInstanceSizeBytes sdiv Gb"
definition MaxSharesPerInstance :: nat where "MaxSharesPerInstance = 10"
definition ConfigurablePackMinShareSizeBytes :: int where "ConfigurablePackMinShareSizeBytes = 10 * Gb"

lemmas multishare_consts = MinMultishareInstanceSizeBytes_def MaxMultishareInstanceSizeBytes_def
  MaxShareSizeBytes_def MinShareSizeBytes_def DefaultStepSizeGb_def MaxSharesPerInstance_def
  ConfigurablePackMinShareSizeBytes_def

section \<open>Properties of locations and names\<close>

lemma region_of_zone_iff:
  "GetRegionFromZone z = Inr r \<longleftrightarrow>
     length (split (CHR ''-'') z) \<in> {3, 4} \<and> (\<exists>suffix. CHR ''-'' \<notin> set suffix \<and> z = r @ ''-'' @ suffix)"
proof -
  let ?ts = "split (CHR ''-'') z"
  have drop_last: "z = join ''-'' (butlast ?ts) @ ''-'' @ last ?ts" "CHR ''-'' \<notin> set (last ?ts)"
    if "length ?ts \<in> {3, 4}"
  proof -
    have "butlast ?ts \<noteq> []" using that by (cases ?ts) auto
    then have "join ''-'' (butlast ?ts @ [last ?ts]) = join ''-'' (butlast ?ts) @ ''-'' @ last ?ts"
      by (rule join_snoc)
    then show "z = join ''-'' (butlast ?ts) @ ''-'' @ last ?ts" by (simp add: join_split)
    show "CHR ''-'' \<notin> set (last ?ts)" by (rule set_split[of _ _ z]) simp
  qed
  have region: "join ''-'' (butlast ?ts) = s" if "CHR ''-'' \<notin> set t" "z = s @ ''-'' @ t" for s t
    using that by (simp add: split_append_sep split_no_sep join_split)
  have "GetRegionFromZone z = Inr r \<longleftrightarrow> length ?ts \<in> {3, 4} \<and> r = join ''-'' (butlast ?ts)"
    by (auto simp: GetRegionFromZone_def Let_def butlast_conv_take)
  moreover have "r = join ''-'' (butlast ?ts) \<longleftrightarrow> (\<exists>suffix. CHR ''-'' \<notin> set suffix \<and> z = r @ ''-'' @ suffix)"
    if "length ?ts \<in> {3, 4}"
    using drop_last[OF that] region by (metis (no_types))
  ultimately show ?thesis by metis
qed

text \<open>\<open>GetRegionFromZone\<close> recovers the region of every zone built from a region (of two or three
  dash-free words) and a dash-free suffix, and it accepts only locations of three or four words,
  whose last word it drops.\<close>

theorem GetRegionFromZone_correct:
  "GetRegionFromZone z = Inr r \<longleftrightarrow>
     length (split (CHR ''-'') z) \<in> {3, 4} \<and> (\<exists>suffix. CHR ''-'' \<notin> set suffix \<and> z = r @ ''-'' @ suffix)"
  by (rule region_of_zone_iff)

text \<open>Resource names and custom resource names. The URI of an instance and of a share parse back
  to their parts whenever the parts are non-empty and contain no slash, and an instance URI
  survives the trip through its \<open>InstanceInfo\<close> name exactly when it has no dot (so that a
  project id such as \<open>example.com:p\<close> does not).\<close>

theorem resource_names_roundtrip:
  assumes "\<forall>x \<in> {p, l, i, s}. x \<noteq> [] \<and> CHR ''/'' \<notin> set x"
  shows "ParseInstanceURI (''projects/'' @ p @ ''/locations/'' @ l @ ''/instances/'' @ i) = Inr (p, l, i)
    \<and> ParseShareURI (''projects/'' @ p @ ''/locations/'' @ l @ ''/instances/'' @ i @ ''/shares/'' @ s)
        = Inr (p, l, i, s)
    \<and> (InstanceInfoNameToInstanceURI (InstanceURIToInstanceInfoName uri) = uri \<longleftrightarrow> CHR ''.'' \<notin> set uri)"
proof (intro conjI)
  show "ParseInstanceURI (''projects/'' @ p @ ''/locations/'' @ l @ ''/instances/'' @ i) = Inr (p, l, i)"
    using assms by (simp add: ParseInstanceURI_def Let_def go_str)
  show "ParseShareURI (''projects/'' @ p @ ''/locations/'' @ l @ ''/instances/'' @ i @ ''/shares/'' @ s)
      = Inr (p, l, i, s)"
    using assms by (simp add: ParseShareURI_def Let_def go_str)
  show "InstanceInfoNameToInstanceURI (InstanceURIToInstanceInfoName uri) = uri \<longleftrightarrow> CHR ''.'' \<notin> set uri"
  proof
    assume "InstanceInfoNameToInstanceURI (InstanceURIToInstanceInfoName uri) = uri"
    then have "CHR ''.'' \<notin> set (InstanceInfoNameToInstanceURI (InstanceURIToInstanceInfoName uri)) \<longleftrightarrow> CHR ''.'' \<notin> set uri"
      by simp
    then show "CHR ''.'' \<notin> set uri" by (simp add: InstanceInfoNameToInstanceURI_def)
  qed (simp add: InstanceInfoNameToInstanceURI_def InstanceURIToInstanceInfoName_def replace_char_inv)
qed

theorem resource_names_roundtrip_witness:
  "ParseShareURI (''projects/'' @ ''p'' @ ''/locations/'' @ ''us-c1'' @ ''/instances/'' @ ''fs-1''
     @ ''/shares/'' @ ''pvc_1'') = Inr (''p'', ''us-c1'', ''fs-1'', ''pvc_1'')"
  using resource_names_roundtrip[of "''p''" "''us-c1''" "''fs-1''" "''pvc_1''"] by simp

end
