(* ===== verification/File_Types.thy ===== *)
theory File_Types
  imports Util
begin

text \<open>
  The data of package \<open>pkg/cloud_provider/file\<close> (\<open>file.go\<close>): instances, shares, backups and
  operations as the driver sees them and as the Filestore API returns them, the resource URIs
  with their parsers, the comparisons that make create calls idempotent, the conversions from
  API objects, and the functions that place a backup. A nil pointer is None.
\<close>

section \<open>Driver objects\<close>

record PerformanceConfig =
  FixedIOPS :: int
  IOPSPerTB :: int

record NfsExportOptions =
  AccessMode :: string
  AnonGid :: int
  AnonUid :: int
  IpRanges :: "string list"
  SquashMode :: string

record Network =
  net_Name :: string
  ConnectMode :: string
  ReservedIpRange :: string
  Ip :: string

record Volume =
  vol_Name :: string
  SizeBytes :: int

record MultishareInstance =
  mi_Project :: string
  mi_Name :: string
  mi_Location :: string
  mi_Tier :: string
  mi_Network :: Network
  mi_CapacityBytes :: int
  mi_MaxCapacityBytes :: int
  mi_CapacityStepSizeGb :: int
  mi_Labels :: labels
  mi_State :: string
  mi_KmsKeyName :: string
  mi_Description :: string
  mi_MaxShareCount :: int
  mi_Protocol :: string

record Share =
  sh_Name :: string
  sh_Parent :: "MultishareInstance option"
  sh_State :: string
  sh_MountPointName :: string
  sh_Labels :: labels
  sh_CapacityBytes :: int
  sh_BackupId :: string
  sh_NfsExportOptions :: "NfsExportOptions list"

record ListFilter =
  lf_Project :: string
  lf_Location :: string
  lf_InstanceName :: string

record ServiceInstance =
  si_Project :: string
  si_Name :: string
  si_Location :: string
  si_Tier :: string
  si_Network :: Network
  si_Volume :: Volume
  si_Labels :: labels
  si_State :: string
  si_KmsKeyName :: string
  si_BackupSource :: string
  si_NfsExportOptions :: "NfsExportOptions list"
  si_Protocol :: string
  si_PerformanceConfig :: "PerformanceConfig option"

record BackupInfo =
  bi_Name :: string
  bi_SourceVolumeId :: string
  bi_BackupURI :: string
  bi_SourceInstance :: string
  bi_SourceInstanceName :: string
  bi_SourceShare :: string
  bi_Project :: string
  bi_Location :: string
  bi_Tier :: string
  bi_Labels :: labels

text \<open>The zero values of the Go structs\<close>

definition empty_network :: Network where
  "empty_network = \<lparr>net_Name = [], ConnectMode = [], ReservedIpRange = [], Ip = []\<rparr>"

definition empty_instance :: MultishareInstance where
  "empty_instance = \<lparr>mi_Project = [], mi_Name = [], mi_Location = [], mi_Tier = [],
     mi_Network = empty_network, mi_CapacityBytes = 0, mi_MaxCapacityBytes = 0,
     mi_CapacityStepSizeGb = 0, mi_Labels = [], mi_State = [], mi_KmsKeyName = [],
     mi_Description = [], mi_MaxShareCount = 0, mi_Protocol = []\<rparr>"

definition empty_share :: Share where
  "empty_share = \<lparr>sh_Name = [], sh_Parent = None, sh_State = [], sh_MountPointName = [],
     sh_Labels = [], sh_CapacityBytes = 0, sh_BackupId = [], sh_NfsExportOptions = []\<rparr>"

definition empty_service_instance :: ServiceInstance where
  "empty_service_instance = \<lparr>si_Project = [], si_Name = [], si_Location = [], si_Tier = [],
     si_Network = empty_network, si_Volume = \<lparr>vol_Name = [], SizeBytes = 0\<rparr>, si_Labels = [],
     si_State = [], si_KmsKeyName = [], si_BackupSource = [], si_NfsExportOptions = [],
     si_Protocol = [], si_PerformanceConfig = None\<rparr>"

text \<open>\<open>MultishareInstance.String\<close>\<close>

definition MultishareInstance_String :: "MultishareInstance \<Rightarrow> string" where
  "MultishareInstance_String i = mi_Project i @ ''/'' @ mi_Location i @ ''/'' @ mi_Name i"

section \<open>Filestore API objects\<close>

text \<open>The fields of the API's types the source reads or sets\<close>

record NetworkConfig =
  nc_Network :: string
  nc_Modes :: "string list"
  nc_ReservedIpRange :: string
  nc_ConnectMode :: string
  nc_IpAddresses :: "string list"

record FileShareConfig =
  fs_Name :: string
  fs_CapacityGb :: int
  fs_SourceBackup :: string
  fs_NfsExportOptions :: "NfsExportOptions list"

record CloudPerformance =
  cp_FixedIops :: "int option"
  cp_IopsPerTb :: "int option"

record CloudInstance =
  ci_Name :: string
  ci_Tier :: string
  ci_FileShares :: "FileShareConfig list"
  ci_Networks :: "NetworkConfig list"
  ci_KmsKeyName :: string
  ci_Labels :: labels
  ci_State :: string
  ci_Protocol :: string
  ci_PerformanceConfig :: "CloudPerformance option"
  ci_MultiShareEnabled :: bool
  ci_CapacityGb :: int
  ci_MaxCapacityGb :: int
  ci_CapacityStepSizeGb :: int
  ci_Description :: string
  ci_MaxShareCount :: int

record CloudShare =
  cs_Name :: string
  cs_CapacityGb :: int
  cs_Labels :: labels
  cs_MountName :: string
  cs_State :: string
  cs_Backup :: string
  cs_NfsExportOptions :: "NfsExportOptions list"

record CloudBackup =
  cb_Name :: string
  cb_State :: string
  cb_CreateTime :: string
  cb_CapacityGb :: int
  cb_SourceInstance :: string
  cb_SourceFileShare :: string
  cb_SourceInstanceTier :: string
  cb_FileSystemProtocol :: string
  cb_Labels :: labels

text \<open>An operation; \<open>op_Meta\<close> is the unmarshalled \<open>OperationMetadata\<close> (target and verb), None when
  the metadata is absent and \<open>Some (Inl e)\<close> when it does not unmarshal; \<open>op_CreateTime\<close> is the creation
  time in that metadata.\<close>

record Operation =
  op_Name :: string
  op_Done :: bool
  op_Error :: "(int \<times> string) option"
  op_Meta :: "(go_error + string \<times> string) option"
  op_CreateTime :: string

record Backup =
  b_Backup :: CloudBackup
  b_SourceInstance :: string
  b_SourceShare :: string
  b_FileSystemProtocol :: string

section \<open>URIs\<close>

definition locationURI :: "string \<Rightarrow> string \<Rightarrow> string" where
  "locationURI project location = ''projects/'' @ project @ ''/locations/'' @ location"

definition instanceURI :: "string \<Rightarrow> string \<Rightarrow> string \<Rightarrow> string" where
  "instanceURI project location name =
     ''projects/'' @ project @ ''/locations/'' @ location @ ''/instances/'' @ name"

definition backupURI :: "string \<Rightarrow> string \<Rightarrow> string \<Rightarrow> string" where
  "backupURI project location name =
     ''projects/'' @ project @ ''/locations/'' @ location @ ''/backups/'' @ name"

definition shareURI :: "string \<Rightarrow> string \<Rightarrow> string \<Rightarrow> string \<Rightarrow> string" where
  "shareURI project location instanceName shareName =
     ''projects/'' @ project @ ''/locations/'' @ location @ ''/instances/'' @ instanceName
       @ ''/shares/'' @ shareName"

text \<open>The regular expressions \<open>instanceUriRegex\<close> and \<open>shareUriRegex\<close> with their groups\<close>

definition match_instance_uri :: "string \<Rightarrow> (string \<times> string \<times> string) option" where
  "match_instance_uri uri = (case split (CHR ''/'') uri of
       [a, p, b, l, c, i] \<Rightarrow>
         if a = ''projects'' \<and> b = ''locations'' \<and> c = ''instances'' \<and> p \<noteq> [] \<and> l \<noteq> [] \<and> i \<noteq> []
         then Some (p, l, i) else None
     | _ \<Rightarrow> None)"

definition match_share_uri :: "string \<Rightarrow> (string \<times> string \<times> string \<times> string) option" where
  "match_share_uri uri = (case split (CHR ''/'') uri of
       [a, p, b, l, c, i, d, s] \<Rightarrow>
         if a = ''projects'' \<and> b = ''locations'' \<and> c = ''instances'' \<and> d = ''shares''
            \<and> p \<noteq> [] \<and> l \<noteq> [] \<and> i \<noteq> [] \<and> s \<noteq> []
         then Some (p, l, i, s) else None
     | _ \<Rightarrow> None)"

definition GetInstanceNameFromURI :: "string \<Rightarrow> go_error + string \<times> string \<times> string" where
  "GetInstanceNameFromURI uri = (case match_instance_uri uri of
       None \<Rightarrow> Inl (ErrText (''failed to parse uri '' @ uri))
     | Some x \<Rightarrow> Inr x)"

definition IsInstanceTarget :: "string \<Rightarrow> bool" where
  "IsInstanceTarget target = (match_instance_uri target \<noteq> None)"

definition IsShareTarget :: "string \<Rightarrow> bool" where
  "IsShareTarget target = (match_share_uri target \<noteq> None)"

definition GenerateMultishareInstanceURI :: "MultishareInstance option \<Rightarrow> go_error + string" where
  "GenerateMultishareInstanceURI m = (case m of
       None \<Rightarrow> Inl (ErrText ''nil instance'')
     | Some i \<Rightarrow>
         if mi_Project i = [] \<or> mi_Location i = [] \<or> mi_Name i = []
         then Inl (ErrText ''missing project, name or location in instance'')
         else Inr (instanceURI (mi_Project i) (mi_Location i) (mi_Name i)))"

definition GenerateShareURI :: "Share option \<Rightarrow> go_error + string" where
  "GenerateShareURI s = (case s of
       None \<Rightarrow> Inl (ErrText ''missing share parent instance'')
     | Some sh \<Rightarrow> (case sh_Parent sh of
         None \<Rightarrow> Inl (ErrText ''missing share parent instance'')
       | Some i \<Rightarrow>
           if mi_Project i = [] \<or> mi_Location i = [] \<or> mi_Name i = [] \<or> sh_Name sh = []
           then Inl (ErrText ''missing parent, project, name or location in share parent'')
           else Inr (shareURI (mi_Project i) (mi_Location i) (mi_Name i) (sh_Name sh))))"

text \<open>\<open>ParseShare\<close> dereferences a nil share in its own error message.\<close>

definition ParseShare :: "Share option \<Rightarrow> go_error + string \<times> string \<times> string \<times> string" where
  "ParseShare s = (case s of
       None \<Rightarrow> Inl (Panic ''nil share'')
     | Some sh \<Rightarrow> (case sh_Parent sh of
         None \<Rightarrow> Inl (ErrText (''missing parent object for share '' @ sh_Name sh))
       | Some i \<Rightarrow>
           if mi_Project i = [] \<or> mi_Location i = [] \<or> mi_Name i = [] \<or> sh_Name sh = []
           then Inl (ErrText ''missing identifier in share'')
           else Inr (mi_Project i, mi_Location i, mi_Name i, sh_Name sh)))"

definition GetMultishareInstanceHandle :: "MultishareInstance option \<Rightarrow> go_error + string" where
  "GetMultishareInstanceHandle m = (case m of
       None \<Rightarrow> Inl (ErrText ''empty multishare instance'')
     | Some i \<Rightarrow> Inr (MultishareInstance_String i))"

text \<open>\<open>isMultishareVolId\<close> of \<open>file.go\<close> and of \<open>volume_id.go\<close>\<close>

definition isMultishareVolId :: "string \<Rightarrow> bool" where
  "isMultishareVolId volId = contains volId ''modeMultishare''"

section \<open>Backups\<close>

text \<open>\<open>SourceVolumeLocation\<close> indexes the second element of the id: None is the panic.\<close>

definition SourceVolumeLocation :: "BackupInfo \<Rightarrow> string option" where
  "SourceVolumeLocation bi =
     (let splitId = split (CHR ''/'') (bi_SourceVolumeId bi) in
      if length splitId < 2 then None else Some (splitId ! 1))"

definition BackupSource :: "BackupInfo \<Rightarrow> string option" where
  "BackupSource bi = (case SourceVolumeLocation bi of None \<Rightarrow> None
     | Some loc \<Rightarrow>
         Some (if isMultishareVolId (bi_SourceVolumeId bi)
               then shareURI (bi_Project bi) loc (bi_SourceInstanceName bi) (bi_SourceShare bi)
               else instanceURI (bi_Project bi) loc (bi_SourceInstanceName bi)))"

definition hasRegionPattern :: "string \<Rightarrow> bool" where
  "hasRegionPattern location = (case split (CHR ''-'') location of
       [a, b] \<Rightarrow> a \<noteq> [] \<and> b \<noteq> [] | _ \<Rightarrow> False)"

definition deduceRegion :: "string \<Rightarrow> string \<Rightarrow> go_error + string" where
  "deduceRegion serviceLocation backupLocation =
     (if backupLocation = [] then
        if hasRegionPattern serviceLocation then Inr serviceLocation
        else GetRegionFromZone serviceLocation
      else Inr backupLocation)"

definition CreateBackupURI ::
  "string \<Rightarrow> string \<Rightarrow> string \<Rightarrow> string \<Rightarrow> go_error + string \<times> string" where
  "CreateBackupURI serviceLocation project backupName backupLocation =
     rbind (deduceRegion serviceLocation backupLocation) (\<lambda>region.
       if \<not> hasRegionPattern region
       then Inl (ErrText (''provided location did not match region pattern: '' @ backupLocation))
       else Inr (backupURI project region backupName, region))"

definition CheckBackupExists :: "go_error + Backup \<Rightarrow> go_error + bool" where
  "CheckBackupExists r = (case r of
       Inl e \<Rightarrow> if \<not> IsNotFoundErr e
                then (case StatusError (Some e) of Some e' \<Rightarrow> Inl e' | None \<Rightarrow> Inr False)
                else Inr False
     | Inr b \<Rightarrow> Inr True)"

record 'ts Snapshot =
  sn_SizeBytes :: int
  sn_SnapshotId :: string
  sn_SourceVolumeId :: string
  sn_CreationTime :: 'ts
  sn_ReadyToUse :: bool

definition ProcessExistingBackup ::
  "(string \<Rightarrow> string + 'ts) \<Rightarrow> ('ts \<Rightarrow> string option) \<Rightarrow> Backup \<Rightarrow> string \<Rightarrow> string \<Rightarrow> go_error + 'ts Snapshot" where
  "ProcessExistingBackup time_parse check_valid backup volumeID mode =
     (case BackupVolumeSourceToCSIVolumeHandle mode (b_SourceInstance backup) (b_SourceShare backup) of
        Inl e \<Rightarrow> Inl (StatusErr InvalidArgument (''Cannot determine volume handle from back source instance ''
                   @ b_SourceInstance backup @ '', share '' @ b_SourceShare backup))
      | Inr handle \<Rightarrow>
          let cb = b_Backup backup;
              notReady = ''Backup '' @ cb_Name cb @ '' not yet ready, current state '' @ cb_State cb in
          if handle \<noteq> volumeID
          then Inl (StatusErr AlreadyExists (''Backup already exists with a different source volume ''
                 @ handle @ '', input source volume '' @ volumeID))
          else if cb_State cb = ''CREATING'' \<or> cb_State cb = ''FINALIZING''
          then Inl (StatusErr DeadlineExceeded notReady)
          else if cb_State cb \<noteq> ''READY'' then Inl (StatusErr Internal notReady)
          else (case ParseTimestamp time_parse check_valid (cb_CreateTime cb) of
                  Inl e \<Rightarrow>
                    let e' = ErrWrap (''failed to parse create timestamp for backup '' @ cb_Name cb @ '': '') e [] in
                    Inl (StatusErr (codeForError e') (error_text e'))
                | Inr tp \<Rightarrow>
                    Inr \<lparr>sn_SizeBytes = GbToBytes (cb_CapacityGb cb), sn_SnapshotId = cb_Name cb,
                         sn_SourceVolumeId = volumeID, sn_CreationTime = tp, sn_ReadyToUse = True\<rparr>))"

section \<open>Comparisons\<close>

definition mismatch :: "bool \<Rightarrow> string \<Rightarrow> string list" where
  "mismatch differs what = (if differs then [what] else [])"

definition CompareInstances :: "ServiceInstance \<Rightarrow> ServiceInstance \<Rightarrow> go_error option" where
  "CompareInstances a b =
     (let mismatches =
        mismatch (\<not> equalFold (si_Tier a) (si_Tier b)) ''tier''
        @ mismatch (vol_Name (si_Volume a) \<noteq> vol_Name (si_Volume b)) ''volume name''
        @ mismatch (RoundBytesToGb (SizeBytes (si_Volume a)) \<noteq> RoundBytesToGb (SizeBytes (si_Volume b))) ''volume size''
        @ mismatch (net_Name (si_Network a) \<noteq> net_Name (si_Network b)) ''network name''
        @ mismatch (si_KmsKeyName a \<noteq> si_KmsKeyName b) ''kms key name'' in
      if length mismatches > 0
      then Some (ErrText (''instance '' @ si_Name a @ '' already exists but doesn't match expected: [''
             @ join '' '' mismatches @ '']''))
      else None)"

definition CompareMultishareInstances ::
  "MultishareInstance option \<Rightarrow> MultishareInstance option \<Rightarrow> go_error option" where
  "CompareMultishareInstances ao bo = (case (ao, bo) of
       (Some a, Some b) \<Rightarrow>
         (let mismatches =
            mismatch (mi_Project a \<noteq> mi_Project b) ''project''
            @ mismatch (mi_Location a \<noteq> mi_Location b) ''location''
            @ mismatch (mi_Name a \<noteq> mi_Name b) ''name''
            @ mismatch (\<not> equalFold (mi_Tier a) (mi_Tier b)) ''tier''
            @ mismatch (net_Name (mi_Network a) \<noteq> net_Name (mi_Network b)) ''network name''
            @ mismatch (mi_KmsKeyName a \<noteq> mi_KmsKeyName b) ''kms key name'' in
          if length mismatches > 0
          then Some (ErrText (''instance '' @ mi_Name a @ '' already exists but doesn't match expected: [''
                 @ join '' '' mismatches @ '']''))
          else None)
     | _ \<Rightarrow> Some (ErrText ''empty instance object detected''))"

definition CompareShares :: "Share option \<Rightarrow> Share option \<Rightarrow> go_error option" where
  "CompareShares ao bo = (case (ao, bo) of
       (Some a, Some b) \<Rightarrow>
         (let mismatches =
            mismatch (sh_Name a \<noteq> sh_Name b) ''tier''
            @ mismatch (RoundBytesToGb (sh_CapacityBytes a) \<noteq> RoundBytesToGb (sh_CapacityBytes b)) ''share size'' in
          if length mismatches > 0
          then Some (ErrText (''share '' @ sh_Name a @ '' already exists but doesn't match expected: [''
                 @ join '' '' mismatches @ '']''))
          else CompareMultishareInstances (sh_Parent a) (sh_Parent b))
     | _ \<Rightarrow> Some (ErrText ''empty share object detected''))"

section \<open>Conversions from API objects\<close>

text \<open>\<open>extractNfsShareExportOptions\<close> copies the options field by field.\<close>

fun extractNfsShareExportOptions :: "NfsExportOptions list \<Rightarrow> NfsExportOptions list" where
  "extractNfsShareExportOptions [] = []"
| "extractNfsShareExportOptions (opt # opts) =
     \<lparr>AccessMode = AccessMode opt, AnonGid = AnonGid opt, AnonUid = AnonUid opt,
      IpRanges = IpRanges opt, SquashMode = SquashMode opt\<rparr> # extractNfsShareExportOptions opts"

definition first_ip :: "NetworkConfig \<Rightarrow> string" where
  "first_ip nc = (case nc_IpAddresses nc of [] \<Rightarrow> [] | ip # _ \<Rightarrow> ip)"

definition network_of :: "NetworkConfig \<Rightarrow> Network" where
  "network_of nc = \<lparr>net_Name = nc_Network nc, ConnectMode = nc_ConnectMode nc,
     ReservedIpRange = nc_ReservedIpRange nc, Ip = first_ip nc\<rparr>"

text \<open>Both conversions index the first network and the first share; an API object without them
  makes the code panic.\<close>

definition cloudInstanceToServiceInstance :: "CloudInstance \<Rightarrow> go_error + ServiceInstance" where
  "cloudInstanceToServiceInstance inst =
     rbind (GetInstanceNameFromURI (ci_Name inst)) (\<lambda>(project, location, name).
       case (ci_Networks inst, ci_FileShares inst) of
         (nc # _, fsc # _) \<Rightarrow>
           Inr \<lparr>si_Project = project, si_Name = name, si_Location = location, si_Tier = ci_Tier inst,
                si_Network = network_of nc,
                si_Volume = \<lparr>vol_Name = fs_Name fsc, SizeBytes = GbToBytes (fs_CapacityGb fsc)\<rparr>,
                si_Labels = ci_Labels inst, si_State = ci_State inst,
                si_KmsKeyName = ci_KmsKeyName inst, si_BackupSource = fs_SourceBackup fsc,
                si_NfsExportOptions = [], si_Protocol = ci_Protocol inst,
                si_PerformanceConfig = (case ci_PerformanceConfig inst of None \<Rightarrow> None
                   | Some p \<Rightarrow> Some \<lparr>FixedIOPS = (case cp_FixedIops p of None \<Rightarrow> 0 | Some n \<Rightarrow> n),
                                     IOPSPerTB = (case cp_IopsPerTb p of None \<Rightarrow> 0 | Some n \<Rightarrow> n)\<rparr>)\<rparr>
       | _ \<Rightarrow> Inl (Panic ''index out of range''))"

definition cloudInstanceToMultishareInstance :: "CloudInstance option \<Rightarrow> go_error + MultishareInstance" where
  "cloudInstanceToMultishareInstance io = (case io of
       None \<Rightarrow> Inl (ErrText ''nil instance'')
     | Some inst \<Rightarrow>
         rbind (GetInstanceNameFromURI (ci_Name inst)) (\<lambda>(project, location, name).
           case ci_Networks inst of
             nc # _ \<Rightarrow>
               Inr \<lparr>mi_Project = project, mi_Name = name, mi_Location = location, mi_Tier = ci_Tier inst,
                    mi_Network = network_of nc,
                    mi_CapacityBytes = i64 (ci_CapacityGb inst * Gb),
                    mi_MaxCapacityBytes = i64 (ci_MaxCapacityGb inst * Gb),
                    mi_CapacityStepSizeGb = ci_CapacityStepSizeGb inst,
                    mi_Labels = ci_Labels inst, mi_State = ci_State inst,
                    mi_KmsKeyName = ci_KmsKeyName inst, mi_Description = ci_Description inst,
                    mi_MaxShareCount = ci_MaxShareCount inst, mi_Protocol = ci_Protocol inst\<rparr>
           | [] \<Rightarrow> Inl (Panic ''index out of range'')))"

section \<open>Properties\<close>

lemma mismatch_Nil [simp]: "mismatch b w = [] \<longleftrightarrow> \<not> b"
  by (simp add: mismatch_def)

lemma CompareInstances_None:
  "CompareInstances a b = None \<longleftrightarrow>
     equalFold (si_Tier a) (si_Tier b) \<and> vol_Name (si_Volume a) = vol_Name (si_Volume b)
     \<and> RoundBytesToGb (SizeBytes (si_Volume a)) = RoundBytesToGb (SizeBytes (si_Volume b))
     \<and> net_Name (si_Network a) = net_Name (si_Network b) \<and> si_KmsKeyName a = si_KmsKeyName b"
  by (simp add: CompareInstances_def Let_def)

lemma CompareMultishareInstances_None:
  "CompareMultishareInstances (Some a) (Some b) = None \<longleftrightarrow>
     mi_Project a = mi_Project b \<and> mi_Location a = mi_Location b \<and> mi_Name a = mi_Name b
     \<and> equalFold (mi_Tier a) (mi_Tier b) \<and> net_Name (mi_Network a) = net_Name (mi_Network b)
     \<and> mi_KmsKeyName a = mi_KmsKeyName b"
  by (simp add: CompareMultishareInstances_def Let_def)

lemma CompareMultishareInstances_nil [simp]:
  "CompareMultishareInstances None b \<noteq> None" "CompareMultishareInstances a None \<noteq> None"
  by (simp_all add: CompareMultishareInstances_def split: option.split)

text \<open>When a create call finds an object of the same name, it is taken for the one requested
  exactly when the identifying fields agree: for instances tier (without case), share name, size
  rounded up to GiB, network and key; for shares name and rounded size and, for the hosting
  instances, project, location, name, tier, network and key. The comparison is symmetric, and an
  absent share or hosting instance never matches.\<close>

theorem compare_exact:
  "(CompareInstances a b = None \<longleftrightarrow>
      equalFold (si_Tier a) (si_Tier b) \<and> vol_Name (si_Volume a) = vol_Name (si_Volume b)
      \<and> RoundBytesToGb (SizeBytes (si_Volume a)) = RoundBytesToGb (SizeBytes (si_Volume b))
      \<and> net_Name (si_Network a) = net_Name (si_Network b) \<and> si_KmsKeyName a = si_KmsKeyName b)
   \<and> (CompareInstances a b = None \<longleftrightarrow> CompareInstances b a = None)
   \<and> (CompareShares so to = None \<longleftrightarrow>
      (\<exists>s t i j. so = Some s \<and> to = Some t \<and> sh_Name s = sh_Name t
         \<and> RoundBytesToGb (sh_CapacityBytes s) = RoundBytesToGb (sh_CapacityBytes t)
         \<and> sh_Parent s = Some i \<and> sh_Parent t = Some j
         \<and> mi_Project i = mi_Project j \<and> mi_Location i = mi_Location j \<and> mi_Name i = mi_Name j
         \<and> equalFold (mi_Tier i) (mi_Tier j) \<and> net_Name (mi_Network i) = net_Name (mi_Network j)
         \<and> mi_KmsKeyName i = mi_KmsKeyName j))"
proof (intro conjI)
  show "CompareInstances a b = None \<longleftrightarrow> CompareInstances b a = None"
    by (auto simp: CompareInstances_None equalFold_def)
  show "CompareShares so to = None \<longleftrightarrow>
      (\<exists>s t i j. so = Some s \<and> to = Some t \<and> sh_Name s = sh_Name t
         \<and> RoundBytesToGb (sh_CapacityBytes s) = RoundBytesToGb (sh_CapacityBytes t)
         \<and> sh_Parent s = Some i \<and> sh_Parent t = Some j
         \<and> mi_Project i = mi_Project j \<and> mi_Location i = mi_Location j \<and> mi_Name i = mi_Name j
         \<and> equalFold (mi_Tier i) (mi_Tier j) \<and> net_Name (mi_Network i) = net_Name (mi_Network j)
         \<and> mi_KmsKeyName i = mi_KmsKeyName j)"
  proof (cases so; cases to)
    fix s t assume st: "so = Some s" "to = Some t"
    show ?thesis
      by (cases "sh_Parent s"; cases "sh_Parent t")
        (auto simp: st CompareShares_def Let_def CompareMultishareInstances_None
          simp flip: not_None_eq)
  qed (auto simp: CompareShares_def)
qed (simp add: CompareInstances_None)

lemma match_instance_instanceURI:
  "\<forall>x \<in> {p, l, i}. x \<noteq> [] \<and> CHR ''/'' \<notin> set x \<Longrightarrow> match_instance_uri (instanceURI p l i) = Some (p, l, i)"
  by (simp add: match_instance_uri_def instanceURI_def go_str)

lemma match_share_shareURI:
  "\<forall>x \<in> {p, l, i, s}. x \<noteq> [] \<and> CHR ''/'' \<notin> set x \<Longrightarrow> match_share_uri (shareURI p l i s) = Some (p, l, i, s)"
  by (simp add: match_share_uri_def shareURI_def go_str)

lemma targets_disjoint: "\<not> (IsInstanceTarget u \<and> IsShareTarget u)"
  by (auto simp: IsInstanceTarget_def IsShareTarget_def match_instance_uri_def match_share_uri_def
      split: list.splits if_splits)

lemma match_share_ParseShareURI:
  "match_share_uri u = Some (p, l, i, s) \<Longrightarrow> ParseShareURI u = Inr (p, l, i, s)"
  by (auto simp: match_share_uri_def ParseShareURI_def Let_def split: list.splits if_splits)

text \<open>URIs of instances and shares. What \<open>GenerateShareURI\<close> produces for parts without slashes is
  classified as a share and not as an instance, and parses back to the share's project, location,
  instance and name, and likewise for instances; no target is both, and whatever is classified as
  a share parses as one.\<close>

theorem uri_roundtrip:
  assumes "\<forall>x \<in> {mi_Project i, mi_Location i, mi_Name i, sh_Name s}. CHR ''/'' \<notin> set x"
    and "sh_Parent s = Some i" "GenerateShareURI (Some s) = Inr u"
  shows "IsShareTarget u \<and> ParseShareURI u = Inr (mi_Project i, mi_Location i, mi_Name i, sh_Name s)
    \<and> ParseShare (Some s) = ParseShareURI u
    \<and> (\<exists>v. GenerateMultishareInstanceURI (Some i) = Inr v \<and> IsInstanceTarget v
          \<and> GetInstanceNameFromURI v = Inr (mi_Project i, mi_Location i, mi_Name i) \<and> u = v @ ''/shares/'' @ sh_Name s)
    \<and> \<not> IsInstanceTarget u"
proof -
  have ne: "mi_Project i \<noteq> []" "mi_Location i \<noteq> []" "mi_Name i \<noteq> []" "sh_Name s \<noteq> []"
    and u: "u = shareURI (mi_Project i) (mi_Location i) (mi_Name i) (sh_Name s)"
    using assms(2,3) by (auto simp: GenerateShareURI_def split: if_splits)
  have m: "match_share_uri u = Some (mi_Project i, mi_Location i, mi_Name i, sh_Name s)"
    using assms(1) ne unfolding u by (intro match_share_shareURI) simp
  have v: "match_instance_uri (instanceURI (mi_Project i) (mi_Location i) (mi_Name i))
      = Some (mi_Project i, mi_Location i, mi_Name i)"
    using assms(1) ne by (intro match_instance_instanceURI) simp
  show ?thesis
    using m v ne targets_disjoint[of u] match_share_ParseShareURI[OF m] assms(2)
    by (simp add: IsShareTarget_def IsInstanceTarget_def GetInstanceNameFromURI_def ParseShare_def
        GenerateMultishareInstanceURI_def u shareURI_def instanceURI_def)
qed

definition example_instance :: MultishareInstance where
  "example_instance = empty_instance\<lparr>mi_Project := ''p'', mi_Location := ''us-c1'', mi_Name := ''fs-1''\<rparr>"

definition example_share :: Share where
  "example_share = empty_share\<lparr>sh_Name := ''pvc_1'', sh_Parent := Some example_instance\<rparr>"

theorem uri_roundtrip_witness:
  "ParseShareURI ''projects/p/locations/us-c1/instances/fs-1/shares/pvc_1'' = Inr (''p'', ''us-c1'', ''fs-1'', ''pvc_1'')"
proof -
  have "GenerateShareURI (Some example_share) = Inr ''projects/p/locations/us-c1/instances/fs-1/shares/pvc_1''"
    by code_simp
  then show ?thesis
    using uri_roundtrip[of example_instance example_share] by (simp add: example_instance_def example_share_def)
qed

text \<open>Where a backup goes. A backup URI is built only for a location that looks like a region; the
  requested location wins, otherwise the region of the volume is used, which for a zonal volume
  is its zone without the last word.\<close>

theorem CreateBackupURI_correct:
  "(CreateBackupURI loc project name backupLocation = Inr (uri, region) \<longleftrightarrow>
     hasRegionPattern region \<and> uri = backupURI project region name
     \<and> (if backupLocation \<noteq> [] then region = backupLocation
        else if hasRegionPattern loc then region = loc
        else (\<exists>suffix. CHR ''-'' \<notin> set suffix \<and> loc = region @ ''-'' @ suffix)))"
proof -
  have len2: "hasRegionPattern r \<Longrightarrow> length (split (CHR ''-'') r) = 2" for r
    by (auto simp: hasRegionPattern_def split: list.splits)
  have "(GetRegionFromZone loc = Inr region \<and> hasRegionPattern region) \<longleftrightarrow>
      hasRegionPattern region \<and> (\<exists>suffix. CHR ''-'' \<notin> set suffix \<and> loc = region @ ''-'' @ suffix)"
    using len2[of region] by (auto simp: region_of_zone_iff split_append_sep split_no_sep)
  then show ?thesis
    by (auto simp: CreateBackupURI_def deduceRegion_def rbind_Inr_iff)
qed

end
