(* ===== verification/Fake_Service.thy ===== *)
theory Fake_Service
  imports File_Types
begin

text \<open>
  The interface \<open>file.Service\<close> the controllers call (\<open>file.go\<close>), as a record of operations on a
  state, and the in-memory service of \<open>pkg/cloud_provider/file/fake.go\<close> that implements it. The
  locales \<open>instance_service\<close> and \<open>share_service\<close> state the laws the controllers use, and are
  interpreted on the in-memory service. The unique ids of its operations come from a parameter.
\<close>

section \<open>The interface\<close>

record 'w Service =
  svc_CreateInstance :: "ServiceInstance \<Rightarrow> ('w, ServiceInstance) eff"
  svc_DeleteInstance :: "ServiceInstance \<Rightarrow> ('w, unit) eff"
  svc_GetInstance :: "ServiceInstance \<Rightarrow> ('w, ServiceInstance) eff"
  svc_ListInstances :: "ServiceInstance \<Rightarrow> ('w, ServiceInstance list) eff"
  svc_ResizeInstance :: "ServiceInstance \<Rightarrow> ('w, ServiceInstance) eff"
  svc_UpdateInstancePerformance :: "ServiceInstance \<Rightarrow> PerformanceConfig option \<Rightarrow> ('w, unit) eff"
  svc_GetBackup :: "string \<Rightarrow> ('w, Backup) eff"
  svc_CreateBackup :: "BackupInfo \<Rightarrow> ('w, CloudBackup) eff"
  svc_DeleteBackup :: "string \<Rightarrow> ('w, unit) eff"
  svc_HasOperations :: "ServiceInstance \<Rightarrow> string \<Rightarrow> bool \<Rightarrow> ('w, bool) eff"
  svc_GetMultishareInstance :: "MultishareInstance \<Rightarrow> ('w, MultishareInstance) eff"
  svc_ListMultishareInstances :: "ListFilter \<Rightarrow> ('w, MultishareInstance list) eff"
  svc_StartCreateMultishareInstanceOp :: "MultishareInstance \<Rightarrow> ('w, Operation) eff"
  svc_StartDeleteMultishareInstanceOp :: "MultishareInstance \<Rightarrow> ('w, Operation) eff"
  svc_StartResizeMultishareInstanceOp :: "MultishareInstance \<Rightarrow> ('w, Operation) eff"
  svc_ListShares :: "ListFilter \<Rightarrow> ('w, Share list) eff"
  svc_GetShare :: "Share \<Rightarrow> ('w, Share) eff"
  svc_StartCreateShareOp :: "Share \<Rightarrow> ('w, Operation) eff"
  svc_StartDeleteShareOp :: "Share \<Rightarrow> ('w, Operation) eff"
  svc_StartResizeShareOp :: "Share \<Rightarrow> ('w, Operation) eff"
  svc_WaitForOpWithOpts :: "string \<Rightarrow> nat \<times> nat \<Rightarrow> ('w, unit) eff"
  svc_GetOp :: "string \<Rightarrow> ('w, Operation option) eff"
  svc_ListOps :: "ListFilter \<Rightarrow> ('w, Operation list) eff"

section \<open>The in-memory service\<close>

record fakeServiceManager =
  createdInstances :: "(string, ServiceInstance) gomap"
  backups :: "(string, Backup) gomap"
  createdMultishareInstance :: "(string, MultishareInstance) gomap"
  createdMultishares :: "(string, Share) gomap"
  multishareops :: "Operation list"
  op_count :: nat

definition NewFakeService :: fakeServiceManager where
  "NewFakeService = \<lparr>createdInstances = [], backups = [], createdMultishareInstance = [],
     createdMultishares = [], multishareops = [], op_count = 0\<rparr>"

definition NewFakeServiceForMultishare ::
  "MultishareInstance list \<Rightarrow> Share list \<Rightarrow> Operation list \<Rightarrow> fakeServiceManager" where
  "NewFakeServiceForMultishare instances shares ops = \<lparr>createdInstances = [], backups = [],
     createdMultishareInstance = fold (\<lambda>i m. minsert (mi_Name i) i m) instances [],
     createdMultishares = fold (\<lambda>s m. minsert (sh_Name s) s m) shares [],
     multishareops = ops, op_count = 0\<rparr>"

definition notFoundError :: go_error where
  "notFoundError = GoogleApiErr 0 ''googleapi: Error 0: , notFound'' [''notFound'']"

definition fake_instance :: "ServiceInstance \<Rightarrow> ServiceInstance" where
  "fake_instance obj = empty_service_instance\<lparr>
     si_Project := ''test-project'', si_Location := ''us-central1-c'', si_Name := si_Name obj,
     si_Tier := si_Tier obj, si_Volume := si_Volume obj,
     si_Network := \<lparr>net_Name = net_Name (si_Network obj), ConnectMode = [],
        ReservedIpRange = ReservedIpRange (si_Network obj), Ip = ''1.1.1.1''\<rparr>,
     si_Labels := si_Labels obj, si_State := ''READY'', si_BackupSource := si_BackupSource obj,
     si_NfsExportOptions := si_NfsExportOptions obj, si_Protocol := si_Protocol obj\<rparr>"

definition fake_CreateInstance :: "ServiceInstance \<Rightarrow> (fakeServiceManager, ServiceInstance) eff" where
  "fake_CreateInstance obj m =
     (Inr (fake_instance obj), m\<lparr>createdInstances := minsert (si_Name obj) (fake_instance obj) (createdInstances m)\<rparr>)"

definition fake_DeleteInstance :: "ServiceInstance \<Rightarrow> (fakeServiceManager, unit) eff" where
  "fake_DeleteInstance obj = ret ()"

definition fake_GetInstance :: "ServiceInstance \<Rightarrow> (fakeServiceManager, ServiceInstance) eff" where
  "fake_GetInstance obj m = (case mlookup (createdInstances m) (si_Name obj) of
       Some i \<Rightarrow> (Inr i, m) | None \<Rightarrow> (Inl notFoundError, m))"

definition fake_ListInstances :: "ServiceInstance \<Rightarrow> (fakeServiceManager, ServiceInstance list) eff" where
  "fake_ListInstances obj = ret (map (\<lambda>r. empty_service_instance\<lparr>
     si_Project := ''test-project'', si_Location := ''us-central1-c'', si_Name := ''test'', si_Tier := ''BASIC_HDD'',
     si_Network := empty_network\<lparr>ReservedIpRange := r, net_Name := ''default''\<rparr>, si_State := ''READY''\<rparr>)
     [''192.168.92.32/29'', ''192.168.92.40/29''])"

definition fake_ResizeInstance :: "ServiceInstance \<Rightarrow> (fakeServiceManager, ServiceInstance) eff" where
  "fake_ResizeInstance obj m = (case mlookup (createdInstances m) (si_Name obj) of
       None \<Rightarrow> (Inl (ErrText (''Instance '' @ si_Name obj @ '' not found'')), m)
     | Some i \<Rightarrow>
         (let i' = i\<lparr>si_Volume := (si_Volume i)\<lparr>SizeBytes := SizeBytes (si_Volume obj)\<rparr>\<rparr> in
          (Inr i', m\<lparr>createdInstances := minsert (si_Name obj) i' (createdInstances m)\<rparr>)))"

definition fake_UpdateInstancePerformance ::
  "ServiceInstance \<Rightarrow> PerformanceConfig option \<Rightarrow> (fakeServiceManager, unit) eff" where
  "fake_UpdateInstancePerformance obj po = (case po of
       None \<Rightarrow> fail (ErrText ''performance config cannot be nil'')
     | Some p \<Rightarrow> if FixedIOPS p \<le> 0 \<and> IOPSPerTB p \<le> 0
         then fail (ErrText ''performance config must have either FixedIOPS or IOPSPerTB set'') else ret ())"

text \<open>\<open>show_info\<close> and \<open>show_backup\<close> render by \<open>%+v\<close> in two error texts.\<close>

definition fake_CreateBackup ::
  "(BackupInfo \<Rightarrow> string) \<Rightarrow> (Backup \<Rightarrow> string) \<Rightarrow> BackupInfo \<Rightarrow> (fakeServiceManager, CloudBackup) eff" where
  "fake_CreateBackup show_info show_backup bi m =
     (if bi_SourceInstanceName bi = [] \<or> bi_SourceShare bi = [] \<or> bi_SourceVolumeId bi = [] \<or> bi_BackupURI bi = []
      then (Inl (ErrText (''BackupInfo fields are not set '' @ show_info bi)), m)
      else (case BackupSource bi of
         None \<Rightarrow> (Inl (Panic ''index out of range''), m)
       | Some src \<Rightarrow>
           (case mlookup (backups m) (bi_BackupURI bi) of
              Some b \<Rightarrow>
                if b_SourceInstance b \<noteq> src \<and> b_SourceShare b \<noteq> bi_SourceShare bi
                then (Inl (ErrText (''Mismatch in source for existing snapshot '' @ show_backup b)), m)
                else (Inr (b_Backup b), m)
            | None \<Rightarrow>
                (let cb = \<lparr>cb_Name = bi_BackupURI bi, cb_State = ''READY'', cb_CreateTime = ''2020-10-02T15:01:23Z'',
                       cb_CapacityGb = 1024, cb_SourceInstance = src, cb_SourceFileShare = bi_SourceShare bi,
                       cb_SourceInstanceTier = bi_Tier bi, cb_FileSystemProtocol = [], cb_Labels = bi_Labels bi\<rparr> in
                 (Inr cb, m\<lparr>backups := minsert (bi_BackupURI bi)
                    \<lparr>b_Backup = cb, b_SourceInstance = src, b_SourceShare = bi_SourceShare bi, b_FileSystemProtocol = []\<rparr>
                    (backups m)\<rparr>)))))"

definition fake_DeleteBackup :: "string \<Rightarrow> (fakeServiceManager, unit) eff" where
  "fake_DeleteBackup backupName m = (Inr (), m\<lparr>backups := mdelete backupName (backups m)\<rparr>)"

definition fake_GetBackup :: "string \<Rightarrow> (fakeServiceManager, Backup) eff" where
  "fake_GetBackup backupUri m = (case mlookup (backups m) backupUri of
       None \<Rightarrow> (Inl notFoundError, m) | Some b \<Rightarrow> (Inr b, m))"

definition fake_HasOperations :: "ServiceInstance \<Rightarrow> string \<Rightarrow> bool \<Rightarrow> (fakeServiceManager, bool) eff" where
  "fake_HasOperations obj operationType done = ret False"

section \<open>The in-memory multishare service\<close>

definition fake_GetMultishareInstance :: "MultishareInstance \<Rightarrow> (fakeServiceManager, MultishareInstance) eff" where
  "fake_GetMultishareInstance obj m = (case mlookup (createdMultishareInstance m) (mi_Name obj) of
       None \<Rightarrow> (Inl (GoogleApiErr 5 ''googleapi: Error 5: , notFound'' [''notFound'']), m)
     | Some i \<Rightarrow> (Inr i, m))"

definition fake_ListMultishareInstances :: "ListFilter \<Rightarrow> (fakeServiceManager, MultishareInstance list) eff" where
  "fake_ListMultishareInstances flt m = (Inr (map snd (createdMultishareInstance m)), m)"

definition fake_op :: "(nat \<Rightarrow> string) \<Rightarrow> string \<Rightarrow> string \<Rightarrow> fakeServiceManager \<Rightarrow> Operation \<times> fakeServiceManager" where
  "fake_op uuid target verb m =
     (\<lparr>op_Name = ''operation-'' @ uuid (op_count m), op_Done = False, op_Error = None, op_Meta = Some (Inr (target, verb)),
       op_CreateTime = []\<rparr>,
      m\<lparr>op_count := op_count m + 1\<rparr>)"

definition fake_start :: "(nat \<Rightarrow> string) \<Rightarrow> string \<Rightarrow> string \<Rightarrow> fakeServiceManager \<Rightarrow> (go_error + Operation) \<times> fakeServiceManager" where
  "fake_start uuid target verb m = (case fake_op uuid target verb m of (opn, m') \<Rightarrow> (Inr opn, m'))"

definition fake_StartCreateMultishareInstanceOp ::
  "(nat \<Rightarrow> string) \<Rightarrow> MultishareInstance \<Rightarrow> (fakeServiceManager, Operation) eff" where
  "fake_StartCreateMultishareInstanceOp uuid obj m =
     (let i = empty_instance\<lparr>mi_Project := ''test-project'', mi_Location := mi_Location obj, mi_Name := mi_Name obj,
            mi_Tier := mi_Tier obj, mi_CapacityBytes := mi_CapacityBytes obj, mi_Network := mi_Network obj,
            mi_KmsKeyName := mi_KmsKeyName obj, mi_Labels := mi_Labels obj, mi_State := ''READY''\<rparr> in
      fake_start uuid (instanceURI (mi_Project i) (mi_Location i) (mi_Name i)) ''create''
        (m\<lparr>createdMultishareInstance := minsert (mi_Name obj) i (createdMultishareInstance m)\<rparr>))"

definition fake_StartDeleteMultishareInstanceOp ::
  "(nat \<Rightarrow> string) \<Rightarrow> MultishareInstance \<Rightarrow> (fakeServiceManager, Operation) eff" where
  "fake_StartDeleteMultishareInstanceOp uuid obj m =
     fake_start uuid (instanceURI (mi_Project obj) (mi_Location obj) (mi_Name obj)) ''create''
       (m\<lparr>createdMultishareInstance := mdelete (mi_Name obj) (createdMultishareInstance m)\<rparr>)"

definition fake_StartResizeMultishareInstanceOp ::
  "(nat \<Rightarrow> string) \<Rightarrow> MultishareInstance \<Rightarrow> (fakeServiceManager, Operation) eff" where
  "fake_StartResizeMultishareInstanceOp uuid obj m =
     (case mlookup (createdMultishareInstance m) (mi_Name obj) of
        None \<Rightarrow> (Inl (Panic ''nil instance''), m)
      | Some i \<Rightarrow>
          fake_start uuid (instanceURI (mi_Project obj) (mi_Location obj) (mi_Name obj)) ''update''
            (m\<lparr>createdMultishareInstance :=
               minsert (mi_Name obj) (i\<lparr>mi_CapacityBytes := mi_CapacityBytes obj\<rparr>) (createdMultishareInstance m)\<rparr>))"

definition fake_share :: "MultishareInstance \<Rightarrow> Share \<Rightarrow> Share" where
  "fake_share p obj =
     \<lparr>sh_Name = sh_Name obj,
      sh_Parent = Some (empty_instance\<lparr>mi_Project := mi_Project p, mi_Location := mi_Location p, mi_Name := mi_Name p,
         mi_Tier := mi_Tier p, mi_CapacityBytes := sh_CapacityBytes obj,
         mi_Network := \<lparr>net_Name = net_Name (mi_Network p), ConnectMode = [],
            ReservedIpRange = ReservedIpRange (mi_Network p), Ip = Ip (mi_Network p)\<rparr>,
         mi_Labels := mi_Labels p, mi_State := ''READY''\<rparr>),
      sh_State = ''READY'', sh_MountPointName = sh_Name obj, sh_Labels = sh_Labels obj,
      sh_CapacityBytes = sh_CapacityBytes obj, sh_BackupId = sh_BackupId obj,
      sh_NfsExportOptions = sh_NfsExportOptions obj\<rparr>"

definition fake_StartCreateShareOp :: "(nat \<Rightarrow> string) \<Rightarrow> Share \<Rightarrow> (fakeServiceManager, Operation) eff" where
  "fake_StartCreateShareOp uuid obj m = (case sh_Parent obj of
       None \<Rightarrow> (Inl (Panic ''nil parent''), m)
     | Some p \<Rightarrow>
         (case mlookup (createdMultishareInstance m) (mi_Name p) of
            None \<Rightarrow> (Inl (ErrText (''host instance '' @ mi_Name p @ '' not found'')), m)
          | Some _ \<Rightarrow>
              fake_start uuid (shareURI (mi_Project p) (mi_Location p) (mi_Name p) (sh_Name obj)) ''create''
                (m\<lparr>createdMultishares := minsert (sh_Name obj) (fake_share p obj) (createdMultishares m)\<rparr>)))"

definition fake_StartDeleteShareOp :: "(nat \<Rightarrow> string) \<Rightarrow> Share \<Rightarrow> (fakeServiceManager, Operation) eff" where
  "fake_StartDeleteShareOp uuid obj m =
     (let m' = m\<lparr>createdMultishares := mdelete (sh_Name obj) (createdMultishares m)\<rparr> in
      case sh_Parent obj of
        None \<Rightarrow> (Inl (Panic ''nil parent''), m')
      | Some p \<Rightarrow> fake_start uuid (shareURI (mi_Project p) (mi_Location p) (mi_Name p) (sh_Name obj)) ''DELETE'' m')"

definition fake_StartResizeShareOp :: "(nat \<Rightarrow> string) \<Rightarrow> Share \<Rightarrow> (fakeServiceManager, Operation) eff" where
  "fake_StartResizeShareOp uuid obj m =
     (case mlookup (createdMultishares m) (sh_Name obj) of
        None \<Rightarrow> (Inl (Panic ''nil share''), m)
      | Some s \<Rightarrow>
          (let m' = m\<lparr>createdMultishares :=
                 minsert (sh_Name obj) (s\<lparr>sh_CapacityBytes := sh_CapacityBytes obj\<rparr>) (createdMultishares m)\<rparr> in
           case sh_Parent obj of
             None \<Rightarrow> (Inl (Panic ''nil parent''), m')
           | Some p \<Rightarrow> fake_start uuid (shareURI (mi_Project p) (mi_Location p) (mi_Name p) (sh_Name obj)) ''update'' m'))"

definition fake_WaitForOpWithOpts :: "string \<Rightarrow> nat \<times> nat \<Rightarrow> (fakeServiceManager, unit) eff" where
  "fake_WaitForOpWithOpts opn opts = ret ()"

definition fake_GetOp :: "string \<Rightarrow> (fakeServiceManager, Operation option) eff" where
  "fake_GetOp opName = ret (Some \<lparr>op_Name = opName, op_Done = True, op_Error = None, op_Meta = None, op_CreateTime = []\<rparr>)"

definition fake_GetShare :: "Share \<Rightarrow> (fakeServiceManager, Share) eff" where
  "fake_GetShare obj m = (case mlookup (createdMultishares m) (sh_Name obj) of
       None \<Rightarrow> (Inl notFoundError, m) | Some s \<Rightarrow> (Inr s, m))"

definition fake_ListShares :: "ListFilter \<Rightarrow> (fakeServiceManager, Share list) eff" where
  "fake_ListShares flt m = (Inr (map snd (createdMultishares m)), m)"

definition fake_ListOps :: "ListFilter \<Rightarrow> (fakeServiceManager, Operation list) eff" where
  "fake_ListOps flt m = (Inr (multishareops m), m)"

definition AddMultishareOps :: "Operation list \<Rightarrow> fakeServiceManager \<Rightarrow> fakeServiceManager" where
  "AddMultishareOps ops m = m\<lparr>multishareops := multishareops m @ ops\<rparr>"

definition fake_service ::
  "(nat \<Rightarrow> string) \<Rightarrow> (BackupInfo \<Rightarrow> string) \<Rightarrow> (Backup \<Rightarrow> string) \<Rightarrow> fakeServiceManager Service" where
  "fake_service uuid show_info show_backup = \<lparr>
     svc_CreateInstance = fake_CreateInstance, svc_DeleteInstance = fake_DeleteInstance,
     svc_GetInstance = fake_GetInstance, svc_ListInstances = fake_ListInstances,
     svc_ResizeInstance = fake_ResizeInstance, svc_UpdateInstancePerformance = fake_UpdateInstancePerformance,
     svc_GetBackup = fake_GetBackup, svc_CreateBackup = fake_CreateBackup show_info show_backup,
     svc_DeleteBackup = fake_DeleteBackup, svc_HasOperations = fake_HasOperations,
     svc_GetMultishareInstance = fake_GetMultishareInstance,
     svc_ListMultishareInstances = fake_ListMultishareInstances,
     svc_StartCreateMultishareInstanceOp = fake_StartCreateMultishareInstanceOp uuid,
     svc_StartDeleteMultishareInstanceOp = fake_StartDeleteMultishareInstanceOp uuid,
     svc_StartResizeMultishareInstanceOp = fake_StartResizeMultishareInstanceOp uuid,
     svc_ListShares = fake_ListShares, svc_GetShare = fake_GetShare,
     svc_StartCreateShareOp = fake_StartCreateShareOp uuid,
     svc_StartDeleteShareOp = fake_StartDeleteShareOp uuid,
     svc_StartResizeShareOp = fake_StartResizeShareOp uuid,
     svc_WaitForOpWithOpts = fake_WaitForOpWithOpts, svc_GetOp = fake_GetOp, svc_ListOps = fake_ListOps\<rparr>"

section \<open>The contracts\<close>

text \<open>Instances: a read finds what is stored and changes nothing, and a successful create stores under
  the name an instance that the comparison of an idempotent create accepts.\<close>

locale instance_service =
  fixes stored :: "'w \<Rightarrow> string \<Rightarrow> ServiceInstance option"
    and create :: "ServiceInstance \<Rightarrow> ('w, ServiceInstance) eff"
    and get :: "ServiceInstance \<Rightarrow> ('w, ServiceInstance) eff"
  assumes get_state: "snd (get obj w) = w"
    and get_found: "stored w (si_Name obj) = Some i \<Longrightarrow> fst (get obj w) = Inr i"
    and get_missing: "stored w (si_Name obj) = None \<Longrightarrow> \<exists>e. fst (get obj w) = Inl e \<and> IsNotFoundErr e"
    and create_stores: "create obj w = (Inr i, w') \<Longrightarrow> stored w' = (stored w)(si_Name obj \<mapsto> i) \<and> si_State i = ''READY''"
    and create_matches: "create obj w = (Inr i, w') \<Longrightarrow> si_KmsKeyName obj = [] \<Longrightarrow> CompareInstances obj i = None"
begin

lemma get_after_create:
  assumes "create obj w = (Inr i, w')" "si_Name obj' = si_Name obj"
  shows "get obj' w' = (Inr i, w')"
proof -
  have "stored w' (si_Name obj') = Some i" using create_stores[OF assms(1)] assms(2) by simp
  from get_found[OF this] get_state[of obj' w'] show ?thesis by (metis prod.collapse)
qed

lemma get_other:
  assumes "create obj w = (Inr i, w')" "si_Name obj' \<noteq> si_Name obj" "stored w (si_Name obj') = Some j"
  shows "get obj' w' = (Inr j, w')"
proof -
  have "stored w' (si_Name obj') = Some j" using create_stores[OF assms(1)] assms(2,3) by simp
  from get_found[OF this] get_state[of obj' w'] show ?thesis by (metis prod.collapse)
qed

end

text \<open>Shares: what a start call of the service does to the shares it stores\<close>

locale share_service =
  fixes shares :: "'w \<Rightarrow> string \<Rightarrow> Share option"
    and get :: "Share \<Rightarrow> ('w, Share) eff"
    and start_create :: "Share \<Rightarrow> ('w, Operation) eff"
    and start_delete :: "Share \<Rightarrow> ('w, Operation) eff"
    and start_resize :: "Share \<Rightarrow> ('w, Operation) eff"
  assumes share_get: "get s w = (r, w') \<Longrightarrow> w' = w \<and>
      (case shares w (sh_Name s) of Some t \<Rightarrow> r = Inr t | None \<Rightarrow> (\<exists>e. r = Inl e \<and> IsNotFoundErr e))"
    and share_create: "start_create s w = (Inr opn, w') \<Longrightarrow>
      \<exists>t. shares w' = (shares w)(sh_Name s \<mapsto> t) \<and> sh_Name t = sh_Name s
        \<and> sh_CapacityBytes t = sh_CapacityBytes s \<and> sh_State t = ''READY''"
    and share_delete: "start_delete s w = (Inr opn, w') \<Longrightarrow> shares w' = (shares w)(sh_Name s := None)"
    and share_resize: "start_resize s w = (Inr opn, w') \<Longrightarrow>
      \<exists>t. shares w (sh_Name s) = Some t
        \<and> shares w' = (shares w)(sh_Name s \<mapsto> t\<lparr>sh_CapacityBytes := sh_CapacityBytes s\<rparr>)"
begin

lemma get_after_share_create:
  assumes "start_create s w = (Inr opn, w1)" "get s w1 = (r, w2)"
  shows "\<exists>t. r = Inr t \<and> sh_Name t = sh_Name s \<and> sh_CapacityBytes t = sh_CapacityBytes s \<and> sh_State t = ''READY''"
  using share_create[OF assms(1)] share_get[OF assms(2)] by auto

lemma get_after_share_delete:
  assumes "start_delete s w = (Inr opn, w1)" "get s w1 = (r, w2)"
  shows "\<exists>e. r = Inl e \<and> IsNotFoundErr e"
  using share_delete[OF assms(1)] share_get[OF assms(2)] by auto

lemma get_after_share_resize:
  assumes "start_resize s w = (Inr opn, w1)" "get s w1 = (r, w2)"
  shows "\<exists>t. r = Inr t \<and> sh_CapacityBytes t = sh_CapacityBytes s"
  using share_resize[OF assms(1)] share_get[OF assms(2)] by auto

end

lemma notFound [simp]: "IsNotFoundErr notFoundError" "IsNotFoundErr (GoogleApiErr n m [''notFound''])"
  by (simp_all add: notFoundError_def IsNotFoundErr_def)

lemma fake_matches: "si_KmsKeyName obj = [] \<Longrightarrow> CompareInstances obj (fake_instance obj) = None"
  by (simp add: CompareInstances_None fake_instance_def empty_service_instance_def)

lemma mlookup_upd: "mlookup (minsert k v m) = (mlookup m)(k \<mapsto> v)" "mlookup (mdelete k m) = (mlookup m)(k := None)"
  by (simp_all add: fun_eq_iff)

interpretation fake_instances: instance_service "\<lambda>m. mlookup (createdInstances m)" fake_CreateInstance fake_GetInstance
proof unfold_locales
  fix obj m i m'
  assume c: "fake_CreateInstance obj m = (Inr i, m')"
  then show "mlookup (createdInstances m') = (mlookup (createdInstances m))(si_Name obj \<mapsto> i) \<and> si_State i = ''READY''"
    by (auto simp: fake_CreateInstance_def fake_instance_def mlookup_upd)
  show "CompareInstances obj i = None" if "si_KmsKeyName obj = []"
    using c that fake_matches by (auto simp: fake_CreateInstance_def)
qed (auto simp: fake_GetInstance_def split: option.splits)

interpretation fake_shares: share_service "\<lambda>m. mlookup (createdMultishares m)" fake_GetShare
  "fake_StartCreateShareOp uuid" "fake_StartDeleteShareOp uuid" "fake_StartResizeShareOp uuid" for uuid
proof unfold_locales
  fix s m opn m'
  assume "fake_StartCreateShareOp uuid s m = (Inr opn, m')"
  then obtain p where "mlookup (createdMultishares m') = (mlookup (createdMultishares m))(sh_Name s \<mapsto> fake_share p s)"
    by (auto simp: fake_StartCreateShareOp_def fake_start_def fake_op_def mlookup_upd split: option.splits)
  then show "\<exists>t. mlookup (createdMultishares m') = (mlookup (createdMultishares m))(sh_Name s \<mapsto> t) \<and> sh_Name t = sh_Name s
        \<and> sh_CapacityBytes t = sh_CapacityBytes s \<and> sh_State t = ''READY''"
    by (intro exI[of _ "fake_share p s"]) (simp add: fake_share_def)
next
  fix s m opn m'
  assume "fake_StartDeleteShareOp uuid s m = (Inr opn, m')"
  then show "mlookup (createdMultishares m') = (mlookup (createdMultishares m))(sh_Name s := None)"
    by (auto simp: fake_StartDeleteShareOp_def fake_start_def fake_op_def Let_def mlookup_upd split: option.splits)
next
  fix s m opn m'
  assume "fake_StartResizeShareOp uuid s m = (Inr opn, m')"
  then show "\<exists>t. mlookup (createdMultishares m) (sh_Name s) = Some t
        \<and> mlookup (createdMultishares m') = (mlookup (createdMultishares m))(sh_Name s \<mapsto> t\<lparr>sh_CapacityBytes := sh_CapacityBytes s\<rparr>)"
    by (auto simp: fake_StartResizeShareOp_def fake_start_def fake_op_def Let_def mlookup_upd split: option.splits)
qed (auto simp: fake_GetShare_def split: option.splits)

end
