(* ===== verification/Ip_Net.thy ===== *)
theory Ip_Net
  imports Error_Codes "HOL-Library.Word"
begin

unbundle bit_operations_syntax

text \<open>
  What the driver uses of Go's package \<open>net\<close> for IPv4: addresses as \<open>32 word\<close>s, networks as an
  address with a prefix length, masking, containment, and the text forms (dotted decimal, CIDR)
  parsed and printed as the library does. Filestore ranges are IPv4; the IPv6 forms
  \<open>net.ParseCIDR\<close> knows are not modelled. The lemmas read a mask as a division and show that
  printing and parsing are inverse.
\<close>

section \<open>Addresses and networks of package net\<close>

type_synonym ip = "32 word"
type_synonym ipnet = "32 word \<times> nat"

text \<open>\<open>net.CIDRMask(n, 32)\<close>, \<open>IP.Mask\<close> and \<open>IPNet.Contains\<close>\<close>

definition CIDRMask :: "nat \<Rightarrow> ip" where
  "CIDRMask n = NOT (mask (32 - n))"

definition ip_mask :: "nat \<Rightarrow> ip \<Rightarrow> ip" where
  "ip_mask n a = a AND CIDRMask n"

definition net_contains :: "ipnet \<Rightarrow> ip \<Rightarrow> bool" where
  "net_contains net a = (ip_mask (snd net) (fst net) = ip_mask (snd net) a)"

definition ip_byte :: "nat \<Rightarrow> ip \<Rightarrow> nat" where
  "ip_byte i a = unat (drop_bit (8 * i) a AND 255)"

definition show_ip :: "ip \<Rightarrow> string" where
  "show_ip a = join ''.'' (map show_nat [ip_byte 3 a, ip_byte 2 a, ip_byte 1 a, ip_byte 0 a])"

text \<open>An octet of \<open>netip.ParseAddr\<close>: digits, no leading zero, at most 255\<close>

definition parse_octet :: "string \<Rightarrow> nat option" where
  "parse_octet s =
     (if s \<noteq> [] \<and> list_all is_digit s \<and> (length s = 1 \<or> hd s \<noteq> CHR ''0'') \<and> dec_val s \<le> 255
      then Some (dec_val s) else None)"

definition ip_of_bytes :: "nat \<Rightarrow> nat \<Rightarrow> nat \<Rightarrow> nat \<Rightarrow> ip" where
  "ip_of_bytes v0 v1 v2 v3 = of_nat v0 * 2 ^ 24 + of_nat v1 * 2 ^ 16 + of_nat v2 * 2 ^ 8 + of_nat v3"

definition parse_ipv4 :: "string \<Rightarrow> ip option" where
  "parse_ipv4 s = (case map parse_octet (split (CHR ''.'') s) of
       [Some v0, Some v1, Some v2, Some v3] \<Rightarrow> Some (ip_of_bytes v0 v1 v2 v3)
     | _ \<Rightarrow> None)"

text \<open>\<open>net.ParseCIDR\<close>: the address before the first slash, a decimal prefix length after it\<close>

definition net_ParseCIDR :: "string \<Rightarrow> go_error + ip \<times> ipnet" where
  "net_ParseCIDR s =
     (let addr = takeWhile (\<lambda>c. c \<noteq> CHR ''/'') s;
          rest = dropWhile (\<lambda>c. c \<noteq> CHR ''/'') s;
          msk = tl rest;
          err = Inl (ErrText (''invalid CIDR address: '' @ s)) in
      if rest = [] then err
      else (case parse_ipv4 addr of
              None \<Rightarrow> err
            | Some a \<Rightarrow>
                if msk = [] \<or> \<not> list_all is_digit msk \<or> 32 < dec_val msk then err
                else Inr (a, (ip_mask (dec_val msk) a, dec_val msk))))"

text \<open>The text of a range, an address with a prefix length\<close>

definition show_range :: "ip \<Rightarrow> nat \<Rightarrow> string" where
  "show_range a n = show_ip a @ ''/'' @ show_nat n"

section \<open>Masks as divisions\<close>

text \<open>The block of a prefix length an address lies in\<close>

definition blk :: "nat \<Rightarrow> ip \<Rightarrow> nat" where
  "blk n a = unat a div 2 ^ (32 - n)"

lemma unat_32: "unat (a :: ip) < 2 ^ 32"
  using unsigned_less[of a] by simp

lemma ip_mask_shift: "ip_mask n a = push_bit (32 - n) (drop_bit (32 - n) a)"
  unfolding ip_mask_def CIDRMask_def
  by (rule bit_eqI) (auto simp: bit_simps)

lemma unat_ip_mask: "unat (ip_mask n a) = blk n a * 2 ^ (32 - n)"
proof -
  have "unat a div 2 ^ (32 - n) * 2 ^ (32 - n) \<le> unat a" by simp
  also have "unat a < 2 ^ 32" using unsigned_less[of a] by simp
  finally have "unat a div 2 ^ (32 - n) * 2 ^ (32 - n) < 2 ^ 32" .
  moreover have "unat (ip_mask n a) = take_bit 32 (push_bit (32 - n) (drop_bit (32 - n) (unat a)))"
    using unat_32[of a]
    by (simp add: ip_mask_shift unsigned_push_bit_eq unsigned_drop_bit_eq take_bit_nat_eq_self)
  ultimately show ?thesis
    by (simp add: blk_def push_bit_eq_mult drop_bit_eq_div take_bit_eq_mod)
qed

lemma ip_mask_eq_iff: "ip_mask n a = ip_mask n b \<longleftrightarrow> blk n a = blk n b"
  by (metis unat_ip_mask word_unat_eq_iff mult_cancel2 power_not_zero zero_neq_numeral)

lemma blk_mask [simp]: "blk n (ip_mask n a) = blk n a"
  by (simp add: blk_def unat_ip_mask)

lemma net_contains_iff: "net_contains (a, n) b \<longleftrightarrow> blk n a = blk n b"
  by (simp add: net_contains_def ip_mask_eq_iff)

lemma blk_coarser: "m \<le> n \<Longrightarrow> n \<le> 32 \<Longrightarrow> blk n a = blk n b \<Longrightarrow> blk m a = blk m b"
proof -
  assume mn: "m \<le> n" "n \<le> 32" and eq: "blk n a = blk n b"
  have "(2::nat) ^ (32 - m) = 2 ^ (32 - n) * 2 ^ (n - m)"
    using mn by (simp flip: power_add)
  then have "blk m x = blk n x div 2 ^ (n - m)" for x
    by (simp add: blk_def div_mult2_eq)
  then show ?thesis using eq by simp
qed

lemma aligned_iff: "ip_mask n a = a \<longleftrightarrow> 2 ^ (32 - n) dvd unat a"
  by (metis blk_def dvd_div_mult_self dvd_triv_right unat_ip_mask word_unat_eq_iff)

section \<open>Text forms\<close>

lemma hd_show_nat: "0 < n \<Longrightarrow> hd (show_nat n) \<noteq> CHR ''0''"
proof (induction n rule: show_nat.induct)
  case (1 n)
  show ?case
  proof (cases "n < 10")
    case True
    have "digit_char n \<noteq> CHR ''0''"
    proof
      assume "digit_char n = CHR ''0''"
      then have "of_char (digit_char n) = (48::nat)" by simp
      then show False using True 1(2) by simp
    qed
    then show ?thesis using True by (simp add: show_nat.simps)
  next
    case False
    then show ?thesis using 1(1) by (subst show_nat.simps) simp
  qed
qed

lemma show_nat_chars: "c \<in> set (show_nat n) \<Longrightarrow> is_digit c"
  using show_nat_digits by blast

lemma show_nat_no [simp]: "CHR ''.'' \<notin> set (show_nat n)" "CHR ''/'' \<notin> set (show_nat n)"
  using show_nat_chars[of "CHR ''.''" n] show_nat_chars[of "CHR ''/''" n]
  by (auto simp: is_digit_def)

lemma parse_octet_show [simp]: "n \<le> 255 \<Longrightarrow> parse_octet (show_nat n) = Some n"
  using show_nat_digits[of n] hd_show_nat[of n] dec_val_show_nat[of n]
  by (cases "n = 0") (auto simp: parse_octet_def list_all_iff show_nat.simps[of 0] simp del: dec_val_show_nat)

lemma ip_byte_div: "ip_byte i a = unat a div 2 ^ (8 * i) mod 256"
proof -
  have "drop_bit (8 * i) a AND 255 = take_bit 8 (drop_bit (8 * i) a)"
    by (simp add: take_bit_eq_mask mask_eq_exp_minus_1)
  moreover have "unat (take_bit 8 (drop_bit (8 * i) a)) = take_bit 8 (drop_bit (8 * i) (unat a))"
    using unat_32[of a]
    by (simp add: unsigned_take_bit_eq unsigned_drop_bit_eq take_bit_nat_eq_self)
  ultimately show ?thesis
    by (simp add: ip_byte_def drop_bit_eq_div take_bit_eq_mod)
qed

lemma ip_byte_le [simp]: "ip_byte i a \<le> 255"
  by (simp add: ip_byte_div flip: less_Suc_eq_le)

lemma bytes_lin: "u = a * 256 + r0 \<Longrightarrow> a = b * 256 + r1 \<Longrightarrow> b = c * 256 + r2 \<Longrightarrow>
    c * 16777216 + r2 * 65536 + r1 * 256 + r0 = (u::nat)"
  by simp

lemmas bytes_sum = bytes_lin[OF div_mult_mod_eq[symmetric] div_mult_mod_eq[symmetric] div_mult_mod_eq[symmetric]]

lemma ip_of_bytes_ip_byte: "ip_of_bytes (ip_byte 3 a) (ip_byte 2 a) (ip_byte 1 a) (ip_byte 0 a) = a"
proof -
  have "unat a < 2 ^ 32" using unat_32[of a] by simp
  moreover have "unat a div 65536 = unat a div 256 div 256" "unat a div 16777216 = unat a div 256 div 256 div 256"
    by (simp_all add: div_mult2_eq[symmetric])
  moreover have "unat a div 256 div 256 div 256 mod 256 = unat a div 256 div 256 div 256"
    using unat_32[of a] by simp
  ultimately have "ip_byte 3 a * 2 ^ 24 + ip_byte 2 a * 2 ^ 16 + ip_byte 1 a * 2 ^ 8 + ip_byte 0 a = unat a"
    using bytes_sum[of "unat a"] by (simp only: ip_byte_div) simp
  moreover have "ip_of_bytes v0 v1 v2 v3 = of_nat (v0 * 2 ^ 24 + v1 * 2 ^ 16 + v2 * 2 ^ 8 + v3)" for v0 v1 v2 v3
    by (simp add: ip_of_bytes_def)
  ultimately show ?thesis by (simp only: of_nat_unat) simp
qed

lemma parse_ipv4_show [simp]: "parse_ipv4 (show_ip a) = Some a"
  by (simp add: parse_ipv4_def show_ip_def split_join ip_of_bytes_ip_byte[simplified] del: join.simps)

lemma show_ip_inject [simp]: "show_ip a = show_ip b \<longleftrightarrow> a = b"
  by (metis parse_ipv4_show option.inject)

lemma show_ip_no_slash: "CHR ''/'' \<notin> set (show_ip a)"
  by (auto simp: show_ip_def)

lemma net_ParseCIDR_show [simp]:
  assumes "n \<le> 32"
  shows "net_ParseCIDR (show_range a n) = Inr (a, (ip_mask n a, n))"
proof -
  have "takeWhile (\<lambda>c. c \<noteq> CHR ''/'') (show_range a n) = show_ip a"
    "dropWhile (\<lambda>c. c \<noteq> CHR ''/'') (show_range a n) = CHR ''/'' # show_nat n"
    using show_ip_no_slash[of a]
    by (auto simp: show_range_def takeWhile_append dropWhile_append)
  then show ?thesis
    using assms show_nat_digits[of n] by (simp add: net_ParseCIDR_def Let_def list_all_iff)
qed

lemma show_range_inject: "n \<le> 32 \<Longrightarrow> show_range a n = show_range b n \<longleftrightarrow> a = b"
  by (metis net_ParseCIDR_show sum.inject(2) prod.inject)

lemma net_ParseCIDR_prefix: "net_ParseCIDR s = Inr (a, (b, n)) \<Longrightarrow> n \<le> 32 \<and> b = ip_mask n a"
  by (auto simp: net_ParseCIDR_def Let_def split: if_splits option.splits)

end
