(* ===== verification/Ip_Reservation.thy ===== *)
theory Ip_Reservation
  imports Ip_Net
begin

unbundle bit_operations_syntax

text \<open>
  \<open>pkg/util/ip_reservation.go\<close> and \<open>ip_def.go\<close>: the allocator of reserved IP ranges for new
  Filestore instances. A map ranged over by the code is a list in iteration order; the scan of a
  CIDR is a loop that could run for ever, so it is a partial function whose value None means
  that it does not end, and the theorems show that it does.
\<close>

section \<open>The allocator\<close>

record IPAllocator =
  pendingIPRanges :: "(string, bool) gomap"

definition NewIPAllocator :: "(string, bool) gomap \<Rightarrow> IPAllocator" where
  "NewIPAllocator m = \<lparr>pendingIPRanges = fold (\<lambda>k acc. minsert k True acc) (keys m) []\<rparr>"

definition holdIPRange :: "string \<Rightarrow> IPAllocator \<Rightarrow> IPAllocator" where
  "holdIPRange ipRange al = al\<lparr>pendingIPRanges := minsert ipRange True (pendingIPRanges al)\<rparr>"

definition ReleaseIPRange :: "string \<Rightarrow> IPAllocator \<Rightarrow> IPAllocator" where
  "ReleaseIPRange ipRange al = al\<lparr>pendingIPRanges := mdelete ipRange (pendingIPRanges al)\<rparr>"

definition isOverlap :: "ipnet option \<Rightarrow> ipnet option \<Rightarrow> go_error + bool" where
  "isOverlap ipnet1 ipnet2 =
     (case (ipnet1, ipnet2) of
        (Some n1, Some n2) \<Rightarrow> Inr (net_contains n1 (fst n2) \<or> net_contains n2 (fst n1))
      | _ \<Rightarrow> Inl (ErrText ''invalid ipnet object provided for cidr overlap check''))"

definition parseCIDR :: "string \<Rightarrow> nat \<Rightarrow> go_error + ip \<times> ipnet" where
  "parseCIDR cidr ipRangeSize =
     (case net_ParseCIDR cidr of
        Inl e \<Rightarrow> Inl e
      | Inr (a, net) \<Rightarrow>
          if snd net > ipRangeSize
          then Inl (ErrText (''the reserved-ipv4-cidr network size must be at least /'' @ show_nat ipRangeSize))
          else if show_ip a \<noteq> show_ip (ip_mask ipRangeSize a)
          then Inl (ErrText (''the IP specified in the reserved-ipv4-cidr must be aligned on the /''
                 @ show_nat ipRangeSize @ '' network boundary''))
          else Inr (a, net))"

text \<open>\<open>incrementIP\<close>: the sum is taken in uint32 and a wrapped sum is an error\<close>

definition incrementIP :: "ip \<Rightarrow> 32 word \<Rightarrow> go_error + ip" where
  "incrementIP a step =
     (let newIpValue = a + step in
      if newIpValue < a
      then Inl (ErrText (''ip range overflowed while incrementing IP '' @ show_ip a @ '' by step '' @ show_nat (unat step)))
      else Inr newIpValue)"

text \<open>The inner loop: the first reserved range (in iteration order) that does not parse is an
  error, the first that overlaps ends the loop\<close>

fun overlap_any :: "string list \<Rightarrow> ipnet \<Rightarrow> go_error + bool" where
  "overlap_any [] cidrIPNet = Inr False"
| "overlap_any (r # rs) cidrIPNet =
     (case net_ParseCIDR r of
        Inl e \<Rightarrow> Inl e
      | Inr (_, reservedIPNet) \<Rightarrow>
          (case isOverlap (Some cidrIPNet) (Some reservedIPNet) of
             Inl e \<Rightarrow> Inl e
           | Inr overLap \<Rightarrow> if overLap then Inr True else overlap_any rs cidrIPNet))"

text \<open>The outer loop. \<open>None\<close> outside is a loop that does not end, \<open>Inr None\<close> is leaving the loop
  without a range.\<close>

partial_function (option) scan ::
  "string list \<Rightarrow> nat \<Rightarrow> ipnet \<Rightarrow> ip \<Rightarrow> (go_error + ip option) option" where
  "scan reserved ipRangeSize net cidrIP =
     (if \<not> net_contains net cidrIP then Some (Inr None)
      else (case overlap_any reserved (cidrIP, ipRangeSize) of
              Inl e \<Rightarrow> Some (Inl e)
            | Inr overLap \<Rightarrow>
                if \<not> overLap then Some (Inr (Some cidrIP))
                else (case incrementIP cidrIP (2 ^ (32 - ipRangeSize)) of
                        Inl e \<Rightarrow> Some (Inr None)
                      | Inr next \<Rightarrow> scan reserved ipRangeSize net next)))"

definition reserved_union :: "(string, bool) gomap \<Rightarrow> (string, bool) gomap \<Rightarrow> (string, bool) gomap" where
  "reserved_union cloud pending =
     fold (\<lambda>k acc. minsert k True acc) (keys pending) (fold (\<lambda>k acc. minsert k True acc) (keys cloud) [])"

definition GetUnreservedIPRange ::
  "string \<Rightarrow> nat \<Rightarrow> (string, bool) gomap \<Rightarrow> IPAllocator \<Rightarrow> ((go_error + string) \<times> IPAllocator) option" where
  "GetUnreservedIPRange cidr ipRangeSize cloud al =
     (case parseCIDR cidr ipRangeSize of
        Inl e \<Rightarrow> Some (Inl e, al)
      | Inr (a, net) \<Rightarrow>
          (case scan (keys (reserved_union cloud (pendingIPRanges al))) ipRangeSize net (ip_mask (snd net) a) of
             None \<Rightarrow> None
           | Some (Inl e) \<Rightarrow> Some (Inl e, al)
           | Some (Inr None) \<Rightarrow>
               Some (Inl (ErrText (''all of the /'' @ show_nat ipRangeSize @ '' IP ranges in the cidr '' @ cidr @ '' are reserved'')), al)
           | Some (Inr (Some cidrIP)) \<Rightarrow>
               (let ipRange = show_range cidrIP ipRangeSize in
                Some (Inr ipRange, holdIPRange ipRange al))))"

text \<open>\<open>IpRangeSize\<close> constants of \<open>ip_def.go\<close>\<close>

definition IpRangeSize :: nat where "IpRangeSize = 29"
definition IpRangeSizeEnterprise :: nat where "IpRangeSizeEnterprise = 26"
definition IpRangeSizeHighScale :: nat where "IpRangeSizeHighScale = 24"

text \<open>The addresses of a network, and overlap as a non-empty intersection\<close>

definition addrs :: "ipnet \<Rightarrow> ip set" where
  "addrs net = {x. net_contains net x}"

lemma isOverlap_iff:
  assumes "m \<le> 32" "n \<le> 32"
  shows "isOverlap (Some (a, m)) (Some (b, n)) = Inr (addrs (a, m) \<inter> addrs (b, n) \<noteq> {})"
proof -
  have "addrs (a, m) \<inter> addrs (b, n) \<noteq> {} \<longleftrightarrow> blk m a = blk m b \<or> blk n b = blk n a"
  proof
    assume "addrs (a, m) \<inter> addrs (b, n) \<noteq> {}"
    then obtain x where "blk m a = blk m x" "blk n b = blk n x"
      by (auto simp: addrs_def net_contains_iff)
    then show "blk m a = blk m b \<or> blk n b = blk n a"
      using blk_coarser[of m n x b] blk_coarser[of n m x a] assms by (cases "m \<le> n") auto
  next
    assume "blk m a = blk m b \<or> blk n b = blk n a"
    then have "b \<in> addrs (a, m) \<inter> addrs (b, n) \<or> a \<in> addrs (a, m) \<inter> addrs (b, n)"
      by (auto simp: addrs_def net_contains_iff)
    then show "addrs (a, m) \<inter> addrs (b, n) \<noteq> {}" by blast
  qed
  then show ?thesis by (simp add: isOverlap_def net_contains_iff)
qed

section \<open>The scan\<close>

lemma unat_step: assumes "1 \<le> n" "n \<le> 32" shows "unat (2 ^ (32 - n) :: ip) = 2 ^ (32 - n)"
proof -
  have "(2::nat) ^ (32 - n) < 2 ^ 32" using assms by (intro power_strict_increasing) simp_all
  moreover have "(2 ^ (32 - n) :: ip) = of_nat (2 ^ (32 - n))" by simp
  ultimately show ?thesis
    using assms by (simp only: unsigned_of_nat take_bit_nat_eq_self) (simp add: take_bit_nat_eq_self)
qed

lemma unat_plus_ip: "unat (a + b :: ip) = (unat a + unat b) mod 2 ^ 32"
  by (simp add: unat_word_ariths)

lemma plus_wraps_iff: "(a + b < (a :: ip)) = (2 ^ 32 \<le> unat a + unat b)"
proof (cases "2 ^ 32 \<le> unat a + unat b")
  case True
  then have "(unat a + unat b) mod 2 ^ 32 = unat a + unat b - 2 ^ 32"
    using unat_32[of a] unat_32[of b] by (simp add: mod_if)
  then show ?thesis using True unat_32[of b] unat_32[of a] by (simp add: word_less_nat_alt unat_plus_ip)
next
  case False
  then show ?thesis by (simp add: word_less_nat_alt unat_plus_ip)
qed

lemma incrementIP_cases:
  assumes "1 \<le> n" "n \<le> 32"
  obtains (ok) b where "unat a + 2 ^ (32 - n) < 2 ^ 32" "incrementIP a (2 ^ (32 - n)) = Inr b"
      "unat b = unat a + 2 ^ (32 - n)"
    | (wrapped) e where "2 ^ 32 \<le> unat a + 2 ^ (32 - n)" "incrementIP a (2 ^ (32 - n)) = Inl e"
proof (cases "2 ^ 32 \<le> unat a + 2 ^ (32 - n)")
  case True
  then show ?thesis
    using wrapped by (simp add: incrementIP_def Let_def plus_wraps_iff unat_step[OF assms])
next
  case False
  then show ?thesis
    using ok by (simp add: incrementIP_def Let_def plus_wraps_iff unat_step[OF assms] unat_plus_ip)
qed

lemma scan_induct [case_names step]:
  assumes n: "1 \<le> n" "n \<le> 32"
    and "\<And>a. (\<And>b. incrementIP a (2 ^ (32 - n)) = Inr b \<Longrightarrow> unat b = unat a + 2 ^ (32 - n) \<Longrightarrow> P b) \<Longrightarrow> P a"
  shows "P (a :: ip)"
proof (induction "2 ^ 32 - unat a" arbitrary: a rule: less_induct)
  case less
  show ?case
  proof (rule assms(3))
    fix b
    assume "incrementIP a (2 ^ (32 - n)) = Inr b" "unat b = unat a + 2 ^ (32 - n)"
    moreover have "(0::nat) < 2 ^ (32 - n)" by simp
    ultimately show "P b" using unat_32[of a] by (intro less) linarith
  qed
qed

lemma scan_total:
  assumes n: "1 \<le> n" "n \<le> 32"
  shows "scan rs n net a \<noteq> None"
proof (induction a rule: scan_induct[OF n])
  case (1 a)
  show ?case
    by (subst scan.simps, cases rule: incrementIP_cases[OF n, of a]) (auto split: sum.split dest: 1)
qed

lemma scan_sound:
  assumes n: "1 \<le> n" "n \<le> 32"
  shows "scan rs n net a = Some (Inr (Some x)) \<Longrightarrow>
     net_contains net x \<and> overlap_any rs (x, n) = Inr False \<and> 2 ^ (32 - n) dvd unat x - unat a \<and> unat a \<le> unat x"
proof (induction a rule: scan_induct[OF n])
  case (1 a)
  show ?case
  proof (cases "overlap_any rs (a, n) = Inr True \<and> net_contains net a")
    case True
    then obtain b where b: "unat b = unat a + 2 ^ (32 - n)" "incrementIP a (2 ^ (32 - n)) = Inr b"
        "scan rs n net b = Some (Inr (Some x))"
      using 1(2) by (cases rule: incrementIP_cases[OF n, of a]; subst (asm) scan.simps) auto
    then have "net_contains net x \<and> overlap_any rs (x, n) = Inr False \<and> 2 ^ (32 - n) dvd unat x - unat b \<and> unat b \<le> unat x"
      using 1(1) by blast
    moreover from this b(1) have "unat x - unat a = unat x - unat b + 2 ^ (32 - n)" by linarith
    ultimately show ?thesis
      using b(1) dvd_add[of "2 ^ (32 - n)" "unat x - unat b" "2 ^ (32 - n)"] by simp
  next
    case False
    then show ?thesis
      using 1(2) by (subst (asm) scan.simps) (auto split: sum.splits if_splits)
  qed
qed

lemma scan_complete:
  assumes n: "1 \<le> n" "n \<le> 32"
  shows "scan rs n (base, m) a = Some (Inr None) \<Longrightarrow> blk m base \<le> blk m a \<Longrightarrow>
     unat a \<le> unat x \<Longrightarrow> 2 ^ (32 - n) dvd unat x - unat a \<Longrightarrow> net_contains (base, m) x \<Longrightarrow>
     overlap_any rs (x, n) = Inr True"
proof (induction a rule: scan_induct[OF n])
  case (1 a)
  have mono: "unat p \<le> unat q \<Longrightarrow> blk m p \<le> blk m q" for p q :: ip by (simp add: blk_def div_le_mono)
  have in_a: "net_contains (base, m) a"
    using 1(3,4,6) mono[of a x] by (simp add: net_contains_iff)
  then have ov: "overlap_any rs (a, n) = Inr True"
    using 1(2) by (subst (asm) scan.simps) (auto split: sum.splits if_splits)
  show ?case
  proof (cases "x = a")
    case False
    then have "unat x - unat a \<noteq> 0" using 1(4) by (metis word_unat_eq_iff diff_is_0_eq le_antisym)
    with 1(5) have "2 ^ (32 - n) \<le> unat x - unat a" by (metis dvd_imp_le neq0_conv)
    with 1(4) have ge: "unat a + 2 ^ (32 - n) \<le> unat x" by linarith
    then obtain b where b: "incrementIP a (2 ^ (32 - n)) = Inr b" "unat b = unat a + 2 ^ (32 - n)"
      using unat_32[of x] by (cases rule: incrementIP_cases[OF n, of a]) auto
    have "scan rs n (base, m) b = Some (Inr None)"
      using 1(2) in_a ov b(1) by (subst (asm) scan.simps) simp
    moreover have "blk m base \<le> blk m b" using 1(3) mono[of a b] b(2) by simp
    moreover have "2 ^ (32 - n) dvd unat x - unat b"
      using 1(5) ge b(2) by (metis dvd_diff_nat dvd_refl diff_diff_left)
    ultimately show ?thesis using 1(1)[OF b] 1(6) ge b(2) by simp
  qed (simp add: ov)
qed

lemma overlap_any_Inl: "overlap_any rs c = Inl e \<Longrightarrow> \<exists>r \<in> set rs. net_ParseCIDR r = Inl e"
  by (induction rs c rule: overlap_any.induct) (auto simp: isOverlap_def split: sum.splits if_splits)

lemma scan_Inl:
  assumes n: "1 \<le> n" "n \<le> 32"
  shows "scan rs n net a = Some (Inl e) \<Longrightarrow> \<exists>r \<in> set rs. net_ParseCIDR r = Inl e"
proof (induction a rule: scan_induct[OF n])
  case (1 a)
  show ?case
  proof (cases "overlap_any rs (a, n) = Inr True \<and> net_contains net a")
    case True
    then show ?thesis
      using 1 by (cases rule: incrementIP_cases[OF n, of a]; subst (asm) (2) scan.simps) auto
  next
    case False
    then show ?thesis
      using 1(2) overlap_any_Inl[of rs "(a, n)" e] by (subst (asm) scan.simps) (auto split: sum.splits if_splits)
  qed
qed

section \<open>What the allocator promises\<close>

text \<open>The addresses a range text denotes\<close>

definition range_addrs :: "string \<Rightarrow> ip set" where
  "range_addrs s = (case net_ParseCIDR s of Inl e \<Rightarrow> {} | Inr (a, net) \<Rightarrow> addrs net)"

definition reserved_keys :: "(string, bool) gomap \<Rightarrow> IPAllocator \<Rightarrow> string set" where
  "reserved_keys cloud al = set (keys cloud) \<union> set (keys (pendingIPRanges al))"

lemma keys_fold_insert: "set (keys (fold (\<lambda>k acc. minsert k True acc) ks m)) = set ks \<union> set (keys m)"
  by (induction ks arbitrary: m) auto

lemma keys_reserved_union [simp]:
  "set (keys (reserved_union cloud (pendingIPRanges al))) = reserved_keys cloud al"
  by (auto simp: reserved_union_def keys_fold_insert reserved_keys_def)

lemma range_addrs_show [simp]: "n \<le> 32 \<Longrightarrow> range_addrs (show_range a n) = addrs (a, n)"
  by (auto simp: range_addrs_def addrs_def net_contains_iff)

lemma self_in_addrs [simp]: "a \<in> addrs (a, n)"
  by (simp add: addrs_def net_contains_iff)

lemma isOverlap_range:
  assumes "n \<le> 32" "net_ParseCIDR r = Inr (b, net)"
  shows "isOverlap (Some (x, n)) (Some net) = Inr (range_addrs r \<inter> addrs (x, n) \<noteq> {})"
  using assms net_ParseCIDR_prefix[of r b "fst net" "snd net"] isOverlap_iff[of n "snd net" x "fst net"]
  by (cases net) (simp add: range_addrs_def Int_commute)

lemma overlap_any_True:
  "n \<le> 32 \<Longrightarrow> overlap_any rs (x, n) = Inr True \<Longrightarrow> \<exists>r \<in> set rs. range_addrs r \<inter> addrs (x, n) \<noteq> {}"
  by (induction rs) (auto simp: isOverlap_range split: sum.splits if_splits)

lemma overlap_any_False:
  "n \<le> 32 \<Longrightarrow> overlap_any rs (x, n) = Inr False \<longleftrightarrow>
     (\<forall>r \<in> set rs. (\<exists>v. net_ParseCIDR r = Inr v) \<and> range_addrs r \<inter> addrs (x, n) = {})"
  by (induction rs) (auto simp: isOverlap_range split: sum.splits if_splits)

lemma parseCIDR_Inr:
  "parseCIDR cidr n = Inr (a, net) \<longleftrightarrow>
     net_ParseCIDR cidr = Inr (a, net) \<and> snd net \<le> n \<and> ip_mask n a = a"
  by (auto simp: parseCIDR_def split: sum.splits if_splits)

lemma addrs_mono: "m \<le> n \<Longrightarrow> n \<le> 32 \<Longrightarrow> net_contains (base, m) x \<Longrightarrow> addrs (x, n) \<subseteq> addrs (base, m)"
proof
  fix y
  assume "m \<le> n" "n \<le> 32" "net_contains (base, m) x" "y \<in> addrs (x, n)"
  then show "y \<in> addrs (base, m)"
    using blk_coarser[of m n x y] by (simp add: addrs_def net_contains_iff)
qed

lemma network_aligned: "m \<le> n \<Longrightarrow> n \<le> 32 \<Longrightarrow> 2 ^ (32 - n) dvd unat (ip_mask m a)"
  by (simp add: unat_ip_mask le_imp_power_dvd dvd_mult)

lemma aligned_dvd_diff:
  fixes a x :: ip
  assumes "d dvd unat a" "unat a \<le> unat x"
  shows "d dvd unat x - unat a \<longleftrightarrow> d dvd unat x"
  using assms by (metis dvd_diff_nat dvd_diffD)

lemma GetUnreservedIPRange_Inr:
  assumes n: "1 \<le> n" "n \<le> 32" and "GetUnreservedIPRange cidr n cloud al = Some (Inr r, al')"
  obtains a base m x where "parseCIDR cidr n = Inr (a, (base, m))" "r = show_range x n"
    "net_contains (base, m) x" "ip_mask n x = x" "al' = holdIPRange r al"
    "\<forall>s \<in> reserved_keys cloud al. (\<exists>v. net_ParseCIDR s = Inr v) \<and> range_addrs s \<inter> addrs (x, n) = {}"
proof -
  obtain a base m x where p: "parseCIDR cidr n = Inr (a, (base, m))"
    and sc: "scan (keys (reserved_union cloud (pendingIPRanges al))) n (base, m) (ip_mask m a) = Some (Inr (Some x))"
    and r: "r = show_range x n" "al' = holdIPRange r al"
    using assms(3) by (auto simp: GetUnreservedIPRange_def Let_def split: sum.splits option.splits)
  have "2 ^ (32 - n) dvd unat (ip_mask m a)"
    using p n(2) by (simp add: parseCIDR_Inr network_aligned)
  then have "ip_mask n x = x"
    using scan_sound[OF n sc] aligned_dvd_diff aligned_iff by blast
  then show ?thesis
    using that[OF p r(1) _ _ r(2)] scan_sound[OF n sc] overlap_any_False[OF n(2)] by simp
qed

text \<open>What a reserved range guarantees. When \<open>GetUnreservedIPRange\<close> returns a range, that range is
  aligned, lies entirely inside the requested CIDR, shares no address with any range reserved by
  the existing instances or held by the requests in flight, was not held before, and is the one
  range the allocator adds to those it holds.\<close>

theorem GetUnreservedIPRange_sound:
  assumes "1 \<le> n" "n \<le> 32" "GetUnreservedIPRange cidr n cloud al = Some (Inr r, al')"
  shows "\<exists>x. r = show_range x n \<and> ip_mask n x = x \<and> range_addrs r = addrs (x, n)
    \<and> range_addrs r \<subseteq> range_addrs cidr
    \<and> (\<forall>s \<in> reserved_keys cloud al. range_addrs s \<inter> range_addrs r = {})
    \<and> r \<notin> set (keys (pendingIPRanges al))
    \<and> set (keys (pendingIPRanges al')) = insert r (set (keys (pendingIPRanges al)))"
proof -
  obtain a base m x where x: "parseCIDR cidr n = Inr (a, (base, m))" "r = show_range x n"
    "net_contains (base, m) x" "ip_mask n x = x" "al' = holdIPRange r al"
    "\<forall>s \<in> reserved_keys cloud al. (\<exists>v. net_ParseCIDR s = Inr v) \<and> range_addrs s \<inter> addrs (x, n) = {}"
    by (rule GetUnreservedIPRange_Inr[OF assms])
  have "range_addrs cidr = addrs (base, m)" "m \<le> n"
    using x(1) by (simp_all add: parseCIDR_Inr range_addrs_def)
  moreover have "r \<notin> reserved_keys cloud al"
    using x(2,6) assms(2) self_in_addrs[of x n] by (metis IntI empty_iff range_addrs_show)
  ultimately show ?thesis
    using x assms(2) addrs_mono[of m n base x]
    by (intro exI[of _ x]) (auto simp: holdIPRange_def reserved_keys_def)
qed

lemma parse_examples:
  "net_ParseCIDR ''10.0.0.0/28'' = Inr (0x0A000000, (0x0A000000, 28))"
  "net_ParseCIDR ''10.0.0.0/29'' = Inr (0x0A000000, (0x0A000000, 29))"
  "net_ParseCIDR ''10.0.0.0/24'' = Inr (0x0A000000, (0x0A000000, 24))"
proof -
  have b: "[ip_byte 3 0x0A000000, ip_byte 2 0x0A000000, ip_byte 1 0x0A000000, ip_byte 0 0x0A000000] = [10, 0, 0, 0]"
    by (simp add: ip_byte_div)
  have "show_ip 0x0A000000 = ''10.0.0.0''"
    unfolding show_ip_def b by (simp add: show_nat.simps digit_chars)
  moreover have "show_nat 28 = ''28''" "show_nat 29 = ''29''" "show_nat 24 = ''24''"
    by (simp_all add: show_nat.simps digit_chars)
  ultimately have "show_range 0x0A000000 28 = ''10.0.0.0/28''" "show_range 0x0A000000 29 = ''10.0.0.0/29''"
    "show_range 0x0A000000 24 = ''10.0.0.0/24''"
    by (simp_all add: show_range_def)
  moreover have "ip_mask 28 0x0A000000 = 0x0A000000" "ip_mask 29 0x0A000000 = 0x0A000000"
    "ip_mask 24 0x0A000000 = 0x0A000000"
    by (simp_all add: aligned_iff)
  ultimately show "net_ParseCIDR ''10.0.0.0/28'' = Inr (0x0A000000, (0x0A000000, 28))"
    "net_ParseCIDR ''10.0.0.0/29'' = Inr (0x0A000000, (0x0A000000, 29))"
    "net_ParseCIDR ''10.0.0.0/24'' = Inr (0x0A000000, (0x0A000000, 24))"
    using net_ParseCIDR_show[of 28 "0x0A000000"] net_ParseCIDR_show[of 29 "0x0A000000"]
      net_ParseCIDR_show[of 24 "0x0A000000"] by simp_all
qed

lemma reserve_example:
  "GetUnreservedIPRange ''10.0.0.0/28'' 29 [(''10.0.0.0/29'', True)] \<lparr>pendingIPRanges = []\<rparr>
     = Some (Inr (show_range 0x0A000008 29), holdIPRange (show_range 0x0A000008 29) \<lparr>pendingIPRanges = []\<rparr>)"
proof -
  have m: "ip_mask 28 0x0A000000 = 0x0A000000" "ip_mask 29 0x0A000000 = 0x0A000000" by (simp_all add: aligned_iff)
  have pc: "parseCIDR ''10.0.0.0/28'' 29 = Inr (0x0A000000, (0x0A000000, 28))"
    by (simp add: parseCIDR_Inr parse_examples m)
  have rs: "keys (reserved_union [(''10.0.0.0/29'', True)] []) = [''10.0.0.0/29'']"
    by (simp add: reserved_union_def minsert_def)
  have "scan [''10.0.0.0/29''] 29 (0x0A000000, 28) 0x0A000008 = Some (Inr (Some 0x0A000008))"
    by (subst scan.simps) (simp add: parse_examples isOverlap_def net_contains_iff blk_def)
  then have "scan [''10.0.0.0/29''] 29 (0x0A000000, 28) 0x0A000000 = Some (Inr (Some 0x0A000008))"
    by (subst scan.simps) (simp add: parse_examples isOverlap_def net_contains_iff blk_def incrementIP_def)
  then show ?thesis by (simp add: GetUnreservedIPRange_def pc rs m Let_def)
qed

theorem GetUnreservedIPRange_sound_witness:
  "range_addrs (show_range 0x0A000008 29) \<subseteq> range_addrs ''10.0.0.0/28''"
proof -
  have "1 \<le> (29::nat)" "(29::nat) \<le> 32" by simp_all
  from GetUnreservedIPRange_sound[OF this reserve_example] show ?thesis by blast
qed

text \<open>C17: The search is complete and it ends. With a valid CIDR and valid reserved ranges the call
  returns, and it returns a range exactly when some aligned block of the CIDR is free of every
  reserved and held range; otherwise it is the exhaustion error and nothing is held.\<close>

theorem GetUnreservedIPRange_complete:
  assumes n: "1 \<le> n" "n \<le> 32"
    and p: "parseCIDR cidr n = Inr (a, net)"
    and valid: "\<forall>s \<in> reserved_keys cloud al. \<exists>v. net_ParseCIDR s = Inr v"
  shows "if \<exists>x. ip_mask n x = x \<and> x \<in> addrs net \<and> (\<forall>s \<in> reserved_keys cloud al. range_addrs s \<inter> addrs (x, n) = {})
    then \<exists>r. GetUnreservedIPRange cidr n cloud al = Some (Inr r, holdIPRange r al)
    else GetUnreservedIPRange cidr n cloud al =
      Some (Inl (ErrText (''all of the /'' @ show_nat n @ '' IP ranges in the cidr '' @ cidr @ '' are reserved'')), al)"
proof -
  let ?rs = "keys (reserved_union cloud (pendingIPRanges al))"
  obtain base m where net: "net = (base, m)" by force
  have m: "m \<le> n" "base = ip_mask m a" using p net_ParseCIDR_prefix by (auto simp: parseCIDR_Inr net)
  have al: "2 ^ (32 - n) dvd unat base" using network_aligned[OF m(1) n(2)] by (simp add: m(2))
  have "scan ?rs n net base \<noteq> Some (Inl e)" for e
    using scan_Inl[OF n, of ?rs net base] valid by (metis Inl_Inr_False keys_reserved_union)
  then consider x where "scan ?rs n net base = Some (Inr (Some x))" | "scan ?rs n net base = Some (Inr None)"
    using scan_total[OF n, of ?rs net base] by (metis not_None_eq obj_sumE)
  then show ?thesis
  proof cases
    case 1
    have "ip_mask n x = x"
      using scan_sound[OF n 1] aligned_dvd_diff[OF al] aligned_iff by blast
    then have "\<exists>x. ip_mask n x = x \<and> x \<in> addrs net \<and> (\<forall>s \<in> reserved_keys cloud al. range_addrs s \<inter> addrs (x, n) = {})"
      using scan_sound[OF n 1] overlap_any_False[OF n(2), of ?rs x]
      by (intro exI[of _ x]) (simp add: addrs_def)
    then show ?thesis using 1 p m(2) by (simp add: GetUnreservedIPRange_def net Let_def)
  next
    case 2
    have "\<exists>s \<in> reserved_keys cloud al. range_addrs s \<inter> addrs (x, n) \<noteq> {}"
      if "ip_mask n x = x" "x \<in> addrs net" for x
    proof -
      have "net_contains (base, m) x" using that(2) by (simp add: addrs_def net)
      moreover from this have "unat base \<le> unat x"
        by (simp add: m(2) unat_ip_mask net_contains_iff) (simp add: blk_def)
      moreover have "2 ^ (32 - n) dvd unat x" using that(1) aligned_iff by blast
      ultimately have "overlap_any ?rs (x, n) = Inr True"
        using scan_complete[OF n 2[unfolded net], of x] aligned_dvd_diff[OF al] by simp
      then show ?thesis using overlap_any_True[OF n(2)] by (metis keys_reserved_union)
    qed
    then have "\<not> (\<exists>x. ip_mask n x = x \<and> x \<in> addrs net \<and> (\<forall>s \<in> reserved_keys cloud al. range_addrs s \<inter> addrs (x, n) = {}))"
      by blast
    then show ?thesis using 2 p m(2) by (simp add: GetUnreservedIPRange_def net Let_def)
  qed
qed

theorem GetUnreservedIPRange_complete_witness:
  "GetUnreservedIPRange ''10.0.0.0/29'' 29 [(''10.0.0.0/24'', True)] \<lparr>pendingIPRanges = []\<rparr> =
     Some (Inl (ErrText ''all of the /29 IP ranges in the cidr 10.0.0.0/29 are reserved''), \<lparr>pendingIPRanges = []\<rparr>)"
proof -
  have p: "parseCIDR ''10.0.0.0/29'' 29 = Inr (0x0A000000, (0x0A000000, 29))"
    by (simp add: parseCIDR_Inr parse_examples aligned_iff)
  note q = parse_examples(3)
  have sub: "addrs (0x0A000000, 29) \<subseteq> addrs (0x0A000000, 24)"
    by (rule addrs_mono) (simp_all add: net_contains_iff)
  have keys: "reserved_keys [(''10.0.0.0/24'', True)] \<lparr>pendingIPRanges = []\<rparr> = {''10.0.0.0/24''}"
    by (simp add: reserved_keys_def keys_def)
  have "\<not> (\<exists>x. ip_mask 29 x = x \<and> x \<in> addrs (0x0A000000, 29) \<and> range_addrs ''10.0.0.0/24'' \<inter> addrs (x, 29) = {})"
    using sub self_in_addrs by (fastforce simp: range_addrs_def q)
  then show ?thesis
    using GetUnreservedIPRange_complete[OF _ _ p, of "[(''10.0.0.0/24'', True)]" "\<lparr>pendingIPRanges = []\<rparr>"] q
    by (simp add: keys show_nat.simps digit_chars)
qed

section \<open>Concurrent requests\<close>

text \<open>
  The controller serves requests concurrently; the mutex of the allocator makes each
  \<open>GetUnreservedIPRange\<close> and each \<open>ReleaseIPRange\<close> one step. A request reads the ranges of the
  existing instances before its step, so the list it passes is arbitrary (it may be stale).
\<close>

inductive alloc_reach :: "IPAllocator \<Rightarrow> bool" where
  alloc_new: "alloc_reach (NewIPAllocator [])"
| alloc_get: "alloc_reach al \<Longrightarrow> 1 \<le> n \<Longrightarrow> n \<le> 32 \<Longrightarrow>
    GetUnreservedIPRange cidr n cloud al = Some (res, al') \<Longrightarrow> alloc_reach al'"
| alloc_release: "alloc_reach al \<Longrightarrow> alloc_reach (ReleaseIPRange r al)"

inductive_cases alloc_reachE: "alloc_reach al"

definition held_disjoint :: "IPAllocator \<Rightarrow> bool" where
  "held_disjoint al = (\<forall>r \<in> set (keys (pendingIPRanges al)). \<forall>s \<in> set (keys (pendingIPRanges al)).
     r \<noteq> s \<longrightarrow> range_addrs r \<inter> range_addrs s = {})"

lemma GetUnreservedIPRange_Inl_state:
  "GetUnreservedIPRange cidr n cloud al = Some (Inl e, al') \<Longrightarrow> al' = al"
  by (auto simp: GetUnreservedIPRange_def Let_def split: sum.splits option.splits)

lemma held_disjoint_get:
  assumes "held_disjoint al" "1 \<le> n" "n \<le> 32" "GetUnreservedIPRange cidr n cloud al = Some (res, al')"
  shows "held_disjoint al'"
proof (cases res)
  case (Inl e)
  then show ?thesis using assms GetUnreservedIPRange_Inl_state by blast
next
  case (Inr r)
  obtain a base m x where "r = show_range x n" "al' = holdIPRange r al"
    "\<forall>s \<in> reserved_keys cloud al. range_addrs s \<inter> addrs (x, n) = {}"
    using GetUnreservedIPRange_Inr[OF assms(2,3) assms(4)[unfolded Inr]] by metis
  then show ?thesis
    using assms(1,3) by (auto simp: held_disjoint_def holdIPRange_def reserved_keys_def)
qed

text \<open>No address is promised twice. In every state the allocator can reach by any interleaving of
  reservations and releases, whatever (possibly stale) list of existing instances each request
  passes, the ranges it holds for the requests in flight are pairwise disjoint.\<close>

theorem held_ranges_disjoint:
  "alloc_reach al \<Longrightarrow> held_disjoint al"
proof (induction rule: alloc_reach.induct)
  case alloc_new
  then show ?case by (simp add: held_disjoint_def NewIPAllocator_def)
next
  case (alloc_get al n cidr cloud res al')
  then show ?case using held_disjoint_get by blast
next
  case (alloc_release al r)
  then show ?case by (auto simp: held_disjoint_def ReleaseIPRange_def)
qed

theorem held_ranges_disjoint_witness:
  "held_disjoint (holdIPRange (show_range 0x0A000008 29) \<lparr>pendingIPRanges = []\<rparr>)"
proof -
  have "alloc_reach \<lparr>pendingIPRanges = []\<rparr>"
    using alloc_new by (simp add: NewIPAllocator_def)
  then have "alloc_reach (holdIPRange (show_range 0x0A000008 29) \<lparr>pendingIPRanges = []\<rparr>)"
    by (rule alloc_get[OF _ _ _ reserve_example]) simp_all
  then show ?thesis by (rule held_ranges_disjoint)
qed

end
