(* ===== verification/Volume_Locks.thy ===== *)
theory Volume_Locks
  imports Prelude
begin

text \<open>
  \<open>pkg/util/volume_lock.go\<close>: the set of volume ids with an operation in progress. The locale
  \<open>lock_service\<close> states what the request handlers of the controller and of the node rely on;
  their use of it (\<open>TryAcquire\<close> on entry, deferred \<open>Release\<close> on exit) is the step relation
  \<open>lock_run\<close> over any number of concurrent requests.
\<close>

section \<open>The lock set\<close>

record VolumeLocks =
  locks :: "string set"

definition NewVolumeLocks :: VolumeLocks where
  "NewVolumeLocks = \<lparr>locks = {}\<rparr>"

text \<open>The mutex makes each call one step.\<close>

definition TryAcquire :: "VolumeLocks \<Rightarrow> string \<Rightarrow> bool \<times> VolumeLocks" where
  "TryAcquire vl volumeID =
     (if volumeID \<in> locks vl then (False, vl)
      else (True, vl\<lparr>locks := insert volumeID (locks vl)\<rparr>))"

definition Release :: "VolumeLocks \<Rightarrow> string \<Rightarrow> VolumeLocks" where
  "Release vl volumeID = vl\<lparr>locks := locks vl - {volumeID}\<rparr>"

section \<open>The contract and its clients\<close>

datatype phase = Waiting | Running | Rejected | Finished

text \<open>A request is a handler call; \<open>vol\<close> gives the key it locks. It enters by acquiring its key,
  is rejected (code Aborted) when the key is taken, and releases the key when it returns.\<close>

inductive lock_run ::
  "('s \<Rightarrow> string \<Rightarrow> bool \<times> 's) \<Rightarrow> ('s \<Rightarrow> string \<Rightarrow> 's) \<Rightarrow> 's \<Rightarrow> ('r \<Rightarrow> string) \<Rightarrow> 's \<Rightarrow> ('r \<Rightarrow> phase) \<Rightarrow> bool"
  for acq rel s0 vol where
  run_init: "lock_run acq rel s0 vol s0 (\<lambda>r. Waiting)"
| run_enter: "lock_run acq rel s0 vol s ph \<Longrightarrow> ph r = Waiting \<Longrightarrow> acq s (vol r) = (True, s') \<Longrightarrow>
    lock_run acq rel s0 vol s' (ph(r := Running))"
| run_reject: "lock_run acq rel s0 vol s ph \<Longrightarrow> ph r = Waiting \<Longrightarrow> acq s (vol r) = (False, s') \<Longrightarrow>
    lock_run acq rel s0 vol s' (ph(r := Rejected))"
| run_leave: "lock_run acq rel s0 vol s ph \<Longrightarrow> ph r = Running \<Longrightarrow>
    lock_run acq rel s0 vol (rel s (vol r)) (ph(r := Finished))"

inductive_cases lock_runE: "lock_run acq rel s0 vol s ph"

locale lock_service =
  fixes held :: "'s \<Rightarrow> string set"
    and acquire :: "'s \<Rightarrow> string \<Rightarrow> bool \<times> 's"
    and release :: "'s \<Rightarrow> string \<Rightarrow> 's"
    and init :: 's
  assumes held_init: "held init = {}"
    and acquire_iff: "fst (acquire s v) = (v \<notin> held s)"
    and held_acquire: "held (snd (acquire s v)) = insert v (held s)"
    and held_release: "held (release s v) = held s - {v}"
begin

definition running :: "('r \<Rightarrow> string) \<Rightarrow> ('r \<Rightarrow> phase) \<Rightarrow> string set" where
  "running vol ph = vol ` {r. ph r = Running}"

lemma acquire_cases:
  "acquire s v = (True, s') \<Longrightarrow> v \<notin> held s \<and> held s' = insert v (held s)"
  "acquire s v = (False, s') \<Longrightarrow> v \<in> held s \<and> held s' = held s"
  using acquire_iff[of s v] held_acquire[of s v] by auto

lemma run_invariant:
  "lock_run acquire release init vol s ph \<Longrightarrow>
     held s = running vol ph \<and> inj_on vol {r. ph r = Running}"
proof (induction rule: lock_run.induct)
  case run_init
  then show ?case by (simp add: running_def held_init)
next
  case (run_enter s ph r s')
  have "{q. (ph(r := Running)) q = Running} = insert r {q. ph q = Running}" by auto
  moreover have "vol r \<notin> vol ` {q. ph q = Running}" "held s' = insert (vol r) (held s)"
    using run_enter.IH acquire_cases(1)[OF run_enter.hyps(3)] by (auto simp: running_def)
  moreover have "r \<notin> {q. ph q = Running}" using run_enter.hyps by simp
  ultimately show ?case using run_enter.IH by (simp add: running_def del: fun_upd_apply)
next
  case (run_reject s ph r s')
  have "{q. (ph(r := Rejected)) q = Running} = {q. ph q = Running}" using run_reject by auto
  then show ?case using run_reject acquire_cases(2) by (simp add: running_def)
next
  case (run_leave s ph r)
  have eq: "{q. (ph(r := Finished)) q = Running} = {q. ph q = Running} - {r}" by auto
  have "vol ` ({q. ph q = Running} - {r}) = vol ` {q. ph q = Running} - {vol r}"
    using run_leave inj_on_image_set_diff[of vol "{q. ph q = Running}" "{q. ph q = Running}" "{r}"] by auto
  then show ?case
    using run_leave.IH by (simp add: eq running_def held_release inj_on_diff del: fun_upd_apply)
qed

lemma run_exclusion:
  "lock_run acquire release init vol s ph \<Longrightarrow> ph q = Running \<Longrightarrow> ph r = Running \<Longrightarrow> vol q = vol r \<Longrightarrow> q = r"
  using run_invariant[of vol s ph] by (auto dest: inj_onD)

lemma run_quiescent:
  "lock_run acquire release init vol s ph \<Longrightarrow> \<forall>r. ph r \<noteq> Running \<Longrightarrow> held s = {}"
  using run_invariant[of vol s ph] by (auto simp: running_def)

lemma run_fair:
  "lock_run acquire release init vol s ph \<Longrightarrow> \<forall>q. ph q = Running \<longrightarrow> vol q \<noteq> v \<Longrightarrow> fst (acquire s v)"
  using run_invariant[of vol s ph] by (auto simp: running_def acquire_iff)

end

interpretation vlocks: lock_service locks TryAcquire Release NewVolumeLocks
  by unfold_locales (auto simp: TryAcquire_def Release_def NewVolumeLocks_def)

text \<open>Volume locks exclude. However requests interleave, at most one request per volume id is in
  progress; a lock is held exactly for the volumes of the requests in progress, so that no lock
  survives its request, and a request for a volume with no request in progress is admitted.\<close>

theorem volume_locks_exclusive:
  assumes "lock_run TryAcquire Release NewVolumeLocks vol s ph"
  shows "(\<forall>q r. ph q = Running \<and> ph r = Running \<and> vol q = vol r \<longrightarrow> q = r)
    \<and> locks s = vol ` {r. ph r = Running}
    \<and> (\<forall>v. fst (TryAcquire s v) \<longleftrightarrow> (\<forall>r. ph r = Running \<longrightarrow> vol r \<noteq> v))"
  using vlocks.run_invariant[OF assms] vlocks.run_exclusion[OF assms] vlocks.acquire_iff
  by (auto simp: vlocks.running_def)

theorem volume_locks_exclusive_witness:
  "locks \<lparr>locks = {''modeInstance/z/a/vol1''}\<rparr> =
     (\<lambda>r::nat. ''modeInstance/z/a/vol1'') ` {r. ((\<lambda>r. Waiting)(0 := Running, 1 := Rejected)) r = Running}"
proof -
  let ?vol = "\<lambda>r::nat. ''modeInstance/z/a/vol1''"
  have "lock_run TryAcquire Release NewVolumeLocks ?vol NewVolumeLocks (\<lambda>r. Waiting)"
    by (rule run_init)
  then have "lock_run TryAcquire Release NewVolumeLocks ?vol \<lparr>locks = {''modeInstance/z/a/vol1''}\<rparr>
      ((\<lambda>r. Waiting)(0 := Running))"
    by (rule run_enter) (simp_all add: TryAcquire_def NewVolumeLocks_def)
  then have "lock_run TryAcquire Release NewVolumeLocks ?vol \<lparr>locks = {''modeInstance/z/a/vol1''}\<rparr>
      ((\<lambda>r. Waiting)(0 := Running, 1 := Rejected))"
    by (rule run_reject) (simp_all add: TryAcquire_def)
  from volume_locks_exclusive[OF this] show ?thesis by blast
qed

end
