(* ===== verification/Capacity.thy ===== *)
theory Capacity
  imports File_Types "HOL-Library.Log_Nat"
begin

text \<open>
  The sizes the driver provisions: the capacity ranges of the service tiers and the choice of a
  size for a request (\<open>controller.go\<close>), the size of a multishare share and the number of shares
  per instance (\<open>multishare_controller.go\<close>), and the performance settings (\<open>utils.go\<close>). A nil
  capacity range is None; \<open>tib\<close> prints a size in TiB as \<open>%v\<close> prints the float and only occurs in
  error texts.
\<close>

section \<open>Tiers\<close>

record CapacityRange =
  RequiredBytes :: int
  LimitBytes :: int

record capacityRangeForTier =
  tmin :: int
  tmax :: int

definition defaultRange :: capacityRangeForTier where
  "defaultRange = \<lparr>tmin = 100 * Gb, tmax = 639 * Tb div 10\<rparr>"
definition enterpriseRange :: capacityRangeForTier where
  "enterpriseRange = \<lparr>tmin = 1 * Tb, tmax = 10 * Tb\<rparr>"
definition highScaleRange :: capacityRangeForTier where
  "highScaleRange = \<lparr>tmin = 10 * Tb, tmax = 100 * Tb\<rparr>"
definition premiumRange :: capacityRangeForTier where
  "premiumRange = \<lparr>tmin = 25 * Tb div 10, tmax = 639 * Tb div 10\<rparr>"
definition zonalSmallRange :: capacityRangeForTier where
  "zonalSmallRange = \<lparr>tmin = 1 * Tb, tmax = 9984 * Gb\<rparr>"
definition zonalLargeRange :: capacityRangeForTier where
  "zonalLargeRange = \<lparr>tmin = 10 * Tb, tmax = 100 * Tb\<rparr>"
definition regionalSmallRange :: capacityRangeForTier where
  "regionalSmallRange = \<lparr>tmin = 100 * Gb, tmax = 9984 * Gb\<rparr>"
definition regionalLargeRange :: capacityRangeForTier where
  "regionalLargeRange = \<lparr>tmin = 10 * Tb, tmax = 100 * Tb\<rparr>"

lemmas tier_ranges = defaultRange_def enterpriseRange_def highScaleRange_def premiumRange_def
  zonalSmallRange_def zonalLargeRange_def regionalSmallRange_def regionalLargeRange_def

definition tierToCapacityRange :: "(string, capacityRangeForTier) gomap" where
  "tierToCapacityRange = [(''standard'', defaultRange), (''enterprise'', enterpriseRange),
     (''high_scale_ssd'', highScaleRange), (''zonal'', zonalSmallRange), (''premium'', premiumRange),
     (''basic_ssd'', premiumRange), (''basic_hdd'', defaultRange), (''regional'', regionalSmallRange)]"

definition getTierFromParams :: "labels \<Rightarrow> string" where
  "getTierFromParams params = (case mlookup params ''tier'' of Some val \<Rightarrow> val | None \<Rightarrow> ''standard'')"

definition isBasicTier :: "string \<Rightarrow> bool" where
  "isBasicTier tier = (tier = ''standard'' \<or> tier = ''premium'' \<or> tier = ''basic_hdd'' \<or> tier = ''basic_ssd'')"

text \<open>The getters of a nil range return zero.\<close>

definition required_of :: "CapacityRange option \<Rightarrow> int" where
  "required_of cr = (case cr of None \<Rightarrow> 0 | Some c \<Rightarrow> RequiredBytes c)"

definition limit_of :: "CapacityRange option \<Rightarrow> int" where
  "limit_of cr = (case cr of None \<Rightarrow> 0 | Some c \<Rightarrow> LimitBytes c)"

definition invalidCapacityRange ::
  "(int \<Rightarrow> string) \<Rightarrow> CapacityRange option \<Rightarrow> string \<Rightarrow> capacityRangeForTier \<Rightarrow> go_error option" where
  "invalidCapacityRange tib cr tier r =
     (let requiredCap = required_of cr; requireSet = requiredCap > 0;
          limitCap = limit_of cr; limitSet = limitCap > 0 in
      if limitSet \<and> requireSet \<and> limitCap < requiredCap
      then Some (ErrText (''limit bytes '' @ tib limitCap @ ''TiB is less than required bytes '' @ tib requiredCap @ ''TiB''))
      else if requireSet \<and> \<not> (\<not> limitSet \<and> requiredCap > tmax r) \<and> requiredCap > tmax r
      then Some (ErrText (''Request bytes '' @ tib requiredCap @ ''TiB is more than maximum instance size bytes ''
             @ tib (tmax r) @ ''TiB for tier '' @ tier))
      else if limitSet \<and> limitCap < tmin r
      then Some (ErrText (''limit bytes '' @ tib limitCap @ ''TiB is less than minimum instance size bytes ''
             @ tib (tmin r) @ ''TiB for tier '' @ tier))
      else None)"

definition provisionableCapacityForTier :: "CapacityRange option \<Rightarrow> string \<Rightarrow> capacityRangeForTier" where
  "provisionableCapacityForTier cr tier0 =
     (let tier = toLower tier0 in
      if tier = ''zonal'' \<and> cr \<noteq> None \<and> required_of cr > 9984 * Gb then zonalLargeRange
      else if tier = ''regional'' \<and> cr \<noteq> None \<and> required_of cr > 9984 * Gb then regionalLargeRange
      else (case mlookup tierToCapacityRange tier of Some r \<Rightarrow> r | None \<Rightarrow> defaultRange))"

definition getRequestCapacity :: "(int \<Rightarrow> string) \<Rightarrow> CapacityRange option \<Rightarrow> string \<Rightarrow> go_error + int" where
  "getRequestCapacity tib cr tier =
     (let validRange = provisionableCapacityForTier cr tier in
      case cr of
        None \<Rightarrow> Inr (tmin validRange)
      | Some c \<Rightarrow>
          (case invalidCapacityRange tib cr tier validRange of
             Some e \<Rightarrow> Inl e
           | None \<Rightarrow>
               let requiredCap = RequiredBytes c; requireSet = requiredCap > 0;
                   maxRequired = LimitBytes c; limitSet = maxRequired > 0 in
               if requireSet then Inr (Max requiredCap (tmin validRange))
               else if limitSet then Inr (Min maxRequired (tmax validRange))
               else Inr (tmin validRange)))"

definition invalidVolumeExpansionRequest :: "CapacityRange option \<Rightarrow> int \<Rightarrow> string \<Rightarrow> bool" where
  "invalidVolumeExpansionRequest cr currentCapacity tier =
     (let requiredCap = required_of cr in
      if toLower tier = ''zonal'' then currentCapacity \<le> 9984 * Gb \<and> requiredCap > 9984 * Gb
      else if toLower tier = ''regional'' then currentCapacity \<le> 9984 * Gb \<and> requiredCap > 9984 * Gb
      else False)"

section \<open>Shares\<close>

definition share_err :: "string \<Rightarrow> int \<Rightarrow> string \<Rightarrow> int \<Rightarrow> go_error" where
  "share_err a x b y = StatusErr InvalidArgument (a @ show_int x @ b @ show_int y)"

definition getShareRequestCapacity :: "CapacityRange option \<Rightarrow> int \<Rightarrow> int \<Rightarrow> go_error + int" where
  "getShareRequestCapacity cr minShareSizeBytes maxShareSizeBytes =
     (case cr of
        None \<Rightarrow> Inr minShareSizeBytes
      | Some c \<Rightarrow>
          let rCap = RequiredBytes c; rSet = rCap > 0; lCap = LimitBytes c; lSet = lCap > 0 in
          if \<not> lSet \<and> \<not> rSet then Inl (StatusErr InvalidArgument ''Neither Limit bytes or Required bytes set'')
          else if lSet \<and> rSet \<and> lCap < rCap then Inl (share_err ''Limit bytes '' lCap '' is less than required bytes '' rCap)
          else if lSet \<and> lCap < minShareSizeBytes
          then Inl (share_err ''Limit bytes '' lCap '' is less than minimum share size bytes '' minShareSizeBytes)
          else if lSet \<and> lCap > maxShareSizeBytes
          then Inl (share_err ''Limit bytes '' lCap '' is greater than maximum share size bytes '' maxShareSizeBytes)
          else if rSet \<and> rCap < minShareSizeBytes
          then Inl (share_err ''Request bytes '' rCap '' is less than minimum share size bytes '' minShareSizeBytes)
          else if rSet \<and> rCap > maxShareSizeBytes
          then Inl (share_err ''Request bytes '' rCap '' is greater than maximum share size bytes '' maxShareSizeBytes)
          else if lSet then Inr lCap else Inr rCap)"

definition isValidMaxVolSize :: "int \<Rightarrow> bool" where
  "isValidMaxVolSize val = (val = 128 * Gb \<or> val = 256 * Gb \<or> val = 512 * Gb \<or> val = Tb)"

definition getSharesPerInstance :: "int \<Rightarrow> go_error + int" where
  "getSharesPerInstance volSizeBytes =
     (if \<not> isValidMaxVolSize volSizeBytes
      then Inl (ErrText (''unsupported max volume size '' @ show_int volSizeBytes
             @ '', supported sizes: '128Gi', '256Gi', '512Gi', '1024Gi'' @ [CHR 0x27]))
      else Inr (MaxMultishareInstanceSizeBytes sdiv volSizeBytes))"

text \<open>\<open>parseQuantity\<close> is \<open>resource.ParseQuantity\<close> followed by \<open>Value\<close>.\<close>

definition parseMaxVolumeSizeParam ::
  "(string \<Rightarrow> go_error + int) \<Rightarrow> bool \<Rightarrow> labels \<Rightarrow> go_error + int \<times> int" where
  "parseMaxVolumeSizeParam parseQuantity featureMaxSharePerInstance params =
     (case mlookup params ''max-volume-size'' of
        None \<Rightarrow> Inr (int MaxSharesPerInstance, MaxShareSizeBytes)
      | Some v \<Rightarrow>
          if \<not> featureMaxSharePerInstance
          then Inl (ErrText ''configurable max shares per instance feature not enabled'')
          else if v = [] then Inl (ErrText (''value is empty for '' @ quote ''max-volume-size'' @ '' key''))
          else rbind (parseQuantity v) (\<lambda>valBytes.
               rbind (getSharesPerInstance valBytes) (\<lambda>n. Inr (n, valBytes))))"

section \<open>Performance settings\<close>

text \<open>Rounding of an integer to the 53 significant bits of a float64, ties to even. A product of a
  float and an exact power-of-two fraction is the rounding of the exact product, scaled.\<close>

definition round53_nonneg :: "int \<Rightarrow> int" where
  "round53_nonneg p =
     (let e = nat (bitlen p) - 53 in
      if e = 0 then p
      else let q = p div 2 ^ e; r = p mod 2 ^ e; half = 2 ^ (e - 1) in
        (if r > half \<or> (r = half \<and> odd q) then q + 1 else q) * 2 ^ e)"

definition round53 :: "int \<Rightarrow> int" where
  "round53 p = (if p < 0 then - round53_nonneg (- p) else round53_nonneg p)"

text \<open>\<open>bytesToTiB(bytes) < 10\<close>: 10 TiB is a float64, so rounding does not change the comparison;
  capacities are compared in bytes.\<close>

definition small_capacity :: "int \<Rightarrow> bool" where
  "small_capacity capacityBytes = (capacityBytes < 10 * Tb)"

definition getStepSize :: "int \<Rightarrow> int" where
  "getStepSize capacityBytes = (if small_capacity capacityBytes then 100 else 1000)"

definition validateDensityBand :: "int \<Rightarrow> int \<Rightarrow> go_error option" where
  "validateDensityBand capacityBytes density =
     (if small_capacity capacityBytes then
        if density < 4000 \<or> density > 17000
        then Some (ErrText ''for instances < 10.0TiB, density must be 4000-17000'') else None
      else if density < 3000 \<or> density > 7500
        then Some (ErrText ''for instances >= 10.0TiB, density must be 3000-7500'') else None)"

definition getMaxTotalIOPS :: "string \<Rightarrow> int" where
  "getMaxTotalIOPS tier = (if toLower tier = ''regional'' then 750000 else 166000)"

text \<open>\<open>int64(float64(density) * capacityTiB)\<close>\<close>

definition total_iops :: "int \<Rightarrow> int \<Rightarrow> int" where
  "total_iops density capacityBytes = round53 (density * round53 capacityBytes) sdiv Tb"

definition validateAndBuildPerformanceConfig :: "labels \<Rightarrow> int \<Rightarrow> string \<Rightarrow> go_error + PerformanceConfig option" where
  "validateAndBuildPerformanceConfig params capacityBytes tier =
     (case (mlookup params ''max-iops'', mlookup params ''max-iops-per-tb'') of
        (None, None) \<Rightarrow> Inr None
      | (iopsStr, densityStr) \<Rightarrow>
          if \<not> (toLower tier = ''zonal'' \<or> toLower tier = ''regional'')
          then Inl (ErrText (''performance configuration is only supported for zonal and regional tier instances, got tier: '' @ tier))
          else (case (iopsStr, densityStr) of
             (Some _, Some _) \<Rightarrow> Inl (ErrText ''cannot specify both max-iops and max-iops-per-tb'')
           | (Some s, None) \<Rightarrow>
               (case ParseInt s of
                  Inl err \<Rightarrow> Inl (ErrText (''invalid max-iops: '' @ err))
                | Inr iops \<Rightarrow>
                    if iops < 2000 then Inl (ErrText ''max-iops must be >= 2000'')
                    else if iops > getMaxTotalIOPS tier
                    then Inl (ErrText (''max-iops must be <= '' @ show_int (getMaxTotalIOPS tier) @ '' for tier '' @ tier))
                    else if iops smod getStepSize capacityBytes \<noteq> 0
                    then Inl (ErrText (''max-iops must be a multiple of '' @ show_int (getStepSize capacityBytes)))
                    else Inr (Some \<lparr>FixedIOPS = iops, IOPSPerTB = 0\<rparr>))
           | (None, Some s) \<Rightarrow>
               (case ParseInt s of
                  Inl err \<Rightarrow> Inl (ErrText (''invalid max-iops-per-tb: '' @ err))
                | Inr density \<Rightarrow>
                    if density smod getStepSize capacityBytes \<noteq> 0
                    then Inl (ErrText (''max-iops-per-tb must be a multiple of '' @ show_int (getStepSize capacityBytes)))
                    else (case validateDensityBand capacityBytes density of
                       Some e \<Rightarrow> Inl e
                     | None \<Rightarrow>
                         if total_iops density capacityBytes > getMaxTotalIOPS tier
                         then Inl (ErrText (''total IOPS ('' @ show_int (total_iops density capacityBytes)
                                @ '') exceeds maximum limit of '' @ show_int (getMaxTotalIOPS tier) @ '' ('' @ tier @ '')''))
                         else Inr (Some \<lparr>FixedIOPS = 0, IOPSPerTB = density\<rparr>)))
           | (None, None) \<Rightarrow> Inr None))"

section \<open>Properties of capacities\<close>

lemma tier_range_order:
  "0 < tmin (provisionableCapacityForTier cr tier)"
  "tmin (provisionableCapacityForTier cr tier) \<le> tmax (provisionableCapacityForTier cr tier)"
  by (auto simp: provisionableCapacityForTier_def tierToCapacityRange_def Let_def tier_ranges Tb_val Gb_val)

lemma getRequestCapacity_cases:
  fixes cr tier
  defines "r \<equiv> provisionableCapacityForTier cr tier"
  shows "case getRequestCapacity tib cr tier of
      Inr b \<Rightarrow> tmin r \<le> b \<and> required_of cr \<le> b \<and> (0 < limit_of cr \<longrightarrow> b \<le> limit_of cr)
        \<and> (b \<le> tmax r \<or> b = required_of cr \<and> limit_of cr \<le> 0)
    | Inl e \<Rightarrow> 0 < limit_of cr \<and>
        (limit_of cr < required_of cr \<or> limit_of cr < tmin r \<or> tmax r < required_of cr)"
proof (cases cr)
  case None
  then show ?thesis
    using tier_range_order[of cr tier] by (simp add: getRequestCapacity_def r_def required_of_def limit_of_def)
next
  case (Some c)
  show ?thesis
  proof (cases "invalidCapacityRange tib cr tier r")
    case None
    then have "required_of cr \<le> limit_of cr \<or> limit_of cr \<le> 0 \<or> required_of cr \<le> 0"
      "required_of cr \<le> tmax r \<or> limit_of cr \<le> 0 \<or> required_of cr \<le> 0" "tmin r \<le> limit_of cr \<or> limit_of cr \<le> 0"
      by (auto simp: invalidCapacityRange_def Let_def split: if_splits)
    moreover have "getRequestCapacity tib cr tier = Inr (if 0 < required_of cr then max (required_of cr) (tmin r)
        else if 0 < limit_of cr then min (limit_of cr) (tmax r) else tmin r)"
      using None unfolding Some by (simp add: getRequestCapacity_def Let_def required_of_def limit_of_def flip: r_def[unfolded Some])
    ultimately show ?thesis
      using tier_range_order[of cr tier, folded r_def] by auto
  next
    case (Some e)
    then have "getRequestCapacity tib cr tier = Inl e"
      using \<open>cr = Some c\<close> by (simp add: getRequestCapacity_def r_def)
    moreover have "0 < limit_of cr \<and> (limit_of cr < required_of cr \<or> limit_of cr < tmin r \<or> tmax r < required_of cr)"
      using Some by (auto simp: invalidCapacityRange_def Let_def split: if_splits)
    ultimately show ?thesis by simp
  qed
qed

text \<open>The size provisioned for a volume. A computed size is at least the tier's minimum and what the
  request requires, and at most its limit; it is within the tier's maximum except in one case, a
  required size above the maximum with no limit, which is passed on as it is (the log says it is
  rounded down). A request is refused exactly when its limit is below its requirement or below
  the tier's minimum, or it requires more than the maximum and has a limit.\<close>

theorem getRequestCapacity_correct:
  "let r = provisionableCapacityForTier cr tier in
   case getRequestCapacity tib cr tier of
      Inr b \<Rightarrow> tmin r \<le> b \<and> required_of cr \<le> b \<and> (limit_of cr \<le> 0 \<or> b \<le> limit_of cr)
        \<and> (b \<le> tmax r \<or> b = required_of cr \<and> limit_of cr \<le> 0)
    | Inl e \<Rightarrow> 0 < limit_of cr \<and>
        (limit_of cr < required_of cr \<or> limit_of cr < tmin r \<or> tmax r < required_of cr)"
  using getRequestCapacity_cases[where tib = tib and cr = cr and tier = tier] by (auto simp: Let_def split: sum.split)

text \<open>A request above the maximum of its tier and without a limit is accepted unchanged: for every
  tier the size returned is the requirement, above the maximum the driver's own warning says the
  request is rounded off to.\<close>

theorem getRequestCapacity_above_max:
  assumes "tmax (provisionableCapacityForTier (Some \<lparr>RequiredBytes = b, LimitBytes = 0\<rparr>) tier) < b"
  shows "getRequestCapacity tib (Some \<lparr>RequiredBytes = b, LimitBytes = 0\<rparr>) tier = Inr b"
  using assms tier_range_order[of "Some \<lparr>RequiredBytes = b, LimitBytes = 0\<rparr>" tier]
  by (simp add: getRequestCapacity_def Let_def invalidCapacityRange_def required_of_def limit_of_def)

theorem getRequestCapacity_above_max_witness:
  "\<forall>tib. getRequestCapacity tib (Some \<lparr>RequiredBytes = 11 * Tb, LimitBytes = 0\<rparr>) ''enterprise'' = Inr (11 * Tb)"
proof -
  have "tmax (provisionableCapacityForTier (Some \<lparr>RequiredBytes = 11 * Tb, LimitBytes = 0\<rparr>) ''enterprise'') < 11 * Tb"
    by code_simp
  then show ?thesis by (auto intro: getRequestCapacity_above_max)
qed

text \<open>The size of a share. A request with a range is granted exactly when it names a limit or a
  requirement, both lie between the minimum and the maximum share size, and the limit is not
  below the requirement; the size is then the limit if there is one and otherwise the
  requirement. All refusals have code InvalidArgument.\<close>

theorem getShareRequestCapacity_exact:
  "(getShareRequestCapacity (Some \<lparr>RequiredBytes = r, LimitBytes = l\<rparr>) mn mx = Inr b \<longleftrightarrow>
      (0 < r \<or> 0 < l) \<and> b = (if 0 < l then l else r)
      \<and> (0 < l \<longrightarrow> mn \<le> l \<and> l \<le> mx) \<and> (0 < r \<longrightarrow> mn \<le> r \<and> r \<le> mx) \<and> (0 < l \<and> 0 < r \<longrightarrow> r \<le> l))
   \<and> (getShareRequestCapacity cr mn mx = Inl e \<longrightarrow> (\<exists>m. e = StatusErr InvalidArgument m))
   \<and> getShareRequestCapacity None mn mx = Inr mn"
proof (intro conjI impI)
  show "(getShareRequestCapacity (Some \<lparr>RequiredBytes = r, LimitBytes = l\<rparr>) mn mx = Inr b) \<longleftrightarrow>
      (0 < r \<or> 0 < l) \<and> b = (if 0 < l then l else r)
      \<and> (0 < l \<longrightarrow> mn \<le> l \<and> l \<le> mx) \<and> (0 < r \<longrightarrow> mn \<le> r \<and> r \<le> mx) \<and> (0 < l \<and> 0 < r \<longrightarrow> r \<le> l)"
    by (cases "0 < l"; cases "0 < r") (auto simp: getShareRequestCapacity_def Let_def)
  show "\<exists>m. e = StatusErr InvalidArgument m" if "getShareRequestCapacity cr mn mx = Inl e"
  proof -
    have "\<exists>m. share_err a x c y = StatusErr InvalidArgument m" for a x c y by (simp add: share_err_def)
    then show ?thesis
      using that by (cases cr) (simp_all add: getShareRequestCapacity_def Let_def split: if_splits, blast+)
  qed
qed (simp add: getShareRequestCapacity_def)

theorem getShareRequestCapacity_exact_witness:
  "getShareRequestCapacity (Some \<lparr>RequiredBytes = 5, LimitBytes = 4\<rparr>) 1 10
     = Inl (StatusErr InvalidArgument ''Limit bytes 4 is less than required bytes 5'')"
proof -
  have e: "getShareRequestCapacity (Some \<lparr>RequiredBytes = 5, LimitBytes = 4\<rparr>) 1 10
     = Inl (StatusErr InvalidArgument ''Limit bytes 4 is less than required bytes 5'')"
    by code_simp
  then show ?thesis
    using getShareRequestCapacity_exact[of 5 4 1 10 0 "Some \<lparr>RequiredBytes = 5, LimitBytes = 4\<rparr>"
        "StatusErr InvalidArgument ''Limit bytes 4 is less than required bytes 5''"] by blast
qed

lemma max_vol_sizes: "isValidMaxVolSize v \<Longrightarrow> MaxMultishareInstanceSizeBytes sdiv v * v = MaxMultishareInstanceSizeBytes"
  by (auto simp: isValidMaxVolSize_def multishare_consts Tb_val Gb_val int64)

lemma parseMax_spec:
  assumes "parseMaxVolumeSizeParam parseQuantity feature params = Inr (n, maxShare)"
  shows "n * maxShare = MaxMultishareInstanceSizeBytes \<and> 10 \<le> n \<and> n \<le> 80
    \<and> (if mlookup params ''max-volume-size'' = None then n = 10 \<and> maxShare = Tb
       else feature \<and> parseQuantity (mget params ''max-volume-size'') = Inr maxShare)"
proof (cases "mlookup params ''max-volume-size''")
  case None
  then show ?thesis using assms
    by (auto simp: parseMaxVolumeSizeParam_def multishare_consts)
next
  case (Some v)
  then have "feature" "parseQuantity v = Inr maxShare" "getSharesPerInstance maxShare = Inr n"
    using assms by (auto simp: parseMaxVolumeSizeParam_def rbind_Inr_iff split: if_splits)
  moreover from this(3) have v: "isValidMaxVolSize maxShare" "n = MaxMultishareInstanceSizeBytes sdiv maxShare"
    by (auto simp: getSharesPerInstance_def split: if_splits)
  moreover have "10 \<le> n \<and> n \<le> 80"
    using v by (auto simp: isValidMaxVolSize_def multishare_consts Tb_val Gb_val int64)
  ultimately show ?thesis using Some max_vol_sizes[OF v(1)] by (simp add: mget_def)
qed

text \<open>Packing of an instance. Whatever the \<open>max-volume-size\<close> parameter, the number of shares and the
  maximum share size it gives fill the largest instance exactly: that many shares of that size
  always fit. The parameter is accepted only with the feature enabled, and without it the driver
  packs ten shares of one TiB.\<close>

theorem parseMaxVolumeSizeParam_packs:
  assumes "parseMaxVolumeSizeParam parseQuantity feature params = Inr (n, maxShare)"
  shows "n * maxShare = MaxMultishareInstanceSizeBytes \<and> 10 \<le> n \<and> n \<le> 80
    \<and> (if mlookup params ''max-volume-size'' = None then n = 10 \<and> maxShare = Tb
       else feature \<and> parseQuantity (mget params ''max-volume-size'') = Inr maxShare)"
  using parseMax_spec[OF assms] .

theorem parseMaxVolumeSizeParam_packs_witness:
  "(40::int) * (256 * Gb) = MaxMultishareInstanceSizeBytes"
proof -
  have "parseMaxVolumeSizeParam (\<lambda>_. Inr (256 * Gb)) True [(''max-volume-size'', ''256Gi'')] = Inr (40, 256 * Gb)"
    by code_simp
  then show ?thesis using parseMaxVolumeSizeParam_packs by blast
qed

section \<open>Properties of performance settings\<close>

lemma round53_exact:
  assumes "0 \<le> m" "m < 2 ^ 53"
  shows "round53 (m * 2 ^ k) = m * 2 ^ k"
proof -
  let ?p = "m * 2 ^ k"
  let ?e = "nat (bitlen ?p) - 53"
  have "?p < 2 ^ (53 + k)" using assms by (simp add: power_add)
  then have "nat (bitlen ?p) \<le> 53 + k"
    using assms(1) bitlen_le_iff_power[of ?p "int (53 + k)"] by (simp add: nat_le_iff nat_add_distrib)
  then have "(2::int) ^ ?e dvd ?p" by (intro dvd_mult le_imp_power_dvd) simp
  then have "?p mod 2 ^ ?e = 0" "?p div 2 ^ ?e * 2 ^ ?e = ?p" by simp_all
  moreover have "\<not> ?p < 0" using assms(1) by (simp add: not_less)
  ultimately show ?thesis by (simp only: round53_def round53_nonneg_def Let_def if_False) simp
qed

text \<open>The total IOPS of a density. For every capacity of whole GiB (below 2^33 GiB) and every density
  in the permitted bands the driver's floating-point product is exact: the total it compares
  with the tier's maximum is the density times the capacity in TiB, rounded down.\<close>

theorem total_iops_exact:
  assumes "0 \<le> g" "g < 2 ^ 33" "0 \<le> density" "density \<le> 17000"
  shows "total_iops density (g * Gb) = density * g div 1024"
proof -
  have g: "round53 (g * 2 ^ 30) = g * 2 ^ 30" by (rule round53_exact) (use assms in simp_all)
  have "density * g \<le> 17000 * 2 ^ 33" using assms by (intro mult_mono) simp_all
  then have "density * g < 2 ^ 53" by simp
  then have d: "round53 ((density * g) * 2 ^ 30) = (density * g) * 2 ^ 30"
    using assms by (intro round53_exact) simp_all
  have "total_iops density (g * Gb) = (density * g * 2 ^ 30) sdiv (1024 * 2 ^ 30)"
    using g d by (simp add: total_iops_def Gb_val Tb_val ac_simps)
  also have "\<dots> = density * g * 2 ^ 30 div (1024 * 2 ^ 30)"
    using assms by (intro sdiv_nonneg) simp_all
  also have "\<dots> = density * g div 1024" by (rule div_mult_mult2) simp
  finally show ?thesis .
qed

theorem total_iops_exact_witness: "total_iops 7500 (20480 * Gb) = 150000"
  using total_iops_exact[of 20480 7500] by simp

lemma getMaxTotalIOPS_cases: "getMaxTotalIOPS tier \<in> {166000, 750000}"
  by (simp add: getMaxTotalIOPS_def)

text \<open>Accepted performance settings. A configuration is built only for a zonal or regional tier and
  from exactly one of the two parameters; a fixed rate lies between 2000 and the tier's maximum
  and is a multiple of the step of the capacity; a density lies in the band of the capacity, is
  a multiple of the step, and its total stays within the tier's maximum.\<close>

theorem validateAndBuildPerformanceConfig_valid:
  assumes "validateAndBuildPerformanceConfig params capacityBytes tier = Inr (Some p)"
  shows "toLower tier \<in> {''zonal'', ''regional''}
    \<and> (FixedIOPS p = 0 \<or> IOPSPerTB p = 0)
    \<and> (if mlookup params ''max-iops'' \<noteq> None
       then mlookup params ''max-iops-per-tb'' = None \<and> 2000 \<le> FixedIOPS p \<and> FixedIOPS p \<le> getMaxTotalIOPS tier
          \<and> getStepSize capacityBytes dvd FixedIOPS p
       else (if capacityBytes < 10 * Tb then 4000 \<le> IOPSPerTB p \<and> IOPSPerTB p \<le> 17000
             else 3000 \<le> IOPSPerTB p \<and> IOPSPerTB p \<le> 7500)
          \<and> getStepSize capacityBytes dvd IOPSPerTB p
          \<and> total_iops (IOPSPerTB p) capacityBytes \<le> getMaxTotalIOPS tier)"
proof -
  have step: "0 < getStepSize capacityBytes" by (simp add: getStepSize_def)
  have dvd: "x smod getStepSize capacityBytes = 0 \<Longrightarrow> 0 \<le> x \<Longrightarrow> getStepSize capacityBytes dvd x" for x
    using step by (simp add: int64 dvd_eq_mod_eq_0)
  show ?thesis
    using assms dvd
    by (auto simp: validateAndBuildPerformanceConfig_def validateDensityBand_def small_capacity_def
        split: option.splits sum.splits if_splits)
qed

theorem validateAndBuildPerformanceConfig_valid_witness:
  "getStepSize (12 * Tb) dvd 5000 \<and> total_iops 5000 (12 * Tb) \<le> getMaxTotalIOPS ''Zonal''"
proof -
  have "validateAndBuildPerformanceConfig [(''max-iops-per-tb'', ''5000'')] (12 * Tb) ''Zonal''
      = Inr (Some \<lparr>FixedIOPS = 0, IOPSPerTB = 5000\<rparr>)"
    by code_simp
  from validateAndBuildPerformanceConfig_valid[OF this] show ?thesis by simp
qed

end
