(* ===== verification/Labels.thy ===== *)
theory Labels
  imports Util
begin

text \<open>
  Topologies and labels, from \<open>controller.go\<close> and \<open>multishare_controller.go\<close>: the zone picked for a
  volume, the labels put on instances, shares and backups, and their merge. The parameters of a
  request are a map ranged over in any order; keys are compared without case.
\<close>

section \<open>Topology\<close>

text \<open>A topology term is its segment map, None when the segments are nil.\<close>

record TopologyRequirement =
  Requisite :: "labels option list"
  Preferred :: "labels option list"

definition TopologyKeyZone :: string where "TopologyKeyZone = ''topology.gke.io/zone''"

text \<open>\<open>show_map\<close> renders a map by \<open>%v\<close> and only occurs in an error text.\<close>

fun scan_segment :: "labels \<Rightarrow> string \<Rightarrow> go_error + string" where
  "scan_segment [] zone = Inr zone"
| "scan_segment ((k, v) # seg) zone =
     (if k = TopologyKeyZone then scan_segment seg v
      else Inl (ErrText (''topology segment has unknown key '' @ k)))"

definition getZoneFromSegment :: "(labels \<Rightarrow> string) \<Rightarrow> labels \<Rightarrow> go_error + string" where
  "getZoneFromSegment show_map seg = rbind (scan_segment seg []) (\<lambda>zone.
     if length zone = 0
     then Inl (ErrText (''topology specified but could not find zone in segment: '' @ show_map seg))
     else Inr zone)"

fun getZonesFromTopology :: "(labels \<Rightarrow> string) \<Rightarrow> labels option list \<Rightarrow> go_error + string list" where
  "getZonesFromTopology show_map [] = Inr []"
| "getZonesFromTopology show_map (seg0 # segs0) =
     (case seg0 of
        None \<Rightarrow> Inl (ErrText ''topologies specified but no segments'')
      | Some seg \<Rightarrow>
          (case getZoneFromSegment show_map seg of
             Inl e \<Rightarrow> Inl (ErrWrap ''could not get zone from topology: '' e [])
           | Inr zone \<Rightarrow> rbind (getZonesFromTopology show_map segs0) (\<lambda>zones. Inr (zone # zones))))"

definition both_zones :: "(labels \<Rightarrow> string) \<Rightarrow> TopologyRequirement \<Rightarrow> go_error + string list \<times> string list" where
  "both_zones show_map req =
     (case getZonesFromTopology show_map (Requisite req) of
        Inl e \<Rightarrow> Inl (ErrWrap ''could not get zones from requisite topology: '' e [])
      | Inr reqZones \<Rightarrow>
          (case getZonesFromTopology show_map (Preferred req) of
             Inl e \<Rightarrow> Inl (ErrWrap ''could not get zones from preferred topology: '' e [])
           | Inr prefZones \<Rightarrow> Inr (reqZones, prefZones)))"

definition pickZoneFromTopology :: "(labels \<Rightarrow> string) \<Rightarrow> TopologyRequirement \<Rightarrow> go_error + string" where
  "pickZoneFromTopology show_map req = rbind (both_zones show_map req) (\<lambda>(reqZones, prefZones).
     case (prefZones, reqZones) of
       ([], []) \<Rightarrow> Inl (ErrText ''both requisite and preferred topology list empty'')
     | (z # _, _) \<Rightarrow> Inr z
     | ([], z # _) \<Rightarrow> Inr z)"

definition listZonesFromTopology :: "(labels \<Rightarrow> string) \<Rightarrow> TopologyRequirement \<Rightarrow> go_error + string list" where
  "listZonesFromTopology show_map req = rbind (both_zones show_map req) (\<lambda>(reqZones, prefZones).
     Inr (reqZones @ prefZones))"

definition pickZone :: "(labels \<Rightarrow> string) \<Rightarrow> string \<Rightarrow> TopologyRequirement option \<Rightarrow> go_error + string" where
  "pickZone show_map cloudZone req = (case req of None \<Rightarrow> Inr cloudZone | Some t \<Rightarrow> pickZoneFromTopology show_map t)"

definition pickRegion :: "(labels \<Rightarrow> string) \<Rightarrow> string \<Rightarrow> TopologyRequirement option \<Rightarrow> go_error + string" where
  "pickRegion show_map cloudZone req = (case req of
       None \<Rightarrow> GetRegionFromZone cloudZone
     | Some t \<Rightarrow> rbind (pickZoneFromTopology show_map t) GetRegionFromZone)"

text \<open>The regions of a list of zones, each once, in the order of first occurrence\<close>

fun regions_of :: "string list \<Rightarrow> string list \<Rightarrow> go_error + string list" where
  "regions_of [] seen = Inr []"
| "regions_of (zone # zones) seen = rbind (GetRegionFromZone zone) (\<lambda>region.
     if region \<in> set seen then regions_of zones seen
     else rbind (regions_of zones (region # seen)) (\<lambda>rs. Inr (region # rs)))"

definition listRegions :: "(labels \<Rightarrow> string) \<Rightarrow> string \<Rightarrow> TopologyRequirement option \<Rightarrow> go_error + string list" where
  "listRegions show_map cloudZone req = rbind (GetRegionFromZone cloudZone) (\<lambda>clusterRegion.
     case req of
       None \<Rightarrow> Inr [clusterRegion]
     | Some t \<Rightarrow>
         rbind (listZonesFromTopology show_map t) (\<lambda>zones.
         rbind (regions_of zones []) (\<lambda>allowedRegions.
           if length allowedRegions = 0 then Inr [clusterRegion] else Inr allowedRegions)))"

section \<open>Keys\<close>

definition ParameterKeyPVCName :: string where "ParameterKeyPVCName = ''csi.storage.k8s.io/pvc/name''"
definition ParameterKeyPVCNamespace :: string where "ParameterKeyPVCNamespace = ''csi.storage.k8s.io/pvc/namespace''"
definition ParameterKeyPVName :: string where "ParameterKeyPVName = ''csi.storage.k8s.io/pv/name''"
definition ParameterKeyLabels :: string where "ParameterKeyLabels = ''labels''"
definition ParamMultishareInstanceScLabel :: string where "ParamMultishareInstanceScLabel = ''instance-storageclass-label''"
definition tagKeyCreatedForClaimName :: string where "tagKeyCreatedForClaimName = ''kubernetes_io_created-for_pvc_name''"
definition tagKeyCreatedForClaimNamespace :: string where "tagKeyCreatedForClaimNamespace = ''kubernetes_io_created-for_pvc_namespace''"
definition tagKeyCreatedForVolumeName :: string where "tagKeyCreatedForVolumeName = ''kubernetes_io_created-for_pv_name''"
definition tagKeyCreatedBy :: string where "tagKeyCreatedBy = ''storage_gke_io_created-by''"
definition tagKeySnapshotName :: string where "tagKeySnapshotName = ''storage_gke_io_created-for_csi_snapshot_name''"
definition TagKeyClusterName :: string where "TagKeyClusterName = ''storage_gke_io_cluster_name''"
definition TagKeyClusterLocation :: string where "TagKeyClusterLocation = ''storage_gke_io_cluster_location''"
definition ParamMultishareInstanceScLabelKey :: string where "ParamMultishareInstanceScLabelKey = ''storage_gke_io_storage-class-id''"

lemmas label_keys = ParameterKeyPVCName_def
  ParameterKeyPVCNamespace_def
  ParameterKeyPVName_def
  ParameterKeyLabels_def
  ParamMultishareInstanceScLabel_def
  tagKeyCreatedForClaimName_def
  tagKeyCreatedForClaimNamespace_def
  tagKeyCreatedForVolumeName_def
  tagKeyCreatedBy_def
  tagKeySnapshotName_def
  TagKeyClusterName_def
  TagKeyClusterLocation_def
  ParamMultishareInstanceScLabelKey_def

section \<open>Labels\<close>

text \<open>The labels of the metadata first, then those of the storage class, which must not repeat one,
  then those of the command line where there is none yet\<close>

fun add_scLabels :: "labels \<Rightarrow> labels \<Rightarrow> go_error + labels" where
  "add_scLabels [] result = Inr result"
| "add_scLabels ((k, v) # m) result =
     (if mlookup result k \<noteq> None
      then Inl (ErrText (''storage Class labels cannot contain metadata label key '' @ k))
      else add_scLabels m (minsert k v result))"

definition add_cliLabels :: "labels \<Rightarrow> labels \<Rightarrow> labels" where
  "add_cliLabels cli result =
     fold (\<lambda>(k, v) r. if mlookup r k = None then minsert k v r else r) cli result"

definition mergeLabels :: "labels \<Rightarrow> labels \<Rightarrow> labels \<Rightarrow> go_error + labels" where
  "mergeLabels scLabels metadataLabels cliLabels =
     rbind (add_scLabels scLabels (fold (\<lambda>(k, v) r. minsert k v r) metadataLabels [])) (\<lambda>result.
       Inr (add_cliLabels cliLabels result))"

definition driver_label :: "string \<Rightarrow> string" where
  "driver_label driverName = replace_char (CHR ''.'') (CHR ''_'') driverName"

text \<open>The loop of \<open>extractLabels\<close> over the parameters: the metadata labels and the parsed user labels\<close>

fun scan_params :: "labels \<Rightarrow> labels \<Rightarrow> labels \<Rightarrow> go_error + labels \<times> labels" where
  "scan_params [] meta sc = Inr (meta, sc)"
| "scan_params ((k, v) # ps) meta sc =
     (let key = toLower k in
      if key = ParameterKeyPVCName then scan_params ps (minsert tagKeyCreatedForClaimName v meta) sc
      else if key = ParameterKeyPVCNamespace then scan_params ps (minsert tagKeyCreatedForClaimNamespace v meta) sc
      else if key = ParameterKeyPVName then scan_params ps (minsert tagKeyCreatedForVolumeName v meta) sc
      else if key = ParameterKeyLabels then
        (case ConvertLabelsStringToMap v of
           Inl e \<Rightarrow> Inl (ErrWrap ''parameters contain invalid labels parameter: '' e [])
         | Inr m \<Rightarrow> scan_params ps meta m)
      else scan_params ps meta sc)"

definition extractLabels :: "labels \<Rightarrow> labels \<Rightarrow> string \<Rightarrow> go_error + labels" where
  "extractLabels parameters cliLabels driverName =
     rbind (scan_params parameters [] []) (\<lambda>(meta, sc).
       mergeLabels sc (minsert tagKeyCreatedBy (driver_label driverName) meta) cliLabels)"

definition extractBackupLabels :: "labels \<Rightarrow> labels \<Rightarrow> string \<Rightarrow> string \<Rightarrow> go_error + labels" where
  "extractBackupLabels parameters cliLabels driverName snapshotName =
     rbind (extractLabels parameters cliLabels driverName) (\<lambda>labels.
       Inr (minsert tagKeySnapshotName snapshotName labels))"

fun scan_instance_params :: "labels \<Rightarrow> labels \<Rightarrow> labels \<Rightarrow> go_error + labels \<times> labels" where
  "scan_instance_params [] inst user = Inr (inst, user)"
| "scan_instance_params ((k, v) # ps) inst user =
     (let key = toLower k in
      if key = ParameterKeyLabels then
        (case ConvertLabelsStringToMap v of
           Inl e \<Rightarrow> Inl (StatusErr InvalidArgument (error_text e))
         | Inr m \<Rightarrow> scan_instance_params ps inst m)
      else if key = ParamMultishareInstanceScLabel then
        (case CheckLabelValueRegex v of
           Some e \<Rightarrow> Inl (StatusErr InvalidArgument (error_text e))
         | None \<Rightarrow> scan_instance_params ps (minsert ParamMultishareInstanceScLabelKey v inst) user)
      else scan_instance_params ps inst user)"

definition extractInstanceLabels :: "labels \<Rightarrow> labels \<Rightarrow> string \<Rightarrow> string \<Rightarrow> string \<Rightarrow> go_error + labels" where
  "extractInstanceLabels parameters cliLabels driverName clusterName location =
     rbind (scan_instance_params parameters [] []) (\<lambda>(inst, user).
       map_err (\<lambda>e. StatusErr InvalidArgument (error_text e))
         (mergeLabels user
           (minsert TagKeyClusterLocation location
             (minsert TagKeyClusterName clusterName
               (minsert tagKeyCreatedBy (driver_label driverName) inst)))
           cliLabels))"

fun extractShareLabels :: "labels \<Rightarrow> labels \<Rightarrow> labels" where
  "extractShareLabels [] acc = acc"
| "extractShareLabels ((k, v) # ps) acc =
     (let key = toLower k in
      extractShareLabels ps
        (if key = ParameterKeyPVCName then minsert tagKeyCreatedForClaimName v acc
         else if key = ParameterKeyPVCNamespace then minsert tagKeyCreatedForClaimNamespace v acc
         else if key = ParameterKeyPVName then minsert tagKeyCreatedForVolumeName v acc
         else acc))"

section \<open>Properties\<close>

lemma mlookup_fold_minsert:
  "go_map m \<Longrightarrow> mlookup (fold (\<lambda>(k, v) r. minsert k v r) m acc) k =
     (case mlookup m k of Some v \<Rightarrow> Some v | None \<Rightarrow> mlookup acc k)"
proof (induction m arbitrary: acc)
  case (Cons p m)
  then have "go_map m" "mlookup m (fst p) = None"
    by (auto simp: go_map_def keys_def mlookup_None_keys)
  then show ?case using Cons.IH by (cases p) (auto split: option.split)
qed simp

lemma go_map_fold_minsert: "go_map acc \<Longrightarrow> go_map (fold (\<lambda>(k, v) r. minsert k v r) m acc)"
  by (induction m arbitrary: acc) auto

lemma add_scLabels_Inr:
  "go_map m \<Longrightarrow> add_scLabels m acc = Inr r \<longleftrightarrow>
     (\<forall>k \<in> set (keys m). mlookup acc k = None) \<and> r = fold (\<lambda>(k, v) r. minsert k v r) m acc"
proof (induction m arbitrary: acc)
  case (Cons p m)
  obtain k v where p: "p = (k, v)" by force
  then have "go_map m" "k \<notin> set (keys m)" using Cons.prems by (auto simp: go_map_def keys_def)
  then show ?case using Cons.IH[of "minsert k v acc"] by (auto simp: p)
qed auto

lemma mlookup_add_cliLabels:
  "go_map cli \<Longrightarrow> mlookup (add_cliLabels cli r) k = (case mlookup r k of Some v \<Rightarrow> Some v | None \<Rightarrow> mlookup cli k)"
proof (induction cli arbitrary: r)
  case (Cons p m)
  obtain k' v where p: "p = (k', v)" by force
  then have m: "go_map m" "mlookup m k' = None" using Cons.prems by (auto simp: go_map_def keys_def mlookup_None_keys)
  have "mlookup (add_cliLabels (p # m) r) k
      = mlookup (add_cliLabels m (if mlookup r k' = None then minsert k' v r else r)) k"
    by (simp add: add_cliLabels_def p)
  then show ?case using Cons.IH[OF m(1)] m(2) by (auto simp: p split: option.split)
qed (simp add: add_cliLabels_def split: option.split)

lemma mergeLabels_cases:
  assumes "go_map sc" "go_map meta" "go_map cli"
  shows "if \<forall>k \<in> set (keys sc). k \<notin> set (keys meta)
    then \<exists>r. mergeLabels sc meta cli = Inr r \<and> (\<forall>k. mlookup r k =
       (case mlookup meta k of Some v \<Rightarrow> Some v
        | None \<Rightarrow> (case mlookup sc k of Some v \<Rightarrow> Some v | None \<Rightarrow> mlookup cli k)))
    else \<exists>e. mergeLabels sc meta cli = Inl e"
proof -
  let ?m = "fold (\<lambda>(k, v) r. minsert k v r) meta []"
  let ?s = "fold (\<lambda>(k, v) r. minsert k v r) sc ?m"
  have meta: "mlookup ?m k = mlookup meta k" for k
    using mlookup_fold_minsert[OF assms(2)] by (simp split: option.split)
  have iff: "(add_scLabels sc ?m = Inr r) = ((\<forall>k \<in> set (keys sc). k \<notin> set (keys meta)) \<and> r = ?s)" for r
    using add_scLabels_Inr[OF assms(1), of ?m r] by (simp add: meta mlookup_None_keys)
  show ?thesis
  proof (cases "\<forall>k \<in> set (keys sc). k \<notin> set (keys meta)")
    case True
    then have "add_scLabels sc ?m = Inr ?s" using iff by blast
    then have "mergeLabels sc meta cli = Inr (add_cliLabels cli ?s)"
      by (simp add: mergeLabels_def)
    moreover have "mlookup sc k = None" if "mlookup meta k = Some v" for k v
      using True mlookup_Some_keys[OF that] mlookup_None_keys by metis
    ultimately show ?thesis
      using True by (auto simp: mlookup_add_cliLabels[OF assms(3)] mlookup_fold_minsert[OF assms(1)] meta
          split: option.split)
  next
    case False
    then have "add_scLabels sc ?m \<noteq> Inr r" for r using iff by blast
    then have "\<exists>e. mergeLabels sc meta cli = Inl e"
      by (cases "add_scLabels sc ?m") (auto simp: mergeLabels_def)
    then show ?thesis by (rule if_not_P[OF False, THEN iffD2])
  qed
qed

lemma mergeLabels_lookup:
  assumes "go_map sc" "go_map meta" "go_map cli" "mergeLabels sc meta cli = Inr r"
  shows "mlookup r k = (case mlookup meta k of Some v \<Rightarrow> Some v
        | None \<Rightarrow> (case mlookup sc k of Some v \<Rightarrow> Some v | None \<Rightarrow> mlookup cli k))"
    and "\<forall>k \<in> set (keys sc). k \<notin> set (keys meta)"
  using mergeLabels_cases[OF assms(1-3)] assms(4) by (auto split: if_splits)

text \<open>Merging labels. The merge succeeds exactly when no storage-class label repeats a metadata key,
  and then a key has its metadata value, else its storage-class value, else its command-line
  value; the result does not depend on the order in which the three maps are ranged over.\<close>

theorem mergeLabels_correct:
  assumes "go_map sc" "go_map meta" "go_map cli"
  shows "if \<forall>k \<in> set (keys sc). k \<notin> set (keys meta)
    then \<exists>r. mergeLabels sc meta cli = Inr r \<and> (\<forall>k. mlookup r k =
       (case mlookup meta k of Some v \<Rightarrow> Some v
        | None \<Rightarrow> (case mlookup sc k of Some v \<Rightarrow> Some v | None \<Rightarrow> mlookup cli k)))
    else \<exists>e. mergeLabels sc meta cli = Inl e"
  using assms by (rule mergeLabels_cases)

theorem mergeLabels_correct_witness:
  "\<exists>r. mergeLabels [(''team'', ''a'')] [(''by'', ''d'')] [(''team'', ''b''), (''env'', ''p'')] = Inr r
     \<and> mlookup r ''team'' = Some ''a'' \<and> mlookup r ''env'' = Some ''p''"
  using mergeLabels_correct[of "[(''team'', ''a'')]" "[(''by'', ''d'')]" "[(''team'', ''b''), (''env'', ''p'')]"]
  by (auto simp: go_map_def)

lemma scan_params_valid:
  "scan_params ps meta sc = Inr (meta', sc') \<Longrightarrow> valid_labels sc \<Longrightarrow> go_map meta \<Longrightarrow> valid_labels sc' \<and> go_map meta'"
proof (induction ps meta sc rule: scan_params.induct)
  case (2 k v ps meta sc)
  have "valid_labels m" if "ConvertLabelsStringToMap v = Inr m" for m
    using that convert_pieces_valid[of v "split (CHR '','') v" "[]"]
    by (auto simp: ConvertLabelsStringToMap_def rbind_Inr_iff split: if_splits)
  then show ?case
    using 2 by (auto simp: Let_def split: if_splits sum.splits)
qed simp

text \<open>Labels of a volume. Whatever labels the user gives, a volume that gets its labels has the
  driver's name as its creator label, the claim and volume names reported by the provisioner
  cannot be overridden by user labels, and every user label is a valid key and value.\<close>

theorem extractLabels_created_by:
  assumes "go_map cli" "extractLabels params cli driverName = Inr r"
  shows "mlookup r tagKeyCreatedBy = Some (driver_label driverName)
    \<and> (\<exists>meta sc. scan_params params [] [] = Inr (meta, sc) \<and> valid_labels sc
         \<and> (\<forall>k v. mlookup meta k = Some v \<and> k \<noteq> tagKeyCreatedBy \<longrightarrow> mlookup r k = Some v)
         \<and> (\<forall>k v. mlookup sc k = Some v \<longrightarrow> mlookup r k = Some v))"
proof -
  let ?by = "minsert tagKeyCreatedBy (driver_label driverName)"
  obtain meta sc where ms: "scan_params params [] [] = Inr (meta, sc)" "mergeLabels sc (?by meta) cli = Inr r"
    using assms(2) by (auto simp: extractLabels_def rbind_Inr_iff)
  have v: "valid_labels sc" "go_map meta" using scan_params_valid[OF ms(1)] by simp_all
  then have "go_map sc" by (simp add: valid_labels_def)
  note merge = mergeLabels_lookup[OF this go_map_minsert[OF v(2)] assms(1) ms(2)]
  have "mlookup r k = Some x" if "mlookup sc k = Some x" for k x
  proof -
    have "k \<notin> set (keys (?by meta))" using merge(2) mlookup_Some_keys[OF that] by blast
    then have "mlookup (?by meta) k = None" using mlookup_None_keys by metis
    then show ?thesis using that unfolding merge(1)[of k] by simp
  qed
  then show ?thesis using ms(1) v(1) merge(1) by auto
qed

theorem extractLabels_created_by_witness:
  "\<exists>r. extractLabels [(''labels'', ''team=a'')] [] ''filestore.csi'' = Inr r
     \<and> mlookup r ''storage_gke_io_created-by'' = Some ''filestore_csi''"
proof -
  have e: "extractLabels [(''labels'', ''team=a'')] [] ''filestore.csi''
      = Inr [(''storage_gke_io_created-by'', ''filestore_csi''), (''team'', ''a'')]"
    by code_simp
  have "driver_label ''filestore.csi'' = ''filestore_csi''" by code_simp
  then show ?thesis using extractLabels_created_by[OF _ e] e by (simp add: label_keys)
qed

end
