(* ===== verification/Volume_Id.thy ===== *)
theory Volume_Id
  imports File_Types
begin

text \<open>
  \<open>pkg/csi_driver/volume_id.go\<close>: the volume handles the driver gives to Kubernetes. A single-share
  volume is \<open>modeInstance/location/instance/share\<close>, a multishare volume is
  \<open>modeMultishare/prefix/project/location/instance/share\<close>.
\<close>

section \<open>Building and parsing\<close>

definition modeInstance :: string where "modeInstance = ''modeInstance''"
definition modeMultishare :: string where "modeMultishare = ''modeMultishare''"

definition getVolumeIDFromFileInstance :: "ServiceInstance \<Rightarrow> string \<Rightarrow> string" where
  "getVolumeIDFromFileInstance obj mode =
     join ''/'' [mode, si_Location obj, si_Name obj, vol_Name (si_Volume obj)]"

definition getFileInstanceFromID :: "string \<Rightarrow> go_error + ServiceInstance \<times> string" where
  "getFileInstanceFromID vid =
     (let tokens = split (CHR ''/'') vid in
      if length tokens \<noteq> 4
      then Inl (ErrText (''volume id '' @ quote vid @ '' unexpected format: got '' @ show_nat (length tokens) @ '' tokens''))
      else Inr (empty_service_instance\<lparr>si_Location := tokens ! 1, si_Name := tokens ! 2,
             si_Volume := \<lparr>vol_Name = tokens ! 3, SizeBytes = 0\<rparr>\<rparr>, tokens ! 0))"

definition gatherBackupInfo :: "string \<Rightarrow> string \<Rightarrow> string \<Rightarrow> go_error + BackupInfo" where
  "gatherBackupInfo name vid project =
     (case getFileInstanceFromID vid of
        Inl e \<Rightarrow> Inl (StatusErr InvalidArgument (error_text e))
      | Inr (filer, _) \<Rightarrow>
          Inr \<lparr>bi_Name = name, bi_SourceVolumeId = vid, bi_BackupURI = [], bi_SourceInstance = [],
               bi_SourceInstanceName = si_Name filer, bi_SourceShare = vol_Name (si_Volume filer),
               bi_Project = project, bi_Location = si_Location filer, bi_Tier = [], bi_Labels = []\<rparr>)"

definition generateMultishareVolumeIdFromShare :: "string \<Rightarrow> Share option \<Rightarrow> go_error + string" where
  "generateMultishareVolumeIdFromShare instancePrefix so =
     (if instancePrefix = [] then Inl (ErrText ''invalid instance prefix'')
      else (case so of
              None \<Rightarrow> Inl (ErrText ''invalid share object'')
            | Some s \<Rightarrow> (case sh_Parent s of
                None \<Rightarrow> Inl (ErrText ''invalid share object'')
              | Some p \<Rightarrow> Inr (join ''/'' [modeMultishare, instancePrefix, mi_Project p, mi_Location p, mi_Name p, sh_Name s]))))"

definition parseSourceVolId :: "string \<Rightarrow> go_error + string \<times> string \<times> string \<times> string" where
  "parseSourceVolId volId = (case split (CHR ''/'') volId of
       [mode, location, instanceName, shareName] \<Rightarrow>
         if (mode \<noteq> modeMultishare \<and> mode \<noteq> modeInstance) \<or> location = [] \<or> instanceName = [] \<or> shareName = []
         then Inl (ErrText (''invalid volume id '' @ volId))
         else Inr (mode, location, instanceName, shareName)
     | _ \<Rightarrow> Inl (ErrText (''invalid source volume id '' @ volId)))"

definition parseMultishareVolId :: "string \<Rightarrow> go_error + string \<times> string \<times> string \<times> string \<times> string" where
  "parseMultishareVolId volId = (case split (CHR ''/'') volId of
       [mode, pfx, project, location, instanceName, shareName] \<Rightarrow>
         if mode \<noteq> modeMultishare \<or> project = [] \<or> location = [] \<or> instanceName = [] \<or> shareName = []
         then Inl (ErrText (''invalid volume id '' @ volId))
         else Inr (pfx, project, location, instanceName, shareName)
     | _ \<Rightarrow> Inl (ErrText (''invalid volume id '' @ volId)))"

section \<open>Properties\<close>

lemma no_slash_modes [simp]: "CHR ''/'' \<notin> set modeInstance" "CHR ''/'' \<notin> set modeMultishare"
  by (simp_all add: modeInstance_def modeMultishare_def)

text \<open>Volume handles round-trip. The handle of a single-share instance whose location, name and share
  contain no slash parses back to them and its mode, and two such instances with the same handle
  agree on them; the handle of a share parses back to the prefix, project, location, instance
  and name whenever those are non-empty (the prefix may be anything) and contain no slash.\<close>

theorem volume_id_roundtrip:
  assumes si: "\<forall>x \<in> {mode, si_Location obj, si_Name obj, vol_Name (si_Volume obj)}. CHR ''/'' \<notin> set x"
    and sh: "sh_Parent s = Some p" "\<forall>x \<in> {mi_Project p, mi_Location p, mi_Name p, sh_Name s}. x \<noteq> [] \<and> CHR ''/'' \<notin> set x"
      "pfx \<noteq> []" "CHR ''/'' \<notin> set pfx"
  shows "(\<exists>f. getFileInstanceFromID (getVolumeIDFromFileInstance obj mode) = Inr (f, mode)
      \<and> si_Location f = si_Location obj \<and> si_Name f = si_Name obj \<and> vol_Name (si_Volume f) = vol_Name (si_Volume obj))
    \<and> (\<exists>vid. generateMultishareVolumeIdFromShare pfx (Some s) = Inr vid
      \<and> parseMultishareVolId vid = Inr (pfx, mi_Project p, mi_Location p, mi_Name p, sh_Name s)
      \<and> isMultishareVolId vid)"
proof
  let ?vid = "join ''/'' [modeMultishare, pfx, mi_Project p, mi_Location p, mi_Name p, sh_Name s]"
  have "split (CHR ''/'') (getVolumeIDFromFileInstance obj mode)
      = [mode, si_Location obj, si_Name obj, vol_Name (si_Volume obj)]"
    unfolding getVolumeIDFromFileInstance_def using si by (intro split_join) auto
  then show "\<exists>f. getFileInstanceFromID (getVolumeIDFromFileInstance obj mode) = Inr (f, mode)
      \<and> si_Location f = si_Location obj \<and> si_Name f = si_Name obj \<and> vol_Name (si_Volume f) = vol_Name (si_Volume obj)"
    by (simp add: getFileInstanceFromID_def)
  have "split (CHR ''/'') ?vid = [modeMultishare, pfx, mi_Project p, mi_Location p, mi_Name p, sh_Name s]"
    using sh by (intro split_join) auto
  then have "parseMultishareVolId ?vid = Inr (pfx, mi_Project p, mi_Location p, mi_Name p, sh_Name s)"
    using sh by (simp add: parseMultishareVolId_def del: join.simps)
  moreover have "isMultishareVolId ?vid"
    unfolding isMultishareVolId_def modeMultishare_def join.simps by (rule contains_append_right) simp
  moreover have "generateMultishareVolumeIdFromShare pfx (Some s) = Inr ?vid"
    using sh by (simp add: generateMultishareVolumeIdFromShare_def)
  ultimately show "\<exists>vid. generateMultishareVolumeIdFromShare pfx (Some s) = Inr vid
      \<and> parseMultishareVolId vid = Inr (pfx, mi_Project p, mi_Location p, mi_Name p, sh_Name s) \<and> isMultishareVolId vid"
    by blast
qed

theorem volume_id_roundtrip_witness:
  "\<exists>vid. generateMultishareVolumeIdFromShare ''sc1'' (Some example_share) = Inr vid
     \<and> parseMultishareVolId vid = Inr (''sc1'', ''p'', ''us-c1'', ''fs-1'', ''pvc_1'')"
proof -
  have "\<exists>vid. generateMultishareVolumeIdFromShare ''sc1'' (Some example_share) = Inr vid
      \<and> parseMultishareVolId vid = Inr (''sc1'', mi_Project example_instance, mi_Location example_instance,
          mi_Name example_instance, sh_Name example_share) \<and> isMultishareVolId vid"
    by (rule volume_id_roundtrip[of modeInstance "empty_service_instance", THEN conjunct2])
       (simp_all add: example_share_def example_instance_def empty_service_instance_def)
  then show ?thesis by (auto simp: example_share_def example_instance_def)
qed

end
