(* ===== verification/Driver_State.thy ===== *)
theory Driver_State
  imports Fake_Service Ip_Reservation Volume_Locks Capacity Labels Volume_Id
begin

text \<open>
  What the controllers share: the requests of the CSI specification they read, the state a
  controller changes (the service, the IP allocator and the volume locks), its configuration, the
  lock a handler takes on entry and releases on exit, the validation of volume capabilities of
  \<open>gcfs_driver.go\<close>, and the reservation of an IP range of \<open>controller.go\<close>. The lemmas at the end
  are a small calculus of what handlers keep: locks, pending IP ranges, and errors with a status.
\<close>

section \<open>Requests\<close>

text \<open>The access type of a capability: none, block, or mount with its file system type\<close>

datatype access_type = BlockAccess | MountAccess "string option"

record VolumeCapability =
  cap_AccessMode :: "string option"
  cap_AccessType :: "access_type option"

datatype content_source = SnapshotSource string | VolumeSource string | NoSource

record CreateVolumeRequest =
  cr_Name :: string
  cr_CapacityRange :: "CapacityRange option"
  cr_VolumeCapabilities :: "VolumeCapability option list"
  cr_Parameters :: labels
  cr_MutableParameters :: labels
  cr_VolumeContentSource :: "content_source option"
  cr_AccessibilityRequirements :: "TopologyRequirement option"

text \<open>Nil parameters of a snapshot request differ from empty ones.\<close>

record CreateSnapshotRequest =
  sr_Name :: string
  sr_SourceVolumeId :: string
  sr_Parameters :: "labels option"

record ExpandResponse =
  er_CapacityBytes :: int
  er_NodeExpansionRequired :: bool

record CsiVolume =
  cv_VolumeId :: string
  cv_CapacityBytes :: int
  cv_VolumeContext :: labels
  cv_ContentSource :: "string option"

section \<open>State and configuration\<close>

text \<open>\<open>controllerServerConfig\<close>: its mutable parts are the state, the rest is \<open>config\<close>.\<close>

record 'w driver =
  world :: 'w
  ipAllocator :: IPAllocator
  volumeLocks :: VolumeLocks

record config =
  cfg_Name :: string
  cfg_Project :: string
  cfg_Zone :: string
  cfg_extraVolumeLabels :: labels
  cfg_isRegional :: bool
  cfg_clusterName :: string
  cfg_ecfsDescription :: string
  cfg_vcap :: "string list"
  cfg_nfsExportOptionsOnCreate :: bool
  cfg_nfsv4Support :: bool
  cfg_lockRelease :: bool
  cfg_maxSharesPerInstance :: bool
  cfg_multishareBackups :: bool
  cfg_multishareEnabled :: bool
  cfg_statefulEnabled :: bool
  cfg_descOverrideMaxSharesPerInstance :: string
  cfg_descOverrideMinShareSizeBytes :: string

text \<open>The library calls the controllers make: renderings that only reach error texts, the strict JSON
  decoder, \<open>resource.ParseQuantity\<close>, \<open>math/rand\<close> (an index below its argument), \<open>uuid\<close>, and the
  two calls on times.\<close>

record 'ts externals =
  ext_tib :: "int \<Rightarrow> string"
  ext_show_map :: "labels \<Rightarrow> string"
  ext_show_instance :: "MultishareInstance \<Rightarrow> string"
  ext_decode_nfs :: "string \<Rightarrow> string + NfsExportOptions list"
  ext_parseQuantity :: "string \<Rightarrow> string + int"
  ext_rand :: "nat \<Rightarrow> nat"
  ext_uuid :: string
  ext_time_parse :: "string \<Rightarrow> string + 'ts"
  ext_check_valid :: "'ts \<Rightarrow> string option"

text \<open>\<open>cloud.TagService\<close> as the controllers call it\<close>

datatype resourceType = FilestoreInstance | FilestoreBackUp | OtherResource string

record 'w TagService =
  tag_ValidateResourceTags :: "string \<Rightarrow> string \<Rightarrow> ('w, unit) eff"
  tag_AttachResourceTags :: "resourceType \<Rightarrow> string \<Rightarrow> string \<Rightarrow> string \<Rightarrow> labels \<Rightarrow> ('w, unit) eff"

definition ParameterKeyResourceTags :: string where "ParameterKeyResourceTags = ''resource-tags''"

definition on_world :: "('w, 'a) eff \<Rightarrow> ('w driver, 'a) eff" where
  "on_world m d = (case m (world d) of (r, w') \<Rightarrow> (r, d\<lparr>world := w'\<rparr>))"

text \<open>\<open>file.StatusError\<close> on an error; a panic goes through.\<close>

definition to_status :: "go_error \<Rightarrow> go_error" where
  "to_status = rewrite_err (\<lambda>e. StatusErr (codeForError e) (error_text e))"

definition status_of :: "code \<Rightarrow> go_error \<Rightarrow> go_error" where
  "status_of c = rewrite_err (\<lambda>e. StatusErr c (error_text e))"

text \<open>The rejection of a request whose volume has an operation in progress
  (\<open>VolumeOperationAlreadyExistsFmt\<close>), and a handler body between \<open>TryAcquire\<close> and the deferred
  \<open>Release\<close>\<close>

definition lock_taken :: "string \<Rightarrow> go_error" where
  "lock_taken volumeID = StatusErr Aborted (''An operation with the given volume key '' @ volumeID @ '' already exists.''
     @ [CHR 0x0A] @ '' --- Most likely a long process is still running to completion. Retrying.'')"

definition with_lock :: "string \<Rightarrow> ('w driver, 'a) eff \<Rightarrow> ('w driver, 'a) eff" where
  "with_lock volumeID body d = (case TryAcquire (volumeLocks d) volumeID of
       (acquired, vl) \<Rightarrow>
         if \<not> acquired then (Inl (lock_taken volumeID), d\<lparr>volumeLocks := vl\<rparr>)
         else (case body (d\<lparr>volumeLocks := vl\<rparr>) of
                 (r, d') \<Rightarrow> (r, d'\<lparr>volumeLocks := Release (volumeLocks d') volumeID\<rparr>)))"

section \<open>Volume capabilities\<close>

definition validateVolumeCapability :: "config \<Rightarrow> VolumeCapability option \<Rightarrow> go_error option" where
  "validateVolumeCapability cfg co = (case co of
       None \<Rightarrow> Some (ErrText ''volume capability must be provided'')
     | Some c \<Rightarrow> (case cap_AccessMode c of
         None \<Rightarrow> Some (ErrText ''volume capability access mode not set'')
       | Some mode \<Rightarrow>
           if mode \<notin> set (cfg_vcap cfg) then Some (ErrText (''driver does not support access mode: '' @ mode))
           else (case cap_AccessType c of
             None \<Rightarrow> Some (ErrText ''volume capability access type not set'')
           | Some (MountAccess (Some fsType)) \<Rightarrow> None
           | Some _ \<Rightarrow> Some (ErrText ''driver only supports mount access type volume capability''))))"

fun first_error :: "('a \<Rightarrow> go_error option) \<Rightarrow> 'a list \<Rightarrow> go_error option" where
  "first_error f [] = None"
| "first_error f (x # xs) = (case f x of Some e \<Rightarrow> Some e | None \<Rightarrow> first_error f xs)"

definition validateVolumeCapabilities :: "config \<Rightarrow> VolumeCapability option list \<Rightarrow> go_error option" where
  "validateVolumeCapabilities cfg caps =
     (if length caps = 0 then Some (ErrText ''volume capabilities must be provided'')
      else first_error (validateVolumeCapability cfg) caps)"

section \<open>Reservation of an IP range\<close>

definition getCloudInstancesReservedIPRanges ::
  "'w Service \<Rightarrow> ServiceInstance \<Rightarrow> ('w driver, (string, bool) gomap) eff" where
  "getCloudInstancesReservedIPRanges svc filer =
     bind_err (\<lambda>e. StatusErr Aborted (error_text e)) (on_world (svc_ListInstances svc filer)) (\<lambda>instances.
     bind_err (\<lambda>e. StatusErr Aborted (error_text e))
       (on_world (svc_ListMultishareInstances svc
          \<lparr>lf_Project = si_Project filer, lf_Location = ''-'', lf_InstanceName = []\<rparr>)) (\<lambda>multiShareInstances.
       let same = (\<lambda>n. equalFold (net_Name n) (net_Name (si_Network filer)));
           add = (\<lambda>n m. if same n then minsert (ReservedIpRange n) True m else m) in
       ret (fold add (map mi_Network multiShareInstances) (fold add (map si_Network instances) []))))"

definition ipRangeSizeForTier :: "string \<Rightarrow> nat" where
  "ipRangeSizeForTier tier =
     (if tier = ''high_scale_ssd'' then IpRangeSizeHighScale
      else if tier = ''enterprise'' \<or> tier = ''zonal'' \<or> tier = ''regional'' then IpRangeSizeEnterprise
      else IpRangeSize)"

text \<open>\<open>scan_total\<close> shows that the allocator returns; the branch None is never taken
  (\<open>reserveIPRange_returns\<close>).\<close>

definition allocate :: "string \<Rightarrow> nat \<Rightarrow> (string, bool) gomap \<Rightarrow> ('w driver, string) eff" where
  "allocate cidr n reserved d = (case GetUnreservedIPRange cidr n reserved (ipAllocator d) of
       None \<Rightarrow> (Inl (Panic ''no return''), d)
     | Some (r, al) \<Rightarrow> (r, d\<lparr>ipAllocator := al\<rparr>))"

definition reserveIPRange :: "'w Service \<Rightarrow> ServiceInstance \<Rightarrow> string \<Rightarrow> ('w driver, string) eff" where
  "reserveIPRange svc filer cidr =
     bind (getCloudInstancesReservedIPRanges svc filer) (\<lambda>reserved.
       allocate cidr (ipRangeSizeForTier (si_Tier filer)) reserved)"

text \<open>A reservation, and the rest of the handler after which the deferred \<open>ReleaseIPRange\<close> runs with
  the reserved range, or with the empty string when there is none; \<open>h\<close> rewrites the error of the
  reservation.\<close>

definition release_ip :: "string \<Rightarrow> 'w driver \<Rightarrow> 'w driver" where
  "release_ip r d = d\<lparr>ipAllocator := ReleaseIPRange r (ipAllocator d)\<rparr>"

definition with_reserved ::
  "(go_error \<Rightarrow> go_error) \<Rightarrow> ('w driver, string) eff \<Rightarrow> (string \<Rightarrow> ('w driver, 'a) eff) \<Rightarrow> ('w driver, 'a) eff" where
  "with_reserved h reserve body d = (case reserve d of
       (Inl e, d') \<Rightarrow> (Inl (rewrite_err h e), release_ip [] d')
     | (Inr r, d') \<Rightarrow> (case body r d' of (res, d'') \<Rightarrow> (res, release_ip r d'')))"

definition IsCIDR :: "string \<Rightarrow> bool" where
  "IsCIDR ipRange = (case net_ParseCIDR ipRange of Inl _ \<Rightarrow> False | Inr _ \<Rightarrow> True)"

text \<open>An address that does not parse is nil, and no network contains it.\<close>

definition IsIpWithinRange :: "string \<Rightarrow> string \<Rightarrow> go_error + bool" where
  "IsIpWithinRange ipAddress ipRange = (case net_ParseCIDR ipRange of
       Inl e \<Rightarrow> Inl (ErrWrap (''failed to parse cidr range '' @ ipRange @ '': '') e [])
     | Inr (_, ipnet) \<Rightarrow> Inr (case parse_ipv4 ipAddress of None \<Rightarrow> False | Some a \<Rightarrow> net_contains ipnet a))"

section \<open>What handlers keep\<close>

text \<open>\<open>keeps f m\<close>: running \<open>m\<close> changes nothing that \<open>f\<close> sees. The two views are the volumes with an
  operation in progress and the IP ranges held for pending creations.\<close>

named_theorems keeps_intros \<open>introduction rules of keeps and errors_in\<close>

definition keeps :: "('s \<Rightarrow> 'b) \<Rightarrow> ('s, 'a) eff \<Rightarrow> bool" where
  "keeps f m = (\<forall>d. f (snd (m d)) = f d)"

definition errors_in :: "go_error set \<Rightarrow> ('s, 'a) eff \<Rightarrow> bool" where
  "errors_in E m = (\<forall>d e d'. m d = (Inl e, d') \<longrightarrow> e \<in> E)"

definition busy_volumes :: "'w driver \<Rightarrow> string set" where
  "busy_volumes d = locks (volumeLocks d)"

definition held_ranges :: "'w driver \<Rightarrow> string set" where
  "held_ranges d = {r. r \<noteq> [] \<and> mlookup (pendingIPRanges (ipAllocator d)) r \<noteq> None}"

text \<open>The errors a handler may answer with: gRPC statuses (and panics, which the server turns into
  one or dies of)\<close>

definition status_errors :: "go_error set" where
  "status_errors = {e. \<exists>c m. e = StatusErr c m} \<union> {e. \<exists>m. e = Panic m}"

lemma keepsD: "keeps f m \<Longrightarrow> m d = (r, d') \<Longrightarrow> f d' = f d"
  unfolding keeps_def by (metis snd_conv)

lemma keeps_basic [keeps_intros, simp]: "keeps f (ret a)" "keeps f (fail e)" "keeps f (lift r)"
  by (simp_all add: keeps_def)

lemma keeps_bind [keeps_intros]: "keeps f m \<Longrightarrow> (\<And>a. keeps f (g a)) \<Longrightarrow> keeps f (bind m g)"
  by (auto simp: keeps_def bind_def split: prod.splits sum.splits) (metis snd_conv)+

lemma keeps_bind_err [keeps_intros]: "keeps f m \<Longrightarrow> (\<And>a. keeps f (g a)) \<Longrightarrow> keeps f (bind_err h m g)"
  by (auto simp: keeps_def bind_err_def split: prod.splits sum.splits) (metis snd_conv)+

lemma keeps_attempt [keeps_intros]: "keeps f m \<Longrightarrow> (\<And>r. keeps f (g r)) \<Longrightarrow> keeps f (attempt m g)"
  by (auto simp: keeps_def attempt_def split: prod.splits) (metis snd_conv)

lemma keeps_on_world [keeps_intros, simp]:
  "keeps busy_volumes (on_world m)" "keeps held_ranges (on_world m)"
  by (auto simp: keeps_def on_world_def busy_volumes_def held_ranges_def split: prod.splits)

lemma keeps_with_lock [keeps_intros]:
  "keeps busy_volumes body \<Longrightarrow> keeps busy_volumes (with_lock v body)"
proof -
  assume b: "keeps busy_volumes body"
  show "keeps busy_volumes (with_lock v body)"
  proof (unfold keeps_def, rule allI)
    fix d :: "'a driver"
    obtain acquired vl where a: "TryAcquire (volumeLocks d) v = (acquired, vl)" by force
    obtain r d' where r: "body (d\<lparr>volumeLocks := vl\<rparr>) = (r, d')" by force
    have "locks (volumeLocks d') = locks vl" using keepsD[OF b r] by (simp add: busy_volumes_def)
    then show "busy_volumes (snd (with_lock v body d)) = busy_volumes d"
      using a vlocks.acquire_cases[of "volumeLocks d" v vl] vlocks.held_release[of "volumeLocks d'" v]
      by (cases acquired) (auto simp: with_lock_def r busy_volumes_def)
  qed
qed

lemma keeps_ranges_with_lock [keeps_intros]:
  "keeps held_ranges body \<Longrightarrow> keeps held_ranges (with_lock v body)"
proof -
  assume b: "keeps held_ranges body"
  have upd: "held_ranges (d\<lparr>volumeLocks := vl\<rparr>) = held_ranges d" for d :: "'a driver" and vl
    by (simp add: held_ranges_def)
  show ?thesis
    using keepsD[OF b] by (auto simp: keeps_def with_lock_def upd split: prod.split)
qed

lemma keeps_allocate [keeps_intros, simp]: "keeps busy_volumes (allocate cidr n reserved)"
  by (simp add: keeps_def allocate_def busy_volumes_def split: option.split prod.split)

lemma errors_basic [keeps_intros, simp]: "errors_in E (ret a)" "errors_in E (fail e) = (e \<in> E)"
  by (simp_all add: errors_in_def)

lemma errors_bind [keeps_intros]:
  "errors_in E m \<Longrightarrow> (\<And>a. errors_in E (g a)) \<Longrightarrow> errors_in E (bind m g)"
  by (auto simp: errors_in_def bind_def split: prod.splits sum.splits)

lemma errors_bind_err [keeps_intros]:
  "(\<And>e. rewrite_err h e \<in> E) \<Longrightarrow> (\<And>a. errors_in E (g a)) \<Longrightarrow> errors_in E (bind_err h m g)"
  by (auto simp: errors_in_def bind_err_def split: prod.splits sum.splits)

lemma errors_attempt [keeps_intros]: "(\<And>r. errors_in E (g r)) \<Longrightarrow> errors_in E (attempt m g)"
  by (auto simp: errors_in_def attempt_def split: prod.splits)

lemma errors_with_lock [keeps_intros]:
  "lock_taken v \<in> E \<Longrightarrow> errors_in E body \<Longrightarrow> errors_in E (with_lock v body)"
  by (auto simp: errors_in_def with_lock_def split: prod.splits if_splits)

lemma status_errors_simps [simp]:
  "StatusErr c m \<in> status_errors" "Panic m \<in> status_errors" "lock_taken v \<in> status_errors"
  "to_status e \<in> status_errors" "status_of c e \<in> status_errors"
  by (auto simp: status_errors_def lock_taken_def to_status_def status_of_def rewrite_err_def split: go_error.split)

lemma rewrite_to_status [simp]:
  "rewrite_err to_status e = to_status e" "rewrite_err (status_of c) e = status_of c e"
  by (simp_all add: to_status_def status_of_def rewrite_err_def split: go_error.split)

text \<open>\<open>to_status\<close> is \<open>StatusError\<close> on the errors a service returns.\<close>

lemma to_status_StatusError:
  "err_wf e \<Longrightarrow> (\<forall>m. e \<noteq> Panic m) \<Longrightarrow> StatusError (Some e) = Some (to_status e)"
  by (auto simp: StatusError_def status_err_def codeForError_not_OK to_status_def rewrite_err_def split: go_error.split)

lemma first_error_None: "first_error f xs = None \<longleftrightarrow> (\<forall>x \<in> set xs. f x = None)"
  by (induction xs) (auto split: option.split)

lemma keeps_reserve_list [keeps_intros, simp]:
  "keeps busy_volumes (getCloudInstancesReservedIPRanges svc filer)"
  "keeps held_ranges (getCloudInstancesReservedIPRanges svc filer)"
  by (auto simp: getCloudInstancesReservedIPRanges_def Let_def intro!: keeps_intros)

lemma keeps_reserve [keeps_intros, simp]: "keeps busy_volumes (reserveIPRange svc filer cidr)"
  by (auto simp: reserveIPRange_def intro!: keeps_intros)

lemma keeps_with_reserved [keeps_intros]:
  assumes "keeps busy_volumes m" "\<And>r. keeps busy_volumes (body r)"
  shows "keeps busy_volumes (with_reserved h m body)"
proof -
  have rel: "busy_volumes (release_ip r d) = busy_volumes d" for r and d :: "'a driver"
    by (simp add: busy_volumes_def release_ip_def)
  show ?thesis
    using keepsD[OF assms(1)] keepsD[OF assms(2)]
    by (auto simp: keeps_def with_reserved_def rel split: prod.split sum.split)
qed

text \<open>The scan of a CIDR always returns, and a reserved range is one nobody holds.\<close>

lemma ipRangeSizeForTier_bounds: "1 \<le> ipRangeSizeForTier tier" "ipRangeSizeForTier tier \<le> 32"
  by (simp_all add: ipRangeSizeForTier_def IpRangeSize_def IpRangeSizeEnterprise_def IpRangeSizeHighScale_def)

lemma allocate_cases:
  assumes "1 \<le> n" "n \<le> 32" "allocate cidr n reserved d = (res, d')"
  shows "\<exists>al. GetUnreservedIPRange cidr n reserved (ipAllocator d) = Some (res, al) \<and> d' = d\<lparr>ipAllocator := al\<rparr>"
proof -
  have "GetUnreservedIPRange cidr n reserved (ipAllocator d) \<noteq> None"
    using scan_total[OF assms(1,2)]
    by (auto simp: GetUnreservedIPRange_def Let_def split: sum.split option.split prod.split simp del: not_None_eq)
  then show ?thesis using assms(3) by (auto simp: allocate_def split: option.splits prod.splits)
qed

lemma allocate_held:
  assumes "1 \<le> n" "n \<le> 32" "allocate cidr n reserved d = (res, d')"
  shows "case res of Inl e \<Rightarrow> held_ranges d' = held_ranges d
    | Inr r \<Rightarrow> r \<noteq> [] \<and> r \<notin> held_ranges d \<and> held_ranges d' = insert r (held_ranges d)"
proof -
  obtain al where g: "GetUnreservedIPRange cidr n reserved (ipAllocator d) = Some (res, al)"
      and d': "d' = d\<lparr>ipAllocator := al\<rparr>"
    using allocate_cases[OF assms] by blast
  show ?thesis
  proof (cases res)
    case (Inl e)
    then show ?thesis using GetUnreservedIPRange_Inl_state[OF g[unfolded Inl]] d' by simp
  next
    case (Inr r)
    obtain a base m x where x: "r = show_range x n" "al = holdIPRange r (ipAllocator d)"
      "\<forall>s \<in> reserved_keys reserved (ipAllocator d). range_addrs s \<inter> addrs (x, n) = {}"
      using GetUnreservedIPRange_Inr[OF assms(1,2) g[unfolded Inr]] by metis
    have "r \<notin> reserved_keys reserved (ipAllocator d)"
      using x(1,3) assms(2) self_in_addrs[of x n] by (metis IntI empty_iff range_addrs_show)
    moreover have "r \<noteq> []" by (simp add: x(1) show_range_def)
    ultimately show ?thesis
      using x(2) d'
      by (auto simp: Inr held_ranges_def holdIPRange_def reserved_keys_def mlookup_None_keys simp del: not_None_eq)
  qed
qed

lemma held_release: "held_ranges (release_ip r d) = held_ranges d - {r}"
  by (auto simp: held_ranges_def release_ip_def ReleaseIPRange_def)

lemma held_nonempty: "[] \<notin> held_ranges d"
  by (simp add: held_ranges_def)

lemma keeps_ranges_with_reserved [keeps_intros]:
  assumes "\<And>r. keeps held_ranges (body r)"
  shows "keeps held_ranges (with_reserved h (reserveIPRange svc filer cidr) body)"
proof (unfold keeps_def, rule allI)
  fix d :: "'a driver"
  let ?n = "ipRangeSizeForTier (si_Tier filer)"
  obtain res d' where r: "reserveIPRange svc filer cidr d = (res, d')" by force
  have "case res of Inl e \<Rightarrow> held_ranges d' = held_ranges d
    | Inr r \<Rightarrow> r \<notin> held_ranges d \<and> held_ranges d' = insert r (held_ranges d)"
  proof (cases "getCloudInstancesReservedIPRanges svc filer d")
    case (Pair lst d1)
    have same: "held_ranges d1 = held_ranges d" by (rule keepsD[OF keeps_reserve_list(2) Pair])
    show ?thesis
    proof (cases lst)
      case (Inl e)
      then show ?thesis using r Pair same by (auto simp: reserveIPRange_def bind_def)
    next
      case (Inr rs)
      then have "allocate cidr ?n rs d1 = (res, d')" using r Pair by (simp add: reserveIPRange_def bind_def)
      from allocate_held[OF ipRangeSizeForTier_bounds this] show ?thesis by (simp add: same split: sum.splits)
    qed
  qed
  then show "held_ranges (snd (with_reserved h (reserveIPRange svc filer cidr) body d)) = held_ranges d"
    using keepsD[OF assms] held_nonempty[of d]
    by (cases res) (auto simp: with_reserved_def r held_release split: prod.split)
qed

lemma errors_with_reserved [keeps_intros]:
  "(\<And>e. rewrite_err h e \<in> E) \<Longrightarrow> (\<And>r. errors_in E (body r)) \<Longrightarrow> errors_in E (with_reserved h m body)"
  by (auto simp: errors_in_def with_reserved_def split: prod.splits sum.splits) blast

section \<open>A configuration for the examples\<close>

definition demo_config :: config where
  "demo_config = \<lparr>cfg_Name = ''filestore.csi.storage.gke.io'', cfg_Project = ''p'', cfg_Zone = ''us-central1-c'',
     cfg_extraVolumeLabels = [], cfg_isRegional = False, cfg_clusterName = ''c'', cfg_ecfsDescription = [],
     cfg_vcap = [''MULTI_NODE_MULTI_WRITER''], cfg_nfsExportOptionsOnCreate = False, cfg_nfsv4Support = False,
     cfg_lockRelease = False, cfg_maxSharesPerInstance = False, cfg_multishareBackups = False,
     cfg_multishareEnabled = True, cfg_statefulEnabled = False, cfg_descOverrideMaxSharesPerInstance = [],
     cfg_descOverrideMinShareSizeBytes = []\<rparr>"

definition demo_externals :: "nat externals" where
  "demo_externals = \<lparr>ext_tib = (\<lambda>n. []), ext_show_map = (\<lambda>m. []), ext_show_instance = (\<lambda>i. []),
     ext_decode_nfs = (\<lambda>s. Inr []), ext_parseQuantity = (\<lambda>s. Inl []), ext_rand = (\<lambda>n. 0), ext_uuid = ''u'',
     ext_time_parse = (\<lambda>s. Inr 0), ext_check_valid = (\<lambda>t. None)\<rparr>"

definition demo_create :: CreateVolumeRequest where
  "demo_create = \<lparr>cr_Name = ''pvc-1'', cr_CapacityRange = Some \<lparr>RequiredBytes = 1099511627776, LimitBytes = 0\<rparr>,
     cr_VolumeCapabilities = [Some \<lparr>cap_AccessMode = Some ''MULTI_NODE_MULTI_WRITER'',
       cap_AccessType = Some (MountAccess (Some []))\<rparr>],
     cr_Parameters = [], cr_MutableParameters = [], cr_VolumeContentSource = None,
     cr_AccessibilityRequirements = None\<rparr>"

definition demo_service :: "fakeServiceManager Service" where
  "demo_service = fake_service (\<lambda>n. ''x'') (\<lambda>b. []) (\<lambda>b. [])"

definition demo_tags :: "'w TagService" where
  "demo_tags = \<lparr>tag_ValidateResourceTags = (\<lambda>r t. ret ()), tag_AttachResourceTags = (\<lambda>r n l q m. ret ())\<rparr>"

definition demo_driver :: "'w \<Rightarrow> 'w driver" where
  "demo_driver w = \<lparr>world = w, ipAllocator = NewIPAllocator [], volumeLocks = NewVolumeLocks\<rparr>"

end
