(* ===== verification/Ops_Manager.thy ===== *)
theory Ops_Manager
  imports Driver_State
begin

text \<open>
  \<open>multishare_ops_manager.go\<close>: the manager that starts instance and share operations. Every entry
  point takes the manager's mutex, lists the running operations of the project, decides, and starts
  at most one operation, so that an entry point is one step on the state. A workflow is the
  operation started, or one already running that the caller polls instead. The objects a workflow
  points to are returned in it with the fields the code sets.
\<close>

section \<open>Running operations\<close>

record OpInfo =
  oi_Id :: string
  oi_Type :: OperationType
  oi_Target :: string

record Workflow =
  wf_instance :: "MultishareInstance option"
  wf_share :: "Share option"
  wf_opType :: OperationType
  wf_opName :: string

definition instance_workflow :: "MultishareInstance \<Rightarrow> OperationType \<Rightarrow> Workflow" where
  "instance_workflow i t = \<lparr>wf_instance = Some i, wf_share = None, wf_opType = t, wf_opName = []\<rparr>"

definition share_workflow :: "Share \<Rightarrow> OperationType \<Rightarrow> Workflow" where
  "share_workflow s t = \<lparr>wf_instance = None, wf_share = Some s, wf_opType = t, wf_opName = []\<rparr>"

text \<open>Operations that are done, have no metadata or metadata that does not parse, or target neither an
  instance nor a share, are left out.\<close>

fun running_ops :: "Operation list \<Rightarrow> OpInfo list" where
  "running_ops [] = []"
| "running_ops (op # ops) =
     (if op_Done op then running_ops ops
      else (case op_Meta op of
        None \<Rightarrow> running_ops ops
      | Some (Inl e) \<Rightarrow> running_ops ops
      | Some (Inr (target, verb)) \<Rightarrow>
          if IsInstanceTarget target
          then \<lparr>oi_Id = op_Name op, oi_Type = ConvertInstanceOpVerbToType verb, oi_Target = target\<rparr> # running_ops ops
          else if IsShareTarget target
          then \<lparr>oi_Id = op_Name op, oi_Type = ConvertShareOpVerbToType verb, oi_Target = target\<rparr> # running_ops ops
          else running_ops ops))"

definition listMultishareResourceRunningOps :: "config \<Rightarrow> 'w Service \<Rightarrow> ('w, OpInfo list) eff" where
  "listMultishareResourceRunningOps cfg svc =
     bind (svc_ListOps svc \<lparr>lf_Project = cfg_Project cfg, lf_Location = ''-'', lf_InstanceName = []\<rparr>)
       (\<lambda>ops. ret (running_ops ops))"

text \<open>The first element a loop returns\<close>

definition first_match :: "('a \<Rightarrow> bool) \<Rightarrow> 'a list \<Rightarrow> 'a option" where
  "first_match P xs = (case filter P xs of [] \<Rightarrow> None | x # _ \<Rightarrow> Some x)"

definition containsOpWithShareName :: "string \<Rightarrow> OperationType \<Rightarrow> OpInfo list \<Rightarrow> OpInfo option" where
  "containsOpWithShareName shareName opType =
     first_match (\<lambda>op. oi_Type op = opType \<and> contains (oi_Target op) shareName)"

definition handle_error :: "string \<Rightarrow> go_error \<Rightarrow> go_error" where
  "handle_error what e = StatusErr Internal (''failed to parse '' @ what @ '' handle, err: '' @ error_text e)"

definition containsOpWithShareTarget :: "Share \<Rightarrow> OperationType \<Rightarrow> OpInfo list \<Rightarrow> go_error + OpInfo option" where
  "containsOpWithShareTarget share opType ops =
     (case GenerateShareURI (Some share) of
        Inl e \<Rightarrow> Inl (handle_error ''share'' e)
      | Inr shareUri \<Rightarrow> Inr (first_match (\<lambda>op. oi_Type op = opType \<and> oi_Target op = shareUri) ops))"

definition on_instance :: "string \<Rightarrow> OpInfo \<Rightarrow> bool" where
  "on_instance instanceUri op = (oi_Target op = instanceUri \<or> contains (oi_Target op) (instanceUri @ ''/''))"

definition containsOpWithInstanceTargetPrefix :: "MultishareInstance \<Rightarrow> OpInfo list \<Rightarrow> go_error + OpInfo option" where
  "containsOpWithInstanceTargetPrefix i ops =
     rbind (GenerateMultishareInstanceURI (Some i)) (\<lambda>instanceUri. Inr (first_match (on_instance instanceUri) ops))"

definition found_running :: "string \<Rightarrow> OpInfo \<Rightarrow> go_error" where
  "found_running sep op = StatusErr Aborted (''Found running op '' @ oi_Id op @ sep @ '' type ''
     @ OperationType_String (oi_Type op) @ sep @ '' for target resource '' @ oi_Target op)"

text \<open>The three checks: on the instance, on the share, on the instance and everything in it\<close>

definition no_op_matching :: "string \<Rightarrow> string \<Rightarrow> (go_error + string) \<Rightarrow> (string \<Rightarrow> OpInfo \<Rightarrow> bool) \<Rightarrow> OpInfo list \<Rightarrow> go_error + unit" where
  "no_op_matching what sep uri P ops = (case uri of
       Inl e \<Rightarrow> Inl (handle_error what e)
     | Inr u \<Rightarrow> (case first_match (P u) ops of None \<Rightarrow> Inr () | Some op \<Rightarrow> Inl (found_running sep op)))"

definition verifyNoRunningInstanceOps :: "MultishareInstance \<Rightarrow> OpInfo list \<Rightarrow> go_error + unit" where
  "verifyNoRunningInstanceOps i =
     no_op_matching ''instance'' [] (GenerateMultishareInstanceURI (Some i)) (\<lambda>uri op. oi_Target op = uri)"

definition verifyNoRunningShareOps :: "Share \<Rightarrow> OpInfo list \<Rightarrow> go_error + unit" where
  "verifyNoRunningShareOps s = no_op_matching ''share'' [] (GenerateShareURI (Some s)) (\<lambda>uri op. oi_Target op = uri)"

definition verifyNoRunningInstanceOrShareOpsForInstance :: "MultishareInstance \<Rightarrow> OpInfo list \<Rightarrow> go_error + unit" where
  "verifyNoRunningInstanceOrShareOpsForInstance i =
     no_op_matching ''instance'' '','' (GenerateMultishareInstanceURI (Some i)) on_instance"

section \<open>Workflows\<close>

definition started :: "Workflow \<Rightarrow> ('w, Operation) eff \<Rightarrow> ('w, Workflow) eff" where
  "started w call = bind call (\<lambda>op. ret (w\<lparr>wf_opName := op_Name op\<rparr>))"

definition startInstanceWorkflow :: "'w Service \<Rightarrow> Workflow \<Rightarrow> OpInfo list \<Rightarrow> ('w, Workflow) eff" where
  "startInstanceWorkflow svc w ops = (case wf_instance w of
       None \<Rightarrow> fail (StatusErr Internal ''instance not found in workflow object'')
     | Some i \<Rightarrow>
         bind (lift (verifyNoRunningInstanceOrShareOpsForInstance i ops)) (\<lambda>_.
           case wf_opType w of
             InstanceCreate \<Rightarrow> started w (svc_StartCreateMultishareInstanceOp svc i)
           | InstanceUpdate \<Rightarrow> started w (svc_StartResizeMultishareInstanceOp svc i)
           | InstanceDelete \<Rightarrow> started w (svc_StartDeleteMultishareInstanceOp svc i)
           | _ \<Rightarrow> fail (StatusErr Internal (''for instance workflow, unknown op type ''
                    @ OperationType_String (wf_opType w)))))"

definition startShareWorkflow :: "'w Service \<Rightarrow> Workflow \<Rightarrow> OpInfo list \<Rightarrow> ('w, Workflow) eff" where
  "startShareWorkflow svc w ops = (case wf_share w of
       None \<Rightarrow> fail (StatusErr Internal ''share not found in workflow object'')
     | Some s \<Rightarrow> (case sh_Parent s of
         None \<Rightarrow> fail (StatusErr Internal ''share parent not found in workflow object'')
       | Some p \<Rightarrow>
           bind (lift (verifyNoRunningInstanceOps p ops)) (\<lambda>_.
           bind (lift (verifyNoRunningShareOps s ops)) (\<lambda>_.
             case wf_opType w of
               ShareCreate \<Rightarrow> started w (svc_StartCreateShareOp svc s)
             | ShareUpdate \<Rightarrow> started w (svc_StartResizeShareOp svc s)
             | ShareDelete \<Rightarrow> started w (svc_StartDeleteShareOp svc s)
             | _ \<Rightarrow> fail (StatusErr Internal (''for share workflow, unknown op type ''
                      @ OperationType_String (wf_opType w)))))))"

definition startShareCreateWorkflowSafe :: "config \<Rightarrow> 'w Service \<Rightarrow> Share \<Rightarrow> ('w, Workflow) eff" where
  "startShareCreateWorkflowSafe cfg svc share =
     bind (listMultishareResourceRunningOps cfg svc) (\<lambda>ops.
       startShareWorkflow svc (share_workflow share ShareCreate) ops)"

definition startShareExpandWorkflowSafe :: "config \<Rightarrow> 'w Service \<Rightarrow> Share \<Rightarrow> int \<Rightarrow> ('w, Workflow) eff" where
  "startShareExpandWorkflowSafe cfg svc share reqBytes =
     bind (listMultishareResourceRunningOps cfg svc) (\<lambda>ops.
       startShareWorkflow svc (share_workflow (share\<lparr>sh_CapacityBytes := reqBytes\<rparr>) ShareUpdate) ops)"

section \<open>Capacity of an instance\<close>

definition list_shares_of :: "'w Service \<Rightarrow> MultishareInstance \<Rightarrow> ('w, Share list) eff" where
  "list_shares_of svc i = svc_ListShares svc
     \<lparr>lf_Project = mi_Project i, lf_Location = mi_Location i, lf_InstanceName = mi_Name i\<rparr>"

definition sumShareBytes :: "Share list \<Rightarrow> int" where
  "sumShareBytes shares = foldl (\<lambda>sum s. i64 (sum + sh_CapacityBytes s)) 0 shares"

text \<open>The decision of \<open>instanceNeedsExpand\<close>: the instance's size and step, the sum of its shares and the
  bytes needed\<close>

definition expand_target :: "MultishareInstance \<Rightarrow> int \<Rightarrow> int \<Rightarrow> bool \<times> int" where
  "expand_target p sumBytes capacityNeeded =
     (let remainingBytes = i64 (mi_CapacityBytes p - sumBytes) in
      if remainingBytes < capacityNeeded
      then (let alignBytes = AlignBytes (i64 (capacityNeeded + sumBytes)) (GbToBytes (mi_CapacityStepSizeGb p)) in
            (True, Min alignBytes MaxMultishareInstanceSizeBytes))
      else (False, 0))"

definition instanceNeedsExpand :: "'w Service \<Rightarrow> Share \<Rightarrow> int \<Rightarrow> ('w, bool \<times> int) eff" where
  "instanceNeedsExpand svc share capacityNeeded = (case sh_Parent share of
       None \<Rightarrow> fail (ErrText (''parent missing from share '' @ quote (sh_Name share)))
     | Some p \<Rightarrow> bind (list_shares_of svc p) (\<lambda>shares.
         ret (expand_target p (sumShareBytes shares) capacityNeeded)))"

text \<open>The size an instance is shrunk to, None when it stays\<close>

definition shrink_target :: "MultishareInstance \<Rightarrow> int \<Rightarrow> int option" where
  "shrink_target i totalShareCap =
     (if totalShareCap < mi_CapacityBytes i \<and> mi_CapacityBytes i > MinMultishareInstanceSizeBytes
      then (let target = Max (AlignBytes totalShareCap (GbToBytes (mi_CapacityStepSizeGb i)))
                             MinMultishareInstanceSizeBytes in
            if mi_CapacityBytes i = target then None else Some target)
      else None)"

section \<open>Expansion, deletion and shrinking\<close>

definition checkAndStartInstanceOrShareExpandWorkflow ::
  "config \<Rightarrow> 'w Service \<Rightarrow> Share \<Rightarrow> int \<Rightarrow> ('w, Workflow) eff" where
  "checkAndStartInstanceOrShareExpandWorkflow cfg svc share reqBytes =
     bind (listMultishareResourceRunningOps cfg svc) (\<lambda>ops.
     bind (lift (containsOpWithShareTarget share ShareUpdate ops)) (\<lambda>expandShareOp.
       case expandShareOp of
         Some op \<Rightarrow> ret ((share_workflow share (oi_Type op))\<lparr>wf_opName := oi_Id op\<rparr>)
       | None \<Rightarrow> (case sh_Parent share of
           None \<Rightarrow> fail (Panic ''nil parent'')
         | Some p \<Rightarrow>
             bind_err (status_of Aborted) (lift (verifyNoRunningInstanceOrShareOpsForInstance p ops)) (\<lambda>_.
             bind (svc_GetMultishareInstance svc p) (\<lambda>i.
             bind (instanceNeedsExpand svc share (i64 (reqBytes - sh_CapacityBytes share))) (\<lambda>(needExpand, targetBytes).
               if needExpand
               then startInstanceWorkflow svc (instance_workflow (i\<lparr>mi_CapacityBytes := targetBytes\<rparr>) InstanceUpdate) ops
               else startShareWorkflow svc (share_workflow (share\<lparr>sh_CapacityBytes := reqBytes\<rparr>) ShareUpdate) ops))))))"

definition checkAndStartShareDeleteWorkflow :: "config \<Rightarrow> 'w Service \<Rightarrow> Share \<Rightarrow> ('w, Workflow) eff" where
  "checkAndStartShareDeleteWorkflow cfg svc share =
     bind (listMultishareResourceRunningOps cfg svc) (\<lambda>ops.
     bind (lift (containsOpWithShareTarget share ShareDelete ops)) (\<lambda>deleteShareOp.
       case deleteShareOp of
         Some op \<Rightarrow> ret ((share_workflow share (oi_Type op))\<lparr>wf_opName := oi_Id op\<rparr>)
       | None \<Rightarrow> startShareWorkflow svc (share_workflow share ShareDelete) ops))"

text \<open>A not-found error ends the workflow without an operation.\<close>

definition unless_gone :: "('w, 'a) eff \<Rightarrow> ('a \<Rightarrow> ('w, 'b option) eff) \<Rightarrow> ('w, 'b option) eff" where
  "unless_gone m f = attempt m (\<lambda>r. case r of
       Inl e \<Rightarrow> if IsNotFoundErr e then ret None else fail e
     | Inr a \<Rightarrow> f a)"

definition checkAndStartInstanceDeleteOrShrinkWorkflow ::
  "config \<Rightarrow> 'w Service \<Rightarrow> MultishareInstance \<Rightarrow> ('w, Workflow option) eff" where
  "checkAndStartInstanceDeleteOrShrinkWorkflow cfg svc i0 =
     bind (listMultishareResourceRunningOps cfg svc) (\<lambda>ops.
     bind (lift (verifyNoRunningInstanceOrShareOpsForInstance i0 ops)) (\<lambda>_.
     unless_gone (svc_GetMultishareInstance svc i0) (\<lambda>i.
     unless_gone (list_shares_of svc i) (\<lambda>shares.
       if length shares = 0
       then unless_gone (startInstanceWorkflow svc (instance_workflow i InstanceDelete) ops) (\<lambda>w. ret (Some w))
       else (case shrink_target i (sumShareBytes shares) of
               None \<Rightarrow> ret None
             | Some target \<Rightarrow>
                 unless_gone (startInstanceWorkflow svc
                   (instance_workflow (i\<lparr>mi_CapacityBytes := target\<rparr>) InstanceUpdate) ops) (\<lambda>w. ret (Some w)))))))"

section \<open>Eligible instances\<close>

definition ParamReservedIPV4CIDR :: string where "ParamReservedIPV4CIDR = ''reserved-ipv4-cidr''"
definition ParamReservedIPRange :: string where "ParamReservedIPRange = ''reserved-ip-range''"
definition ParamNfsExportOptions :: string where "ParamNfsExportOptions = ''nfs-export-options-on-create''"
definition directPeering :: string where "directPeering = ''DIRECT_PEERING''"
definition privateServiceAccess :: string where "privateServiceAccess = ''PRIVATE_SERVICE_ACCESS''"

fun match_labels :: "(MultishareInstance \<Rightarrow> string) \<Rightarrow> MultishareInstance \<Rightarrow> MultishareInstance \<Rightarrow> string list \<Rightarrow> go_error + bool" where
  "match_labels show source target [] = Inr True"
| "match_labels show source target (labelKey # ks) =
     (if mlookup (mi_Labels target) labelKey = None
      then Inl (ErrText (''label '' @ quote labelKey @ '' missing in target instance '' @ show target))
      else if mget (mi_Labels source) labelKey \<noteq> mget (mi_Labels target) labelKey then Inr False
      else match_labels show source target ks)"

definition isMatchedInstance ::
  "(MultishareInstance \<Rightarrow> string) \<Rightarrow> MultishareInstance \<Rightarrow> MultishareInstance \<Rightarrow> CreateVolumeRequest \<Rightarrow> go_error + bool" where
  "isMatchedInstance show source target req =
     rbind (match_labels show source target [ParamMultishareInstanceScLabelKey, TagKeyClusterLocation, TagKeyClusterName])
       (\<lambda>labelsMatch.
         if \<not> labelsMatch then Inr False
         else rbind (case mlookup (cr_Parameters req) ParamReservedIPV4CIDR of
                       None \<Rightarrow> Inr True
                     | Some instanceCIDR \<Rightarrow> IsIpWithinRange (Ip (mi_Network source)) instanceCIDR)
           (\<lambda>withinRange.
             if \<not> withinRange then Inr False
             else if mi_Protocol source \<noteq> mi_Protocol target then Inr False
             else Inr (equalFold (mi_Location source) (mi_Location target)
               \<and> equalFold (mi_Tier source) (mi_Tier target)
               \<and> equalFold (net_Name (mi_Network source)) (net_Name (mi_Network target))
               \<and> equalFold (ConnectMode (mi_Network source)) (ConnectMode (mi_Network target))
               \<and> equalFold (mi_KmsKeyName source) (mi_KmsKeyName target))))"

fun list_in_regions :: "config \<Rightarrow> 'w Service \<Rightarrow> string list \<Rightarrow> ('w, MultishareInstance list) eff" where
  "list_in_regions cfg svc [] = ret []"
| "list_in_regions cfg svc (region # regions) =
     bind (svc_ListMultishareInstances svc \<lparr>lf_Project = cfg_Project cfg, lf_Location = region, lf_InstanceName = []\<rparr>)
       (\<lambda>is. bind (list_in_regions cfg svc regions) (\<lambda>rest. ret (is @ rest)))"

fun keep_matched :: "(MultishareInstance \<Rightarrow> go_error + bool) \<Rightarrow> MultishareInstance list \<Rightarrow> go_error + MultishareInstance list" where
  "keep_matched matched [] = Inr []"
| "keep_matched matched (i # is) = rbind (matched i) (\<lambda>m.
     rbind (keep_matched matched is) (\<lambda>rest. Inr (if m then i # rest else rest)))"

definition listMatchedInstances ::
  "'ts externals \<Rightarrow> config \<Rightarrow> 'w Service \<Rightarrow> CreateVolumeRequest \<Rightarrow> MultishareInstance \<Rightarrow> string list
     \<Rightarrow> ('w, MultishareInstance list) eff" where
  "listMatchedInstances ext cfg svc req target regions =
     bind (list_in_regions cfg svc regions) (\<lambda>instances.
       lift (keep_matched (\<lambda>i. isMatchedInstance (ext_show_instance ext) i target req) instances))"

text \<open>The loop over the matched instances: the ready and the non-ready eligible ones\<close>

definition max_share_count :: "config \<Rightarrow> MultishareInstance \<Rightarrow> int" where
  "max_share_count cfg i = (if cfg_maxSharesPerInstance cfg then mi_MaxShareCount i else MaxSharesPerInstance)"

fun split_eligible ::
  "config \<Rightarrow> 'w Service \<Rightarrow> OpInfo list \<Rightarrow> MultishareInstance list
     \<Rightarrow> ('w, MultishareInstance list \<times> MultishareInstance list) eff" where
  "split_eligible cfg svc ops [] = ret ([], [])"
| "split_eligible cfg svc ops (i # is) =
     (if mi_State i = ''CREATING'' \<or> mi_State i = ''REPAIRING''
      then bind (split_eligible cfg svc ops is) (\<lambda>(ready, nonReady). ret (ready, i # nonReady))
      else if mi_State i \<noteq> ''READY'' then split_eligible cfg svc ops is
      else bind (lift (containsOpWithInstanceTargetPrefix i ops)) (\<lambda>op.
        if op = None
        then bind (list_shares_of svc i) (\<lambda>shares.
               if int (length shares) \<ge> max_share_count cfg i then split_eligible cfg svc ops is
               else bind (split_eligible cfg svc ops is) (\<lambda>(ready, nonReady). ret (i # ready, nonReady)))
        else bind (split_eligible cfg svc ops is) (\<lambda>(ready, nonReady). ret (ready, i # nonReady))))"

fun busy_report :: "OpInfo list \<Rightarrow> MultishareInstance list \<Rightarrow> string \<Rightarrow> go_error + string" where
  "busy_report ops [] msg = Inr msg"
| "busy_report ops (i # is) msg = rbind (containsOpWithInstanceTargetPrefix i ops) (\<lambda>opo.
     busy_report ops is (case opo of
       Some op \<Rightarrow> msg @ '' Instance '' @ mi_Name i @ '' busy with operation type ''
                   @ OperationType_String (oi_Type op) @ [CHR 0x0A]
     | None \<Rightarrow> msg @ '' Instance '' @ mi_Name i @ '' is in state '' @ mi_State i @ [CHR 0x0A]))"

definition runEligibleInstanceCheck ::
  "'ts externals \<Rightarrow> config \<Rightarrow> 'w Service \<Rightarrow> CreateVolumeRequest \<Rightarrow> OpInfo list \<Rightarrow> MultishareInstance
     \<Rightarrow> string list \<Rightarrow> ('w, MultishareInstance list) eff" where
  "runEligibleInstanceCheck ext cfg svc req ops target regions =
     bind (listMatchedInstances ext cfg svc req target regions) (\<lambda>instances.
     bind (split_eligible cfg svc ops instances) (\<lambda>(ready, nonReady).
       if length ready = 0 \<and> length nonReady > 0
       then bind (lift (busy_report ops nonReady (''All eligible filestore instances are busy.'' @ [CHR 0x0A])))
              (\<lambda>msg. fail (StatusErr Aborted msg))
       else ret ready))"

section \<open>Creation\<close>

definition parseNfsExportOptions :: "'ts externals \<Rightarrow> string \<Rightarrow> go_error + NfsExportOptions list" where
  "parseNfsExportOptions ext optionsString =
     (if optionsString = [] then Inr []
      else (case ext_decode_nfs ext optionsString of Inl e \<Rightarrow> Inl (ErrText e) | Inr opts \<Rightarrow> Inr opts))"

text \<open>\<open>generateNewShare\<close> of \<open>multishare_controller.go\<close>\<close>

definition generateNewShare ::
  "'ts externals \<Rightarrow> string \<Rightarrow> MultishareInstance option \<Rightarrow> CreateVolumeRequest \<Rightarrow> string \<Rightarrow> go_error + Share" where
  "generateNewShare ext nm parent req sourceSnapshotId = (case parent of
       None \<Rightarrow> Inl (StatusErr Internal ''parent multishare instance is empty'')
     | Some p \<Rightarrow>
         rbind (map_err (status_of InvalidArgument)
             (getShareRequestCapacity (cr_CapacityRange req) ConfigurablePackMinShareSizeBytes MaxShareSizeBytes)) (\<lambda>targetSizeBytes.
         rbind (map_err (status_of InvalidArgument)
             (parseNfsExportOptions ext (mget (cr_Parameters req) ParamNfsExportOptions))) (\<lambda>nfsExportOptions.
           Inr (empty_share\<lparr>sh_Name := nm, sh_Parent := Some p, sh_CapacityBytes := targetSizeBytes,
             sh_Labels := extractShareLabels (cr_Parameters req) [], sh_NfsExportOptions := nfsExportOptions,
             sh_MountPointName := nm, sh_BackupId := sourceSnapshotId\<rparr>))))"

text \<open>The loops over the regions and their shares that look for an existing share of that name and
  protocol\<close>

fun same_share :: "string \<Rightarrow> string \<Rightarrow> Share list \<Rightarrow> go_error + Share option" where
  "same_share shareName protocol [] = Inr None"
| "same_share shareName protocol (s # ss) =
     (if sh_Name s \<noteq> shareName then same_share shareName protocol ss
      else (case sh_Parent s of
        None \<Rightarrow> Inl (Panic ''nil parent'')
      | Some p \<Rightarrow> if mi_Protocol p = protocol then Inr (Some s) else same_share shareName protocol ss))"

fun existing_share :: "config \<Rightarrow> 'w Service \<Rightarrow> string \<Rightarrow> string \<Rightarrow> string list \<Rightarrow> ('w, Share option) eff" where
  "existing_share cfg svc shareName protocol [] = ret None"
| "existing_share cfg svc shareName protocol (region # regions) =
     bind (svc_ListShares svc \<lparr>lf_Project = cfg_Project cfg, lf_Location = region, lf_InstanceName = ''-''\<rparr>) (\<lambda>shares.
     bind (lift (same_share shareName protocol shares)) (\<lambda>found.
       case found of Some s \<Rightarrow> ret (Some s) | None \<Rightarrow> existing_share cfg svc shareName protocol regions))"

text \<open>The placement of a new share on a ready instance: the instance is expanded first when the share
  does not fit\<close>

definition place_share ::
  "'ts externals \<Rightarrow> 'w Service \<Rightarrow> CreateVolumeRequest \<Rightarrow> string \<Rightarrow> string \<Rightarrow> OpInfo list \<Rightarrow> MultishareInstance
     \<Rightarrow> ('w, Workflow) eff" where
  "place_share ext svc req shareName sourceSnapshotId ops i =
     bind_err (status_of Internal) (lift (generateNewShare ext shareName (Some i) req sourceSnapshotId)) (\<lambda>share.
     bind (instanceNeedsExpand svc share (sh_CapacityBytes share)) (\<lambda>(needExpand, targetBytes).
       if needExpand
       then startInstanceWorkflow svc (instance_workflow (i\<lparr>mi_CapacityBytes := targetBytes\<rparr>) InstanceUpdate) ops
       else startShareWorkflow svc (share_workflow share ShareCreate) ops))"

definition set_reserved :: "string \<Rightarrow> MultishareInstance \<Rightarrow> MultishareInstance" where
  "set_reserved r i = i\<lparr>mi_Network := (mi_Network i)\<lparr>ReservedIpRange := r\<rparr>\<rparr>"

definition as_service_instance :: "MultishareInstance \<Rightarrow> ServiceInstance" where
  "as_service_instance i = empty_service_instance\<lparr>si_Project := mi_Project i, si_Name := mi_Name i,
     si_Location := mi_Location i, si_Tier := mi_Tier i, si_Network := mi_Network i\<rparr>"

definition create_instance_workflow ::
  "'w Service \<Rightarrow> labels \<Rightarrow> OpInfo list \<Rightarrow> MultishareInstance \<Rightarrow> ('w driver, Workflow) eff" where
  "create_instance_workflow svc param ops i =
     (let start = (\<lambda>i. on_world (startInstanceWorkflow svc (instance_workflow i InstanceCreate) ops)) in
      if ConnectMode (mi_Network i) = privateServiceAccess
      then (case mlookup param ParamReservedIPRange of
              None \<Rightarrow> start i
            | Some r \<Rightarrow>
                if IsCIDR r
                then fail (StatusErr InvalidArgument ''When using connect mode PRIVATE_SERVICE_ACCESS, if reserved IP range is specified, it must be a named address range instead of direct CIDR value'')
                else start (set_reserved r i))
      else (case mlookup param ParamReservedIPV4CIDR of
              None \<Rightarrow> start i
            | Some cidr \<Rightarrow> with_reserved (\<lambda>e. e) (reserveIPRange svc (as_service_instance i) cidr)
                (\<lambda>r. start (set_reserved r i))))"

definition setupEligibleInstanceAndStartWorkflow ::
  "'ts externals \<Rightarrow> config \<Rightarrow> 'w Service \<Rightarrow> CreateVolumeRequest \<Rightarrow> MultishareInstance \<Rightarrow> string
     \<Rightarrow> ('w driver, Share + Workflow) eff" where
  "setupEligibleInstanceAndStartWorkflow ext cfg svc req i sourceSnapshotId =
     (let shareName = ConvertVolToShareName (cr_Name req) in
      bind (on_world (listMultishareResourceRunningOps cfg svc)) (\<lambda>ops.
      case containsOpWithShareName shareName ShareCreate ops of
        Some op \<Rightarrow> fail (StatusErr Aborted (''Share create op '' @ oi_Id op @ '' in progress''))
      | None \<Rightarrow>
          bind_err (status_of InvalidArgument)
            (lift (listRegions (ext_show_map ext) (cfg_Zone cfg) (cr_AccessibilityRequirements req))) (\<lambda>regions.
          bind (on_world (existing_share cfg svc shareName (mi_Protocol i) regions)) (\<lambda>found.
          case found of
            Some s \<Rightarrow> ret (Inl s)
          | None \<Rightarrow>
              bind_err (status_of Aborted) (on_world (runEligibleInstanceCheck ext cfg svc req ops i regions)) (\<lambda>eligible.
              bind (if length eligible > 0
                    then on_world (place_share ext svc req shareName sourceSnapshotId ops
                           (eligible ! (ext_rand ext (length eligible) mod length eligible)))
                    else create_instance_workflow svc (cr_Parameters req) ops i)
                (\<lambda>w. ret (Inr w)))))))"

section \<open>Operations on an instance\<close>

text \<open>The instance an operation works on, whether its target is the instance or one of its shares\<close>

definition target_instance :: "string \<Rightarrow> (string \<times> string \<times> string) option" where
  "target_instance u = (case match_instance_uri u of Some x \<Rightarrow> Some x
     | None \<Rightarrow> (case match_share_uri u of Some (p, l, i, s) \<Rightarrow> Some (p, l, i) | None \<Rightarrow> None))"

text \<open>Names of resources: without slashes, and no project is called \<open>locations\<close>.\<close>

definition parts_ok :: "MultishareInstance \<Rightarrow> bool" where
  "parts_ok i = ((\<forall>x \<in> {mi_Project i, mi_Location i, mi_Name i}. x \<noteq> [] \<and> CHR ''/'' \<notin> set x)
     \<and> mi_Project i \<noteq> ''locations'')"

definition uri_of :: "MultishareInstance \<Rightarrow> string" where
  "uri_of i = instanceURI (mi_Project i) (mi_Location i) (mi_Name i)"

lemma parts_ok_uri: "parts_ok i \<Longrightarrow> GenerateMultishareInstanceURI (Some i) = Inr (uri_of i)"
  by (simp add: parts_ok_def GenerateMultishareInstanceURI_def uri_of_def)

lemma match_instance_parts:
  "match_instance_uri u = Some (p, l, i) \<longleftrightarrow>
     split (CHR ''/'') u = [''projects'', p, ''locations'', l, ''instances'', i] \<and> p \<noteq> [] \<and> l \<noteq> [] \<and> i \<noteq> []"
  by (auto simp: match_instance_uri_def split: list.splits if_splits)

lemma match_share_parts:
  "match_share_uri u = Some (p, l, i, s) \<longleftrightarrow>
     split (CHR ''/'') u = [''projects'', p, ''locations'', l, ''instances'', i, ''shares'', s]
     \<and> p \<noteq> [] \<and> l \<noteq> [] \<and> i \<noteq> [] \<and> s \<noteq> []"
  by (auto simp: match_share_uri_def split: list.splits if_splits)

lemma split_uri_of:
  "parts_ok i \<Longrightarrow> split (CHR ''/'') (uri_of i)
     = [''projects'', mi_Project i, ''locations'', mi_Location i, ''instances'', mi_Name i]"
  by (simp add: uri_of_def instanceURI_def parts_ok_def go_str)

lemma split_around:
  assumes "split c s = x # xs"
  shows "split c (a @ s @ c # b) = butlast (split c a) @ (last (split c a) @ x) # xs @ split c b"
proof -
  have "split c (a @ s) = butlast (split c a) @ (last (split c a) @ x) # xs"
    using assms by (induction a) (auto split: list.split)
  then show ?thesis using split_append_sep[of c "a @ s" b] by simp
qed

lemma two_pieces: "length xs = 2 \<Longrightarrow> \<exists>x y. xs = [x, y]"
  by (cases xs; cases "tl xs") auto

text \<open>Searching the prefix \<open>uri/\<close> anywhere in a target finds exactly the operations on the instance.\<close>

lemma on_instance_exact:
  assumes ok: "parts_ok i" and t: "target_instance (oi_Target op) \<noteq> None"
  shows "on_instance (uri_of i) op \<longleftrightarrow> target_instance (oi_Target op) = Some (mi_Project i, mi_Location i, mi_Name i)"
proof -
  let ?t = "oi_Target op" and ?c = "CHR ''/''"
  have uri: "match_instance_uri (uri_of i) = Some (mi_Project i, mi_Location i, mi_Name i)"
    using ok by (simp add: match_instance_parts split_uri_of) (simp add: parts_ok_def)
  show ?thesis
  proof
    assume on: "on_instance (uri_of i) op"
    show "target_instance ?t = Some (mi_Project i, mi_Location i, mi_Name i)"
    proof (cases "?t = uri_of i")
      case True
      then show ?thesis by (simp add: target_instance_def uri)
    next
      case False
      then obtain a b where ab: "?t = a @ uri_of i @ ?c # b"
        using on by (auto simp: on_instance_def contains_sublist sublist_def)
      have sp: "split ?c ?t = butlast (split ?c a) @ (last (split ?c a) @ ''projects'') #
          [mi_Project i, ''locations'', mi_Location i, ''instances'', mi_Name i] @ split ?c b"
        unfolding ab by (rule split_around) (simp add: split_uri_of ok)
      have la: "length (split ?c a) \<noteq> 0" "length (split ?c b) \<noteq> 0" by simp_all
      have len: "length (split ?c ?t) = length (split ?c a) + 5 + length (split ?c b)"
        using la by (simp add: sp)
      have "length (split ?c ?t) = 6 \<or> length (split ?c ?t) = 8"
        using t by (auto simp: target_instance_def match_instance_parts match_share_parts split: option.splits)
      then have eight: "length (split ?c ?t) = 8" using len la by linarith
      then obtain p l n s where m: "split ?c ?t = [''projects'', p, ''locations'', l, ''instances'', n, ''shares'', s]"
          and ne: "p \<noteq> []" "l \<noteq> []" "n \<noteq> []" "s \<noteq> []"
        using t by (auto simp: target_instance_def match_instance_parts match_share_parts split: option.splits)
      have "length (split ?c a) = 1 \<or> length (split ?c a) = 2" using len eight la by linarith
      then have "p = mi_Project i \<and> l = mi_Location i \<and> n = mi_Name i"
      proof
        assume "length (split ?c a) = 1"
        then obtain x where "split ?c a = [x]" by (auto simp: length_Suc_conv)
        then show ?thesis using sp m by auto
      next
        assume "length (split ?c a) = 2"
        then obtain x y where "split ?c a = [x, y]" using two_pieces by blast
        then have "mi_Project i = ''locations''" using sp m by auto
        then show ?thesis using ok by (simp add: parts_ok_def)
      qed
      moreover have "match_instance_uri ?t = None"
        using m by (simp add: match_instance_uri_def)
      moreover have "match_share_uri ?t = Some (p, l, n, s)" using m ne by (simp add: match_share_parts)
      ultimately show ?thesis by (simp add: target_instance_def)
    qed
  next
    assume ti: "target_instance ?t = Some (mi_Project i, mi_Location i, mi_Name i)"
    show "on_instance (uri_of i) op"
    proof (cases "match_instance_uri ?t")
      case (Some x)
      then have "match_instance_uri ?t = Some (mi_Project i, mi_Location i, mi_Name i)"
        using ti by (simp add: target_instance_def)
      then have "split ?c ?t = split ?c (uri_of i)" using ok by (simp add: match_instance_parts split_uri_of)
      then show ?thesis using split_inject by (simp add: on_instance_def)
    next
      case None
      then obtain s where "split ?c ?t = split ?c (uri_of i) @ [''shares'', s]"
        using ti ok by (auto simp: target_instance_def match_share_parts split_uri_of split: option.splits)
      then have "?t = join [?c] (split ?c (uri_of i) @ [''shares'', s])" by (metis join_split)
      also have "\<dots> = uri_of i @ ''/'' @ ''shares/'' @ s"
        using join_snoc[of "split ?c (uri_of i) @ [''shares'']" "[?c]" s] join_snoc[of "split ?c (uri_of i)" "[?c]" "''shares''"]
        by (simp add: join_split)
      finally show ?thesis by (simp add: on_instance_def contains_sublist)
    qed
  qed
qed

section \<open>What a workflow checks\<close>

lemma first_match_None: "first_match P xs = None \<longleftrightarrow> (\<forall>x \<in> set xs. \<not> P x)"
  by (cases "filter P xs") (auto simp: first_match_def filter_empty_conv dest: filter_eq_ConsD)

lemma first_match_Some: "first_match P xs = Some x \<Longrightarrow> x \<in> set xs \<and> P x"
  by (auto simp: first_match_def split: list.splits dest: filter_eq_ConsD)

lemma no_op_matching_Inr:
  "no_op_matching what sep uri P ops = Inr () \<longleftrightarrow> (\<exists>u. uri = Inr u \<and> (\<forall>op \<in> set ops. \<not> P u op))"
  by (auto simp: no_op_matching_def first_match_None[symmetric] split: sum.split option.split)

lemma startInstanceWorkflow_Inr:
  assumes "startInstanceWorkflow svc w ops s = (Inr w', s')"
  shows "\<exists>i u. wf_instance w = Some i \<and> GenerateMultishareInstanceURI (Some i) = Inr u
    \<and> (\<forall>op \<in> set ops. \<not> on_instance u op) \<and> wf_instance w' = Some i \<and> wf_opType w' = wf_opType w"
  using assms
  by (auto simp: startInstanceWorkflow_def bind_Inr_iff lift_Inr started_def no_op_matching_Inr
      verifyNoRunningInstanceOrShareOpsForInstance_def split: option.splits OperationType.splits)

lemma startShareWorkflow_Inr:
  assumes "startShareWorkflow svc w ops s = (Inr w', s')"
  shows "\<exists>sh p u v. wf_share w = Some sh \<and> sh_Parent sh = Some p \<and> GenerateMultishareInstanceURI (Some p) = Inr u
    \<and> GenerateShareURI (Some sh) = Inr v \<and> (\<forall>op \<in> set ops. oi_Target op \<noteq> u \<and> oi_Target op \<noteq> v)
    \<and> wf_share w' = Some sh \<and> wf_opType w' = wf_opType w"
  using assms
  by (auto simp: startShareWorkflow_def bind_Inr_iff lift_Inr started_def no_op_matching_Inr
      verifyNoRunningInstanceOps_def verifyNoRunningShareOps_def split: option.splits OperationType.splits)

section \<open>Serialization\<close>

text \<open>Two operations conflict when they work on one instance and one of them changes the instance
  itself, or both change the same share.\<close>

definition conflict :: "OpInfo \<Rightarrow> OpInfo \<Rightarrow> bool" where
  "conflict a b = (target_instance (oi_Target a) = target_instance (oi_Target b)
     \<and> (IsInstanceTarget (oi_Target a) \<or> IsInstanceTarget (oi_Target b) \<or> oi_Target a = oi_Target b))"

text \<open>The running operations of the project under any interleaving of the manager's entry points, of
  any number of requests, and of operations that complete. A workflow is started with the list of
  all running operations, which holds its own operation afterwards.\<close>

inductive ops_reach :: "'w Service \<Rightarrow> OpInfo list \<Rightarrow> bool" for svc where
  reach_init: "ops_reach svc []"
| reach_instance: "ops_reach svc ops \<Longrightarrow> startInstanceWorkflow svc w ops s = (Inr w', s') \<Longrightarrow>
    wf_instance w = Some i \<Longrightarrow> parts_ok i \<Longrightarrow>
    ops_reach svc (\<lparr>oi_Id = wf_opName w', oi_Type = wf_opType w', oi_Target = uri_of i\<rparr> # ops)"
| reach_share: "ops_reach svc ops \<Longrightarrow> startShareWorkflow svc w ops s = (Inr w', s') \<Longrightarrow>
    wf_share w = Some sh \<Longrightarrow> sh_Parent sh = Some p \<Longrightarrow> parts_ok p \<Longrightarrow> CHR ''/'' \<notin> set (sh_Name sh) \<Longrightarrow>
    GenerateShareURI (Some sh) = Inr v \<Longrightarrow>
    ops_reach svc (\<lparr>oi_Id = wf_opName w', oi_Type = wf_opType w', oi_Target = v\<rparr> # ops)"
| reach_done: "ops_reach svc (before @ op # after) \<Longrightarrow> ops_reach svc (before @ after)"

inductive_cases ops_reachE: "ops_reach svc ops"

lemma conflict_sym: "conflict a b = conflict b a"
  by (auto simp: conflict_def)

lemma uri_of_target: "parts_ok i \<Longrightarrow>
  match_instance_uri (uri_of i) = Some (mi_Project i, mi_Location i, mi_Name i)
  \<and> target_instance (uri_of i) = Some (mi_Project i, mi_Location i, mi_Name i) \<and> IsInstanceTarget (uri_of i)"
  by (simp add: target_instance_def IsInstanceTarget_def uri_of_def match_instance_instanceURI parts_ok_def)

lemma share_uri_target:
  assumes "parts_ok p" "CHR ''/'' \<notin> set (sh_Name sh)" "sh_Parent sh = Some p" "GenerateShareURI (Some sh) = Inr v"
  shows "target_instance v = Some (mi_Project p, mi_Location p, mi_Name p) \<and> \<not> IsInstanceTarget v"
proof -
  have "v = shareURI (mi_Project p) (mi_Location p) (mi_Name p) (sh_Name sh)" "sh_Name sh \<noteq> []"
    using assms(3,4) by (auto simp: GenerateShareURI_def split: if_splits)
  then have m: "match_share_uri v = Some (mi_Project p, mi_Location p, mi_Name p, sh_Name sh)"
    using assms(1,2) match_share_shareURI by (simp add: parts_ok_def)
  then have "match_instance_uri v = None"
    using targets_disjoint[of v] by (cases "match_instance_uri v") (simp_all add: IsInstanceTarget_def IsShareTarget_def)
  with m show ?thesis by (simp add: target_instance_def IsInstanceTarget_def)
qed

lemma instance_target_uri:
  assumes "IsInstanceTarget t" "target_instance t = Some (mi_Project i, mi_Location i, mi_Name i)" "parts_ok i"
  shows "t = uri_of i"
proof -
  have "match_instance_uri t = Some (mi_Project i, mi_Location i, mi_Name i)"
    using assms(1,2) by (auto simp: IsInstanceTarget_def target_instance_def)
  then have "split (CHR ''/'') t = split (CHR ''/'') (uri_of i)"
    using assms(3) by (simp add: match_instance_parts split_uri_of)
  then show ?thesis by (rule split_inject)
qed

lemma ops_reach_serialized:
  "ops_reach svc ops \<Longrightarrow> sorted_wrt (\<lambda>a b. \<not> conflict a b) ops
     \<and> (\<forall>op \<in> set ops. target_instance (oi_Target op) \<noteq> None)"
proof (induction rule: ops_reach.induct)
  case reach_init
  show ?case by simp
next
  case (reach_instance ops w s w' s' i)
  have "\<forall>op \<in> set ops. \<not> on_instance (uri_of i) op"
    using startInstanceWorkflow_Inr[OF reach_instance.hyps(2)] reach_instance.hyps(3,4) parts_ok_uri by auto
  then show ?case
    using reach_instance.IH on_instance_exact[OF reach_instance.hyps(4)] uri_of_target[OF reach_instance.hyps(4)]
    by (fastforce simp: conflict_def)
next
  case (reach_share ops w s w' s' sh p v)
  have "\<forall>op \<in> set ops. oi_Target op \<noteq> uri_of p \<and> oi_Target op \<noteq> v"
    using startShareWorkflow_Inr[OF reach_share.hyps(2)] reach_share.hyps(3-7) parts_ok_uri by auto
  then show ?case
    using reach_share.IH share_uri_target[OF reach_share.hyps(5,6,4,7)] instance_target_uri[OF _ _ reach_share.hyps(5)]
    by (auto simp: conflict_def)
next
  case (reach_done before op after)
  then show ?case by (auto simp: sorted_wrt_append)
qed

text \<open>Operations are serialized. Under every interleaving of workflows and completions no two
  running operations conflict: while an instance is created, resized or deleted nothing else runs on
  it or on its shares, and no share has two operations.\<close>

theorem operations_serialized:
  assumes "ops_reach svc ops" "i < length ops" "j < length ops" "i \<noteq> j"
  shows "\<not> conflict (ops ! i) (ops ! j)"
proof -
  have "sorted_wrt (\<lambda>a b. \<not> conflict a b) ops" using ops_reach_serialized[OF assms(1)] by simp
  then show ?thesis
    using assms(2-4) conflict_sym[of "ops ! i" "ops ! j"]
    by (cases "i < j") (auto simp: sorted_wrt_iff_nth_less linorder_not_less le_less)
qed

definition example_parent :: "string \<Rightarrow> MultishareInstance" where
  "example_parent n = empty_instance\<lparr>mi_Project := ''p'', mi_Location := ''us-c1'', mi_Name := n\<rparr>"

definition example_child :: Share where
  "example_child = empty_share\<lparr>sh_Name := ''pvc'', sh_Parent := Some (example_parent ''b'')\<rparr>"

lemmas example_unfold = example_parent_def example_child_def empty_instance_def empty_share_def
  instance_workflow_def share_workflow_def

lemma example_running:
  "\<exists>a b. ops_reach (demo_service)
     [\<lparr>oi_Id = a, oi_Type = ShareDelete, oi_Target = ''projects/p/locations/us-c1/instances/b/shares/pvc''\<rparr>,
      \<lparr>oi_Id = b, oi_Type = InstanceDelete, oi_Target = ''projects/p/locations/us-c1/instances/a''\<rparr>]"
proof -
  let ?svc = "demo_service"
  let ?w = "instance_workflow (example_parent ''a'') InstanceDelete"
  let ?v = "share_workflow example_child ShareDelete"
  let ?oi = "\<lparr>oi_Id = ''operation-x'', oi_Type = InstanceDelete, oi_Target = ''projects/p/locations/us-c1/instances/a''\<rparr>"
  have ok: "parts_ok (example_parent ''a'')" "parts_ok (example_parent ''b'')"
    by (simp_all add: parts_ok_def example_unfold)
  have u: "uri_of (example_parent ''a'') = ''projects/p/locations/us-c1/instances/a''"
    by (simp add: uri_of_def instanceURI_def example_unfold)
  have v: "GenerateShareURI (Some example_child) = Inr ''projects/p/locations/us-c1/instances/b/shares/pvc''"
    by code_simp
  have "\<exists>w' s'. startInstanceWorkflow ?svc ?w [] NewFakeService = (Inr w', s')
      \<and> wf_opName w' = ''operation-x'' \<and> wf_opType w' = InstanceDelete"
    by (simp add: startInstanceWorkflow_def bind_def started_def verifyNoRunningInstanceOrShareOpsForInstance_def
        no_op_matching_def first_match_def demo_service_def fake_service_def fake_StartDeleteMultishareInstanceOp_def fake_start_def
        fake_op_def GenerateMultishareInstanceURI_def example_unfold)
  then obtain w' s' where w: "startInstanceWorkflow ?svc ?w [] NewFakeService = (Inr w', s')"
      "wf_opName w' = ''operation-x''" "wf_opType w' = InstanceDelete" by blast
  have first: "ops_reach ?svc [?oi]"
    using reach_instance[OF reach_init w(1), of "example_parent ''a''"] ok(1) w(2,3)
    by (simp add: u) (simp add: instance_workflow_def)
  have "\<exists>w' s'. startShareWorkflow ?svc ?v [?oi] NewFakeService = (Inr w', s') \<and> wf_opType w' = ShareDelete"
    using v by (simp add: startShareWorkflow_def bind_def started_def verifyNoRunningInstanceOps_def
        verifyNoRunningShareOps_def no_op_matching_def first_match_def demo_service_def fake_service_def fake_StartDeleteShareOp_def
        fake_start_def fake_op_def GenerateMultishareInstanceURI_def instanceURI_def example_unfold)
  then obtain v' t' where w2: "startShareWorkflow ?svc ?v [?oi] NewFakeService = (Inr v', t')" "wf_opType v' = ShareDelete"
    by blast
  show ?thesis
    using reach_share[OF first w2(1), of example_child "example_parent ''b''"] ok(2) v w2(2)
    by (auto simp: share_workflow_def example_child_def empty_share_def)
qed

theorem operations_serialized_witness:
  "\<not> conflict \<lparr>oi_Id = [], oi_Type = ShareDelete, oi_Target = ''projects/p/locations/us-c1/instances/b/shares/pvc''\<rparr>
     \<lparr>oi_Id = [], oi_Type = InstanceDelete, oi_Target = ''projects/p/locations/us-c1/instances/a''\<rparr>"
proof -
  obtain a b where r: "ops_reach (demo_service)
     [\<lparr>oi_Id = a, oi_Type = ShareDelete, oi_Target = ''projects/p/locations/us-c1/instances/b/shares/pvc''\<rparr>,
      \<lparr>oi_Id = b, oi_Type = InstanceDelete, oi_Target = ''projects/p/locations/us-c1/instances/a''\<rparr>]"
    using example_running by blast
  from operations_serialized[OF r, of 0 1] show ?thesis by (simp add: conflict_def)
qed

section \<open>Sizes\<close>

definition size_ok :: "MultishareInstance \<Rightarrow> bool" where
  "size_ok p = (0 < mi_CapacityStepSizeGb p \<and> mi_CapacityStepSizeGb p \<le> 10240
     \<and> 0 \<le> mi_CapacityBytes p \<and> mi_CapacityBytes p \<le> MaxMultishareInstanceSizeBytes)"

lemma step_bytes: "size_ok p \<Longrightarrow> GbToBytes (mi_CapacityStepSizeGb p) = mi_CapacityStepSizeGb p * Gb"
  by (rule GbToBytes_exact) (simp_all add: size_ok_def)

lemma align_step:
  assumes "size_ok p" "0 \<le> x" "x \<le> 2 * MaxMultishareInstanceSizeBytes"
  shows "x \<le> AlignBytes x (GbToBytes (mi_CapacityStepSizeGb p))"
    "AlignBytes x (GbToBytes (mi_CapacityStepSizeGb p)) < x + mi_CapacityStepSizeGb p * Gb"
    "mi_CapacityStepSizeGb p * Gb dvd AlignBytes x (GbToBytes (mi_CapacityStepSizeGb p))"
proof -
  let ?s = "mi_CapacityStepSizeGb p * Gb"
  have s: "0 < ?s" "x + ?s < 2 ^ 63"
    using assms by (auto simp: size_ok_def Gb_val Tb_val MaxMultishareInstanceSizeBytes_def)
  have "AlignBytes x ?s = (x + ?s - 1) div ?s * ?s" by (rule AlignBytes_exact[OF assms(2) s])
  then show "x \<le> AlignBytes x (GbToBytes (mi_CapacityStepSizeGb p))"
    "AlignBytes x (GbToBytes (mi_CapacityStepSizeGb p)) < x + ?s"
    "?s dvd AlignBytes x (GbToBytes (mi_CapacityStepSizeGb p))"
    using align_up_bounds[OF s(1), of x] by (simp_all add: step_bytes[OF assms(1)])
qed

text \<open>C24: Room for a new or grown share. For an instance of at most 10 TiB with a positive step, whose shares fit in it, and
  for at most 10 TiB more: the instance is left alone exactly when its shares and the bytes needed fit. Otherwise,
  when what is needed in all is at most 10 TiB, its target holds all of it, is larger than its size, is
  less than one capacity step above what is needed, and is a whole number of steps or 10 TiB. When more than 10
  TiB is needed in all, the target is 10 TiB, which does not hold it and need not be larger than the size.\<close>

theorem expand_target_suffices:
  assumes "size_ok p" "0 \<le> used" "used \<le> mi_CapacityBytes p" "0 \<le> needed" "needed \<le> MaxMultishareInstanceSizeBytes"
  shows "(fst (expand_target p used needed) \<longleftrightarrow> mi_CapacityBytes p < used + needed)
    \<and> (fst (expand_target p used needed) \<longrightarrow>
        (let target = snd (expand_target p used needed) in
         target \<le> MaxMultishareInstanceSizeBytes
         \<and> (used + needed \<le> MaxMultishareInstanceSizeBytes \<longrightarrow>
              used + needed \<le> target \<and> mi_CapacityBytes p < target)
         \<and> (MaxMultishareInstanceSizeBytes < used + needed \<longrightarrow> target = MaxMultishareInstanceSizeBytes)
         \<and> target < used + needed + mi_CapacityStepSizeGb p * Gb
         \<and> (mi_CapacityStepSizeGb p * Gb dvd target \<or> target = MaxMultishareInstanceSizeBytes)))"
proof -
  let ?x = "used + needed"
  have b: "mi_CapacityBytes p \<le> MaxMultishareInstanceSizeBytes" "0 < mi_CapacityStepSizeGb p * Gb"
    using assms(1) by (simp_all add: size_ok_def Gb_val)
  have w: "i64 (mi_CapacityBytes p - used) = mi_CapacityBytes p - used" "i64 (needed + used) = ?x"
    using assms b(1) by (simp_all add: int64 in_i64_def MaxMultishareInstanceSizeBytes_def Tb_val add.commute)
  have x: "0 \<le> ?x" "?x \<le> 2 * MaxMultishareInstanceSizeBytes" using assms b(1) by simp_all
  show ?thesis
    using align_step[OF assms(1) x] assms b by (auto simp: expand_target_def w Let_def Min_def)
qed

theorem expand_target_suffices_witness:
  "1536 * Gb \<le> snd (expand_target (empty_instance\<lparr>mi_CapacityBytes := 1 * Tb, mi_CapacityStepSizeGb := 256\<rparr>) (1 * Tb) (300 * Gb))"
proof -
  let ?p = "empty_instance\<lparr>mi_CapacityBytes := 1 * Tb, mi_CapacityStepSizeGb := 256\<rparr>"
  have v: "size_ok ?p" "MaxMultishareInstanceSizeBytes = 10 * Tb"
    by (simp_all add: size_ok_def MaxMultishareInstanceSizeBytes_def Tb_val)
  have "expand_target ?p (1 * Tb) (300 * Gb) = (True, 1536 * Gb)"
    by (simp add: expand_target_def Let_def i64_def GbToBytes_def AlignBytes_def Min_def MaxMultishareInstanceSizeBytes_def
        Tb_val Gb_val signed_divide_int_def)
  then show ?thesis
    using expand_target_suffices[OF v(1), of "1 * Tb" "300 * Gb"] by (simp add: v(2) Tb_val Gb_val)
qed

text \<open>C40: Shrinking keeps the shares. The size an instance is shrunk to holds all its shares, is never
  below 1 TiB, and is smaller than its size when that is a whole number of steps; then an instance
  that is not shrunk could not lose a step without dropping below its shares or below 1 TiB.\<close>

theorem shrink_target_safe:
  assumes "size_ok i" "0 \<le> used" "used \<le> mi_CapacityBytes i"
    and "mi_CapacityStepSizeGb i * Gb dvd mi_CapacityBytes i"
  shows "case shrink_target i used of
      Some target \<Rightarrow> used \<le> target \<and> MinMultishareInstanceSizeBytes \<le> target \<and> target < mi_CapacityBytes i
    | None \<Rightarrow> mi_CapacityBytes i - mi_CapacityStepSizeGb i * Gb < Max used MinMultishareInstanceSizeBytes"
proof -
  let ?s = "mi_CapacityStepSizeGb i * Gb" and ?c = "mi_CapacityBytes i"
  let ?a = "AlignBytes used (GbToBytes (mi_CapacityStepSizeGb i))"
  have s: "0 < ?s" and c: "?c \<le> MaxMultishareInstanceSizeBytes"
    using assms(1) by (simp_all add: size_ok_def Gb_val)
  have t2: "used \<le> 2 * MaxMultishareInstanceSizeBytes" using assms c by linarith
  note a = align_step[OF assms(1,2) t2]
  have "?a \<le> ?c" by (rule dvd_least[OF s assms(4) a(3) a(2) assms(3)])
  then show ?thesis
    using a(1,2) s assms(3) by (auto simp: shrink_target_def Let_def Max_def split: if_splits)
qed

theorem shrink_target_safe_witness:
  "shrink_target (empty_instance\<lparr>mi_CapacityBytes := 3 * Tb, mi_CapacityStepSizeGb := 1024\<rparr>) (1100 * Gb) = Some (2 * Tb)
   \<and> 1100 * Gb \<le> 2 * Tb \<and> 2 * Tb < 3 * Tb"
proof -
  let ?i = "empty_instance\<lparr>mi_CapacityBytes := 3 * Tb, mi_CapacityStepSizeGb := 1024\<rparr>"
  have "size_ok ?i" by (simp add: size_ok_def MaxMultishareInstanceSizeBytes_def Tb_val)
  moreover have e: "shrink_target ?i (1100 * Gb) = Some (2 * Tb)"
    by (simp add: shrink_target_def Let_def i64_def GbToBytes_def AlignBytes_def Max_def MinMultishareInstanceSizeBytes_def
        Tb_val Gb_val signed_divide_int_def)
  ultimately show ?thesis
    using shrink_target_safe[of ?i "1100 * Gb"] by (simp add: Tb_val Gb_val)
qed

section \<open>Placement\<close>

lemma match_labels_Inr_True:
  "match_labels show source target ks = Inr True \<longleftrightarrow>
     (\<forall>k \<in> set ks. mlookup (mi_Labels target) k \<noteq> None \<and> mget (mi_Labels source) k = mget (mi_Labels target) k)"
  by (induction ks) auto

text \<open>What makes an instance a place for the shares of a request: the requirements that the comment of
  \<open>isMatchedInstance\<close> lists, but for the named range of \<open>reserved-ip-range\<close>, which the code skips\<close>

definition same_place :: "MultishareInstance \<Rightarrow> MultishareInstance \<Rightarrow> CreateVolumeRequest \<Rightarrow> bool" where
  "same_place source target req =
     ((\<forall>k \<in> {ParamMultishareInstanceScLabelKey, TagKeyClusterLocation, TagKeyClusterName}.
         mlookup (mi_Labels target) k = Some (mget (mi_Labels source) k))
      \<and> (\<forall>cidr. mlookup (cr_Parameters req) ParamReservedIPV4CIDR = Some cidr \<longrightarrow>
           (\<exists>a net ip. net_ParseCIDR cidr = Inr (a, net) \<and> parse_ipv4 (Ip (mi_Network source)) = Some ip \<and> net_contains net ip))
      \<and> equalFold (mi_Location source) (mi_Location target) \<and> equalFold (mi_Tier source) (mi_Tier target)
      \<and> equalFold (net_Name (mi_Network source)) (net_Name (mi_Network target))
      \<and> equalFold (ConnectMode (mi_Network source)) (ConnectMode (mi_Network target))
      \<and> equalFold (mi_KmsKeyName source) (mi_KmsKeyName target) \<and> mi_Protocol source = mi_Protocol target)"

lemma IsIpWithinRange_Inr_True:
  "IsIpWithinRange ip cidr = Inr True \<longleftrightarrow>
     (\<exists>a net x. net_ParseCIDR cidr = Inr (a, net) \<and> parse_ipv4 ip = Some x \<and> net_contains net x)"
  by (auto simp: IsIpWithinRange_def split: sum.split option.split)

lemma rbind_Inr: "rbind r f = Inr b \<longleftrightarrow> (\<exists>a. r = Inr a \<and> f a = Inr b)"
  by (cases r) auto

lemma mget_eq: "mlookup m k \<noteq> None \<Longrightarrow> (mget m' k = mget m k) = (mlookup m k = Some (mget m' k))"
  by (auto simp: mget_def)

lemma isMatchedInstance_iff: "isMatchedInstance show source target req = Inr True \<longleftrightarrow> same_place source target req"
proof -
  let ?ks = "[ParamMultishareInstanceScLabelKey, TagKeyClusterLocation, TagKeyClusterName]"
  have l: "match_labels show source target ?ks = Inr True \<longleftrightarrow> (\<forall>k \<in> set ?ks. mlookup (mi_Labels target) k = Some (mget (mi_Labels source) k))"
    unfolding match_labels_Inr_True using mget_eq by (metis option.distinct(1))
  have r: "(case mlookup (cr_Parameters req) ParamReservedIPV4CIDR of None \<Rightarrow> Inr True
      | Some cidr \<Rightarrow> IsIpWithinRange (Ip (mi_Network source)) cidr) = (Inr True :: go_error + bool) \<longleftrightarrow>
    (\<forall>cidr. mlookup (cr_Parameters req) ParamReservedIPV4CIDR = Some cidr \<longrightarrow> IsIpWithinRange (Ip (mi_Network source)) cidr = Inr True)"
    by (simp split: option.split)
  have if_r: "(if \<not> b then Inr False else x) = Inr True \<longleftrightarrow> b \<and> x = (Inr True :: go_error + bool)" for b x by simp
  have if_p: "(if \<not> b then Inr False else Inr c) = (Inr True :: go_error + bool) \<longleftrightarrow> b \<and> c" for b c by simp
  have ex_true: "(\<exists>a. x = Inr a \<and> a \<and> Q) = (x = (Inr True :: go_error + bool) \<and> Q)" for x Q
    by (metis (full_types))
  show ?thesis
    unfolding isMatchedInstance_def rbind_Inr if_r ex_true if_p l r IsIpWithinRange_Inr_True same_place_def
      list.set ball_simps by (simp only: conj_ac) blast
qed

lemma keep_matched_set:
  "keep_matched matched is = Inr rs \<Longrightarrow> i \<in> set rs \<Longrightarrow> i \<in> set is \<and> matched i = Inr True"
  by (induction "is" arbitrary: rs) (auto simp: rbind_Inr split: if_splits)

lemma split_eligible_ready:
  "split_eligible cfg svc ops is s = (Inr (ready, nonReady), s') \<Longrightarrow> i \<in> set ready \<Longrightarrow>
     i \<in> set is \<and> mi_State i = ''READY'' \<and> containsOpWithInstanceTargetPrefix i ops = Inr None
     \<and> (\<exists>s1 shares s2. list_shares_of svc i s1 = (Inr shares, s2) \<and> int (length shares) < max_share_count cfg i)"
proof (induction "is" arbitrary: ready nonReady s s')
  case (Cons j js)
  consider "mi_State j = ''CREATING'' \<or> mi_State j = ''REPAIRING''"
    | "mi_State j \<noteq> ''CREATING''" "mi_State j \<noteq> ''REPAIRING''" "mi_State j \<noteq> ''READY''"
    | "mi_State j = ''READY''" by blast
  then show ?case
  proof cases
    case 3
    then obtain op where op: "containsOpWithInstanceTargetPrefix j ops = Inr op"
      using Cons.prems(1) by (auto simp: bind_Inr_iff lift_Inr)
    show ?thesis
    proof (cases op)
      case None
      then obtain shares s1 where l: "list_shares_of svc j s = (Inr shares, s1)"
          and rest: "(if int (length shares) \<ge> max_share_count cfg j then split_eligible cfg svc ops js
             else bind (split_eligible cfg svc ops js) (\<lambda>(ready, nonReady). ret (j # ready, nonReady))) s1
             = (Inr (ready, nonReady), s')"
        using Cons.prems(1) 3 op by (auto simp: bind_Inr_iff lift_Inr)
      show ?thesis
      proof (cases "int (length shares) \<ge> max_share_count cfg j")
        case True
        then show ?thesis using rest Cons.IH[of s1 ready nonReady s'] Cons.prems(2) by simp
      next
        case False
        then obtain ready' where "split_eligible cfg svc ops js s1 = (Inr (ready', nonReady), s')" "ready = j # ready'"
          using rest by (auto simp: bind_Inr_iff)
        then show ?thesis
          using Cons.IH[of s1 ready' nonReady s'] Cons.prems(2) l False op None 3 by fastforce
      qed
    next
      case (Some o')
      then obtain nonReady' where "split_eligible cfg svc ops js s = (Inr (ready, nonReady'), s')"
        using Cons.prems(1) 3 op by (auto simp: bind_Inr_iff lift_Inr)
      from Cons.IH[OF this Cons.prems(2)] show ?thesis by simp
    qed
  qed (use Cons in \<open>auto simp: bind_Inr_iff split: if_splits\<close>)
qed (auto simp: ret_def)

text \<open>C25: A share is only placed on an instance fit for it. Every instance the eligibility check returns agrees with
  the wanted one on the labels of storage class, cluster and cluster location, on location, tier, network, connect
  mode, key and protocol; its address lies in the CIDR of \<open>reserved-ipv4-cidr\<close> if the request has one; it is READY,
  has no running operation on it or on its shares, and listed fewer shares than its maximum. The
  address range that the request names in \<open>reserved-ip-range\<close> is not looked at: with any other, the instance would
  still match, although the comment of \<open>isMatchedInstance\<close> lists it as a requirement.\<close>

theorem eligible_instances_fit:
  assumes "runEligibleInstanceCheck ext cfg svc req ops target regions s = (Inr eligible, s')" "i \<in> set eligible"
  shows "same_place i target req \<and> mi_State i = ''READY''
    \<and> (\<exists>uri. GenerateMultishareInstanceURI (Some i) = Inr uri \<and> (\<forall>op \<in> set ops. \<not> on_instance uri op))
    \<and> (\<exists>s1 shares s2. list_shares_of svc i s1 = (Inr shares, s2) \<and> int (length shares) < max_share_count cfg i)
    \<and> (\<forall>show range_name. isMatchedInstance show i target
         (req\<lparr>cr_Parameters := minsert ParamReservedIPRange range_name (cr_Parameters req)\<rparr>) = Inr True)"
proof -
  obtain "is" s1 nonReady s2 where m: "listMatchedInstances ext cfg svc req target regions s = (Inr is, s1)"
      and sp: "split_eligible cfg svc ops is s1 = (Inr (eligible, nonReady), s2)"
    using assms(1) by (auto simp: runEligibleInstanceCheck_def bind_Inr_iff split: if_splits)
  note e = split_eligible_ready[OF sp assms(2)]
  have "isMatchedInstance (ext_show_instance ext) i target req = Inr True"
    using m e keep_matched_set by (fastforce simp: listMatchedInstances_def bind_Inr_iff lift_Inr)
  moreover have "\<exists>uri. GenerateMultishareInstanceURI (Some i) = Inr uri \<and> (\<forall>op \<in> set ops. \<not> on_instance uri op)"
    using e by (auto simp: containsOpWithInstanceTargetPrefix_def rbind_Inr first_match_None)
  moreover have "same_place i target (req\<lparr>cr_Parameters := minsert ParamReservedIPRange r (cr_Parameters req)\<rparr>)"
    if "same_place i target req" for r
    using that by (simp add: same_place_def ParamReservedIPRange_def ParamReservedIPV4CIDR_def)
  ultimately show ?thesis using e isMatchedInstance_iff by blast
qed

definition example_ready :: MultishareInstance where
  "example_ready = (example_parent ''a'')\<lparr>mi_State := ''READY'', mi_Labels :=
     [(ParamMultishareInstanceScLabelKey, ''sc''), (TagKeyClusterLocation, ''us-c1''), (TagKeyClusterName, ''c'')]\<rparr>"

theorem eligible_instances_fit_witness:
  "same_place example_ready example_ready demo_create"
proof -
  let ?m = "NewFakeServiceForMultishare [example_ready] [] []"
  have "runEligibleInstanceCheck demo_externals demo_config demo_service demo_create [] example_ready [''us-c1''] ?m
      = (Inr [example_ready], ?m)"
    by code_simp
  from eligible_instances_fit[OF this, of example_ready] show ?thesis by simp
qed

end
