(* ===== verification/Multishare_Controller.thy ===== *)
theory Multishare_Controller
  imports Ops_Manager
begin

text \<open>
  \<open>multishare_controller.go\<close>: the handlers for volumes that are shares of multishare instances.
  Creation validates the request, prepares an instance in case none is eligible, lets the manager
  start a workflow, polls it, and starts the share creation when the workflow was on the instance.
  The lister of PersistentVolumes is a parameter.
\<close>

section \<open>Maximum share size from the PersistentVolume\<close>

record PersistentVolume =
  pv_CSI :: "(string \<times> labels) option"

record 'w PvClient =
  pv_Synced :: bool
  pv_Lister :: "('w, PersistentVolume list) eff"
  pv_ApiServer :: "('w, PersistentVolume list) eff"

definition attrMaxShareSize :: string where "attrMaxShareSize = ''max-share-size''"
definition attrIP :: string where "attrIP = ''ip''"
definition attrSupportLockRelease :: string where "attrSupportLockRelease = ''supportLockRelease''"
definition attrFileProtocol :: string where "attrFileProtocol = ''fileProtocol''"
definition v3FileProtocol :: string where "v3FileProtocol = ''NFS_V3''"
definition v4_1FileProtocol :: string where "v4_1FileProtocol = ''NFS_V4_1''"

definition isTargetPV :: "string \<Rightarrow> PersistentVolume \<Rightarrow> bool" where
  "isTargetPV volHandle pv = (case pv_CSI pv of None \<Rightarrow> False | Some (handle, attrs) \<Rightarrow> handle = volHandle)"

definition findTargetPVFromInformer :: "'w PvClient \<Rightarrow> string \<Rightarrow> ('w, PersistentVolume option) eff" where
  "findTargetPVFromInformer pvs volHandle = bind (pv_Lister pvs) (\<lambda>l. ret (first_match (isTargetPV volHandle) l))"

definition findTargetPVFromKubeApiServer :: "'w PvClient \<Rightarrow> string \<Rightarrow> ('w, PersistentVolume option) eff" where
  "findTargetPVFromKubeApiServer pvs volHandle = bind (pv_ApiServer pvs) (\<lambda>l. ret (first_match (isTargetPV volHandle) l))"

text \<open>The size in the attributes of the volume found\<close>

definition max_size_of :: "'ts externals \<Rightarrow> string \<Rightarrow> PersistentVolume option \<Rightarrow> go_error + int" where
  "max_size_of ext volHandle pvo = (case pvo of
       None \<Rightarrow> Inl (StatusErr InvalidArgument (''target PV with volume handle '' @ volHandle
                 @ '' not found, cannot determine the capacity range for the volume''))
     | Some pv \<Rightarrow> (case pv_CSI pv of
         None \<Rightarrow> Inl (Panic ''nil CSI'')
       | Some (handle, attrs) \<Rightarrow> (case mlookup attrs attrMaxShareSize of
           None \<Rightarrow> Inr MaxShareSizeBytes
         | Some v \<Rightarrow> map_err (\<lambda>e. to_status (ErrText e)) (ext_parseQuantity ext v))))"

definition GetShareMaxSizeFromPV :: "'ts externals \<Rightarrow> 'w PvClient \<Rightarrow> string \<Rightarrow> ('w, int) eff" where
  "GetShareMaxSizeFromPV ext pvs volHandle =
     attempt (if pv_Synced pvs then findTargetPVFromInformer pvs volHandle else ret None) (\<lambda>r.
       case r of
         Inr (Some pv) \<Rightarrow> lift (max_size_of ext volHandle (Some pv))
       | _ \<Rightarrow> bind_err to_status (findTargetPVFromKubeApiServer pvs volHandle) (\<lambda>pvo.
                lift (max_size_of ext volHandle pvo)))"

section \<open>Objects for a new volume\<close>

definition ParamConnectMode :: string where "ParamConnectMode = ''connect-mode''"
definition ParamInstanceEncryptionKmsKey :: string where "ParamInstanceEncryptionKmsKey = ''instance-encryption-kms-key''"

definition getInstanceSCLabel :: "CreateVolumeRequest \<Rightarrow> go_error + string" where
  "getInstanceSCLabel req = (case mlookup (cr_Parameters req) ParamMultishareInstanceScLabel of
       None \<Rightarrow> Inl (ErrText ''failed to find instance prefix key'')
     | Some v \<Rightarrow> if v = [] then Inl (ErrText ''instance prefix is empty'') else Inr v)"

definition last_value :: "string \<Rightarrow> (string \<times> string) list \<Rightarrow> string" where
  "last_value k pairs = (case filter (\<lambda>(a, b). a = k) pairs of [] \<Rightarrow> [] | ps \<Rightarrow> snd (last ps))"

definition generateInstanceDescFromEcfsDesc :: "string \<Rightarrow> string" where
  "generateInstanceDescFromEcfsDesc desc =
     (let pairs = concat (map (\<lambda>part. case split (CHR ''='') part of [a, b] \<Rightarrow> [(a, b)] | _ \<Rightarrow> [])
                     (split (CHR '','') desc));
          ecfsVersion = last_value ''ecfs-version'' pairs;
          imageProjectId = last_value ''image-project-id'' pairs in
      if desc = [] \<or> ecfsVersion = [] \<or> imageProjectId = [] then []
      else ''GoogleReserved-CustomVMImage=clh.image.ems.path:projects/'' @ imageProjectId
             @ ''/global/images/ems-filestore-scaleout-'' @ ecfsVersion)"

text \<open>The loop over the parameters of a storage class; \<open>ms_params\<close> holds what it sets.\<close>

record ms_params =
  mp_tier :: string
  mp_network :: string
  mp_connectMode :: string
  mp_kmsKeyName :: string
  mp_fileProtocol :: string

definition ignored_ms_params :: "string list" where
  "ignored_ms_params = [ParamReservedIPV4CIDR, ParamReservedIPRange, ParamMultishareInstanceScLabel, ''max-volume-size'',
     ParameterKeyResourceTags, ParameterKeyLabels, ParameterKeyPVCName, ParameterKeyPVCNamespace, ParameterKeyPVName,
     ''multishare'', ''csiprovisionersecretname'', ''csiprovisionersecretnamespace'']"

definition bad_connect_mode :: string where
  "bad_connect_mode = ''connect mode can only be one of '' @ quote directPeering @ '' or '' @ quote privateServiceAccess"

fun scan_ms_params :: "config \<Rightarrow> labels \<Rightarrow> ms_params \<Rightarrow> go_error + ms_params" where
  "scan_ms_params cfg [] mp = Inr mp"
| "scan_ms_params cfg ((k, v) # ps) mp =
     (let key = toLower k in
      if key = ''tier'' then scan_ms_params cfg ps (mp\<lparr>mp_tier := v\<rparr>)
      else if key = ''network'' then scan_ms_params cfg ps (mp\<lparr>mp_network := v\<rparr>)
      else if key = ParamConnectMode then
        if v \<noteq> directPeering \<and> v \<noteq> privateServiceAccess then Inl (StatusErr InvalidArgument bad_connect_mode)
        else scan_ms_params cfg ps (mp\<lparr>mp_connectMode := v\<rparr>)
      else if key = ParamInstanceEncryptionKmsKey then scan_ms_params cfg ps (mp\<lparr>mp_kmsKeyName := v\<rparr>)
      else if key = ParamNfsExportOptions then
        if \<not> cfg_nfsExportOptionsOnCreate cfg then Inl (StatusErr InvalidArgument ''nfsExportOptions are disabled'')
        else scan_ms_params cfg ps mp
      else if key = ''protocol'' then scan_ms_params cfg ps (mp\<lparr>mp_fileProtocol := v\<rparr>)
      else if key \<in> set ignored_ms_params then scan_ms_params cfg ps mp
      else Inl (StatusErr InvalidArgument (''invalid parameter '' @ quote k)))"

definition generateNewMultishareInstance ::
  "'ts externals \<Rightarrow> config \<Rightarrow> string \<Rightarrow> CreateVolumeRequest \<Rightarrow> int \<Rightarrow> go_error + MultishareInstance" where
  "generateNewMultishareInstance ext cfg instanceName req maxShareCount =
     rbind (map_err (status_of InvalidArgument)
       (pickRegion (ext_show_map ext) (cfg_Zone cfg) (cr_AccessibilityRequirements req))) (\<lambda>region.
     rbind (scan_ms_params cfg (cr_Parameters req) \<lparr>mp_tier = ''enterprise'', mp_network = ''default'',
         mp_connectMode = directPeering, mp_kmsKeyName = [], mp_fileProtocol = []\<rparr>) (\<lambda>mp.
     if mp_tier mp \<noteq> ''enterprise''
     then Inl (StatusErr InvalidArgument (''tier '' @ quote (mp_tier mp) @ '' not supported for multishare volumes''))
     else
     rbind (if cfg_isRegional cfg
            then map_err (\<lambda>e. StatusErr InvalidArgument (''failed to get region for regional cluster: '' @ error_text e))
                   (GetRegionFromZone (cfg_Zone cfg))
            else Inr (cfg_Zone cfg)) (\<lambda>location.
     rbind (map_err (status_of InvalidArgument) (extractInstanceLabels (cr_Parameters req) (cfg_extraVolumeLabels cfg)
            (cfg_Name cfg) (cfg_clusterName cfg) location)) (\<lambda>labels.
       Inr (empty_instance\<lparr>mi_Project := cfg_Project cfg, mi_Name := instanceName,
         mi_CapacityBytes := MinMultishareInstanceSizeBytes, mi_Location := region, mi_Tier := mp_tier mp,
         mi_Network := \<lparr>net_Name = mp_network mp, ConnectMode = mp_connectMode mp, ReservedIpRange = [], Ip = []\<rparr>,
         mi_KmsKeyName := mp_kmsKeyName mp, mi_Labels := labels,
         mi_Description := generateInstanceDescFromEcfsDesc (cfg_ecfsDescription cfg),
         mi_Protocol := (if mp_fileProtocol mp = [] then v3FileProtocol else mp_fileProtocol mp),
         mi_MaxShareCount := (if cfg_maxSharesPerInstance cfg then maxShareCount else 0)\<rparr>)))))"

text \<open>The description override of the feature for a configurable number of shares\<close>

definition custom_description :: "int \<Rightarrow> int \<Rightarrow> string" where
  "custom_description sharesPerInstance minShareSizeGB =
     ''GoogleReservedOverrides={'' @ quote ''CustomMultiShareConfig'' @ '':{'' @ quote ''MaxShareCount'' @ '': ''
       @ show_int sharesPerInstance @ '', '' @ quote ''MinShareSizeGB'' @ '':'' @ show_int minShareSizeGB @ ''}}''"

definition override_value :: "string \<Rightarrow> go_error + int" where
  "override_value v = (case ParseInt v of
       Inl e \<Rightarrow> Inl (StatusErr InvalidArgument (''invalid description override value '' @ v))
     | Inr n \<Rightarrow> Inr n)"

definition override_description :: "config \<Rightarrow> MultishareInstance \<Rightarrow> go_error + MultishareInstance" where
  "override_description cfg i =
     (if cfg_maxSharesPerInstance cfg \<and> cfg_descOverrideMaxSharesPerInstance cfg \<noteq> []
         \<and> cfg_descOverrideMinShareSizeBytes cfg \<noteq> []
      then rbind (override_value (cfg_descOverrideMaxSharesPerInstance cfg)) (\<lambda>sharesPerInstance.
           rbind (override_value (cfg_descOverrideMinShareSizeBytes cfg)) (\<lambda>minShareSizeGB.
             Inr (i\<lparr>mi_Description := custom_description sharesPerInstance minShareSizeGB\<rparr>)))
      else Inr i)"

definition backup_source :: "'w Service \<Rightarrow> string \<Rightarrow> ('w driver, string) eff" where
  "backup_source svc snapshotId = (case IsBackupHandle snapshotId of
       Inr True \<Rightarrow> bind_err to_status (on_world (svc_GetBackup svc snapshotId)) (\<lambda>_. ret snapshotId)
     | _ \<Rightarrow> fail (StatusErr InvalidArgument (''Unsupported volume content source '' @ snapshotId)))"

definition checkVolumeContentSource :: "config \<Rightarrow> 'w Service \<Rightarrow> CreateVolumeRequest \<Rightarrow> ('w driver, string) eff" where
  "checkVolumeContentSource cfg svc req = (case cr_VolumeContentSource req of
       None \<Rightarrow> ret []
     | Some src \<Rightarrow>
         if \<not> cfg_multishareBackups cfg
         then fail (StatusErr InvalidArgument ''Multishare backed volumes do not support volume content source'')
         else (case src of
           VolumeSource _ \<Rightarrow> fail (StatusErr InvalidArgument (''Unsupported volume content source type '' @ quote ''volume''))
         | SnapshotSource snapshotId \<Rightarrow> backup_source svc snapshotId
         | NoSource \<Rightarrow> ret []))"

section \<open>Responses\<close>

definition generateCSICreateVolumeResponse ::
  "config \<Rightarrow> string \<Rightarrow> Share \<Rightarrow> int \<Rightarrow> go_error + CsiVolume" where
  "generateCSICreateVolumeResponse cfg instancePrefix s maxShareSizeBytes =
     (case generateMultishareVolumeIdFromShare instancePrefix (Some s) of
        Inl e \<Rightarrow> Inl (StatusErr Internal (error_text e))
      | Inr volId \<Rightarrow> (case sh_Parent s of
          None \<Rightarrow> Inl (Panic ''nil parent'')
        | Some p \<Rightarrow>
            Inr \<lparr>cv_VolumeId = volId, cv_CapacityBytes = sh_CapacityBytes s,
              cv_VolumeContext =
                [(attrIP, Ip (mi_Network p))]
                @ (if cfg_lockRelease cfg then [(attrSupportLockRelease, ''true'')] else [])
                @ (if cfg_maxSharesPerInstance cfg then [(attrMaxShareSize, show_int maxShareSizeBytes)] else [])
                @ [(attrFileProtocol, if mi_Protocol p = v4_1FileProtocol then v4_1FileProtocol else v3FileProtocol)],
              cv_ContentSource = (if sh_BackupId s \<noteq> [] then Some (sh_BackupId s) else None)\<rparr>))"

text \<open>The response is made from \<open>s\<close>, the share the caller passes, and not from the one fetched.\<close>

definition getShareAndGenerateCSICreateVolumeResponse ::
  "config \<Rightarrow> 'w Service \<Rightarrow> string \<Rightarrow> Share \<Rightarrow> int \<Rightarrow> ('w, CsiVolume) eff" where
  "getShareAndGenerateCSICreateVolumeResponse cfg svc instancePrefix s maxShareSizeBytes =
     bind_err (TemporaryErr Unavailable) (svc_GetShare svc s) (\<lambda>share.
       if sh_State share \<noteq> ''READY''
       then fail (StatusErr Aborted (''share '' @ sh_Name share @ '' not ready, state '' @ sh_State share))
       else lift (generateCSICreateVolumeResponse cfg instancePrefix s maxShareSizeBytes))"

definition getShareAndGenerateCSIControllerExpandVolumeResponse ::
  "'w Service \<Rightarrow> Share \<Rightarrow> int \<Rightarrow> ('w, ExpandResponse) eff" where
  "getShareAndGenerateCSIControllerExpandVolumeResponse svc share0 reqBytes =
     bind (svc_GetShare svc share0) (\<lambda>share.
       if sh_CapacityBytes share < reqBytes
       then fail (StatusErr Aborted (''expand volume operation succeeded but share capacity ['' @ show_int (sh_CapacityBytes share)
              @ '']bytes smaller than requested ['' @ show_int reqBytes @ '']bytes''))
       else ret \<lparr>er_CapacityBytes = sh_CapacityBytes share, er_NodeExpansionRequired = False\<rparr>)"

definition waitOnWorkflow :: "'w Service \<Rightarrow> Workflow \<Rightarrow> ('w, unit) eff" where
  "waitOnWorkflow svc w = bind (lift (GetMultishareOpsTimeoutConfig (wf_opType w))) (\<lambda>opts.
     svc_WaitForOpWithOpts svc (wf_opName w) opts)"

definition poll_error :: "string \<Rightarrow> Workflow \<Rightarrow> go_error \<Rightarrow> go_error" where
  "poll_error what w e = ErrWrap (what @ '' operation '' @ quote (wf_opName w) @ '' poll error: '') e []"

section \<open>CreateVolume\<close>

definition share_bytes :: "config \<Rightarrow> CreateVolumeRequest \<Rightarrow> int \<Rightarrow> go_error + int" where
  "share_bytes cfg req maxShareSizeSizeBytes =
     rbind (map_err (status_of InvalidArgument)
       (if cfg_maxSharesPerInstance cfg
        then getShareRequestCapacity (cr_CapacityRange req) ConfigurablePackMinShareSizeBytes maxShareSizeSizeBytes
        else getShareRequestCapacity (cr_CapacityRange req) MinShareSizeBytes MaxShareSizeBytes)) (\<lambda>reqBytes.
     if IsAligned reqBytes Gb \<noteq> Some True
     then Inl (StatusErr InvalidArgument (''requested size(bytes) '' @ show_int reqBytes @ '' is not a multiple of 1GiB''))
     else Inr reqBytes)"

text \<open>The part after the workflow of \<open>setupEligibleInstanceAndStartWorkflow\<close>: the result of polling it,
  and the share creation when it was on the instance\<close>

definition finish_create ::
  "'ts externals \<Rightarrow> config \<Rightarrow> 'w Service \<Rightarrow> CreateVolumeRequest \<Rightarrow> string \<Rightarrow> string \<Rightarrow> int \<Rightarrow> Workflow \<Rightarrow> ('w, CsiVolume) eff" where
  "finish_create ext cfg svc req sourceSnapshotId scPrefix maxSize workflow =
     (let respond = (\<lambda>s. bind_err to_status (getShareAndGenerateCSICreateVolumeResponse cfg svc scPrefix s maxSize) ret) in
      bind_err (\<lambda>e. TemporaryErr Unavailable (poll_error ''Create Volume failed,'' workflow e)) (waitOnWorkflow svc workflow) (\<lambda>_.
      if wf_opType workflow = ShareCreate
      then (case wf_share workflow of Some s \<Rightarrow> respond s | None \<Rightarrow> fail (Panic ''nil share''))
      else if wf_opType workflow = InstanceCreate \<or> wf_opType workflow = InstanceUpdate
      then bind_err to_status (lift (generateNewShare ext (ConvertVolToShareName (cr_Name req)) (wf_instance workflow) req sourceSnapshotId)) (\<lambda>newShare.
           bind_err to_status (startShareCreateWorkflowSafe cfg svc newShare) (\<lambda>shareCreateWorkflow.
           bind_err (\<lambda>e. TemporaryErr Unavailable (poll_error (OperationType_String (wf_opType shareCreateWorkflow)) shareCreateWorkflow e))
             (waitOnWorkflow svc shareCreateWorkflow) (\<lambda>_. respond newShare)))
      else fail (StatusErr Internal (''Create Volume failed, unknown workflow ''
             @ OperationType_String (wf_opType workflow) @ '' detected''))))"

definition ms_create_locked ::
  "'ts externals \<Rightarrow> config \<Rightarrow> 'w Service \<Rightarrow> CreateVolumeRequest \<Rightarrow> string \<Rightarrow> string \<Rightarrow> int \<Rightarrow> int \<Rightarrow> ('w driver, CsiVolume) eff" where
  "ms_create_locked ext cfg svc req sourceSnapshotId scPrefix maxShares maxSize =
     bind_err to_status (lift (generateNewMultishareInstance ext cfg (''fs-'' @ ext_uuid ext) req maxShares)) (\<lambda>i0.
     bind (lift (override_description cfg i0)) (\<lambda>i.
     bind_err to_status (setupEligibleInstanceAndStartWorkflow ext cfg svc req i sourceSnapshotId) (\<lambda>r.
       case r of
         Inl share \<Rightarrow> bind_err to_status
           (on_world (getShareAndGenerateCSICreateVolumeResponse cfg svc scPrefix share maxSize)) ret
       | Inr workflow \<Rightarrow> on_world (finish_create ext cfg svc req sourceSnapshotId scPrefix maxSize workflow))))"

definition ms_CreateVolume ::
  "'ts externals \<Rightarrow> config \<Rightarrow> 'w Service \<Rightarrow> CreateVolumeRequest \<Rightarrow> ('w driver, CsiVolume) eff" where
  "ms_CreateVolume ext cfg svc req =
     (if length (cr_Name req) = 0 then fail (StatusErr InvalidArgument ''CreateVolume name must be provided'')
      else case validateVolumeCapabilities cfg (cr_VolumeCapabilities req) of
        Some e \<Rightarrow> fail (StatusErr InvalidArgument (error_text e))
      | None \<Rightarrow>
          bind (checkVolumeContentSource cfg svc req) (\<lambda>sourceSnapshotId.
          bind_err (status_of InvalidArgument) (lift (getInstanceSCLabel req)) (\<lambda>instanceScPrefix.
          bind_err (status_of InvalidArgument) (lift (parseMaxVolumeSizeParam (\<lambda>v. map_err ErrText (ext_parseQuantity ext v))
              (cfg_maxSharesPerInstance cfg) (cr_Parameters req))) (\<lambda>(maxSharesPerInstance, maxShareSizeSizeBytes).
          bind (lift (share_bytes cfg req maxShareSizeSizeBytes)) (\<lambda>reqBytes.
            with_lock (cr_Name req)
              (ms_create_locked ext cfg svc req sourceSnapshotId instanceScPrefix maxSharesPerInstance maxShareSizeSizeBytes))))))"

section \<open>DeleteVolume\<close>

definition volume_share :: "string \<times> string \<times> string \<times> string \<times> string \<Rightarrow> Share" where
  "volume_share v = (case v of (_, project, location, instanceName, shareName) \<Rightarrow>
     empty_share\<lparr>sh_Parent := Some (empty_instance\<lparr>mi_Project := project, mi_Location := location, mi_Name := instanceName\<rparr>),
       sh_Name := shareName\<rparr>)"

definition startAndWaitForInstanceDeleteOrShrink :: "config \<Rightarrow> 'w Service \<Rightarrow> string \<Rightarrow> ('w, unit) eff" where
  "startAndWaitForInstanceDeleteOrShrink cfg svc csiVolId =
     bind_err (status_of InvalidArgument) (lift (parseMultishareVolId csiVolId)) (\<lambda>(_, project, location, instanceName, _).
     bind (checkAndStartInstanceDeleteOrShrinkWorkflow cfg svc
        (empty_instance\<lparr>mi_Project := project, mi_Location := location, mi_Name := instanceName\<rparr>)) (\<lambda>wo.
       case wo of
         None \<Rightarrow> ret ()
       | Some w \<Rightarrow> bind_err (poll_error (OperationType_String (wf_opType w)) w) (waitOnWorkflow svc w) ret))"

definition ms_delete_locked :: "config \<Rightarrow> 'w Service \<Rightarrow> string \<Rightarrow> Share \<Rightarrow> ('w, unit) eff" where
  "ms_delete_locked cfg svc volumeId share0 =
     attempt (svc_GetShare svc share0) (\<lambda>r. case r of
       Inl e \<Rightarrow>
         if IsNotFoundErr e
         then bind_err to_status (startAndWaitForInstanceDeleteOrShrink cfg svc volumeId) ret
         else fail (to_status e)
     | Inr share \<Rightarrow>
         bind_err to_status (checkAndStartShareDeleteWorkflow cfg svc share) (\<lambda>workflow.
         bind_err (\<lambda>e. to_status (poll_error (OperationType_String (wf_opType workflow)) workflow e))
           (waitOnWorkflow svc workflow) (\<lambda>_.
         bind_err to_status (startAndWaitForInstanceDeleteOrShrink cfg svc volumeId) ret)))"

definition ms_DeleteVolume :: "config \<Rightarrow> 'w Service \<Rightarrow> string \<Rightarrow> ('w driver, unit) eff" where
  "ms_DeleteVolume cfg svc volumeId =
     bind_err (status_of InvalidArgument) (lift (parseMultishareVolId volumeId)) (\<lambda>v.
       with_lock volumeId (on_world (ms_delete_locked cfg svc volumeId (volume_share v))))"

section \<open>ControllerExpandVolume\<close>

definition wait_error :: "string \<Rightarrow> Workflow \<Rightarrow> go_error \<Rightarrow> go_error" where
  "wait_error what w e = ErrWrap (''wait on '' @ what @ '' '' @ quote (wf_opName w) @ '' failed with error: '') e []"

definition workflow_share :: "Share \<Rightarrow> Workflow \<Rightarrow> Share" where
  "workflow_share share w = (case wf_share w of Some s \<Rightarrow> s | None \<Rightarrow> share)"

text \<open>Every error of \<open>GetShare\<close> comes with a nil share, which is answered as NotFound.\<close>

definition ms_expand_locked ::
  "config \<Rightarrow> 'w Service \<Rightarrow> string \<Rightarrow> int \<Rightarrow> Share \<Rightarrow> ('w, ExpandResponse) eff" where
  "ms_expand_locked cfg svc volumeId reqBytes share0 =
     bind_err (\<lambda>e. StatusErr NotFound (''Couldn't find share with name '' @ quote volumeId)) (svc_GetShare svc share0) (\<lambda>share.
     if sh_CapacityBytes share \<ge> reqBytes
     then ret \<lparr>er_CapacityBytes = sh_CapacityBytes share, er_NodeExpansionRequired = False\<rparr>
     else
     bind_err to_status (checkAndStartInstanceOrShareExpandWorkflow cfg svc share reqBytes) (\<lambda>w.
     bind_err (\<lambda>e. to_status (wait_error (OperationType_String (wf_opType w) @ '' operation'') w e)) (waitOnWorkflow svc w) (\<lambda>_.
     if wf_opType w = ShareUpdate
     then bind_err to_status (getShareAndGenerateCSIControllerExpandVolumeResponse svc (workflow_share share w) reqBytes) ret
     else if wf_opType w = InstanceUpdate
     then bind_err to_status (startShareExpandWorkflowSafe cfg svc share reqBytes) (\<lambda>w2.
          bind_err (\<lambda>e. to_status (wait_error ''share expansion op'' w2 e)) (waitOnWorkflow svc w2) (\<lambda>_.
          bind_err to_status (getShareAndGenerateCSIControllerExpandVolumeResponse svc (workflow_share share w2) reqBytes) ret))
     else fail (StatusErr Internal (''Controller Expand Volume failed, unknown workflow ''
            @ OperationType_String (wf_opType w) @ '' detected'')))))"

definition expand_bytes :: "CapacityRange option \<Rightarrow> int \<Rightarrow> go_error + int" where
  "expand_bytes cr maxShareSizeBytes =
     rbind (map_err (status_of InvalidArgument)
       (getShareRequestCapacity cr ConfigurablePackMinShareSizeBytes maxShareSizeBytes)) (\<lambda>reqBytes.
     if IsAligned reqBytes Gb \<noteq> Some True
     then Inl (StatusErr InvalidArgument (''requested size(bytes) '' @ show_int reqBytes @ '' is not a multiple of 1GiB''))
     else Inr reqBytes)"

definition ms_ControllerExpandVolume ::
  "'ts externals \<Rightarrow> config \<Rightarrow> 'w Service \<Rightarrow> 'w PvClient \<Rightarrow> string \<Rightarrow> CapacityRange option \<Rightarrow> ('w driver, ExpandResponse) eff" where
  "ms_ControllerExpandVolume ext cfg svc pvs volumeId cr =
     (if length volumeId = 0 then fail (StatusErr InvalidArgument ''ControllerExpandVolume volume ID must be provided'')
      else
      bind_err to_status (if cfg_maxSharesPerInstance cfg then on_world (GetShareMaxSizeFromPV ext pvs volumeId)
                          else ret MaxShareSizeBytes) (\<lambda>maxShareSizeBytes.
      bind (lift (expand_bytes cr maxShareSizeBytes)) (\<lambda>reqBytes.
      bind_err (status_of InvalidArgument) (lift (parseMultishareVolId volumeId)) (\<lambda>v.
        with_lock volumeId (on_world (ms_expand_locked cfg svc volumeId reqBytes (volume_share v)))))))"

section \<open>CreateSnapshot\<close>

definition params_of :: "labels option \<Rightarrow> labels" where
  "params_of po = (case po of None \<Rightarrow> [] | Some m \<Rightarrow> m)"

definition check_snapshot_type :: "labels option \<Rightarrow> go_error + unit" where
  "check_snapshot_type po = (case po of None \<Rightarrow> Inr ()
     | Some m \<Rightarrow> map_err (status_of InvalidArgument) (rbind (IsSnapshotTypeSupported (Some m)) (\<lambda>_. Inr ())))"

definition createNewBackup :: "'ts externals \<Rightarrow> 'w Service \<Rightarrow> BackupInfo \<Rightarrow> ('w, 'ts Snapshot) eff" where
  "createNewBackup ext svc bi =
     bind_err to_status (svc_CreateBackup svc bi) (\<lambda>backupObj.
     bind_err to_status (lift (ParseTimestamp (ext_time_parse ext) (ext_check_valid ext) (cb_CreateTime backupObj))) (\<lambda>tp.
       ret \<lparr>sn_SizeBytes = GbToBytes (cb_CapacityGb backupObj), sn_SnapshotId = cb_Name backupObj,
            sn_SourceVolumeId = bi_SourceVolumeId bi, sn_CreationTime = tp, sn_ReadyToUse = True\<rparr>))"

text \<open>The snapshot of an existing backup, or of a new one\<close>

definition snapshot_or_backup ::
  "'ts externals \<Rightarrow> config \<Rightarrow> 'w Service \<Rightarrow> CreateSnapshotRequest \<Rightarrow> string \<Rightarrow> BackupInfo \<Rightarrow> ('w, 'ts Snapshot) eff" where
  "snapshot_or_backup ext cfg svc req mode bi =
     attempt (svc_GetBackup svc (bi_BackupURI bi)) (\<lambda>existing.
     bind_err to_status (lift (CheckBackupExists existing)) (\<lambda>backupExists.
       case existing of
         Inr backup \<Rightarrow> lift (ProcessExistingBackup (ext_time_parse ext) (ext_check_valid ext) backup (sr_SourceVolumeId req) mode)
       | Inl _ \<Rightarrow>
           bind (lift (extractBackupLabels (params_of (sr_Parameters req)) (cfg_extraVolumeLabels cfg) (cfg_Name cfg) (sr_Name req)))
             (\<lambda>labels. createNewBackup ext svc (bi\<lparr>bi_Labels := labels\<rparr>))))"

definition attach_backup_tags ::
  "'w TagService \<Rightarrow> CreateSnapshotRequest \<Rightarrow> string \<Rightarrow> string \<Rightarrow> 'ts Snapshot \<Rightarrow> ('w, 'ts Snapshot) eff" where
  "attach_backup_tags tags req nm location snapshot =
     bind_err (status_of Unavailable)
       (tag_AttachResourceTags tags FilestoreBackUp nm location (sr_Name req) (params_of (sr_Parameters req)))
       (\<lambda>_. ret snapshot)"

definition ms_CreateSnapshot ::
  "'ts externals \<Rightarrow> config \<Rightarrow> 'w Service \<Rightarrow> 'w TagService \<Rightarrow> CreateSnapshotRequest \<Rightarrow> ('w driver, 'ts Snapshot) eff" where
  "ms_CreateSnapshot ext cfg svc tags req =
     (if \<not> cfg_multishareBackups cfg
      then fail (StatusErr InvalidArgument ''CreateSnapshot is not supported for multishare backed volumes'')
      else
      with_lock (sr_SourceVolumeId req)
        (bind (lift (check_snapshot_type (sr_Parameters req))) (\<lambda>_.
         bind_err (status_of InvalidArgument) (lift (parseSourceVolId (sr_SourceVolumeId req))) (\<lambda>(_, location, instanceName, shareName).
         bind_err (status_of InvalidArgument)
           (lift (CreateBackupURI location (cfg_Project cfg) (sr_Name req) (GetBackupLocation (sr_Parameters req)))) (\<lambda>(backupURI, backupRegion).
         bind (on_world (snapshot_or_backup ext cfg svc req modeMultishare
             \<lparr>bi_Name = sr_Name req, bi_SourceVolumeId = sr_SourceVolumeId req, bi_BackupURI = backupURI,
              bi_SourceInstance = [], bi_SourceInstanceName = instanceName, bi_SourceShare = shareName,
              bi_Project = cfg_Project cfg, bi_Location = backupRegion, bi_Tier = [], bi_Labels = []\<rparr>)) (\<lambda>snapshot.
           on_world (attach_backup_tags tags req (sr_Name req) backupRegion snapshot)))))))"

section \<open>Properties\<close>

lemma keeps_create_instance [keeps_intros]:
  "keeps busy_volumes (create_instance_workflow svc param ops i)"
  "keeps held_ranges (create_instance_workflow svc param ops i)"
  by (auto simp: create_instance_workflow_def Let_def intro!: keeps_intros split: option.split)

lemma keeps_setup [keeps_intros]:
  "keeps busy_volumes (setupEligibleInstanceAndStartWorkflow ext cfg svc req i snap)"
  "keeps held_ranges (setupEligibleInstanceAndStartWorkflow ext cfg svc req i snap)"
  by (auto simp: setupEligibleInstanceAndStartWorkflow_def Let_def intro!: keeps_intros split: option.split)

lemma keeps_backup_source [keeps_intros]:
  "keeps busy_volumes (backup_source svc snap)" "keeps held_ranges (backup_source svc snap)"
  by (auto simp: backup_source_def intro!: keeps_intros split: sum.split bool.split)

lemma keeps_content_source [keeps_intros]:
  "keeps busy_volumes (checkVolumeContentSource cfg svc req)" "keeps held_ranges (checkVolumeContentSource cfg svc req)"
  by (auto simp: checkVolumeContentSource_def intro!: keeps_intros split: option.split content_source.split)

lemma keeps_ms_create [keeps_intros]:
  "keeps busy_volumes (ms_CreateVolume ext cfg svc req)" "keeps held_ranges (ms_CreateVolume ext cfg svc req)"
  by (auto simp: ms_CreateVolume_def ms_create_locked_def intro!: keeps_intros split: option.split sum.split)

lemma keeps_ms_delete [keeps_intros]:
  "keeps busy_volumes (ms_DeleteVolume cfg svc v)" "keeps held_ranges (ms_DeleteVolume cfg svc v)"
  by (auto simp: ms_DeleteVolume_def intro!: keeps_intros)

lemma keeps_ms_expand [keeps_intros]:
  "keeps busy_volumes (ms_ControllerExpandVolume ext cfg svc pvs v cr)"
  "keeps held_ranges (ms_ControllerExpandVolume ext cfg svc pvs v cr)"
  by (auto simp: ms_ControllerExpandVolume_def intro!: keeps_intros)

lemma keeps_ms_snapshot [keeps_intros]:
  "keeps busy_volumes (ms_CreateSnapshot ext cfg svc tags sreq)"
  "keeps held_ranges (ms_CreateSnapshot ext cfg svc tags sreq)"
  by (auto simp: ms_CreateSnapshot_def intro!: keeps_intros)

lemma with_lock_Inr:
  "with_lock v body d = (Inr a, d') \<Longrightarrow> \<exists>vl d1. v \<notin> busy_volumes d \<and> body (d\<lparr>volumeLocks := vl\<rparr>) = (Inr a, d1)
     \<and> d' = d1\<lparr>volumeLocks := Release (volumeLocks d1) v\<rparr>"
  by (auto simp: with_lock_def TryAcquire_def busy_volumes_def split: prod.splits if_splits)

lemma on_world_Inr: "on_world m d = (Inr a, d') \<longleftrightarrow> (\<exists>w'. m (world d) = (Inr a, w') \<and> d' = d\<lparr>world := w'\<rparr>)"
  by (auto simp: on_world_def split: prod.splits)

lemma expand_response_enough:
  "getShareAndGenerateCSIControllerExpandVolumeResponse svc s reqBytes w = (Inr r, w') \<Longrightarrow>
     reqBytes \<le> er_CapacityBytes r \<and> \<not> er_NodeExpansionRequired r"
  by (auto simp: getShareAndGenerateCSIControllerExpandVolumeResponse_def bind_Inr_iff split: if_splits)

lemma ms_expand_locked_enough:
  "ms_expand_locked cfg svc v reqBytes s w = (Inr r, w') \<Longrightarrow> reqBytes \<le> er_CapacityBytes r \<and> \<not> er_NodeExpansionRequired r"
  by (auto simp: ms_expand_locked_def bind_err_Inr_iff split: if_splits dest!: expand_response_enough)

lemma share_capacity_min: "getShareRequestCapacity cr lo hi = Inr n \<Longrightarrow> lo \<le> n"
  by (auto simp: getShareRequestCapacity_def Let_def split: option.splits if_splits)

text \<open>An expansion that succeeds is one. A successful answer to \<open>ControllerExpandVolume\<close> on a share
  names a size read back from the service that is at least the bytes the request resolves to, a
  whole number of GiB and at least 10 GiB, and asks for no node expansion.\<close>

theorem ms_expand_delivers:
  assumes "ms_ControllerExpandVolume ext cfg svc pvs volumeId cr d = (Inr r, d')"
  shows "\<exists>maxSize reqBytes. getShareRequestCapacity cr ConfigurablePackMinShareSizeBytes maxSize = Inr reqBytes
    \<and> Gb dvd reqBytes \<and> 10 * Gb \<le> reqBytes \<and> reqBytes \<le> er_CapacityBytes r \<and> \<not> er_NodeExpansionRequired r
    \<and> (\<not> cfg_maxSharesPerInstance cfg \<longrightarrow> maxSize = MaxShareSizeBytes)"
proof -
  obtain maxSize reqBytes v d1 where m: "if cfg_maxSharesPerInstance cfg then True else maxSize = MaxShareSizeBytes"
    and e: "expand_bytes cr maxSize = Inr reqBytes"
    and l: "with_lock volumeId (on_world (ms_expand_locked cfg svc volumeId reqBytes (volume_share v))) d1 = (Inr r, d')"
    using assms by (auto simp: ms_ControllerExpandVolume_def bind_err_Inr_iff bind_Inr_iff lift_Inr split: if_splits)
  have "reqBytes \<le> er_CapacityBytes r \<and> \<not> er_NodeExpansionRequired r"
    using with_lock_Inr[OF l] by (auto simp: on_world_Inr dest: ms_expand_locked_enough)
  moreover have "getShareRequestCapacity cr ConfigurablePackMinShareSizeBytes maxSize = Inr reqBytes \<and> IsAligned reqBytes Gb = Some True"
    using e by (auto simp: expand_bytes_def rbind_Inr map_err_def split: sum.splits if_splits)
  moreover have "IsAligned reqBytes Gb = Some True \<Longrightarrow> Gb dvd reqBytes"
    by (auto simp: IsAligned_def Gb_val smod_int_alt_def sgn_if abs_if split: if_splits)
  ultimately show ?thesis
    using m share_capacity_min by (intro exI[of _ maxSize] exI[of _ reqBytes]) (auto simp: ConfigurablePackMinShareSizeBytes_def)
qed

definition demo_share :: Share where
  "demo_share = \<lparr>sh_Name = ''pvc_1'', sh_Parent = Some example_ready, sh_State = ''READY'', sh_MountPointName = ''pvc_1'',
     sh_Labels = [], sh_CapacityBytes = 107374182400, sh_BackupId = [], sh_NfsExportOptions = []\<rparr>"

definition demo_pvs :: "'w PvClient" where
  "demo_pvs = \<lparr>pv_Synced = True, pv_Lister = ret [], pv_ApiServer = ret []\<rparr>"

definition demo_volume_id :: string where
  "demo_volume_id = ''modeMultishare/sc/p/us-c1/a/pvc_1''"

theorem ms_expand_delivers_witness:
  "\<exists>r d'. ms_ControllerExpandVolume demo_externals demo_config demo_service demo_pvs demo_volume_id
       (Some \<lparr>RequiredBytes = 214748364800, LimitBytes = 0\<rparr>)
       (demo_driver (NewFakeServiceForMultishare [example_ready] [demo_share] [])) = (Inr r, d')
     \<and> 214748364800 \<le> er_CapacityBytes r"
proof -
  let ?cr = "Some \<lparr>RequiredBytes = 214748364800, LimitBytes = 0\<rparr>"
  let ?x = "ms_ControllerExpandVolume demo_externals demo_config demo_service demo_pvs demo_volume_id ?cr
    (demo_driver (NewFakeServiceForMultishare [example_ready] [demo_share] []))"
  have c: "case fst ?x of Inl e \<Rightarrow> False | Inr r \<Rightarrow> True" by code_simp
  then obtain r d' where x: "?x = (Inr r, d')" by (cases "?x") (auto split: sum.splits)
  have "getShareRequestCapacity ?cr ConfigurablePackMinShareSizeBytes MaxShareSizeBytes = Inr 214748364800"
    by code_simp
  then show ?thesis
    using ms_expand_delivers[OF x] x by (auto simp: demo_config_def)
qed

text \<open>The handles of the driver's own shares have six parts, a source volume id has four.\<close>

lemma parseSourceVolId_multishare:
  assumes "generateMultishareVolumeIdFromShare pfx (Some s) = Inr v"
    "\<forall>x \<in> {pfx, mi_Project p, mi_Location p, mi_Name p, sh_Name s}. CHR ''/'' \<notin> set x" "sh_Parent s = Some p"
  shows "parseSourceVolId v = Inl (ErrText (''invalid source volume id '' @ v))"
proof -
  have "split (CHR ''/'') v = [modeMultishare, pfx, mi_Project p, mi_Location p, mi_Name p, sh_Name s]"
    using assms by (auto simp: generateMultishareVolumeIdFromShare_def go_str split: if_splits)
  then show ?thesis by (simp add: parseSourceVolId_def)
qed

text \<open>A snapshot of a share is never taken. For the handle the driver gives to any share whose parts
  contain no slash, \<open>CreateSnapshot\<close> fails without calling the service, whatever the request's name,
  parameters and location: the handle has six parts, and a source volume id is parsed as four.\<close>

theorem multishare_snapshot_never:
  assumes "generateMultishareVolumeIdFromShare pfx (Some s) = Inr v" "sh_Parent s = Some p"
    "\<forall>x \<in> {pfx, mi_Project p, mi_Location p, mi_Name p, sh_Name s}. CHR ''/'' \<notin> set x"
    "sr_SourceVolumeId req = v"
  shows "\<exists>e. fst (ms_CreateSnapshot ext cfg svc tags req d) = Inl e
    \<and> (e = lock_taken v \<or> (\<exists>m. e = StatusErr InvalidArgument m))
    \<and> world (snd (ms_CreateSnapshot ext cfg svc tags req d)) = world d"
proof -
  have t: "(\<exists>m. check_snapshot_type po = Inl (StatusErr InvalidArgument m)) \<or> check_snapshot_type po = Inr ()" for po
    by (auto simp: check_snapshot_type_def map_err_def status_of_def rewrite_err_def IsSnapshotTypeSupported_def
        split: option.split sum.split)
  show ?thesis
    using t[of "sr_Parameters req"] parseSourceVolId_multishare[OF assms(1,3,2)] assms(4)
    by (auto simp: ms_CreateSnapshot_def with_lock_def bind_def bind_err_def status_of_def rewrite_err_def
        split: prod.split)
qed

theorem multishare_snapshot_never_witness:
  "\<exists>e. fst (ms_CreateSnapshot demo_externals (demo_config\<lparr>cfg_multishareBackups := True\<rparr>) demo_service demo_tags
      \<lparr>sr_Name = ''snap'', sr_SourceVolumeId = demo_volume_id, sr_Parameters = None\<rparr>
      (demo_driver (NewFakeServiceForMultishare [example_ready] [demo_share] []))) = Inl e"
proof -
  have "generateMultishareVolumeIdFromShare ''sc'' (Some demo_share) = Inr demo_volume_id" by code_simp
  moreover have "sh_Parent demo_share = Some example_ready" by (simp add: demo_share_def)
  moreover have "\<forall>x \<in> {''sc'', mi_Project example_ready, mi_Location example_ready, mi_Name example_ready,
      sh_Name demo_share}. CHR ''/'' \<notin> set x"
    by (simp add: demo_share_def example_ready_def example_parent_def)
  ultimately show ?thesis
    using multishare_snapshot_never[where req = "\<lparr>sr_Name = ''snap'', sr_SourceVolumeId = demo_volume_id, sr_Parameters = None\<rparr>"]
    by (metis CreateSnapshotRequest.select_convs(2))
qed

section \<open>Deletion on the in-memory service\<close>

lemma keeps_cond [keeps_intros]: "(b \<Longrightarrow> keeps f m) \<Longrightarrow> (\<not> b \<Longrightarrow> keeps f n) \<Longrightarrow> keeps f (if b then m else n)"
  by simp

lemma keeps_unless_gone [keeps_intros]: "keeps f m \<Longrightarrow> (\<And>a. keeps f (g a)) \<Longrightarrow> keeps f (unless_gone m g)"
  by (auto simp: unless_gone_def intro!: keeps_intros split: sum.split)

lemma keeps_started [keeps_intros]: "keeps f m \<Longrightarrow> keeps f (started w m)"
  by (auto simp: started_def intro!: keeps_intros)

text \<open>The calls on instances do not touch the shares.\<close>

lemma keeps_fake_shares [keeps_intros]:
  "keeps createdMultishares (svc_ListOps (fake_service u si sb) flt)"
  "keeps createdMultishares (svc_GetMultishareInstance (fake_service u si sb) i)"
  "keeps createdMultishares (svc_ListShares (fake_service u si sb) flt)"
  "keeps createdMultishares (svc_StartDeleteMultishareInstanceOp (fake_service u si sb) i)"
  "keeps createdMultishares (svc_StartResizeMultishareInstanceOp (fake_service u si sb) i)"
  "keeps createdMultishares (svc_StartCreateMultishareInstanceOp (fake_service u si sb) i)"
  "keeps createdMultishares (svc_WaitForOpWithOpts (fake_service u si sb) opn opts)"
  by (auto simp: keeps_def fake_service_def fake_ListOps_def fake_GetMultishareInstance_def fake_ListShares_def
      fake_StartDeleteMultishareInstanceOp_def fake_StartResizeMultishareInstanceOp_def Let_def
      fake_StartCreateMultishareInstanceOp_def fake_WaitForOpWithOpts_def fake_start_def fake_op_def split: option.split)

lemma keeps_shares_shrink [keeps_intros]:
  "keeps createdMultishares (startAndWaitForInstanceDeleteOrShrink cfg (fake_service u si sb) v)"
  by (auto simp: startAndWaitForInstanceDeleteOrShrink_def checkAndStartInstanceDeleteOrShrinkWorkflow_def
      listMultishareResourceRunningOps_def list_shares_of_def startInstanceWorkflow_def waitOnWorkflow_def
      intro!: keeps_intros split: option.split OperationType.split)

lemma fake_delete_share:
  assumes "checkAndStartShareDeleteWorkflow cfg (fake_service u si sb) t m = (Inr w, m')" "multishareops m = []"
  shows "mlookup (createdMultishares m') = (mlookup (createdMultishares m))(sh_Name t := None)"
proof -
  have "svc_ListOps (fake_service u si sb) flt m = (Inr [], m)" for flt
    by (simp add: fake_service_def fake_ListOps_def assms(2))
  then have "startShareWorkflow (fake_service u si sb) (share_workflow t ShareDelete) [] m = (Inr w, m')"
    using assms(1) by (auto simp: checkAndStartShareDeleteWorkflow_def listMultishareResourceRunningOps_def
        bind_Inr_iff lift_Inr containsOpWithShareTarget_def first_match_def split: sum.splits)
  then obtain opn where "fake_StartDeleteShareOp u t m = (Inr opn, m')"
    by (auto simp: startShareWorkflow_def share_workflow_def bind_Inr_iff lift_Inr started_def fake_service_def
        split: option.splits)
  then show ?thesis by (rule fake_shares.share_delete)
qed

text \<open>C19: A deleted share is gone. On the in-memory service with no operation running, a deletion that
  succeeds leaves no share of that name, whether it was there before or not, leaves every other share
  as it was, and no lock behind.\<close>

theorem ms_delete_removes:
  assumes "ms_DeleteVolume cfg (fake_service u si sb) volumeId d = (Inr (), d')"
    and "parseMultishareVolId volumeId = Inr (pfx, project, location, instanceName, shareName)"
    and "multishareops (world d) = []"
    and "\<forall>k s. mlookup (createdMultishares (world d)) k = Some s \<longrightarrow> sh_Name s = k"
  shows "mlookup (createdMultishares (world d')) = (mlookup (createdMultishares (world d)))(shareName := None)
    \<and> busy_volumes d' = busy_volumes d"
proof -
  let ?svc = "fake_service u si sb"
  let ?s0 = "volume_share (pfx, project, location, instanceName, shareName)"
  have nm: "sh_Name ?s0 = shareName" by (simp add: volume_share_def)
  obtain m where l: "ms_delete_locked cfg ?svc volumeId ?s0 (world d) = (Inr (), m)" "world d' = m"
    using assms(1,2) by (auto simp: ms_DeleteVolume_def bind_err_Inr_iff lift_Inr on_world_Inr dest!: with_lock_Inr)
  note shrink = keepsD[OF keeps_shares_shrink] and poll = keepsD[of createdMultishares "waitOnWorkflow ?svc w" for w]
  have wait: "keeps createdMultishares (waitOnWorkflow ?svc w)" for w
    by (auto simp: waitOnWorkflow_def intro!: keeps_intros)
  have "mlookup (createdMultishares m) = (mlookup (createdMultishares (world d)))(shareName := None)"
  proof (cases "mlookup (createdMultishares (world d)) shareName")
    case None
    then have "svc_GetShare ?svc ?s0 (world d) = (Inl notFoundError, world d)"
      by (simp add: fake_service_def fake_GetShare_def nm)
    then have "startAndWaitForInstanceDeleteOrShrink cfg ?svc volumeId (world d) = (Inr (), m)"
      using l(1) by (simp add: ms_delete_locked_def attempt_def bind_err_Inr_iff)
    then show ?thesis using shrink None by fastforce
  next
    case (Some t)
    then have "svc_GetShare ?svc ?s0 (world d) = (Inr t, world d)"
      by (simp add: fake_service_def fake_GetShare_def nm)
    then obtain w m1 m2 where "checkAndStartShareDeleteWorkflow cfg ?svc t (world d) = (Inr w, m1)"
      "waitOnWorkflow ?svc w m1 = (Inr (), m2)" "startAndWaitForInstanceDeleteOrShrink cfg ?svc volumeId m2 = (Inr (), m)"
      using l(1) by (auto simp: ms_delete_locked_def attempt_def bind_err_Inr_iff)
    then show ?thesis
      using fake_delete_share[OF _ assms(3)] shrink keepsD[OF wait] assms(4) Some by metis
  qed
  then show ?thesis
    using l(2) keepsD[OF keeps_ms_delete(1) assms(1)] by simp
qed

theorem ms_delete_removes_witness:
  "\<exists>d'. ms_DeleteVolume demo_config demo_service demo_volume_id
       (demo_driver (NewFakeServiceForMultishare [example_ready] [demo_share] [])) = (Inr (), d')
     \<and> mlookup (createdMultishares (world d')) ''pvc_1'' = None"
proof -
  let ?d = "demo_driver (NewFakeServiceForMultishare [example_ready] [demo_share] [])"
  let ?x = "ms_DeleteVolume demo_config demo_service demo_volume_id ?d"
  have c: "case fst ?x of Inl e \<Rightarrow> False | Inr r \<Rightarrow> True" by code_simp
  then obtain d' where x: "?x = (Inr (), d')" by (cases "?x") (auto split: sum.splits)
  have p: "parseMultishareVolId demo_volume_id = Inr (''sc'', ''p'', ''us-c1'', ''a'', ''pvc_1'')" by code_simp
  have w: "multishareops (world ?d) = []" "createdMultishares (world ?d) = [(''pvc_1'', demo_share)]"
    by (simp_all add: demo_driver_def NewFakeServiceForMultishare_def demo_share_def minsert_def)
  show ?thesis
    using ms_delete_removes[OF x[unfolded demo_service_def] p w(1)] x w(2) by (simp add: demo_share_def)
qed

text \<open>The answer to a creation is about the requested share, not the one read back. For a share on a
  newly created instance, which has no address yet, the volume context carries an empty address,
  although the share and its instance have been read from the service.\<close>

theorem created_volume_has_no_address:
  assumes "finish_create ext cfg svc req snap scPrefix maxSize w s = (Inr vol, s')"
    and "wf_opType w = InstanceCreate" "wf_instance w = Some i" "Ip (mi_Network i) = []"
  shows "mget (cv_VolumeContext vol) attrIP = []"
proof -
  obtain sh s1 s2 where "generateNewShare ext (ConvertVolToShareName (cr_Name req)) (Some i) req snap = Inr sh"
      and "getShareAndGenerateCSICreateVolumeResponse cfg svc scPrefix sh maxSize s1 = (Inr vol, s2)"
    using assms(1-3) by (auto simp: finish_create_def Let_def bind_err_Inr_iff lift_Inr split: if_splits)
  then have "sh_Parent sh = Some i" "generateCSICreateVolumeResponse cfg scPrefix sh maxSize = Inr vol"
    by (auto simp: generateNewShare_def rbind_Inr getShareAndGenerateCSICreateVolumeResponse_def bind_err_Inr_iff
        lift_Inr split: if_splits)
  then show ?thesis
    using assms(4) by (auto simp: generateCSICreateVolumeResponse_def mget_def split: sum.splits)
qed

theorem created_volume_has_no_address_witness:
  "\<exists>vol s'. finish_create demo_externals demo_config demo_service demo_create [] ''sc'' 0
       (instance_workflow example_ready InstanceCreate) (NewFakeServiceForMultishare [example_ready] [] []) = (Inr vol, s')
     \<and> mget (cv_VolumeContext vol) attrIP = []"
proof -
  let ?x = "finish_create demo_externals demo_config demo_service demo_create [] ''sc'' 0
       (instance_workflow example_ready InstanceCreate) (NewFakeServiceForMultishare [example_ready] [] [])"
  have c: "case fst ?x of Inl e \<Rightarrow> False | Inr r \<Rightarrow> True" by code_simp
  then obtain vol s' where x: "?x = (Inr vol, s')" by (cases "?x") (auto split: sum.splits)
  have "Ip (mi_Network example_ready) = []"
    by (simp add: example_ready_def example_parent_def empty_instance_def empty_network_def)
  then show ?thesis
    using created_volume_has_no_address[OF x] x by (auto simp: instance_workflow_def)
qed

end
