(* ===== verification/Stateful_Controller.thy ===== *)
theory Stateful_Controller
  imports Multishare_Controller
begin

text \<open>
  \<open>multishare_stateful_controller.go\<close> and the types of \<open>pkg/apis/multishare/v1/types.go\<close>: the handlers
  that express the intent of a request as a \<open>ShareInfo\<close> object and answer from its status, which the
  reconciler maintains. The API server and the informer's lister are a parameter.
\<close>

section \<open>ShareInfo and InstanceInfo\<close>

record ShareInfoStatus =
  st_InstanceHandle :: string
  st_CapacityBytes :: int
  st_ShareStatus :: FilestoreStatus
  st_Error :: string

text \<open>\<open>sfo_Deleted\<close> says that the deletion timestamp is set.\<close>

record ShareInfo =
  sfo_Name :: string
  sfo_Finalizers :: "string list"
  sfo_Labels :: labels
  sfo_Deleted :: bool
  sfo_ShareName :: string
  sfo_CapacityBytes :: int
  sfo_InstancePoolTag :: string
  sfo_Region :: string
  sfo_Parameters :: labels
  sfo_Status :: "ShareInfoStatus option"

record InstanceInfoStatus =
  ist_ShareNames :: "string list"
  ist_CapacityBytes :: int
  ist_InstanceStatus :: FilestoreStatus
  ist_CapacityStepSizeGb :: int
  ist_Cidr :: string
  ist_Error :: string

record InstanceInfo =
  ifo_Name :: string
  ifo_Finalizers :: "string list"
  ifo_Labels :: labels
  ifo_Deleted :: bool
  ifo_CapacityBytes :: int
  ifo_StorageClassName :: string
  ifo_Parameters :: labels
  ifo_Status :: "InstanceInfoStatus option"

text \<open>The calls on \<open>ShareInfo\<close> objects; \<open>sic_IsNotFound\<close> is \<open>errors.IsNotFound\<close> of the API machinery.\<close>

record 'w ShareInfoClient =
  sic_Lister :: "string \<Rightarrow> ('w, ShareInfo) eff"
  sic_Get :: "string \<Rightarrow> ('w, ShareInfo) eff"
  sic_Create :: "ShareInfo \<Rightarrow> ('w, ShareInfo) eff"
  sic_Update :: "ShareInfo \<Rightarrow> ('w, ShareInfo) eff"
  sic_Delete :: "string \<Rightarrow> ('w, unit) eff"
  sic_IsNotFound :: "go_error \<Rightarrow> bool"

definition FilestoreResourceCleanupFinalizer :: string where
  "FilestoreResourceCleanupFinalizer = ''multishare.filestore.csi.storage.gke.io/resource-cleanup-protection''"

definition updateShareInfo :: "'w ShareInfoClient \<Rightarrow> ShareInfo \<Rightarrow> ('w, ShareInfo) eff" where
  "updateShareInfo sic shareInfoClone = sic_Update sic shareInfoClone"

definition createShareInfo :: "'w ShareInfoClient \<Rightarrow> ShareInfo \<Rightarrow> ('w, ShareInfo) eff" where
  "createShareInfo sic shareInfo = sic_Create sic shareInfo"

definition deleteShareInfo :: "'w ShareInfoClient \<Rightarrow> string \<Rightarrow> ('w, unit) eff" where
  "deleteShareInfo sic siName = sic_Delete sic siName"

section \<open>CreateVolume\<close>

definition generateFileShareFromShareInfo :: "ShareInfo \<Rightarrow> go_error + Share" where
  "generateFileShareFromShareInfo shareInfo = (case sfo_Status shareInfo of
       None \<Rightarrow> Inl (Panic ''nil status'')
     | Some status \<Rightarrow> (case ParseInstanceURI (st_InstanceHandle status) of
         Inl e \<Rightarrow> Inl (StatusErr Internal (''couldn't parse instanceURI '' @ quote (st_InstanceHandle status) @ '': '' @ error_text e))
       | Inr (project, location, instanceName) \<Rightarrow>
           Inr (empty_share\<lparr>sh_Name := sfo_ShareName shareInfo,
             sh_Parent := Some (empty_instance\<lparr>mi_Project := project, mi_Location := location, mi_Name := instanceName\<rparr>)\<rparr>)))"

text \<open>The informer first, the API server when the informer has none\<close>

definition find_share_info :: "'w ShareInfoClient \<Rightarrow> string \<Rightarrow> ('w, ShareInfo option) eff" where
  "find_share_info sic pvName =
     (let failed = (\<lambda>e what. fail (TemporaryErr Unavailable
            (ErrText (''error getting shareInfo '' @ quote pvName @ '' from '' @ what @ '': '' @ error_text e)))) in
      attempt (sic_Lister sic pvName) (\<lambda>r. case r of
        Inr shareInfo \<Rightarrow> ret (Some shareInfo)
      | Inl e \<Rightarrow>
          if \<not> sic_IsNotFound sic e then failed e ''informer''
          else attempt (sic_Get sic pvName) (\<lambda>r'. case r' of
            Inr shareInfo \<Rightarrow> ret (Some shareInfo)
          | Inl e' \<Rightarrow> if \<not> sic_IsNotFound sic e' then failed e' ''api server'' else ret None)))"

definition new_share_info :: "CreateVolumeRequest \<Rightarrow> int \<Rightarrow> string \<Rightarrow> string \<Rightarrow> ShareInfo" where
  "new_share_info req reqBytes instanceSCLabel region =
     \<lparr>sfo_Name = cr_Name req, sfo_Finalizers = [FilestoreResourceCleanupFinalizer],
      sfo_Labels = extractShareLabels (cr_Parameters req) [], sfo_Deleted = False,
      sfo_ShareName = ConvertVolToShareName (cr_Name req), sfo_CapacityBytes = reqBytes,
      sfo_InstancePoolTag = instanceSCLabel, sfo_Region = region, sfo_Parameters = cr_Parameters req,
      sfo_Status = None\<rparr>"

definition obtain_share_info ::
  "'ts externals \<Rightarrow> config \<Rightarrow> 'w ShareInfoClient \<Rightarrow> CreateVolumeRequest \<Rightarrow> int \<Rightarrow> string \<Rightarrow> ('w, ShareInfo) eff" where
  "obtain_share_info ext cfg sic req reqBytes instanceSCLabel =
     bind (find_share_info sic (cr_Name req)) (\<lambda>found. case found of
       Some shareInfo \<Rightarrow> ret shareInfo
     | None \<Rightarrow>
         bind_err (status_of InvalidArgument)
           (lift (pickRegion (ext_show_map ext) (cfg_Zone cfg) (cr_AccessibilityRequirements req))) (\<lambda>region.
         bind_err (\<lambda>e. TemporaryErr Unavailable (ErrText (''error creating share object: '' @ error_text e)))
           (createShareInfo sic (new_share_info req reqBytes instanceSCLabel region)) ret))"

definition created_from_status ::
  "config \<Rightarrow> 'w Service \<Rightarrow> string \<Rightarrow> string \<Rightarrow> int \<Rightarrow> ShareInfo \<Rightarrow> ('w, CsiVolume) eff" where
  "created_from_status cfg svc pvName instanceSCLabel maxShareSizeBytes shareInfo =
     (let unassigned = fail (StatusErr Aborted (''share '' @ pvName @ '' is not assigned to an instance yet'')) in
      case sfo_Status shareInfo of
        None \<Rightarrow> unassigned
      | Some status \<Rightarrow>
          if st_InstanceHandle status = [] then unassigned
          else if st_ShareStatus status \<noteq> READY then
            (if st_Error status \<noteq> []
             then fail (TemporaryErr Unavailable (ErrText (''error fetching share status: '' @ st_Error status)))
             else fail (StatusErr Aborted (''share '' @ pvName @ '' is not ready yet'')))
          else bind (lift (generateFileShareFromShareInfo shareInfo)) (\<lambda>share.
            getShareAndGenerateCSICreateVolumeResponse cfg svc instanceSCLabel share maxShareSizeBytes))"

definition stateful_CreateVolume ::
  "'ts externals \<Rightarrow> config \<Rightarrow> 'w Service \<Rightarrow> 'w ShareInfoClient \<Rightarrow> CreateVolumeRequest \<Rightarrow> ('w, CsiVolume) eff" where
  "stateful_CreateVolume ext cfg svc sic req =
     (if length (cr_Name req) = 0 then fail (StatusErr InvalidArgument ''CreateVolume name must be provided'')
      else case validateVolumeCapabilities cfg (cr_VolumeCapabilities req) of
        Some e \<Rightarrow> fail (StatusErr InvalidArgument (error_text e))
      | None \<Rightarrow>
          if cr_VolumeContentSource req \<noteq> None
          then fail (StatusErr InvalidArgument ''Multishare backed volumes do not support volume content source'')
          else
          bind_err (status_of InvalidArgument) (lift (getInstanceSCLabel req)) (\<lambda>instanceSCLabel.
          bind_err (status_of InvalidArgument) (lift (parseMaxVolumeSizeParam (\<lambda>v. map_err ErrText (ext_parseQuantity ext v))
              (cfg_maxSharesPerInstance cfg) (cr_Parameters req))) (\<lambda>(_, maxShareSizeBytes).
          bind (lift (share_bytes cfg req maxShareSizeBytes)) (\<lambda>reqBytes.
          bind (obtain_share_info ext cfg sic req reqBytes instanceSCLabel) (\<lambda>shareInfo.
            created_from_status cfg svc (cr_Name req) instanceSCLabel maxShareSizeBytes shareInfo)))))"

section \<open>DeleteVolume\<close>

definition aborted :: "string \<Rightarrow> string \<Rightarrow> string \<Rightarrow> ('w, 'a) eff" where
  "aborted a v b = fail (StatusErr Aborted (a @ v @ b))"

text \<open>No object in the cache: the share may be gone already\<close>

definition deleted_already :: "'w Service \<Rightarrow> string \<Rightarrow> Share \<Rightarrow> ('w, unit) eff" where
  "deleted_already svc volumeId share =
     attempt (svc_GetShare svc share) (\<lambda>r. case r of
       Inl e \<Rightarrow> if IsNotFoundErr e then ret () else fail (status_of Internal e)
     | Inr _ \<Rightarrow> aborted ''waiting to express intent for volume '' volumeId '' to be deleted'')"

definition deleted_from_object :: "'w ShareInfoClient \<Rightarrow> string \<Rightarrow> string \<Rightarrow> ShareInfo \<Rightarrow> ('w, unit) eff" where
  "deleted_from_object sic volumeId siName shareInfo =
     (if \<not> sfo_Deleted shareInfo then
        (if length (sfo_Finalizers shareInfo) = 0
         then fail (StatusErr Internal (''error deleting volume '' @ volumeId @ '' due to driver state error''))
         else attempt (deleteShareInfo sic siName) (\<lambda>_.
           aborted ''expressed intent for volume '' volumeId '' to be deleted, waiting.''))
      else (case sfo_Status shareInfo of
        None \<Rightarrow> aborted ''waiting for volume '' volumeId '' to be deleted.''
      | Some status \<Rightarrow>
          if st_ShareStatus status = DELETED
          then bind_err (\<lambda>e. StatusErr Internal (''error deleting volume '' @ volumeId @ '' due to failed internal update''))
                 (updateShareInfo sic (shareInfo\<lparr>sfo_Finalizers := []\<rparr>)) (\<lambda>_. ret ())
          else if st_Error status \<noteq> [] then fail (StatusErr Internal (''internal error: '' @ st_Error status))
          else aborted ''waiting for the Filestore share supporting volume '' volumeId '' to be deleted''))"

definition stateful_DeleteVolume :: "'w Service \<Rightarrow> 'w ShareInfoClient \<Rightarrow> string \<Rightarrow> ('w, unit) eff" where
  "stateful_DeleteVolume svc sic volumeId =
     bind_err (status_of InvalidArgument) (lift (parseMultishareVolId volumeId)) (\<lambda>v.
       let siName = ShareToShareInfoName (sh_Name (volume_share v)) in
       attempt (sic_Lister sic siName) (\<lambda>r. case r of
         Inl e \<Rightarrow>
           if \<not> sic_IsNotFound sic e
           then fail (StatusErr Internal (''error deleting volume '' @ quote volumeId @ '' due to informer error: '' @ error_text e))
           else deleted_already svc volumeId (volume_share v)
       | Inr shareInfo \<Rightarrow> deleted_from_object sic volumeId siName shareInfo))"

section \<open>ControllerExpandVolume\<close>

definition expanded_from_object ::
  "'w Service \<Rightarrow> 'w ShareInfoClient \<Rightarrow> string \<Rightarrow> int \<Rightarrow> ShareInfo \<Rightarrow> ('w, ExpandResponse) eff" where
  "expanded_from_object svc sic siName reqBytes shareInfo =
     (if sfo_CapacityBytes shareInfo < reqBytes
      then bind_err (\<lambda>e. StatusErr Internal (''error expanding volume '' @ siName @ '' due to failed internal update''))
             (updateShareInfo sic (shareInfo\<lparr>sfo_CapacityBytes := reqBytes\<rparr>))
             (\<lambda>_. aborted ''expressed intent for volume '' siName '' to be expanded'')
      else (case sfo_Status shareInfo of
        None \<Rightarrow> fail (StatusErr Internal (''volume '' @ siName @ '' is not yet created''))
      | Some status \<Rightarrow>
          if st_CapacityBytes status \<ge> reqBytes \<and> st_ShareStatus status = READY
          then bind (lift (generateFileShareFromShareInfo shareInfo)) (\<lambda>share.
                 getShareAndGenerateCSIControllerExpandVolumeResponse svc share reqBytes)
          else if st_Error status \<noteq> [] then fail (StatusErr Internal (''internal error: '' @ st_Error status))
          else aborted ''waiting for volume '' siName '' to be expanded''))"

definition stateful_ControllerExpandVolume ::
  "'ts externals \<Rightarrow> config \<Rightarrow> 'w Service \<Rightarrow> 'w ShareInfoClient \<Rightarrow> 'w PvClient \<Rightarrow> string \<Rightarrow> CapacityRange option
     \<Rightarrow> ('w, ExpandResponse) eff" where
  "stateful_ControllerExpandVolume ext cfg svc sic pvs volumeId cr =
     (if length volumeId = 0 then fail (StatusErr InvalidArgument ''ControllerExpandVolume volume ID must be provided'')
      else
      bind_err (status_of Internal) (if cfg_maxSharesPerInstance cfg then GetShareMaxSizeFromPV ext pvs volumeId
                          else ret MaxShareSizeBytes) (\<lambda>maxShareSizeBytes.
      bind (lift (expand_bytes cr maxShareSizeBytes)) (\<lambda>reqBytes.
      bind_err (status_of InvalidArgument) (lift (parseMultishareVolId volumeId)) (\<lambda>v.
      let siName = ShareToShareInfoName (sh_Name (volume_share v)) in
      attempt (sic_Lister sic siName) (\<lambda>r. case r of
        Inl e \<Rightarrow>
          if \<not> sic_IsNotFound sic e
          then fail (StatusErr Internal (''error getting shareInfo '' @ quote siName @ '' from informer: '' @ error_text e))
          else aborted ''waiting to express intent for volume '' siName '' to be expanded''
      | Inr shareInfo \<Rightarrow> expanded_from_object svc sic siName reqBytes shareInfo)))))"

section \<open>Properties\<close>

text \<open>C37: A stateful deletion is only confirmed when it is true. Success means either that the informer has
  no object for the share and the service answered that the share is not found, or that the object is
  being deleted, its status says the share is deleted, and its finalizers have just been removed.\<close>

theorem stateful_delete_confirmed:
  assumes "stateful_DeleteVolume svc sic volumeId w = (Inr (), w')"
  shows "\<exists>v w1. parseMultishareVolId volumeId = Inr v \<and>
    ((\<exists>e e'. sic_Lister sic (ShareToShareInfoName (sh_Name (volume_share v))) w = (Inl e, w1) \<and> sic_IsNotFound sic e
        \<and> svc_GetShare svc (volume_share v) w1 = (Inl e', w') \<and> IsNotFoundErr e')
     \<or> (\<exists>si si' st. sic_Lister sic (ShareToShareInfoName (sh_Name (volume_share v))) w = (Inr si, w1) \<and> sfo_Deleted si
        \<and> sfo_Status si = Some st \<and> st_ShareStatus st = DELETED
        \<and> sic_Update sic (si\<lparr>sfo_Finalizers := []\<rparr>) w1 = (Inr si', w')))"
proof -
  obtain v where v: "parseMultishareVolId volumeId = Inr v"
    using assms by (auto simp: stateful_DeleteVolume_def bind_err_Inr_iff lift_Inr)
  let ?n = "ShareToShareInfoName (sh_Name (volume_share v))"
  obtain r w1 where l: "sic_Lister sic ?n w = (r, w1)" by force
  show ?thesis
  proof (cases r)
    case (Inl e)
    then have "sic_IsNotFound sic e" "deleted_already svc volumeId (volume_share v) w1 = (Inr (), w')"
      using assms v l by (auto simp: stateful_DeleteVolume_def bind_err_def attempt_def Let_def split: if_splits)
    then show ?thesis
      using v l Inl by (auto simp: deleted_already_def attempt_def aborted_def split: prod.splits sum.splits if_splits)
  next
    case (Inr si)
    then have "deleted_from_object sic volumeId ?n si w1 = (Inr (), w')"
      using assms v l by (auto simp: stateful_DeleteVolume_def bind_err_def attempt_def Let_def)
    then show ?thesis
      using v l Inr
      by (auto simp: deleted_from_object_def attempt_def aborted_def bind_err_Inr_iff updateShareInfo_def
          split: prod.splits option.splits if_splits)
  qed
qed

text \<open>A stateful creation reports no size and no address. Every volume \<open>CreateVolume\<close> of the stateful
  controller returns has capacity 0 (unknown to the CSI caller) and an empty address in its volume
  context: the answer is made from a share that carries names only, not from the one read back.\<close>

theorem stateful_create_reports_nothing:
  assumes "stateful_CreateVolume ext cfg svc sic req w = (Inr vol, w')"
  shows "cv_CapacityBytes vol = 0 \<and> mget (cv_VolumeContext vol) attrIP = [] \<and> cv_ContentSource vol = None"
proof -
  obtain label maxSize si w1 where "created_from_status cfg svc (cr_Name req) label maxSize si w1 = (Inr vol, w')"
    using assms by (auto simp: stateful_CreateVolume_def bind_err_Inr_iff bind_Inr_iff lift_Inr split: if_splits option.splits)
  then obtain share w2 w3 where s: "generateFileShareFromShareInfo si = Inr share"
      and "getShareAndGenerateCSICreateVolumeResponse cfg svc label share maxSize w2 = (Inr vol, w3)"
    by (auto simp: created_from_status_def Let_def bind_Inr_iff lift_Inr split: option.splits if_splits)
  then have g: "generateCSICreateVolumeResponse cfg label share maxSize = Inr vol"
    by (auto simp: getShareAndGenerateCSICreateVolumeResponse_def bind_err_Inr_iff lift_Inr split: if_splits)
  have "sh_CapacityBytes share = 0 \<and> sh_BackupId share = [] \<and> (\<exists>p. sh_Parent share = Some p \<and> Ip (mi_Network p) = [])"
    using s by (auto simp: generateFileShareFromShareInfo_def empty_share_def empty_instance_def empty_network_def
        split: option.splits sum.splits)
  then show ?thesis
    using g by (auto simp: generateCSICreateVolumeResponse_def mget_def split: sum.splits)
qed

definition demo_share_info :: "FilestoreStatus \<Rightarrow> bool \<Rightarrow> ShareInfo" where
  "demo_share_info s del =
     \<lparr>sfo_Name = ''pvc-1'', sfo_Finalizers = [FilestoreResourceCleanupFinalizer], sfo_Labels = [], sfo_Deleted = del,
      sfo_ShareName = ''pvc_1'', sfo_CapacityBytes = 107374182400, sfo_InstancePoolTag = ''sc'', sfo_Region = ''us-c1'',
      sfo_Parameters = [], sfo_Status = Some \<lparr>st_InstanceHandle = ''projects/p/locations/us-c1/instances/a'',
        st_CapacityBytes = 107374182400, st_ShareStatus = s, st_Error = []\<rparr>\<rparr>"

definition demo_sic :: "ShareInfo \<Rightarrow> 'w ShareInfoClient" where
  "demo_sic si = \<lparr>sic_Lister = (\<lambda>n. ret si), sic_Get = (\<lambda>n. ret si), sic_Create = ret, sic_Update = ret,
     sic_Delete = (\<lambda>n. ret ()), sic_IsNotFound = IsNotFoundErr\<rparr>"

theorem stateful_delete_confirmed_witness:
  "parseMultishareVolId demo_volume_id \<noteq> Inl (ErrText [])
   \<and> stateful_DeleteVolume demo_service (demo_sic (demo_share_info DELETED True)) demo_volume_id NewFakeService
       = (Inr (), NewFakeService)"
proof -
  have x: "stateful_DeleteVolume demo_service (demo_sic (demo_share_info DELETED True)) demo_volume_id NewFakeService
      = (Inr (), NewFakeService)"
    by code_simp
  then show ?thesis using stateful_delete_confirmed[OF x] by auto
qed

theorem stateful_create_reports_nothing_witness:
  "\<exists>vol w'. stateful_CreateVolume demo_externals demo_config demo_service (demo_sic (demo_share_info READY False))
       (demo_create\<lparr>cr_Parameters := [(ParamMultishareInstanceScLabel, ''sc'')],
          cr_CapacityRange := Some \<lparr>RequiredBytes = 107374182400, LimitBytes = 0\<rparr>\<rparr>)
       (NewFakeServiceForMultishare [example_ready] [demo_share] []) = (Inr vol, w') \<and> cv_CapacityBytes vol = 0"
proof -
  let ?x = "stateful_CreateVolume demo_externals demo_config demo_service (demo_sic (demo_share_info READY False))
       (demo_create\<lparr>cr_Parameters := [(ParamMultishareInstanceScLabel, ''sc'')],
          cr_CapacityRange := Some \<lparr>RequiredBytes = 107374182400, LimitBytes = 0\<rparr>\<rparr>)
       (NewFakeServiceForMultishare [example_ready] [demo_share] [])"
  have c: "case fst ?x of Inl e \<Rightarrow> False | Inr r \<Rightarrow> True" by code_simp
  then obtain vol w' where x: "?x = (Inr vol, w')" by (cases "?x") (auto split: sum.splits)
  show ?thesis using stateful_create_reports_nothing[OF x] x by blast
qed

end
