(* ===== verification/Controller.thy ===== *)
theory Controller
  imports Stateful_Controller
begin

text \<open>
  \<open>controller.go\<close>: the handlers of the CSI controller service. A request on a multishare volume is
  passed to the stateful or the plain multishare controller; the others are handled here, on
  instances of their own. Metrics and logs are left out.
\<close>

section \<open>The instance of a new volume\<close>

text \<open>What the handlers are configured with and call\<close>

record ('w, 'ts) server =
  sv_ext :: "'ts externals"
  sv_cfg :: config
  sv_svc :: "'w Service"
  sv_tags :: "'w TagService"
  sv_pvs :: "'w PvClient"
  sv_sic :: "'w ShareInfoClient"

definition paramMountOptions :: string where "paramMountOptions = ''mount-options''"
definition attrMountOptions :: string where "attrMountOptions = ''mountOptions''"
definition attrVolume :: string where "attrVolume = ''volume''"
definition newInstanceVolume :: string where "newInstanceVolume = ''vol1''"

record fi_params =
  fp_location :: string
  fp_tier :: string
  fp_nfs :: "NfsExportOptions list"
  fp_network :: string
  fp_connectMode :: string
  fp_kmsKeyName :: string
  fp_fileProtocol :: string

definition ignored_fi_params :: "string list" where
  "ignored_fi_params = [ParameterKeyLabels, ParameterKeyPVCName, ParameterKeyPVCNamespace, ParameterKeyPVName,
     paramMountOptions, ''csiprovisionersecretname'', ''csiprovisionersecretnamespace'']"

definition set_tier :: "string \<Rightarrow> fi_params \<Rightarrow> go_error + fi_params" where
  "set_tier v fp =
     (if v = ''enterprise'' \<or> v = ''regional''
      then (case GetRegionFromZone (fp_location fp) of
              Inl e \<Rightarrow> Inl (ErrWrap (''failed to get region from zone '' @ fp_location fp @ '': '') e [])
            | Inr region \<Rightarrow> Inr (fp\<lparr>fp_tier := v, fp_location := region\<rparr>))
      else Inr (fp\<lparr>fp_tier := v\<rparr>))"

definition set_nfs :: "'ts externals \<Rightarrow> config \<Rightarrow> string \<Rightarrow> fi_params \<Rightarrow> go_error + fi_params" where
  "set_nfs ext cfg v fp =
     (if \<not> cfg_nfsExportOptionsOnCreate cfg then Inl (ErrText ''nfsExportOptions are disabled'')
      else (case parseNfsExportOptions ext v of
              Inl e \<Rightarrow> Inl (ErrText (''failed to parse nfs-export-options-on-create '' @ v @ '': '' @ error_text e))
            | Inr opts \<Rightarrow> Inr (fp\<lparr>fp_nfs := opts\<rparr>)))"

fun scan_fi_params :: "'ts externals \<Rightarrow> config \<Rightarrow> labels \<Rightarrow> fi_params \<Rightarrow> go_error + fi_params" where
  "scan_fi_params ext cfg [] fp = Inr fp"
| "scan_fi_params ext cfg ((k, v) # ps) fp =
     (let key = toLower k in
      if key = ''tier'' then rbind (set_tier v fp) (scan_fi_params ext cfg ps)
      else if key = ParamNfsExportOptions then rbind (set_nfs ext cfg v fp) (scan_fi_params ext cfg ps)
      else if key = ''network'' then scan_fi_params ext cfg ps (fp\<lparr>fp_network := v\<rparr>)
      else if key = ParamConnectMode then
        if v \<noteq> directPeering \<and> v \<noteq> privateServiceAccess then Inl (ErrText bad_connect_mode)
        else scan_fi_params ext cfg ps (fp\<lparr>fp_connectMode := v\<rparr>)
      else if key = ParamInstanceEncryptionKmsKey then scan_fi_params ext cfg ps (fp\<lparr>fp_kmsKeyName := v\<rparr>)
      else if key \<in> {ParamReservedIPV4CIDR, ParamReservedIPRange, ParameterKeyResourceTags} then scan_fi_params ext cfg ps fp
      else if key = ''protocol'' then
        scan_fi_params ext cfg ps (if cfg_nfsv4Support cfg then fp\<lparr>fp_fileProtocol := v\<rparr> else fp)
      else if key \<in> set ignored_fi_params then scan_fi_params ext cfg ps fp
      else Inl (ErrText (''invalid parameter '' @ quote k)))"

definition fi_protocol :: "fi_params \<Rightarrow> go_error + string" where
  "fi_protocol fp =
     (if fp_fileProtocol fp = v4_1FileProtocol then
        if isBasicTier (fp_tier fp)
        then Inl (StatusErr FailedPrecondition ''Filestore does not support NFSv4.1 protocol with Basic tiers'')
        else Inr v4_1FileProtocol
      else Inr v3FileProtocol)"

definition generateNewFileInstance ::
  "'ts externals \<Rightarrow> config \<Rightarrow> string \<Rightarrow> int \<Rightarrow> labels \<Rightarrow> labels \<Rightarrow> TopologyRequirement option \<Rightarrow> go_error + ServiceInstance" where
  "generateNewFileInstance ext cfg nm capBytes params mutableParams topo =
     rbind (map_err (\<lambda>e. ErrWrap ''invalid topology error '' e []) (pickZone (ext_show_map ext) (cfg_Zone cfg) topo)) (\<lambda>location.
     rbind (scan_fi_params ext cfg params \<lparr>fp_location = location, fp_tier = ''standard'', fp_nfs = [],
        fp_network = ''default'', fp_connectMode = directPeering, fp_kmsKeyName = [], fp_fileProtocol = []\<rparr>) (\<lambda>fp.
     rbind (fi_protocol fp) (\<lambda>fileProtocol.
     rbind (map_err (\<lambda>e. StatusErr InvalidArgument (''Validation failed: '' @ error_text e))
        (validateAndBuildPerformanceConfig mutableParams capBytes (fp_tier fp))) (\<lambda>perfConfig.
       Inr \<lparr>si_Project = cfg_Project cfg, si_Name = nm, si_Location = fp_location fp, si_Tier = fp_tier fp,
         si_Network = \<lparr>net_Name = fp_network fp, ConnectMode = fp_connectMode fp, ReservedIpRange = [], Ip = []\<rparr>,
         si_Volume = \<lparr>vol_Name = newInstanceVolume, SizeBytes = capBytes\<rparr>, si_Labels = [], si_State = [],
         si_KmsKeyName = fp_kmsKeyName fp, si_BackupSource = [], si_NfsExportOptions = fp_nfs fp,
         si_Protocol = fileProtocol, si_PerformanceConfig = perfConfig\<rparr>))))"

definition fileInstanceToCSIVolume :: "config \<Rightarrow> ServiceInstance \<Rightarrow> string \<Rightarrow> CsiVolume" where
  "fileInstanceToCSIVolume cfg i mode =
     \<lparr>cv_VolumeId = getVolumeIDFromFileInstance i mode, cv_CapacityBytes = SizeBytes (si_Volume i),
      cv_VolumeContext =
        [(attrIP, Ip (si_Network i)), (attrVolume, vol_Name (si_Volume i))]
        @ (if si_Protocol i = v4_1FileProtocol then [(attrFileProtocol, v4_1FileProtocol)]
           else [(attrFileProtocol, v3FileProtocol)]
             @ (if si_Protocol i = v3FileProtocol \<and> cfg_lockRelease cfg \<and> toLower (si_Tier i) = ''enterprise''
                then [(attrSupportLockRelease, ''true'')] else [])),
      cv_ContentSource = (if si_BackupSource i \<noteq> [] then Some (si_BackupSource i) else None)\<rparr>"

section \<open>CreateVolume\<close>

definition content_source_of :: "'w Service \<Rightarrow> CreateVolumeRequest \<Rightarrow> ServiceInstance \<Rightarrow> ('w driver, ServiceInstance) eff" where
  "content_source_of svc req newFiler = (case cr_VolumeContentSource req of
       None \<Rightarrow> ret newFiler
     | Some (VolumeSource _) \<Rightarrow> fail (StatusErr InvalidArgument ''Unsupported volume content source'')
     | Some (SnapshotSource snapshotId) \<Rightarrow>
         bind (backup_source svc snapshotId) (\<lambda>b. ret (newFiler\<lparr>si_BackupSource := b\<rparr>))
     | Some NoSource \<Rightarrow> ret newFiler)"

definition validate_tags :: "'w TagService \<Rightarrow> labels \<Rightarrow> ('w driver, unit) eff" where
  "validate_tags tags params = (case mlookup params ParameterKeyResourceTags of
       None \<Rightarrow> ret ()
     | Some t \<Rightarrow> bind_err (status_of InvalidArgument)
         (on_world (tag_ValidateResourceTags tags ''CreateVolumeRequest'' t)) ret)"

text \<open>An instance of that name exists: it must be the one requested, and ready\<close>

definition use_existing :: "string \<Rightarrow> ServiceInstance \<Rightarrow> ServiceInstance \<Rightarrow> go_error + ServiceInstance" where
  "use_existing nm newFiler filer =
     (let notReady = ''Volume '' @ nm @ '' not ready, current state: '' @ si_State filer in
      case CompareInstances newFiler filer of
        Some e \<Rightarrow> Inl (StatusErr AlreadyExists (error_text e))
      | None \<Rightarrow>
          if si_State filer = ''CREATING'' then Inl (StatusErr DeadlineExceeded notReady)
          else if si_State filer \<noteq> ''READY'' then Inl (StatusErr Unavailable notReady)
          else Inr filer)"

definition set_reserved_range :: "string \<Rightarrow> ServiceInstance \<Rightarrow> ServiceInstance" where
  "set_reserved_range r i = i\<lparr>si_Network := (si_Network i)\<lparr>ReservedIpRange := r\<rparr>\<rparr>"

text \<open>The creation proper. \<open>finish\<close> is the rest of the handler, which runs before the deferred release of
  the reserved range.\<close>

definition create_and ::
  "config \<Rightarrow> 'w Service \<Rightarrow> labels \<Rightarrow> (ServiceInstance \<Rightarrow> ('w driver, 'a) eff) \<Rightarrow> ServiceInstance \<Rightarrow> ('w driver, 'a) eff" where
  "create_and cfg svc param finish newFiler =
     bind_err to_status (lift (extractLabels param (cfg_extraVolumeLabels cfg) (cfg_Name cfg))) (\<lambda>labels.
     bind_err to_status (on_world (svc_CreateInstance svc (newFiler\<lparr>si_Labels := labels\<rparr>))) finish)"

definition create_new ::
  "config \<Rightarrow> 'w Service \<Rightarrow> labels \<Rightarrow> (ServiceInstance \<Rightarrow> ('w driver, 'a) eff) \<Rightarrow> ServiceInstance \<Rightarrow> ('w driver, 'a) eff" where
  "create_new cfg svc param finish newFiler =
     (if ConnectMode (si_Network newFiler) = privateServiceAccess
      then (case mlookup param ParamReservedIPRange of
              None \<Rightarrow> create_and cfg svc param finish newFiler
            | Some r \<Rightarrow>
                if IsCIDR r
                then fail (StatusErr InvalidArgument (''When using connect mode PRIVATE_SERVICE_ACCESS, if reserved IP range is specified, it must be a named address range instead of direct CIDR value '' @ r))
                else create_and cfg svc param finish (set_reserved_range r newFiler))
      else (case mlookup param ParamReservedIPV4CIDR of
              None \<Rightarrow> create_and cfg svc param finish newFiler
            | Some cidr \<Rightarrow> with_reserved to_status (reserveIPRange svc newFiler cidr)
                (\<lambda>r. create_and cfg svc param finish (set_reserved_range r newFiler))))"

definition mount_options :: "labels \<Rightarrow> CsiVolume \<Rightarrow> CsiVolume" where
  "mount_options params vol =
     (let o' = mget params paramMountOptions in
      if o' \<noteq> [] then vol\<lparr>cv_VolumeContext := minsert attrMountOptions o' (cv_VolumeContext vol)\<rparr> else vol)"

definition finish_create_volume ::
  "config \<Rightarrow> 'w TagService \<Rightarrow> CreateVolumeRequest \<Rightarrow> ServiceInstance \<Rightarrow> ('w driver, CsiVolume) eff" where
  "finish_create_volume cfg tags req filer =
     bind_err (status_of Unavailable) (on_world (tag_AttachResourceTags tags FilestoreInstance (si_Name filer)
         (si_Location filer) (cr_Name req) (cr_Parameters req))) (\<lambda>_.
       ret (mount_options (cr_Parameters req) (fileInstanceToCSIVolume cfg filer modeInstance)))"

text \<open>The instance of that name, None when the service has none\<close>

definition lookup_instance :: "'w Service \<Rightarrow> ServiceInstance \<Rightarrow> ('w driver, ServiceInstance option) eff" where
  "lookup_instance svc newFiler = attempt (on_world (svc_GetInstance svc newFiler)) (\<lambda>r. case r of
       Inl e \<Rightarrow> if IsNotFoundErr e then ret None else fail (to_status e)
     | Inr filer \<Rightarrow> ret (Some filer))"

definition create_locked ::
  "config \<Rightarrow> 'w Service \<Rightarrow> 'w TagService \<Rightarrow> CreateVolumeRequest \<Rightarrow> ServiceInstance \<Rightarrow> ('w driver, CsiVolume) eff" where
  "create_locked cfg svc tags req newFiler0 =
     bind (content_source_of svc req newFiler0) (\<lambda>newFiler.
     bind (lookup_instance svc newFiler) (\<lambda>existing.
     bind (validate_tags tags (cr_Parameters req)) (\<lambda>_.
       case existing of
         Some filer \<Rightarrow> bind (lift (use_existing (cr_Name req) newFiler filer)) (finish_create_volume cfg tags req)
       | None \<Rightarrow> create_new cfg svc (cr_Parameters req) (finish_create_volume cfg tags req) newFiler)))"

definition single_CreateVolume :: "('w, 'ts) server \<Rightarrow> CreateVolumeRequest \<Rightarrow> ('w driver, CsiVolume) eff" where
  "single_CreateVolume sv req =
     (if length (cr_Name req) = 0 then fail (StatusErr InvalidArgument ''CreateVolume name must be provided'')
      else case validateVolumeCapabilities (sv_cfg sv) (cr_VolumeCapabilities req) of
        Some e \<Rightarrow> fail (StatusErr InvalidArgument (error_text e))
      | None \<Rightarrow>
          bind_err (status_of InvalidArgument) (lift (getRequestCapacity (ext_tib (sv_ext sv)) (cr_CapacityRange req)
             (getTierFromParams (cr_Parameters req)))) (\<lambda>capBytes.
          bind_err (status_of InvalidArgument) (lift (generateNewFileInstance (sv_ext sv) (sv_cfg sv) (cr_Name req) capBytes
             (cr_Parameters req) (cr_MutableParameters req) (cr_AccessibilityRequirements req))) (\<lambda>newFiler.
            with_lock (getVolumeIDFromFileInstance newFiler modeInstance)
              (create_locked (sv_cfg sv) (sv_svc sv) (sv_tags sv) req newFiler))))"

text \<open>The dispatch of a request on a multishare volume\<close>

definition dispatch :: "('w, 'ts) server \<Rightarrow> ('w, 'a) eff \<Rightarrow> ('w driver, 'a) eff \<Rightarrow> ('w driver, 'a) eff" where
  "dispatch sv stateful plain =
     (if \<not> cfg_multishareEnabled (sv_cfg sv) then fail (StatusErr InvalidArgument ''multishare controller not enabled'')
      else if cfg_statefulEnabled (sv_cfg sv) then on_world stateful else plain)"

definition CreateVolume :: "('w, 'ts) server \<Rightarrow> CreateVolumeRequest \<Rightarrow> ('w driver, CsiVolume) eff" where
  "CreateVolume sv req =
     (if toLower (mget (cr_Parameters req) ''multishare'') = ''true''
      then bind_err to_status (dispatch sv
             (stateful_CreateVolume (sv_ext sv) (sv_cfg sv) (sv_svc sv) (sv_sic sv) req)
             (ms_CreateVolume (sv_ext sv) (sv_cfg sv) (sv_svc sv) req)) ret
      else single_CreateVolume sv req)"

section \<open>DeleteVolume\<close>

definition delete_locked :: "config \<Rightarrow> 'w Service \<Rightarrow> string \<Rightarrow> ServiceInstance \<Rightarrow> ('w, unit) eff" where
  "delete_locked cfg svc volumeID filer0 =
     attempt (svc_GetInstance svc (filer0\<lparr>si_Project := cfg_Project cfg\<rparr>)) (\<lambda>r. case r of
       Inl e \<Rightarrow> if IsNotFoundErr e then ret () else fail (to_status e)
     | Inr filer \<Rightarrow>
         if si_State filer = ''DELETING''
         then fail (StatusErr DeadlineExceeded (''Volume '' @ volumeID @ '' is in state: '' @ si_State filer))
         else bind_err to_status (svc_DeleteInstance svc filer) ret)"

definition single_DeleteVolume :: "('w, 'ts) server \<Rightarrow> string \<Rightarrow> ('w driver, unit) eff" where
  "single_DeleteVolume sv volumeID = (case getFileInstanceFromID volumeID of
       Inl e \<Rightarrow> ret ()
     | Inr (filer, _) \<Rightarrow> with_lock volumeID (on_world (delete_locked (sv_cfg sv) (sv_svc sv) volumeID filer)))"

definition DeleteVolume :: "('w, 'ts) server \<Rightarrow> string \<Rightarrow> ('w driver, unit) eff" where
  "DeleteVolume sv volumeID =
     (if volumeID = [] then fail (StatusErr InvalidArgument ''volume id is empty'')
      else if isMultishareVolId volumeID
      then bind_err to_status (dispatch sv
             (stateful_DeleteVolume (sv_svc sv) (sv_sic sv) volumeID)
             (ms_DeleteVolume (sv_cfg sv) (sv_svc sv) volumeID)) ret
      else single_DeleteVolume sv volumeID)"

section \<open>ValidateVolumeCapabilities and ControllerModifyVolume\<close>

record ValidateRequest =
  vr_VolumeId :: string
  vr_VolumeContext :: labels
  vr_VolumeCapabilities :: "VolumeCapability option list"
  vr_Parameters :: labels

text \<open>A confirmation repeats the context, the capabilities and the parameters of the request.\<close>

definition ValidateVolumeCapabilities ::
  "('w, 'ts) server \<Rightarrow> ValidateRequest \<Rightarrow> ('w driver, labels \<times> VolumeCapability option list \<times> labels) eff" where
  "ValidateVolumeCapabilities sv req =
     (if vr_VolumeId req = [] then fail (StatusErr InvalidArgument ''volume id is empty'')
      else if length (vr_VolumeCapabilities req) = 0 then fail (StatusErr InvalidArgument ''volume capabilities is empty'')
      else bind_err (status_of NotFound) (lift (getFileInstanceFromID (vr_VolumeId req))) (\<lambda>(filer, _).
      bind (lookup_instance (sv_svc sv) (filer\<lparr>si_Project := cfg_Project (sv_cfg sv)\<rparr>)) (\<lambda>newFiler.
      case newFiler of
        None \<Rightarrow> fail (StatusErr NotFound (''volume '' @ vr_VolumeId req @ '' doesn't exist''))
      | Some _ \<Rightarrow> (case validateVolumeCapabilities (sv_cfg sv) (vr_VolumeCapabilities req) of
          Some e \<Rightarrow> fail (StatusErr InvalidArgument (error_text e))
        | None \<Rightarrow> ret (vr_VolumeContext req, vr_VolumeCapabilities req, vr_Parameters req)))))"

definition modify_locked :: "config \<Rightarrow> 'w Service \<Rightarrow> string \<Rightarrow> labels \<Rightarrow> ('w, unit) eff" where
  "modify_locked cfg svc volumeID params =
     bind_err (status_of InvalidArgument) (lift (getFileInstanceFromID volumeID)) (\<lambda>(filer0, _).
     attempt (svc_GetInstance svc (filer0\<lparr>si_Project := cfg_Project cfg\<rparr>)) (\<lambda>r. case r of
       Inl e \<Rightarrow> if IsNotFoundErr e then fail (StatusErr NotFound (''Volume '' @ volumeID @ '' not found'')) else fail (to_status e)
     | Inr filer \<Rightarrow>
         bind_err (\<lambda>e. StatusErr InvalidArgument (''Validation failed: '' @ error_text e))
           (lift (validateAndBuildPerformanceConfig params (SizeBytes (si_Volume filer)) (si_Tier filer))) (\<lambda>perfConfig.
         if perfConfig = None then ret ()
         else bind_err to_status (svc_UpdateInstancePerformance svc filer perfConfig) ret)))"

definition ControllerModifyVolume :: "('w, 'ts) server \<Rightarrow> string \<Rightarrow> labels \<Rightarrow> ('w driver, unit) eff" where
  "ControllerModifyVolume sv volumeID params =
     (if length volumeID = 0 then fail (StatusErr InvalidArgument ''Volume ID cannot be empty'')
      else if length params = 0 then ret ()
      else with_lock volumeID (on_world (modify_locked (sv_cfg sv) (sv_svc sv) volumeID params)))"

section \<open>ControllerExpandVolume\<close>

definition not_ready :: "string \<Rightarrow> string \<Rightarrow> go_error" where
  "not_ready volumeID state = ErrText (''Volume '' @ quote volumeID @ '' is not yet ready, current state '' @ quote state)"

definition expand_locked ::
  "'ts externals \<Rightarrow> config \<Rightarrow> 'w Service \<Rightarrow> string \<Rightarrow> CapacityRange option \<Rightarrow> ('w, ExpandResponse) eff" where
  "expand_locked ext cfg svc volumeID cr =
     bind_err (status_of InvalidArgument) (lift (getFileInstanceFromID volumeID)) (\<lambda>(filer0, _).
     bind_err to_status (svc_GetInstance svc (filer0\<lparr>si_Project := cfg_Project cfg\<rparr>)) (\<lambda>filer.
     let size = SizeBytes (si_Volume filer) in
     if si_State filer \<noteq> ''READY'' then fail (not_ready volumeID (si_State filer))
     else if invalidVolumeExpansionRequest cr size (si_Tier filer)
     then fail (StatusErr InvalidArgument (''Volume expansion not supported beyond small '' @ si_Tier filer
            @ '' band. Please create a new instance with higher storage capacity.''))
     else bind_err (status_of InvalidArgument) (lift (getRequestCapacity (ext_tib ext) cr (si_Tier filer))) (\<lambda>reqBytes.
     if BytesToGb reqBytes \<le> BytesToGb size
     then ret \<lparr>er_CapacityBytes = size, er_NodeExpansionRequired = False\<rparr>
     else bind_err to_status (svc_HasOperations svc filer ''update'' False) (\<lambda>hasPendingOps.
     if hasPendingOps then fail (StatusErr DeadlineExceeded (''Update operation ongoing for volume '' @ volumeID))
     else bind_err to_status (svc_ResizeInstance svc (filer\<lparr>si_Volume := (si_Volume filer)\<lparr>SizeBytes := reqBytes\<rparr>\<rparr>)) (\<lambda>newfiler.
       ret \<lparr>er_CapacityBytes = SizeBytes (si_Volume newfiler), er_NodeExpansionRequired = False\<rparr>)))))"

definition ControllerExpandVolume ::
  "('w, 'ts) server \<Rightarrow> string \<Rightarrow> CapacityRange option \<Rightarrow> ('w driver, ExpandResponse) eff" where
  "ControllerExpandVolume sv volumeID cr =
     (if volumeID = [] then fail (StatusErr InvalidArgument ''ControllerExpandVolume volume ID must be provided'')
      else if isMultishareVolId volumeID
      then dispatch sv
             (stateful_ControllerExpandVolume (sv_ext sv) (sv_cfg sv) (sv_svc sv) (sv_sic sv) (sv_pvs sv) volumeID cr)
             (ms_ControllerExpandVolume (sv_ext sv) (sv_cfg sv) (sv_svc sv) (sv_pvs sv) volumeID cr)
      else with_lock volumeID (on_world (expand_locked (sv_ext sv) (sv_cfg sv) (sv_svc sv) volumeID cr)))"

section \<open>Snapshots\<close>

definition snapshot_locked :: "('w, 'ts) server \<Rightarrow> CreateSnapshotRequest \<Rightarrow> ('w, 'ts Snapshot) eff" where
  "snapshot_locked sv req =
     bind_err (status_of InvalidArgument) (lift (gatherBackupInfo (sr_Name req) (sr_SourceVolumeId req) (cfg_Project (sv_cfg sv)))) (\<lambda>bi.
     bind (lift (check_snapshot_type (sr_Parameters req))) (\<lambda>_.
     bind_err (status_of InvalidArgument) (lift (CreateBackupURI (bi_Location bi) (bi_Project bi) (bi_Name bi)
         (GetBackupLocation (sr_Parameters req)))) (\<lambda>(backupUri, region).
     bind (snapshot_or_backup (sv_ext sv) (sv_cfg sv) (sv_svc sv) req modeInstance
         (bi\<lparr>bi_Location := region, bi_BackupURI := backupUri\<rparr>))
       (attach_backup_tags (sv_tags sv) req (bi_Name bi) region))))"

definition CreateSnapshot :: "('w, 'ts) server \<Rightarrow> CreateSnapshotRequest \<Rightarrow> ('w driver, 'ts Snapshot) eff" where
  "CreateSnapshot sv req =
     (if length (sr_Name req) = 0 then fail (StatusErr InvalidArgument ''CreateSnapshot name must be provided'')
      else if length (sr_SourceVolumeId req) = 0
      then fail (StatusErr InvalidArgument ''CreateSnapshot source volume ID must be provided'')
      else if isMultishareVolId (sr_SourceVolumeId req)
      then (if \<not> cfg_multishareEnabled (sv_cfg sv)
            then fail (StatusErr InvalidArgument ''multishare controller not enabled'')
            else ms_CreateSnapshot (sv_ext sv) (sv_cfg sv) (sv_svc sv) (sv_tags sv) req)
      else with_lock (sr_SourceVolumeId req) (on_world (snapshot_locked sv req)))"

definition DeleteSnapshot :: "('w, 'ts) server \<Rightarrow> string \<Rightarrow> ('w, unit) eff" where
  "DeleteSnapshot sv snapshotId =
     (if length snapshotId = 0 then fail (StatusErr InvalidArgument ''DeleteSnapshot snapshot Id must be provided'')
      else (case IsBackupHandle snapshotId of
        Inl e \<Rightarrow> ret ()
      | Inr isBackup \<Rightarrow>
          if \<not> isBackup
          then fail (StatusErr InvalidArgument ''deletion is only supported for volume snapshots of type backup'')
          else attempt (svc_GetBackup (sv_svc sv) snapshotId) (\<lambda>r. case r of
            Inl e \<Rightarrow> if IsNotFoundErr e then ret () else fail (to_status e)
          | Inr backup \<Rightarrow>
              if cb_State (b_Backup backup) = ''DELETING''
              then fail (StatusErr DeadlineExceeded (''Volume snapshot with ID '' @ snapshotId @ '' is in state ''
                     @ cb_State (b_Backup backup)))
              else bind_err to_status (svc_DeleteBackup (sv_svc sv) snapshotId) ret)))"

section \<open>What the handlers keep\<close>

lemma keeps_lookup [keeps_intros]:
  "keeps busy_volumes (lookup_instance svc i)" "keeps held_ranges (lookup_instance svc i)"
  by (auto simp: lookup_instance_def intro!: keeps_intros split: sum.split)

lemma keeps_finish [keeps_intros]:
  "keeps busy_volumes (finish_create_volume cfg tags req i)" "keeps held_ranges (finish_create_volume cfg tags req i)"
  by (auto simp: finish_create_volume_def intro!: keeps_intros)

lemma keeps_source [keeps_intros]:
  "keeps busy_volumes (content_source_of svc req i)" "keeps held_ranges (content_source_of svc req i)"
  by (auto simp: content_source_of_def intro!: keeps_intros split: option.split content_source.split)

lemma keeps_validate_tags [keeps_intros]:
  "keeps busy_volumes (validate_tags tags p)" "keeps held_ranges (validate_tags tags p)"
  by (auto simp: validate_tags_def intro!: keeps_intros split: option.split)

lemma keeps_create_new [keeps_intros]:
  "(\<And>i. keeps busy_volumes (finish i)) \<Longrightarrow> keeps busy_volumes (create_new cfg svc p finish i0)"
  "(\<And>i. keeps held_ranges (finish i)) \<Longrightarrow> keeps held_ranges (create_new cfg svc p finish i0)"
  by (auto simp: create_new_def create_and_def intro!: keeps_intros split: option.split)

lemma keeps_single_create [keeps_intros]:
  "keeps busy_volumes (single_CreateVolume sv req)" "keeps held_ranges (single_CreateVolume sv req)"
  by (auto simp: single_CreateVolume_def create_locked_def intro!: keeps_intros split: option.split)

lemma keeps_single_delete [keeps_intros]:
  "keeps busy_volumes (single_DeleteVolume sv v)" "keeps held_ranges (single_DeleteVolume sv v)"
  by (auto simp: single_DeleteVolume_def intro!: keeps_intros split: sum.split)

lemma keeps_dispatch [keeps_intros]:
  "keeps busy_volumes m \<Longrightarrow> keeps busy_volumes (dispatch sv st m)"
  "keeps held_ranges m \<Longrightarrow> keeps held_ranges (dispatch sv st m)"
  by (auto simp: dispatch_def)

text \<open>C3: Handlers clean up after themselves. Whatever a request is and however the service answers it,
  on every path of creation, deletion, expansion, modification and snapshot, successful, failed or
  panicking, single or multishare, the handler leaves exactly the volume locks and the pending IP
  ranges it found.\<close>

theorem handlers_release:
  "keeps busy_volumes (CreateVolume sv req) \<and> keeps held_ranges (CreateVolume sv req)
   \<and> keeps busy_volumes (DeleteVolume sv v) \<and> keeps held_ranges (DeleteVolume sv v)
   \<and> keeps busy_volumes (ControllerExpandVolume sv v cr) \<and> keeps held_ranges (ControllerExpandVolume sv v cr)
   \<and> keeps busy_volumes (ControllerModifyVolume sv v params) \<and> keeps held_ranges (ControllerModifyVolume sv v params)
   \<and> keeps busy_volumes (CreateSnapshot sv sreq) \<and> keeps held_ranges (CreateSnapshot sv sreq)"
  by (auto simp: CreateVolume_def DeleteVolume_def ControllerExpandVolume_def ControllerModifyVolume_def
      CreateSnapshot_def intro!: keeps_intros)

section \<open>Error codes\<close>

lemma errors_lift [keeps_intros]: "(\<And>e. r = Inl e \<Longrightarrow> e \<in> E) \<Longrightarrow> errors_in E (lift r)"
  by (auto simp: errors_in_def)

lemma errors_on_world [keeps_intros]: "errors_in E m \<Longrightarrow> errors_in E (on_world m)"
  by (auto simp: errors_in_def on_world_def split: prod.splits)

lemma rewrite_constant [simp]:
  "rewrite_err (\<lambda>e. StatusErr c (f e)) e \<in> status_errors"
  by (auto simp: rewrite_err_def split: go_error.split)

lemma use_existing_status: "use_existing nm a b = Inl e \<Longrightarrow> e \<in> status_errors"
  by (auto simp: use_existing_def Let_def split: option.splits if_splits)

lemma errors_source [keeps_intros]: "errors_in status_errors (content_source_of svc req i)"
  by (auto simp: content_source_of_def backup_source_def intro!: keeps_intros
      split: option.split content_source.split sum.split bool.split)

lemma errors_lookup [keeps_intros]: "errors_in status_errors (lookup_instance svc i)"
  by (auto simp: lookup_instance_def intro!: keeps_intros split: sum.split)

lemma errors_finish [keeps_intros]: "errors_in status_errors (finish_create_volume cfg tags req i)"
  by (auto simp: finish_create_volume_def intro!: keeps_intros)

lemma errors_create_new [keeps_intros]:
  "(\<And>i. errors_in status_errors (finish i)) \<Longrightarrow> errors_in status_errors (create_new cfg svc p finish i0)"
  by (auto simp: create_new_def create_and_def intro!: keeps_intros split: option.split)

lemma errors_single_create [keeps_intros]: "errors_in status_errors (single_CreateVolume sv req)"
  by (auto simp: single_CreateVolume_def create_locked_def validate_tags_def intro!: keeps_intros
      dest: use_existing_status split: option.split)

lemma errors_expand_locked: "errors_in (status_errors \<union> range (not_ready v)) (expand_locked ext cfg svc v cr)"
proof -
  have E: "rewrite_err to_status e \<in> status_errors \<union> X" "rewrite_err (status_of c) e \<in> status_errors \<union> X" for e c X by simp_all
  show ?thesis
    unfolding expand_locked_def Let_def
    by (rule errors_bind_err, rule E, clarsimp split: prod.split, rule errors_bind_err, rule E)
       (auto intro!: errors_bind_err E)
qed

text \<open>C32: Failures reach the caller as gRPC statuses. Every error (bar a panic) of creating, deleting,
  modifying, validating and un-snapshotting is a status, for single and multishare volumes alike. The
  expansion of a single-share volume has one exception, and this case occurs: when the volume is not
  locked and the service answers with its instance in a state other than READY, the expansion is refused
  with a plain error, which is not a status and which gRPC reports with code Unknown.\<close>

theorem handler_errors_are_statuses:
  "errors_in status_errors (CreateVolume sv req) \<and> errors_in status_errors (DeleteVolume sv v)
   \<and> errors_in status_errors (ControllerModifyVolume sv v params)
   \<and> errors_in status_errors (ValidateVolumeCapabilities sv vreq) \<and> errors_in status_errors (DeleteSnapshot sv v)
   \<and> (\<not> isMultishareVolId v \<longrightarrow>
        errors_in (status_errors \<union> range (not_ready v)) (ControllerExpandVolume sv v cr)
        \<and> (\<forall>filer mode i w d. v \<noteq> [] \<longrightarrow> v \<notin> busy_volumes d \<longrightarrow> getFileInstanceFromID v = Inr (filer, mode) \<longrightarrow>
             svc_GetInstance (sv_svc sv) (filer\<lparr>si_Project := cfg_Project (sv_cfg sv)\<rparr>) (world d) = (Inr i, w) \<longrightarrow>
             si_State i \<noteq> ''READY'' \<longrightarrow> fst (ControllerExpandVolume sv v cr d) = Inl (not_ready v (si_State i))
               \<and> not_ready v (si_State i) \<notin> status_errors))"
proof (intro conjI impI allI)
  show "errors_in status_errors (CreateVolume sv req)"
    by (auto simp: CreateVolume_def intro!: keeps_intros)
  show "errors_in status_errors (DeleteVolume sv v)"
    by (auto simp: DeleteVolume_def single_DeleteVolume_def delete_locked_def intro!: keeps_intros split: sum.split)
  show "errors_in status_errors (ControllerModifyVolume sv v params)"
    by (auto simp: ControllerModifyVolume_def modify_locked_def intro!: keeps_intros split: sum.split)
  show "errors_in status_errors (ValidateVolumeCapabilities sv vreq)"
    by (auto simp: ValidateVolumeCapabilities_def intro!: keeps_intros split: option.split)
  show "errors_in status_errors (DeleteSnapshot sv v)"
    by (auto simp: DeleteSnapshot_def intro!: keeps_intros split: sum.split)
  show "errors_in (status_errors \<union> range (not_ready v)) (ControllerExpandVolume sv v cr)" if "\<not> isMultishareVolId v"
    using that by (auto simp: ControllerExpandVolume_def intro!: errors_with_lock errors_on_world errors_expand_locked)
  fix filer mode i w d
  assume v: "\<not> isMultishareVolId v" "v \<noteq> []" "v \<notin> busy_volumes d" "getFileInstanceFromID v = Inr (filer, mode)"
    and i: "svc_GetInstance (sv_svc sv) (filer\<lparr>si_Project := cfg_Project (sv_cfg sv)\<rparr>) (world d) = (Inr i, w)" "si_State i \<noteq> ''READY''"
  have "expand_locked (sv_ext sv) (sv_cfg sv) (sv_svc sv) v cr (world d) = (Inl (not_ready v (si_State i)), w)"
    using v(4) i by (simp add: expand_locked_def bind_err_def lift_def Let_def fail_def)
  then show "fst (ControllerExpandVolume sv v cr d) = Inl (not_ready v (si_State i))"
    using v(1-3) by (simp add: ControllerExpandVolume_def with_lock_def TryAcquire_def busy_volumes_def on_world_def)
  show "not_ready v (si_State i) \<notin> status_errors" by (simp add: not_ready_def status_errors_def)
qed

definition demo_server :: "(fakeServiceManager, nat) server" where
  "demo_server = \<lparr>sv_ext = demo_externals, sv_cfg = demo_config, sv_svc = demo_service, sv_tags = demo_tags,
     sv_pvs = demo_pvs, sv_sic = demo_sic (demo_share_info READY False)\<rparr>"

text \<open>A volume whose instance is being created\<close>

definition creating_volume :: string where
  "creating_volume = ''modeInstance/us-central1-c/pvc-1/vol1''"

definition creating_service :: fakeServiceManager where
  "creating_service = NewFakeService\<lparr>createdInstances :=
     [(''pvc-1'', empty_service_instance\<lparr>si_Name := ''pvc-1'', si_State := ''CREATING''\<rparr>)]\<rparr>"

theorem handler_errors_are_statuses_witness:
  "errors_in (status_errors \<union> range (not_ready creating_volume)) (ControllerExpandVolume demo_server creating_volume None)
   \<and> fst (ControllerExpandVolume demo_server creating_volume None (demo_driver creating_service))
       = Inl (not_ready creating_volume ''CREATING'')"
proof -
  let ?i = "empty_service_instance\<lparr>si_Name := ''pvc-1'', si_State := ''CREATING''\<rparr>"
  let ?f = "empty_service_instance\<lparr>si_Location := ''us-central1-c'', si_Name := ''pvc-1'',
      si_Volume := (si_Volume empty_service_instance)\<lparr>vol_Name := ''vol1''\<rparr>\<rparr>"
  have v: "\<not> isMultishareVolId creating_volume" "creating_volume \<noteq> []"
    "getFileInstanceFromID creating_volume = Inr (?f, modeInstance)" by code_simp+
  have b: "creating_volume \<notin> busy_volumes (demo_driver creating_service)"
    by (simp add: demo_driver_def busy_volumes_def NewVolumeLocks_def)
  have "fst (svc_GetInstance demo_service (?f\<lparr>si_Project := cfg_Project demo_config\<rparr>) creating_service) = Inr ?i" by code_simp
  then obtain w where g: "svc_GetInstance (sv_svc demo_server) (?f\<lparr>si_Project := cfg_Project (sv_cfg demo_server)\<rparr>)
      (world (demo_driver creating_service)) = (Inr ?i, w)"
    by (cases "svc_GetInstance demo_service (?f\<lparr>si_Project := cfg_Project demo_config\<rparr>) creating_service")
      (simp add: demo_server_def demo_driver_def)
  note e = handler_errors_are_statuses[of demo_server demo_create creating_volume "[]" undefined None,
      THEN conjunct2, THEN conjunct2, THEN conjunct2, THEN conjunct2, THEN conjunct2, rule_format, OF v(1)]
  have "si_State ?i \<noteq> ''READY''" by simp
  from e[THEN conjunct2, rule_format, OF v(2) b v(3) g this] e[THEN conjunct1] show ?thesis by simp
qed

section \<open>Addresses of a new instance\<close>

lemma fold_reserved_keys:
  "k \<in> set (keys (fold (\<lambda>n m. if P n then minsert (ReservedIpRange n) True m else m) ns m0)) \<longleftrightarrow>
     k \<in> set (keys m0) \<or> (\<exists>n \<in> set ns. P n \<and> k = ReservedIpRange n)"
  by (induction ns arbitrary: m0) auto

text \<open>C4: A new instance gets addresses of its own. The range \<open>reserveIPRange\<close> picks lies in the CIDR of the
  storage class and shares no address with the range of any instance, single or multishare, that the
  service lists in the same VPC network, nor with a range held for another pending creation.\<close>

theorem reserved_range_free:
  assumes "reserveIPRange svc filer cidr d = (Inr r, d')"
  shows "range_addrs r \<subseteq> range_addrs cidr
    \<and> (\<exists>insts w1 shared w2. svc_ListInstances svc filer (world d) = (Inr insts, w1)
        \<and> svc_ListMultishareInstances svc \<lparr>lf_Project = si_Project filer, lf_Location = ''-'', lf_InstanceName = []\<rparr> w1 = (Inr shared, w2)
        \<and> (\<forall>n \<in> set (map si_Network insts @ map mi_Network shared).
             equalFold (net_Name n) (net_Name (si_Network filer)) \<longrightarrow> range_addrs (ReservedIpRange n) \<inter> range_addrs r = {}))
    \<and> (\<forall>h \<in> held_ranges d. range_addrs h \<inter> range_addrs r = {})"
proof -
  let ?P = "\<lambda>n. equalFold (net_Name n) (net_Name (si_Network filer))"
  let ?n = "ipRangeSizeForTier (si_Tier filer)"
  obtain reserved d1 where gc: "getCloudInstancesReservedIPRanges svc filer d = (Inr reserved, d1)"
      and a: "allocate cidr ?n reserved d1 = (Inr r, d')"
    using assms by (auto simp: reserveIPRange_def bind_Inr_iff)
  then obtain insts w1 shared w2 where
    l: "svc_ListInstances svc filer (world d) = (Inr insts, w1)"
      "svc_ListMultishareInstances svc \<lparr>lf_Project = si_Project filer, lf_Location = ''-'', lf_InstanceName = []\<rparr> w1 = (Inr shared, w2)"
    and rs: "reserved = fold (\<lambda>n m. if ?P n then minsert (ReservedIpRange n) True m else m) (map mi_Network shared)
        (fold (\<lambda>n m. if ?P n then minsert (ReservedIpRange n) True m else m) (map si_Network insts) [])"
    and d1: "ipAllocator d1 = ipAllocator d"
    by (auto simp: getCloudInstancesReservedIPRanges_def Let_def bind_err_Inr_iff on_world_Inr)
  obtain al where g: "GetUnreservedIPRange cidr ?n reserved (ipAllocator d) = Some (Inr r, al)"
    using allocate_cases[OF ipRangeSizeForTier_bounds a] d1 by auto
  obtain a0 base m x where x: "parseCIDR cidr ?n = Inr (a0, (base, m))" "r = show_range x ?n" "net_contains (base, m) x"
    "\<forall>s \<in> reserved_keys reserved (ipAllocator d). range_addrs s \<inter> addrs (x, ?n) = {}"
    using GetUnreservedIPRange_Inr[OF ipRangeSizeForTier_bounds g] by metis
  have r: "range_addrs r = addrs (x, ?n)"
    using x(2) ipRangeSizeForTier_bounds(2) by simp
  have "range_addrs cidr = addrs (base, m)" "m \<le> ?n"
    using x(1) by (simp_all add: parseCIDR_Inr range_addrs_def)
  then have sub: "range_addrs r \<subseteq> range_addrs cidr"
    using addrs_mono[OF _ ipRangeSizeForTier_bounds(2) x(3)] r by simp
  have "\<forall>n \<in> set (map si_Network insts @ map mi_Network shared). ?P n \<longrightarrow> ReservedIpRange n \<in> set (keys reserved)"
    by (auto simp: rs fold_reserved_keys)
  then have cloud: "\<forall>n \<in> set (map si_Network insts @ map mi_Network shared). ?P n \<longrightarrow> range_addrs (ReservedIpRange n) \<inter> range_addrs r = {}"
    using x(4) r by (auto simp: reserved_keys_def)
  have "\<forall>h \<in> held_ranges d. range_addrs h \<inter> range_addrs r = {}"
    using x(4) r by (auto simp: reserved_keys_def held_ranges_def dest: mlookup_Some_keys)
  with sub cloud l show ?thesis by blast
qed

theorem reserved_range_free_witness:
  "\<exists>r d'. reserveIPRange demo_service empty_service_instance ''10.0.0.0/28''
       (demo_driver (NewFakeServiceForMultishare [empty_instance\<lparr>mi_Network :=
          empty_network\<lparr>ReservedIpRange := ''10.0.0.0/29''\<rparr>\<rparr>] [] [])) = (Inr r, d')
     \<and> range_addrs r \<subseteq> range_addrs ''10.0.0.0/28''"
proof -
  let ?i = "empty_instance\<lparr>mi_Network := empty_network\<lparr>ReservedIpRange := ''10.0.0.0/29''\<rparr>\<rparr>"
  let ?d = "demo_driver (NewFakeServiceForMultishare [?i] [] [])"
  have g: "getCloudInstancesReservedIPRanges demo_service empty_service_instance ?d = (Inr [(''10.0.0.0/29'', True)], ?d)"
    by code_simp
  have "ipAllocator ?d = \<lparr>pendingIPRanges = []\<rparr>" "ipRangeSizeForTier (si_Tier empty_service_instance) = 29"
    by (simp_all add: demo_driver_def NewIPAllocator_def ipRangeSizeForTier_def empty_service_instance_def IpRangeSize_def)
  then have "\<exists>r d'. reserveIPRange demo_service empty_service_instance ''10.0.0.0/28'' ?d = (Inr r, d')"
    using reserve_example by (simp add: reserveIPRange_def bind_def g allocate_def)
  then show ?thesis using reserved_range_free[of demo_service empty_service_instance "''10.0.0.0/28''" ?d] by blast
qed

section \<open>Creation is idempotent\<close>

text \<open>The tag service accepts every tag and changes nothing.\<close>

definition tags_accept :: "'w TagService \<Rightarrow> bool" where
  "tags_accept tags = ((\<forall>r t w. tag_ValidateResourceTags tags r t w = (Inr (), w))
     \<and> (\<forall>k n l q m w. tag_AttachResourceTags tags k n l q m w = (Inr (), w)))"

definition volume_of :: "config \<Rightarrow> CreateVolumeRequest \<Rightarrow> ServiceInstance \<Rightarrow> CsiVolume" where
  "volume_of cfg req i = mount_options (cr_Parameters req) (fileInstanceToCSIVolume cfg i modeInstance)"

lemma finish_accept: "tags_accept tags \<Longrightarrow> finish_create_volume cfg tags req i d = (Inr (volume_of cfg req i), d)"
  by (simp add: finish_create_volume_def tags_accept_def bind_err_def on_world_def volume_of_def)

lemma validate_accept: "tags_accept tags \<Longrightarrow> validate_tags tags p d = (Inr (), d)"
  by (simp add: validate_tags_def tags_accept_def bind_err_def on_world_def split: option.split)

lemma source_fake:
  assumes "content_source_of (fake_service u si sb) req nf d = (Inr nf', d1)"
  shows "d1 = d \<and> (\<exists>b. nf' = nf\<lparr>si_BackupSource := b\<rparr>)
    \<and> (\<forall>d2. backups (world d2) = backups (world d) \<longrightarrow> content_source_of (fake_service u si sb) req nf d2 = (Inr nf', d2))"
proof -
  have same: "\<exists>b. i = i\<lparr>si_BackupSource := b\<rparr>" for i :: ServiceInstance
    by (rule exI[of _ "si_BackupSource i"]) simp
  show ?thesis
  proof (cases "cr_VolumeContentSource req")
    case None
    then show ?thesis using assms same by (auto simp: content_source_of_def)
  next
    case (Some src)
    then show ?thesis
    proof (cases src)
      case (SnapshotSource b)
      then have "IsBackupHandle b = Inr True"
        using assms Some by (auto simp: content_source_of_def backup_source_def bind_def split: sum.splits bool.splits)
      then show ?thesis
        using assms Some SnapshotSource
        by (auto simp: content_source_of_def backup_source_def bind_Inr_iff bind_err_Inr_iff on_world_Inr
            fake_service_def fake_GetBackup_def split: option.splits)
    next
      case NoSource
      then show ?thesis using assms Some same by (auto simp: content_source_of_def)
    qed (use assms Some in \<open>auto simp: content_source_of_def\<close>)
  qed
qed

lemma lookup_fake:
  "lookup_instance (fake_service u si sb) nf d = (Inr (mlookup (createdInstances (world d)) (si_Name nf)), d)"
  by (auto simp: lookup_instance_def attempt_def on_world_def fake_service_def fake_GetInstance_def split: option.split)

lemma create_new_fake:
  assumes "create_new cfg (fake_service u si sb) p (finish_create_volume cfg tags req) nf d = (Inr vol, d')" "tags_accept tags"
  shows "\<exists>lb nw. fake_CreateInstance (nf\<lparr>si_Labels := lb, si_Network := (si_Network nf)\<lparr>ReservedIpRange := nw\<rparr>\<rparr>) (world d)
      = (Inr (fake_instance (nf\<lparr>si_Labels := lb, si_Network := (si_Network nf)\<lparr>ReservedIpRange := nw\<rparr>\<rparr>)), world d')
    \<and> vol = volume_of cfg req (fake_instance (nf\<lparr>si_Labels := lb, si_Network := (si_Network nf)\<lparr>ReservedIpRange := nw\<rparr>\<rparr>))"
proof -
  let ?svc = "fake_service u si sb" and ?fin = "finish_create_volume cfg tags req"
  have and_: "\<exists>lb. fake_CreateInstance (i\<lparr>si_Labels := lb\<rparr>) (world d0) = (Inr (fake_instance (i\<lparr>si_Labels := lb\<rparr>)), world d1)
      \<and> vol = volume_of cfg req (fake_instance (i\<lparr>si_Labels := lb\<rparr>))"
    if "create_and cfg ?svc p ?fin i d0 = (Inr vol, d1)" for i d0 d1
    using that finish_accept[OF assms(2)]
    by (auto simp: create_and_def bind_err_Inr_iff lift_Inr on_world_Inr fake_service_def fake_CreateInstance_def)
  have upd: "(set_reserved_range r nf)\<lparr>si_Labels := lb\<rparr> = nf\<lparr>si_Labels := lb, si_Network := (si_Network nf)\<lparr>ReservedIpRange := r\<rparr>\<rparr>"
    "nf\<lparr>si_Labels := lb\<rparr> = nf\<lparr>si_Labels := lb, si_Network := (si_Network nf)\<lparr>ReservedIpRange := ReservedIpRange (si_Network nf)\<rparr>\<rparr>"
    for r lb by (simp_all add: set_reserved_range_def)
  have listing: "keeps world (reserveIPRange ?svc i cidr)" for i cidr
    by (auto simp: keeps_def reserveIPRange_def getCloudInstancesReservedIPRanges_def Let_def bind_def bind_err_def
        on_world_def allocate_def fake_service_def fake_ListInstances_def fake_ListMultishareInstances_def
        split: prod.splits sum.splits option.splits)
  consider r d0 where "create_and cfg ?svc p ?fin (set_reserved_range r nf) d0 = (Inr vol, d')" "d0 = d"
    | "create_and cfg ?svc p ?fin nf d = (Inr vol, d')"
    | r d0 d1 where "create_and cfg ?svc p ?fin (set_reserved_range r nf) d0 = (Inr vol, d1)" "world d0 = world d" "world d' = world d1"
  proof -
    have rel: "world (release_ip r d1) = world d1" for r and d1 :: "fakeServiceManager driver" by (simp add: release_ip_def)
    show ?thesis
      using assms(1) that keepsD[OF listing]
      by (auto simp: create_new_def with_reserved_def rel split: if_splits option.splits prod.splits sum.splits)
  qed
  then show ?thesis by cases (metis and_ upd)+
qed

lemma scan_fi_params_kms:
  "scan_fi_params ext cfg ps fp = Inr fp' \<Longrightarrow> \<forall>k v. (k, v) \<in> set ps \<longrightarrow> toLower k \<noteq> ParamInstanceEncryptionKmsKey \<Longrightarrow>
     fp_kmsKeyName fp' = fp_kmsKeyName fp"
proof (induction ps arbitrary: fp)
  case (Cons kv ps)
  obtain k v where kv: "kv = (k, v)" by force
  have t: "set_tier v fp = Inr fp1 \<Longrightarrow> fp_kmsKeyName fp1 = fp_kmsKeyName fp" for fp1
    by (auto simp: set_tier_def split: if_splits sum.splits)
  have n: "set_nfs ext cfg v fp = Inr fp1 \<Longrightarrow> fp_kmsKeyName fp1 = fp_kmsKeyName fp" for fp1
    by (auto simp: set_nfs_def split: if_splits sum.splits)
  have k: "toLower k \<noteq> ParamInstanceEncryptionKmsKey" "\<forall>k v. (k, v) \<in> set ps \<longrightarrow> toLower k \<noteq> ParamInstanceEncryptionKmsKey"
    using Cons.prems(2) by (auto simp: kv)
  note IH = Cons.IH[OF _ k(2)]
  show ?case
    using Cons.prems(1) k(1) t n by (auto simp: kv Let_def rbind_Inr split: if_splits dest: IH)
qed simp

text \<open>What a successful creation leaves behind\<close>

lemma created_state:
  assumes "single_CreateVolume sv req d = (Inr vol, d')" "sv_svc sv = fake_service u si sb" "tags_accept (sv_tags sv)"
  shows "\<exists>capBytes nf nf' i. getRequestCapacity (ext_tib (sv_ext sv)) (cr_CapacityRange req) (getTierFromParams (cr_Parameters req)) = Inr capBytes
    \<and> generateNewFileInstance (sv_ext sv) (sv_cfg sv) (cr_Name req) capBytes (cr_Parameters req) (cr_MutableParameters req)
        (cr_AccessibilityRequirements req) = Inr nf
    \<and> (\<forall>d2. backups (world d2) = backups (world d) \<longrightarrow> content_source_of (sv_svc sv) req nf d2 = (Inr nf', d2))
    \<and> backups (world d') = backups (world d)
    \<and> mlookup (createdInstances (world d')) (si_Name nf') = Some i
    \<and> (si_KmsKeyName nf = [] \<longrightarrow> CompareInstances nf' i = None \<and> si_State i = ''READY'')
    \<and> vol = volume_of (sv_cfg sv) req i"
proof -
  obtain capBytes nf where c: "getRequestCapacity (ext_tib (sv_ext sv)) (cr_CapacityRange req) (getTierFromParams (cr_Parameters req)) = Inr capBytes"
    "generateNewFileInstance (sv_ext sv) (sv_cfg sv) (cr_Name req) capBytes (cr_Parameters req) (cr_MutableParameters req)
        (cr_AccessibilityRequirements req) = Inr nf"
    and l: "with_lock (getVolumeIDFromFileInstance nf modeInstance) (create_locked (sv_cfg sv) (sv_svc sv) (sv_tags sv) req nf) d = (Inr vol, d')"
    using assms(1) by (auto simp: single_CreateVolume_def bind_err_Inr_iff lift_Inr split: if_splits option.splits)
  obtain d0 d1 where b: "create_locked (sv_cfg sv) (sv_svc sv) (sv_tags sv) req nf d0 = (Inr vol, d1)" "world d0 = world d" "world d' = world d1"
    using with_lock_Inr[OF l] by auto
  then obtain nf' d2 where src: "content_source_of (sv_svc sv) req nf d0 = (Inr nf', d2)"
    by (auto simp: create_locked_def bind_Inr_iff)
  note s = source_fake[OF src[unfolded assms(2)], folded assms(2)]
  have rest: "(case mlookup (createdInstances (world d)) (si_Name nf') of
      Some filer \<Rightarrow> bind (lift (use_existing (cr_Name req) nf' filer)) (finish_create_volume (sv_cfg sv) (sv_tags sv) req)
    | None \<Rightarrow> create_new (sv_cfg sv) (fake_service u si sb) (cr_Parameters req) (finish_create_volume (sv_cfg sv) (sv_tags sv) req) nf') d0 = (Inr vol, d1)"
    using b(1) src s lookup_fake[of u si sb nf' d0] validate_accept[OF assms(3)] b(2)
    by (simp add: create_locked_def bind_def assms(2))
  show ?thesis
  proof (cases "mlookup (createdInstances (world d)) (si_Name nf')")
    case (Some filer)
    then have "use_existing (cr_Name req) nf' filer = Inr filer \<and> d1 = d0 \<and> vol = volume_of (sv_cfg sv) req filer"
      using rest finish_accept[OF assms(3)]
      by (auto simp: bind_Inr_iff lift_Inr use_existing_def Let_def split: option.splits if_splits)
    then show ?thesis
      using c s b(2,3) Some by (intro exI[of _ capBytes] exI[of _ nf] exI[of _ nf'] exI[of _ filer])
        (auto simp: use_existing_def Let_def split: option.splits if_splits)
  next
    case None
    then have "create_new (sv_cfg sv) (fake_service u si sb) (cr_Parameters req)
        (finish_create_volume (sv_cfg sv) (sv_tags sv) req) nf' d0 = (Inr vol, d1)"
      using rest by simp
    then obtain obj where o': "fake_CreateInstance obj (world d) = (Inr (fake_instance obj), world d')"
      "vol = volume_of (sv_cfg sv) req (fake_instance obj)" "si_Name obj = si_Name nf'" "si_KmsKeyName obj = si_KmsKeyName nf'"
      "si_Tier obj = si_Tier nf'" "si_Volume obj = si_Volume nf'" "net_Name (si_Network obj) = net_Name (si_Network nf')"
      using create_new_fake[OF _ assms(3)] b(2,3) by fastforce
    have "mlookup (createdInstances (world d')) (si_Name nf') = Some (fake_instance obj) \<and> backups (world d') = backups (world d)
        \<and> si_State (fake_instance obj) = ''READY''"
      using o'(1,3) fake_instances.create_stores[OF o'(1)] by (auto simp: fake_CreateInstance_def dest!: sym[of _ "world d'"])
    moreover have "si_KmsKeyName nf' = [] \<Longrightarrow> CompareInstances nf' (fake_instance obj) = None"
      using fake_instances.create_matches[OF o'(1)] o'(4-7) by (simp add: CompareInstances_None)
    ultimately show ?thesis
      using c s b(2) o'(2) by (intro exI[of _ capBytes] exI[of _ nf] exI[of _ nf'] exI[of _ "fake_instance obj"]) auto
  qed
qed

lemma single_create_idempotent:
  assumes "single_CreateVolume sv req d = (Inr vol, d')"
    and "sv_svc sv = fake_service u si sb" "tags_accept (sv_tags sv)"
    and "\<forall>k v. (k, v) \<in> set (cr_Parameters req) \<longrightarrow> toLower k \<noteq> ParamInstanceEncryptionKmsKey"
  shows "fst (single_CreateVolume sv req d') = Inr vol \<and> world (snd (single_CreateVolume sv req d')) = world d'
    \<and> busy_volumes (snd (single_CreateVolume sv req d')) = busy_volumes d
    \<and> held_ranges (snd (single_CreateVolume sv req d')) = held_ranges d"
proof -
  obtain capBytes nf nf' i where c: "getRequestCapacity (ext_tib (sv_ext sv)) (cr_CapacityRange req) (getTierFromParams (cr_Parameters req)) = Inr capBytes"
    "generateNewFileInstance (sv_ext sv) (sv_cfg sv) (cr_Name req) capBytes (cr_Parameters req) (cr_MutableParameters req)
        (cr_AccessibilityRequirements req) = Inr nf"
    and src: "\<And>d2. backups (world d2) = backups (world d) \<Longrightarrow> content_source_of (sv_svc sv) req nf d2 = (Inr nf', d2)"
    and w: "backups (world d') = backups (world d)" "mlookup (createdInstances (world d')) (si_Name nf') = Some i"
      "si_KmsKeyName nf = [] \<longrightarrow> CompareInstances nf' i = None \<and> si_State i = ''READY''" "vol = volume_of (sv_cfg sv) req i"
    using created_state[OF assms(1-3)] by blast
  have kms: "si_KmsKeyName nf = []"
    using c(2) by (auto simp: generateNewFileInstance_def rbind_Inr dest!: scan_fi_params_kms[OF _ assms(4)])
  let ?v = "getVolumeIDFromFileInstance nf modeInstance"
  let ?body = "create_locked (sv_cfg sv) (sv_svc sv) (sv_tags sv) req nf"
  have run: "single_CreateVolume sv req d2 = with_lock ?v ?body d2" for d2
    using assms(1) c by (auto simp: single_CreateVolume_def bind_err_def split: if_splits option.splits)
  have "?v \<notin> busy_volumes d" using with_lock_Inr[OF assms(1)[unfolded run]] by blast
  moreover have same: "busy_volumes d' = busy_volumes d" "held_ranges d' = held_ranges d"
    using keepsD[OF keeps_single_create(1) assms(1)] keepsD[OF keeps_single_create(2) assms(1)] by simp_all
  moreover have "?body d2 = (Inr vol, d2)" if "world d2 = world d'" for d2
    using that src[of d2] w kms lookup_fake[of u si sb nf' d2] validate_accept[OF assms(3)] finish_accept[OF assms(3)]
    by (simp add: create_locked_def bind_def assms(2) use_existing_def Let_def)
  ultimately have "single_CreateVolume sv req d' = (Inr vol, snd (single_CreateVolume sv req d'))"
      "world (snd (single_CreateVolume sv req d')) = world d'"
    by (auto simp: run with_lock_def TryAcquire_def busy_volumes_def)
  then show ?thesis
    using same keepsD[OF keeps_single_create(1)] keepsD[OF keeps_single_create(2)] by (metis fst_conv)
qed

text \<open>C1: The creation of a volume on an instance of its own is idempotent, on the in-memory service and with a tag
  service that accepts every tag and changes nothing. There, a request that is not for a multishare volume and names no
  encryption key and that has succeeded succeeds again with the same volume, however the first call came
  by its instance (created or found, with or without a reserved range or a backup), and the second call
  changes nothing in the service and leaves no lock or range behind. Multishare creations are not covered.\<close>

theorem create_volume_idempotent:
  assumes created: "CreateVolume sv req d = (Inr vol, d')"
    and "sv_svc sv = fake_service u si sb" "tags_accept (sv_tags sv)"
    and "\<forall>k v. (k, v) \<in> set (cr_Parameters req) \<longrightarrow> toLower k \<noteq> ParamInstanceEncryptionKmsKey"
    and single: "toLower (mget (cr_Parameters req) ''multishare'') \<noteq> ''true''"
  shows "fst (CreateVolume sv req d') = Inr vol \<and> world (snd (CreateVolume sv req d')) = world d'
    \<and> busy_volumes (snd (CreateVolume sv req d')) = busy_volumes d
    \<and> held_ranges (snd (CreateVolume sv req d')) = held_ranges d"
proof -
  have "CreateVolume sv req = single_CreateVolume sv req" using single by (simp add: CreateVolume_def)
  then show ?thesis using single_create_idempotent[OF _ assms(2-4)] created by simp
qed

theorem create_volume_idempotent_witness:
  "\<exists>vol d'. CreateVolume demo_server demo_create (demo_driver NewFakeService) = (Inr vol, d')
     \<and> fst (CreateVolume demo_server demo_create d') = Inr vol"
proof -
  let ?x = "CreateVolume demo_server demo_create (demo_driver NewFakeService)"
  have c: "case fst ?x of Inl e \<Rightarrow> False | Inr r \<Rightarrow> True" by code_simp
  then obtain vol d' where x: "?x = (Inr vol, d')" by (cases "?x") (auto split: sum.splits)
  have "tags_accept (sv_tags demo_server)" by (simp add: tags_accept_def demo_server_def demo_tags_def)
  moreover have "sv_svc demo_server = fake_service (\<lambda>n. ''x'') (\<lambda>b. []) (\<lambda>b. [])" by (simp add: demo_server_def demo_service_def)
  moreover have "toLower (mget (cr_Parameters demo_create) ''multishare'') \<noteq> ''true''" by code_simp
  moreover have "cr_Parameters demo_create = []" by (simp add: demo_create_def)
  ultimately have "fst (CreateVolume demo_server demo_create d') = Inr vol"
    using create_volume_idempotent[OF x] by simp
  then show ?thesis using x by blast
qed

end
