(* ===== verification/File_Service.thy ===== *)
theory File_Service
  imports File_Types
begin

text \<open>
  \<open>gcfsServiceManager\<close> of \<open>pkg/cloud_provider/file/file.go\<close>: the driver's client of the Filestore
  API. The REST client is a parameter, a record of calls that read and change a state \<open>'w\<close> of the
  service; the two API versions the source imports differ in their Go types only and share the
  record. An operation is polled every five seconds for five minutes, at most 60 times. A listing
  follows page tokens until the service returns an empty one, which it may never do: a listing is
  a partial function, None when the pages never end.
\<close>

section \<open>The Filestore API\<close>

record 'w FilestoreApi =
  insCreate :: "string \<Rightarrow> string \<Rightarrow> CloudInstance \<Rightarrow> ('w, Operation) eff"
  insGet :: "string \<Rightarrow> ('w, CloudInstance option) eff"
  insDelete :: "string \<Rightarrow> ('w, Operation) eff"
  insPatch :: "string \<Rightarrow> string \<Rightarrow> CloudInstance \<Rightarrow> ('w, Operation) eff"
  insList :: "string \<Rightarrow> string \<Rightarrow> ('w, CloudInstance list \<times> string) eff"
  opsGet :: "string \<Rightarrow> ('w, Operation option) eff"
  opsList :: "string \<Rightarrow> string \<Rightarrow> ('w, Operation list \<times> string) eff"
  bkGet :: "string \<Rightarrow> ('w, CloudBackup) eff"
  bkCreate :: "string \<Rightarrow> string \<Rightarrow> CloudBackup \<Rightarrow> ('w, Operation) eff"
  bkDelete :: "string \<Rightarrow> ('w, Operation) eff"
  shCreate :: "string \<Rightarrow> string \<Rightarrow> CloudShare \<Rightarrow> ('w, Operation) eff"
  shGet :: "string \<Rightarrow> ('w, CloudShare) eff"
  shDelete :: "string \<Rightarrow> ('w, Operation) eff"
  shPatch :: "string \<Rightarrow> string \<Rightarrow> CloudShare \<Rightarrow> ('w, Operation) eff"
  shList :: "string \<Rightarrow> string \<Rightarrow> ('w, CloudShare list \<times> string) eff"

definition empty_cloud_instance :: CloudInstance where
  "empty_cloud_instance = \<lparr>ci_Name = [], ci_Tier = [], ci_FileShares = [], ci_Networks = [],
     ci_KmsKeyName = [], ci_Labels = [], ci_State = [], ci_Protocol = [],
     ci_PerformanceConfig = None, ci_MultiShareEnabled = False, ci_CapacityGb = 0,
     ci_MaxCapacityGb = 0, ci_CapacityStepSizeGb = 0, ci_Description = [], ci_MaxShareCount = 0\<rparr>"

definition empty_cloud_share :: CloudShare where
  "empty_cloud_share = \<lparr>cs_Name = [], cs_CapacityGb = 0, cs_Labels = [], cs_MountName = [],
     cs_State = [], cs_Backup = [], cs_NfsExportOptions = []\<rparr>"

definition empty_cloud_backup :: CloudBackup where
  "empty_cloud_backup = \<lparr>cb_Name = [], cb_State = [], cb_CreateTime = [], cb_CapacityGb = 0,
     cb_SourceInstance = [], cb_SourceFileShare = [], cb_SourceInstanceTier = [],
     cb_FileSystemProtocol = [], cb_Labels = []\<rparr>"

section \<open>Operations\<close>

definition op_failed :: "Operation \<Rightarrow> int \<times> string \<Rightarrow> go_error" where
  "op_failed op err = ErrText (''operation '' @ op_Name op @ '' failed ('' @ show_int (fst err) @ ''): '' @ snd err)"

text \<open>Both return a pair: done, and an error or nil.\<close>

definition isOpDone :: "Operation option \<Rightarrow> bool \<times> go_error option" where
  "isOpDone opo = (case opo of None \<Rightarrow> (False, None)
     | Some op \<Rightarrow> (case op_Error op of
         Some err \<Rightarrow> (True, Some (op_failed op err))
       | None \<Rightarrow> (op_Done op, None)))"

definition IsOpDone :: "Operation option \<Rightarrow> bool \<times> go_error option" where
  "IsOpDone opo = (case opo of None \<Rightarrow> (True, None)
     | Some op \<Rightarrow> (case op_Error op of
         Some err \<Rightarrow> (True, Some (op_failed op err))
       | None \<Rightarrow> (op_Done op, None)))"

text \<open>\<open>wait.Poll\<close>: the condition is evaluated at every tick until it is done or fails, and the
  timeout is an error. The first argument counts the ticks left.\<close>

fun wait_poll :: "nat \<Rightarrow> ('w, bool \<times> go_error option) eff \<Rightarrow> ('w, unit) eff" where
  "wait_poll 0 cond w = (Inl (ErrText ''timed out waiting for the condition''), w)"
| "wait_poll (Suc n) cond w = (case cond w of
       (Inl e, w') \<Rightarrow> (Inl e, w')
     | (Inr (done, Some e), w') \<Rightarrow> (Inl e, w')
     | (Inr (True, None), w') \<Rightarrow> (Inr (), w')
     | (Inr (False, None), w') \<Rightarrow> wait_poll n cond w')"

definition waitForOp :: "'w FilestoreApi \<Rightarrow> Operation \<Rightarrow> ('w, unit) eff" where
  "waitForOp api op = wait_poll (300 div 5)
     (bind (opsGet api (op_Name op)) (\<lambda>pollOp. ret (isOpDone pollOp)))"

definition WaitForOpWithOpts :: "'w FilestoreApi \<Rightarrow> string \<Rightarrow> nat \<Rightarrow> nat \<Rightarrow> ('w, unit) eff" where
  "WaitForOpWithOpts api op interval timeout = wait_poll (timeout div interval)
     (bind (opsGet api op) (\<lambda>pollOp. ret (IsOpDone pollOp)))"

definition GetOp :: "'w FilestoreApi \<Rightarrow> string \<Rightarrow> ('w, Operation option) eff" where
  "GetOp api op = opsGet api op"

section \<open>Listings\<close>

text \<open>The loop over the pages: \<open>conv\<close> turns the objects of a page into results and \<open>h\<close> rewrites the
  error of a call with the token it was made with.\<close>

partial_function (option) list_pages ::
  "(string \<Rightarrow> ('w, 'a list \<times> string) eff) \<Rightarrow> (string \<Rightarrow> go_error \<Rightarrow> go_error) \<Rightarrow> ('a list \<Rightarrow> go_error + 'b list)
     \<Rightarrow> string \<Rightarrow> 'b list \<Rightarrow> 'w \<Rightarrow> ((go_error + 'b list) \<times> 'w) option" where
  "list_pages fetch h conv token acc w =
     (case fetch token w of
        (Inl e, w') \<Rightarrow> Some (Inl (h token e), w')
      | (Inr (items, nextToken), w') \<Rightarrow>
          (case conv items of
             Inl e \<Rightarrow> Some (Inl e, w')
           | Inr rs \<Rightarrow>
               if nextToken = [] then Some (Inr (acc @ rs), w')
               else list_pages fetch h conv nextToken (acc @ rs) w'))"

fun map_results :: "('a \<Rightarrow> go_error + 'b) \<Rightarrow> 'a list \<Rightarrow> go_error + 'b list" where
  "map_results f [] = Inr []"
| "map_results f (x # xs) = rbind (f x) (\<lambda>y. rbind (map_results f xs) (\<lambda>ys. Inr (y # ys)))"

definition ListInstances ::
  "'w FilestoreApi \<Rightarrow> ServiceInstance \<Rightarrow> 'w \<Rightarrow> ((go_error + ServiceInstance list) \<times> 'w) option" where
  "ListInstances api obj w =
     list_pages (insList api (locationURI (si_Project obj) ''-'')) (\<lambda>t e. e)
       (\<lambda>page. map_results cloudInstanceToServiceInstance (filter (\<lambda>i. ci_FileShares i \<noteq> []) page)) [] [] w"

definition ListMultishareInstances ::
  "'w FilestoreApi \<Rightarrow> ListFilter \<Rightarrow> 'w \<Rightarrow> ((go_error + MultishareInstance list) \<times> 'w) option" where
  "ListMultishareInstances api flt w =
     list_pages (insList api (locationURI (lf_Project flt) (lf_Location flt))) (\<lambda>t e. e)
       (\<lambda>page. map_results (\<lambda>i. cloudInstanceToMultishareInstance (Some i)) (filter ci_MultiShareEnabled page)) [] [] w"

definition cloudShareToShare :: "CloudShare \<Rightarrow> go_error + Share" where
  "cloudShareToShare sobj =
     rbind (ParseShareURI (cs_Name sobj)) (\<lambda>(project, location, instanceName, shareName).
       Inr (empty_share\<lparr>sh_Name := shareName,
         sh_Parent := Some (empty_instance\<lparr>mi_Name := instanceName, mi_Project := project, mi_Location := location\<rparr>),
         sh_MountPointName := cs_MountName sobj, sh_CapacityBytes := i64 (cs_CapacityGb sobj * Gb),
         sh_Labels := cs_Labels sobj, sh_State := cs_State sobj\<rparr>))"

definition ListShares ::
  "'w FilestoreApi \<Rightarrow> ListFilter \<Rightarrow> 'w \<Rightarrow> ((go_error + Share list) \<times> 'w) option" where
  "ListShares api flt w =
     list_pages (shList api (instanceURI (lf_Project flt) (lf_Location flt) (lf_InstanceName flt))) (\<lambda>t e. e)
       (map_results cloudShareToShare) [] [] w"

definition ListOps ::
  "'w FilestoreApi \<Rightarrow> ListFilter \<Rightarrow> 'w \<Rightarrow> ((go_error + Operation list) \<times> 'w) option" where
  "ListOps api flt w =
     list_pages (opsList api (locationURI (lf_Project flt) (lf_Location flt))) (\<lambda>t e. e) Inr [] [] w"

fun ApplyFilter :: "Operation list \<Rightarrow> string \<Rightarrow> string \<Rightarrow> bool \<Rightarrow> go_error + Operation list" where
  "ApplyFilter [] uri opType done = Inr []"
| "ApplyFilter (op # ops) uri opType done =
     (case op_Meta op of
        None \<Rightarrow> ApplyFilter ops uri opType done
      | Some (Inl e) \<Rightarrow> Inl e
      | Some (Inr (target, verb)) \<Rightarrow>
          rbind (ApplyFilter ops uri opType done) (\<lambda>res.
            if target = uri \<and> verb = opType \<and> op_Done op = done then Inr (op # res) else Inr res))"

definition HasOperations ::
  "'w FilestoreApi \<Rightarrow> ServiceInstance \<Rightarrow> string \<Rightarrow> bool \<Rightarrow> 'w \<Rightarrow> ((go_error + bool) \<times> 'w) option" where
  "HasOperations api obj operationType done w =
     (let uri = instanceURI (si_Project obj) (si_Location obj) (si_Name obj) in
      map_option (\<lambda>(r, w'). (rbind r (\<lambda>ops. Inr (length ops > 0)), w'))
        (list_pages (opsList api (locationURI (si_Project obj) (si_Location obj)))
          (\<lambda>t e. ErrWrap (''list operations for instance '' @ quote uri @ '', token '' @ quote t @ '' failed: '') e [])
          (\<lambda>page. ApplyFilter page uri operationType done) [] [] w))"

section \<open>Single-share instances\<close>

definition network_config :: "Network \<Rightarrow> NetworkConfig" where
  "network_config n = \<lparr>nc_Network = net_Name n, nc_Modes = [''MODE_IPV4''],
     nc_ReservedIpRange = ReservedIpRange n, nc_ConnectMode = ConnectMode n, nc_IpAddresses = []\<rparr>"

definition cloud_performance :: "PerformanceConfig \<Rightarrow> CloudPerformance" where
  "cloud_performance p =
     \<lparr>cp_FixedIops = (if FixedIOPS p > 0 then Some (FixedIOPS p) else None),
      cp_IopsPerTb = (if IOPSPerTB p > 0 then Some (IOPSPerTB p) else None)\<rparr>"

text \<open>The API object a create call sends\<close>

definition create_request :: "ServiceInstance \<Rightarrow> CloudInstance" where
  "create_request obj = empty_cloud_instance\<lparr>
     ci_Tier := si_Tier obj,
     ci_FileShares := [\<lparr>fs_Name = vol_Name (si_Volume obj),
        fs_CapacityGb = RoundBytesToGb (SizeBytes (si_Volume obj)),
        fs_SourceBackup = si_BackupSource obj,
        fs_NfsExportOptions = extractNfsShareExportOptions (si_NfsExportOptions obj)\<rparr>],
     ci_Networks := [network_config (si_Network obj)],
     ci_KmsKeyName := si_KmsKeyName obj, ci_Labels := si_Labels obj, ci_State := si_State obj,
     ci_Protocol := si_Protocol obj,
     ci_PerformanceConfig := map_option cloud_performance (si_PerformanceConfig obj)\<rparr>"

definition GetInstance :: "'w FilestoreApi \<Rightarrow> ServiceInstance \<Rightarrow> ('w, ServiceInstance) eff" where
  "GetInstance api obj =
     (let uri = instanceURI (si_Project obj) (si_Location obj) (si_Name obj) in
      attempt (insGet api uri) (\<lambda>r. case r of
        Inl e \<Rightarrow> if IsNotFoundErr e then fail e else fail (TemporaryErr Unavailable e)
      | Inr (Some inst) \<Rightarrow> lift (cloudInstanceToServiceInstance inst)
      | Inr None \<Rightarrow> fail (TemporaryErr Unavailable (ErrText (''failed to get instance '' @ uri)))))"

definition CreateInstance :: "'w FilestoreApi \<Rightarrow> ServiceInstance \<Rightarrow> ('w, ServiceInstance) eff" where
  "CreateInstance api obj =
     (if (case si_PerformanceConfig obj of None \<Rightarrow> False | Some p \<Rightarrow> FixedIOPS p > 0 \<and> IOPSPerTB p > 0)
      then fail (ErrText ''performance config must have only one of FixedIOPS or IOPSPerTB set'')
      else bind (insCreate api (locationURI (si_Project obj) (si_Location obj)) (si_Name obj) (create_request obj))
        (\<lambda>op. bind_err (\<lambda>e. TemporaryErr Unavailable (ErrWrap ''unknown error when polling the operation: '' e []))
          (waitForOp api op) (\<lambda>_. GetInstance api obj)))"

definition DeleteInstance :: "'w FilestoreApi \<Rightarrow> ServiceInstance \<Rightarrow> ('w, unit) eff" where
  "DeleteInstance api obj =
     (let uri = instanceURI (si_Project obj) (si_Location obj) (si_Name obj) in
      bind_err (\<lambda>e. ErrWrap ''DeleteInstance operation failed: '' e []) (insDelete api uri) (\<lambda>op.
      bind_err (\<lambda>e. ErrWrap (''WaitFor DeleteInstance op '' @ op_Name op @ '' failed: '') e []) (waitForOp api op) (\<lambda>_.
      attempt (GetInstance api obj) (\<lambda>r. case r of
        Inl e \<Rightarrow> if \<not> IsNotFoundErr e then fail (rewrite_err (\<lambda>e. ErrWrap ''failed to get instance after deletion: '' e []) e)
                 else ret ()
      | Inr inst \<Rightarrow> fail (ErrText (''instance '' @ uri @ '' still exists after delete operation in state '' @ si_State inst))))))"

definition resize_request :: "ServiceInstance \<Rightarrow> CloudInstance" where
  "resize_request obj = empty_cloud_instance\<lparr>
     ci_Tier := si_Tier obj,
     ci_FileShares := [\<lparr>fs_Name = vol_Name (si_Volume obj),
        fs_CapacityGb = BytesToGb (SizeBytes (si_Volume obj)), fs_SourceBackup = [], fs_NfsExportOptions = []\<rparr>],
     ci_Networks := [network_config (si_Network obj)],
     ci_KmsKeyName := si_KmsKeyName obj\<rparr>"

definition ResizeInstance :: "'w FilestoreApi \<Rightarrow> ServiceInstance \<Rightarrow> ('w, ServiceInstance) eff" where
  "ResizeInstance api obj =
     bind_err (\<lambda>e. ErrWrap ''patch operation failed: '' e [])
       (insPatch api (instanceURI (si_Project obj) (si_Location obj) (si_Name obj)) ''file_shares'' (resize_request obj)) (\<lambda>op.
     bind_err (\<lambda>e. ErrWrap (''WaitFor patch op '' @ op_Name op @ '' failed: '') e []) (waitForOp api op) (\<lambda>_.
     bind_err (\<lambda>e. ErrWrap ''failed to get instance after creation: '' e []) (GetInstance api obj) ret))"

definition UpdateInstancePerformance ::
  "'w FilestoreApi \<Rightarrow> ServiceInstance \<Rightarrow> PerformanceConfig option \<Rightarrow> ('w, unit) eff" where
  "UpdateInstancePerformance api obj po = (case po of
       None \<Rightarrow> fail (ErrText ''performance config cannot be nil'')
     | Some p \<Rightarrow>
         if FixedIOPS p \<le> 0 \<and> IOPSPerTB p \<le> 0
         then fail (ErrText ''performance config must have either FixedIOPS or IOPSPerTB set'')
         else if FixedIOPS p > 0 \<and> IOPSPerTB p > 0
         then fail (ErrText ''performance config must have only one of FixedIOPS or IOPSPerTB set'')
         else bind_err (\<lambda>e. ErrWrap ''patch operation failed for performance update: '' e [])
           (insPatch api (instanceURI (si_Project obj) (si_Location obj) (si_Name obj)) ''performanceConfig''
              (empty_cloud_instance\<lparr>ci_PerformanceConfig := Some (cloud_performance p)\<rparr>)) (\<lambda>op.
           bind_err (\<lambda>e. ErrWrap (''WaitFor performance update op '' @ op_Name op @ '' failed: '') e [])
             (waitForOp api op) ret))"

section \<open>Backups\<close>

definition GetBackup :: "'w FilestoreApi \<Rightarrow> string \<Rightarrow> ('w, Backup) eff" where
  "GetBackup api backupUri = bind (bkGet api backupUri) (\<lambda>b.
     ret \<lparr>b_Backup = b, b_SourceInstance = cb_SourceInstance b, b_SourceShare = cb_SourceFileShare b,
          b_FileSystemProtocol = cb_FileSystemProtocol b\<rparr>)"

definition CreateBackup :: "'w FilestoreApi \<Rightarrow> BackupInfo \<Rightarrow> ('w, CloudBackup) eff" where
  "CreateBackup api bi = (case BackupSource bi of
       None \<Rightarrow> fail (Panic ''index out of range'')
     | Some src \<Rightarrow>
         bind (bkCreate api (locationURI (bi_Project bi) (bi_Location bi)) (bi_Name bi)
            (empty_cloud_backup\<lparr>cb_SourceInstance := src, cb_SourceFileShare := bi_SourceShare bi, cb_Labels := bi_Labels bi\<rparr>)) (\<lambda>op.
         bind_err (\<lambda>e. ErrWrap (''WaitFor CreateBackup op '' @ op_Name op @ '' for source instance '' @ src
              @ '', backup uri: '' @ bi_BackupURI bi @ '', operation failed: '') e []) (waitForOp api op) (\<lambda>_.
         bind (bkGet api (bi_BackupURI bi)) (\<lambda>b.
           if cb_State b \<noteq> ''READY''
           then fail (ErrText (''backup '' @ bi_BackupURI bi @ '' for source '' @ src @ '' is not ready, current state: '' @ cb_State b))
           else ret b))))"

text \<open>\<open>DeleteBackup\<close> reads the name of the operation, nil when the call failed, in its error.\<close>

definition DeleteBackup :: "'w FilestoreApi \<Rightarrow> string \<Rightarrow> ('w, unit) eff" where
  "DeleteBackup api backupId =
     bind_err (\<lambda>e. Panic ''nil operation'') (bkDelete api backupId) (\<lambda>op.
     bind_err (\<lambda>e. ErrWrap (''delete backup: '' @ backupId @ '', op '' @ op_Name op @ '' failed: '') e [])
       (waitForOp api op) ret)"

section \<open>Multishare instances and shares\<close>

definition GetMultishareInstance ::
  "'w FilestoreApi \<Rightarrow> MultishareInstance \<Rightarrow> ('w, MultishareInstance) eff" where
  "GetMultishareInstance api obj =
     bind (insGet api (instanceURI (mi_Project obj) (mi_Location obj) (mi_Name obj))) (\<lambda>inst.
       lift (cloudInstanceToMultishareInstance inst))"

definition StartCreateMultishareInstanceOp ::
  "'w FilestoreApi \<Rightarrow> MultishareInstance \<Rightarrow> ('w, Operation) eff" where
  "StartCreateMultishareInstanceOp api i =
     bind_err (\<lambda>e. ErrWrap ''CreateInstance operation failed: '' e [])
       (insCreate api (locationURI (mi_Project i) (mi_Location i)) (mi_Name i)
         (empty_cloud_instance\<lparr>ci_MultiShareEnabled := True, ci_Tier := mi_Tier i,
            ci_Networks := [network_config (mi_Network i)], ci_CapacityGb := BytesToGb (mi_CapacityBytes i),
            ci_KmsKeyName := mi_KmsKeyName i, ci_Labels := mi_Labels i, ci_Description := mi_Description i,
            ci_MaxShareCount := mi_MaxShareCount i, ci_Protocol := mi_Protocol i\<rparr>)) ret"

definition StartDeleteMultishareInstanceOp ::
  "'w FilestoreApi \<Rightarrow> MultishareInstance \<Rightarrow> ('w, Operation) eff" where
  "StartDeleteMultishareInstanceOp api i =
     bind_err (\<lambda>e. ErrWrap ''DeleteInstance operation failed: '' e [])
       (insDelete api (instanceURI (mi_Project i) (mi_Location i) (mi_Name i))) ret"

text \<open>\<open>describe\<close> renders the API object by \<open>%+v\<close> in the error text.\<close>

definition StartResizeMultishareInstanceOp ::
  "(CloudInstance \<Rightarrow> string) \<Rightarrow> 'w FilestoreApi \<Rightarrow> MultishareInstance \<Rightarrow> ('w, Operation) eff" where
  "StartResizeMultishareInstanceOp describe api i =
     (let target = empty_cloud_instance\<lparr>ci_MultiShareEnabled := True, ci_Tier := mi_Tier i,
            ci_CapacityGb := BytesToGb (mi_CapacityBytes i), ci_KmsKeyName := mi_KmsKeyName i,
            ci_Labels := mi_Labels i, ci_Description := mi_Description i, ci_Protocol := mi_Protocol i\<rparr> in
      bind_err (\<lambda>e. ErrWrap ''patch operation failed: '' e ('' for instance '' @ describe target))
        (insPatch api (instanceURI (mi_Project i) (mi_Location i) (mi_Name i)) ''capacity_gb'' target) ret)"

definition with_parent :: "Share \<Rightarrow> (MultishareInstance \<Rightarrow> ('w, 'a) eff) \<Rightarrow> ('w, 'a) eff" where
  "with_parent s f = (case sh_Parent s of None \<Rightarrow> fail (Panic ''nil parent'') | Some p \<Rightarrow> f p)"

definition StartCreateShareOp :: "'w FilestoreApi \<Rightarrow> Share \<Rightarrow> ('w, Operation) eff" where
  "StartCreateShareOp api s = with_parent s (\<lambda>p.
     bind_err (\<lambda>e. TemporaryErr Unavailable (ErrWrap ''CreateShare operation failed: '' e []))
       (shCreate api (instanceURI (mi_Project p) (mi_Location p) (mi_Name p)) (sh_Name s)
         (empty_cloud_share\<lparr>cs_CapacityGb := BytesToGb (sh_CapacityBytes s), cs_Labels := sh_Labels s,
            cs_MountName := sh_MountPointName s, cs_Backup := sh_BackupId s,
            cs_NfsExportOptions := extractNfsShareExportOptions (sh_NfsExportOptions s)\<rparr>)) ret)"

definition StartDeleteShareOp :: "'w FilestoreApi \<Rightarrow> Share \<Rightarrow> ('w, Operation) eff" where
  "StartDeleteShareOp api s = with_parent s (\<lambda>p.
     bind_err (\<lambda>e. ErrWrap ''DeleteShare operation failed: '' e [])
       (shDelete api (shareURI (mi_Project p) (mi_Location p) (mi_Name p) (sh_Name s))) ret)"

definition StartResizeShareOp :: "'w FilestoreApi \<Rightarrow> Share \<Rightarrow> ('w, Operation) eff" where
  "StartResizeShareOp api s = with_parent s (\<lambda>p.
     bind_err (\<lambda>e. ErrWrap ''ResizeShare operation failed: '' e [])
       (shPatch api (shareURI (mi_Project p) (mi_Location p) (mi_Name p) (sh_Name s)) ''capacity_gb''
         (empty_cloud_share\<lparr>cs_CapacityGb := BytesToGb (sh_CapacityBytes s), cs_Labels := sh_Labels s,
            cs_MountName := sh_MountPointName s\<rparr>)) ret)"

definition GetShare :: "'w FilestoreApi \<Rightarrow> Share \<Rightarrow> ('w, Share) eff" where
  "GetShare api s = with_parent s (\<lambda>p.
     bind_err (TemporaryErr Unavailable)
       (shGet api (shareURI (mi_Project p) (mi_Location p) (mi_Name p) (sh_Name s))) (\<lambda>sobj.
     bind (lift (ParseShareURI (cs_Name sobj))) (\<lambda>(_, _, _, shareName).
     bind_err (TemporaryErr Unavailable) (GetMultishareInstance api p) (\<lambda>inst.
       ret (empty_share\<lparr>sh_Name := shareName, sh_Parent := Some inst,
         sh_MountPointName := cs_MountName sobj, sh_CapacityBytes := i64 (cs_CapacityGb sobj * Gb),
         sh_State := cs_State sobj, sh_Labels := cs_Labels sobj\<rparr>)))))"

section \<open>Endpoints\<close>

definition isValidEndpoint :: "string \<Rightarrow> bool" where
  "isValidEndpoint endpoint = (endpoint = ''test-file.sandbox.googleapis.com''
     \<or> endpoint = ''staging-file.sandbox.googleapis.com'' \<or> endpoint = ''file.googleapis.com'')"

definition createFilestoreEndpointUrlBasePath :: "string \<Rightarrow> go_error + string" where
  "createFilestoreEndpointUrlBasePath endpoint =
     (if endpoint \<noteq> [] then
        if \<not> isValidEndpoint endpoint then Inl (ErrText (''invalid filestore endpoint '' @ endpoint))
        else Inr (''https://'' @ endpoint @ ''/'')
      else Inr ''https://file.googleapis.com/'')"

section \<open>Properties\<close>

text \<open>The pages a service returns from a token on, when its pagination ends\<close>

inductive served_pages ::
  "(string \<Rightarrow> ('w, 'a list \<times> string) eff) \<Rightarrow> string \<Rightarrow> 'w \<Rightarrow> 'a list list \<Rightarrow> 'w \<Rightarrow> bool"
  for fetch where
  last_page: "fetch token w = (Inr (items, []), w') \<Longrightarrow> served_pages fetch token w [items] w'"
| next_page: "fetch token w = (Inr (items, nextToken), w1) \<Longrightarrow> nextToken \<noteq> [] \<Longrightarrow>
    served_pages fetch nextToken w1 pages w' \<Longrightarrow> served_pages fetch token w (items # pages) w'"

inductive_cases served_pagesE: "served_pages fetch token w pages w'"

lemma map_results_append:
  "map_results f (xs @ ys) = rbind (map_results f xs) (\<lambda>as. rbind (map_results f ys) (\<lambda>bs. Inr (as @ bs)))"
proof (induction xs)
  case Nil
  show ?case by (cases "map_results f ys") simp_all
next
  case (Cons x xs)
  show ?case
    by (cases "f x"; cases "map_results f xs"; cases "map_results f ys") (simp_all add: Cons)
qed

lemma list_pages_served:
  "served_pages fetch token w pages w' \<Longrightarrow> \<forall>page \<in> set pages. \<exists>rs. conv page = Inr rs \<Longrightarrow>
     list_pages fetch h conv token acc w = Some (Inr (acc @ concat (map (projr \<circ> conv) pages)), w')"
proof (induction arbitrary: acc rule: served_pages.induct)
  case (last_page token w items w')
  then show ?case by (subst list_pages.simps) auto
next
  case (next_page token w items nextToken w1 pages w')
  then obtain rs where "conv items = Inr rs" by auto
  then show ?case using next_page by (subst list_pages.simps) (simp add: comp_def)
qed

text \<open>Listings are complete. When the pagination of the service ends, \<open>ListShares\<close> returns, and the
  result has every share of every page once and in order, each with the project, location,
  instance and share name of its URI.\<close>

theorem ListShares_complete:
  assumes "served_pages (shList api (instanceURI (lf_Project flt) (lf_Location flt) (lf_InstanceName flt))) [] w pages w'"
    and "\<forall>sobj \<in> set (concat pages). IsShareTarget (cs_Name sobj)"
  shows "\<exists>shares. ListShares api flt w = Some (Inr shares, w') \<and> length shares = length (concat pages)
    \<and> (\<forall>i < length shares. ParseShare (Some (shares ! i)) = ParseShareURI (cs_Name (concat pages ! i)))"
proof -
  have conv: "\<exists>sh. cloudShareToShare sobj = Inr sh \<and> ParseShare (Some sh) = ParseShareURI (cs_Name sobj)"
    if "IsShareTarget (cs_Name sobj)" for sobj
  proof -
    obtain p l i s where m: "match_share_uri (cs_Name sobj) = Some (p, l, i, s)"
      using \<open>IsShareTarget _\<close> by (auto simp: IsShareTarget_def)
    then have "p \<noteq> []" "l \<noteq> []" "i \<noteq> []" "s \<noteq> []"
      by (auto simp: match_share_uri_def split: list.splits if_splits)
    then show ?thesis
      using match_share_ParseShareURI[OF m] by (simp add: cloudShareToShare_def ParseShare_def)
  qed
  have mapr: "map_results cloudShareToShare xs = Inr (map (projr \<circ> cloudShareToShare) xs)"
    if "\<forall>x \<in> set xs. IsShareTarget (cs_Name x)" for xs
    using that conv by (induction xs) fastforce+
  have pg: "projr (map_results cloudShareToShare page) = map (projr \<circ> cloudShareToShare) page"
    "\<exists>rs. map_results cloudShareToShare page = Inr rs" if "page \<in> set pages" for page
    using assms(2) that mapr[of page] by auto
  then have "concat (map (projr \<circ> map_results cloudShareToShare) pages) = map (projr \<circ> cloudShareToShare) (concat pages)"
    by (induction pages) (auto simp: map_concat)
  then have "ListShares api flt w = Some (Inr (map (projr \<circ> cloudShareToShare) (concat pages)), w')"
    using list_pages_served[OF assms(1), of "map_results cloudShareToShare" "\<lambda>t e. e" "[]"] pg(2)
    by (simp add: ListShares_def)
  moreover have "ParseShare (Some (map (projr \<circ> cloudShareToShare) (concat pages) ! i)) = ParseShareURI (cs_Name (concat pages ! i))"
    if "i < length (concat pages)" for i
  proof -
    have "IsShareTarget (cs_Name (concat pages ! i))" using assms(2) that nth_mem by blast
    from conv[OF this] show ?thesis using that by auto
  qed
  ultimately show ?thesis by (intro exI[of _ "map (projr \<circ> cloudShareToShare) (concat pages)"]) simp
qed

definition example_cloud_share :: CloudShare where
  "example_cloud_share = empty_cloud_share\<lparr>cs_Name := ''projects/p/locations/us-c1/instances/a/shares/pvc_1''\<rparr>"

text \<open>A service that answers a share listing with two pages and refuses everything else\<close>

definition example_api :: "unit FilestoreApi" where
  "example_api =
     \<lparr>insCreate = (\<lambda>_ _ _. fail (ErrText [])), insGet = (\<lambda>_. fail (ErrText [])), insDelete = (\<lambda>_. fail (ErrText [])),
      insPatch = (\<lambda>_ _ _. fail (ErrText [])), insList = (\<lambda>_ _. fail (ErrText [])), opsGet = (\<lambda>_. fail (ErrText [])),
      opsList = (\<lambda>_ _. fail (ErrText [])), bkGet = (\<lambda>_. fail (ErrText [])), bkCreate = (\<lambda>_ _ _. fail (ErrText [])),
      bkDelete = (\<lambda>_. fail (ErrText [])), shCreate = (\<lambda>_ _ _. fail (ErrText [])), shGet = (\<lambda>_. fail (ErrText [])),
      shDelete = (\<lambda>_. fail (ErrText [])), shPatch = (\<lambda>_ _ _. fail (ErrText [])),
      shList = (\<lambda>_ token. ret (if token = [] then ([example_cloud_share], ''next'') else ([example_cloud_share], [])))\<rparr>"

theorem ListShares_complete_witness:
  "\<exists>shares. ListShares example_api \<lparr>lf_Project = ''p'', lf_Location = ''us-c1'', lf_InstanceName = ''a''\<rparr> () = Some (Inr shares, ())
     \<and> length shares = 2"
proof -
  let ?f = "\<lparr>lf_Project = ''p'', lf_Location = ''us-c1'', lf_InstanceName = ''a''\<rparr>"
  let ?fetch = "shList example_api (instanceURI (lf_Project ?f) (lf_Location ?f) (lf_InstanceName ?f))"
  have "served_pages ?fetch ''next'' () [[example_cloud_share]] ()"
    by (rule last_page) (simp add: example_api_def)
  then have "served_pages ?fetch [] () [[example_cloud_share], [example_cloud_share]] ()"
    by (rule next_page[where nextToken = "''next''", rotated 2]) (simp_all add: example_api_def)
  moreover have "IsShareTarget (cs_Name example_cloud_share)"
    by (simp add: example_cloud_share_def empty_cloud_share_def IsShareTarget_def match_share_uri_def)
  ultimately show ?thesis
    using ListShares_complete[of example_api ?f "()" "[[example_cloud_share], [example_cloud_share]]" "()"] by auto
qed

text \<open>A deletion is confirmed. \<open>DeleteInstance\<close> succeeds only when the delete call was accepted, its
  operation was polled to completion without an error, and the read after it answered that the
  instance is not found; a read that fails otherwise, or still finds the instance, is an error.\<close>

theorem DeleteInstance_confirmed:
  "DeleteInstance api obj w = (Inr (), w') \<longleftrightarrow>
     (\<exists>op w1 w2 e. insDelete api (instanceURI (si_Project obj) (si_Location obj) (si_Name obj)) w = (Inr op, w1)
        \<and> waitForOp api op w1 = (Inr (), w2)
        \<and> insGet api (instanceURI (si_Project obj) (si_Location obj) (si_Name obj)) w2 = (Inl e, w') \<and> IsNotFoundErr e)"
proof -
  let ?uri = "instanceURI (si_Project obj) (si_Location obj) (si_Name obj)"
  have panic: "\<not> IsNotFoundErr (Panic m)" "\<not> IsNotFoundErr (TemporaryErr c (ErrText m))" "\<not> IsNotFoundErr (ErrText m)" for c m
    by (simp_all add: IsNotFoundErr_def)
  have temp: "IsNotFoundErr (TemporaryErr c e) = IsNotFoundErr e" for c e
    by (simp add: IsNotFoundErr_def)
  have conv: "cloudInstanceToServiceInstance i = Inl e \<Longrightarrow> \<not> IsNotFoundErr e" for i e
    using panic by (auto simp: cloudInstanceToServiceInstance_def rbind_def GetInstanceNameFromURI_def
        split: sum.splits option.splits list.splits prod.splits)
  have get: "(\<exists>e. GetInstance api obj w2 = (Inl e, w') \<and> IsNotFoundErr e) \<longleftrightarrow>
      (\<exists>e. insGet api ?uri w2 = (Inl e, w') \<and> IsNotFoundErr e)" for w2
  proof (cases "insGet api ?uri w2")
    case (Pair r w3)
    show ?thesis
    proof (cases r)
      case (Inl e)
      then show ?thesis using Pair by (simp add: GetInstance_def Let_def attempt_def temp)
    next
      case (Inr io)
      then show ?thesis
        using Pair panic conv by (cases io) (auto simp: GetInstance_def Let_def attempt_def)
    qed
  qed
  have after: "attempt (GetInstance api obj) (\<lambda>r. case r of
        Inl e \<Rightarrow> if \<not> IsNotFoundErr e then fail (rewrite_err (\<lambda>e. ErrWrap ''failed to get instance after deletion: '' e []) e)
                 else ret ()
      | Inr inst \<Rightarrow> fail (ErrText (m inst))) w2 = (Inr (), w')
      \<longleftrightarrow> (\<exists>e. GetInstance api obj w2 = (Inl e, w') \<and> IsNotFoundErr e)" for m w2
    by (cases "GetInstance api obj w2"; cases "fst (GetInstance api obj w2)") (auto simp: attempt_def)
  show ?thesis
    unfolding DeleteInstance_def Let_def bind_err_Inr_iff after get by auto
qed

lemma equalFold_sym: "equalFold a b = equalFold b a"
  by (auto simp: equalFold_def)

text \<open>C38: What is created is recognised. If the service stores the instance of a create call under its
  URI, reading it back gives an instance with the project, location, name, performance settings
  and backup source of the request, a size that holds the request with less than a GiB to spare,
  and which the comparison of the idempotent create accepts as the one requested.\<close>

theorem create_request_roundtrip:
  assumes parts: "\<forall>x \<in> {si_Project obj, si_Location obj, si_Name obj}. x \<noteq> [] \<and> CHR ''/'' \<notin> set x"
    and size: "0 \<le> SizeBytes (si_Volume obj)" "SizeBytes (si_Volume obj) + 2 * Gb < 2 ^ 63"
    and perf: "case si_PerformanceConfig obj of None \<Rightarrow> True | Some p \<Rightarrow> 0 \<le> FixedIOPS p \<and> 0 \<le> IOPSPerTB p"
  shows "\<exists>back. cloudInstanceToServiceInstance
      ((create_request obj)\<lparr>ci_Name := instanceURI (si_Project obj) (si_Location obj) (si_Name obj)\<rparr>) = Inr back
    \<and> CompareInstances obj back = None
    \<and> si_Project back = si_Project obj \<and> si_Location back = si_Location obj \<and> si_Name back = si_Name obj
    \<and> si_PerformanceConfig back = si_PerformanceConfig obj \<and> si_BackupSource back = si_BackupSource obj
    \<and> SizeBytes (si_Volume obj) \<le> SizeBytes (si_Volume back)
    \<and> SizeBytes (si_Volume back) < SizeBytes (si_Volume obj) + Gb"
proof -
  let ?b = "SizeBytes (si_Volume obj)"
  let ?g = "RoundBytesToGb ?b"
  have q: "?g = (?b + Gb - 1) div Gb" using size by (simp add: RoundBytesToGb_exact Gb_val)
  have g: "0 \<le> ?g" "?g < 2 ^ 33 - 1" using size by (auto simp: q Gb_val)
  have gb: "GbToBytes ?g = ?g * Gb" using g GbToBytes_exact[of ?g] by simp
  have bounds: "?b \<le> GbToBytes ?g" "GbToBytes ?g < ?b + Gb"
    unfolding gb using align_up_bounds[of Gb ?b] by (simp_all add: q)
  have p: "si_PerformanceConfig obj = (case map_option cloud_performance (si_PerformanceConfig obj) of None \<Rightarrow> None
      | Some p \<Rightarrow> Some \<lparr>FixedIOPS = (case cp_FixedIops p of None \<Rightarrow> 0 | Some n \<Rightarrow> n),
                        IOPSPerTB = (case cp_IopsPerTb p of None \<Rightarrow> 0 | Some n \<Rightarrow> n)\<rparr>)"
    using perf by (cases "si_PerformanceConfig obj") (auto simp: cloud_performance_def)
  show ?thesis
    using parts bounds p[symmetric] RoundBytesToGb_GbToBytes[OF g]
    by (simp add: cloudInstanceToServiceInstance_def GetInstanceNameFromURI_def match_instance_instanceURI
        create_request_def network_config_def network_of_def CompareInstances_None del: map_option_eq_Some)
qed

definition example_request :: ServiceInstance where
  "example_request = empty_service_instance\<lparr>si_Project := ''p'', si_Location := ''us-central1-c'', si_Name := ''pvc-1'',
     si_Tier := ''standard'', si_Volume := \<lparr>vol_Name = ''vol1'', SizeBytes = 1099511627777\<rparr>,
     si_PerformanceConfig := Some \<lparr>FixedIOPS = 4000, IOPSPerTB = 0\<rparr>\<rparr>"

theorem create_request_roundtrip_witness:
  "\<exists>back. cloudInstanceToServiceInstance
      ((create_request example_request)\<lparr>ci_Name := instanceURI ''p'' ''us-central1-c'' ''pvc-1''\<rparr>) = Inr back
    \<and> CompareInstances example_request back = None"
  using create_request_roundtrip[of example_request]
  by (auto simp: example_request_def empty_service_instance_def Gb_val)

end
