(* ===== verification/User_Tags.thy ===== *)
theory User_Tags
  imports Driver_State "HOL-Library.List_Lexorder" "HOL-Library.Char_ord"
begin

text \<open>
  Resource tags, \<open>pkg/cloud_provider/user_tags.go\<close>: parsing and validation of a list of tags
  \<open>parent/key/value\<close>, merging of the tags of the command line with those of a request, and their
  binding to an instance or a backup. The clients of the Resource Manager API are a record of
  functions. \<open>newTagService\<close> gives the tag service the controllers call.
\<close>

section \<open>The API\<close>

text \<open>
  What the code calls outside: the construction of a client for an endpoint, its \<open>Close\<close> (an error
  is only logged), the look-up of a tag value, the results of the calls of \<open>Next\<close> on the iterator
  of the effective tags of a resource (None is a nil binding, the end of the iteration is an error
  like any other for the loop), the rate limiter, the creation of a binding and the wait for its
  operation. \<open>ta_order\<close> is the order in which Go ranges over the keys of a map.
\<close>

record 'w TagApi =
  ta_order :: "string list \<Rightarrow> string list"
  ta_values_client :: "string \<Rightarrow> ('w, unit) eff"
  ta_bindings_client :: "string \<Rightarrow> ('w, unit) eff"
  ta_close :: "'w \<Rightarrow> 'w"
  ta_GetNamespacedTagValue :: "string \<Rightarrow> ('w, unit) eff"
  ta_next_effective :: "string \<Rightarrow> nat \<Rightarrow> ('w, string option) eff"
  ta_limiter_wait :: "('w, unit) eff"
  ta_CreateTagBinding :: "string \<Rightarrow> string \<Rightarrow> ('w, string) eff"
  ta_op_Wait :: "string \<Rightarrow> ('w, unit) eff"

type_synonym resourceTags = "(string, unit) gomap"

record tagServiceManager =
  tm_Project :: string
  tm_tags :: resourceTags

definition SetResourceTags :: "resourceTags \<Rightarrow> tagServiceManager \<Rightarrow> tagServiceManager" where
  "SetResourceTags tags tm = tm\<lparr>tm_tags := tags\<rparr>"

definition maxTagsPerResource :: nat where "maxTagsPerResource = 50"
definition resourceManagerHostSubPath :: string where
  "resourceManagerHostSubPath = ''cloudresourcemanager.googleapis.com''"

definition with_client :: "'w TagApi \<Rightarrow> ('w, unit) eff \<Rightarrow> ('w, 'a) eff \<Rightarrow> ('w, 'a) eff" where
  "with_client api client body = bind client (\<lambda>_ w. case body w of (r, w') \<Rightarrow> (r, ta_close api w'))"

section \<open>Duplicates\<close>

text \<open>The parts of a tag before and after its last slash, None when it has no slash\<close>

definition split_tag :: "string \<Rightarrow> (string \<times> string) option" where
  "split_tag t =
     (if CHR ''/'' \<in> set t
      then Some (rev (tl (dropWhile (\<lambda>c. c \<noteq> CHR ''/'') (rev t))), rev (takeWhile (\<lambda>c. c \<noteq> CHR ''/'') (rev t)))
      else None)"

text \<open>The loop over the sorted tags. A tag without a slash has \<open>LastIndex\<close> -1, and the slice
  panics.\<close>

fun drop_duplicates :: "string list \<Rightarrow> (string, string) gomap \<Rightarrow> resourceTags \<Rightarrow> go_error + resourceTags" where
  "drop_duplicates [] uniqTags src = Inr src"
| "drop_duplicates (tag # tags) uniqTags src = (case split_tag tag of
       None \<Rightarrow> Inl (Panic ''slice bounds out of range'')
     | Some (key, val) \<Rightarrow> (case mlookup uniqTags key of
         None \<Rightarrow> drop_duplicates tags (minsert key val uniqTags) src
       | Some v \<Rightarrow> drop_duplicates tags uniqTags (if val \<noteq> v then mdelete tag src else src)))"

definition removeDuplicateTags :: "resourceTags \<Rightarrow> go_error + resourceTags" where
  "removeDuplicateTags src = drop_duplicates (sort (keys src)) [] src"

definition mergeTags :: "resourceTags \<Rightarrow> resourceTags \<Rightarrow> go_error + resourceTags" where
  "mergeTags src dst = removeDuplicateTags (fold (\<lambda>(k, v) m. minsert k v m) src dst)"

section \<open>Validation\<close>

definition validateTagExist :: "'w TagApi \<Rightarrow> string \<Rightarrow> ('w, unit) eff" where
  "validateTagExist api nm =
     bind_err (\<lambda>e. ErrWrap (''failed to fetch '' @ nm @ '' tag: '') e []) (ta_GetNamespacedTagValue api nm) ret"

definition bad_tag :: "string \<Rightarrow> string \<Rightarrow> go_error" where
  "bad_tag nm tagsSource = ErrText (nm @ '' tag provided in '' @ tagsSource
     @ '' not in expected format(<parentID/tagKey_name/tagValue_name>)'')"

text \<open>The loop: the tags found so far and the names that do not exist\<close>

fun validate_tags_loop ::
  "'w TagApi \<Rightarrow> string \<Rightarrow> string list \<Rightarrow> resourceTags \<Rightarrow> string list \<Rightarrow> ('w, resourceTags \<times> string list) eff" where
  "validate_tags_loop api tagsSource [] tags nonexistentTags = ret (tags, nonexistentTags)"
| "validate_tags_loop api tagsSource (tag # tagList) tags nonexistentTags =
     (let nm = trimSpace tag in
      if length (filter (\<lambda>c. c = CHR ''/'') nm) \<noteq> 2 then fail (bad_tag nm tagsSource)
      else attempt (validateTagExist api nm) (\<lambda>r. case r of
          Inl e \<Rightarrow> if as_apierror e = Some 403
            then validate_tags_loop api tagsSource tagList tags (nonexistentTags @ [nm])
            else fail e
        | Inr _ \<Rightarrow> validate_tags_loop api tagsSource tagList (minsert nm () tags) nonexistentTags))"

definition ValidateResourceTags :: "'w TagApi \<Rightarrow> string \<Rightarrow> string \<Rightarrow> ('w, resourceTags) eff" where
  "ValidateResourceTags api tagsSource commaSeparatedTags =
     (if length commaSeparatedTags = 0 then ret []
      else let tagList = split CHR '','' commaSeparatedTags in
        if maxTagsPerResource < length tagList
        then fail (ErrText (''more than '' @ show_nat maxTagsPerResource @ '' tags is not allowed, number of tags provided in ''
               @ tagsSource @ '': '' @ show_nat (length tagList)))
        else with_client api (ta_values_client api (''https://'' @ resourceManagerHostSubPath))
          (bind (validate_tags_loop api tagsSource tagList [] []) (\<lambda>(tags, nonexistentTags).
             if length nonexistentTags \<noteq> 0
             then fail (ErrText (''['' @ join '' '' nonexistentTags @ ''] tag(s) provided in '' @ tagsSource @ '' does not exist''))
             else lift (removeDuplicateTags tags))))"

definition extractTags :: "'w TagApi \<Rightarrow> string \<Rightarrow> labels \<Rightarrow> ('w, resourceTags) eff" where
  "extractTags api requestName parameters = (case mlookup parameters ParameterKeyResourceTags of
       Some tags \<Rightarrow> ValidateResourceTags api (requestName @ '' create request'') tags
     | None \<Rightarrow> ret [])"

section \<open>Binding\<close>

text \<open>\<open>getEffectiveTagList\<close>: at most \<open>maxTagsPerResource\<close> calls of \<open>Next\<close>, the first is number 0.\<close>

fun effective_tags :: "'w TagApi \<Rightarrow> string \<Rightarrow> nat \<Rightarrow> nat \<Rightarrow> resourceTags \<Rightarrow> ('w, resourceTags) eff" where
  "effective_tags api rscName i 0 effectiveTags = ret effectiveTags"
| "effective_tags api rscName i (Suc n) effectiveTags = attempt (ta_next_effective api rscName i) (\<lambda>r. case r of
       Inr (Some tag) \<Rightarrow> effective_tags api rscName (Suc i) n (minsert tag () effectiveTags)
     | _ \<Rightarrow> ret effectiveTags)"

definition getEffectiveTagList :: "'w TagApi \<Rightarrow> string \<Rightarrow> ('w, resourceTags) eff" where
  "getEffectiveTagList api rscName = effective_tags api rscName 0 maxTagsPerResource []"

definition getTagsToBind :: "'w TagApi \<Rightarrow> string \<Rightarrow> resourceTags \<Rightarrow> ('w, resourceTags) eff" where
  "getTagsToBind api rscName tags = bind (getEffectiveTagList api rscName) (\<lambda>effectiveTags.
     ret (filter (\<lambda>(tag, _). mlookup effectiveTags tag = None) tags))"

text \<open>The loop of \<open>createTagBindings\<close>, with its error flag\<close>

fun bind_tags :: "'w TagApi \<Rightarrow> string \<Rightarrow> string list \<Rightarrow> bool \<Rightarrow> ('w, bool) eff" where
  "bind_tags api rscName [] errFlag = ret errFlag"
| "bind_tags api rscName (tag # tags) errFlag = attempt (ta_limiter_wait api) (\<lambda>r. case r of
       Inl _ \<Rightarrow> bind_tags api rscName tags True
     | Inr _ \<Rightarrow> attempt (ta_CreateTagBinding api rscName tag) (\<lambda>r. case r of
         Inl e \<Rightarrow> bind_tags api rscName tags (if as_apierror e = Some 409 then errFlag else True)
       | Inr createOp \<Rightarrow> attempt (ta_op_Wait api createOp) (\<lambda>r. case r of
           Inl _ \<Rightarrow> bind_tags api rscName tags True
         | Inr _ \<Rightarrow> bind_tags api rscName tags errFlag)))"

definition createTagBindings :: "'w TagApi \<Rightarrow> string \<Rightarrow> resourceTags \<Rightarrow> ('w, unit) eff" where
  "createTagBindings api rscName tags =
     (if length tags = 0 then ret ()
      else bind (bind_tags api rscName (ta_order api (keys tags)) False) (\<lambda>errFlag.
        if errFlag then fail (ErrText (''failed to add tag(s) to '' @ rscName @ '' resource'')) else ret ()))"

definition fullResourceName :: "resourceType \<Rightarrow> string \<Rightarrow> string \<Rightarrow> string \<Rightarrow> go_error + string" where
  "fullResourceName rscType project rscLocation rscName = (case rscType of
       FilestoreInstance \<Rightarrow>
         Inr (''//file.googleapis.com/projects/'' @ project @ ''/locations/'' @ rscLocation @ ''/instances/'' @ rscName)
     | FilestoreBackUp \<Rightarrow>
         Inr (''//file.googleapis.com/projects/'' @ project @ ''/locations/'' @ rscLocation @ ''/backups/'' @ rscName)
     | OtherResource t \<Rightarrow> Inl (ErrText (''unsupported resource type: '' @ t @ '':'' @ rscName)))"

text \<open>After the bindings the code lists the effective tags once more, for the log.\<close>

definition AttachResourceTags ::
  "'w TagApi \<Rightarrow> tagServiceManager \<Rightarrow> resourceType \<Rightarrow> string \<Rightarrow> string \<Rightarrow> string \<Rightarrow> labels \<Rightarrow> ('w, unit) eff" where
  "AttachResourceTags api tm rscType rscName rscLocation reqName reqParameters =
     bind (extractTags api reqName reqParameters) (\<lambda>tags.
       if length (tm_tags tm) = 0 \<and> length tags = 0 then ret ()
       else bind (lift (mergeTags (tm_tags tm) tags)) (\<lambda>tags.
         with_client api (ta_bindings_client api (''https://'' @ rscLocation @ ''-'' @ resourceManagerHostSubPath))
           (bind (lift (fullResourceName rscType (tm_Project tm) rscLocation rscName)) (\<lambda>full.
            bind (getTagsToBind api full tags) (\<lambda>refinedTagList.
              if length refinedTagList = 0 then ret ()
              else bind (createTagBindings api full refinedTagList) (\<lambda>_.
                   bind (getEffectiveTagList api rscName) (\<lambda>_. ret ())))))))"

text \<open>\<open>NewTagManager\<close>: the service the controllers call\<close>

definition NewTagManager :: "'w TagApi \<Rightarrow> tagServiceManager \<Rightarrow> 'w TagService" where
  "NewTagManager api tm = \<lparr>
     tag_ValidateResourceTags = (\<lambda>tagsSource s. bind (ValidateResourceTags api tagsSource s) (\<lambda>_. ret ())),
     tag_AttachResourceTags = AttachResourceTags api tm\<rparr>"

section \<open>One value for each key\<close>

text \<open>The key of a tag: parent and key, all before its last slash\<close>

definition tag_key :: "string \<Rightarrow> string" where
  "tag_key t = fst (the (split_tag t))"

definition vetted :: "string \<Rightarrow> bool" where
  "vetted t = (CHR ''/'' \<in> set t)"

text \<open>The least tags among those with the same key\<close>

definition least_tags :: "string set \<Rightarrow> string set" where
  "least_tags T = {t \<in> T. \<forall>u \<in> T. tag_key u = tag_key t \<longrightarrow> t \<le> u}"

lemma split_tag_append: "CHR ''/'' \<notin> set v \<Longrightarrow> split_tag (k @ CHR ''/'' # v) = Some (k, v)"
proof -
  let ?P = "\<lambda>c. c \<noteq> CHR ''/''"
  assume "CHR ''/'' \<notin> set v"
  then have v: "takeWhile ?P (rev v) = rev v" "dropWhile ?P (rev v) = []"
    by (simp_all only: takeWhile_eq_all_conv dropWhile_eq_Nil_conv set_rev) auto
  have "takeWhile ?P (rev v @ CHR ''/'' # rev k) = rev v"
    "dropWhile ?P (rev v @ CHR ''/'' # rev k) = CHR ''/'' # rev k"
    by (simp_all only: takeWhile_tail dropWhile_append3 v not_not append_Nil)
  then show "split_tag (k @ CHR ''/'' # v) = Some (k, v)" by (simp add: split_tag_def)
qed

lemma split_tag_Some:
  "split_tag t = Some (k, v) \<longleftrightarrow> t = k @ CHR ''/'' # v \<and> CHR ''/'' \<notin> set v"
proof
  assume a: "split_tag t = Some (k, v)"
  then have "CHR ''/'' \<in> set t" by (auto simp: split_tag_def split: if_splits)
  then obtain k' v' where t: "t = k' @ CHR ''/'' # v'" "CHR ''/'' \<notin> set v'"
    using split_list_last by metis
  then show "t = k @ CHR ''/'' # v \<and> CHR ''/'' \<notin> set v" using a split_tag_append by simp
qed (simp add: split_tag_append)

lemma split_tag_vetted: "vetted t \<Longrightarrow> \<exists>v. split_tag t = Some (tag_key t, v)"
  by (auto simp: split_tag_def vetted_def tag_key_def)

lemma drop_duplicates_spec:
  assumes "sorted ts" "distinct ts" "\<forall>t \<in> set ts. vetted t"
    and "\<forall>k v. mlookup uniq k = Some v \<longrightarrow> k @ CHR ''/'' # v \<notin> set ts"
  shows "\<exists>m. drop_duplicates ts uniq src = Inr m \<and> (\<forall>t. mlookup m t =
    (if t \<in> set ts \<and> (mlookup uniq (tag_key t) \<noteq> None \<or> (\<exists>u \<in> set ts. u < t \<and> tag_key u = tag_key t))
     then None else mlookup src t))"
  using assms
proof (induction ts arbitrary: uniq src)
  case Nil
  then show ?case by simp
next
  case (Cons x ts)
  obtain v where x: "split_tag x = Some (tag_key x, v)" using split_tag_vetted Cons.prems(3) by auto
  then have xt: "x = tag_key x @ CHR ''/'' # v" using split_tag_Some by blast
  have less: "x < u" if "u \<in> set ts" for u using Cons.prems(1,2) that by (metis distinct.simps(2) order_le_less sorted_simps(2))
  have prems: "sorted ts" "distinct ts" "\<forall>t \<in> set ts. vetted t" using Cons.prems by auto
  show ?case
  proof (cases "mlookup uniq (tag_key x)")
    case None
    have "\<forall>k w. mlookup (minsert (tag_key x) v uniq) k = Some w \<longrightarrow> k @ CHR ''/'' # w \<notin> set ts"
      using Cons.prems(2,4) xt by (auto split: if_splits)
    from Cons.IH[OF prems this, of src] show ?thesis
      using less None Cons.prems(2) by (auto simp: x less_not_sym)
  next
    case (Some w)
    then have "v \<noteq> w" using Cons.prems(4) xt by (metis list.set_intros(1))
    moreover have "\<forall>k w. mlookup uniq k = Some w \<longrightarrow> k @ CHR ''/'' # w \<notin> set ts" using Cons.prems(4) by auto
    from Cons.IH[OF prems this, of "mdelete x src"] show ?thesis
      using less Some calculation by (auto simp: x less_not_sym)
  qed
qed

lemma drop_duplicates_go_map: "drop_duplicates ts uniq src = Inr m \<Longrightarrow> go_map src \<Longrightarrow> go_map m"
  by (induction ts uniq src rule: drop_duplicates.induct) (auto split: option.splits prod.splits if_splits)

lemma removeDuplicateTags_spec:
  assumes "go_map src" "\<forall>t \<in> set (keys src). vetted t"
  shows "\<exists>m. removeDuplicateTags src = Inr m \<and> go_map m \<and> set (keys m) = least_tags (set (keys src))"
proof -
  have d: "distinct (keys src)" using assms(1) by (simp add: go_map_def keys_def)
  obtain m where m: "removeDuplicateTags src = Inr m"
    and l: "\<And>t. mlookup m t = (if t \<in> set (keys src) \<and> (\<exists>u \<in> set (keys src). u < t \<and> tag_key u = tag_key t)
      then None else mlookup src t)"
    using drop_duplicates_spec[of "sort (keys src)" "[]" src] d assms(2)
    by (auto simp: removeDuplicateTags_def)
  have "t \<in> set (keys m) \<longleftrightarrow> t \<in> least_tags (set (keys src))" for t
    using l[of t] mlookup_None_keys[of m t] mlookup_None_keys[of src t]
    by (auto simp: least_tags_def not_less split: if_splits)
  then show ?thesis using m drop_duplicates_go_map[OF m[unfolded removeDuplicateTags_def] assms(1)] by blast
qed

lemma go_map_merged_tags: "go_map m \<Longrightarrow> go_map (fold (\<lambda>(k, v) m. minsert k v m) src m)"
  by (induction src arbitrary: m) (auto split: prod.splits)

lemma keys_merged_tags: "set (keys (fold (\<lambda>(k, v) m. minsert k v m) src m)) = set (keys m) \<union> set (keys src)"
  by (induction src arbitrary: m) (auto split: prod.splits)

lemma mergeTags_spec:
  assumes "go_map dst" "\<forall>t \<in> set (keys src) \<union> set (keys dst). vetted t"
  shows "\<exists>m. mergeTags src dst = Inr m \<and> set (keys m) = least_tags (set (keys src) \<union> set (keys dst))"
  using removeDuplicateTags_spec[OF go_map_merged_tags[OF assms(1), of src]] assms(2)
  by (auto simp: mergeTags_def keys_merged_tags Un_commute)

section \<open>Validation\<close>

definition slashes :: "string \<Rightarrow> nat" where
  "slashes t = length (filter (\<lambda>c. c = CHR ''/'') t)"

lemma slashes_vetted: "slashes t = 2 \<Longrightarrow> vetted t"
  by (auto simp: slashes_def vetted_def filter_empty_conv dest!: arg_cong[of _ 2 "(<) 0"])

definition tag_exists :: "'w TagApi \<Rightarrow> string \<Rightarrow> bool" where
  "tag_exists api t = (\<exists>w w'. ta_GetNamespacedTagValue api t w = (Inr (), w'))"

lemma validate_loop_spec:
  assumes "validate_tags_loop api tagsSource ps tags missing w = (Inr (tags', missing'), w')" "go_map tags"
    and "\<forall>t \<in> set (keys tags). tag_exists api t"
  shows "go_map tags' \<and> set (keys tags') \<union> set missing' = set (keys tags) \<union> set missing \<union> trimSpace ` set ps
    \<and> (\<forall>p \<in> set ps. slashes (trimSpace p) = 2) \<and> (\<forall>t \<in> set (keys tags'). tag_exists api t)"
  using assms
proof (induction ps arbitrary: tags missing w)
  case Nil
  then show ?case by auto
next
  case (Cons p ps)
  let ?n = "trimSpace p"
  obtain r w1 where r: "validateTagExist api ?n w = (r, w1)" by force
  have s: "slashes ?n = 2" using Cons.prems(1) by (auto simp: slashes_def Let_def split: if_splits)
  show ?case
  proof (cases r)
    case (Inl e)
    then have "validate_tags_loop api tagsSource ps tags (missing @ [?n]) w1 = (Inr (tags', missing'), w')"
      using Cons.prems(1) r s by (auto simp: attempt_eq Let_def slashes_def split: if_splits)
    from Cons.IH[OF this Cons.prems(2,3)] show ?thesis using s by auto
  next
    case (Inr u)
    then have l: "validate_tags_loop api tagsSource ps (minsert ?n () tags) missing w1 = (Inr (tags', missing'), w')"
      using Cons.prems(1) r s by (auto simp: attempt_eq Let_def slashes_def)
    have "tag_exists api ?n" using r Inr by (auto simp: validateTagExist_def tag_exists_def bind_err_Inr_iff)
    then have "\<forall>t \<in> set (keys (minsert ?n () tags)). tag_exists api t" using Cons.prems(3) by simp
    from Cons.IH[OF l _ this] show ?thesis using s Cons.prems(2) by auto
  qed
qed

lemma with_client_Inr:
  "with_client api client body w = (Inr a, w') \<longleftrightarrow>
     (\<exists>w1 w2. client w = (Inr (), w1) \<and> body w1 = (Inr a, w2) \<and> w' = ta_close api w2)"
  by (auto simp: with_client_def bind_Inr_iff split: prod.splits) (metis prod.exhaust)

lemma ValidateResourceTags_spec:
  assumes "ValidateResourceTags api tagsSource s w = (Inr tags, w')" "s \<noteq> []"
  shows "length (split CHR '','' s) \<le> 50 \<and> go_map tags
    \<and> set (keys tags) = least_tags (trimSpace ` set (split CHR '','' s))
    \<and> (\<forall>p \<in> set (split CHR '','' s). slashes (trimSpace p) = 2 \<and> tag_exists api (trimSpace p))"
proof -
  let ?ps = "split CHR '','' s"
  obtain ts miss w1 w2 where v: "validate_tags_loop api tagsSource ?ps [] [] w1 = (Inr (ts, miss), w2)"
    and r: "miss = []" "removeDuplicateTags ts = Inr tags" and n: "length ?ps \<le> 50"
    using assms by (auto simp: ValidateResourceTags_def Let_def with_client_Inr bind_Inr_iff maxTagsPerResource_def
      split: if_splits prod.splits)
  have l: "go_map ts" "set (keys ts) = trimSpace ` set ?ps" "\<forall>p \<in> set ?ps. slashes (trimSpace p) = 2"
    "\<forall>t \<in> set (keys ts). tag_exists api t"
    using validate_loop_spec[OF v] r(1) by auto
  then have "\<forall>t \<in> set (keys ts). vetted t" using slashes_vetted by auto
  from removeDuplicateTags_spec[OF l(1) this] show ?thesis using l n r(2) by auto
qed

section \<open>Binding\<close>

text \<open>
  What the driver relies on. \<open>bound w r\<close> are the tags the resource r has in state w, own or
  inherited: no call takes a tag away, a listed tag is bound, a tag is bound after its creation
  and the wait for it have succeeded, and a creation is refused with a conflict only when the tag
  is bound. Ranging over a map visits all its keys.
\<close>

definition grows :: "('w \<Rightarrow> string \<Rightarrow> string set) \<Rightarrow> ('w, 'a) eff \<Rightarrow> bool" where
  "grows bound m = (\<forall>w r. bound w r \<subseteq> bound (snd (m w)) r)"

definition tag_api_ok :: "'w TagApi \<Rightarrow> ('w \<Rightarrow> string \<Rightarrow> string set) \<Rightarrow> bool" where
  "tag_api_ok api bound =
     ((\<forall>ts. set (ta_order api ts) = set ts)
      \<and> (\<forall>e. grows bound (ta_values_client api e) \<and> grows bound (ta_bindings_client api e)
            \<and> grows bound (ta_GetNamespacedTagValue api e) \<and> grows bound (ta_op_Wait api e))
      \<and> (\<forall>r i t. grows bound (ta_next_effective api r i) \<and> grows bound (ta_CreateTagBinding api r t))
      \<and> grows bound (ta_limiter_wait api) \<and> (\<forall>w r. bound w r \<subseteq> bound (ta_close api w) r)
      \<and> (\<forall>r i w t w'. ta_next_effective api r i w = (Inr (Some t), w') \<longrightarrow> t \<in> bound w' r)
      \<and> (\<forall>r t w op w1 w2. ta_CreateTagBinding api r t w = (Inr op, w1) \<longrightarrow> ta_op_Wait api op w1 = (Inr (), w2) \<longrightarrow>
            t \<in> bound w2 r)
      \<and> (\<forall>r t w e w'. ta_CreateTagBinding api r t w = (Inl e, w') \<longrightarrow> as_apierror e = Some 409 \<longrightarrow> t \<in> bound w' r))"

lemma growsD: "grows bound m \<Longrightarrow> m w = (x, w') \<Longrightarrow> bound w r \<subseteq> bound w' r"
  unfolding grows_def by (metis snd_conv)

lemma tag_api_okD:
  assumes "tag_api_ok api bound"
  shows "set (ta_order api ts) = set ts" "grows bound (ta_values_client api e)" "grows bound (ta_bindings_client api e)"
    "grows bound (ta_GetNamespacedTagValue api e)" "grows bound (ta_op_Wait api e)" "grows bound (ta_next_effective api r i)"
    "grows bound (ta_CreateTagBinding api r t)" "grows bound (ta_limiter_wait api)" "bound w r \<subseteq> bound (ta_close api w) r"
    "ta_next_effective api r i w = (Inr (Some t), w') \<Longrightarrow> t \<in> bound w' r"
    "ta_CreateTagBinding api r t w = (Inr op, w1) \<Longrightarrow> ta_op_Wait api op w1 = (Inr (), w2) \<Longrightarrow> t \<in> bound w2 r"
    "ta_CreateTagBinding api r t w = (Inl err, w') \<Longrightarrow> as_apierror err = Some 409 \<Longrightarrow> t \<in> bound w' r"
  using assms by (auto simp: tag_api_ok_def)

lemma grows_bind: "grows bound m \<Longrightarrow> (\<And>a. grows bound (f a)) \<Longrightarrow> grows bound (bind m f)"
  by (fastforce simp: grows_def bind_def split: prod.splits sum.splits)

lemma grows_attempt: "grows bound m \<Longrightarrow> (\<And>r. grows bound (f r)) \<Longrightarrow> grows bound (attempt m f)"
  by (fastforce simp: grows_def attempt_def split: prod.splits)

lemma grows_basic [simp]: "grows bound (ret a)" "grows bound (fail e)" "grows bound (lift x)"
  by (simp_all add: grows_def)

lemma bind_tags_flag: "bind_tags api r ts True w \<noteq> (Inr False, w')"
  by (induction ts arbitrary: w) (auto simp: attempt_eq split: sum.splits if_splits)

lemma bind_tags_grows: "tag_api_ok api bound \<Longrightarrow> grows bound (bind_tags api r ts f)"
  by (induction ts arbitrary: f)
    (auto intro!: grows_attempt simp: tag_api_okD split: sum.splits)

lemma bind_tags_bound:
  assumes ok: "tag_api_ok api bound"
  shows "bind_tags api r ts False w = (Inr False, w') \<Longrightarrow> set ts \<subseteq> bound w' r"
proof (induction ts arbitrary: w)
  case Nil
  then show ?case by simp
next
  case (Cons t ts)
  obtain w1 where l: "ta_limiter_wait api w = (Inr (), w1)"
    using Cons.prems by (cases "ta_limiter_wait api w"; cases "fst (ta_limiter_wait api w)")
      (auto simp: attempt_eq bind_tags_flag)
  have "\<exists>w2. t \<in> bound w2 r \<and> bind_tags api r ts False w2 = (Inr False, w')"
  proof (cases "ta_CreateTagBinding api r t w1")
    case (Pair x w2)
    show ?thesis
    proof (cases x)
      case (Inl e)
      then have "as_apierror e = Some 409" "bind_tags api r ts False w2 = (Inr False, w')"
        using Cons.prems l Pair by (auto simp: attempt_eq bind_tags_flag split: if_splits)
      then show ?thesis using tag_api_okD(12)[OF ok] Pair Inl by blast
    next
      case (Inr op)
      obtain y w3 where y: "ta_op_Wait api op w2 = (y, w3)" by force
      then have "y = Inr ()" "bind_tags api r ts False w3 = (Inr False, w')"
        using Cons.prems l Pair Inr by (auto simp: attempt_eq bind_tags_flag split: sum.splits)
      then show ?thesis using tag_api_okD(11)[OF ok] Pair Inr y by blast
    qed
  qed
  then obtain w2 where "t \<in> bound w2 r" and b: "bind_tags api r ts False w2 = (Inr False, w')" by blast
  then have "t \<in> bound w' r" using growsD[OF bind_tags_grows[OF ok] b] by blast
  then show ?case using Cons.IH[OF b] by simp
qed

lemma effective_grows: "tag_api_ok api bound \<Longrightarrow> grows bound (effective_tags api r i n acc)"
  by (induction n arbitrary: i acc)
    (auto intro!: grows_attempt simp: tag_api_okD split: sum.splits option.splits)

lemma effective_bound:
  assumes ok: "tag_api_ok api bound"
  shows "effective_tags api r i n acc w = (Inr ts, w') \<Longrightarrow> set (keys acc) \<subseteq> bound w r \<Longrightarrow> set (keys ts) \<subseteq> bound w' r"
proof (induction n arbitrary: i acc w)
  case 0
  then show ?case by simp
next
  case (Suc n)
  obtain x w1 where x: "ta_next_effective api r i w = (x, w1)" by force
  have g: "set (keys acc) \<subseteq> bound w1 r" using Suc.prems(2) growsD[OF tag_api_okD(6)[OF ok] x] by blast
  show ?case
  proof (cases "\<exists>t. x = Inr (Some t)")
    case True
    then obtain t where t: "x = Inr (Some t)" by blast
    then have "set (keys (minsert t () acc)) \<subseteq> bound w1 r" using g tag_api_okD(10)[OF ok] x by simp
    then show ?thesis using Suc.IH Suc.prems(1) x t by (auto simp: attempt_eq)
  next
    case False
    then show ?thesis using Suc.prems(1) x g by (auto simp: attempt_eq split: sum.splits option.splits)
  qed
qed

lemma extractTags_vetted:
  assumes "extractTags api req params w = (Inr tags, w')"
  shows "go_map tags \<and> (\<forall>t \<in> set (keys tags). vetted t)"
proof (cases "\<exists>s. mlookup params ParameterKeyResourceTags = Some s \<and> s \<noteq> []")
  case True
  then obtain s where "ValidateResourceTags api (req @ '' create request'') s w = (Inr tags, w')" "s \<noteq> []"
    using assms by (auto simp: extractTags_def)
  from ValidateResourceTags_spec[OF this] show ?thesis using slashes_vetted by (auto simp: least_tags_def)
next
  case False
  then show ?thesis using assms by (auto simp: extractTags_def ValidateResourceTags_def split: option.splits)
qed

lemma getTagsToBind_bound:
  assumes ok: "tag_api_ok api bound" and g: "getTagsToBind api r tags w = (Inr refined, w')"
  shows "set (keys tags) - set (keys refined) \<subseteq> bound w' r"
proof -
  obtain eff where e: "effective_tags api r 0 maxTagsPerResource [] w = (Inr eff, w')"
    and f: "refined = filter (\<lambda>(tag, _). mlookup eff tag = None) tags"
    using g by (auto simp: getTagsToBind_def getEffectiveTagList_def bind_Inr_iff)
  have "set (keys eff) \<subseteq> bound w' r" using effective_bound[OF ok e] by simp
  moreover have "set (keys tags) - set (keys refined) \<subseteq> set (keys eff)"
    using mlookup_None_keys[of eff] by (force simp: f keys_def)
  ultimately show ?thesis by blast
qed

lemma createTagBindings_bound:
  assumes ok: "tag_api_ok api bound" and c: "createTagBindings api r tags w = (Inr (), w')"
  shows "set (keys tags) \<subseteq> bound w' r \<and> bound w r \<subseteq> bound w' r"
proof (cases "tags = []")
  case True
  then show ?thesis using c by (simp add: createTagBindings_def)
next
  case False
  then have b: "bind_tags api r (ta_order api (keys tags)) False w = (Inr False, w')"
    using c by (auto simp: createTagBindings_def bind_Inr_iff split: if_splits)
  show ?thesis
    using bind_tags_bound[OF ok b] growsD[OF bind_tags_grows[OF ok] b] tag_api_okD(1)[OF ok] by auto
qed

text \<open>Removal of duplicate tags. When every tag has a slash, the function returns, and what remains
  does not depend on the order of the map: of the tags with the same parent and key exactly the one with the least value
  in byte order stays, so that no key keeps two values and no key is lost.\<close>

theorem removeDuplicateTags_least:
  assumes "go_map src" "\<forall>t \<in> set (keys src). vetted t"
  shows "\<exists>m. removeDuplicateTags src = Inr m \<and> set (keys m) = least_tags (set (keys src))
    \<and> tag_key ` set (keys m) = tag_key ` set (keys src) \<and> inj_on tag_key (set (keys m))"
proof -
  let ?T = "set (keys src)"
  obtain m where m: "removeDuplicateTags src = Inr m" "set (keys m) = least_tags ?T"
    using removeDuplicateTags_spec[OF assms] by blast
  have "\<exists>u \<in> least_tags ?T. tag_key u = tag_key t" if t: "t \<in> ?T" for t
  proof -
    let ?S = "{u \<in> ?T. tag_key u = tag_key t}"
    have fin: "finite ?S" "?S \<noteq> {}" using t by auto
    have "Lattices_Big.Min ?S \<in> least_tags ?T"
      using Min_in[OF fin] Min_le[OF fin(1)] by (simp add: least_tags_def)
    moreover have "tag_key (Lattices_Big.Min ?S) = tag_key t" using Min_in[OF fin] by simp
    ultimately show ?thesis by blast
  qed
  then have "tag_key ` ?T \<subseteq> tag_key ` least_tags ?T" by (metis image_eqI image_subsetI)
  then have "tag_key ` least_tags ?T = tag_key ` ?T" by (auto simp: least_tags_def)
  moreover have "inj_on tag_key (least_tags ?T)"
    by (rule inj_onI) (simp add: least_tags_def order_antisym)
  ultimately show ?thesis using m by auto
qed

theorem removeDuplicateTags_least_witness:
  "\<exists>m. removeDuplicateTags [(''1/env/test'', ()), (''1/env/prod'', ())] = Inr m
     \<and> set (keys m) = least_tags {''1/env/test'', ''1/env/prod''}"
proof -
  have "go_map [(''1/env/test'', ()), (''1/env/prod'', ())]" by (simp add: go_map_def)
  from removeDuplicateTags_least[OF this] show ?thesis by (auto simp: vetted_def)
qed

text \<open>Validation of tags. When \<open>ValidateResourceTags\<close> accepts a list, it has at most fifty tags, each
  with exactly two slashes after trimming and each found by the API, and the result holds, for each
  key the list names, its least tag.\<close>

theorem ValidateResourceTags_correct:
  assumes "ValidateResourceTags api tagsSource s w = (Inr tags, w')" "s \<noteq> []"
  shows "length (split CHR '','' s) \<le> 50
    \<and> set (keys tags) = least_tags (trimSpace ` set (split CHR '','' s))
    \<and> (\<forall>p \<in> set (split CHR '','' s). slashes (trimSpace p) = 2 \<and> tag_exists api (trimSpace p))"
  using ValidateResourceTags_spec[OF assms] by blast

text \<open>An API on a list of bindings: each resource has its own, no tag is inherited.\<close>

definition example_tag_api :: "(string \<times> string) list TagApi" where
  "example_tag_api = \<lparr>ta_order = rev, ta_values_client = (\<lambda>_. ret ()), ta_bindings_client = (\<lambda>_. ret ()), ta_close = (\<lambda>w. w),
     ta_GetNamespacedTagValue = (\<lambda>t. ret ()),
     ta_next_effective = (\<lambda>r i w. let ts = map snd (filter (\<lambda>b. fst b = r) w) in
        if i < length ts then (Inr (Some (ts ! i)), w) else (Inl (ErrText ''no more items in iterator''), w)),
     ta_limiter_wait = ret (),
     ta_CreateTagBinding = (\<lambda>r t w. if (r, t) \<in> set w then (Inl (ApiErr AlreadyExists 409 ''exists'' (ErrText ''exists'')), w)
        else (Inr ''op'', (r, t) # w)),
     ta_op_Wait = (\<lambda>_. ret ())\<rparr>"

theorem ValidateResourceTags_correct_witness:
  "\<exists>tags w'. ValidateResourceTags example_tag_api ''cmd'' ''1/env/test, 1/env/prod'' [] = (Inr tags, w')
     \<and> set (keys tags) = least_tags {''1/env/test'', ''1/env/prod''}"
proof -
  let ?x = "ValidateResourceTags example_tag_api ''cmd'' ''1/env/test, 1/env/prod'' []"
  have c: "case fst ?x of Inl e \<Rightarrow> False | Inr r \<Rightarrow> True" by code_simp
  then obtain tags w' where x: "?x = (Inr tags, w')" by (cases "?x") (auto split: sum.splits)
  have "trimSpace ` set (split CHR '','' ''1/env/test, 1/env/prod'') = {''1/env/test'', ''1/env/prod''}" by code_simp
  then show ?thesis using ValidateResourceTags_correct[OF x] x by auto
qed

text \<open>C31: Attached tags are bound. When \<open>AttachResourceTags\<close> succeeds, every tag that remains after the tags
  of the command line and of the request are merged is bound to the resource, whether the call
  created the binding, found it in the listing (which is cut after fifty tags or its first error)
  or met a conflict, and whatever the order in which Go ranges over the tags.\<close>

theorem attach_binds:
  assumes "AttachResourceTags api tm rscType nm loc req params w = (Inr (), w')" "tag_api_ok api bound"
    and "go_map (tm_tags tm)" "\<forall>t \<in> set (keys (tm_tags tm)). vetted t"
  shows "\<exists>tags w1. extractTags api req params w = (Inr tags, w1) \<and>
    (\<forall>full. fullResourceName rscType (tm_Project tm) loc nm = Inr full \<longrightarrow>
       least_tags (set (keys (tm_tags tm)) \<union> set (keys tags)) \<subseteq> bound w' full)"
proof -
  note ok = assms(2)
  obtain tags w1 where e: "extractTags api req params w = (Inr tags, w1)"
    using assms(1) by (auto simp: AttachResourceTags_def bind_Inr_iff)
  show ?thesis
  proof (cases "tm_tags tm = [] \<and> tags = []")
    case True
    then show ?thesis using e by (auto simp: least_tags_def)
  next
    case False
    have t: "go_map tags \<and> (\<forall>t \<in> set (keys tags). vetted t)" using extractTags_vetted[OF e] .
    obtain m where m: "mergeTags (tm_tags tm) tags = Inr m"
      "set (keys m) = least_tags (set (keys (tm_tags tm)) \<union> set (keys tags))"
      using mergeTags_spec[of tags "tm_tags tm"] t assms(4) by auto
    let ?c = "ta_bindings_client api (''https://'' @ loc @ ''-'' @ resourceManagerHostSubPath)"
    obtain full refined w2 w3 w4 where
      f: "fullResourceName rscType (tm_Project tm) loc nm = Inr full" and g: "getTagsToBind api full m w2 = (Inr refined, w3)"
      and c: "(if refined = [] then ret () else bind (createTagBindings api full refined) (\<lambda>_.
          bind (getEffectiveTagList api nm) (\<lambda>_. ret ()))) w3 = (Inr (), w4)" and w': "w' = ta_close api w4"
      using assms(1) False by (auto simp: AttachResourceTags_def bind_Inr_iff e m(1) lift_Inr with_client_Inr)
    have "set (keys refined) \<subseteq> bound w4 full \<and> bound w3 full \<subseteq> bound w4 full"
    proof (cases "refined = []")
      case True
      then show ?thesis using c by simp
    next
      case False
      then obtain w5 eff where "createTagBindings api full refined w3 = (Inr (), w5)"
        "effective_tags api nm 0 maxTagsPerResource [] w5 = (Inr eff, w4)"
        using c by (auto simp: bind_Inr_iff getEffectiveTagList_def)
      then show ?thesis
        using createTagBindings_bound[OF ok] growsD[OF effective_grows[OF ok]] by blast
    qed
    then have "set (keys m) \<subseteq> bound w' full"
      using getTagsToBind_bound[OF ok g] tag_api_okD(9)[OF ok, of w4 full] w' by blast
    then show ?thesis using e f m(2) by auto
  qed
qed

lemma listed: "i < length (filter (\<lambda>b. fst b = r) w) \<Longrightarrow> (r, snd (filter (\<lambda>b. fst b = r) w ! i)) \<in> set w"
  by (drule nth_mem) (cases "filter (\<lambda>b. fst b = r) w ! i", auto)

theorem attach_binds_witness:
  "\<exists>w'. AttachResourceTags example_tag_api \<lparr>tm_Project = ''p'', tm_tags = [(''1/env/prod'', ()), (''1/team/a'', ())]\<rparr>
       FilestoreInstance ''i'' ''us-c1-a'' ''r'' [(''resource-tags'', ''1/env/test'')] [] = (Inr (), w')
     \<and> (''//file.googleapis.com/projects/p/locations/us-c1-a/instances/i'', ''1/team/a'') \<in> set w'"
proof -
  let ?tm = "\<lparr>tm_Project = ''p'', tm_tags = [(''1/env/prod'', ()), (''1/team/a'', ())]\<rparr>"
  let ?n = "''//file.googleapis.com/projects/p/locations/us-c1-a/instances/i''"
  let ?x = "AttachResourceTags example_tag_api ?tm FilestoreInstance ''i'' ''us-c1-a'' ''r'' [(''resource-tags'', ''1/env/test'')] []"
  let ?bound = "\<lambda>w r. {t. (r, t) \<in> set w}"
  have "case fst ?x of Inl e \<Rightarrow> False | Inr r \<Rightarrow> True" by code_simp
  then obtain w' where x: "?x = (Inr (), w')" by (cases "?x") (auto split: sum.splits)
  have ok: "tag_api_ok example_tag_api ?bound"
    by (auto simp: tag_api_ok_def example_tag_api_def grows_def Let_def listed split: if_splits)
  have f: "fullResourceName FilestoreInstance (tm_Project ?tm) ''us-c1-a'' ''i'' = Inr ?n"
    by (simp add: fullResourceName_def)
  obtain tags w1 where e: "extractTags example_tag_api ''r'' [(''resource-tags'', ''1/env/test'')] [] = (Inr tags, w1)"
    and l: "least_tags (set (keys (tm_tags ?tm)) \<union> set (keys tags)) \<subseteq> ?bound w' ?n"
    using attach_binds[OF x ok] f by (auto simp: go_map_def vetted_def)
  have "extractTags example_tag_api ''r'' [(''resource-tags'', ''1/env/test'')] [] = (Inr [(''1/env/test'', ())], [])"
    by code_simp
  then have tags: "tags = [(''1/env/test'', ())]" using e by simp
  have k: "tag_key ''1/team/a'' \<noteq> tag_key ''1/env/prod''" "tag_key ''1/team/a'' \<noteq> tag_key ''1/env/test''" by code_simp+
  have "''1/team/a'' \<in> least_tags (set (keys (tm_tags ?tm)) \<union> set (keys tags))"
    using k by (auto simp: least_tags_def tags)
  then show ?thesis using l x by auto
qed

end
