(* ===== verification/Pairwise.thy ===== *)
theory Pairwise
  imports Main "HOL-Library.Multiset"
begin

text \<open>
  Collections of which no two members conflict. The members are those of a multiset, so that two equal
  members count as two: the operations that run on a service, the address ranges of the instances it has.
\<close>

definition unrelated :: "('a \<Rightarrow> 'a \<Rightarrow> bool) \<Rightarrow> 'a multiset \<Rightarrow> bool" where
  "unrelated C R = (\<forall>t \<in># R. \<forall>u \<in># R - {#t#}. \<not> C t u)"

lemma unrelated_empty [simp]: "unrelated C {#}"
  by (simp add: unrelated_def)

lemma unrelated_mono:
  assumes "unrelated C R" "R' \<subseteq># R"
  shows "unrelated C R'"
proof -
  have "R' - {#t#} \<subseteq># R - {#t#}" for t using assms(2) by (auto simp: subseteq_mset_def intro: diff_le_mono)
  with assms show ?thesis unfolding unrelated_def using mset_subset_eqD by metis
qed

lemma unrelated_add:
  assumes "unrelated C R" "\<And>u. u \<in># R \<Longrightarrow> \<not> C t u" "\<And>t u. C t u \<Longrightarrow> C u t"
  shows "unrelated C (add_mset t R)"
  unfolding unrelated_def
proof (intro ballI)
  fix a b assume a: "a \<in># add_mset t R" and b: "b \<in># add_mset t R - {#a#}"
  show "\<not> C a b"
  proof (cases "a = t")
    case True
    with b assms(2) show ?thesis by simp
  next
    case False
    then have "b = t \<or> b \<in># R - {#a#}" "a \<in># R" using a b by auto
    then show ?thesis using assms(1) assms(2)[of a] assms(3)[of a t] by (auto simp: unrelated_def)
  qed
qed

end
