(* ===== verification/Ops_Interleaving.thy ===== *)
theory Ops_Interleaving
  imports Ops_Manager Pairwise
begin

text \<open>
  The operations manager at work: any number of requests call its entry points, in any order, while the
  service completes operations at any time, also between the calls of one entry point. The locale
  \<open>operation_log\<close> states what the manager relies on in the service; the entry points are shown to keep
  the running operations free of conflicts, by the rules for the actions they are composed of.
\<close>

section \<open>Running operations without conflicts\<close>

definition targets_conflict :: "string \<Rightarrow> string \<Rightarrow> bool" where
  "targets_conflict t u = (target_instance t = target_instance u \<and> (IsInstanceTarget t \<or> IsInstanceTarget u \<or> t = u))"

definition no_conflicts :: "string multiset \<Rightarrow> bool" where
  "no_conflicts R = unrelated targets_conflict R"

lemma targets_conflict_sym: "targets_conflict t u = targets_conflict u t"
  by (auto simp: targets_conflict_def)

lemma no_conflicts_mono: "no_conflicts R \<Longrightarrow> R' \<subseteq># R \<Longrightarrow> no_conflicts R'"
  unfolding no_conflicts_def by (rule unrelated_mono)

lemma no_conflicts_add:
  "no_conflicts R \<Longrightarrow> (\<And>u. u \<in># R \<Longrightarrow> \<not> targets_conflict t u) \<Longrightarrow> no_conflicts (add_mset t R)"
  unfolding no_conflicts_def using targets_conflict_sym by (intro unrelated_add) auto

lemma no_conflicts_empty [simp]: "no_conflicts {#}"
  by (simp add: no_conflicts_def)

text \<open>\<open>known R ops\<close>: the list that an entry point has got holds every operation that still runs, and
  nothing but operations on instances and shares.\<close>

definition known :: "string multiset \<Rightarrow> OpInfo list \<Rightarrow> bool" where
  "known R ops = (set_mset R \<subseteq> oi_Target ` set ops \<and> (\<forall>op \<in> set ops. target_instance (oi_Target op) \<noteq> None))"

lemma known_mono: "known R ops \<Longrightarrow> R' \<subseteq># R \<Longrightarrow> known R' ops"
  unfolding known_def using set_mset_mono by blast

lemma instance_op_free:
  assumes "known R ops" "parts_ok i" "\<forall>op \<in> set ops. \<not> on_instance (uri_of i) op" "u \<in># R"
  shows "\<not> targets_conflict (uri_of i) u"
proof -
  obtain op where op: "op \<in> set ops" "u = oi_Target op" using assms(1,4) by (auto simp: known_def)
  then have "target_instance u \<noteq> Some (mi_Project i, mi_Location i, mi_Name i)"
    using assms(1,3) on_instance_exact[OF assms(2), of op] by (auto simp: known_def)
  then show ?thesis using uri_of_target[OF assms(2)] by (simp add: targets_conflict_def)
qed

lemma share_op_free:
  assumes "known R ops" "parts_ok p" "CHR ''/'' \<notin> set (sh_Name s)" "sh_Parent s = Some p" "GenerateShareURI (Some s) = Inr v"
    and "\<forall>op \<in> set ops. oi_Target op \<noteq> uri_of p \<and> oi_Target op \<noteq> v" "u \<in># R"
  shows "\<not> targets_conflict v u"
proof -
  obtain op where "op \<in> set ops" "u = oi_Target op" using assms(1,7) by (auto simp: known_def)
  then have "u \<noteq> uri_of p" "u \<noteq> v" using assms(6) by auto
  moreover note v = share_uri_target[OF assms(2,3,4,5)]
  ultimately show ?thesis
    using instance_target_uri[OF _ _ assms(2), of u] by (auto simp: targets_conflict_def)
qed

lemma search_exact:
  "case no_op_matching what sep (Inr u) P ops of
     Inr x \<Rightarrow> \<forall>op \<in> set ops. \<not> P u op
   | Inl e \<Rightarrow> (\<exists>op \<in> set ops. P u op) \<and> (\<exists>m. e = StatusErr Aborted m)"
proof (cases "first_match (P u) ops")
  case None
  then show ?thesis using first_match_None[of "P u" ops] by (simp add: no_op_matching_def)
next
  case (Some op)
  then show ?thesis using first_match_Some[OF Some] by (auto simp: no_op_matching_def found_running_def)
qed

text \<open>C16: The checks of the manager find the conflicts, and only these. For operations on instances and
  shares, the searches that an instance workflow and a share workflow make in the targets succeed
  exactly when the operation to start conflicts with none of them; otherwise the workflow is refused
  with Aborted.\<close>

theorem workflow_checks_exact:
  assumes "parts_ok p" "\<forall>op \<in> set ops. target_instance (oi_Target op) \<noteq> None"
    and "sh_Parent s = Some p" "CHR ''/'' \<notin> set (sh_Name s)" "GenerateShareURI (Some s) = Inr v"
  shows "(case verifyNoRunningInstanceOrShareOpsForInstance p ops of
        Inr u \<Rightarrow> \<forall>op \<in> set ops. \<not> targets_conflict (uri_of p) (oi_Target op)
      | Inl e \<Rightarrow> (\<exists>op \<in> set ops. targets_conflict (uri_of p) (oi_Target op)) \<and> (\<exists>m. e = StatusErr Aborted m))
    \<and> (case rbind (verifyNoRunningInstanceOps p ops) (\<lambda>_. verifyNoRunningShareOps s ops) of
        Inr u \<Rightarrow> \<forall>op \<in> set ops. \<not> targets_conflict v (oi_Target op)
      | Inl e \<Rightarrow> (\<exists>op \<in> set ops. targets_conflict v (oi_Target op)) \<and> (\<exists>m. e = StatusErr Aborted m))"
proof -
  note uri = parts_ok_uri[OF assms(1)] and ti = uri_of_target[OF assms(1)] and sv = share_uri_target[OF assms(1,4,3,5)]
  have i: "on_instance (uri_of p) op = targets_conflict (uri_of p) (oi_Target op)" if "op \<in> set ops" for op
    using on_instance_exact[OF assms(1)] assms(2) that ti by (auto simp: targets_conflict_def)
  have c: "targets_conflict v t = (t = uri_of p \<or> t = v)" for t
  proof -
    have "(target_instance t = target_instance v \<and> IsInstanceTarget t) = (t = uri_of p)"
      using sv ti instance_target_uri[OF _ _ assms(1), of t] by metis
    then show ?thesis using sv unfolding targets_conflict_def by metis
  qed
  note I = search_exact[where what = "''instance''" and sep = "'',''" and u = "uri_of p" and P = on_instance and ops = ops]
  note J = search_exact[where what = "''instance''" and sep = "[]" and u = "uri_of p" and P = "\<lambda>uri op. oi_Target op = uri" and ops = ops]
  note S = search_exact[where what = "''share''" and sep = "[]" and u = v and P = "\<lambda>uri op. oi_Target op = uri" and ops = ops]
  have 1: "verifyNoRunningInstanceOrShareOpsForInstance p ops = no_op_matching ''instance'' '','' (Inr (uri_of p)) on_instance ops"
    unfolding verifyNoRunningInstanceOrShareOpsForInstance_def uri ..
  have 2: "verifyNoRunningInstanceOps p ops = no_op_matching ''instance'' [] (Inr (uri_of p)) (\<lambda>uri op. oi_Target op = uri) ops"
    unfolding verifyNoRunningInstanceOps_def uri ..
  have 3: "verifyNoRunningShareOps s ops = no_op_matching ''share'' [] (Inr v) (\<lambda>uri op. oi_Target op = uri) ops"
    unfolding verifyNoRunningShareOps_def assms(5) ..
  show ?thesis
  proof
    show "case verifyNoRunningInstanceOrShareOpsForInstance p ops of
        Inr u \<Rightarrow> \<forall>op \<in> set ops. \<not> targets_conflict (uri_of p) (oi_Target op)
      | Inl e \<Rightarrow> (\<exists>op \<in> set ops. targets_conflict (uri_of p) (oi_Target op)) \<and> (\<exists>m. e = StatusErr Aborted m)"
      unfolding 1 using I i by (cases "no_op_matching ''instance'' '','' (Inr (uri_of p)) on_instance ops") simp_all
    show "case rbind (verifyNoRunningInstanceOps p ops) (\<lambda>_. verifyNoRunningShareOps s ops) of
        Inr u \<Rightarrow> \<forall>op \<in> set ops. \<not> targets_conflict v (oi_Target op)
      | Inl e \<Rightarrow> (\<exists>op \<in> set ops. targets_conflict v (oi_Target op)) \<and> (\<exists>m. e = StatusErr Aborted m)"
    proof (cases "verifyNoRunningInstanceOps p ops")
      case (Inl e)
      with J show ?thesis unfolding 2 c by auto
    next
      case (Inr u)
      with J S show ?thesis unfolding 2 3 c by (cases "no_op_matching ''share'' [] (Inr v) (\<lambda>uri op. oi_Target op = uri) ops") auto
    qed
  qed
qed

theorem workflow_checks_exact_witness:
  "(\<exists>m. verifyNoRunningInstanceOrShareOpsForInstance (example_parent ''b'')
      [\<lparr>oi_Id = ''o'', oi_Type = ShareCreate, oi_Target = ''projects/p/locations/us-c1/instances/b/shares/pvd''\<rparr>]
      = Inl (StatusErr Aborted m))
    \<and> rbind (verifyNoRunningInstanceOps (example_parent ''b'')
          [\<lparr>oi_Id = ''o'', oi_Type = ShareCreate, oi_Target = ''projects/p/locations/us-c1/instances/b/shares/pvd''\<rparr>])
        (\<lambda>_. verifyNoRunningShareOps example_child
          [\<lparr>oi_Id = ''o'', oi_Type = ShareCreate, oi_Target = ''projects/p/locations/us-c1/instances/b/shares/pvd''\<rparr>])
      = Inr ()"
proof -
  let ?t = "''projects/p/locations/us-c1/instances/b/shares/pvd''"
  let ?ops = "[\<lparr>oi_Id = ''o'', oi_Type = ShareCreate, oi_Target = ?t\<rparr>]"
  have p: "parts_ok (example_parent ''b'')" "sh_Parent example_child = Some (example_parent ''b'')"
    "CHR ''/'' \<notin> set (sh_Name example_child)"
    by (simp_all add: parts_ok_def example_unfold)
  have v: "GenerateShareURI (Some example_child) = Inr ''projects/p/locations/us-c1/instances/b/shares/pvc''"
    by code_simp
  have t: "target_instance ?t \<noteq> None" "targets_conflict (uri_of (example_parent ''b'')) ?t"
    "\<not> targets_conflict ''projects/p/locations/us-c1/instances/b/shares/pvc'' ?t"
    by code_simp+
  from workflow_checks_exact[OF p(1) _ p(2,3) v, of ?ops] t show ?thesis
    by (auto split: sum.splits)
qed

section \<open>Actions\<close>

text \<open>Seen through \<open>running\<close>, an action is quiet when it starts nothing; it is safe with a list of operations
  when it keeps the running ones free of conflicts as long as the list knows them; it is serial when it
  does so always.\<close>

named_theorems serial_intros \<open>introduction rules of quiet and safe\<close>

definition quiet :: "('s \<Rightarrow> string multiset) \<Rightarrow> ('s, 'a) eff \<Rightarrow> bool" where
  "quiet running m = (\<forall>w. running (snd (m w)) \<subseteq># running w)"

definition safe :: "('s \<Rightarrow> string multiset) \<Rightarrow> OpInfo list \<Rightarrow> ('s, 'a) eff \<Rightarrow> bool" where
  "safe running ops m = (\<forall>w. no_conflicts (running w) \<longrightarrow> known (running w) ops \<longrightarrow> no_conflicts (running (snd (m w))))"

definition serial :: "('s \<Rightarrow> string multiset) \<Rightarrow> ('s, 'a) eff \<Rightarrow> bool" where
  "serial running m = (\<forall>w. no_conflicts (running w) \<longrightarrow> no_conflicts (running (snd (m w))))"

lemma quiet_basic [serial_intros, simp]: "quiet running (ret a)" "quiet running (fail e)" "quiet running (lift r)" "quiet running (Pair r)"
  by (simp_all add: quiet_def)

lemma quiet_attempt [serial_intros]: "quiet running m \<Longrightarrow> (\<And>r. quiet running (f r)) \<Longrightarrow> quiet running (attempt m f)"
proof -
  assume q: "quiet running m" "\<And>r. quiet running (f r)"
  have "running (snd (attempt m f w)) \<subseteq># running w" for w
  proof -
    obtain r w1 where m: "m w = (r, w1)" by force
    have "running w1 \<subseteq># running w" using q(1) unfolding quiet_def by (metis m snd_conv)
    moreover have "running (snd (f r w1)) \<subseteq># running w1" using q(2) by (simp add: quiet_def)
    ultimately show ?thesis by (simp add: attempt_def m)
  qed
  then show ?thesis by (simp add: quiet_def)
qed

lemma bind_attempt: "bind m f = attempt m (case_sum fail f)" "bind_err h m f = attempt m (case_sum (\<lambda>e. fail (rewrite_err h e)) f)"
  by (auto simp: fun_eq_iff bind_def bind_err_def attempt_def split: prod.split sum.split)

lemma quiet_bind [serial_intros]:
  "quiet running m \<Longrightarrow> (\<And>a. quiet running (f a)) \<Longrightarrow> quiet running (bind m f)"
  "quiet running m \<Longrightarrow> (\<And>a. quiet running (f a)) \<Longrightarrow> quiet running (bind_err h m f)"
  unfolding bind_attempt by (auto intro!: quiet_attempt split: sum.split)

lemma safe_quiet: "quiet running m \<Longrightarrow> safe running ops m"
  unfolding quiet_def safe_def using no_conflicts_mono by blast

lemma safe_basic [serial_intros, simp]: "safe running ops (ret a)" "safe running ops (fail e)" "safe running ops (Pair r)"
  by (simp_all add: safe_quiet)

lemma safe_attempt [serial_intros]:
  assumes "quiet running m" "\<And>r. safe running ops (f r)"
  shows "safe running ops (attempt m f)"
  unfolding safe_def
proof (intro allI impI)
  fix w assume w: "no_conflicts (running w)" "known (running w) ops"
  obtain r w1 where m: "m w = (r, w1)" by force
  then have "running w1 \<subseteq># running w" using assms(1) unfolding quiet_def by (metis snd_conv)
  then show "no_conflicts (running (snd (attempt m f w)))"
    using assms(2)[of r] no_conflicts_mono[OF w(1)] known_mono[OF w(2)] by (simp add: safe_def attempt_def m)
qed

lemma safe_bind [serial_intros]:
  "quiet running m \<Longrightarrow> (\<And>a. safe running ops (f a)) \<Longrightarrow> safe running ops (bind m f)"
  "quiet running m \<Longrightarrow> (\<And>a. safe running ops (f a)) \<Longrightarrow> safe running ops (bind_err h m f)"
  unfolding bind_attempt by (auto intro!: safe_attempt split: sum.split)

lemma safe_option [serial_intros]:
  "safe running ops a \<Longrightarrow> (\<And>x. safe running ops (f x)) \<Longrightarrow> safe running ops (case x of None \<Rightarrow> a | Some x \<Rightarrow> f x)"
  by (simp split: option.split)

text \<open>What runs after an operation was started must be quiet.\<close>

lemma safe_then:
  assumes "safe running ops m" "\<And>r. quiet running (f r)"
  shows "safe running ops (attempt m f)"
  unfolding safe_def
proof (intro allI impI)
  fix w assume w: "no_conflicts (running w)" "known (running w) ops"
  obtain r w1 where m: "m w = (r, w1)" by force
  have "no_conflicts (running w1)" using assms(1) w unfolding safe_def by (metis m snd_conv)
  moreover have "running (snd (f r w1)) \<subseteq># running w1" using assms(2) by (simp add: quiet_def)
  ultimately show "no_conflicts (running (snd (attempt m f w)))" by (simp add: attempt_def m no_conflicts_mono)
qed

lemma safe_bind_then: "safe running ops m \<Longrightarrow> (\<And>a. quiet running (f a)) \<Longrightarrow> safe running ops (bind m f)"
  unfolding bind_attempt by (auto intro!: safe_then split: sum.split)

text \<open>The same actions on the world of the driver\<close>

lemma quiet_on_world [serial_intros]: "quiet running m \<Longrightarrow> quiet (\<lambda>d. running (world d)) (on_world m)"
  by (simp add: quiet_def on_world_def split: prod.split) (metis snd_conv)

lemma safe_on_world [serial_intros]: "safe running ops m \<Longrightarrow> safe (\<lambda>d. running (world d)) ops (on_world m)"
  by (simp add: safe_def on_world_def split: prod.split) (metis snd_conv)

lemma quiet_allocate [serial_intros, simp]: "quiet (\<lambda>d. running (world d)) (allocate cidr n reserved)"
  by (simp add: quiet_def allocate_def split: option.split prod.split)

lemma safe_with_reserved [serial_intros]:
  assumes "quiet (\<lambda>d. running (world d)) m" "\<And>r. safe (\<lambda>d. running (world d)) ops (body r)"
  shows "safe (\<lambda>d. running (world d)) ops (with_reserved h m body)"
proof -
  let ?f = "\<lambda>r. case r of Inl e \<Rightarrow> (\<lambda>d. (Inl (rewrite_err h e), release_ip [] d))
     | Inr x \<Rightarrow> (\<lambda>d. case body x d of (res, d') \<Rightarrow> (res, release_ip x d'))"
  have e: "with_reserved h m body = attempt m ?f"
    by (auto simp: fun_eq_iff with_reserved_def attempt_def split: prod.split sum.split)
  have f: "safe (\<lambda>d. running (world d)) ops (?f r)" for r
    using assms(2) by (auto simp: safe_def release_ip_def split: sum.split prod.split) (metis snd_conv)
  show ?thesis unfolding e by (rule safe_attempt[OF assms(1)]) (rule f)
qed

section \<open>What the manager relies on\<close>

text \<open>\<open>running w\<close> are the targets of the operations that run in the project in state \<open>w\<close>. Reads start nothing
  (operations may complete meanwhile); the list of the operations holds all that still run when it
  returns; a call that starts an operation, whether it succeeds or fails, adds at most the one on its
  object, and none when the object has no well-formed name.\<close>

definition starts_at_most :: "('s \<Rightarrow> string multiset) \<Rightarrow> bool \<Rightarrow> string \<Rightarrow> ('s, 'a) eff \<Rightarrow> bool" where
  "starts_at_most running ok t m = (\<forall>w. running (snd (m w)) \<subseteq># running w \<or>
     (ok \<and> running (snd (m w)) \<subseteq># add_mset t (running w)))"

definition share_ok :: "Share \<Rightarrow> string \<Rightarrow> bool" where
  "share_ok s v = ((case sh_Parent s of None \<Rightarrow> False | Some p \<Rightarrow> parts_ok p)
     \<and> CHR ''/'' \<notin> set (sh_Name s) \<and> GenerateShareURI (Some s) = Inr v)"

lemma running_ops_targets: "op \<in> set (running_ops ops) \<Longrightarrow> target_instance (oi_Target op) \<noteq> None"
proof (induction ops)
  case (Cons o' ops)
  have t: "target_instance t \<noteq> None" if "IsInstanceTarget t \<or> IsShareTarget t" for t
    using that by (auto simp: target_instance_def IsInstanceTarget_def IsShareTarget_def split: option.splits)
  show ?case using Cons t by (auto split: if_splits option.splits sum.splits)
qed simp

locale operation_log =
  fixes cfg :: config and svc :: "'w Service" and running :: "'w \<Rightarrow> string multiset"
  assumes list_complete: "svc_ListOps svc \<lparr>lf_Project = cfg_Project cfg, lf_Location = ''-'', lf_InstanceName = []\<rparr> w = (Inr ops, w')
      \<Longrightarrow> set_mset (running w') \<subseteq> oi_Target ` set (running_ops ops)"
    and reads: "quiet running (svc_ListOps svc flt)" "quiet running (svc_ListShares svc flt)"
      "quiet running (svc_ListMultishareInstances svc flt)" "quiet running (svc_GetMultishareInstance svc i)"
      "quiet running (svc_ListInstances svc filer)"
    and instance_starts: "starts_at_most running (parts_ok i) (uri_of i) (svc_StartCreateMultishareInstanceOp svc i)"
      "starts_at_most running (parts_ok i) (uri_of i) (svc_StartResizeMultishareInstanceOp svc i)"
      "starts_at_most running (parts_ok i) (uri_of i) (svc_StartDeleteMultishareInstanceOp svc i)"
    and share_starts: "\<exists>v. starts_at_most running (share_ok s v) v (svc_StartCreateShareOp svc s)"
      "\<exists>v. starts_at_most running (share_ok s v) v (svc_StartResizeShareOp svc s)"
      "\<exists>v. starts_at_most running (share_ok s v) v (svc_StartDeleteShareOp svc s)"
begin

lemmas reads_quiet [serial_intros] = reads

lemma safe_start:
  assumes "starts_at_most running ok t m" "\<And>R u. known R ops \<Longrightarrow> ok \<Longrightarrow> u \<in># R \<Longrightarrow> \<not> targets_conflict t u"
  shows "safe running ops (started w m)"
proof -
  have "safe running ops m"
    unfolding safe_def
  proof (intro allI impI)
    fix w assume w: "no_conflicts (running w)" "known (running w) ops"
    have "running (snd (m w)) \<subseteq># running w \<or> (ok \<and> running (snd (m w)) \<subseteq># add_mset t (running w))"
      using assms(1) by (simp add: starts_at_most_def)
    then show "no_conflicts (running (snd (m w)))"
    proof
      assume "ok \<and> running (snd (m w)) \<subseteq># add_mset t (running w)"
      moreover from this have "no_conflicts (add_mset t (running w))"
        using no_conflicts_add[OF w(1)] assms(2)[OF w(2)] by blast
      ultimately show ?thesis using no_conflicts_mono by blast
    qed (rule no_conflicts_mono[OF w(1)])
  qed
  then show ?thesis unfolding started_def by (rule safe_bind_then) simp
qed

lemma safe_instance_workflow [serial_intros]: "safe running ops (startInstanceWorkflow svc w ops)"
proof (cases "wf_instance w")
  case None
  then show ?thesis by (simp add: startInstanceWorkflow_def)
next
  case (Some i)
  show ?thesis
  proof (cases "verifyNoRunningInstanceOrShareOpsForInstance i ops")
    case (Inl e)
    then show ?thesis by (simp add: startInstanceWorkflow_def Some bind_def lift_def safe_def)
  next
    case (Inr u)
    then obtain uri where uri: "GenerateMultishareInstanceURI (Some i) = Inr uri" "\<forall>op \<in> set ops. \<not> on_instance uri op"
      by (auto simp: verifyNoRunningInstanceOrShareOpsForInstance_def no_op_matching_Inr)
    have free: "\<not> targets_conflict (uri_of i) u" if "known R ops" "parts_ok i" "u \<in># R" for R u
      using instance_op_free[OF that(1,2) _ that(3)] uri parts_ok_uri[OF that(2)] by simp
    have "startInstanceWorkflow svc w ops = (case wf_opType w of
             InstanceCreate \<Rightarrow> started w (svc_StartCreateMultishareInstanceOp svc i)
           | InstanceUpdate \<Rightarrow> started w (svc_StartResizeMultishareInstanceOp svc i)
           | InstanceDelete \<Rightarrow> started w (svc_StartDeleteMultishareInstanceOp svc i)
           | _ \<Rightarrow> fail (StatusErr Internal (''for instance workflow, unknown op type ''
                    @ OperationType_String (wf_opType w))))"
      by (simp add: startInstanceWorkflow_def Some Inr bind_def lift_def fun_eq_iff)
    moreover have st: "safe running ops (started w m)" if "starts_at_most running (parts_ok i) (uri_of i) m" for m
      using free by (rule safe_start[OF that])
    note st[OF instance_starts(1)] st[OF instance_starts(2)] st[OF instance_starts(3)]
    ultimately show ?thesis by (simp split: OperationType.split)
  qed
qed

lemma safe_share_workflow [serial_intros]: "safe running ops (startShareWorkflow svc w ops)"
proof (cases "wf_share w")
  case None
  then show ?thesis by (simp add: startShareWorkflow_def)
next
  case (Some s)
  show ?thesis
  proof (cases "sh_Parent s")
    case None
    then show ?thesis by (simp add: startShareWorkflow_def Some)
  next
    case p: (Some p)
    show ?thesis
    proof (cases "verifyNoRunningInstanceOps p ops = Inr () \<and> verifyNoRunningShareOps s ops = Inr ()")
      case False
      then have "startShareWorkflow svc w ops st = (Inl e, st)
          \<or> (\<exists>e. startShareWorkflow svc w ops st = (Inl e, st))" for e st
        by (cases "verifyNoRunningInstanceOps p ops"; cases "verifyNoRunningShareOps s ops")
           (auto simp: startShareWorkflow_def Some p bind_def)
      then show ?thesis unfolding safe_def by (metis snd_conv)
    next
      case True
      then obtain u v where u: "GenerateMultishareInstanceURI (Some p) = Inr u" "\<forall>op \<in> set ops. oi_Target op \<noteq> u"
        and v: "GenerateShareURI (Some s) = Inr v" "\<forall>op \<in> set ops. oi_Target op \<noteq> v"
        by (auto simp: verifyNoRunningInstanceOps_def verifyNoRunningShareOps_def no_op_matching_Inr)
      have free: "\<not> targets_conflict v' t" if "known R ops" "share_ok s v'" "t \<in># R" for R t v'
      proof -
        have "v' = v" "parts_ok p" "CHR ''/'' \<notin> set (sh_Name s)" using that(2) v(1) p by (auto simp: share_ok_def)
        then show ?thesis
          using share_op_free[OF that(1) _ _ p v(1) _ that(3)] u v(2) parts_ok_uri[of p] by auto
      qed
      have "startShareWorkflow svc w ops = (case wf_opType w of
               ShareCreate \<Rightarrow> started w (svc_StartCreateShareOp svc s)
             | ShareUpdate \<Rightarrow> started w (svc_StartResizeShareOp svc s)
             | ShareDelete \<Rightarrow> started w (svc_StartDeleteShareOp svc s)
             | _ \<Rightarrow> fail (StatusErr Internal (''for share workflow, unknown op type ''
                      @ OperationType_String (wf_opType w))))"
        by (simp add: startShareWorkflow_def Some p True bind_def lift_def fun_eq_iff)
      moreover have st: "safe running ops (started w m)" if "\<exists>v. starts_at_most running (share_ok s v) v m" for m
      proof -
        from that obtain v where "starts_at_most running (share_ok s v) v m" ..
        then show ?thesis using free by (rule safe_start)
      qed
      note st[OF share_starts(1)] st[OF share_starts(2)] st[OF share_starts(3)]
      ultimately show ?thesis by (simp split: OperationType.split)
    qed
  qed
qed

lemma list_known:
  assumes "listMultishareResourceRunningOps cfg svc w = (r, w')"
  shows "running w' \<subseteq># running w \<and> (\<forall>ops. r = Inr ops \<longrightarrow> known (running w') ops)"
proof -
  let ?flt = "\<lparr>lf_Project = cfg_Project cfg, lf_Location = ''-'', lf_InstanceName = []\<rparr>"
  obtain r0 where l: "svc_ListOps svc ?flt w = (r0, w')" "\<forall>ops. r = Inr ops \<longrightarrow> (\<exists>all. r0 = Inr all \<and> ops = running_ops all)"
    using assms by (auto simp: listMultishareResourceRunningOps_def bind_def split: prod.splits sum.splits)
  have "running w' \<subseteq># running w" using reads(1)[of ?flt] unfolding quiet_def by (metis l(1) snd_conv)
  moreover have "known (running w') (running_ops all)" if "r0 = Inr all" for all
    using list_complete[of w all w'] l(1) that running_ops_targets by (auto simp: known_def)
  ultimately show ?thesis using l(2) by blast
qed

lemma serial_list:
  assumes "\<And>ops. safe running ops (f ops)"
  shows "serial running (bind (listMultishareResourceRunningOps cfg svc) f)"
  unfolding serial_def
proof (intro allI impI)
  fix w assume w: "no_conflicts (running w)"
  obtain r w1 where l: "listMultishareResourceRunningOps cfg svc w = (r, w1)" by force
  note k = list_known[OF l]
  have w1: "no_conflicts (running w1)" using k no_conflicts_mono[OF w] by blast
  show "no_conflicts (running (snd (bind (listMultishareResourceRunningOps cfg svc) f w)))"
  proof (cases r)
    case (Inl e)
    then show ?thesis using w1 by (simp add: bind_def l)
  next
    case (Inr ops)
    then show ?thesis using assms[of ops] k w1 by (simp add: bind_def l safe_def)
  qed
qed

lemma serial_list_driver:
  assumes "\<And>ops. safe (\<lambda>d. running (world d)) ops (f ops)"
  shows "serial (\<lambda>d. running (world d)) (bind (on_world (listMultishareResourceRunningOps cfg svc)) f)"
  unfolding serial_def
proof (intro allI impI)
  fix d :: "'w driver" assume d: "no_conflicts (running (world d))"
  obtain r w1 where l: "listMultishareResourceRunningOps cfg svc (world d) = (r, w1)" by force
  note k = list_known[OF l]
  have w1: "no_conflicts (running w1)" using k no_conflicts_mono[OF d] by blast
  show "no_conflicts (running (world (snd (bind (on_world (listMultishareResourceRunningOps cfg svc)) f d))))"
  proof (cases r)
    case (Inl e)
    then show ?thesis using w1 by (simp add: bind_def on_world_def l)
  next
    case (Inr ops)
    then show ?thesis using assms[of ops] k w1 by (simp add: bind_def on_world_def l safe_def)
  qed
qed

lemma shares_quiet [serial_intros]: "quiet running (list_shares_of svc i)"
  by (simp add: list_shares_of_def reads)

lemma needs_quiet [serial_intros]: "quiet running (instanceNeedsExpand svc share n)"
  by (auto simp: instanceNeedsExpand_def split: option.split intro!: serial_intros)

lemma regions_quiet [serial_intros]: "quiet running (list_in_regions cfg' svc regions)"
  by (induction regions) (auto intro!: serial_intros)

lemma existing_quiet [serial_intros]: "quiet running (existing_share cfg' svc n pr regions)"
  by (induction regions) (auto intro!: serial_intros split: option.split)

lemma split_quiet [serial_intros]: "quiet running (split_eligible cfg' svc ops is)"
  by (induction "is") (auto intro!: serial_intros split: prod.split)

lemma eligible_quiet [serial_intros]: "quiet running (runEligibleInstanceCheck ext cfg' svc req ops target regions)"
  by (auto simp: runEligibleInstanceCheck_def listMatchedInstances_def intro!: serial_intros split: prod.split)

lemma reserve_quiet [serial_intros]: "quiet (\<lambda>d. running (world d)) (reserveIPRange svc filer cidr)"
  by (auto simp: reserveIPRange_def getCloudInstancesReservedIPRanges_def Let_def intro!: serial_intros)

lemma place_safe [serial_intros]: "safe running ops (place_share ext svc req n src ops i)"
  by (auto simp: place_share_def intro!: serial_intros split: prod.split)

lemma create_instance_safe [serial_intros]: "safe (\<lambda>d. running (world d)) ops (create_instance_workflow svc param ops i)"
  by (auto simp: create_instance_workflow_def Let_def intro!: serial_intros split: option.split)

lemma unless_gone_safe [serial_intros]:
  "quiet running m \<Longrightarrow> (\<And>a. safe running ops (f a)) \<Longrightarrow> safe running ops (unless_gone m f)"
  by (auto simp: unless_gone_def intro!: serial_intros split: sum.split)

lemma unless_gone_then:
  "safe running ops m \<Longrightarrow> safe running ops (unless_gone m (\<lambda>a. ret (Some a)))"
  unfolding unless_gone_def by (rule safe_then) (auto split: sum.split)

lemma serial_share_create: "serial running (startShareCreateWorkflowSafe cfg svc share)"
  unfolding startShareCreateWorkflowSafe_def by (rule serial_list) (rule serial_intros)

lemma serial_share_expand: "serial running (startShareExpandWorkflowSafe cfg svc share n)"
  unfolding startShareExpandWorkflowSafe_def by (rule serial_list) (rule serial_intros)

lemma serial_share_delete: "serial running (checkAndStartShareDeleteWorkflow cfg svc share)"
  unfolding checkAndStartShareDeleteWorkflow_def
  by (rule serial_list) (auto intro!: serial_intros split: option.split)

lemma serial_expand: "serial running (checkAndStartInstanceOrShareExpandWorkflow cfg svc share n)"
  unfolding checkAndStartInstanceOrShareExpandWorkflow_def
  by (rule serial_list) (auto intro!: serial_intros split: option.split prod.split)

lemma serial_shrink: "serial running (checkAndStartInstanceDeleteOrShrinkWorkflow cfg svc i)"
  unfolding checkAndStartInstanceDeleteOrShrinkWorkflow_def
  by (rule serial_list) (auto intro!: serial_intros unless_gone_then split: option.split)

lemma serial_setup: "serial (\<lambda>d. running (world d)) (setupEligibleInstanceAndStartWorkflow ext cfg svc req i src)"
proof -
  let ?n = "ConvertVolToShareName (cr_Name req)"
  have start: "safe (\<lambda>d. running (world d)) ops (bind (if length eligible > 0
      then on_world (place_share ext svc req ?n src ops (eligible ! (ext_rand ext (length eligible) mod length eligible)))
      else create_instance_workflow svc (cr_Parameters req) ops i) (\<lambda>w. ret (Inr w :: Share + Workflow)))" for ops eligible
    by (rule safe_bind_then) (auto intro!: serial_intros)
  have check: "safe (\<lambda>d. running (world d)) ops (bind_err (status_of Aborted)
      (on_world (runEligibleInstanceCheck ext cfg svc req ops i regions)) (\<lambda>eligible. bind (if length eligible > 0
      then on_world (place_share ext svc req ?n src ops (eligible ! (ext_rand ext (length eligible) mod length eligible)))
      else create_instance_workflow svc (cr_Parameters req) ops i) (\<lambda>w. ret (Inr w :: Share + Workflow))))" for ops regions
    by (rule safe_bind(2)[OF quiet_on_world[OF eligible_quiet] start])
  show ?thesis
    unfolding setupEligibleInstanceAndStartWorkflow_def Let_def
    by (intro serial_list_driver safe_option safe_basic safe_bind[OF quiet_basic(3)]
        safe_bind[OF quiet_on_world[OF existing_quiet]] check)
qed

end

section \<open>The manager at work\<close>

datatype entry =
    SetupInstanceOrShare CreateVolumeRequest MultishareInstance string
  | CreateShareSafe Share
  | ExpandShareSafe Share int
  | ExpandInstanceOrShare Share int
  | DeleteShare Share
  | DeleteOrShrinkInstance MultishareInstance

fun enter :: "'ts externals \<Rightarrow> config \<Rightarrow> 'w Service \<Rightarrow> entry \<Rightarrow> 'w driver \<Rightarrow> 'w driver" where
  "enter ext cfg svc (SetupInstanceOrShare req i src) d = snd (setupEligibleInstanceAndStartWorkflow ext cfg svc req i src d)"
| "enter ext cfg svc (CreateShareSafe s) d = snd (on_world (startShareCreateWorkflowSafe cfg svc s) d)"
| "enter ext cfg svc (ExpandShareSafe s n) d = snd (on_world (startShareExpandWorkflowSafe cfg svc s n) d)"
| "enter ext cfg svc (ExpandInstanceOrShare s n) d = snd (on_world (checkAndStartInstanceOrShareExpandWorkflow cfg svc s n) d)"
| "enter ext cfg svc (DeleteShare s) d = snd (on_world (checkAndStartShareDeleteWorkflow cfg svc s) d)"
| "enter ext cfg svc (DeleteOrShrinkInstance i) d = snd (on_world (checkAndStartInstanceDeleteOrShrinkWorkflow cfg svc i) d)"

text \<open>The driver from a state where nothing runs: an entry point is called, with any arguments, or the
  rest of the world moves and operations complete.\<close>

inductive manager_run :: "'ts externals \<Rightarrow> config \<Rightarrow> 'w Service \<Rightarrow> ('w \<Rightarrow> string multiset) \<Rightarrow> 'w driver \<Rightarrow> bool"
  for ext cfg svc running where
  run_start: "running (world d) = {#} \<Longrightarrow> manager_run ext cfg svc running d"
| run_entry: "manager_run ext cfg svc running d \<Longrightarrow> manager_run ext cfg svc running (enter ext cfg svc e d)"
| run_other: "manager_run ext cfg svc running d \<Longrightarrow> running (world d') \<subseteq># running (world d) \<Longrightarrow>
    manager_run ext cfg svc running d'"

lemma serial_on_world: "serial running m \<Longrightarrow> serial (\<lambda>d. running (world d)) (on_world m)"
  by (simp add: serial_def on_world_def split: prod.split) (metis snd_conv)

lemma enter_serial:
  assumes "operation_log cfg svc running" "no_conflicts (running (world d))"
  shows "no_conflicts (running (world (enter ext cfg svc e d)))"
proof -
  have s: "no_conflicts (running (world (snd (m d))))" if "serial (\<lambda>d. running (world d)) m" for m :: "('a driver, 'x) eff"
    using that assms(2) by (simp add: serial_def)
  note serials = operation_log.serial_setup operation_log.serial_share_create operation_log.serial_share_expand
    operation_log.serial_expand operation_log.serial_share_delete operation_log.serial_shrink
  show ?thesis
    by (cases e) (auto intro: s serial_on_world serials[OF assms(1)])
qed

section \<open>Services that meet the contract\<close>

text \<open>The in-memory service, whose operations are done as soon as they are started: what runs is what a test
  has put into its list.\<close>

definition listed_targets :: "fakeServiceManager \<Rightarrow> string multiset" where
  "listed_targets m = mset (map oi_Target (running_ops (multishareops m)))"

lemma fake_starts_at_most:
  "starts_at_most listed_targets ok t (fake_StartCreateMultishareInstanceOp uuid i)"
  "starts_at_most listed_targets ok t (fake_StartResizeMultishareInstanceOp uuid i)"
  "starts_at_most listed_targets ok t (fake_StartDeleteMultishareInstanceOp uuid i)"
  "starts_at_most listed_targets ok t (fake_StartCreateShareOp uuid s)"
  "starts_at_most listed_targets ok t (fake_StartResizeShareOp uuid s)"
  "starts_at_most listed_targets ok t (fake_StartDeleteShareOp uuid s)"
  by (auto simp: starts_at_most_def listed_targets_def Let_def fake_StartCreateMultishareInstanceOp_def fake_start_def fake_op_def
      fake_StartResizeMultishareInstanceOp_def fake_StartDeleteMultishareInstanceOp_def fake_StartCreateShareOp_def
      fake_StartResizeShareOp_def fake_StartDeleteShareOp_def split: option.split)

lemma fake_reads:
  "fake_ListOps flt m = (Inr (multishareops m), m)"
  "quiet r (fake_ListOps flt)" "quiet r (fake_ListShares flt)" "quiet r (fake_ListMultishareInstances flt)"
  "quiet r (fake_GetMultishareInstance i)" "quiet r (fake_ListInstances filer)"
  by (auto simp: quiet_def fake_ListOps_def fake_ListShares_def fake_ListMultishareInstances_def
      fake_GetMultishareInstance_def fake_ListInstances_def split: option.split)

interpretation fake_ops: operation_log cfg "fake_service uuid show_info show_backup" listed_targets
  by unfold_locales (auto simp: fake_service_def fake_reads fake_starts_at_most listed_targets_def)

text \<open>The same service with operations that run until they are completed: a start on a well-formed name is
  recorded in the list, any other start is refused.\<close>

definition recorded :: "bool \<Rightarrow> string \<Rightarrow> string \<Rightarrow> (fakeServiceManager, Operation) eff \<Rightarrow> (fakeServiceManager, Operation) eff" where
  "recorded ok target verb call m =
     (if ok then (case call m of (Inl e, m') \<Rightarrow> (Inl e, m')
        | (Inr opn, m') \<Rightarrow> (Inr opn, AddMultishareOps [opn\<lparr>op_Done := False, op_Meta := Some (Inr (target, verb))\<rparr>] m'))
      else (Inl (StatusErr InvalidArgument ''invalid name''), m))"

definition recorded_share :: "Share \<Rightarrow> string \<Rightarrow> (fakeServiceManager, Operation) eff \<Rightarrow> (fakeServiceManager, Operation) eff" where
  "recorded_share s = (case GenerateShareURI (Some s) of Inl e \<Rightarrow> recorded False [] | Inr v \<Rightarrow> recorded (share_ok s v) v)"

definition recording_service :: "fakeServiceManager Service" where
  "recording_service = demo_service\<lparr>
     svc_StartCreateMultishareInstanceOp := (\<lambda>i. recorded (parts_ok i) (uri_of i) ''create'' (svc_StartCreateMultishareInstanceOp demo_service i)),
     svc_StartResizeMultishareInstanceOp := (\<lambda>i. recorded (parts_ok i) (uri_of i) ''update'' (svc_StartResizeMultishareInstanceOp demo_service i)),
     svc_StartDeleteMultishareInstanceOp := (\<lambda>i. recorded (parts_ok i) (uri_of i) ''delete'' (svc_StartDeleteMultishareInstanceOp demo_service i)),
     svc_StartCreateShareOp := (\<lambda>s. recorded_share s ''create'' (svc_StartCreateShareOp demo_service s)),
     svc_StartResizeShareOp := (\<lambda>s. recorded_share s ''update'' (svc_StartResizeShareOp demo_service s)),
     svc_StartDeleteShareOp := (\<lambda>s. recorded_share s ''delete'' (svc_StartDeleteShareOp demo_service s))\<rparr>"

lemma running_ops_append: "running_ops (ops @ ops') = running_ops ops @ running_ops ops'"
  by (induction ops) (auto split: option.split sum.split)

lemma recorded_starts_at_most:
  assumes "\<And>t. starts_at_most listed_targets False t call"
  shows "starts_at_most listed_targets ok t (recorded ok t verb call)"
  unfolding starts_at_most_def
proof
  fix m
  obtain r m' where c: "call m = (r, m')" by force
  have "listed_targets m' \<subseteq># listed_targets m" using assms[of t] by (simp add: starts_at_most_def c) (metis c snd_conv)
  then show "listed_targets (snd (recorded ok t verb call m)) \<subseteq># listed_targets m
      \<or> ok \<and> listed_targets (snd (recorded ok t verb call m)) \<subseteq># add_mset t (listed_targets m)"
    by (cases r) (auto simp: recorded_def c AddMultishareOps_def listed_targets_def running_ops_append)
qed

lemma recorded_share_starts_at_most:
  assumes "\<And>t. starts_at_most listed_targets False t call"
  shows "\<exists>v. starts_at_most listed_targets (share_ok s v) v (recorded_share s verb call)"
proof (cases "GenerateShareURI (Some s)")
  case (Inl e)
  then show ?thesis by (auto simp: recorded_share_def recorded_def starts_at_most_def)
next
  case (Inr v)
  then show ?thesis using recorded_starts_at_most[OF assms] by (auto simp: recorded_share_def)
qed

interpretation recording_ops: operation_log cfg recording_service listed_targets
  by unfold_locales (auto simp: recording_service_def demo_service_def fake_service_def fake_reads fake_starts_at_most
      listed_targets_def intro!: recorded_starts_at_most recorded_share_starts_at_most)

text \<open>C2: Operations are serialized. However the entry points of the manager are called, by any number of
  requests and with any arguments, and whenever operations complete, also between the calls that one
  entry point makes, no two running operations conflict: while an instance is created, resized or
  deleted nothing else runs on it or on its shares, and no share has two operations. The service is
  assumed to list the operations that run, and to run for a start at most the one it asks for.\<close>

theorem manager_serializes:
  assumes "operation_log cfg svc running" "manager_run ext cfg svc running d"
  shows "no_conflicts (running (world d))"
  using assms(2)
proof (induction rule: manager_run.induct)
  case (run_start d)
  then show ?case by simp
next
  case (run_entry d e)
  then show ?case by (intro enter_serial[OF assms(1)])
next
  case (run_other d d')
  then show ?case using no_conflicts_mono by blast
qed

text \<open>Two volumes of one instance are deleted one after the other, and the instance is to be resized
  meanwhile: both deletions run, the resize is refused.\<close>

definition example_sibling :: Share where
  "example_sibling = example_child\<lparr>sh_Name := ''pvd''\<rparr>"

definition example_run :: "fakeServiceManager driver" where
  "example_run = enter demo_externals demo_config recording_service (DeleteOrShrinkInstance (example_parent ''b''))
     (enter demo_externals demo_config recording_service (DeleteShare example_sibling)
       (enter demo_externals demo_config recording_service (DeleteShare example_child) (demo_driver NewFakeService)))"

lemma example_run_targets:
  "map oi_Target (running_ops (multishareops (world example_run)))
     = [''projects/p/locations/us-c1/instances/b/shares/pvc'', ''projects/p/locations/us-c1/instances/b/shares/pvd'']"
  by code_simp

theorem manager_serializes_witness:
  "no_conflicts {#''projects/p/locations/us-c1/instances/b/shares/pvc'', ''projects/p/locations/us-c1/instances/b/shares/pvd''#}"
proof -
  have "listed_targets (world (demo_driver NewFakeService)) = {#}"
    by (simp add: listed_targets_def demo_driver_def NewFakeService_def)
  then have "manager_run demo_externals demo_config recording_service listed_targets example_run"
    unfolding example_run_def by (intro run_entry run_start)
  from manager_serializes[OF recording_ops.operation_log_axioms this] show ?thesis
    by (simp add: listed_targets_def example_run_targets)
qed

end
