(* ===== verification/Ip_Parse.thy ===== *)
theory Ip_Parse
  imports Ip_Net
begin

text \<open>
  \<open>net.ParseIP\<close> and \<open>IP.To4\<close> of Go's package \<open>net\<close>, as the node server and the lock release
  controller use them on the addresses of Filestore instances and of nodes: an address is its
  sixteen bytes, an IPv4 address in its mapped form. The text forms are those of
  \<open>netip.ParseAddr\<close> without a zone: dotted decimal, and groups of hexadecimal digits with at most
  one ellipsis and possibly a dotted decimal at the end.
\<close>

section \<open>Text forms of addresses\<close>

definition hex_digit :: "char \<Rightarrow> nat option" where
  "hex_digit c = (let n = of_char c :: nat in
     if 48 \<le> n \<and> n \<le> 57 then Some (n - 48)
     else if 97 \<le> n \<and> n \<le> 102 then Some (n - 87)
     else if 65 \<le> n \<and> n \<le> 70 then Some (n - 55)
     else None)"

fun hex_prefix :: "string \<Rightarrow> nat list \<times> string" where
  "hex_prefix [] = ([], [])"
| "hex_prefix (c # s) = (case hex_digit c of
       None \<Rightarrow> ([], c # s)
     | Some d \<Rightarrow> (case hex_prefix s of (ds, r) \<Rightarrow> (d # ds, r)))"

definition ipv4_bytes :: "string \<Rightarrow> nat list option" where
  "ipv4_bytes s = map_option (\<lambda>a. [ip_byte 3 a, ip_byte 2 a, ip_byte 1 a, ip_byte 0 a]) (parse_ipv4 s)"

text \<open>The loop of \<open>parseIPv6\<close>: \<open>bs\<close> the bytes parsed, \<open>ell\<close> the position of the ellipsis. A turn fails
  (\<open>Inl None\<close>), leaves the loop with the bytes, the position and the text not used, or goes on.\<close>

type_synonym ipv6_state = "nat list \<times> nat option \<times> string"

definition ipv6_turn :: "ipv6_state \<Rightarrow> ipv6_state option + ipv6_state" where
  "ipv6_turn = (\<lambda>(bs, ell, s). case hex_prefix s of (ds, rest) \<Rightarrow>
     if 4 < length ds \<or> ds = [] then Inl None
     else if rest \<noteq> [] \<and> hd rest = CHR ''.'' then
       (if (ell = None \<and> length bs \<noteq> 12) \<or> 16 < length bs + 4 then Inl None
        else case ipv4_bytes s of None \<Rightarrow> Inl None | Some b4 \<Rightarrow> Inl (Some (bs @ b4, ell, [])))
     else (let v = foldl (\<lambda>a d. a * 16 + d) 0 ds; bs' = bs @ [v div 256, v mod 256] in
       if rest = [] then Inl (Some (bs', ell, []))
       else if hd rest \<noteq> CHR '':'' \<or> tl rest = [] then Inl None
       else if hd (tl rest) = CHR '':'' then
         (if ell \<noteq> None then Inl None
          else if tl (tl rest) = [] then Inl (Some (bs', Some (length bs'), []))
          else Inr (bs', Some (length bs'), tl (tl rest)))
       else Inr (bs', ell, tl rest)))"

lemma ipv6_turn_grows: "ipv6_turn (bs, ell, s) = Inr (bs', ell', s') \<Longrightarrow> length bs < length bs'"
  by (auto simp: ipv6_turn_def Let_def split: prod.splits if_splits option.splits)

function ipv6_groups :: "ipv6_state \<Rightarrow> ipv6_state option" where
  "ipv6_groups st =
     (if 16 \<le> length (fst st) then Some st
      else case ipv6_turn st of Inl r \<Rightarrow> r | Inr st' \<Rightarrow> ipv6_groups st')"
  by pat_completeness auto
termination
  by (relation "measure (\<lambda>st. 16 - length (fst st))") (auto dest!: ipv6_turn_grows)

declare ipv6_groups.simps [simp del]

text \<open>The rest of \<open>parseIPv6\<close>: nothing may be left, and the ellipsis stands for the missing bytes.\<close>

definition ipv6_expand :: "ipv6_state \<Rightarrow> nat list option" where
  "ipv6_expand = (\<lambda>(bs, ell, rest).
     if rest \<noteq> [] then None
     else if length bs < 16 then
       (case ell of None \<Rightarrow> None
        | Some e \<Rightarrow> Some (take e bs @ replicate (16 - length bs) 0 @ drop e bs))
     else if ell \<noteq> None then None
     else Some bs)"

definition parse_ipv6 :: "string \<Rightarrow> nat list option" where
  "parse_ipv6 s =
     (if take 2 s = ''::'' then
        (if drop 2 s = [] then Some (replicate 16 0)
         else Option.bind (ipv6_groups ([], Some 0, drop 2 s)) ipv6_expand)
      else Option.bind (ipv6_groups ([], None, s)) ipv6_expand)"

text \<open>The first of \<open>.\<close>, \<open>:\<close> and \<open>%\<close> decides the form; an address with a zone is refused.\<close>

definition net_ParseIP :: "string \<Rightarrow> nat list option" where
  "net_ParseIP s = (case List.find (\<lambda>c. c \<in> set ''.:%'') s of
       None \<Rightarrow> None
     | Some c \<Rightarrow>
         if c = CHR ''.'' then map_option (\<lambda>b4. replicate 10 0 @ [255, 255] @ b4) (ipv4_bytes s)
         else if c = CHR '':'' \<and> CHR ''%'' \<notin> set s then parse_ipv6 s
         else None)"

definition To4 :: "nat list \<Rightarrow> ip option" where
  "To4 bs = (if take 12 bs = replicate 10 0 @ [255, 255]
     then Some (ip_of_bytes (bs ! 12) (bs ! 13) (bs ! 14) (bs ! 15)) else None)"

section \<open>Facts\<close>

lemma ipv4_bytes_show [simp]:
  "ipv4_bytes (show_ip a) = Some [ip_byte 3 a, ip_byte 2 a, ip_byte 1 a, ip_byte 0 a]"
  by (simp add: ipv4_bytes_def)

lemma find_append_not: "(\<forall>x \<in> set xs. \<not> P x) \<Longrightarrow> List.find P (xs @ ys) = List.find P ys"
  by (induction xs) auto

lemma find_dot_show_ip: "List.find (\<lambda>c. c \<in> set ''.:%'') (show_ip a) = Some (CHR ''.'')"
proof -
  have d: "\<forall>x \<in> set (show_nat n). \<not> x \<in> set ''.:%''" for n
    using show_nat_digits[of n] by (auto simp: is_digit_def)
  have dot: "CHR ''.'' \<in> set ''.:%''" by simp
  show ?thesis
    unfolding show_ip_def by (simp add: find_append_not[OF d] dot del: list.set)
qed

lemma net_ParseIP_show: "net_ParseIP (show_ip a) = Some (replicate 10 0 @ [255, 255, ip_byte 3 a, ip_byte 2 a, ip_byte 1 a, ip_byte 0 a])"
  unfolding net_ParseIP_def find_dot_show_ip by simp

lemma net_ParseIP_show_not_None [simp]: "net_ParseIP (show_ip a) \<noteq> None"
  by (simp add: net_ParseIP_show)

lemma To4_show: "Option.bind (net_ParseIP (show_ip a)) To4 = Some a"
proof -
  have "ip_of_bytes (ip_byte 3 a) (ip_byte 2 a) (ip_byte 1 a) (ip_byte 0 a) = a" by (rule ip_of_bytes_ip_byte)
  moreover have "replicate 10 (0::nat) = [0,0,0,0,0,0,0,0,0,0]" by code_simp
  ultimately show ?thesis by (simp add: net_ParseIP_show To4_def eval_nat_numeral)
qed

text \<open>An address of the driver is not empty.\<close>

lemma net_ParseIP_Nil [simp]: "net_ParseIP [] = None"
  by (simp add: net_ParseIP_def)

end
