(* ===== verification/Lock_Info.thy ===== *)
theory Lock_Info
  imports Ip_Parse
begin

text \<open>
  \<open>pkg/releaselock/configmap_util.go\<close>: the config maps in which the nodes record the NFS mounts whose
  locks are to be released when the node is gone. A node has one map, named after it; an entry is a
  key that names the share and the node (its GCE id and its address), with the address of the
  Filestore instance as value. The API server is the record \<open>KubeClient\<close>; \<open>config_map_store\<close> says
  what the theorems need of it.
\<close>

section \<open>Keys\<close>

definition ManagedFilestoreCSINamespace :: string where
  "ManagedFilestoreCSINamespace = ''gke-managed-filestorecsi''"

definition totalKeyElements :: nat where "totalKeyElements = 6"

definition ConfigMapNamePrefix :: string where "ConfigMapNamePrefix = ''fscsi-''"

definition ConfigMapFinalzer :: string where "ConfigMapFinalzer = ''filestore.csi.storage.gke.io/lock-release''"

record LockKey =
  lk_ProjectID :: string
  lk_Location :: string
  lk_FilestoreName :: string
  lk_ShareName :: string
  lk_GkeNodeID :: string
  lk_GkeNodeInternalIP :: string

definition ParseConfigMapKey :: "string \<Rightarrow> go_error + LockKey" where
  "ParseConfigMapKey key =
     (let tokens = split (CHR ''.'') key in
      if length tokens \<noteq> totalKeyElements then Inl (ErrText (''invalid configmap key '' @ key))
      else let gkeNodeInternalIP = replace_char (CHR ''_'') (CHR ''.'') (tokens ! 5) in
        if net_ParseIP gkeNodeInternalIP = None
        then Inl (ErrText (''invalid GKE node internal IP '' @ gkeNodeInternalIP))
        else if tokens ! 0 = [] \<or> tokens ! 1 = [] \<or> tokens ! 2 = [] \<or> tokens ! 3 = [] \<or> tokens ! 4 = []
          \<or> gkeNodeInternalIP = []
        then Inl (ErrText (''invalid configmap key '' @ key))
        else Inr \<lparr>lk_ProjectID = tokens ! 0, lk_Location = tokens ! 1, lk_FilestoreName = tokens ! 2,
               lk_ShareName = tokens ! 3, lk_GkeNodeID = tokens ! 4, lk_GkeNodeInternalIP = gkeNodeInternalIP\<rparr>)"

definition GenerateConfigMapKey :: "string \<Rightarrow> string \<Rightarrow> string \<Rightarrow> string \<Rightarrow> string \<Rightarrow> string \<Rightarrow> string" where
  "GenerateConfigMapKey project loc filestore share gkeNode gkeNodeIP =
     join ''.'' [project, loc, filestore, share, gkeNode, replace_char (CHR ''.'') (CHR ''_'') gkeNodeIP]"

section \<open>Config maps and the API server\<close>

record ConfigMap =
  cm_Name :: string
  cm_Namespace :: string
  cm_ResourceVersion :: string
  cm_Finalizers :: "string list"
  cm_Data :: "labels option"

text \<open>The parts of a Kubernetes node the controller reads: its name, its annotations (which may be nil)
  and the addresses of its status with their types\<close>

record Node =
  nd_Name :: string
  nd_Annotations :: "labels option"
  nd_Addresses :: "(string \<times> string) list"

record 'w KubeClient =
  kc_GetConfigMap :: "string \<Rightarrow> string \<Rightarrow> ('w, ConfigMap) eff"
  kc_CreateConfigMap :: "string \<Rightarrow> ConfigMap \<Rightarrow> ('w, ConfigMap) eff"
  kc_UpdateConfigMap :: "string \<Rightarrow> ConfigMap \<Rightarrow> ('w, ConfigMap) eff"
  kc_ListConfigMaps :: "string \<Rightarrow> ('w, ConfigMap list) eff"
  kc_GetNode :: "string \<Rightarrow> ('w, Node) eff"
  kc_ListNodes :: "('w, Node list) eff"
  kc_IsNotFound :: "go_error \<Rightarrow> bool"
  kc_IsConflict :: "go_error \<Rightarrow> bool"

text \<open>Reading a nil map is reading an empty one.\<close>

definition cm_data :: "ConfigMap \<Rightarrow> labels" where
  "cm_data cm = (case cm_Data cm of None \<Rightarrow> [] | Some m \<Rightarrow> m)"

definition GKENodeNameFromConfigMap :: "ConfigMap \<Rightarrow> go_error + string" where
  "GKENodeNameFromConfigMap cm =
     (let err = Inl (ErrText (''invalid configmap name '' @ cm_Name cm)) in
      if \<not> hasPrefix (cm_Name cm) ConfigMapNamePrefix then err
      else let nodeName = drop (length ConfigMapNamePrefix) (cm_Name cm) in
        if nodeName = [] then err else Inr nodeName)"

section \<open>Operations\<close>

text \<open>A map that is not found is nil and no error.\<close>

definition GetConfigMap :: "'w KubeClient \<Rightarrow> string \<Rightarrow> string \<Rightarrow> ('w, ConfigMap option) eff" where
  "GetConfigMap kc cmName cmNamespace =
     attempt (kc_GetConfigMap kc cmNamespace cmName) (\<lambda>r. case r of
       Inl e \<Rightarrow> if kc_IsNotFound kc e then ret None else fail e
     | Inr cm \<Rightarrow> ret (Some cm))"

definition CreateConfigMapWithData :: "'w KubeClient \<Rightarrow> string \<Rightarrow> string \<Rightarrow> labels \<Rightarrow> ('w, ConfigMap) eff" where
  "CreateConfigMapWithData kc cmName cmNamespace data =
     kc_CreateConfigMap kc cmNamespace
       \<lparr>cm_Name = cmName, cm_Namespace = cmNamespace, cm_ResourceVersion = [],
        cm_Finalizers = [ConfigMapFinalzer], cm_Data = Some data\<rparr>"

definition UpdateConfigMapWithKeyValue :: "'w KubeClient \<Rightarrow> ConfigMap \<Rightarrow> string \<Rightarrow> string \<Rightarrow> ('w, unit) eff" where
  "UpdateConfigMapWithKeyValue kc cm key value =
     (if mlookup (cm_data cm) key \<noteq> None then ret ()
      else bind (kc_UpdateConfigMap kc (cm_Namespace cm) (cm\<lparr>cm_Data := Some (minsert key value (cm_data cm))\<rparr>))
        (\<lambda>_. ret ()))"

definition RemoveKeyFromConfigMap :: "'w KubeClient \<Rightarrow> ConfigMap \<Rightarrow> string \<Rightarrow> ('w, unit) eff" where
  "RemoveKeyFromConfigMap kc cm key =
     (if mlookup (cm_data cm) key = None then ret ()
      else bind (kc_UpdateConfigMap kc (cm_Namespace cm) (cm\<lparr>cm_Data := Some (mdelete key (cm_data cm))\<rparr>))
        (\<lambda>_. ret ()))"

text \<open>\<open>retry.RetryOnConflict\<close> with a number of steps, of which \<open>retry.DefaultRetry\<close> has five: the call is
  made again while it fails with a conflict and steps are left, and the last conflict is returned.\<close>

fun retry_on_conflict :: "nat \<Rightarrow> (go_error \<Rightarrow> bool) \<Rightarrow> ('w, unit) eff \<Rightarrow> ('w, unit) eff" where
  "retry_on_conflict 0 conflict f = ret ()"
| "retry_on_conflict (Suc n) conflict f =
     attempt f (\<lambda>r. case r of
       Inr u \<Rightarrow> ret u
     | Inl e \<Rightarrow> if conflict e \<and> n \<noteq> 0 then retry_on_conflict n conflict f else fail e)"

definition DefaultRetry_Steps :: nat where "DefaultRetry_Steps = 5"

text \<open>One turn of \<open>RemoveKeyFromConfigMapWithRetry\<close>. The key is looked up in the map of the caller; a nil
  map has none, so that \<open>delete\<close> on the latest map is reached with keys of the caller's map only.\<close>

definition remove_from_latest :: "'w KubeClient \<Rightarrow> ConfigMap \<Rightarrow> string \<Rightarrow> ConfigMap \<Rightarrow> ('w, unit) eff" where
  "remove_from_latest kc cm key latestCM =
     (if mlookup (cm_data cm) key = None then ret ()
      else bind (kc_UpdateConfigMap kc (cm_Namespace latestCM)
             (latestCM\<lparr>cm_Data := map_option (mdelete key) (cm_Data latestCM)\<rparr>)) (\<lambda>_. ret ()))"

definition remove_key_once :: "'w KubeClient \<Rightarrow> ConfigMap \<Rightarrow> string \<Rightarrow> ('w, unit) eff" where
  "remove_key_once kc cm key = bind (kc_GetConfigMap kc (cm_Namespace cm) (cm_Name cm)) (remove_from_latest kc cm key)"

definition RemoveKeyFromConfigMapWithRetry :: "'w KubeClient \<Rightarrow> ConfigMap \<Rightarrow> string \<Rightarrow> ('w, unit) eff" where
  "RemoveKeyFromConfigMapWithRetry kc cm key =
     retry_on_conflict DefaultRetry_Steps (kc_IsConflict kc) (remove_key_once kc cm key)"

section \<open>Keys round-trip\<close>

lemma parse_generated_key:
  assumes "\<forall>x \<in> {p, l, f, s, g}. x \<noteq> [] \<and> CHR ''.'' \<notin> set x" "net_ParseIP ip \<noteq> None" "CHR ''_'' \<notin> set ip"
  shows "ParseConfigMapKey (GenerateConfigMapKey p l f s g ip) = Inr \<lparr>lk_ProjectID = p, lk_Location = l,
    lk_FilestoreName = f, lk_ShareName = s, lk_GkeNodeID = g, lk_GkeNodeInternalIP = ip\<rparr>"
proof -
  let ?ts = "[p, l, f, s, g, replace_char (CHR ''.'') (CHR ''_'') ip]"
  have "split (CHR ''.'') (GenerateConfigMapKey p l f s g ip) = ?ts"
    unfolding GenerateConfigMapKey_def using assms by (intro split_join) auto
  moreover have "ip \<noteq> []" using assms by auto
  ultimately show ?thesis
    using assms by (simp add: ParseConfigMapKey_def totalKeyElements_def replace_char_inv Let_def)
qed

text \<open>The key of a mount names it. The key generated from a project, location, instance, share and
  node id that are not empty and contain no dot, and from an address that parses and contains no
  underscore, parses back to them; and every key that parses is the one generated from its parts, so
  that two mounts never share an entry.\<close>

theorem lock_key_roundtrip:
  "((\<forall>x \<in> {p, l, f, s, g}. x \<noteq> [] \<and> CHR ''.'' \<notin> set x) \<and> net_ParseIP ip \<noteq> None \<and> CHR ''_'' \<notin> set ip \<longrightarrow>
      ParseConfigMapKey (GenerateConfigMapKey p l f s g ip) = Inr \<lparr>lk_ProjectID = p, lk_Location = l,
        lk_FilestoreName = f, lk_ShareName = s, lk_GkeNodeID = g, lk_GkeNodeInternalIP = ip\<rparr>)
   \<and> (ParseConfigMapKey key = Inr k \<longrightarrow> GenerateConfigMapKey (lk_ProjectID k) (lk_Location k) (lk_FilestoreName k)
        (lk_ShareName k) (lk_GkeNodeID k) (lk_GkeNodeInternalIP k) = key)"
proof (intro conjI impI; (elim conjE)?)
  assume "\<forall>x \<in> {p, l, f, s, g}. x \<noteq> [] \<and> CHR ''.'' \<notin> set x" "net_ParseIP ip \<noteq> None" "CHR ''_'' \<notin> set ip"
  then show "ParseConfigMapKey (GenerateConfigMapKey p l f s g ip) = Inr \<lparr>lk_ProjectID = p, lk_Location = l,
      lk_FilestoreName = f, lk_ShareName = s, lk_GkeNodeID = g, lk_GkeNodeInternalIP = ip\<rparr>"
    by (rule parse_generated_key)
next
  assume a: "ParseConfigMapKey key = Inr k"
  let ?ts = "split (CHR ''.'') key"
  have len: "length ?ts = 6" using a by (simp add: ParseConfigMapKey_def totalKeyElements_def Let_def split: if_splits)
  then have ts: "?ts = [?ts ! 0, ?ts ! 1, ?ts ! 2, ?ts ! 3, ?ts ! 4, ?ts ! 5]"
    by (intro nth_equalityI) (auto simp: less_Suc_eq numeral_eq_Suc)
  have "CHR ''.'' \<notin> set (?ts ! 5)" using set_split[of "?ts ! 5" "CHR ''.''" key] nth_mem[of 5 ?ts] len by simp
  then have inv: "replace_char (CHR ''.'') (CHR ''_'') (replace_char (CHR ''_'') (CHR ''.'') (?ts ! 5)) = ?ts ! 5"
    by (rule replace_char_inv)
  have "join ''.'' [?ts ! 0, ?ts ! 1, ?ts ! 2, ?ts ! 3, ?ts ! 4, ?ts ! 5] = key"
    using join_split[of "CHR ''.''" key] ts by simp
  then show "GenerateConfigMapKey (lk_ProjectID k) (lk_Location k) (lk_FilestoreName k)
      (lk_ShareName k) (lk_GkeNodeID k) (lk_GkeNodeInternalIP k) = key"
    using a inv by (auto simp: ParseConfigMapKey_def GenerateConfigMapKey_def Let_def simp del: join.simps split: if_splits)
qed

theorem lock_key_roundtrip_witness:
  "ParseConfigMapKey (GenerateConfigMapKey ''p1'' ''us-c1'' ''fs'' ''vol1'' ''4711'' ''10.0.0.7'')
     = Inr \<lparr>lk_ProjectID = ''p1'', lk_Location = ''us-c1'', lk_FilestoreName = ''fs'', lk_ShareName = ''vol1'',
         lk_GkeNodeID = ''4711'', lk_GkeNodeInternalIP = ''10.0.0.7''\<rparr>
   \<and> GenerateConfigMapKey ''p1'' ''us-c1'' ''fs'' ''vol1'' ''4711'' ''10.0.0.7'' = ''p1.us-c1.fs.vol1.4711.10_0_0_7''"
proof -
  have ip: "show_ip (ip_of_bytes 10 0 0 7) = ''10.0.0.7''" by code_simp
  have "net_ParseIP ''10.0.0.7'' \<noteq> None"
    using net_ParseIP_show_not_None[of "ip_of_bytes 10 0 0 7"] unfolding ip .
  then have "ParseConfigMapKey (GenerateConfigMapKey ''p1'' ''us-c1'' ''fs'' ''vol1'' ''4711'' ''10.0.0.7'')
     = Inr \<lparr>lk_ProjectID = ''p1'', lk_Location = ''us-c1'', lk_FilestoreName = ''fs'', lk_ShareName = ''vol1'',
         lk_GkeNodeID = ''4711'', lk_GkeNodeInternalIP = ''10.0.0.7''\<rparr>"
    by (intro lock_key_roundtrip[THEN conjunct1, rule_format]) simp
  then show ?thesis by (simp add: GenerateConfigMapKey_def replace_char_def)
qed

section \<open>What the store of the API server keeps\<close>

text \<open>\<open>ent w ns n k\<close> is the value stored under the key \<open>k\<close> in the map \<open>n\<close> of the namespace \<open>ns\<close>. A call
  that fails changes nothing, a call that succeeds does what it says, and nobody else writes.\<close>

type_synonym 'w entries = "'w \<Rightarrow> string \<Rightarrow> string \<Rightarrow> string \<Rightarrow> string option"

definition put_entry :: "string \<Rightarrow> string \<Rightarrow> string \<Rightarrow> string option
    \<Rightarrow> (string \<Rightarrow> string \<Rightarrow> string \<Rightarrow> string option) \<Rightarrow> (string \<Rightarrow> string \<Rightarrow> string \<Rightarrow> string option)" where
  "put_entry ns n k v e = e(ns := (e ns)(n := (e ns n)(k := v)))"

definition config_map_store :: "'w KubeClient \<Rightarrow> 'w entries \<Rightarrow> bool" where
  "config_map_store kc ent =
     ((\<forall>ns n w. case kc_GetConfigMap kc ns n w of
          (Inr cm, w') \<Rightarrow> ent w' = ent w \<and> cm_Name cm = n \<and> cm_Namespace cm = ns \<and> mlookup (cm_data cm) = ent w ns n
        | (Inl e, w') \<Rightarrow> ent w' = ent w \<and> (kc_IsNotFound kc e \<longrightarrow> ent w ns n = (\<lambda>k. None)))
    \<and> (\<forall>ns cm w. case kc_UpdateConfigMap kc ns cm w of
          (Inr cm', w') \<Rightarrow> ent w' = (ent w)(ns := (ent w ns)(cm_Name cm := mlookup (cm_data cm)))
        | (Inl e, w') \<Rightarrow> ent w' = ent w)
    \<and> (\<forall>ns cm w. case kc_CreateConfigMap kc ns cm w of
          (Inr cm', w') \<Rightarrow> ent w' = (ent w)(ns := (ent w ns)(cm_Name cm := mlookup (cm_data cm)))
        | (Inl e, w') \<Rightarrow> ent w' = ent w)
    \<and> (\<forall>n w. ent (snd (kc_GetNode kc n w)) = ent w))"

lemma put_entry_apply [simp]:
  "put_entry ns n k v e ns' n' k' = (if ns' = ns \<and> n' = n \<and> k' = k then v else e ns' n' k')"
  by (simp add: put_entry_def)

lemma store_get:
  assumes "config_map_store kc ent" "kc_GetConfigMap kc ns n w = (r, w')"
  shows "ent w' = ent w"
    "r = Inr cm \<Longrightarrow> cm_Name cm = n \<and> cm_Namespace cm = ns \<and> mlookup (cm_data cm) = ent w ns n"
    "r = Inl e \<Longrightarrow> kc_IsNotFound kc e \<Longrightarrow> ent w ns n = (\<lambda>k. None)"
  using assms(1)[unfolded config_map_store_def, THEN conjunct1, rule_format, where ns = ns and n = n and w = w] assms(2)
  by (auto split: sum.splits)

lemma store_update:
  assumes "config_map_store kc ent" "kc_UpdateConfigMap kc ns cm w = (r, w')"
  shows "r = Inr cm' \<Longrightarrow> ent w' = (ent w)(ns := (ent w ns)(cm_Name cm := mlookup (cm_data cm)))"
    "r = Inl e \<Longrightarrow> ent w' = ent w"
  using assms(1)[unfolded config_map_store_def, THEN conjunct2, THEN conjunct1, rule_format, where ns = ns and cm = cm and w = w] assms(2)
  by (auto split: sum.splits)

lemma store_create:
  assumes "config_map_store kc ent" "kc_CreateConfigMap kc ns cm w = (r, w')"
  shows "r = Inr cm' \<Longrightarrow> ent w' = (ent w)(ns := (ent w ns)(cm_Name cm := mlookup (cm_data cm)))"
    "r = Inl e \<Longrightarrow> ent w' = ent w"
  using assms(1)[unfolded config_map_store_def, THEN conjunct2, THEN conjunct2, THEN conjunct1, rule_format, where ns = ns and cm = cm and w = w] assms(2)
  by (auto split: sum.splits)

lemma store_node: "config_map_store kc ent \<Longrightarrow> kc_GetNode kc n w = (r, w') \<Longrightarrow> ent w' = ent w"
  unfolding config_map_store_def by (metis snd_conv)

lemma mlookup_minsert_fun: "mlookup (minsert k v m) = (mlookup m)(k \<mapsto> v)"
  by (simp add: fun_eq_iff)

lemma mlookup_mdelete_fun: "mlookup (mdelete k m) = (mlookup m)(k := None)"
  by (simp add: fun_eq_iff)

lemma cm_data_delete [simp]: "cm_data (cm\<lparr>cm_Data := map_option (mdelete k) (cm_Data cm)\<rparr>) = mdelete k (cm_data cm)"
  by (auto simp: cm_data_def mdelete_def split: option.split)

lemma cm_data_update [simp]: "cm_data (cm\<lparr>cm_Data := Some m\<rparr>) = m"
  by (simp add: cm_data_def)

lemma remove_key_once_spec:
  assumes "config_map_store kc ent" "mlookup (cm_data cm) key \<noteq> None" "remove_key_once kc cm key w = (r, w')"
  shows "ent w' = (case r of Inl e \<Rightarrow> ent w | Inr u \<Rightarrow> put_entry (cm_Namespace cm) (cm_Name cm) key None (ent w))"
proof -
  obtain r1 w1 where g: "kc_GetConfigMap kc (cm_Namespace cm) (cm_Name cm) w = (r1, w1)" by force
  note get = store_get[OF assms(1) g]
  show ?thesis
  proof (cases r1)
    case (Inl e)
    then show ?thesis using assms(3) g get(1) by (auto simp: remove_key_once_def remove_from_latest_def bind_def)
  next
    case (Inr lcm)
    note names = get(2)[OF Inr]
    let ?new = "lcm\<lparr>cm_Data := map_option (mdelete key) (cm_Data lcm)\<rparr>"
    obtain r2 w2 where u: "kc_UpdateConfigMap kc (cm_Namespace lcm) ?new w1 = (r2, w2)" by force
    show ?thesis
      using assms(2,3) g u Inr get(1) names store_update[OF assms(1) u]
      by (cases r2) (auto simp: remove_key_once_def remove_from_latest_def bind_def put_entry_def mlookup_mdelete_fun)
  qed
qed

lemma retry_spec:
  assumes "\<And>w r w'. f w = (r, w') \<Longrightarrow> ent w' = (case r of Inl e \<Rightarrow> ent w | Inr u \<Rightarrow> g (ent w))"
    and "retry_on_conflict (Suc n) conflict f w = (r, w')"
  shows "ent w' = (case r of Inl e \<Rightarrow> ent w | Inr u \<Rightarrow> g (ent w))"
  using assms(2)
proof (induction n arbitrary: w)
  case 0
  then show ?case by (cases "f w") (auto simp: attempt_eq dest: assms(1) split: sum.splits)
next
  case (Suc n)
  obtain r1 w1 where f: "f w = (r1, w1)" by force
  show ?case
  proof (cases r1)
    case (Inr u)
    then show ?thesis using Suc.prems f assms(1)[OF f] by (auto simp: attempt_eq)
  next
    case (Inl e)
    have e1: "ent w1 = ent w" using assms(1)[OF f] Inl by simp
    show ?thesis
    proof (cases "conflict e")
      case True
      then have "retry_on_conflict (Suc n) conflict f w1 = (r, w')"
        using Suc.prems f Inl by (simp add: attempt_eq del: retry_on_conflict.simps(2))
           (simp add: retry_on_conflict.simps(2)[of "Suc n"] attempt_eq del: retry_on_conflict.simps(2))
      from Suc.IH[OF this] show ?thesis unfolding e1 .
    next
      case False
      then show ?thesis using Suc.prems f Inl e1 by (auto simp: attempt_eq)
    qed
  qed
qed

text \<open>A removal that succeeds has removed the entry from the latest version of the map, whatever others
  stored in it; one that fails has changed nothing.\<close>

lemma RemoveKeyFromConfigMapWithRetry_spec:
  assumes "config_map_store kc ent" "mlookup (cm_data cm) key \<noteq> None"
    "RemoveKeyFromConfigMapWithRetry kc cm key w = (r, w')"
  shows "ent w' = (case r of Inl e \<Rightarrow> ent w | Inr u \<Rightarrow> put_entry (cm_Namespace cm) (cm_Name cm) key None (ent w))"
  using retry_spec[where f = "remove_key_once kc cm key" and g = "put_entry (cm_Namespace cm) (cm_Name cm) key None",
      OF remove_key_once_spec[OF assms(1,2)]] assms(3)
  by (simp add: RemoveKeyFromConfigMapWithRetry_def DefaultRetry_Steps_def eval_nat_numeral del: retry_on_conflict.simps)

end
