(* ===== verification/Node_Server.thy ===== *)
theory Node_Server
  imports Controller Lock_Info
begin

text \<open>
  \<open>pkg/csi_driver/node.go\<close>: the node server, which mounts a share at a staging path, bind-mounts the
  staging path at the target paths of the pods, and records each NFS mount in the config map of its
  node for the lock release controller. The mount library, the operating system and the metadata of
  the machine are the record \<open>NodeEnv\<close>. Handlers work on the state of \<open>Driver_State\<close>: the node server
  has volume locks of its own, and does not use the allocator.
\<close>

section \<open>Requests and environment\<close>

text \<open>A capability with the flags of its mount access type\<close>

record NodeCapability = VolumeCapability +
  cap_MountFlags :: "string list"

record NodePublishVolumeRequest =
  np_Readonly :: bool
  np_TargetPath :: string
  np_StagingTargetPath :: string
  np_VolumeContext :: labels
  np_VolumeCapability :: "NodeCapability option"
  np_Secrets :: labels

record NodeStageVolumeRequest =
  ns_VolumeId :: string
  ns_StagingTargetPath :: string
  ns_VolumeCapability :: "NodeCapability option"
  ns_VolumeContext :: labels

record Statfs_t =
  Blocks :: "64 word"
  Bfree :: "64 word"
  Bsize :: "64 word"
  Files :: "64 word"
  Ffree :: "64 word"

record VolumeUsage =
  vu_Available :: int
  vu_Total :: int
  vu_Used :: int

record 'w NodeEnv =
  ne_Mount :: "string \<Rightarrow> string \<Rightarrow> string \<Rightarrow> string list \<Rightarrow> ('w, unit) eff"
  ne_MountSensitive :: "string \<Rightarrow> string \<Rightarrow> string \<Rightarrow> string list \<Rightarrow> string list \<Rightarrow> ('w, unit) eff"
  ne_IsLikelyNotMountPoint :: "string \<Rightarrow> ('w, bool) eff"
  ne_CleanupMountPoint :: "string \<Rightarrow> ('w, unit) eff"
  ne_Remove :: "string \<Rightarrow> ('w, unit) eff"
  ne_MkdirAll :: "string \<Rightarrow> ('w, unit) eff"
  ne_Lstat :: "string \<Rightarrow> ('w, unit) eff"
  ne_Statfs :: "string \<Rightarrow> ('w, Statfs_t) eff"
  ne_IsNotExist :: "go_error \<Rightarrow> bool"
  ne_Zone :: string
  ne_InstanceID :: string
  ne_InternalIP :: string
  ne_Project :: string
  ne_goOs :: string
  ne_NodeName :: string
  ne_FeatureNFSv4Support :: "bool option"
  ne_FeatureLockRelease :: bool
  ne_kube :: "'w KubeClient"

definition optionSmbUser :: string where "optionSmbUser = ''smbUser''"
definition optionSmbPassword :: string where "optionSmbPassword = ''smbPassword''"

section \<open>Validation\<close>

definition validateAccessMode :: "string option \<Rightarrow> go_error option" where
  "validateAccessMode am = (case am of
       None \<Rightarrow> Some (ErrText ''access mode is nil'')
     | Some mode \<Rightarrow>
         if mode \<in> set [''SINGLE_NODE_WRITER'', ''SINGLE_NODE_READER_ONLY'', ''MULTI_NODE_READER_ONLY'',
              ''MULTI_NODE_SINGLE_WRITER'', ''MULTI_NODE_MULTI_WRITER'']
         then None else Some (ErrText (''unkown access mode '' @ mode)))"

definition has_block :: "access_type option \<Rightarrow> bool" where
  "has_block t = (t = Some BlockAccess)"

definition has_mount :: "access_type option \<Rightarrow> bool" where
  "has_mount t = (case t of Some (MountAccess (Some fs)) \<Rightarrow> True | _ \<Rightarrow> False)"

definition node_validateVolumeCapability :: "NodeCapability \<Rightarrow> go_error option" where
  "node_validateVolumeCapability vc = (case validateAccessMode (cap_AccessMode vc) of
       Some e \<Rightarrow> Some e
     | None \<Rightarrow>
         let blk = has_block (cap_AccessType vc); mnt = has_mount (cap_AccessType vc) in
         if \<not> mnt \<and> \<not> blk then Some (ErrText ''must specify an access type'')
         else if mnt \<and> blk then Some (ErrText ''specified both mount and block access types'')
         else if blk then Some (ErrText ''block access type not supported'')
         else None)"

definition validateVolumeAttributes :: "labels \<Rightarrow> go_error option" where
  "validateVolumeAttributes attr = (case mlookup attr attrIP of
       None \<Rightarrow> Some (ErrText (''volume attribute key '' @ attrIP @ '' not set''))
     | Some instanceip \<Rightarrow>
         if net_ParseIP instanceip = None
         then Some (ErrText (''invalid IP address '' @ instanceip @ '' in volume attributes''))
         else if mlookup attr attrVolume = None then Some (ErrText (''volume attribute key '' @ attrVolume @ '' not set''))
         else if mget attr attrVolume = [] then Some (ErrText (''volume attribute '' @ attrVolume @ '' not set''))
         else None)"

definition validateMultishareVolumeAttributes :: "labels \<Rightarrow> go_error option" where
  "validateMultishareVolumeAttributes attr = (case mlookup attr attrIP of
       None \<Rightarrow> Some (ErrText (''volume attribute key '' @ attrIP @ '' not set''))
     | Some instanceip \<Rightarrow>
         if net_ParseIP instanceip = None
         then Some (ErrText (''invalid IP address '' @ instanceip @ '' in volume attributes''))
         else None)"

definition validateSmbNodePublishSecrets :: "labels \<Rightarrow> go_error option" where
  "validateSmbNodePublishSecrets secrets =
     (if mget secrets optionSmbUser = [] then Some (ErrText (''secret '' @ optionSmbUser @ '' not set''))
      else if mget secrets optionSmbPassword = [] then Some (ErrText (''secret '' @ optionSmbPassword @ '' not set''))
      else None)"

section \<open>Lock information\<close>

definition isDirMounted :: "'w NodeEnv \<Rightarrow> string \<Rightarrow> ('w, bool) eff" where
  "isDirMounted env targetPath = bind (ne_IsLikelyNotMountPoint env targetPath) (\<lambda>notMnt. ret (\<not> notMnt))"

definition generateLockInfoKeyFromVolumeID :: "'w NodeEnv \<Rightarrow> string \<Rightarrow> go_error + string" where
  "generateLockInfoKeyFromVolumeID env volumeID =
     (if isMultishareVolId volumeID
      then rbind (parseMultishareVolId volumeID) (\<lambda>(_, project, location, filestoreName, shareName).
        Inr (GenerateConfigMapKey project location filestoreName shareName (ne_InstanceID env) (ne_InternalIP env)))
      else rbind (getFileInstanceFromID volumeID) (\<lambda>(filestoreInstance, _).
        Inr (GenerateConfigMapKey (ne_Project env) (si_Location filestoreInstance) (si_Name filestoreInstance)
          (vol_Name (si_Volume filestoreInstance)) (ne_InstanceID env) (ne_InternalIP env))))"

definition supports_lock_release :: "labels \<Rightarrow> bool" where
  "supports_lock_release attr = (case mlookup attr attrSupportLockRelease of
       None \<Rightarrow> False | Some val \<Rightarrow> toLower val = ''true'')"

definition nodeStageVolumeUpdateLockInfo :: "'w NodeEnv \<Rightarrow> NodeStageVolumeRequest \<Rightarrow> ('w, unit) eff" where
  "nodeStageVolumeUpdateLockInfo env req =
     (let attr = ns_VolumeContext req; configmapName = ConfigMapNamePrefix @ ne_NodeName env in
      if \<not> supports_lock_release attr then ret ()
      else bind (GetConfigMap (ne_kube env) configmapName ManagedFilestoreCSINamespace) (\<lambda>cm.
        bind (lift (generateLockInfoKeyFromVolumeID env (ns_VolumeId req))) (\<lambda>lockInfoKey.
        let filestoreIP = mget attr attrIP in
        (case cm of
           None \<Rightarrow> bind (CreateConfigMapWithData (ne_kube env) configmapName ManagedFilestoreCSINamespace
                     [(lockInfoKey, filestoreIP)]) (\<lambda>_. ret ())
         | Some m \<Rightarrow> UpdateConfigMapWithKeyValue (ne_kube env) m lockInfoKey filestoreIP))))"

definition nodeUnstageVolumeUpdateLockInfo :: "'w NodeEnv \<Rightarrow> string \<Rightarrow> ('w, unit) eff" where
  "nodeUnstageVolumeUpdateLockInfo env volumeID =
     bind (GetConfigMap (ne_kube env) (ConfigMapNamePrefix @ ne_NodeName env) ManagedFilestoreCSINamespace) (\<lambda>cm.
       (case cm of
          None \<Rightarrow> ret ()
        | Some m \<Rightarrow> bind (lift (generateLockInfoKeyFromVolumeID env volumeID)) (\<lambda>lockInfoKey.
            RemoveKeyFromConfigMap (ne_kube env) m lockInfoKey)))"

section \<open>Staging\<close>

definition required :: "go_error option \<Rightarrow> ('w, unit) eff" where
  "required oe = (case oe of None \<Rightarrow> ret () | Some e \<Rightarrow> fail e)"

definition as_invalid :: "go_error option \<Rightarrow> go_error option" where
  "as_invalid = map_option (\<lambda>e. StatusErr InvalidArgument (error_text e))"

text \<open>The source of the mount from the attributes of the volume\<close>

definition stage_source :: "string \<Rightarrow> labels \<Rightarrow> go_error + string" where
  "stage_source volumeID attr =
     (if isMultishareVolId volumeID
      then (case validateMultishareVolumeAttributes attr of
              Some e \<Rightarrow> Inl (StatusErr InvalidArgument (error_text e))
            | None \<Rightarrow> (case parseMultishareVolId volumeID of
                Inl e \<Rightarrow> Inl (StatusErr InvalidArgument (error_text e))
              | Inr (_, _, _, _, shareName) \<Rightarrow> Inr (mget attr attrIP @ '':/'' @ shareName)))
      else (case validateVolumeAttributes attr of
              Some e \<Rightarrow> Inl (StatusErr InvalidArgument (error_text e))
            | None \<Rightarrow> Inr (mget attr attrIP @ '':/'' @ mget attr attrVolume)))"

definition stage_protocol :: "'w NodeEnv \<Rightarrow> labels \<Rightarrow> string" where
  "stage_protocol env attr = (case mlookup attr attrFileProtocol of
       None \<Rightarrow> v3FileProtocol
     | Some p \<Rightarrow> if ne_FeatureNFSv4Support env = Some False then v3FileProtocol else p)"

definition stage_options :: "NodeCapability \<Rightarrow> labels \<Rightarrow> string list" where
  "stage_options vc attr =
     (if has_mount (cap_AccessType vc) then cap_MountFlags vc else [])
     @ (if mget attr attrMountOptions \<noteq> [] then [mget attr attrMountOptions] else [])"

text \<open>The update of the config map after a mount, for NFSv3 volumes when lock release is on\<close>

definition stage_lock_info :: "'w NodeEnv \<Rightarrow> NodeStageVolumeRequest \<Rightarrow> ('w, unit) eff" where
  "stage_lock_info env req =
     (if stage_protocol env (ns_VolumeContext req) = v3FileProtocol \<and> ne_FeatureLockRelease env
      then bind_err (\<lambda>e. StatusErr Internal (''failed to store lock info after NodeStageVolume succeeded on volume ''
               @ ns_VolumeId req @ '' to path '' @ ns_StagingTargetPath req @ '': '' @ error_text e))
             (nodeStageVolumeUpdateLockInfo env req) ret
      else ret ())"

text \<open>A failed mount: the mount point is cleaned up, an error of which is only logged.\<close>

definition mount_or_clean :: "'w NodeEnv \<Rightarrow> string \<Rightarrow> (go_error \<Rightarrow> go_error) \<Rightarrow> ('w, unit) eff \<Rightarrow> ('w, unit) eff" where
  "mount_or_clean env cleanupPath h m =
     logged m (\<lambda>e. logged (ne_CleanupMountPoint env cleanupPath) (\<lambda>_. fail (h e)) (\<lambda>_. fail (h e))) ret"

definition stage_locked :: "'w NodeEnv \<Rightarrow> NodeStageVolumeRequest \<Rightarrow> NodeCapability \<Rightarrow> string \<Rightarrow> ('w, unit) eff" where
  "stage_locked env req vc source =
     (let path = ns_StagingTargetPath req;
          mount = bind (mount_or_clean env path
                (\<lambda>e. StatusErr Internal (''mount '' @ quote path @ '' failed on node '' @ ne_NodeName env @ '': '' @ error_text e))
                (ne_Mount env source path ''nfs'' (stage_options vc (ns_VolumeContext req)))) (\<lambda>_. stage_lock_info env req) in
      attempt (isDirMounted env path) (\<lambda>r. case r of
        Inl e \<Rightarrow> if \<not> ne_IsNotExist env e then fail e
          else bind_err (\<lambda>e. ErrWrap (''mkdir failed for path '' @ path @ '' ('') e '')'') (ne_MkdirAll env path) (\<lambda>_. mount)
      | Inr mounted \<Rightarrow> if mounted then stage_lock_info env req else mount))"

definition NodeStageVolume :: "'w NodeEnv \<Rightarrow> NodeStageVolumeRequest \<Rightarrow> ('w driver, unit) eff" where
  "NodeStageVolume env req =
     (if length (ns_VolumeId req) = 0
      then fail (StatusErr InvalidArgument ''NodeStageVolume Volume ID must be provided'')
      else if length (ns_StagingTargetPath req) = 0
      then fail (StatusErr InvalidArgument ''NodeStageVolume Staging Target Path must be provided'')
      else (case ns_VolumeCapability req of
          None \<Rightarrow> fail (StatusErr InvalidArgument ''NodeStageVolume Volume Capability must be provided'')
        | Some vc \<Rightarrow> (case node_validateVolumeCapability vc of
            Some e \<Rightarrow> fail (StatusErr InvalidArgument (''VolumeCapability is invalid: '' @ error_text e))
          | None \<Rightarrow> bind (lift (stage_source (ns_VolumeId req) (ns_VolumeContext req))) (\<lambda>source.
              with_lock (ns_VolumeId req) (on_world (stage_locked env req vc source))))))"

definition unstage_locked :: "'w NodeEnv \<Rightarrow> string \<Rightarrow> string \<Rightarrow> ('w, unit) eff" where
  "unstage_locked env volumeID path =
     bind_err (status_of Internal) (ne_CleanupMountPoint env path) (\<lambda>_.
       if ne_FeatureLockRelease env
       then bind_err (\<lambda>e. StatusErr Internal (''failed to update lock info after NodeUnstageVolume succeeded on volume ''
                @ volumeID @ '' from staging target path '' @ path @ '' on node '' @ ne_NodeName env @ '': '' @ error_text e))
              (nodeUnstageVolumeUpdateLockInfo env volumeID) ret
       else ret ())"

definition NodeUnstageVolume :: "'w NodeEnv \<Rightarrow> string \<Rightarrow> string \<Rightarrow> ('w driver, unit) eff" where
  "NodeUnstageVolume env volumeID stagingTargetPath =
     (if length volumeID = 0
      then fail (StatusErr InvalidArgument ''NodeUnstageVolume Volume ID must be provided'')
      else if length stagingTargetPath = 0
      then fail (StatusErr InvalidArgument ''NodeUnstageVolume Staging Target Path must be provided'')
      else with_lock volumeID (on_world (unstage_locked env volumeID stagingTargetPath)))"

section \<open>Publishing\<close>

text \<open>The preparation of the target path: on Windows its removal, elsewhere its creation. None is the
  return on a path that is mounted.\<close>

definition prepare_target :: "'w NodeEnv \<Rightarrow> NodePublishVolumeRequest \<Rightarrow> ('w, (string list \<times> string list) option) eff" where
  "prepare_target env req =
     (let path = np_TargetPath req; secrets = np_Secrets req in
      if ne_goOs env = ''windows''
      then bind (required (as_invalid (validateSmbNodePublishSecrets secrets))) (\<lambda>_.
        attempt (ne_Remove env path) (\<lambda>r.
          let opts = Some ([''bind'', mget secrets optionSmbUser], [mget secrets optionSmbPassword]) in
          (case r of Inl e \<Rightarrow> if \<not> ne_IsNotExist env e then fail e else ret opts | Inr _ \<Rightarrow> ret opts)))
      else attempt (isDirMounted env path) (\<lambda>r. case r of
          Inl e \<Rightarrow> if \<not> ne_IsNotExist env e then fail e
            else bind_err (\<lambda>e. StatusErr Internal (''mkdir failed on path '' @ path @ '' ('' @ error_text e @ '')''))
              (ne_MkdirAll env path) (\<lambda>_. ret (Some ([''bind''], [])))
        | Inr mounted \<Rightarrow> ret (if mounted then None else Some ([''bind''], []))))"

definition publish_options :: "NodePublishVolumeRequest \<Rightarrow> string list \<Rightarrow> string list" where
  "publish_options req options =
     options
     @ (if np_Readonly req then [''ro''] else [])
     @ (case np_VolumeCapability req of None \<Rightarrow> []
        | Some vc \<Rightarrow> if has_mount (cap_AccessType vc) then cap_MountFlags vc else [])
     @ (if mget (np_VolumeContext req) attrMountOptions \<noteq> [] then [mget (np_VolumeContext req) attrMountOptions] else [])"

definition publish_locked :: "'w NodeEnv \<Rightarrow> NodePublishVolumeRequest \<Rightarrow> ('w, unit) eff" where
  "publish_locked env req =
     (let source = np_StagingTargetPath req; target = np_TargetPath req;
          fstype = (if ne_goOs env = ''windows'' then ''cifs'' else ''nfs'') in
      bind (prepare_target env req) (\<lambda>prepared. case prepared of
        None \<Rightarrow> ret ()
      | Some (options, sensitiveOptions) \<Rightarrow>
          mount_or_clean env source
            (\<lambda>e. StatusErr Internal (''mount '' @ quote target @ '' failed: '' @ error_text e))
            (if length sensitiveOptions > 0
             then ne_MountSensitive env source target fstype (publish_options req options) sensitiveOptions
             else ne_Mount env source target fstype (publish_options req options))))"

definition NodePublishVolume :: "config \<Rightarrow> 'w NodeEnv \<Rightarrow> NodePublishVolumeRequest \<Rightarrow> ('w driver, unit) eff" where
  "NodePublishVolume cfg env req =
     (if length (np_TargetPath req) = 0
      then fail (StatusErr InvalidArgument ''NodePublishVolume target path must be provided'')
      else if length (np_StagingTargetPath req) = 0
      then fail (StatusErr InvalidArgument ''NodePublishVolume stagingTargetPath path must be provided'')
      else bind (required (as_invalid (validateVolumeCapabilities cfg
              [map_option VolumeCapability.truncate (np_VolumeCapability req)]))) (\<lambda>_.
        with_lock (np_TargetPath req) (on_world (publish_locked env req))))"

definition NodeUnpublishVolume :: "'w NodeEnv \<Rightarrow> string \<Rightarrow> ('w driver, unit) eff" where
  "NodeUnpublishVolume env targetPath =
     (if length targetPath = 0
      then fail (StatusErr InvalidArgument ''NodeUnpublishVolume target path must be provided'')
      else with_lock targetPath (on_world (bind_err (status_of Internal) (ne_CleanupMountPoint env targetPath) ret)))"

section \<open>Information and statistics\<close>

definition NodeGetInfo :: "'w NodeEnv \<Rightarrow> string \<times> labels" where
  "NodeGetInfo env = (ne_NodeName env, [(TopologyKeyZone, ne_Zone env)])"

definition NodeExpandVolume :: "('w, unit) eff" where
  "NodeExpandVolume = fail (StatusErr Unimplemented ''NodeExpandVolume unsupported'')"

text \<open>The int64 products and differences of \<open>getFSStat\<close>; an overflow wraps.\<close>

definition getFSStat :: "'w NodeEnv \<Rightarrow> string \<Rightarrow> ('w, int \<times> int \<times> int \<times> int \<times> int \<times> int) eff" where
  "getFSStat env path =
     bind_err (\<lambda>e. ErrWrap (''failed to get fs info on path '' @ path @ '': '') e []) (ne_Statfs env path) (\<lambda>st.
       ret (sint (Bfree st * Bsize st), sint (Blocks st * Bsize st), sint ((Blocks st - Bfree st) * Bsize st),
            sint (Ffree st), sint (Files st), sint (Files st - Ffree st)))"

definition NodeGetVolumeStats :: "'w NodeEnv \<Rightarrow> string \<Rightarrow> string \<Rightarrow> ('w, VolumeUsage \<times> VolumeUsage) eff" where
  "NodeGetVolumeStats env volumeId volumePath =
     (if length volumeId = 0 then fail (StatusErr InvalidArgument ''NodeGetVolumeStats volume ID was empty'')
      else if length volumePath = 0 then fail (StatusErr InvalidArgument ''NodeGetVolumeStats volume path was empty'')
      else bind_err (\<lambda>e. if ne_IsNotExist env e then StatusErr NotFound (''path '' @ volumePath @ '' does not exist'')
               else StatusErr Internal (''unknown error when stat on '' @ volumePath @ '': '' @ error_text e))
             (ne_Lstat env volumePath) (\<lambda>_.
        bind_err (\<lambda>e. StatusErr Internal (''failed to get fs info on path '' @ volumePath @ '': '' @ error_text e))
          (getFSStat env volumePath) (\<lambda>(available, capacity, used, inodesFree, inodes, inodesUsed).
        ret (\<lparr>vu_Available = available, vu_Total = capacity, vu_Used = used\<rparr>,
             \<lparr>vu_Available = inodesFree, vu_Total = inodes, vu_Used = inodesUsed\<rparr>))))"

end
