(* ===== verification/Lock_Interleaving.thy ===== *)
theory Lock_Interleaving
  imports Node_Server
begin

text \<open>
  The config map of a node under concurrent writers. Stages and unstages of different volumes, the rounds of
  the node driver and the event workers of the standalone controller all read the map, change their copy and
  send it back, in any interleaving of these calls to the API server. \<open>optimistic_store\<close> states what they rely
  on in the server: an object that is sent with a resource version is only stored while that is the version
  of the stored object. It is an instance of \<open>config_map_store\<close>, on which the properties of the rounds rest.
\<close>

section \<open>A store with resource versions\<close>

type_synonym 'w objects = "'w \<Rightarrow> string \<Rightarrow> string \<Rightarrow> ConfigMap option"

definition entries_of :: "'w objects \<Rightarrow> 'w entries" where
  "entries_of cur w ns n = (case cur w ns n of None \<Rightarrow> (\<lambda>k. None) | Some cm \<Rightarrow> mlookup (cm_data cm))"

text \<open>\<open>stored\<close>: the object is stored under its name, with a version that was never issued before.\<close>

definition stored :: "'w objects \<Rightarrow> ('w \<Rightarrow> string set) \<Rightarrow> string \<Rightarrow> ConfigMap \<Rightarrow> 'w \<Rightarrow> 'w \<Rightarrow> bool" where
  "stored cur issued ns cm w w' =
     (\<exists>v. v \<notin> issued w \<and> v \<noteq> [] \<and> issued w' = insert v (issued w)
        \<and> cur w' = (cur w)(ns := (cur w ns)(cm_Name cm := Some (cm\<lparr>cm_Namespace := ns, cm_ResourceVersion := v\<rparr>))))"

definition unchanged :: "'w objects \<Rightarrow> ('w \<Rightarrow> string set) \<Rightarrow> 'w \<Rightarrow> 'w \<Rightarrow> bool" where
  "unchanged cur issued w w' = (cur w' = cur w \<and> issued w' = issued w)"

text \<open>An update without a version is unconditional; one with a version must meet that of the stored object.\<close>

definition optimistic_store :: "'w KubeClient \<Rightarrow> 'w objects \<Rightarrow> ('w \<Rightarrow> string set) \<Rightarrow> bool" where
  "optimistic_store kc cur issued =
     ((\<forall>ns n w. case kc_GetConfigMap kc ns n w of
          (Inr cm, w') \<Rightarrow> unchanged cur issued w w' \<and> cur w ns n = Some cm \<and> cm_Name cm = n \<and> cm_Namespace cm = ns
        | (Inl e, w') \<Rightarrow> unchanged cur issued w w' \<and> (kc_IsNotFound kc e \<longrightarrow> cur w ns n = None))
    \<and> (\<forall>ns cm w. case kc_UpdateConfigMap kc ns cm w of
          (Inr cm', w') \<Rightarrow> stored cur issued ns cm w w' \<and> (\<exists>old. cur w ns (cm_Name cm) = Some old
             \<and> (cm_ResourceVersion cm = [] \<or> cm_ResourceVersion cm = cm_ResourceVersion old))
        | (Inl e, w') \<Rightarrow> unchanged cur issued w w')
    \<and> (\<forall>ns cm w. case kc_CreateConfigMap kc ns cm w of
          (Inr cm', w') \<Rightarrow> stored cur issued ns cm w w' \<and> cur w ns (cm_Name cm) = None
        | (Inl e, w') \<Rightarrow> unchanged cur issued w w')
    \<and> (\<forall>n w. unchanged cur issued w (snd (kc_GetNode kc n w))))"

text \<open>The stored objects carry their names and versions that were issued.\<close>

definition objects_ok :: "'w objects \<Rightarrow> ('w \<Rightarrow> string set) \<Rightarrow> 'w \<Rightarrow> bool" where
  "objects_ok cur issued w = (\<forall>ns n cm. cur w ns n = Some cm \<longrightarrow>
     cm_Name cm = n \<and> cm_Namespace cm = ns \<and> cm_ResourceVersion cm \<in> issued w \<and> cm_ResourceVersion cm \<noteq> [])"

lemma stored_entries:
  assumes "stored cur issued ns cm w w'"
  shows "entries_of cur w' = (entries_of cur w)(ns := (entries_of cur w ns)(cm_Name cm := mlookup (cm_data cm)))"
  using assms by (auto simp: stored_def entries_of_def fun_eq_iff cm_data_def)

lemma unchanged_entries: "unchanged cur issued w w' \<Longrightarrow> entries_of cur w' = entries_of cur w"
  by (simp add: unchanged_def entries_of_def fun_eq_iff)

lemma optimistic_get:
  assumes "optimistic_store kc cur issued" "kc_GetConfigMap kc ns n w = (r, w')"
  shows "unchanged cur issued w w'"
    "r = Inr cm \<Longrightarrow> cur w ns n = Some cm \<and> cm_Name cm = n \<and> cm_Namespace cm = ns"
    "r = Inl e \<Longrightarrow> kc_IsNotFound kc e \<Longrightarrow> cur w ns n = None"
  using assms(1)[unfolded optimistic_store_def, THEN conjunct1, rule_format, where ns = ns and n = n and w = w] assms(2)
  by (auto split: sum.splits)

lemma optimistic_update:
  assumes "optimistic_store kc cur issued" "kc_UpdateConfigMap kc ns cm w = (r, w')"
  shows "r = Inr cm' \<Longrightarrow> stored cur issued ns cm w w' \<and> (\<exists>old. cur w ns (cm_Name cm) = Some old
             \<and> (cm_ResourceVersion cm = [] \<or> cm_ResourceVersion cm = cm_ResourceVersion old))"
    "r = Inl e \<Longrightarrow> unchanged cur issued w w'"
  using assms(1)[unfolded optimistic_store_def, THEN conjunct2, THEN conjunct1, rule_format, where ns = ns and cm = cm and w = w] assms(2)
  by (auto split: sum.splits)

lemma optimistic_create:
  assumes "optimistic_store kc cur issued" "kc_CreateConfigMap kc ns cm w = (r, w')"
  shows "r = Inr cm' \<Longrightarrow> stored cur issued ns cm w w' \<and> cur w ns (cm_Name cm) = None"
    "r = Inl e \<Longrightarrow> unchanged cur issued w w'"
  using assms(1)[unfolded optimistic_store_def, THEN conjunct2, THEN conjunct2, THEN conjunct1, rule_format, where ns = ns and cm = cm and w = w] assms(2)
  by (auto split: sum.splits)

text \<open>The store that nobody else writes, of \<open>Lock_Info\<close>, is what a single caller sees of it.\<close>

lemma optimistic_config_map_store:
  assumes "optimistic_store kc cur issued"
  shows "config_map_store kc (entries_of cur)"
  unfolding config_map_store_def
proof (intro conjI allI)
  fix ns n w
  obtain r w' where g: "kc_GetConfigMap kc ns n w = (r, w')" by force
  show "case kc_GetConfigMap kc ns n w of
          (Inr cm, w') \<Rightarrow> entries_of cur w' = entries_of cur w \<and> cm_Name cm = n \<and> cm_Namespace cm = ns
             \<and> mlookup (cm_data cm) = entries_of cur w ns n
        | (Inl e, w') \<Rightarrow> entries_of cur w' = entries_of cur w \<and> (kc_IsNotFound kc e \<longrightarrow> entries_of cur w ns n = (\<lambda>k. None))"
    using optimistic_get[OF assms g] unchanged_entries[OF optimistic_get(1)[OF assms g]] g
    by (cases r) (auto simp: entries_of_def)
next
  fix ns cm w
  obtain r w' where u: "kc_UpdateConfigMap kc ns cm w = (r, w')" by force
  show "case kc_UpdateConfigMap kc ns cm w of
          (Inr cm', w') \<Rightarrow> entries_of cur w' = (entries_of cur w)(ns := (entries_of cur w ns)(cm_Name cm := mlookup (cm_data cm)))
        | (Inl e, w') \<Rightarrow> entries_of cur w' = entries_of cur w"
  proof (cases r)
    case (Inl e)
    show ?thesis unfolding u Inl prod.case sum.case by (rule unchanged_entries[OF optimistic_update(2)[OF assms u Inl]])
  next
    case (Inr cm')
    show ?thesis unfolding u Inr prod.case sum.case by (rule stored_entries[OF optimistic_update(1)[OF assms u Inr, THEN conjunct1]])
  qed
next
  fix ns cm w
  obtain r w' where c: "kc_CreateConfigMap kc ns cm w = (r, w')" by force
  show "case kc_CreateConfigMap kc ns cm w of
          (Inr cm', w') \<Rightarrow> entries_of cur w' = (entries_of cur w)(ns := (entries_of cur w ns)(cm_Name cm := mlookup (cm_data cm)))
        | (Inl e, w') \<Rightarrow> entries_of cur w' = entries_of cur w"
  proof (cases r)
    case (Inl e)
    show ?thesis unfolding c Inl prod.case sum.case by (rule unchanged_entries[OF optimistic_create(2)[OF assms c Inl]])
  next
    case (Inr cm')
    show ?thesis unfolding c Inr prod.case sum.case by (rule stored_entries[OF optimistic_create(1)[OF assms c Inr, THEN conjunct1]])
  qed
next
  fix n w
  show "entries_of cur (snd (kc_GetNode kc n w)) = entries_of cur w"
    by (rule unchanged_entries[OF assms[unfolded optimistic_store_def, THEN conjunct2, THEN conjunct2, THEN conjunct2, rule_format]])
qed

section \<open>Interleaved calls\<close>

text \<open>The state of a run: the world, the objects that callers have read so far, and the changes whose calls
  have succeeded, newest first. A change names the map, the key and the new value, if any.\<close>

type_synonym change = "string \<times> string \<times> string \<times> string option"

fun replay :: "change list \<Rightarrow> (string \<Rightarrow> string \<Rightarrow> string \<Rightarrow> string option) \<Rightarrow> (string \<Rightarrow> string \<Rightarrow> string \<Rightarrow> string option)" where
  "replay [] e = e"
| "replay ((ns, n, k, v) # L) e = put_entry ns n k v (replay L e)"

definition succeeded :: "bool \<Rightarrow> go_error + 'a \<Rightarrow> change \<Rightarrow> change list" where
  "succeeded wrote r c = (if wrote \<and> (\<exists>a. r = Inr a) then [c] else [])"

definition got :: "go_error + ConfigMap \<Rightarrow> ConfigMap set" where
  "got r = (case r of Inl e \<Rightarrow> {} | Inr cm \<Rightarrow> {cm})"

text \<open>A step is one read, or the part of an operation after its read. Every operation works with an object
  that was read at any time before, and with the latest one only if nobody wrote since. The removal of the
  controller decides by a map \<open>cm\<close> of its caller and changes the object it has read itself.\<close>

inductive interleaved :: "'w KubeClient \<Rightarrow> 'w \<Rightarrow> 'w \<Rightarrow> ConfigMap set \<Rightarrow> change list \<Rightarrow> bool" for kc w0 where
  start: "interleaved kc w0 w0 {} []"
| reading: "interleaved kc w0 w S L \<Longrightarrow> kc_GetConfigMap kc ns n w = (r, w') \<Longrightarrow> interleaved kc w0 w' (S \<union> got r) L"
| recording: "interleaved kc w0 w S L \<Longrightarrow> cm \<in> S \<Longrightarrow> UpdateConfigMapWithKeyValue kc cm k v w = (r, w')
    \<Longrightarrow> interleaved kc w0 w' S (succeeded (mlookup (cm_data cm) k = None) r (cm_Namespace cm, cm_Name cm, k, Some v) @ L)"
| creating: "interleaved kc w0 w S L \<Longrightarrow> CreateConfigMapWithData kc n ns [(k, v)] w = (r, w')
    \<Longrightarrow> interleaved kc w0 w' S (succeeded True r (ns, n, k, Some v) @ L)"
| removing: "interleaved kc w0 w S L \<Longrightarrow> cm \<in> S \<Longrightarrow> RemoveKeyFromConfigMap kc cm k w = (r, w')
    \<Longrightarrow> interleaved kc w0 w' S (succeeded (mlookup (cm_data cm) k \<noteq> None) r (cm_Namespace cm, cm_Name cm, k, None) @ L)"
| removing_latest: "interleaved kc w0 w S L \<Longrightarrow> latest \<in> S \<Longrightarrow> remove_from_latest kc cm k latest w = (r, w')
    \<Longrightarrow> interleaved kc w0 w' S (succeeded (mlookup (cm_data cm) k \<noteq> None) r (cm_Namespace latest, cm_Name latest, k, None) @ L)"

text \<open>A read object is up to date exactly when its version is that of the stored object.\<close>

definition reads_ok :: "'w objects \<Rightarrow> ('w \<Rightarrow> string set) \<Rightarrow> 'w \<Rightarrow> ConfigMap set \<Rightarrow> bool" where
  "reads_ok cur issued w S = (\<forall>cm \<in> S. cm_ResourceVersion cm \<in> issued w \<and> cm_ResourceVersion cm \<noteq> []
     \<and> (\<forall>obj. cur w (cm_Namespace cm) (cm_Name cm) = Some obj \<longrightarrow> cm_ResourceVersion obj = cm_ResourceVersion cm \<longrightarrow> obj = cm))"

lemma unchanged_ok:
  assumes "unchanged cur issued w w'"
  shows "objects_ok cur issued w' = objects_ok cur issued w" "reads_ok cur issued w' S = reads_ok cur issued w S"
  using assms by (simp_all add: unchanged_def objects_ok_def reads_ok_def)

lemma stored_ok:
  assumes "stored cur issued ns cm w w'" "objects_ok cur issued w" "reads_ok cur issued w S"
  shows "objects_ok cur issued w'" "reads_ok cur issued w' S"
proof -
  obtain v where v: "v \<notin> issued w" "v \<noteq> []" "issued w' = insert v (issued w)"
    and c: "cur w' = (cur w)(ns := (cur w ns)(cm_Name cm := Some (cm\<lparr>cm_Namespace := ns, cm_ResourceVersion := v\<rparr>)))"
    using assms(1) by (auto simp: stored_def)
  have "cur w' ns' n = (if ns' = ns \<and> n = cm_Name cm then Some (cm\<lparr>cm_Namespace := ns, cm_ResourceVersion := v\<rparr>) else cur w ns' n)"
    for ns' n by (simp add: c)
  note c = this
  show "objects_ok cur issued w'"
    using assms(2) v by (auto simp: objects_ok_def c split: if_splits)
  show "reads_ok cur issued w' S"
    using assms(3) v by (auto simp: reads_ok_def c split: if_splits)
qed

text \<open>A write of a read object that the server accepts starts from the stored object.\<close>

lemma accepted_update:
  assumes "optimistic_store kc cur issued" "objects_ok cur issued w" "reads_ok cur issued w S" "cm \<in> S"
    and "kc_UpdateConfigMap kc (cm_Namespace cm) (cm\<lparr>cm_Data := d\<rparr>) w = (r, w')"
  shows "objects_ok cur issued w' \<and> reads_ok cur issued w' S"
    "r = Inl e \<Longrightarrow> entries_of cur w' = entries_of cur w"
    "r = Inr cm' \<Longrightarrow> entries_of cur w (cm_Namespace cm) (cm_Name cm) = mlookup (cm_data cm)
       \<and> entries_of cur w' = (entries_of cur w)(cm_Namespace cm := (entries_of cur w (cm_Namespace cm))
           (cm_Name cm := mlookup (cm_data (cm\<lparr>cm_Data := d\<rparr>))))"
proof -
  note u = optimistic_update[OF assms(1,5)]
  show "objects_ok cur issued w' \<and> reads_ok cur issued w' S"
  proof (cases r)
    case (Inl e)
    then show ?thesis using unchanged_ok[OF u(2)[OF Inl]] assms(2,3) by simp
  next
    case (Inr cm')
    then show ?thesis using stored_ok[OF u(1)[OF Inr, THEN conjunct1] assms(2,3)] by simp
  qed
  show "entries_of cur w' = entries_of cur w" if "r = Inl e" by (rule unchanged_entries[OF u(2)[OF that]])
  assume r: "r = Inr cm'"
  have "cm_ResourceVersion cm \<noteq> []" using assms(3,4) by (simp add: reads_ok_def)
  then obtain old where "cur w (cm_Namespace cm) (cm_Name cm) = Some old" "cm_ResourceVersion old = cm_ResourceVersion cm"
    using u(1)[OF r] by auto
  then have "cur w (cm_Namespace cm) (cm_Name cm) = Some cm" using assms(3,4) by (simp add: reads_ok_def)
  then show "entries_of cur w (cm_Namespace cm) (cm_Name cm) = mlookup (cm_data cm)
       \<and> entries_of cur w' = (entries_of cur w)(cm_Namespace cm := (entries_of cur w (cm_Namespace cm))
           (cm_Name cm := mlookup (cm_data (cm\<lparr>cm_Data := d\<rparr>))))"
    using stored_entries[OF u(1)[OF r, THEN conjunct1]] by (simp add: entries_of_def)
qed

lemma replay_append [simp]: "replay (L @ M) e = replay L (replay M e)"
  by (induction L e rule: replay.induct) simp_all

lemma write_step:
  assumes "optimistic_store kc cur issued" "objects_ok cur issued w \<and> reads_ok cur issued w S" "cm \<in> S"
    and "(if skip then ret () else bind (kc_UpdateConfigMap kc (cm_Namespace cm) (cm\<lparr>cm_Data := d\<rparr>)) (\<lambda>_. ret ())) w = (r, w')"
    and "mlookup (cm_data (cm\<lparr>cm_Data := d\<rparr>)) = (mlookup (cm_data cm))(k := v)"
  shows "entries_of cur w' = replay (succeeded (\<not> skip) r (cm_Namespace cm, cm_Name cm, k, v)) (entries_of cur w)
    \<and> objects_ok cur issued w' \<and> reads_ok cur issued w' S"
proof (cases skip)
  case True
  then show ?thesis using assms(2,4) by (simp add: succeeded_def)
next
  case False
  obtain r1 where u: "kc_UpdateConfigMap kc (cm_Namespace cm) (cm\<lparr>cm_Data := d\<rparr>) w = (r1, w')"
    and r: "r = (case r1 of Inl e \<Rightarrow> Inl e | Inr _ \<Rightarrow> Inr ())"
    using assms(4) False by (auto simp: bind_def split: prod.splits sum.splits)
  note a = accepted_update[OF assms(1) assms(2)[THEN conjunct1] assms(2)[THEN conjunct2] assms(3) u]
  show ?thesis
    using a(1,2) a(3) r False assms(5) by (cases r1) (auto simp: succeeded_def put_entry_def)
qed

text \<open>The operations of the node server and the removal of the controllers are sequences of these steps.\<close>

definition reached :: "'w KubeClient \<Rightarrow> 'w \<Rightarrow> 'w \<Rightarrow> bool" where
  "reached kc w0 w = (\<exists>S L. interleaved kc w0 w S L)"

lemma get_run:
  assumes "interleaved kc w0 w S L" "GetConfigMap kc name ns w = (r, w')"
  shows "\<exists>S'. interleaved kc w0 w' S' L \<and> (\<forall>cm. r = Inr (Some cm) \<longrightarrow> cm \<in> S')"
proof -
  obtain r1 w1 where g: "kc_GetConfigMap kc ns name w = (r1, w1)" by force
  note step = reading[OF assms(1) g]
  have "w1 = w'" "\<And>cm. r = Inr (Some cm) \<Longrightarrow> r1 = Inr cm"
    using assms(2) g by (auto simp: GetConfigMap_def attempt_eq split: sum.splits if_splits)
  with step show ?thesis by (intro exI[of _ "S \<union> got r1"]) (auto simp: got_def)
qed

lemma stage_run:
  assumes "reached (ne_kube env) w0 w" "nodeStageVolumeUpdateLockInfo env req w = (r, w')"
  shows "reached (ne_kube env) w0 w'"
proof -
  let ?n = "ConfigMapNamePrefix @ ne_NodeName env"
  obtain S L where i: "interleaved (ne_kube env) w0 w S L" using assms(1) by (auto simp: reached_def)
  obtain r1 w1 where g: "GetConfigMap (ne_kube env) ?n ManagedFilestoreCSINamespace w = (r1, w1)" by force
  obtain S' where i1: "interleaved (ne_kube env) w0 w1 S' L" and m: "\<And>cm. r1 = Inr (Some cm) \<Longrightarrow> cm \<in> S'"
    using get_run[OF i g] by blast
  show ?thesis
  proof (cases "supports_lock_release (ns_VolumeContext req)")
    case False
    then show ?thesis using assms by (simp add: nodeStageVolumeUpdateLockInfo_def)
  next
    case True
    note run = assms(2)[unfolded nodeStageVolumeUpdateLockInfo_def Let_def, simplified True]
    show ?thesis
    proof (cases r1)
      case (Inl e)
      then show ?thesis using run g i1 True by (auto simp: bind_def reached_def)
    next
      case (Inr cmo)
      show ?thesis
      proof (cases "generateLockInfoKeyFromVolumeID env (ns_VolumeId req)")
        case (Inl e)
        then show ?thesis using run g Inr i1 True by (auto simp: bind_def lift_def reached_def)
      next
        case key: (Inr k)
        show ?thesis
        proof (cases cmo)
          case None
          obtain r2 w2 where c: "CreateConfigMapWithData (ne_kube env) ?n ManagedFilestoreCSINamespace
              [(k, mget (ns_VolumeContext req) attrIP)] w1 = (r2, w2)" by force
          have "w2 = w'" using run g Inr key None c True by (auto simp: bind_def lift_def split: sum.splits)
          then show ?thesis using creating[OF i1 c] by (auto simp: reached_def)
        next
          case (Some cm)
          then have "UpdateConfigMapWithKeyValue (ne_kube env) cm k (mget (ns_VolumeContext req) attrIP) w1 = (r, w')"
            using run g Inr key True by (simp add: bind_def lift_def)
          from recording[OF i1 m this] show ?thesis using Inr Some by (auto simp: reached_def)
        qed
      qed
    qed
  qed
qed

lemma unstage_run:
  assumes "reached (ne_kube env) w0 w" "nodeUnstageVolumeUpdateLockInfo env vid w = (r, w')"
  shows "reached (ne_kube env) w0 w'"
proof -
  let ?n = "ConfigMapNamePrefix @ ne_NodeName env"
  obtain S L where i: "interleaved (ne_kube env) w0 w S L" using assms(1) by (auto simp: reached_def)
  obtain r1 w1 where g: "GetConfigMap (ne_kube env) ?n ManagedFilestoreCSINamespace w = (r1, w1)" by force
  obtain S' where i1: "interleaved (ne_kube env) w0 w1 S' L" and m: "\<And>cm. r1 = Inr (Some cm) \<Longrightarrow> cm \<in> S'"
    using get_run[OF i g] by blast
  note run = assms(2)[unfolded nodeUnstageVolumeUpdateLockInfo_def]
  show ?thesis
  proof (cases "\<exists>cm k. r1 = Inr (Some cm) \<and> generateLockInfoKeyFromVolumeID env vid = Inr k")
    case True
    then obtain cm k where c: "r1 = Inr (Some cm)" "generateLockInfoKeyFromVolumeID env vid = Inr k" by blast
    then have "RemoveKeyFromConfigMap (ne_kube env) cm k w1 = (r, w')"
      using run g by (simp add: bind_def lift_def)
    from removing[OF i1 m[OF c(1)] this] show ?thesis by (auto simp: reached_def)
  next
    case False
    then have "w' = w1" using run g by (auto simp: bind_def lift_def split: sum.splits option.splits)
    then show ?thesis using i1 by (auto simp: reached_def)
  qed
qed

lemma remove_once_run:
  assumes "reached kc w0 w" "remove_key_once kc cm key w = (r, w')"
  shows "reached kc w0 w'"
proof -
  obtain S L where i: "interleaved kc w0 w S L" using assms(1) by (auto simp: reached_def)
  obtain r1 w1 where g: "kc_GetConfigMap kc (cm_Namespace cm) (cm_Name cm) w = (r1, w1)" by force
  note step = reading[OF i g]
  show ?thesis
  proof (cases r1)
    case (Inl e)
    then show ?thesis using assms(2) g step by (auto simp: remove_key_once_def bind_def reached_def)
  next
    case (Inr latest)
    then have "remove_from_latest kc cm key latest w1 = (r, w')" using assms(2) g by (simp add: remove_key_once_def bind_def)
    from removing_latest[OF step _ this] show ?thesis using Inr by (auto simp: reached_def got_def)
  qed
qed

lemma retry_run: "reached kc w0 w \<Longrightarrow> retry_on_conflict n retriable (remove_key_once kc cm key) w = (r, w') \<Longrightarrow> reached kc w0 w'"
proof (induction n arbitrary: w)
  case (Suc n)
  obtain r1 w1 where o: "remove_key_once kc cm key w = (r1, w1)" by force
  note step = remove_once_run[OF Suc.prems(1) o]
  show ?case
    using Suc.prems(2) Suc.IH[OF step] step o by (auto simp: attempt_eq split: sum.splits if_splits)
qed simp

text \<open>C11: No update of a config map is lost. However the calls of the node server and of the controllers
  interleave, each with a copy of the map that it read at any time before, what the API server stores is
  what the calls that succeeded and had something to change produce when they run alone, one after
  another, in the order of their writes: a recorded mount stays recorded until a removal of its own key
  succeeds, a removed key stays away until it is recorded again, and a call that fails changes nothing.
  It rests on the resource version of the copy that each of the operations sends back, which the server
  checks.\<close>

theorem no_update_lost:
  assumes "optimistic_store kc cur issued" "objects_ok cur issued w0" "interleaved kc w0 w S L"
  shows "entries_of cur w = replay L (entries_of cur w0)"
proof -
  have "entries_of cur w = replay L (entries_of cur w0) \<and> objects_ok cur issued w \<and> reads_ok cur issued w S"
    using assms(3)
  proof induction
    case start
    show ?case using assms(2) by (simp add: reads_ok_def)
  next
    case (reading w S L ns n r w')
    note g = optimistic_get[OF assms(1) reading.hyps(2)]
    have "reads_ok cur issued w (S \<union> got r)"
      using reading.IH g(2) by (cases r) (auto simp: got_def reads_ok_def objects_ok_def)
    then show ?case using reading.IH unchanged_ok[OF g(1)] unchanged_entries[OF g(1)] by simp
  next
    case (recording w S L cm k v r w')
    show ?case
      using write_step[OF assms(1) recording.IH[THEN conjunct2] recording.hyps(2)
          recording.hyps(3)[unfolded UpdateConfigMapWithKeyValue_def], of k "Some v"] recording.IH
      by (simp add: mlookup_minsert_fun)
  next
    case (creating w S L n ns k v r w')
    note c = optimistic_create[OF assms(1) creating.hyps(2)[unfolded CreateConfigMapWithData_def]]
    show ?case
    proof (cases r)
      case (Inl e)
      then show ?thesis
        using creating.IH unchanged_ok[OF c(2)[OF Inl]] unchanged_entries[OF c(2)[OF Inl]] by (simp add: succeeded_def)
    next
      case (Inr cm)
      note st = c(1)[OF Inr]
      have "entries_of cur w ns n = (\<lambda>k. None)" using st by (simp add: entries_of_def)
      then have "entries_of cur w' = put_entry ns n k (Some v) (entries_of cur w)"
        using stored_entries[OF st[THEN conjunct1]] by (simp add: put_entry_def cm_data_def fun_eq_iff)
      then show ?thesis
        using Inr creating.IH stored_ok[OF st[THEN conjunct1] creating.IH[THEN conjunct2, THEN conjunct1] creating.IH[THEN conjunct2, THEN conjunct2]] by (simp add: succeeded_def)
    qed
  next
    case (removing w S L cm k r w')
    show ?case
      using write_step[OF assms(1) removing.IH[THEN conjunct2] removing.hyps(2)
          removing.hyps(3)[unfolded RemoveKeyFromConfigMap_def], of k None] removing.IH
      by (simp add: mlookup_mdelete_fun)
  next
    case (removing_latest w S L latest cm k r w')
    show ?case
      using write_step[OF assms(1) removing_latest.IH[THEN conjunct2] removing_latest.hyps(2)
          removing_latest.hyps(3)[unfolded remove_from_latest_def], of k None] removing_latest.IH
      by (simp add: mlookup_mdelete_fun)
  qed
  then show ?thesis ..
qed

text \<open>A server that numbers the versions, for the example: two stages read one map; the second to write is
  refused for its old version, reads again, and then both mounts are recorded.\<close>

type_synonym versioned_cluster = "nat \<times> (string \<times> string, ConfigMap) gomap"

definition version_cur :: "versioned_cluster objects" where
  "version_cur w ns n = map_option (\<lambda>cm. cm\<lparr>cm_Name := n, cm_Namespace := ns\<rparr>) (mlookup (snd w) (ns, n))"

definition version_issued :: "versioned_cluster \<Rightarrow> string set" where
  "version_issued w = (\<lambda>m. replicate (Suc m) (CHR ''v'')) ` {..<fst w}"

definition version_store :: "string \<Rightarrow> ConfigMap \<Rightarrow> (versioned_cluster, ConfigMap) eff" where
  "version_store ns cm w =
     (let new = cm\<lparr>cm_Namespace := ns, cm_ResourceVersion := replicate (Suc (fst w)) (CHR ''v'')\<rparr> in
      (Inr new, (Suc (fst w), minsert (ns, cm_Name cm) new (snd w))))"

definition versioned_kube :: "versioned_cluster KubeClient" where
  "versioned_kube = \<lparr>kc_GetConfigMap = (\<lambda>ns n w. case version_cur w ns n of
         None \<Rightarrow> (Inl (ErrText ''not found''), w) | Some cm \<Rightarrow> (Inr cm, w)),
     kc_CreateConfigMap = (\<lambda>ns cm w. if version_cur w ns (cm_Name cm) = None then version_store ns cm w
         else (Inl (ErrText ''exists''), w)),
     kc_UpdateConfigMap = (\<lambda>ns cm w. case version_cur w ns (cm_Name cm) of
         None \<Rightarrow> (Inl (ErrText ''not found''), w)
       | Some old \<Rightarrow> if cm_ResourceVersion cm \<in> {[], cm_ResourceVersion old} then version_store ns cm w
           else (Inl (ErrText ''conflict''), w)),
     kc_ListConfigMaps = (\<lambda>ns. ret []), kc_GetNode = (\<lambda>n. fail (ErrText ''not found'')), kc_ListNodes = ret [],
     kc_IsNotFound = (\<lambda>e. e = ErrText ''not found''), kc_IsConflict = (\<lambda>e. e = ErrText ''conflict'')\<rparr>"

lemma version_stored: "stored version_cur version_issued ns cm w (snd (version_store ns cm w))"
proof -
  let ?v = "replicate (Suc (fst w)) (CHR ''v'')"
  have "?v \<notin> version_issued w" by (auto simp: version_issued_def)
  moreover have "version_issued (snd (version_store ns cm w)) = insert ?v (version_issued w)"
    by (simp add: version_issued_def version_store_def lessThan_Suc Let_def)
  moreover have "version_cur (snd (version_store ns cm w))
      = (version_cur w)(ns := (version_cur w ns)(cm_Name cm := Some (cm\<lparr>cm_Namespace := ns, cm_ResourceVersion := ?v\<rparr>)))"
    by (auto simp: version_cur_def version_store_def Let_def fun_eq_iff)
  ultimately show ?thesis unfolding stored_def by (intro exI[of _ ?v]) simp
qed

lemma version_store_ok: "\<exists>cm'. version_store ns cm w = (Inr cm', snd (version_store ns cm w))"
  by (simp add: version_store_def Let_def)

lemma versioned_optimistic: "optimistic_store versioned_kube version_cur version_issued"
  unfolding optimistic_store_def
proof (intro conjI allI)
  fix ns n w
  show "case kc_GetConfigMap versioned_kube ns n w of
          (Inr cm, w') \<Rightarrow> unchanged version_cur version_issued w w' \<and> version_cur w ns n = Some cm \<and> cm_Name cm = n \<and> cm_Namespace cm = ns
        | (Inl e, w') \<Rightarrow> unchanged version_cur version_issued w w' \<and> (kc_IsNotFound versioned_kube e \<longrightarrow> version_cur w ns n = None)"
    by (cases "version_cur w ns n") (auto simp: versioned_kube_def unchanged_def version_cur_def)
next
  fix ns cm w
  show "case kc_UpdateConfigMap versioned_kube ns cm w of
          (Inr cm', w') \<Rightarrow> stored version_cur version_issued ns cm w w' \<and> (\<exists>old. version_cur w ns (cm_Name cm) = Some old
             \<and> (cm_ResourceVersion cm = [] \<or> cm_ResourceVersion cm = cm_ResourceVersion old))
        | (Inl e, w') \<Rightarrow> unchanged version_cur version_issued w w'"
    using version_stored[of ns cm w] version_store_ok[of ns cm w]
    by (cases "version_cur w ns (cm_Name cm)") (auto simp: versioned_kube_def unchanged_def split: prod.splits)
next
  fix ns cm w
  show "case kc_CreateConfigMap versioned_kube ns cm w of
          (Inr cm', w') \<Rightarrow> stored version_cur version_issued ns cm w w' \<and> version_cur w ns (cm_Name cm) = None
        | (Inl e, w') \<Rightarrow> unchanged version_cur version_issued w w'"
    using version_stored[of ns cm w] version_store_ok[of ns cm w]
    by (auto simp: versioned_kube_def unchanged_def split: prod.splits)
next
  fix n w
  show "unchanged version_cur version_issued w (snd (kc_GetNode versioned_kube n w))"
    by (simp add: versioned_kube_def unchanged_def)
qed

definition version_map :: "string \<Rightarrow> labels \<Rightarrow> ConfigMap" where
  "version_map v m = \<lparr>cm_Name = ''fscsi-n1'', cm_Namespace = ManagedFilestoreCSINamespace, cm_ResourceVersion = v,
     cm_Finalizers = [ConfigMapFinalzer], cm_Data = Some m\<rparr>"

definition version_world :: "nat \<Rightarrow> string \<Rightarrow> labels \<Rightarrow> versioned_cluster" where
  "version_world c v m = (c, [((ManagedFilestoreCSINamespace, ''fscsi-n1''), version_map v m)])"

theorem no_update_lost_witness:
  "\<exists>w S. interleaved versioned_kube (version_world 1 ''v'' []) w S
       [(ManagedFilestoreCSINamespace, ''fscsi-n1'', ''b'', Some ''10.0.0.2''),
        (ManagedFilestoreCSINamespace, ''fscsi-n1'', ''a'', Some ''10.0.0.1'')]
     \<and> UpdateConfigMapWithKeyValue versioned_kube (version_map ''v'' []) ''b'' ''10.0.0.2'' w = (Inl (ErrText ''conflict''), w)
     \<and> entries_of version_cur w ManagedFilestoreCSINamespace ''fscsi-n1'' = [''a'' \<mapsto> ''10.0.0.1'', ''b'' \<mapsto> ''10.0.0.2'']"
proof -
  let ?ns = ManagedFilestoreCSINamespace and ?n = "''fscsi-n1''" and ?k = versioned_kube
  let ?w0 = "version_world 1 ''v'' []" and ?w1 = "version_world 2 ''vv'' [(''a'', ''10.0.0.1'')]"
  let ?cm0 = "version_map ''v'' []" and ?cm1 = "version_map ''vv'' [(''a'', ''10.0.0.1'')]"
  have c: "kc_GetConfigMap ?k ?ns ?n ?w0 = (Inr ?cm0, ?w0)" "kc_GetConfigMap ?k ?ns ?n ?w1 = (Inr ?cm1, ?w1)"
    "UpdateConfigMapWithKeyValue ?k ?cm0 ''a'' ''10.0.0.1'' ?w0 = (Inr (), ?w1)"
    "UpdateConfigMapWithKeyValue ?k ?cm0 ''b'' ''10.0.0.2'' ?w1 = (Inl (ErrText ''conflict''), ?w1)"
    by code_simp+
  obtain w where w: "UpdateConfigMapWithKeyValue ?k ?cm1 ''b'' ''10.0.0.2'' ?w1 = (Inr (), w)"
    and refused: "UpdateConfigMapWithKeyValue ?k ?cm0 ''b'' ''10.0.0.2'' w = (Inl (ErrText ''conflict''), w)"
    by (rule that[of "version_world 3 ''vvv'' (minsert ''b'' ''10.0.0.2'' [(''a'', ''10.0.0.1'')])"]) code_simp+
  have d: "cm_data ?cm0 = []" "cm_data ?cm1 = [(''a'', ''10.0.0.1'')]" "cm_Namespace ?cm0 = ?ns" "cm_Name ?cm0 = ?n"
    "cm_Namespace ?cm1 = ?ns" "cm_Name ?cm1 = ?n"
    by (simp_all add: version_map_def cm_data_def)
  note r1 = reading[OF interleaved.start c(1)]
  have m0: "?cm0 \<in> {} \<union> got (Inr ?cm0)" by (simp add: got_def)
  note r2 = recording[OF r1 m0 c(3)]
  note r3 = recording[OF r2 m0 c(4)]
  note r4 = reading[OF r3 c(2)]
  have m1: "?cm1 \<in> {} \<union> got (Inr ?cm0) \<union> got (Inr ?cm1)" by (simp add: got_def)
  have run: "interleaved ?k ?w0 w ({} \<union> got (Inr ?cm0) \<union> got (Inr ?cm1))
      [(?ns, ?n, ''b'', Some ''10.0.0.2''), (?ns, ?n, ''a'', Some ''10.0.0.1'')]"
    using recording[OF r4 m1 w] by (simp add: succeeded_def d)
  have ok: "objects_ok version_cur version_issued ?w0"
    by (auto simp: objects_ok_def version_cur_def version_issued_def version_world_def version_map_def split: if_splits)
  have "entries_of version_cur ?w0 ?ns ?n = (\<lambda>k. None)"
    by (simp add: entries_of_def version_cur_def version_world_def version_map_def cm_data_def fun_eq_iff)
  then have "entries_of version_cur w ?ns ?n = [''a'' \<mapsto> ''10.0.0.1'', ''b'' \<mapsto> ''10.0.0.2'']"
    using no_update_lost[OF versioned_optimistic ok run] by (simp add: put_entry_def fun_eq_iff)
  with run refused show ?thesis by blast
qed

end
