(* ===== verification/Ip_Interleaving.thy ===== *)
theory Ip_Interleaving
  imports Controller Pairwise
begin

text \<open>
  Reservations of concurrent requests. \<open>reserveIPRange\<close> of \<open>controller.go\<close> reads the ranges of the existing
  instances with two calls of the service, outside the mutex of the allocator, and then picks a range inside
  it; the range is released when the request has created its instance, or has started its creation. Any
  number of requests interleave at each of these calls. There are two dangers: a list that leaves out instances,
  which the code does not check, and a range that is released while another request is between its calls
  and its choice.
\<close>

section \<open>Ranges of instances\<close>

text \<open>The network of an instance, without regard to case, and its range. The ranges of two instances in one
  network may not meet.\<close>

type_synonym place = "string \<times> string"

definition place_of :: "Network \<Rightarrow> place" where
  "place_of n = (toLower (net_Name n), ReservedIpRange n)"

definition ranges_conflict :: "place \<Rightarrow> place \<Rightarrow> bool" where
  "ranges_conflict p q = (fst p = fst q \<and> range_addrs (snd p) \<inter> range_addrs (snd q) \<noteq> {})"

lemma ranges_conflict_sym: "ranges_conflict p q \<Longrightarrow> ranges_conflict q p"
  by (auto simp: ranges_conflict_def)

definition vpc_of :: "ServiceInstance \<Rightarrow> string" where
  "vpc_of filer = toLower (net_Name (si_Network filer))"

section \<open>Listing in two calls\<close>

definition all_locations :: "ServiceInstance \<Rightarrow> ListFilter" where
  "all_locations filer = \<lparr>lf_Project = si_Project filer, lf_Location = ''-'', lf_InstanceName = []\<rparr>"

definition collected :: "ServiceInstance \<Rightarrow> Network list \<Rightarrow> (string, bool) gomap \<Rightarrow> (string, bool) gomap" where
  "collected filer ns m =
     fold (\<lambda>n m. if equalFold (net_Name n) (net_Name (si_Network filer)) then minsert (ReservedIpRange n) True m else m) ns m"

lemma collected_keys: "k \<in> set (keys (collected filer ns m)) \<longleftrightarrow> k \<in> set (keys m) \<or> (vpc_of filer, k) \<in> place_of ` set ns"
proof -
  have "(\<exists>n \<in> set ns. equalFold (net_Name n) (net_Name (si_Network filer)) \<and> k = ReservedIpRange n)
      \<longleftrightarrow> (vpc_of filer, k) \<in> place_of ` set ns"
    unfolding place_of_def vpc_of_def equalFold_def image_iff prod.inject by metis
  then show ?thesis by (simp add: collected_def fold_reserved_keys)
qed

lemma reserveIPRange_calls:
  "reserveIPRange svc filer cidr =
     bind_err (\<lambda>e. StatusErr Aborted (error_text e)) (on_world (svc_ListInstances svc filer)) (\<lambda>insts.
     bind_err (\<lambda>e. StatusErr Aborted (error_text e)) (on_world (svc_ListMultishareInstances svc (all_locations filer))) (\<lambda>shared.
       allocate cidr (ipRangeSizeForTier (si_Tier filer))
         (collected filer (map mi_Network shared) (collected filer (map si_Network insts) []))))"
  by (auto simp: fun_eq_iff reserveIPRange_def getCloudInstancesReservedIPRanges_def collected_def all_locations_def
      bind_def bind_err_def Let_def split: prod.split sum.split)

section \<open>The service\<close>

text \<open>\<open>single\<close> and \<open>multi\<close> are the instances that the service has. A call adds at most the instance it is
  asked to create, whatever it answers. A list that is answered need not name all instances: as the
  comment in \<open>getCloudInstancesReservedIPRanges\<close> says, those of a location that cannot be reached may not
  show up.\<close>

definition fewer :: "('w \<Rightarrow> place multiset) \<Rightarrow> ('w \<Rightarrow> place multiset) \<Rightarrow> 'w \<Rightarrow> 'w \<Rightarrow> bool" where
  "fewer single multi w w' = (single w' \<subseteq># single w \<and> multi w' \<subseteq># multi w)"

locale range_service =
  fixes svc :: "'w Service" and single multi :: "'w \<Rightarrow> place multiset"
  assumes list_single: "svc_ListInstances svc filer w = (r, w') \<Longrightarrow> fewer single multi w w'"
    and list_multi: "svc_ListMultishareInstances svc (all_locations filer) w = (rs, w'') \<Longrightarrow> fewer single multi w w''"
    and create_single: "svc_CreateInstance svc i w = (ri, w1) \<Longrightarrow>
        single w1 \<subseteq># add_mset (place_of (si_Network i)) (single w) \<and> multi w1 \<subseteq># multi w"
    and create_multi: "svc_StartCreateMultishareInstanceOp svc m w = (rm, w2) \<Longrightarrow>
        single w2 \<subseteq># single w \<and> multi w2 \<subseteq># add_mset (place_of (mi_Network m)) (multi w)"

section \<open>Interleaved requests\<close>

text \<open>Where a request is: it has made the first list, or both; it holds a range; it has asked for its instance.\<close>

datatype request_phase = Idle
  | ListedSingle ServiceInstance string "ServiceInstance list"
  | ListedAll ServiceInstance string "(string, bool) gomap"
  | Holding Network
  | Created Network

text \<open>Every request that is between its lists and its choice has seen the instances with this range.\<close>

definition seen_by_all :: "('w \<Rightarrow> place multiset) \<Rightarrow> ('w \<Rightarrow> place multiset) \<Rightarrow> (nat \<Rightarrow> request_phase) \<Rightarrow> 'w \<Rightarrow> string \<Rightarrow> bool" where
  "seen_by_all single multi P w r = (\<forall>c. case P c of
       ListedSingle filer cidr insts \<Rightarrow>
         (vpc_of filer, r) \<in># single w \<longrightarrow> (vpc_of filer, r) \<in> (place_of \<circ> si_Network) ` set insts
     | ListedAll filer cidr rs \<Rightarrow> (vpc_of filer, r) \<in># single w + multi w \<longrightarrow> r \<in> set (keys rs)
     | _ \<Rightarrow> True)"

text \<open>A list that names every instance of the network of the request\<close>

definition names_network :: "ServiceInstance \<Rightarrow> place multiset \<Rightarrow> Network list \<Rightarrow> bool" where
  "names_network filer S ns = (\<forall>r. (vpc_of filer, r) \<in># S \<longrightarrow> (vpc_of filer, r) \<in> place_of ` set ns)"

text \<open>The steps of any number of requests. A list may name any instances or, when \<open>full_lists\<close> is set, must name
  all that are in the network of the request: no location is unreachable. A range may be released at any
  time or, when \<open>timely\<close> is set, only when every request that is about to choose has seen the instance that
  got it.\<close>

inductive reservations :: "bool \<Rightarrow> bool \<Rightarrow> 'w Service \<Rightarrow> ('w \<Rightarrow> place multiset) \<Rightarrow> ('w \<Rightarrow> place multiset)
    \<Rightarrow> 'w driver \<Rightarrow> 'w driver \<Rightarrow> (nat \<Rightarrow> request_phase) \<Rightarrow> bool" for full_lists timely svc single multi d0 where
  starting: "reservations full_lists timely svc single multi d0 d0 (\<lambda>c. Idle)"
| listing_single: "reservations full_lists timely svc single multi d0 d P \<Longrightarrow> P c = Idle
    \<Longrightarrow> svc_ListInstances svc filer (world d) = (r, w')
    \<Longrightarrow> (\<And>insts. full_lists \<Longrightarrow> r = Inr insts \<Longrightarrow> names_network filer (single (world d)) (map si_Network insts))
    \<Longrightarrow> reservations full_lists timely svc single multi d0 (d\<lparr>world := w'\<rparr>)
          (P(c := (case r of Inl e \<Rightarrow> Idle | Inr insts \<Rightarrow> ListedSingle filer cidr insts)))"
| listing_multi: "reservations full_lists timely svc single multi d0 d P \<Longrightarrow> P c = ListedSingle filer cidr insts
    \<Longrightarrow> svc_ListMultishareInstances svc (all_locations filer) (world d) = (r, w')
    \<Longrightarrow> (\<And>shared. full_lists \<Longrightarrow> r = Inr shared \<Longrightarrow> names_network filer (multi (world d)) (map mi_Network shared))
    \<Longrightarrow> reservations full_lists timely svc single multi d0 (d\<lparr>world := w'\<rparr>) (P(c := (case r of Inl e \<Rightarrow> Idle
          | Inr shared \<Rightarrow> ListedAll filer cidr
              (collected filer (map mi_Network shared) (collected filer (map si_Network insts) [])))))"
| choosing: "reservations full_lists timely svc single multi d0 d P \<Longrightarrow> P c = ListedAll filer cidr rs
    \<Longrightarrow> allocate cidr (ipRangeSizeForTier (si_Tier filer)) rs d = (r, d')
    \<Longrightarrow> reservations full_lists timely svc single multi d0 d' (P(c := (case r of Inl e \<Rightarrow> Idle
          | Inr ipRange \<Rightarrow> Holding ((si_Network filer)\<lparr>ReservedIpRange := ipRange\<rparr>))))"
| creating_single: "reservations full_lists timely svc single multi d0 d P \<Longrightarrow> P c = Holding (si_Network i)
    \<Longrightarrow> svc_CreateInstance svc i (world d) = (ri, w')
    \<Longrightarrow> reservations full_lists timely svc single multi d0 (d\<lparr>world := w'\<rparr>) (P(c := Created (si_Network i)))"
| creating_multi: "reservations full_lists timely svc single multi d0 d P \<Longrightarrow> P c = Holding (mi_Network m)
    \<Longrightarrow> svc_StartCreateMultishareInstanceOp svc m (world d) = (rm, w')
    \<Longrightarrow> reservations full_lists timely svc single multi d0 (d\<lparr>world := w'\<rparr>) (P(c := Created (mi_Network m)))"
| releasing: "reservations full_lists timely svc single multi d0 d P \<Longrightarrow> P c = Holding n \<or> P c = Created n
    \<Longrightarrow> (timely \<Longrightarrow> seen_by_all single multi P (world d) (ReservedIpRange n))
    \<Longrightarrow> reservations full_lists timely svc single multi d0 (release_ip (ReservedIpRange n) d) (P(c := Idle))"
| elsewhere: "reservations full_lists timely svc single multi d0 d P \<Longrightarrow> fewer single multi (world d) w'
    \<Longrightarrow> reservations full_lists timely svc single multi d0 (d\<lparr>world := w'\<rparr>) P"

section \<open>The invariant\<close>

fun holds :: "request_phase \<Rightarrow> string option" where
  "holds (Holding n) = Some (ReservedIpRange n)"
| "holds (Created n) = Some (ReservedIpRange n)"
| "holds _ = None"

text \<open>A request that has listed knows the range of every instance, except those that are held.\<close>

definition informed :: "place multiset \<Rightarrow> place multiset \<Rightarrow> string set \<Rightarrow> request_phase \<Rightarrow> bool" where
  "informed S M held ph = (case ph of
       ListedSingle filer cidr insts \<Rightarrow>
         (\<forall>r. (vpc_of filer, r) \<in># S \<longrightarrow> (vpc_of filer, r) \<in> (place_of \<circ> si_Network) ` set insts \<or> r \<in> held)
     | ListedAll filer cidr rs \<Rightarrow> (\<forall>r. (vpc_of filer, r) \<in># S + M \<longrightarrow> r \<in> set (keys rs) \<or> r \<in> held)
     | Holding n \<Rightarrow> (\<forall>p \<in># S + M. \<not> ranges_conflict (place_of n) p)
     | _ \<Rightarrow> True)"

definition holders_apart :: "(nat \<Rightarrow> request_phase) \<Rightarrow> bool" where
  "holders_apart P = (\<forall>c c' r r'. c \<noteq> c' \<longrightarrow> holds (P c) = Some r \<longrightarrow> holds (P c') = Some r'
     \<longrightarrow> r \<noteq> r' \<and> range_addrs r \<inter> range_addrs r' = {})"

definition requests_ok :: "('w \<Rightarrow> place multiset) \<Rightarrow> ('w \<Rightarrow> place multiset) \<Rightarrow> 'w driver \<Rightarrow> (nat \<Rightarrow> request_phase) \<Rightarrow> bool" where
  "requests_ok single multi d P =
     (unrelated ranges_conflict (single (world d) + multi (world d)) \<and> holders_apart P
      \<and> (\<forall>c r. holds (P c) = Some r \<longrightarrow> r \<in> held_ranges d)
      \<and> (\<forall>c. informed (single (world d)) (multi (world d)) (held_ranges d) (P c)))"

lemma informed_fewer:
  assumes "informed S M held ph" "S' \<subseteq># S" "M' \<subseteq># M"
  shows "informed S' M' held ph"
  using assms mset_subset_eqD[OF assms(2)] mset_subset_eqD[OF assms(3)]
  by (auto simp: informed_def split: request_phase.splits)

lemma held_world [simp]: "held_ranges (d\<lparr>world := w\<rparr>) = held_ranges d"
  by (simp add: held_ranges_def)

lemma requests_ok_fewer:
  assumes "requests_ok single multi d P" "fewer single multi (world d) w'"
  shows "requests_ok single multi (d\<lparr>world := w'\<rparr>) P"
proof -
  have f: "single w' \<subseteq># single (world d)" "multi w' \<subseteq># multi (world d)" using assms(2) by (simp_all add: fewer_def)
  have "unrelated ranges_conflict (single w' + multi w')"
    using assms(1) by (intro unrelated_mono[OF _ subset_mset.add_mono[OF f]]) (simp add: requests_ok_def)
  then show ?thesis using assms(1) informed_fewer[OF _ f] by (simp add: requests_ok_def)
qed

lemma requests_ok_phase:
  assumes "requests_ok single multi d P" "holds ph = None" "informed (single (world d)) (multi (world d)) (held_ranges d) ph"
  shows "requests_ok single multi d (P(c := ph))"
  using assms by (auto simp: requests_ok_def holders_apart_def)

lemma listing_ok:
  assumes "requests_ok single multi d P" "fewer single multi (world d) w'"
    and "holds ph = None" "informed (single (world d)) (multi (world d)) (held_ranges d) ph"
  shows "requests_ok single multi (d\<lparr>world := w'\<rparr>) (P(c := ph))"
  by (rule requests_ok_fewer[OF requests_ok_phase[OF assms(1,3,4)] assms(2)])

lemma informed_Idle [simp]: "informed S M held Idle"
  by (simp add: informed_def)

lemma allocate_free:
  assumes "allocate cidr n rs d = (r, d')" "1 \<le> n" "n \<le> 32"
  shows "world d' = world d"
    "r = Inr ipRange \<Longrightarrow> held_ranges d' = insert ipRange (held_ranges d) \<and> ipRange \<notin> held_ranges d
       \<and> (\<forall>k \<in> set (keys rs) \<union> held_ranges d. range_addrs k \<inter> range_addrs ipRange = {})"
    "r = Inl e \<Longrightarrow> held_ranges d' = held_ranges d"
proof -
  obtain al where g: "GetUnreservedIPRange cidr n rs (ipAllocator d) = Some (r, al)" and d': "d' = d\<lparr>ipAllocator := al\<rparr>"
    using allocate_cases[OF assms(2,3,1)] by blast
  show "world d' = world d" by (simp add: d')
  note h = allocate_held[OF assms(2,3,1)]
  show "held_ranges d' = held_ranges d" if "r = Inl e" using h that by simp
  assume r: "r = Inr ipRange"
  have "\<forall>k \<in> reserved_keys rs (ipAllocator d). range_addrs k \<inter> range_addrs ipRange = {}"
    using GetUnreservedIPRange_sound[OF assms(2,3) g[unfolded r]] by blast
  moreover have "set (keys rs) \<union> held_ranges d \<subseteq> reserved_keys rs (ipAllocator d)"
    by (auto simp: reserved_keys_def held_ranges_def dest: mlookup_Some_keys)
  ultimately show "held_ranges d' = insert ipRange (held_ranges d) \<and> ipRange \<notin> held_ranges d
       \<and> (\<forall>k \<in> set (keys rs) \<union> held_ranges d. range_addrs k \<inter> range_addrs ipRange = {})"
    using h r by auto
qed

lemma choosing_ok:
  assumes "requests_ok single multi d P" "P c = ListedAll filer cidr rs"
    "allocate cidr (ipRangeSizeForTier (si_Tier filer)) rs d = (r, d')"
  shows "requests_ok single multi d' (P(c := (case r of Inl e \<Rightarrow> Idle
          | Inr ipRange \<Rightarrow> Holding ((si_Network filer)\<lparr>ReservedIpRange := ipRange\<rparr>))))"
proof -
  note a = allocate_free[OF assms(3) ipRangeSizeForTier_bounds]
  show ?thesis
  proof (cases r)
    case (Inl e)
    then show ?thesis
      using requests_ok_phase[OF assms(1), of Idle] a(1,3) by (simp add: requests_ok_def)
  next
    case (Inr ipRange)
    note h = a(2)[OF Inr]
    have ok: "unrelated ranges_conflict (single (world d) + multi (world d))" "holders_apart P"
      "\<And>c r. holds (P c) = Some r \<Longrightarrow> r \<in> held_ranges d"
      "\<And>c. informed (single (world d)) (multi (world d)) (held_ranges d) (P c)"
      using assms(1) by (auto simp: requests_ok_def)
    have "holders_apart (P(c := Holding ((si_Network filer)\<lparr>ReservedIpRange := ipRange\<rparr>)))"
      using ok(2,3) h unfolding holders_apart_def by (auto split: if_splits)
    moreover have "informed (single (world d)) (multi (world d)) (insert ipRange (held_ranges d)) (P c')" for c'
      using ok(4)[of c'] by (auto simp: informed_def split: request_phase.splits)
    moreover have "\<not> ranges_conflict (place_of ((si_Network filer)\<lparr>ReservedIpRange := ipRange\<rparr>)) p"
      if "p \<in># single (world d) + multi (world d)" for p
      using ok(4)[of c] that h assms(2)
      by (cases p) (auto simp: informed_def ranges_conflict_def place_of_def vpc_of_def)
    ultimately show ?thesis
      using ok(1,3) h a(1) by (auto simp: requests_ok_def Inr informed_def)
  qed
qed

lemma creating_ok:
  assumes "requests_ok single multi d P" "P c = Holding n"
    and "single w' \<subseteq># add_mset (place_of n) (single (world d)) \<and> multi w' \<subseteq># multi (world d)
       \<or> single w' \<subseteq># single (world d) \<and> multi w' \<subseteq># add_mset (place_of n) (multi (world d))"
  shows "requests_ok single multi (d\<lparr>world := w'\<rparr>) (P(c := Created n))"
proof -
  let ?all = "single (world d) + multi (world d)" and ?p = "place_of n"
  have ok: "unrelated ranges_conflict ?all" "holders_apart P" "\<And>c r. holds (P c) = Some r \<Longrightarrow> r \<in> held_ranges d"
    "\<And>c. informed (single (world d)) (multi (world d)) (held_ranges d) (P c)"
    using assms(1) by (auto simp: requests_ok_def)
  have grown: "single w' + multi w' \<subseteq># add_mset ?p ?all"
    using assms(3) subset_mset.add_mono[of "single w'" _ "multi w'"] by fastforce
  have new: "set_mset (single w') \<subseteq> insert ?p (set_mset (single (world d)))"
    "set_mset (single w' + multi w') \<subseteq> insert ?p (set_mset ?all)"
    using assms(3) set_mset_mono[OF grown] set_mset_mono by fastforce+
  have held: "ReservedIpRange n \<in> held_ranges d" using ok(3)[of c] assms(2) by simp
  have "unrelated ranges_conflict (add_mset ?p ?all)"
    using ok(4)[of c] assms(2) ranges_conflict_sym
    by (intro unrelated_add[OF ok(1)]) (auto simp: informed_def)
  then have sep: "unrelated ranges_conflict (single w' + multi w')" by (rule unrelated_mono[OF _ grown])
  have "informed (single w') (multi w') (held_ranges d) (P c')" if "c' \<noteq> c" for c'
  proof (cases "P c'")
    case (Holding m)
    have "\<not> ranges_conflict (place_of m) ?p"
      using ok(2) that Holding assms(2) unfolding holders_apart_def ranges_conflict_def place_of_def by fastforce
    then show ?thesis using ok(4)[of c'] new(2) Holding by (auto simp: informed_def)
  next
    case (ListedSingle filer cidr insts)
    then show ?thesis using ok(4)[of c'] new(1) held by (auto simp: informed_def place_of_def)
  next
    case (ListedAll filer cidr rs)
    then show ?thesis using ok(4)[of c'] new(2) held by (fastforce simp: informed_def place_of_def)
  qed (simp_all add: informed_def)
  moreover have "holders_apart (P(c := Created n))"
    using ok(2) assms(2) unfolding holders_apart_def by (metis fun_upd_apply holds.simps(1,2))
  ultimately show ?thesis
    using sep ok(3) held by (auto simp: requests_ok_def informed_def)
qed

lemma releasing_ok:
  assumes "requests_ok single multi d P" "holds (P c) = Some r" "seen_by_all single multi P (world d) r"
  shows "requests_ok single multi (release_ip r d) (P(c := Idle))"
proof -
  have ok: "unrelated ranges_conflict (single (world d) + multi (world d))" "holders_apart P"
    "\<And>c r. holds (P c) = Some r \<Longrightarrow> r \<in> held_ranges d"
    "\<And>c. informed (single (world d)) (multi (world d)) (held_ranges d) (P c)"
    using assms(1) by (auto simp: requests_ok_def)
  have same: "world (release_ip r d) = world d" by (simp add: release_ip_def)
  have "r' \<noteq> r" if "c' \<noteq> c" "holds (P c') = Some r'" for c' r'
    using ok(2) that assms(2) unfolding holders_apart_def by metis
  then have "r' \<in> held_ranges (release_ip r d)" if "c' \<noteq> c" "holds (P c') = Some r'" for c' r'
    using ok(3) that by (simp add: held_release)
  moreover have "informed (single (world d)) (multi (world d)) (held_ranges d - {r}) (P c')" for c'
    using ok(4)[of c'] assms(3)[unfolded seen_by_all_def, rule_format, of c']
    by (auto simp: informed_def split: request_phase.splits)
  moreover have "holders_apart (P(c := Idle))" using ok(2) by (auto simp: holders_apart_def)
  ultimately show ?thesis using ok(1) by (auto simp: requests_ok_def same held_release)
qed

context range_service
begin

lemma reservations_ok:
  assumes "reservations True True svc single multi d0 d P" "held_ranges d0 = {}"
    "unrelated ranges_conflict (single (world d0) + multi (world d0))"
  shows "requests_ok single multi d P"
  using assms
proof (induction rule: reservations.induct)
  case starting
  then show ?case by (simp add: requests_ok_def holders_apart_def)
next
  case (listing_single d P c filer r w' cidr)
  note l = list_single[OF listing_single.hyps(3)]
  have "informed (single (world d)) (multi (world d)) (held_ranges d) (ListedSingle filer cidr insts)" if "r = Inr insts" for insts
    using listing_single.hyps(4)[OF TrueI that] by (simp add: informed_def names_network_def image_comp)
  then show ?case
    by (intro listing_ok[OF listing_single.IH[OF listing_single.prems] l]) (simp_all split: sum.split)
next
  case (listing_multi d P c filer cidr insts r w')
  note ok = listing_multi.IH[OF listing_multi.prems]
  note l = list_multi[OF listing_multi.hyps(3)]
  have "informed (single (world d)) (multi (world d)) (held_ranges d) (ListedAll filer cidr
      (collected filer (map mi_Network shared) (collected filer (map si_Network insts) [])))" if "r = Inr shared" for shared
  proof -
    have "informed (single (world d)) (multi (world d)) (held_ranges d) (ListedSingle filer cidr insts)"
      using ok listing_multi.hyps(2) unfolding requests_ok_def by metis
    moreover have "names_network filer (multi (world d)) (map mi_Network shared)"
      using listing_multi.hyps(4)[OF TrueI that] .
    ultimately show ?thesis by (auto simp: informed_def names_network_def collected_keys image_comp)
  qed
  then show ?case
    by (intro listing_ok[OF ok l]) (simp_all split: sum.split)
next
  case (choosing d P c filer cidr rs r d')
  show ?case by (rule choosing_ok[OF choosing.IH[OF choosing.prems] choosing.hyps(2,3)])
next
  case (creating_single d P c i ri w')
  show ?case
    by (rule creating_ok[OF creating_single.IH[OF creating_single.prems] creating_single.hyps(2)
        disjI1[OF create_single[OF creating_single.hyps(3)]]])
next
  case (creating_multi d P c m rm w')
  show ?case
    by (rule creating_ok[OF creating_multi.IH[OF creating_multi.prems] creating_multi.hyps(2)
        disjI2[OF create_multi[OF creating_multi.hyps(3)]]])
next
  case (releasing d P c n)
  then have "holds (P c) = Some (ReservedIpRange n)" "seen_by_all single multi P (world d) (ReservedIpRange n)" by auto
  then show ?case by (rule releasing_ok[OF releasing.IH[OF releasing.prems]])
next
  case (elsewhere d P w')
  show ?case by (rule requests_ok_fewer[OF elsewhere.IH[OF elsewhere.prems] elsewhere.hyps(2)])
qed

end

text \<open>A request that runs without interruption is such a run.\<close>

lemma reserve_run:
  assumes "reservations full_lists timely svc single multi d0 d P" "P c = Idle" "reserveIPRange svc filer cidr d = (Inr r, d')"
    and named: "\<And>insts w1 shared w2. full_lists \<Longrightarrow> svc_ListInstances svc filer (world d) = (Inr insts, w1)
      \<Longrightarrow> svc_ListMultishareInstances svc (all_locations filer) w1 = (Inr shared, w2)
      \<Longrightarrow> names_network filer (single (world d)) (map si_Network insts) \<and> names_network filer (multi w1) (map mi_Network shared)"
  shows "reservations full_lists timely svc single multi d0 d' (P(c := Holding ((si_Network filer)\<lparr>ReservedIpRange := r\<rparr>)))"
proof -
  obtain insts w1 shared w2 where l: "svc_ListInstances svc filer (world d) = (Inr insts, w1)"
      "svc_ListMultishareInstances svc (all_locations filer) w1 = (Inr shared, w2)"
    and a: "allocate cidr (ipRangeSizeForTier (si_Tier filer))
         (collected filer (map mi_Network shared) (collected filer (map si_Network insts) []))
         (d\<lparr>world := w1\<rparr>\<lparr>world := w2\<rparr>) = (Inr r, d')"
    using assms(3) by (auto simp: reserveIPRange_calls bind_err_Inr_iff on_world_Inr)
  have 1: "reservations full_lists timely svc single multi d0 (d\<lparr>world := w1\<rparr>) (P(c := ListedSingle filer cidr insts))"
    using listing_single[OF assms(1,2) l(1), of cidr] named[OF _ l, THEN conjunct1] by force
  have 2: "reservations full_lists timely svc single multi d0 (d\<lparr>world := w1\<rparr>\<lparr>world := w2\<rparr>) (P(c := ListedAll filer cidr
        (collected filer (map mi_Network shared) (collected filer (map si_Network insts) []))))"
    using listing_multi[OF 1, of c filer cidr insts "Inr shared" w2] l(2) named[OF _ l, THEN conjunct2] by force
  show ?thesis using choosing[OF 2, of c filer cidr, OF _ a] by simp
qed

text \<open>C12: Concurrent requests get addresses of their own, when the lists they read are complete. However the
  calls of any number of reservations interleave, with deletions of instances at any time and with
  creations that fail or succeed unnoticed, no two instances in one network ever share an address, under
  two conditions on the run. Every list that is answered names all instances that are in the network of
  the request at that time, so no location with such an instance is unreachable: the code notes that
  instances may be missing, and does not check it. And a range is only released when every request that
  is between its first list and its choice has seen the instance that got the range, or when no instance
  got it.\<close>

theorem concurrent_ranges_apart:
  assumes "range_service svc single multi" "reservations True True svc single multi d0 d P"
    and "held_ranges d0 = {}" "unrelated ranges_conflict (single (world d0) + multi (world d0))"
  shows "unrelated ranges_conflict (single (world d) + multi (world d))"
  using range_service.reservations_ok[OF assms] by (simp add: requests_ok_def)

section \<open>The in-memory service\<close>

definition fake_single :: "fakeServiceManager \<Rightarrow> place multiset" where
  "fake_single w = {#(''default'', ''192.168.92.32/29''), (''default'', ''192.168.92.40/29'')#}"

definition fake_multi :: "fakeServiceManager \<Rightarrow> place multiset" where
  "fake_multi w = image_mset (place_of \<circ> mi_Network) (mset (map snd (createdMultishareInstance w)))"

lemma mset_minsert: "mset (map snd (minsert k v m)) \<subseteq># add_mset v (mset (map snd m))"
proof (induction m)
  case (Cons kv m)
  then show ?case by (cases kv) (auto simp: minsert_def subset_mset.add_increasing add_mset_commute)
qed (simp add: minsert_def)

lemma mset_mdelete: "mset (map snd (mdelete k m)) \<subseteq># mset (map snd m)"
  by (induction m) (auto simp: mdelete_def AList.delete_eq intro: subset_mset.order_trans)

interpretation fake_ranges: range_service "fake_service uuid show_info show_backup" fake_single fake_multi
  for uuid show_info show_backup
proof unfold_locales
  let ?svc = "fake_service uuid show_info show_backup"
  show "fewer fake_single fake_multi w w'" if "svc_ListInstances ?svc filer w = (r, w')" for filer w r w'
    using that by (auto simp: fake_service_def fake_ListInstances_def fewer_def fake_single_def fake_multi_def)
  show "fewer fake_single fake_multi w w'" if "svc_ListMultishareInstances ?svc (all_locations filer) w = (r, w')" for filer w r w'
    using that by (auto simp: fake_service_def fake_ListMultishareInstances_def fewer_def)
  show "fake_single w' \<subseteq># add_mset (place_of (si_Network i)) (fake_single w) \<and> fake_multi w' \<subseteq># fake_multi w"
    if "svc_CreateInstance ?svc i w = (r, w')" for i w r w'
    using that by (auto simp: fake_service_def fake_CreateInstance_def fake_single_def fake_multi_def)
  show "fake_single w' \<subseteq># fake_single w \<and> fake_multi w' \<subseteq># add_mset (place_of (mi_Network i)) (fake_multi w)"
    if "svc_StartCreateMultishareInstanceOp ?svc i w = (r, w')" for i w r w'
  proof -
    let ?j = "empty_instance\<lparr>mi_Project := ''test-project'', mi_Location := mi_Location i, mi_Name := mi_Name i,
      mi_Tier := mi_Tier i, mi_CapacityBytes := mi_CapacityBytes i, mi_Network := mi_Network i,
      mi_KmsKeyName := mi_KmsKeyName i, mi_Labels := mi_Labels i, mi_State := ''READY''\<rparr>"
    have j: "createdMultishareInstance w' = minsert (mi_Name i) ?j (createdMultishareInstance w)"
      using that by (auto simp: fake_service_def fake_StartCreateMultishareInstanceOp_def fake_start_def fake_op_def Let_def)
    show ?thesis
      using image_mset_subseteq_mono[OF mset_minsert[of "mi_Name i" ?j "createdMultishareInstance w"], of "place_of \<circ> mi_Network"]
      by (simp add: fake_single_def fake_multi_def j)
  qed
qed

text \<open>Its lists are complete.\<close>

lemma fake_lists_complete:
  "svc_ListInstances (fake_service uuid show_info show_backup) filer w = (Inr insts, w')
     \<Longrightarrow> names_network filer (fake_single w) (map si_Network insts)"
  "svc_ListMultishareInstances (fake_service uuid show_info show_backup) lf w = (Inr shared, w')
     \<Longrightarrow> names_network filer (fake_multi w) (map mi_Network shared)"
proof -
  have lower: "toLower ''default'' = ''default''" by code_simp
  show "svc_ListInstances (fake_service uuid show_info show_backup) filer w = (Inr insts, w')
     \<Longrightarrow> names_network filer (fake_single w) (map si_Network insts)"
    by (auto simp: fake_service_def fake_ListInstances_def names_network_def fake_single_def place_of_def lower)
  show "svc_ListMultishareInstances (fake_service uuid show_info show_backup) lf w = (Inr shared, w')
     \<Longrightarrow> names_network filer (fake_multi w) (map mi_Network shared)"
    by (auto simp: fake_service_def fake_ListMultishareInstances_def names_network_def fake_multi_def image_iff
        simp del: set_map) (force simp: image_iff)
qed

lemmas demo_lists_complete = fake_lists_complete[of "\<lambda>n. ''x''" "\<lambda>b. []" "\<lambda>b. []", folded demo_service_def]

section \<open>Two requests\<close>

text \<open>Two multishare instances of one storage class, for the examples\<close>

definition racing :: "string \<Rightarrow> MultishareInstance" where
  "racing n = empty_instance\<lparr>mi_Name := n, mi_Tier := ''enterprise'', mi_Network := empty_network\<lparr>net_Name := ''n''\<rparr>\<rparr>"

definition racing_world :: "(string \<times> string) list \<Rightarrow> nat \<Rightarrow> fakeServiceManager" where
  "racing_world is c = (NewFakeServiceForMultishare [] [] [])\<lparr>op_count := c, createdMultishareInstance :=
     map (\<lambda>(n, r). (n, (racing n)\<lparr>mi_Project := ''test-project'', mi_State := ''READY'',
        mi_Network := (mi_Network (racing n))\<lparr>ReservedIpRange := r\<rparr>\<rparr>)) is\<rparr>"

definition racing_filer :: ServiceInstance where
  "racing_filer = as_service_instance (racing ''a'')"

definition racing_driver :: "(string \<times> string) list \<Rightarrow> nat \<Rightarrow> string list \<Rightarrow> fakeServiceManager driver" where
  "racing_driver is c held = \<lparr>world = racing_world is c,
     ipAllocator = \<lparr>pendingIPRanges = map (\<lambda>r. (r, True)) held\<rparr>, volumeLocks = NewVolumeLocks\<rparr>"

definition first_range :: string where "first_range = ''10.0.0.0/26''"
definition second_range :: string where "second_range = ''10.0.0.64/26''"

lemma range_texts: "show_range 0x0A000000 26 = first_range" "show_range 0x0A000040 26 = second_range"
proof -
  have b: "[ip_byte 3 0x0A000000, ip_byte 2 0x0A000000, ip_byte 1 0x0A000000, ip_byte 0 0x0A000000] = [10, 0, 0, 0]"
    "[ip_byte 3 0x0A000040, ip_byte 2 0x0A000040, ip_byte 1 0x0A000040, ip_byte 0 0x0A000040] = [10, 0, 0, 64]"
    by (simp_all add: ip_byte_div)
  have "show_ip 0x0A000000 = ''10.0.0.0''" "show_ip 0x0A000040 = ''10.0.0.64''"
    unfolding show_ip_def b by (simp_all add: show_nat.simps digit_chars)
  then show "show_range 0x0A000000 26 = first_range" "show_range 0x0A000040 26 = second_range"
    by (simp_all add: show_range_def first_range_def second_range_def show_nat.simps digit_chars)
qed

lemma choose_ranges:
  assumes "parseCIDR ''10.0.0.0/24'' 26 = Inr (0x0A000000, (0x0A000000, 24))"
  shows "allocate ''10.0.0.0/24'' 26 [] (racing_driver is c []) = (Inr first_range, racing_driver is c [first_range])"
    "allocate ''10.0.0.0/24'' 26 [] (racing_driver is c [first_range])
       = (Inr second_range, racing_driver is c [first_range, second_range])"
proof -
  have m: "ip_mask 24 0x0A000000 = 0x0A000000" "ip_mask 26 0x0A000000 = 0x0A000000" by (simp_all add: aligned_iff)
  have p: "net_ParseCIDR first_range = Inr (0x0A000000, (0x0A000000, 26))"
    using net_ParseCIDR_show[of 26 "0x0A000000"] by (simp add: range_texts m)
  have "scan [] 26 (0x0A000000, 24) 0x0A000000 = Some (Inr (Some 0x0A000000))"
    by (subst scan.simps) (simp add: net_contains_iff)
  then show "allocate ''10.0.0.0/24'' 26 [] (racing_driver is c []) = (Inr first_range, racing_driver is c [first_range])"
    by (simp add: allocate_def GetUnreservedIPRange_def assms m Let_def reserved_union_def racing_driver_def range_texts
        holdIPRange_def minsert_def)
  have "scan [first_range] 26 (0x0A000000, 24) 0x0A000040 = Some (Inr (Some 0x0A000040))"
    by (subst scan.simps) (simp add: p isOverlap_def net_contains_iff blk_def)
  then have "scan [first_range] 26 (0x0A000000, 24) 0x0A000000 = Some (Inr (Some 0x0A000040))"
    by (subst scan.simps) (simp add: p isOverlap_def net_contains_iff blk_def incrementIP_def)
  moreover have "first_range \<noteq> second_range" by (simp add: first_range_def second_range_def)
  ultimately show "allocate ''10.0.0.0/24'' 26 [] (racing_driver is c [first_range])
       = (Inr second_range, racing_driver is c [first_range, second_range])"
    by (simp add: allocate_def GetUnreservedIPRange_def assms m Let_def reserved_union_def racing_driver_def range_texts
        holdIPRange_def minsert_def)
qed

lemma racing_cidr: "parseCIDR ''10.0.0.0/24'' 26 = Inr (0x0A000000, (0x0A000000, 24))"
  by (simp add: parseCIDR_Inr parse_examples aligned_iff)

lemmas racing_choice = choose_ranges[OF racing_cidr]

lemma racing_size: "ipRangeSizeForTier (si_Tier racing_filer) = 26"
  by (simp add: ipRangeSizeForTier_def racing_filer_def as_service_instance_def racing_def IpRangeSizeEnterprise_def)

definition fake_listing :: "ServiceInstance list" where
  "fake_listing = map (\<lambda>r. empty_service_instance\<lparr>
     si_Project := ''test-project'', si_Location := ''us-central1-c'', si_Name := ''test'', si_Tier := ''BASIC_HDD'',
     si_Network := empty_network\<lparr>ReservedIpRange := r, net_Name := ''default''\<rparr>, si_State := ''READY''\<rparr>)
     [''192.168.92.32/29'', ''192.168.92.40/29'']"

lemma racing_lists:
  "svc_ListInstances demo_service racing_filer (world (racing_driver is c h)) = (Inr fake_listing, racing_world is c)"
  "svc_ListMultishareInstances demo_service (all_locations racing_filer) (world (racing_driver [] c h)) = (Inr [], racing_world [] c)"
  "collected racing_filer (map mi_Network []) (collected racing_filer (map si_Network fake_listing) []) = []"
proof -
  show "svc_ListInstances demo_service racing_filer (world (racing_driver is c h)) = (Inr fake_listing, racing_world is c)"
    by (simp add: demo_service_def fake_service_def fake_ListInstances_def fake_listing_def racing_driver_def)
  show "svc_ListMultishareInstances demo_service (all_locations racing_filer) (world (racing_driver [] c h)) = (Inr [], racing_world [] c)"
    by (simp add: demo_service_def fake_service_def fake_ListMultishareInstances_def racing_driver_def racing_world_def
        NewFakeServiceForMultishare_def)
  show "collected racing_filer (map mi_Network []) (collected racing_filer (map si_Network fake_listing) []) = []"
    by code_simp
qed

lemma racing_world_id [simp]: "racing_driver is c h\<lparr>world := racing_world is' c'\<rparr> = racing_driver is' c' h"
  by (simp add: racing_driver_def)

definition racing_with :: "string \<Rightarrow> string \<Rightarrow> MultishareInstance" where
  "racing_with n r = (racing n)\<lparr>mi_Network := (si_Network racing_filer)\<lparr>ReservedIpRange := r\<rparr>\<rparr>"

lemma racing_create:
  assumes "n \<notin> fst ` set is"
  shows "\<exists>opn. svc_StartCreateMultishareInstanceOp demo_service (racing_with n r) (world (racing_driver is c h))
    = (Inr opn, racing_world (is @ [(n, r)]) (c + 1))"
proof -
  have upd: "minsert k v m = m @ [(k, v)]" if "k \<notin> fst ` set m" for k :: string and v :: MultishareInstance and m
    using that by (induction m) (auto simp: minsert_def)
  have "n \<notin> fst ` set (createdMultishareInstance (racing_world is c))"
    using assms by (force simp: racing_world_def)
  from upd[OF this] show ?thesis
    by (simp add: demo_service_def fake_service_def fake_StartCreateMultishareInstanceOp_def fake_start_def fake_op_def Let_def
        racing_driver_def racing_with_def racing_filer_def as_service_instance_def)
       (simp add: racing_world_def racing_def NewFakeServiceForMultishare_def empty_instance_def)
qed

lemma racing_release [simp]: "release_ip r (racing_driver is c [r]) = racing_driver is c []"
  "first_range \<noteq> second_range \<Longrightarrow> release_ip first_range (racing_driver is c [first_range, second_range]) = racing_driver is c [second_range]"
  by (simp_all add: release_ip_def racing_driver_def ReleaseIPRange_def mdelete_def)

definition callers :: "request_phase \<Rightarrow> request_phase \<Rightarrow> nat \<Rightarrow> request_phase" where
  "callers p q c = (if c = 2 then p else if c = 3 then q else Idle)"

lemma callers_simps [simp]: "callers p q 2 = p" "callers p q 3 = q" "(callers p q)(2 := x) = callers x q"
  "(callers p q)(3 := x) = callers p x"
  by (auto simp: callers_def)

lemma callers_idle: "(\<lambda>c. Idle) = callers Idle Idle"
  by (simp add: callers_def fun_eq_iff)

text \<open>The first two calls of a request, which then waits while the other one runs. The waiting request knows of
  no instance.\<close>

lemma racing_waits:
  "reservations full_lists timely demo_service fake_single fake_multi (racing_driver [] 0 []) (racing_driver [] 0 [])
     (callers (ListedAll racing_filer ''10.0.0.0/24'' []) Idle)"
proof -
  note named = demo_lists_complete[where filer = racing_filer]
  have "reservations full_lists timely demo_service fake_single fake_multi (racing_driver [] 0 []) (racing_driver [] 0 [])
     (callers (ListedSingle racing_filer ''10.0.0.0/24'' fake_listing) Idle)"
    using listing_single[OF starting[unfolded callers_idle] _ racing_lists(1)[of "[]" 0 "[]"], where c = 2 and cidr = "''10.0.0.0/24''"] named(1)[OF racing_lists(1)[of "[]" 0 "[]"]] by simp
  from listing_multi[OF this _ racing_lists(2)[of 0 "[]"], where c = 2] named(2)[OF racing_lists(2)[of 0 "[]"]]
  show ?thesis by (simp add: racing_lists(3)[unfolded list.map(1)])
qed

lemma racing_reserve: "reserveIPRange demo_service racing_filer ''10.0.0.0/24'' (racing_driver [] 0 [])
    = (Inr first_range, racing_driver [] 0 [first_range])"
proof -
  have "world (racing_driver [] 0 []) = racing_world [] 0" by (simp add: racing_driver_def)
  then show ?thesis
    using racing_lists(1)[of "[]" 0 "[]"] racing_lists(2)[of 0 "[]"] racing_choice(1)[of "[]" 0]
    by (simp add: reserveIPRange_calls bind_err_def bind_def on_world_def racing_size racing_lists(3)[unfolded list.map(1)])
qed

definition racing_net :: "string \<Rightarrow> Network" where
  "racing_net r = (si_Network racing_filer)\<lparr>ReservedIpRange := r\<rparr>"

lemma racing_other:
  "reservations full_lists timely demo_service fake_single fake_multi (racing_driver [] 0 []) (racing_driver [(''a'', first_range)] 1 [first_range])
     (callers (ListedAll racing_filer ''10.0.0.0/24'' []) (Created (racing_net first_range)))"
proof -
  have named: "names_network racing_filer (fake_single (world (racing_driver [] 0 []))) (map si_Network insts)
      \<and> names_network racing_filer (fake_multi w1) (map mi_Network shared)"
    if "svc_ListInstances demo_service racing_filer (world (racing_driver [] 0 [])) = (Inr insts, w1)"
      "svc_ListMultishareInstances demo_service (all_locations racing_filer) w1 = (Inr shared, w2)" for insts w1 shared w2
    using demo_lists_complete(1)[OF that(1)] demo_lists_complete(2)[OF that(2)] by simp
  let ?P = "callers (ListedAll racing_filer ''10.0.0.0/24'' []) (Holding (racing_net first_range))"
  have 1: "reservations full_lists timely demo_service fake_single fake_multi (racing_driver [] 0 []) (racing_driver [] 0 [first_range]) ?P"
    using reserve_run[OF racing_waits _ racing_reserve named, of 3] by (simp add: racing_net_def)
  obtain opn where c: "svc_StartCreateMultishareInstanceOp demo_service (racing_with ''a'' first_range)
      (world (racing_driver [] 0 [first_range])) = (Inr opn, racing_world [(''a'', first_range)] 1)"
    using racing_create[of "''a''" "[]" first_range 0 "[first_range]"] by auto
  have "?P 3 = Holding (mi_Network (racing_with ''a'' first_range))" by (simp add: racing_net_def racing_with_def)
  from creating_multi[OF 1 this c] show ?thesis by (simp add: racing_net_def racing_with_def)
qed

lemma racing_places: "fake_multi (world (racing_driver is c h)) = mset (map (\<lambda>x. (''n'', snd x)) is)"
proof -
  have n: "toLower ''n'' = ''n''" by code_simp
  have "place_of (mi_Network ((racing m)\<lparr>mi_Project := p, mi_State := s,
      mi_Network := (mi_Network (racing m))\<lparr>ReservedIpRange := r\<rparr>\<rparr>)) = (''n'', r)" for m p s r
    by (simp add: place_of_def racing_def n)
  then show ?thesis
    by (simp add: fake_multi_def racing_driver_def racing_world_def multiset.map_comp comp_def case_prod_beta)
qed


lemma racing_parse: "range_addrs ''192.168.92.32/29'' \<inter> range_addrs ''192.168.92.40/29'' = {}"
proof -
  have b: "[ip_byte 3 0xC0A85C20, ip_byte 2 0xC0A85C20, ip_byte 1 0xC0A85C20, ip_byte 0 0xC0A85C20] = [192, 168, 92, 32]"
    "[ip_byte 3 0xC0A85C28, ip_byte 2 0xC0A85C28, ip_byte 1 0xC0A85C28, ip_byte 0 0xC0A85C28] = [192, 168, 92, 40]"
    by (simp_all add: ip_byte_div)
  have "show_ip 0xC0A85C20 = ''192.168.92.32''" "show_ip 0xC0A85C28 = ''192.168.92.40''"
    unfolding show_ip_def b by (simp_all add: show_nat.simps digit_chars)
  then have "show_range 0xC0A85C20 29 = ''192.168.92.32/29''" "show_range 0xC0A85C28 29 = ''192.168.92.40/29''"
    by (simp_all add: show_range_def show_nat.simps digit_chars)
  then have "range_addrs ''192.168.92.32/29'' = addrs (0xC0A85C20, 29)" "range_addrs ''192.168.92.40/29'' = addrs (0xC0A85C28, 29)"
    using range_addrs_show[of 29 "0xC0A85C20"] range_addrs_show[of 29 "0xC0A85C28"] by simp_all
  moreover have "isOverlap (Some (0xC0A85C20, 29)) (Some (0xC0A85C28, 29)) = Inr False"
    by (simp add: isOverlap_def net_contains_iff blk_def)
  ultimately show ?thesis using isOverlap_iff[of 29 29 "0xC0A85C20" "0xC0A85C28"] by simp
qed

theorem concurrent_ranges_apart_witness:
  "\<exists>d P. reservations True True demo_service fake_single fake_multi (racing_driver [] 0 []) d P
     \<and> map (\<lambda>(n, i). (n, ReservedIpRange (mi_Network i))) (createdMultishareInstance (world d))
         = [(''a'', first_range), (''b'', second_range)]
     \<and> unrelated ranges_conflict (fake_single (world d) + fake_multi (world d))"
proof -
  let ?R = "reservations True True demo_service fake_single fake_multi (racing_driver [] 0 [])"
  have "allocate ''10.0.0.0/24'' (ipRangeSizeForTier (si_Tier racing_filer)) [] (racing_driver [(''a'', first_range)] 1 [first_range])
      = (Inr second_range, racing_driver [(''a'', first_range)] 1 [first_range, second_range])"
    by (simp add: racing_size racing_choice(2))
  from choosing[OF racing_other _ this, of 2]
  have 1: "?R (racing_driver [(''a'', first_range)] 1 [first_range, second_range])
      (callers (Holding (racing_net second_range)) (Created (racing_net first_range)))"
    by (simp add: racing_net_def)
  have "first_range \<noteq> second_range" by (simp add: first_range_def second_range_def)
  with releasing[OF 1, of 3 "racing_net first_range"]
  have 2: "?R (racing_driver [(''a'', first_range)] 1 [second_range]) (callers (Holding (racing_net second_range)) Idle)"
    by (simp add: racing_net_def seen_by_all_def callers_def)
  obtain opn where c: "svc_StartCreateMultishareInstanceOp demo_service (racing_with ''b'' second_range)
      (world (racing_driver [(''a'', first_range)] 1 [second_range]))
      = (Inr opn, racing_world [(''a'', first_range), (''b'', second_range)] 2)"
    using racing_create[of "''b''" "[(''a'', first_range)]" second_range 1 "[second_range]"] by (auto simp: numeral_2_eq_2)
  have "callers (Holding (racing_net second_range)) Idle 2 = Holding (mi_Network (racing_with ''b'' second_range))"
    by (simp add: racing_net_def racing_with_def)
  note run = creating_multi[OF 2 this c, unfolded racing_world_id]
  have start: "held_ranges (racing_driver [] 0 []) = {}" "fake_multi (world (racing_driver [] 0 [])) = {#}"
    by (simp_all add: racing_places) (simp add: held_ranges_def racing_driver_def)
  have "unrelated ranges_conflict (fake_single (world (racing_driver [] 0 [])) + fake_multi (world (racing_driver [] 0 [])))"
    using racing_parse by (simp add: start fake_single_def unrelated_def ranges_conflict_def Int_commute)
  moreover have "range_service demo_service fake_single fake_multi"
    unfolding demo_service_def by (rule fake_ranges.range_service_axioms)
  ultimately have "unrelated ranges_conflict (fake_single (world d) + fake_multi (world d))" if "?R d P" for d P
    using concurrent_ranges_apart[OF _ that start(1)] by blast
  note apart = this[OF run]
  have names: "map (\<lambda>(n, i). (n, ReservedIpRange (mi_Network i))) (createdMultishareInstance
      (world (racing_driver [(''a'', first_range), (''b'', second_range)] 2 [second_range]))) = [(''a'', first_range), (''b'', second_range)]"
    by (simp add: racing_driver_def racing_world_def)
  show ?thesis by (rule exI, rule exI, rule conjI[OF run conjI[OF names apart]])
qed

end
