(* ===== verification/Reconciler.thy ===== *)
theory Reconciler
  imports Controller
begin

text \<open>
  \<open>reconciler.go\<close>: the loop that brings the ShareInfo and InstanceInfo objects of the stateful mode
  together with the shares and instances the Filestore service lists. One call of \<open>reconcileWorker\<close>
  is a round. The API server, the informers and the store of storage classes are a record of
  functions. No step fails: an error is logged and the loop goes on, which is \<open>logged\<close> here.
\<close>

section \<open>Clients\<close>

record StorageClass =
  sc_Name :: string
  sc_Parameters :: labels

text \<open>
  \<open>rc_visit\<close> is the order in which a range over a map visits its keys; it may name keys that are not
  in the map, or only inserted by the loop: the loop skips a key that the map does not have when its
  turn comes. \<open>rc_old\<close> says that a creation time parses and lies more than \<open>util.ErrRetention\<close>
  before now. The calls on ShareInfo objects that the stateful controller makes too are in the
  \<open>ShareInfoClient\<close>.
\<close>

record 'w ReconClient =
  rc_shares :: "'w ShareInfoClient"
  rc_shareList :: "('w, ShareInfo list) eff"
  rc_shareUpdateStatus :: "ShareInfo \<Rightarrow> ('w, ShareInfo) eff"
  rc_instanceLister :: "string \<Rightarrow> ('w, InstanceInfo) eff"
  rc_instanceList :: "('w, InstanceInfo list) eff"
  rc_instanceGet :: "string \<Rightarrow> ('w, InstanceInfo) eff"
  rc_instanceCreate :: "InstanceInfo \<Rightarrow> ('w, InstanceInfo) eff"
  rc_instanceUpdate :: "InstanceInfo \<Rightarrow> ('w, InstanceInfo) eff"
  rc_instanceUpdateStatus :: "InstanceInfo \<Rightarrow> ('w, InstanceInfo) eff"
  rc_instanceDelete :: "string \<Rightarrow> ('w, unit) eff"
  rc_scGet :: "string \<Rightarrow> ('w, StorageClass) eff"
  rc_scList :: "('w, StorageClass list) eff"
  rc_uuid :: "('w, string) eff"
  rc_visit :: "string list \<Rightarrow> string list"
  rc_old :: "string \<Rightarrow> bool"

type_synonym share_infos = "(string, ShareInfo) gomap"
type_synonym instance_infos = "(string, InstanceInfo) gomap"
type_synonym instance_shares = "(string, Share list) gomap"

definition empty_share_status :: ShareInfoStatus where
  "empty_share_status = \<lparr>st_InstanceHandle = [], st_CapacityBytes = 0, st_ShareStatus = FS_Unset, st_Error = []\<rparr>"

definition empty_instance_status :: InstanceInfoStatus where
  "empty_instance_status = \<lparr>ist_ShareNames = [], ist_CapacityBytes = 0, ist_InstanceStatus = FS_Unset,
     ist_CapacityStepSizeGb = 0, ist_Cidr = [], ist_Error = []\<rparr>"

definition share_status :: "ShareInfo \<Rightarrow> ShareInfoStatus" where
  "share_status si = (case sfo_Status si of None \<Rightarrow> empty_share_status | Some st \<Rightarrow> st)"

definition instance_status :: "InstanceInfo \<Rightarrow> InstanceInfoStatus" where
  "instance_status ii = (case ifo_Status ii of None \<Rightarrow> empty_instance_status | Some st \<Rightarrow> st)"

text \<open>The instance a ShareInfo points to, empty when it is not assigned\<close>

definition handle_of :: "ShareInfo \<Rightarrow> string" where
  "handle_of si = st_InstanceHandle (share_status si)"

definition share_names :: "InstanceInfo \<Rightarrow> string list" where
  "share_names ii = ist_ShareNames (instance_status ii)"

section \<open>Errors in the status\<close>

definition updateInstanceInfoErr :: "'w ReconClient \<Rightarrow> InstanceInfo \<Rightarrow> go_error \<Rightarrow> ('w, unit) eff" where
  "updateInstanceInfoErr rc instanceInfo e =
     (let st = instance_status instanceInfo in
      if equalFold (ist_Error st) (error_text e) then ret ()
      else logged (rc_instanceUpdateStatus rc (instanceInfo\<lparr>ifo_Status := Some (st\<lparr>ist_Error := error_text e\<rparr>)\<rparr>))
             (\<lambda>_. ret ()) (\<lambda>_. ret ()))"

definition updateShareInfoErr :: "'w ReconClient \<Rightarrow> ShareInfo \<Rightarrow> go_error \<Rightarrow> ('w, unit) eff" where
  "updateShareInfoErr rc shareInfo e =
     (let st = share_status shareInfo in
      if equalFold (st_Error st) (error_text e) then ret ()
      else logged (rc_shareUpdateStatus rc (shareInfo\<lparr>sfo_Status := Some (st\<lparr>st_Error := error_text e\<rparr>)\<rparr>))
             (\<lambda>_. ret ()) (\<lambda>_. ret ()))"

section \<open>What this cluster manages\<close>

definition cluster_location :: "config \<Rightarrow> go_error + string" where
  "cluster_location cfg =
     (if cfg_isRegional cfg
      then map_err (\<lambda>e. ErrText (''failed to get region for regional cluster: '' @ error_text e)) (GetRegionFromZone (cfg_Zone cfg))
      else Inr (cfg_Zone cfg))"

definition uri_or_empty :: "MultishareInstance \<Rightarrow> string" where
  "uri_or_empty i = (case GenerateMultishareInstanceURI (Some i) of Inl _ \<Rightarrow> [] | Inr u \<Rightarrow> u)"

definition is_managed :: "config \<Rightarrow> string \<Rightarrow> MultishareInstance \<Rightarrow> bool" where
  "is_managed cfg clusterLocation i =
     (mlookup (mi_Labels i) TagKeyClusterLocation = Some clusterLocation
      \<and> mlookup (mi_Labels i) TagKeyClusterName = Some (cfg_clusterName cfg)
      \<and> mlookup (mi_Labels i) ParamMultishareInstanceScLabelKey \<noteq> None)"

fun managed_shares :: "Share list \<Rightarrow> instance_shares \<Rightarrow> Share list \<times> instance_shares" where
  "managed_shares [] instanceShare = ([], instanceShare)"
| "managed_shares (share # shares) instanceShare =
     (case GenerateMultishareInstanceURI (sh_Parent share) of
        Inl _ \<Rightarrow> managed_shares shares instanceShare
      | Inr parentURI \<Rightarrow> (case mlookup instanceShare parentURI of
          None \<Rightarrow> managed_shares shares instanceShare
        | Some ss \<Rightarrow> apfst (Cons share) (managed_shares shares (minsert parentURI (ss @ [share]) instanceShare))))"

definition managedInstanceAndShare ::
  "config \<Rightarrow> MultishareInstance list \<Rightarrow> Share list \<Rightarrow> go_error + MultishareInstance list \<times> Share list \<times> instance_shares" where
  "managedInstanceAndShare cfg instances shares = rbind (cluster_location cfg) (\<lambda>clusterLocation.
     let managedInstances = filter (is_managed cfg clusterLocation) instances;
         (managedShares, instanceShare) = managed_shares shares (fold (\<lambda>i. minsert (uri_or_empty i) []) managedInstances [])
     in Inr (managedInstances, managedShares, instanceShare))"

section \<open>Objects from shares and instances\<close>

text \<open>The informer first, then the API server; None when neither has the object\<close>

definition find_info ::
  "('w, 'a) eff \<Rightarrow> ('w, 'a) eff \<Rightarrow> (go_error \<Rightarrow> bool) \<Rightarrow> ('w, 'a option) eff" where
  "find_info lister api isNotFound =
     attempt lister (\<lambda>r. case r of
       Inr a \<Rightarrow> ret (Some a)
     | Inl e \<Rightarrow> if \<not> isNotFound e then fail e
         else attempt api (\<lambda>r. case r of
           Inr a \<Rightarrow> ret (Some a)
         | Inl e \<Rightarrow> if \<not> isNotFound e then fail e else ret None))"

definition recon_createShareInfo :: "'w ReconClient \<Rightarrow> Share \<Rightarrow> ('w, ShareInfo) eff" where
  "recon_createShareInfo rc share = (case sh_Parent share of
       None \<Rightarrow> fail (Panic ''nil parent'')
     | Some parent \<Rightarrow> sic_Create (rc_shares rc)
         \<lparr>sfo_Name = ShareToShareInfoName (sh_Name share), sfo_Finalizers = [FilestoreResourceCleanupFinalizer],
          sfo_Labels = [], sfo_Deleted = False, sfo_ShareName = sh_Name share, sfo_CapacityBytes = sh_CapacityBytes share,
          sfo_InstancePoolTag = [], sfo_Region = mi_Location parent, sfo_Parameters = [], sfo_Status = None\<rparr>)"

definition maybeUpdateShareInfoStatus :: "'w ReconClient \<Rightarrow> Share \<Rightarrow> ShareInfo \<Rightarrow> ('w, ShareInfo) eff" where
  "maybeUpdateShareInfoStatus rc share shareInfo =
     bind (lift (ShareStateToCRDStatus (sh_State share))) (\<lambda>status.
     bind_err (\<lambda>e. ErrText (''Error generating instanceHandle from share '' @ quote (sh_Name share) @ '': '' @ error_text e))
       (lift (GenerateMultishareInstanceURI (sh_Parent share))) (\<lambda>instanceHandle.
       let st = share_status shareInfo in
       if sfo_Status shareInfo \<noteq> None \<and> sh_CapacityBytes share = st_CapacityBytes st \<and> status = st_ShareStatus st
          \<and> instanceHandle = st_InstanceHandle st
       then ret shareInfo
       else rc_shareUpdateStatus rc (shareInfo\<lparr>sfo_Status := Some \<lparr>st_InstanceHandle = instanceHandle,
              st_CapacityBytes = sh_CapacityBytes share, st_ShareStatus = status, st_Error = st_Error st\<rparr>\<rparr>)))"

fun createAndUpdateShareInfos :: "'w ReconClient \<Rightarrow> Share list \<Rightarrow> share_infos \<Rightarrow> ('w, share_infos) eff" where
  "createAndUpdateShareInfos rc [] shareInfoMap = ret shareInfoMap"
| "createAndUpdateShareInfos rc (share # shares) shareInfoMap =
     (let siName = ShareToShareInfoName (sh_Name share) in
      logged (bind (find_info (sic_Lister (rc_shares rc) siName) (sic_Get (rc_shares rc) siName) (sic_IsNotFound (rc_shares rc)))
                (\<lambda>found. case found of Some si \<Rightarrow> ret si | None \<Rightarrow> recon_createShareInfo rc share))
        (\<lambda>_. createAndUpdateShareInfos rc shares shareInfoMap)
        (\<lambda>shareInfo. logged (maybeUpdateShareInfoStatus rc share shareInfo)
          (\<lambda>_. createAndUpdateShareInfos rc shares (minsert siName shareInfo shareInfoMap))
          (\<lambda>shareInfo'. createAndUpdateShareInfos rc shares (minsert siName shareInfo' shareInfoMap))))"

definition reconstructInstanceInfo :: "'w ReconClient \<Rightarrow> string \<Rightarrow> MultishareInstance \<Rightarrow> ('w, InstanceInfo) eff" where
  "reconstructInstanceInfo rc iiName instance = rc_instanceCreate rc
     \<lparr>ifo_Name = iiName, ifo_Finalizers = [FilestoreResourceCleanupFinalizer],
      ifo_Labels = [(ParamMultishareInstanceScLabel, mget (mi_Labels instance) ParamMultishareInstanceScLabelKey)],
      ifo_Deleted = False, ifo_CapacityBytes = mi_CapacityBytes instance, ifo_StorageClassName = [], ifo_Parameters = [],
      ifo_Status = None\<rparr>"

text \<open>The share names of the status joined with those of the listed shares; the code collects them in
  a map and lists its keys in the order of the range.\<close>

definition all_share_names :: "'w ReconClient \<Rightarrow> InstanceInfo \<Rightarrow> Share list \<Rightarrow> string list" where
  "all_share_names rc instanceInfo shares =
     (let names = remdups (share_names instanceInfo @ map (\<lambda>s. ShareToShareInfoName (sh_Name s)) shares)
      in filter (\<lambda>n. n \<in> set names) (rc_visit rc names))"

definition maybeUpdateInstanceInfoStatus ::
  "'w ReconClient \<Rightarrow> instance_shares \<Rightarrow> MultishareInstance \<Rightarrow> InstanceInfo \<Rightarrow> ('w, InstanceInfo) eff" where
  "maybeUpdateInstanceInfoStatus rc instanceShares instance instanceInfo =
     bind (lift (InstanceStateToCRDStatus (mi_State instance))) (\<lambda>status.
       let st = instance_status instanceInfo;
           shares = (case mlookup instanceShares (uri_or_empty instance) of None \<Rightarrow> [] | Some ss \<Rightarrow> ss);
           shareNamesUpdated = (\<exists>s \<in> set shares. ShareToShareInfoName (sh_Name s) \<notin> set (share_names instanceInfo)) in
       if ifo_Status instanceInfo \<noteq> None \<and> mi_CapacityBytes instance = ist_CapacityBytes st
          \<and> status = ist_InstanceStatus st \<and> mi_CapacityStepSizeGb instance = ist_CapacityStepSizeGb st
          \<and> \<not> shareNamesUpdated
       then ret instanceInfo
       else rc_instanceUpdateStatus rc (instanceInfo\<lparr>ifo_Status := Some
              \<lparr>ist_ShareNames = all_share_names rc instanceInfo shares, ist_CapacityBytes = mi_CapacityBytes instance,
               ist_InstanceStatus = status, ist_CapacityStepSizeGb = mi_CapacityStepSizeGb instance,
               ist_Cidr = ReservedIpRange (mi_Network instance), ist_Error = ist_Error st\<rparr>\<rparr>))"

fun createAndUpdateInstanceInfos ::
  "'w ReconClient \<Rightarrow> instance_shares \<Rightarrow> MultishareInstance list \<Rightarrow> instance_infos \<Rightarrow> ('w, instance_infos) eff" where
  "createAndUpdateInstanceInfos rc instanceShares [] instanceInfoMap = ret instanceInfoMap"
| "createAndUpdateInstanceInfos rc instanceShares (instance # instances) instanceInfoMap =
     (case GenerateMultishareInstanceURI (Some instance) of
        Inl _ \<Rightarrow> createAndUpdateInstanceInfos rc instanceShares instances instanceInfoMap
      | Inr uri \<Rightarrow>
          (let iiName = InstanceURIToInstanceInfoName uri in
           logged (bind (find_info (rc_instanceLister rc iiName) (rc_instanceGet rc iiName) (sic_IsNotFound (rc_shares rc)))
                     (\<lambda>found. case found of Some ii \<Rightarrow> ret ii | None \<Rightarrow> reconstructInstanceInfo rc iiName instance))
             (\<lambda>_. createAndUpdateInstanceInfos rc instanceShares instances instanceInfoMap)
             (\<lambda>instanceInfo. logged (maybeUpdateInstanceInfoStatus rc instanceShares instance instanceInfo)
               (\<lambda>_. createAndUpdateInstanceInfos rc instanceShares instances (minsert uri instanceInfo instanceInfoMap))
               (\<lambda>instanceInfo'. createAndUpdateInstanceInfos rc instanceShares instances
                  (minsert uri instanceInfo' instanceInfoMap)))))"

text \<open>None: the finalizer is removed and the object gone.\<close>

definition maybeRemoveInstanceInfoFinalizer :: "'w ReconClient \<Rightarrow> InstanceInfo \<Rightarrow> ('w, InstanceInfo option) eff" where
  "maybeRemoveInstanceInfoFinalizer rc instanceInfo =
     (if \<not> ifo_Deleted instanceInfo \<or> ifo_Status instanceInfo = None then ret (Some instanceInfo)
      else if length (ifo_Finalizers instanceInfo) \<noteq> 1
      then fail (ErrText (''InstanceInfo '' @ quote (ifo_Name instanceInfo) @ '' does not have exactly 1 Finalizer as expected, got ''
             @ ''['' @ join '' '' (ifo_Finalizers instanceInfo) @ '']''))
      else bind (rc_instanceUpdate rc (instanceInfo\<lparr>ifo_Finalizers := []\<rparr>)) (\<lambda>_. ret None))"

section \<open>Assignment of shares to instances\<close>

fun storage_class_loop :: "string \<Rightarrow> StorageClass list \<Rightarrow> go_error + StorageClass" where
  "storage_class_loop scTag [] = Inl (ErrText (''no storageclass match storageClassTag '' @ quote scTag))"
| "storage_class_loop scTag (sc # scs) =
     (if mget (sc_Parameters sc) ParamMultishareInstanceScLabel = scTag then Inr sc else storage_class_loop scTag scs)"

definition storageClassFromTag :: "'w ReconClient \<Rightarrow> string \<Rightarrow> ('w, StorageClass) eff" where
  "storageClassFromTag rc scTag =
     (if scTag = [] then fail (ErrText ''storageClassTag cannot be empty'')
      else bind (rc_scList rc) (\<lambda>storageClasses. lift (storage_class_loop scTag storageClasses)))"

definition generateInstanceInfo :: "'w ReconClient \<Rightarrow> string \<Rightarrow> string \<Rightarrow> labels \<Rightarrow> ('w, InstanceInfo) eff" where
  "generateInstanceInfo rc uri scTag shareParams = bind (storageClassFromTag rc scTag) (\<lambda>storageClass.
     rc_instanceCreate rc
       \<lparr>ifo_Name = InstanceURIToInstanceInfoName uri, ifo_Finalizers = [FilestoreResourceCleanupFinalizer],
        ifo_Labels = [(ParamMultishareInstanceScLabel, mget (sc_Parameters storageClass) ParamMultishareInstanceScLabel)],
        ifo_Deleted = False, ifo_CapacityBytes = MinMultishareInstanceSizeBytes, ifo_StorageClassName = sc_Name storageClass,
        ifo_Parameters = shareParams, ifo_Status = None\<rparr>)"

definition assignShareToInstanceInfo :: "'w ReconClient \<Rightarrow> InstanceInfo \<Rightarrow> string \<Rightarrow> ('w, InstanceInfo) eff" where
  "assignShareToInstanceInfo rc instanceInfo shareName =
     (let st = instance_status instanceInfo in
      if shareName \<in> set (ist_ShareNames st) then ret instanceInfo
      else rc_instanceUpdateStatus rc (instanceInfo\<lparr>ifo_Status := Some (st\<lparr>ist_ShareNames := ist_ShareNames st @ [shareName]\<rparr>)\<rparr>))"

definition assignInstanceToShareInfo :: "'w ReconClient \<Rightarrow> ShareInfo \<Rightarrow> string \<Rightarrow> ('w, ShareInfo) eff" where
  "assignInstanceToShareInfo rc shareInfo uri =
     rc_shareUpdateStatus rc (shareInfo\<lparr>sfo_Status := Some ((share_status shareInfo)\<lparr>st_InstanceHandle := uri\<rparr>)\<rparr>)"

text \<open>The object without the share, and whether it changed\<close>

definition removeShareFromInstanceInfo :: "InstanceInfo \<Rightarrow> string \<Rightarrow> InstanceInfo \<times> bool" where
  "removeShareFromInstanceInfo instanceInfo shareName = (case ifo_Status instanceInfo of
       None \<Rightarrow> (instanceInfo, False)
     | Some st \<Rightarrow>
         if shareName \<in> set (ist_ShareNames st)
         then (instanceInfo\<lparr>ifo_Status := Some (st\<lparr>ist_ShareNames := filter (\<lambda>n. n \<noteq> shareName) (ist_ShareNames st)\<rparr>)\<rparr>, True)
         else (instanceInfo, False))"

text \<open>The instance a share points to, created when it has no object\<close>

definition actual_assigned :: "'w ReconClient \<Rightarrow> string \<Rightarrow> ShareInfo \<Rightarrow> instance_infos \<Rightarrow> ('w, InstanceInfo) eff" where
  "actual_assigned rc shareName shareInfo instanceInfos =
     bind (case mlookup instanceInfos (handle_of shareInfo) of
             Some ii \<Rightarrow> ret ii
           | None \<Rightarrow> generateInstanceInfo rc (handle_of shareInfo) (sfo_InstancePoolTag shareInfo) (sfo_Parameters shareInfo))
       (\<lambda>ii. assignShareToInstanceInfo rc ii shareName)"

text \<open>The loop of \<open>fixTwoWayPointers\<close> over the share names of one instance: the two maps, the clone of
  the InstanceInfo and the flag\<close>

fun fix_shares ::
  "'w ReconClient \<Rightarrow> string \<Rightarrow> string list \<Rightarrow> share_infos \<Rightarrow> instance_infos \<Rightarrow> InstanceInfo \<Rightarrow> bool
     \<Rightarrow> ('w, share_infos \<times> instance_infos \<times> InstanceInfo \<times> bool) eff" where
  "fix_shares rc uri [] S I clone updated = ret (S, I, clone, updated)"
| "fix_shares rc uri (shareName # names) S I clone updated = (case mlookup S shareName of
       None \<Rightarrow> fix_shares rc uri names S I clone updated
     | Some shareInfo \<Rightarrow>
         if handle_of shareInfo = [] then
           logged (assignInstanceToShareInfo rc shareInfo uri)
             (\<lambda>_. fix_shares rc uri names S I clone updated)
             (\<lambda>si. fix_shares rc uri names (minsert shareName si S) I clone updated)
         else if handle_of shareInfo \<noteq> uri then
           (let removed = removeShareFromInstanceInfo clone shareName in
            if sfo_Deleted shareInfo
            then fix_shares rc uri names S I (fst removed) (snd removed)
            else logged (actual_assigned rc shareName shareInfo I)
              (\<lambda>_. fix_shares rc uri names S I clone updated)
              (\<lambda>ii. fix_shares rc uri names S (minsert (handle_of shareInfo) ii I) (fst removed) (snd removed)))
         else fix_shares rc uri names S I clone updated)"

fun fix_instances :: "'w ReconClient \<Rightarrow> string list \<Rightarrow> share_infos \<Rightarrow> instance_infos \<Rightarrow> ('w, share_infos \<times> instance_infos) eff" where
  "fix_instances rc [] S I = ret (S, I)"
| "fix_instances rc (k # ks) S I = (case mlookup I k of
       None \<Rightarrow> fix_instances rc ks S I
     | Some instanceInfo \<Rightarrow>
         if ifo_Status instanceInfo = None then fix_instances rc ks S I
         else let uri = InstanceInfoNameToInstanceURI (ifo_Name instanceInfo) in
           bind (fix_shares rc uri (share_names instanceInfo) S I instanceInfo False) (\<lambda>(S', I', clone, updated).
             if \<not> updated then fix_instances rc ks S' I'
             else logged (rc_instanceUpdateStatus rc clone)
               (\<lambda>_. fix_instances rc ks S' I')
               (\<lambda>ii. fix_instances rc ks S' (minsert uri ii I'))))"

definition fixTwoWayPointers :: "'w ReconClient \<Rightarrow> share_infos \<Rightarrow> instance_infos \<Rightarrow> ('w, share_infos \<times> instance_infos) eff" where
  "fixTwoWayPointers rc S I = fix_instances rc (rc_visit rc (keys I)) S I"

definition parseMaxSharePerInstance :: "'ts externals \<Rightarrow> config \<Rightarrow> labels \<Rightarrow> int" where
  "parseMaxSharePerInstance ext cfg params =
     (case parseMaxVolumeSizeParam (\<lambda>v. map_err ErrText (ext_parseQuantity ext v)) (cfg_maxSharesPerInstance cfg) params of
        Inl _ \<Rightarrow> int MaxSharesPerInstance
      | Inr (n, _) \<Rightarrow> if n = 0 then int MaxSharesPerInstance else n)"

definition instanceFitShare :: "'ts externals \<Rightarrow> config \<Rightarrow> InstanceInfo \<Rightarrow> ShareInfo \<Rightarrow> bool" where
  "instanceFitShare ext cfg instanceInfo shareInfo =
     (if ifo_Deleted instanceInfo
         \<or> mget (ifo_Labels instanceInfo) ParamMultishareInstanceScLabel \<noteq> sfo_InstancePoolTag shareInfo then False
      else case ifo_Status instanceInfo of
        None \<Rightarrow> True
      | Some st \<Rightarrow> int (length (ist_ShareNames st)) < parseMaxSharePerInstance ext cfg (ifo_Parameters instanceInfo)
          \<and> ist_InstanceStatus st \<noteq> UPDATING)"

text \<open>The inner loop over the instances: the URI of the last instance tried (empty when none fits),
  whether the last try failed, and the map. The loop stops at the first success.\<close>

fun pick_instance ::
  "'ts externals \<Rightarrow> config \<Rightarrow> 'w ReconClient \<Rightarrow> ShareInfo \<Rightarrow> instance_infos \<Rightarrow> string list \<Rightarrow> string \<Rightarrow> bool
     \<Rightarrow> ('w, string \<times> bool \<times> instance_infos) eff" where
  "pick_instance ext cfg rc shareInfo I [] uri failed = ret (uri, failed, I)"
| "pick_instance ext cfg rc shareInfo I (k # ks) uri failed = (case mlookup I k of
       None \<Rightarrow> pick_instance ext cfg rc shareInfo I ks uri failed
     | Some instanceInfo \<Rightarrow>
         if instanceFitShare ext cfg instanceInfo shareInfo then
           (let uri' = InstanceInfoNameToInstanceURI (ifo_Name instanceInfo) in
            logged (assignShareToInstanceInfo rc instanceInfo (sfo_Name shareInfo))
              (\<lambda>_. pick_instance ext cfg rc shareInfo I ks uri' True)
              (\<lambda>ii. ret (uri', False, minsert uri' ii I)))
         else pick_instance ext cfg rc shareInfo I ks uri failed)"

text \<open>A new instance for a share that fits in none; None when its object cannot be made or updated.\<close>

definition new_instance_for :: "config \<Rightarrow> 'w ReconClient \<Rightarrow> ShareInfo \<Rightarrow> ('w, (string \<times> InstanceInfo) option) eff" where
  "new_instance_for cfg rc shareInfo = bind (rc_uuid rc) (\<lambda>uuid.
     let uri = uri_or_empty (empty_instance\<lparr>mi_Project := cfg_Project cfg, mi_Location := sfo_Region shareInfo,
           mi_Name := ''fs-'' @ uuid\<rparr>) in
     logged (bind (generateInstanceInfo rc uri (sfo_InstancePoolTag shareInfo) (sfo_Parameters shareInfo))
               (\<lambda>ii. assignShareToInstanceInfo rc ii (sfo_Name shareInfo)))
       (\<lambda>_. ret None) (\<lambda>ii. ret (Some (uri, ii))))"

definition assign_share ::
  "'ts externals \<Rightarrow> config \<Rightarrow> 'w ReconClient \<Rightarrow> ShareInfo \<Rightarrow> share_infos \<Rightarrow> instance_infos \<Rightarrow> ('w, share_infos \<times> instance_infos) eff" where
  "assign_share ext cfg rc shareInfo S I =
     (if handle_of shareInfo \<noteq> [] \<or> sfo_Deleted shareInfo \<or> sfo_InstancePoolTag shareInfo = [] then ret (S, I)
      else
        let point = (\<lambda>uri I'. logged (assignInstanceToShareInfo rc shareInfo uri)
              (\<lambda>_. ret (S, I')) (\<lambda>si. ret (minsert (sfo_Name si) si S, I'))) in
        bind (pick_instance ext cfg rc shareInfo I (rc_visit rc (keys I)) [] False) (\<lambda>(uri, failed, I').
          if failed then ret (S, I')
          else if uri \<noteq> [] then point uri I'
          else bind (new_instance_for cfg rc shareInfo) (\<lambda>new. case new of
              None \<Rightarrow> ret (S, I')
            | Some (uri', ii) \<Rightarrow> point uri' (minsert uri' ii I'))))"

fun assign_shares ::
  "'ts externals \<Rightarrow> config \<Rightarrow> 'w ReconClient \<Rightarrow> string list \<Rightarrow> share_infos \<Rightarrow> instance_infos \<Rightarrow> ('w, share_infos \<times> instance_infos) eff" where
  "assign_shares ext cfg rc [] S I = ret (S, I)"
| "assign_shares ext cfg rc (k # ks) S I = (case mlookup S k of
       None \<Rightarrow> assign_shares ext cfg rc ks S I
     | Some shareInfo \<Rightarrow> bind (assign_share ext cfg rc shareInfo S I) (\<lambda>(S', I'). assign_shares ext cfg rc ks S' I'))"

definition assignSharesToEligibleOrNewInstances ::
  "'ts externals \<Rightarrow> config \<Rightarrow> 'w ReconClient \<Rightarrow> share_infos \<Rightarrow> instance_infos \<Rightarrow> ('w, share_infos \<times> instance_infos) eff" where
  "assignSharesToEligibleOrNewInstances ext cfg rc S I = assign_shares ext cfg rc (rc_visit rc (keys S)) S I"

section \<open>Capacity and deletion of instances\<close>

fun sum_shares :: "'w ReconClient \<Rightarrow> string list \<Rightarrow> int \<Rightarrow> ('w, int) eff" where
  "sum_shares rc [] total_bytes = ret total_bytes"
| "sum_shares rc (shareName # names) total_bytes = logged (sic_Lister (rc_shares rc) shareName)
     (\<lambda>_. sum_shares rc names total_bytes)
     (\<lambda>si. sum_shares rc names (i64 (total_bytes + sfo_CapacityBytes si)))"

definition target_capacity :: "int \<Rightarrow> int \<Rightarrow> int" where
  "target_capacity capacityStepSizeGb shareBytes =
     (let stepSizeGb = (if capacityStepSizeGb \<noteq> 0 then capacityStepSizeGb else DefaultStepSizeGb) in
      Util.Min (Util.Max (AlignBytes shareBytes (GbToBytes stepSizeGb)) MinMultishareInstanceSizeBytes)
        MaxMultishareInstanceSizeBytes)"

definition instanceInfoNewCapacity :: "'w ReconClient \<Rightarrow> InstanceInfo \<Rightarrow> ('w, InstanceInfo \<times> bool) eff" where
  "instanceInfoNewCapacity rc ii =
     (if share_names ii = [] then ret (ii, False)
      else bind (sum_shares rc (share_names ii) 0) (\<lambda>shareBytes.
        let target = target_capacity (ist_CapacityStepSizeGb (instance_status ii)) shareBytes in
        if target = ifo_CapacityBytes ii then ret (ii, False) else ret (ii\<lparr>ifo_CapacityBytes := target\<rparr>, True)))"

definition instanceEmpty :: "InstanceInfo \<Rightarrow> bool" where
  "instanceEmpty ii = (case ifo_Status ii of None \<Rightarrow> False | Some st \<Rightarrow> ist_ShareNames st = [])"

definition deleteInstanceInfo :: "'w ReconClient \<Rightarrow> InstanceInfo \<Rightarrow> ('w, unit) eff" where
  "deleteInstanceInfo rc ii =
     (if length (ifo_Finalizers ii) = 0 then fail (ErrText ''Need to have finalizer to prevent auto gc of instanceInfo object'')
      else rc_instanceDelete rc (ifo_Name ii))"

definition delete_or_resize :: "'w ReconClient \<Rightarrow> string \<Rightarrow> InstanceInfo \<Rightarrow> instance_infos \<Rightarrow> ('w, instance_infos) eff" where
  "delete_or_resize rc uri ii I =
     (if ifo_Deleted ii then ret I
      else if instanceEmpty ii then logged (deleteInstanceInfo rc ii) (\<lambda>_. ret I) (\<lambda>_. ret I)
      else bind (instanceInfoNewCapacity rc ii) (\<lambda>(clone, updated).
        if \<not> updated then ret I
        else logged (rc_instanceUpdate rc clone) (\<lambda>_. ret I) (\<lambda>ii'. ret (minsert uri ii' I))))"

fun delete_or_resize_loop :: "'w ReconClient \<Rightarrow> string list \<Rightarrow> instance_infos \<Rightarrow> ('w, instance_infos) eff" where
  "delete_or_resize_loop rc [] I = ret I"
| "delete_or_resize_loop rc (k # ks) I = (case mlookup I k of
       None \<Rightarrow> delete_or_resize_loop rc ks I
     | Some ii \<Rightarrow> bind (delete_or_resize rc k ii I) (delete_or_resize_loop rc ks))"

definition deleteOrResizeInstances :: "'w ReconClient \<Rightarrow> instance_infos \<Rightarrow> ('w, instance_infos) eff" where
  "deleteOrResizeInstances rc I = delete_or_resize_loop rc (rc_visit rc (keys I)) I"

definition assignSharesToInstances ::
  "'ts externals \<Rightarrow> config \<Rightarrow> 'w ReconClient \<Rightarrow> share_infos \<Rightarrow> instance_infos \<Rightarrow> ('w, share_infos \<times> instance_infos) eff" where
  "assignSharesToInstances ext cfg rc S0 I0 =
     bind (fixTwoWayPointers rc S0 I0) (\<lambda>(S1, I1).
     bind (assignSharesToEligibleOrNewInstances ext cfg rc S1 I1) (\<lambda>(S2, I2).
     bind (deleteOrResizeInstances rc I2) (\<lambda>I3. ret (S2, I3))))"

section \<open>Operations\<close>

record ReconOp =
  ro_Id :: string
  ro_Type :: OperationType
  ro_Target :: string
  ro_Err :: "go_error option"

text \<open>\<open>codes.Code\<close> of a number: the seventeen codes of gRPC, None for the others\<close>

definition code_of_int :: "int \<Rightarrow> code option" where
  "code_of_int n = map_of (zip (map int [0..<17]) [OK, Canceled, Unknown, InvalidArgument, DeadlineExceeded, NotFound,
     AlreadyExists, PermissionDenied, ResourceExhausted, FailedPrecondition, Aborted, OutOfRange, Unimplemented,
     Internal, Unavailable, DataLoss, Unauthenticated]) n"

text \<open>\<open>status.Error\<close> on a number and a text; nil for the number of OK\<close>

definition status_error :: "int \<times> string \<Rightarrow> go_error option" where
  "status_error = (\<lambda>(n, msg). case code_of_int n of
       Some c \<Rightarrow> status_err c msg
     | None \<Rightarrow> Some (ErrText (''rpc error: code = Code('' @ show_int n @ '') desc = '' @ msg)))"

definition op_err :: "Operation \<Rightarrow> go_error option" where
  "op_err op = (if op_Done op then (case op_Error op of None \<Rightarrow> None | Some e \<Rightarrow> status_error e) else None)"

fun recon_ops :: "(string \<Rightarrow> bool) \<Rightarrow> Operation list \<Rightarrow> ReconOp list" where
  "recon_ops old [] = []"
| "recon_ops old (op # ops) =
     (if op_Done op \<and> op_Error op = None then recon_ops old ops
      else (case op_Meta op of
        Some (Inr (target, verb)) \<Rightarrow>
          if op_Done op \<and> old (op_CreateTime op) then recon_ops old ops
          else if IsInstanceTarget target
          then \<lparr>ro_Id = op_Name op, ro_Type = ConvertInstanceOpVerbToType verb, ro_Target = target, ro_Err = op_err op\<rparr>
               # recon_ops old ops
          else if IsShareTarget target
          then \<lparr>ro_Id = op_Name op, ro_Type = ConvertShareOpVerbToType verb, ro_Target = target, ro_Err = op_err op\<rparr>
               # recon_ops old ops
          else recon_ops old ops
      | _ \<Rightarrow> recon_ops old ops))"

definition listMultishareResourceOps :: "config \<Rightarrow> 'w Service \<Rightarrow> 'w ReconClient \<Rightarrow> ('w, ReconOp list) eff" where
  "listMultishareResourceOps cfg svc rc =
     bind (svc_ListOps svc \<lparr>lf_Project = cfg_Project cfg, lf_Location = ''-'', lf_InstanceName = []\<rparr>)
       (\<lambda>ops. ret (recon_ops (rc_old rc) ops))"

text \<open>The first running operation on the target, and the error of the last failed one before it\<close>

fun running_op :: "string \<Rightarrow> ReconOp list \<Rightarrow> go_error option \<Rightarrow> ReconOp option \<times> go_error option" where
  "running_op targetURI [] err = (None, err)"
| "running_op targetURI (op # ops) err =
     (if ro_Target op = targetURI
      then (case ro_Err op of Some e \<Rightarrow> running_op targetURI ops (Some e) | None \<Rightarrow> (Some op, err))
      else running_op targetURI ops err)"

definition runningOpMaybeErrForTarget :: "string \<Rightarrow> ReconOp list \<Rightarrow> ReconOp option \<times> go_error option" where
  "runningOpMaybeErrForTarget targetURI ops = running_op targetURI ops None"

definition when_err :: "go_error option \<Rightarrow> (go_error \<Rightarrow> ('w, unit) eff) \<Rightarrow> ('w, unit) eff" where
  "when_err oe f = (case oe of None \<Rightarrow> ret () | Some e \<Rightarrow> f e)"

text \<open>The error of a call as a value, with a panic going through\<close>

definition error_of :: "('w, 'a) eff \<Rightarrow> ('w, go_error option) eff" where
  "error_of m = logged m (\<lambda>e. ret (Some e)) (\<lambda>_. ret None)"

section \<open>Requests for shares\<close>

definition shareExist :: "ShareInfo \<Rightarrow> instance_shares \<Rightarrow> bool" where
  "shareExist si instanceShares = (sfo_Status si \<noteq> None \<and>
     (case mlookup instanceShares (handle_of si) of
        None \<Rightarrow> False
      | Some shares \<Rightarrow> (\<exists>s \<in> set shares. sh_Name s = sfo_ShareName si)))"

text \<open>First the share is taken out of its instance, and only then marked as deleted.\<close>

definition maybeMarkShareInfoStatusDeleted :: "'w ReconClient \<Rightarrow> ShareInfo \<Rightarrow> InstanceInfo option \<Rightarrow> ('w, InstanceInfo) eff" where
  "maybeMarkShareInfoStatusDeleted rc si instanceInfo = (case instanceInfo of
       None \<Rightarrow> fail (ErrText (''instanceInfo does not exist for shareInfo '' @ sfo_Name si @ '' which is assigned to '' @ quote (handle_of si)))
     | Some ii \<Rightarrow>
         (let (clone, updated) = removeShareFromInstanceInfo ii (sfo_Name si) in
          bind_err (\<lambda>e. ErrText (''failed to remove share form instanceInfo Status: '' @ error_text e))
            (if updated then rc_instanceUpdateStatus rc clone else ret clone) (\<lambda>ii'.
          bind_err (\<lambda>e. ErrText (''failed to update '' @ sfo_Name si @ ''.Status.ShareStatus to DELETED: '' @ error_text e))
            (rc_shareUpdateStatus rc (si\<lparr>sfo_Status := Some ((share_status si)\<lparr>st_ShareStatus := DELETED\<rparr>)\<rparr>)) (\<lambda>_. ret ii'))))"

definition instance_ready :: "InstanceInfo \<Rightarrow> bool" where
  "instance_ready ii = (case ifo_Status ii of
       None \<Rightarrow> False
     | Some st \<Rightarrow> ist_InstanceStatus st = READY \<and> ifo_CapacityBytes ii \<le> ist_CapacityBytes st)"

definition share_of_info :: "ShareInfo \<Rightarrow> string \<times> string \<times> string \<Rightarrow> Share" where
  "share_of_info si = (\<lambda>(project, region, nm). empty_share\<lparr>sh_Name := sfo_ShareName si,
     sh_Parent := Some (empty_instance\<lparr>mi_Project := project, mi_Location := region, mi_Name := nm\<rparr>),
     sh_CapacityBytes := sfo_CapacityBytes si, sh_MountPointName := sfo_ShareName si, sh_Labels := sfo_Labels si\<rparr>)"

definition start_share_op :: "'w Service \<Rightarrow> ShareInfo \<Rightarrow> Share \<Rightarrow> go_error option \<Rightarrow> ('w, go_error option) eff" where
  "start_share_op svc si share err =
     (if sfo_Deleted si then error_of (svc_StartDeleteShareOp svc share)
      else if st_ShareStatus (share_status si) \<noteq> READY then error_of (svc_StartCreateShareOp svc share)
      else if st_CapacityBytes (share_status si) \<noteq> 0 \<and> sfo_CapacityBytes si \<noteq> st_CapacityBytes (share_status si)
      then error_of (svc_StartResizeShareOp svc share)
      else ret err)"

text \<open>An error of \<open>GenerateShareURI\<close> is logged and the empty URI used; it is then overwritten by the
  result of \<open>runningOpMaybeErrForTarget\<close>.\<close>

definition request_share :: "'w Service \<Rightarrow> 'w ReconClient \<Rightarrow> ReconOp list \<Rightarrow> ShareInfo \<Rightarrow> InstanceInfo \<Rightarrow> ('w, unit) eff" where
  "request_share svc rc ops si assigned =
     (if \<not> instance_ready assigned
      then (if ifo_Status assigned \<noteq> None \<and> ist_Error (instance_status assigned) \<noteq> []
            then updateShareInfoErr rc si (ErrText (ist_Error (instance_status assigned))) else ret ())
      else (case ParseInstanceURI (handle_of si) of
        Inl _ \<Rightarrow> ret ()
      | Inr parts \<Rightarrow>
          (let share = share_of_info si parts;
               shareURI = (case GenerateShareURI (Some share) of Inl _ \<Rightarrow> [] | Inr u \<Rightarrow> u);
               (op, err) = runningOpMaybeErrForTarget shareURI ops in
           bind (when_err err (updateShareInfoErr rc si)) (\<lambda>_.
           bind (if op = None then start_share_op svc si share err else ret err) (\<lambda>err'.
             when_err err' (updateShareInfoErr rc si))))))"

definition send_share :: "'w Service \<Rightarrow> 'w ReconClient \<Rightarrow> instance_shares \<Rightarrow> ReconOp list \<Rightarrow> ShareInfo \<Rightarrow> instance_infos \<Rightarrow> ('w, instance_infos) eff" where
  "send_share svc rc instanceShares ops si I =
     (let skip = ret I;
          request = (if sfo_Status si = None \<or> handle_of si = [] then skip
            else if \<not> sfo_Deleted si \<and> sfo_CapacityBytes si = st_CapacityBytes (share_status si) then skip
            else (case mlookup I (handle_of si) of
              None \<Rightarrow> skip
            | Some assigned \<Rightarrow> bind (request_share svc rc ops si assigned) (\<lambda>_. ret I))) in
      if sfo_Deleted si then
        (if sfo_Status si = None \<or> st_ShareStatus (share_status si) = DELETED then skip
         else if \<not> shareExist si instanceShares
         then logged (maybeMarkShareInfoStatusDeleted rc si (mlookup I (handle_of si)))
                (\<lambda>_. ret I) (\<lambda>ii. ret (minsert (handle_of si) ii I))
         else request)
      else request)"

fun send_shares ::
  "'w Service \<Rightarrow> 'w ReconClient \<Rightarrow> instance_shares \<Rightarrow> ReconOp list \<Rightarrow> share_infos \<Rightarrow> string list \<Rightarrow> instance_infos \<Rightarrow> ('w, instance_infos) eff" where
  "send_shares svc rc instanceShares ops S [] I = ret I"
| "send_shares svc rc instanceShares ops S (k # ks) I = (case mlookup S k of
       None \<Rightarrow> send_shares svc rc instanceShares ops S ks I
     | Some si \<Rightarrow> bind (send_share svc rc instanceShares ops si I) (send_shares svc rc instanceShares ops S ks))"

definition sendShareRequests ::
  "'w Service \<Rightarrow> 'w ReconClient \<Rightarrow> instance_infos \<Rightarrow> share_infos \<Rightarrow> instance_shares \<Rightarrow> ReconOp list \<Rightarrow> ('w, instance_infos) eff" where
  "sendShareRequests svc rc I S instanceShares ops = send_shares svc rc instanceShares ops S (rc_visit rc (keys S)) I"

section \<open>Requests for instances\<close>

definition parsed_instance_name :: "InstanceInfo \<Rightarrow> go_error + string \<times> string \<times> string" where
  "parsed_instance_name ii =
     (let uri = InstanceInfoNameToInstanceURI (ifo_Name ii) in
      map_err (\<lambda>e. ErrText (''failed to parse instanceURI '' @ quote uri @ '': '' @ error_text e)) (ParseInstanceURI uri))"

definition basicMultishareInstanceFromInstanceInfo :: "InstanceInfo \<Rightarrow> go_error + MultishareInstance" where
  "basicMultishareInstanceFromInstanceInfo ii = rbind (parsed_instance_name ii) (\<lambda>(project, region, nm).
     Inr (empty_instance\<lparr>mi_Project := project, mi_Name := nm, mi_CapacityBytes := ifo_CapacityBytes ii,
       mi_Location := region, mi_Tier := ''enterprise''\<rparr>))"

text \<open>The parameters of the storage class: network, connect mode and key. A key the loop does not know
  is logged and ignored.\<close>

fun recon_params :: "labels \<Rightarrow> string \<times> string \<times> string \<Rightarrow> go_error + string \<times> string \<times> string" where
  "recon_params [] acc = Inr acc"
| "recon_params ((k, v) # ps) (network, connectMode, kmsKeyName) =
     (let key = toLower k in
      if key = ''network'' then recon_params ps (v, connectMode, kmsKeyName)
      else if key = ParamConnectMode then
        if v \<noteq> directPeering \<and> v \<noteq> privateServiceAccess then Inl (StatusErr InvalidArgument bad_connect_mode)
        else recon_params ps (network, v, kmsKeyName)
      else if key = ParamInstanceEncryptionKmsKey then recon_params ps (network, connectMode, v)
      else recon_params ps (network, connectMode, kmsKeyName))"

text \<open>\<open>generateNewMultishareInstance\<close> of the reconciler, up to the reservation of a range\<close>

definition recon_instance ::
  "'ts externals \<Rightarrow> config \<Rightarrow> InstanceInfo \<Rightarrow> string \<times> string \<times> string \<Rightarrow> labels \<Rightarrow> go_error + MultishareInstance" where
  "recon_instance ext cfg ii = (\<lambda>(project, region, nm) params.
     rbind (recon_params params (''default'', directPeering, [])) (\<lambda>(network, connectMode, kmsKeyName).
     rbind (map_err (\<lambda>e. StatusErr Internal (error_text e)) (cluster_location cfg)) (\<lambda>clusterLocation.
     rbind (map_err (status_of InvalidArgument) (extractInstanceLabels params (cfg_extraVolumeLabels cfg) (cfg_Name cfg)
            (cfg_clusterName cfg) clusterLocation)) (\<lambda>lbls.
       Inr (empty_instance\<lparr>mi_Project := project, mi_Name := nm, mi_CapacityBytes := ifo_CapacityBytes ii,
         mi_Location := region, mi_Tier := ''enterprise'',
         mi_Network := \<lparr>net_Name = network, ConnectMode = connectMode, ReservedIpRange = [], Ip = []\<rparr>,
         mi_KmsKeyName := kmsKeyName, mi_Labels := lbls,
         mi_Description := generateInstanceDescFromEcfsDesc (cfg_ecfsDescription cfg),
         mi_MaxShareCount := (if cfg_maxSharesPerInstance cfg then parseMaxSharePerInstance ext cfg (ifo_Parameters ii) else 0)\<rparr>)))))"

definition with_range :: "string \<Rightarrow> MultishareInstance \<Rightarrow> MultishareInstance" where
  "with_range r i = i\<lparr>mi_Network := (mi_Network i)\<lparr>ReservedIpRange := r\<rparr>\<rparr>"

text \<open>A range the status already has is used again; otherwise one is reserved.\<close>

definition recon_reserve ::
  "'w Service \<Rightarrow> InstanceInfo \<Rightarrow> labels \<Rightarrow> MultishareInstance \<Rightarrow> ('w driver, MultishareInstance) eff" where
  "recon_reserve svc ii params i =
     (if ConnectMode (mi_Network i) = privateServiceAccess
      then (case mlookup params ParamReservedIPRange of
          None \<Rightarrow> ret i
        | Some r \<Rightarrow> if IsCIDR r
            then fail (StatusErr InvalidArgument ''When using connect mode PRIVATE_SERVICE_ACCESS, if reserved IP range is specified, it must be a named address range instead of direct CIDR value'')
            else ret (with_range r i))
      else (case mlookup params ParamReservedIPV4CIDR of
          None \<Rightarrow> ret i
        | Some cidr \<Rightarrow>
            if ist_Cidr (instance_status ii) \<noteq> [] then ret (with_range (ist_Cidr (instance_status ii)) i)
            else bind (reserveIPRange svc (as_service_instance i) cidr) (\<lambda>r. ret (with_range r i))))"

definition recon_generateNewMultishareInstance ::
  "'ts externals \<Rightarrow> config \<Rightarrow> 'w Service \<Rightarrow> 'w ReconClient \<Rightarrow> InstanceInfo \<Rightarrow> ('w driver, MultishareInstance) eff" where
  "recon_generateNewMultishareInstance ext cfg svc rc ii =
     bind (lift (parsed_instance_name ii)) (\<lambda>parts.
     bind_err (\<lambda>e. StatusErr InvalidArgument (''failed to get storageClass '' @ quote (ifo_StorageClassName ii) @ '' : '' @ error_text e))
       (on_world (rc_scGet rc (ifo_StorageClassName ii))) (\<lambda>storageClass.
     bind (lift (recon_instance ext cfg ii parts (sc_Parameters storageClass))) (\<lambda>i.
       recon_reserve svc ii (sc_Parameters storageClass) i)))"

definition instance_settled :: "InstanceInfo \<Rightarrow> bool" where
  "instance_settled ii = (case ifo_Status ii of
       None \<Rightarrow> False
     | Some st \<Rightarrow> ifo_CapacityBytes ii = ist_CapacityBytes st \<and> ist_InstanceStatus st \<in> {READY, UPDATING})"

definition instance_absent :: "InstanceInfo \<Rightarrow> bool" where
  "instance_absent ii = (ifo_Status ii = None \<or> ist_InstanceStatus (instance_status ii) \<notin> {READY, UPDATING})"

text \<open>What is started for an instance without a running operation: the error of the start and the
  range to release when all requests are sent. None: the instance could not be generated, and the
  loop goes on without recording an error.\<close>

definition start_instance_op ::
  "'ts externals \<Rightarrow> config \<Rightarrow> 'w Service \<Rightarrow> 'w ReconClient \<Rightarrow> InstanceInfo \<Rightarrow> ('w driver, (go_error option \<times> string list) option) eff" where
  "start_instance_op ext cfg svc rc ii = (case basicMultishareInstanceFromInstanceInfo ii of
       Inl _ \<Rightarrow> ret None
     | Inr i \<Rightarrow>
         if ifo_Deleted ii
         then bind (on_world (error_of (svc_StartDeleteMultishareInstanceOp svc i))) (\<lambda>e. ret (Some (e, [])))
         else if instance_absent ii then
           logged (recon_generateNewMultishareInstance ext cfg svc rc ii) (\<lambda>_. ret None)
             (\<lambda>i'. bind (on_world (error_of (svc_StartCreateMultishareInstanceOp svc i')))
                (\<lambda>e. ret (Some (e, [ReservedIpRange (mi_Network i')]))))
         else if ist_CapacityBytes (instance_status ii) \<noteq> 0 \<and> ifo_CapacityBytes ii \<noteq> ist_CapacityBytes (instance_status ii)
         then bind (on_world (error_of (svc_StartResizeMultishareInstanceOp svc i))) (\<lambda>e. ret (Some (e, [])))
         else ret (Some (None, [])))"

definition send_instance ::
  "'ts externals \<Rightarrow> config \<Rightarrow> 'w Service \<Rightarrow> 'w ReconClient \<Rightarrow> ReconOp list \<Rightarrow> InstanceInfo \<Rightarrow> ('w driver, string list) eff" where
  "send_instance ext cfg svc rc ops ii =
     (if \<not> ifo_Deleted ii \<and> instance_settled ii then ret []
      else let (op, err) = runningOpMaybeErrForTarget (InstanceInfoNameToInstanceURI (ifo_Name ii)) ops in
        bind (when_err err (\<lambda>e. on_world (updateInstanceInfoErr rc ii e))) (\<lambda>_.
        bind (if op = None then start_instance_op ext cfg svc rc ii else ret (Some (err, []))) (\<lambda>r. case r of
            None \<Rightarrow> ret []
          | Some (err', ranges) \<Rightarrow> bind (when_err err' (\<lambda>e. on_world (updateInstanceInfoErr rc ii e))) (\<lambda>_. ret ranges))))"

text \<open>The deferred releases run when the loop is over, the last one first.\<close>

fun send_instances ::
  "'ts externals \<Rightarrow> config \<Rightarrow> 'w Service \<Rightarrow> 'w ReconClient \<Rightarrow> ReconOp list \<Rightarrow> instance_infos \<Rightarrow> string list \<Rightarrow> string list \<Rightarrow> ('w driver, unit) eff" where
  "send_instances ext cfg svc rc ops I [] deferred = (\<lambda>d. (Inr (), fold release_ip deferred d))"
| "send_instances ext cfg svc rc ops I (k # ks) deferred = (case mlookup I k of
       None \<Rightarrow> send_instances ext cfg svc rc ops I ks deferred
     | Some ii \<Rightarrow> bind (send_instance ext cfg svc rc ops ii) (\<lambda>ranges.
         send_instances ext cfg svc rc ops I ks (ranges @ deferred)))"

definition sendInstanceRequests ::
  "'ts externals \<Rightarrow> config \<Rightarrow> 'w Service \<Rightarrow> 'w ReconClient \<Rightarrow> instance_infos \<Rightarrow> ReconOp list \<Rightarrow> ('w driver, unit) eff" where
  "sendInstanceRequests ext cfg svc rc I ops = send_instances ext cfg svc rc ops I (rc_visit rc (keys I)) []"

section \<open>A round\<close>

definition add_listed_shares :: "ShareInfo list \<Rightarrow> share_infos \<Rightarrow> share_infos" where
  "add_listed_shares = fold (\<lambda>si S. if mlookup S (sfo_Name si) = None then minsert (sfo_Name si) si S else S)"

fun add_listed_instances :: "'w ReconClient \<Rightarrow> InstanceInfo list \<Rightarrow> instance_infos \<Rightarrow> ('w, instance_infos) eff" where
  "add_listed_instances rc [] I = ret I"
| "add_listed_instances rc (ii # iis) I =
     (let uri = InstanceInfoNameToInstanceURI (ifo_Name ii) in
      if mlookup I uri \<noteq> None then add_listed_instances rc iis I
      else logged (maybeRemoveInstanceInfoFinalizer rc ii) (\<lambda>_. add_listed_instances rc iis I)
        (\<lambda>r. add_listed_instances rc iis (case r of None \<Rightarrow> I | Some ii' \<Rightarrow> minsert uri ii' I)))"

text \<open>The objects of a round after its first half: None when a listing failed and the round ends.\<close>

definition reconstruct ::
  "config \<Rightarrow> 'w Service \<Rightarrow> 'w ReconClient \<Rightarrow> ('w, share_infos \<times> instance_infos \<times> instance_shares) eff" where
  "reconstruct cfg svc rc =
     bind (svc_ListShares svc \<lparr>lf_Project = cfg_Project cfg, lf_Location = ''-'', lf_InstanceName = ''-''\<rparr>) (\<lambda>shares.
     bind (svc_ListMultishareInstances svc \<lparr>lf_Project = cfg_Project cfg, lf_Location = ''-'', lf_InstanceName = []\<rparr>) (\<lambda>instances.
     bind (lift (managedInstanceAndShare cfg instances shares)) (\<lambda>(managed, managedShares, instanceShares).
     bind (createAndUpdateShareInfos rc managedShares []) (\<lambda>S.
     bind (rc_shareList rc) (\<lambda>shareInfoList.
     bind (createAndUpdateInstanceInfos rc instanceShares managed []) (\<lambda>I.
     bind (rc_instanceList rc) (\<lambda>instanceInfoList.
     bind (add_listed_instances rc instanceInfoList I) (\<lambda>I'.
       ret (add_listed_shares shareInfoList S, I', instanceShares)))))))))"

definition reconcileWorker ::
  "'ts externals \<Rightarrow> config \<Rightarrow> 'w Service \<Rightarrow> 'w ReconClient \<Rightarrow> ('w driver, unit) eff" where
  "reconcileWorker ext cfg svc rc =
     logged (on_world (reconstruct cfg svc rc)) (\<lambda>_. ret ()) (\<lambda>(S, I, instanceShares).
     bind (on_world (assignSharesToInstances ext cfg rc S I)) (\<lambda>(S', I').
     logged (on_world (listMultishareResourceOps cfg svc rc)) (\<lambda>_. ret ()) (\<lambda>ops.
     bind (sendInstanceRequests ext cfg svc rc I' ops) (\<lambda>_.
     bind (on_world (sendShareRequests svc rc I' S' instanceShares ops)) (\<lambda>_. ret ())))))"

end
