(* ===== verification/Reconciler_Pointers.thy ===== *)
theory Reconciler_Pointers
  imports Reconciler
begin

text \<open>
  The two pointers between ShareInfo and InstanceInfo objects: the share names in the status of an
  instance and the instance handle in the status of a share. After \<open>fixTwoWayPointers\<close> they agree,
  when the API server answers.
\<close>

section \<open>Hypotheses\<close>

text \<open>The API server accepts every update and creation and returns the object as it was sent, and
  \<open>uuid\<close> returns.\<close>

definition api_answers :: "'w ReconClient \<Rightarrow> bool" where
  "api_answers rc = ((\<forall>si w. \<exists>w'. rc_shareUpdateStatus rc si w = (Inr si, w'))
     \<and> (\<forall>ii w. \<exists>w'. rc_instanceUpdateStatus rc ii w = (Inr ii, w'))
     \<and> (\<forall>ii w. \<exists>w'. rc_instanceCreate rc ii w = (Inr ii, w')) \<and> (\<forall>w. \<exists>u w'. rc_uuid rc w = (Inr u, w')))"

lemma api_answersD:
  assumes "api_answers rc"
  shows "\<exists>w'. rc_shareUpdateStatus rc si w = (Inr si, w')" "\<exists>w'. rc_instanceUpdateStatus rc ii w = (Inr ii, w')"
    "\<exists>w'. rc_instanceCreate rc ii w = (Inr ii, w')" "\<exists>u w'. rc_uuid rc w = (Inr u, w')"
  using assms by (auto simp: api_answers_def)

text \<open>An instance is found under the URI of its name, has each share name once, and has a name; the
  instance a share points to has an object or a storage class to make one from, and its URI survives
  the way through the name of the object.\<close>

definition instances_ok :: "instance_infos \<Rightarrow> bool" where
  "instances_ok I = (\<forall>k ii. mlookup I k = Some ii \<longrightarrow>
     k \<noteq> [] \<and> InstanceInfoNameToInstanceURI (ifo_Name ii) = k \<and> distinct (share_names ii))"

definition class_found :: "'w ReconClient \<Rightarrow> string \<Rightarrow> bool" where
  "class_found rc tag = (\<forall>w. \<exists>sc w'. storageClassFromTag rc tag w = (Inr sc, w'))"

definition handles_ok :: "'w ReconClient \<Rightarrow> share_infos \<Rightarrow> instance_infos \<Rightarrow> bool" where
  "handles_ok rc S I = (\<forall>n si. mlookup S n = Some si \<longrightarrow> handle_of si \<noteq> [] \<longrightarrow> \<not> sfo_Deleted si \<longrightarrow>
     CHR ''.'' \<notin> set (handle_of si) \<and> (mlookup I (handle_of si) \<noteq> None \<or> class_found rc (sfo_InstancePoolTag si)))"

text \<open>Every share the instance at \<open>k\<close> names points back to \<open>k\<close>.\<close>

definition pointed_back :: "share_infos \<Rightarrow> instance_infos \<Rightarrow> string \<Rightarrow> bool" where
  "pointed_back S I k = (\<forall>ii n si. mlookup I k = Some ii \<longrightarrow> n \<in> set (share_names ii) \<longrightarrow> mlookup S n = Some si \<longrightarrow>
     handle_of si = k)"

section \<open>What a step may change\<close>

text \<open>The share \<open>n\<close> has a handle, and the instance it names lists the share.\<close>

definition named_by :: "share_infos \<Rightarrow> instance_infos \<Rightarrow> string \<Rightarrow> bool" where
  "named_by S I n = (\<exists>si ii. mlookup S n = Some si \<and> handle_of si \<noteq> [] \<and> mlookup I (handle_of si) = Some ii
     \<and> n \<in> set (share_names ii))"

text \<open>A share to be kept that points to the instance \<open>k\<close>\<close>

definition belongs_to :: "share_infos \<Rightarrow> string \<Rightarrow> string \<Rightarrow> bool" where
  "belongs_to S n k = (\<exists>si. mlookup S n = Some si \<and> handle_of si = k \<and> k \<noteq> [] \<and> \<not> sfo_Deleted si)"

text \<open>A share that points to another instance than \<open>k\<close>, and is being deleted or listed there\<close>

definition settled_elsewhere :: "share_infos \<Rightarrow> instance_infos \<Rightarrow> string \<Rightarrow> string \<Rightarrow> bool" where
  "settled_elsewhere S I n k = (\<exists>si. mlookup S n = Some si \<and> handle_of si \<noteq> [] \<and> handle_of si \<noteq> k
     \<and> (sfo_Deleted si \<or> named_by S I n))"

text \<open>Shares keep a handle once they have one, and get that of an instance that lists them; an instance
  loses only shares that are settled elsewhere, and gains only shares that belong to it; a new instance is
  that of a share that belongs to it.\<close>

definition pointers_grow :: "share_infos \<Rightarrow> instance_infos \<Rightarrow> share_infos \<Rightarrow> instance_infos \<Rightarrow> bool" where
  "pointers_grow S I S' I' =
     ((\<forall>n. mlookup S' n = None \<longleftrightarrow> mlookup S n = None)
      \<and> (\<forall>n si si'. mlookup S n = Some si \<longrightarrow> mlookup S' n = Some si' \<longrightarrow>
           sfo_Deleted si' = sfo_Deleted si \<and> sfo_InstancePoolTag si' = sfo_InstancePoolTag si
           \<and> (handle_of si \<noteq> [] \<longrightarrow> handle_of si' = handle_of si)
           \<and> (handle_of si = [] \<longrightarrow> handle_of si' = [] \<or>
               named_by S' I' n \<and> CHR ''.'' \<notin> set (handle_of si')
               \<and> (\<exists>ii. mlookup I (handle_of si') = Some ii \<and> n \<in> set (share_names ii))))
      \<and> (\<forall>k ii. mlookup I k = Some ii \<longrightarrow> (\<exists>ii'. mlookup I' k = Some ii'
           \<and> (\<forall>n \<in> set (share_names ii). n \<in> set (share_names ii') \<or> settled_elsewhere S' I' n k)))
      \<and> (\<forall>k ii' n. mlookup I' k = Some ii' \<longrightarrow> n \<in> set (share_names ii') \<longrightarrow>
           (\<exists>ii. mlookup I k = Some ii \<and> n \<in> set (share_names ii)) \<or> belongs_to S' n k)
      \<and> (\<forall>k. mlookup I' k \<noteq> None \<longrightarrow> mlookup I k \<noteq> None \<or> (\<exists>n. belongs_to S' n k)))"

lemma pointers_grow_refl: "pointers_grow S I S I"
  by (auto simp: pointers_grow_def)

lemma grow_shareD:
  assumes "pointers_grow S I S' I'" "mlookup S n = Some si"
  shows "\<exists>si'. mlookup S' n = Some si' \<and> sfo_Deleted si' = sfo_Deleted si \<and> sfo_InstancePoolTag si' = sfo_InstancePoolTag si
    \<and> (handle_of si \<noteq> [] \<longrightarrow> handle_of si' = handle_of si)
    \<and> (handle_of si = [] \<longrightarrow> handle_of si' = [] \<or>
               named_by S' I' n \<and> CHR ''.'' \<notin> set (handle_of si')
               \<and> (\<exists>ii. mlookup I (handle_of si') = Some ii \<and> n \<in> set (share_names ii)))"
proof -
  obtain si' where "mlookup S' n = Some si'" using assms by (cases "mlookup S' n") (auto simp: pointers_grow_def)
  then show ?thesis using assms unfolding pointers_grow_def by blast
qed

lemma grow_losesD:
  assumes "pointers_grow S I S' I'" "mlookup I k = Some ii"
  shows "\<exists>ii'. mlookup I' k = Some ii'
    \<and> (\<forall>n \<in> set (share_names ii). n \<in> set (share_names ii') \<or> settled_elsewhere S' I' n k)"
  using assms unfolding pointers_grow_def by blast

lemma grow_instanceD:
  assumes "pointers_grow S I S' I'"
  shows "mlookup I k \<noteq> None \<Longrightarrow> mlookup I' k \<noteq> None"
    "mlookup I' k = Some ii' \<Longrightarrow> n \<in> set (share_names ii') \<Longrightarrow>
       (\<exists>ii. mlookup I k = Some ii \<and> n \<in> set (share_names ii)) \<or> belongs_to S' n k"
    "mlookup I' k \<noteq> None \<Longrightarrow> mlookup I k \<noteq> None \<or> (\<exists>n. belongs_to S' n k)"
  using assms unfolding pointers_grow_def by blast+

lemma grow_noneD: "pointers_grow S I S' I' \<Longrightarrow> mlookup S n = None \<Longrightarrow> mlookup S' n = None"
  by (simp add: pointers_grow_def)

text \<open>What is settled stays settled.\<close>

lemma belongs_to_grow: "pointers_grow S I S' I' \<Longrightarrow> belongs_to S n k \<Longrightarrow> belongs_to S' n k"
  unfolding belongs_to_def using grow_shareD by blast

lemma named_by_grow:
  assumes g: "pointers_grow S I S' I'" and "named_by S I n"
  shows "named_by S' I' n"
proof -
  obtain si ii where n: "mlookup S n = Some si" "handle_of si \<noteq> []" "mlookup I (handle_of si) = Some ii" "n \<in> set (share_names ii)"
    using assms(2) by (auto simp: named_by_def)
  obtain si' where s: "mlookup S' n = Some si'" "handle_of si' = handle_of si" using grow_shareD[OF g n(1)] n(2) by blast
  obtain ii' where "mlookup I' (handle_of si) = Some ii'" "n \<in> set (share_names ii') \<or> settled_elsewhere S' I' n (handle_of si)"
    using grow_losesD[OF g n(3)] n(4) by blast
  then show ?thesis using s n(2) by (auto simp: named_by_def settled_elsewhere_def)
qed

lemma settled_elsewhere_grow:
  assumes g: "pointers_grow S I S' I'" and "settled_elsewhere S I n k"
  shows "settled_elsewhere S' I' n k"
proof -
  obtain si where s: "mlookup S n = Some si" "handle_of si \<noteq> []" "handle_of si \<noteq> k" "sfo_Deleted si \<or> named_by S I n"
    using assms(2) by (auto simp: settled_elsewhere_def)
  then show ?thesis using grow_shareD[OF g s(1)] named_by_grow[OF g] unfolding settled_elsewhere_def by metis
qed

lemma grow_loses_trans:
  assumes g: "pointers_grow S I S1 I1" and h: "pointers_grow S1 I1 S2 I2" and k: "mlookup I k = Some ii"
  shows "\<exists>ii'. mlookup I2 k = Some ii'
    \<and> (\<forall>n \<in> set (share_names ii). n \<in> set (share_names ii') \<or> settled_elsewhere S2 I2 n k)"
proof -
  obtain ii1 where 1: "mlookup I1 k = Some ii1"
    "\<forall>n \<in> set (share_names ii). n \<in> set (share_names ii1) \<or> settled_elsewhere S1 I1 n k" using grow_losesD[OF g k] by blast
  then show ?thesis using grow_losesD[OF h 1(1)] settled_elsewhere_grow[OF h] by blast
qed

lemma pointers_grow_trans:
  assumes g: "pointers_grow S I S1 I1" and h: "pointers_grow S1 I1 S2 I2"
  shows "pointers_grow S I S2 I2"
proof -
  have "sfo_Deleted si2 = sfo_Deleted si \<and> sfo_InstancePoolTag si2 = sfo_InstancePoolTag si
      \<and> (handle_of si \<noteq> [] \<longrightarrow> handle_of si2 = handle_of si)
      \<and> (handle_of si = [] \<longrightarrow> handle_of si2 = [] \<or> named_by S2 I2 n \<and> CHR ''.'' \<notin> set (handle_of si2)
          \<and> (\<exists>ii. mlookup I (handle_of si2) = Some ii \<and> n \<in> set (share_names ii)))"
    if t: "mlookup S n = Some si" "mlookup S2 n = Some si2" for n si si2
  proof -
    obtain si1 where s1: "mlookup S1 n = Some si1" using grow_shareD[OF g t(1)] by blast
    show ?thesis
    proof (cases "handle_of si1 = []")
      case True
      have "\<not> belongs_to S1 n k" for k using s1 True by (auto simp: belongs_to_def)
      then have "(\<exists>ii. mlookup I1 k = Some ii \<and> n \<in> set (share_names ii)) \<Longrightarrow> \<exists>ii. mlookup I k = Some ii \<and> n \<in> set (share_names ii)"
        for k using grow_instanceD(2)[OF g] by blast
      then show ?thesis using grow_shareD[OF g t(1)] grow_shareD[OF h s1] s1 t(2) True by auto
    next
      case False
      then show ?thesis using grow_shareD[OF g t(1)] grow_shareD[OF h s1] s1 t(2) named_by_grow[OF h] by auto
    qed
  qed
  moreover have "(\<exists>ii. mlookup I k = Some ii \<and> n \<in> set (share_names ii)) \<or> belongs_to S2 n k"
    if i: "mlookup I2 k = Some ii2" "n \<in> set (share_names ii2)" for k ii2 n
    using grow_instanceD(2)[OF h i] grow_instanceD(2)[OF g] belongs_to_grow[OF h] by blast
  moreover have "mlookup I2 k \<noteq> None \<Longrightarrow> mlookup I k \<noteq> None \<or> (\<exists>n. belongs_to S2 n k)" for k
    using grow_instanceD(3)[OF h] grow_instanceD(3)[OF g] belongs_to_grow[OF h] by blast
  moreover have "mlookup S2 n = None \<longleftrightarrow> mlookup S n = None" for n
    using g h by (simp add: pointers_grow_def)
  ultimately show ?thesis using grow_loses_trans[OF g h] unfolding pointers_grow_def by blast
qed

lemma handles_ok_grow:
  assumes g: "pointers_grow S I S' I'" and h: "handles_ok rc S I"
  shows "handles_ok rc S' I'"
  unfolding handles_ok_def
proof (intro allI impI)
  fix n si'
  assume a: "mlookup S' n = Some si'" "handle_of si' \<noteq> []" "\<not> sfo_Deleted si'"
  obtain si where s: "mlookup S n = Some si" using a(1) grow_noneD[OF g] by fastforce
  show "CHR ''.'' \<notin> set (handle_of si') \<and> (mlookup I' (handle_of si') \<noteq> None \<or> class_found rc (sfo_InstancePoolTag si'))"
  proof (cases "handle_of si = []")
    case True
    then show ?thesis using grow_shareD[OF g s] a by (auto simp: named_by_def)
  next
    case False
    then have "handle_of si' = handle_of si" "sfo_Deleted si = sfo_Deleted si'" "sfo_InstancePoolTag si' = sfo_InstancePoolTag si"
      using grow_shareD[OF g s] a(1) by auto
    then show ?thesis using h s a False grow_instanceD(1)[OF g] unfolding handles_ok_def by metis
  qed
qed

lemma pointed_back_grow:
  assumes g: "pointers_grow S I S' I'" and p: "pointed_back S I k" and k: "k \<noteq> []"
  shows "pointed_back S' I' k"
  unfolding pointed_back_def
proof (intro allI impI)
  fix ii n si
  assume a: "mlookup I' k = Some ii" "n \<in> set (share_names ii)" "mlookup S' n = Some si"
  from grow_instanceD(2)[OF g a(1,2)] show "handle_of si = k"
  proof
    assume "\<exists>ii. mlookup I k = Some ii \<and> n \<in> set (share_names ii)"
    then obtain ii0 where i: "mlookup I k = Some ii0" "n \<in> set (share_names ii0)" by blast
    obtain si0 where s: "mlookup S n = Some si0" using a(3) grow_noneD[OF g] by fastforce
    then have "handle_of si0 = k" using p i by (auto simp: pointed_back_def)
    then show ?thesis using grow_shareD[OF g s] k a(3) by auto
  next
    assume "belongs_to S' n k"
    then show ?thesis using a(3) by (auto simp: belongs_to_def)
  qed
qed

section \<open>Single steps\<close>

lemma handle_of_update [simp]:
  "handle_of (si\<lparr>sfo_Status := Some (st\<lparr>st_InstanceHandle := u\<rparr>)\<rparr>) = u"
  by (simp add: handle_of_def share_status_def)

lemma assignInstance_step:
  assumes "api_answers rc"
  shows "\<exists>w'. assignInstanceToShareInfo rc si uri w =
    (Inr (si\<lparr>sfo_Status := Some ((share_status si)\<lparr>st_InstanceHandle := uri\<rparr>)\<rparr>), w')"
  using api_answersD(1)[OF assms] by (simp add: assignInstanceToShareInfo_def)

lemma assignShare_step:
  assumes "api_answers rc"
  shows "\<exists>ii' w'. assignShareToInstanceInfo rc ii n w = (Inr ii', w') \<and> ifo_Name ii' = ifo_Name ii
    \<and> ifo_Parameters ii' = ifo_Parameters ii
    \<and> share_names ii' = (if n \<in> set (share_names ii) then share_names ii else share_names ii @ [n])"
proof (cases "n \<in> set (share_names ii)")
  case True
  then show ?thesis by (simp add: assignShareToInstanceInfo_def share_names_def Let_def)
next
  case False
  let ?ii = "ii\<lparr>ifo_Status := Some ((instance_status ii)\<lparr>ist_ShareNames := share_names ii @ [n]\<rparr>)\<rparr>"
  obtain w' where "rc_instanceUpdateStatus rc ?ii w = (Inr ?ii, w')" using api_answersD(2)[OF assms] by blast
  then have "assignShareToInstanceInfo rc ii n w = (Inr ?ii, w')"
    using False by (simp add: assignShareToInstanceInfo_def share_names_def Let_def)
  then show ?thesis using False by (simp add: share_names_def instance_status_def)
qed

lemma generateInstanceInfo_step:
  assumes "api_answers rc" "class_found rc tag"
  shows "\<exists>ii w'. generateInstanceInfo rc uri tag params w = (Inr ii, w') \<and> ifo_Name ii = InstanceURIToInstanceInfoName uri
    \<and> share_names ii = [] \<and> ifo_Parameters ii = params"
proof -
  obtain sc w1 where "storageClassFromTag rc tag w = (Inr sc, w1)" using assms(2) unfolding class_found_def by blast
  moreover obtain ii w2 where "rc_instanceCreate rc ii w1 = (Inr ii, w2)"
    "ii = \<lparr>ifo_Name = InstanceURIToInstanceInfoName uri, ifo_Finalizers = [FilestoreResourceCleanupFinalizer],
        ifo_Labels = [(ParamMultishareInstanceScLabel, mget (sc_Parameters sc) ParamMultishareInstanceScLabel)],
        ifo_Deleted = False, ifo_CapacityBytes = MinMultishareInstanceSizeBytes, ifo_StorageClassName = sc_Name sc,
        ifo_Parameters = params, ifo_Status = None\<rparr>"
    using api_answersD(3)[OF assms(1)] by blast
  ultimately show ?thesis
    by (simp add: generateInstanceInfo_def bind_Inr share_names_def instance_status_def empty_instance_status_def)
qed

lemma uri_of_name: "CHR ''.'' \<notin> set uri \<Longrightarrow> InstanceInfoNameToInstanceURI (InstanceURIToInstanceInfoName uri) = uri"
  by (simp add: InstanceInfoNameToInstanceURI_def InstanceURIToInstanceInfoName_def replace_char_inv)

lemma name_uri_no_dot: "CHR ''.'' \<notin> set (InstanceInfoNameToInstanceURI n)"
  by (simp add: InstanceInfoNameToInstanceURI_def)

lemma actual_assigned_step:
  assumes api: "api_answers rc" and I: "instances_ok I" and h: "handles_ok rc S I"
    and s: "mlookup S n = Some si" "handle_of si \<noteq> []" "\<not> sfo_Deleted si"
  shows "\<exists>ii w'. actual_assigned rc n si I w = (Inr ii, w') \<and> InstanceInfoNameToInstanceURI (ifo_Name ii) = handle_of si
    \<and> distinct (share_names ii) \<and> (\<forall>m \<in> set (share_names ii). m = n \<or> (\<exists>ii0. mlookup I (handle_of si) = Some ii0 \<and> m \<in> set (share_names ii0)))
    \<and> n \<in> set (share_names ii) \<and> (\<forall>ii0. mlookup I (handle_of si) = Some ii0 \<longrightarrow> set (share_names ii0) \<subseteq> set (share_names ii))"
proof (cases "mlookup I (handle_of si)")
  case None
  then have c: "class_found rc (sfo_InstancePoolTag si)" "CHR ''.'' \<notin> set (handle_of si)"
    using h s unfolding handles_ok_def by blast+
  obtain ii w1 where g: "generateInstanceInfo rc (handle_of si) (sfo_InstancePoolTag si) (sfo_Parameters si) w = (Inr ii, w1)"
    "ifo_Name ii = InstanceURIToInstanceInfoName (handle_of si)" "share_names ii = []"
    using generateInstanceInfo_step[OF api c(1)] by blast
  obtain ii' w2 where "assignShareToInstanceInfo rc ii n w1 = (Inr ii', w2)" "ifo_Name ii' = ifo_Name ii" "share_names ii' = [n]"
    using assignShare_step[OF api, of ii n w1] g(3) by auto
  then show ?thesis using g None uri_of_name[OF c(2)] by (simp add: actual_assigned_def bind_Inr)
next
  case (Some ii0)
  then have ok: "InstanceInfoNameToInstanceURI (ifo_Name ii0) = handle_of si" "distinct (share_names ii0)"
    using I by (auto simp: instances_ok_def)
  obtain ii' w2 where "assignShareToInstanceInfo rc ii0 n w = (Inr ii', w2)" "ifo_Name ii' = ifo_Name ii0"
    "share_names ii' = (if n \<in> set (share_names ii0) then share_names ii0 else share_names ii0 @ [n])"
    using assignShare_step[OF api, of ii0 n w] by auto
  then show ?thesis using Some ok by (auto simp: actual_assigned_def)
qed

text \<open>The two changes of the maps\<close>

lemma grow_assign:
  assumes "mlookup S n = Some si" "handle_of si = []" "mlookup I uri = Some ii" "n \<in> set (share_names ii)"
    "CHR ''.'' \<notin> set uri" "uri \<noteq> []"
  shows "pointers_grow S I (minsert n (si\<lparr>sfo_Status := Some ((share_status si)\<lparr>st_InstanceHandle := uri\<rparr>)\<rparr>) S) I"
  using assms by (auto simp: pointers_grow_def named_by_def)

lemma grow_instance:
  assumes gains: "\<forall>m \<in> set (share_names ii). (\<exists>ii0. mlookup I k = Some ii0 \<and> m \<in> set (share_names ii0)) \<or> belongs_to S m k"
    and loses: "\<forall>ii0. mlookup I k = Some ii0 \<longrightarrow>
      (\<forall>m \<in> set (share_names ii0). m \<in> set (share_names ii) \<or> settled_elsewhere S I m k)"
    and new: "mlookup I k \<noteq> None \<or> (\<exists>n. belongs_to S n k)"
  shows "pointers_grow S I S (minsert k ii I)"
proof -
  have "named_by S (minsert k ii I) m" if "named_by S I m" "mlookup S m = Some si" "handle_of si \<noteq> k" for m si
    using that by (auto simp: named_by_def)
  then have "settled_elsewhere S (minsert k ii I) m k" if "settled_elsewhere S I m k" for m
    using that unfolding settled_elsewhere_def by blast
  then show ?thesis using gains loses new by (auto simp: pointers_grow_def)
qed

lemma instances_ok_insert:
  "instances_ok I \<Longrightarrow> k \<noteq> [] \<Longrightarrow> InstanceInfoNameToInstanceURI (ifo_Name ii) = k \<Longrightarrow> distinct (share_names ii)
     \<Longrightarrow> instances_ok (minsert k ii I)"
  by (simp add: instances_ok_def)

lemma removeShare_step:
  assumes "n \<in> set (share_names c)"
  shows "snd (removeShareFromInstanceInfo c n)" "ifo_Name (fst (removeShareFromInstanceInfo c n)) = ifo_Name c"
    "share_names (fst (removeShareFromInstanceInfo c n)) = filter (\<lambda>m. m \<noteq> n) (share_names c)"
proof -
  obtain st where "ifo_Status c = Some st" using assms
    by (cases "ifo_Status c") (auto simp: share_names_def instance_status_def empty_instance_status_def)
  then show "snd (removeShareFromInstanceInfo c n)" "ifo_Name (fst (removeShareFromInstanceInfo c n)) = ifo_Name c"
    "share_names (fst (removeShareFromInstanceInfo c n)) = filter (\<lambda>m. m \<noteq> n) (share_names c)"
    using assms by (simp_all add: removeShareFromInstanceInfo_def share_names_def instance_status_def)
qed

section \<open>The loops\<close>

definition fixed_shares ::
  "string \<Rightarrow> string list \<Rightarrow> share_infos \<Rightarrow> instance_infos \<Rightarrow> InstanceInfo \<Rightarrow> bool
     \<Rightarrow> share_infos \<times> instance_infos \<times> InstanceInfo \<times> bool \<Rightarrow> bool" where
  "fixed_shares uri names S I c u = (\<lambda>(S', I', c', u').
     pointers_grow S I S' I' \<and> instances_ok I' \<and> mlookup I' uri = mlookup I uri \<and> ifo_Name c' = ifo_Name c
     \<and> set (share_names c') \<subseteq> set (share_names c) \<and> (distinct (share_names c) \<longrightarrow> distinct (share_names c'))
     \<and> (u \<longrightarrow> u') \<and> (\<not> u' \<longrightarrow> c' = c)
     \<and> (\<forall>m \<in> set (share_names c). m \<in> set (share_names c') \<or> settled_elsewhere S' I' m uri)
     \<and> (\<forall>n si. n \<in> set names \<longrightarrow> n \<in> set (share_names c') \<longrightarrow> mlookup S' n = Some si \<longrightarrow> handle_of si = uri))"

lemma fix_shares_spec:
  assumes api: "api_answers rc" and uri: "uri \<noteq> []" "CHR ''.'' \<notin> set uri"
    and "instances_ok I" "handles_ok rc S I" "mlookup I uri = Some ii0" "set names \<subseteq> set (share_names ii0)"
    and "distinct names" "set names \<subseteq> set (share_names c)"
  shows "\<exists>r w'. fix_shares rc uri names S I c u w = (Inr r, w') \<and> fixed_shares uri names S I c u r"
  using assms(4-9)
proof (induction names arbitrary: S I c u w)
  case Nil
  then show ?case by (simp add: fixed_shares_def pointers_grow_refl)
next
  case (Cons n names)
  have n: "n \<notin> set names" "distinct names" "set names \<subseteq> set (share_names c)" "n \<in> set (share_names c)"
    "set names \<subseteq> set (share_names ii0)" "n \<in> set (share_names ii0)" using Cons.prems by auto
  show ?case
  proof (cases "mlookup S n")
    case None
    obtain S' I' c' u' w' where f: "fix_shares rc uri names S I c u w = (Inr (S', I', c', u'), w')"
      and p: "fixed_shares uri names S I c u (S', I', c', u')"
      using Cons.IH[OF Cons.prems(1,2,3) n(5,2,3)] by (metis prod_cases4)
    then have "mlookup S' n = None" using None grow_noneD by (auto simp: fixed_shares_def)
    then show ?thesis using None f p by (auto simp: fixed_shares_def)
  next
    case (Some si)
    consider "handle_of si = []" | "handle_of si = uri" "handle_of si \<noteq> []" | "handle_of si \<noteq> []" "handle_of si \<noteq> uri" by blast
    then show ?thesis
    proof cases
      case 1
      let ?si = "si\<lparr>sfo_Status := Some ((share_status si)\<lparr>st_InstanceHandle := uri\<rparr>)\<rparr>"
      let ?S = "minsert n ?si S"
      obtain w1 where a: "assignInstanceToShareInfo rc si uri w = (Inr ?si, w1)" using assignInstance_step[OF api] by blast
      have g: "pointers_grow S I ?S I" using grow_assign[OF Some 1 Cons.prems(3) n(6) uri(2,1)] .
      obtain S' I' c' u' w' where f: "fix_shares rc uri names ?S I c u w1 = (Inr (S', I', c', u'), w')"
        and p: "fixed_shares uri names ?S I c u (S', I', c', u')"
        using Cons.IH[OF Cons.prems(1) handles_ok_grow[OF g Cons.prems(2)] Cons.prems(3) n(5,2,3)] by (metis prod_cases4)
      have "handle_of x = uri" if "mlookup S' n = Some x" for x
        using p grow_shareD[of ?S I S' I' n ?si] that uri(1) by (auto simp: fixed_shares_def)
      then show ?thesis
        using 1 Some f p pointers_grow_trans[OF g] by (auto simp: logged_Inr[where m = "assignInstanceToShareInfo rc si uri", OF a] fixed_shares_def)
    next
      case 2
      obtain S' I' c' u' w' where f: "fix_shares rc uri names S I c u w = (Inr (S', I', c', u'), w')"
        and p: "fixed_shares uri names S I c u (S', I', c', u')"
        using Cons.IH[OF Cons.prems(1,2,3) n(5,2,3)] by (metis prod_cases4)
      have "handle_of x = uri" if "mlookup S' n = Some x" for x
        using p grow_shareD[of S I S' I' n si] that 2 Some by (auto simp: fixed_shares_def)
      then show ?thesis using 2 Some f p by (auto simp: fixed_shares_def)
    next
      case 3
      let ?r = "removeShareFromInstanceInfo c n"
      have c: "set names \<subseteq> set (share_names (fst ?r))" "n \<notin> set (share_names (fst ?r))"
        using n removeShare_step(3)[OF n(4)] by auto
      have step: "\<exists>I1 w1. fix_shares rc uri (n # names) S I c u w = fix_shares rc uri names S I1 (fst ?r) (snd ?r) w1
          \<and> pointers_grow S I S I1 \<and> instances_ok I1 \<and> mlookup I1 uri = mlookup I uri \<and> settled_elsewhere S I1 n uri"
      proof (cases "sfo_Deleted si")
        case True
        then show ?thesis using 3 Some pointers_grow_refl Cons.prems(1) by (auto simp: Let_def settled_elsewhere_def)
      next
        case False
        obtain ii w1 where a: "actual_assigned rc n si I w = (Inr ii, w1)"
          "InstanceInfoNameToInstanceURI (ifo_Name ii) = handle_of si" "distinct (share_names ii)"
          "\<forall>m \<in> set (share_names ii). m = n \<or> (\<exists>ii0. mlookup I (handle_of si) = Some ii0 \<and> m \<in> set (share_names ii0))"
          "n \<in> set (share_names ii)" "\<forall>ii0. mlookup I (handle_of si) = Some ii0 \<longrightarrow> set (share_names ii0) \<subseteq> set (share_names ii)"
          using actual_assigned_step[OF api Cons.prems(1,2) Some 3(1) False] by blast
        have "belongs_to S n (handle_of si)" using Some 3(1) False by (simp add: belongs_to_def)
        then have "pointers_grow S I S (minsert (handle_of si) ii I)"
          using a(4,6) by (intro grow_instance) auto
        moreover have "settled_elsewhere S (minsert (handle_of si) ii I) n uri"
          using 3 Some a(5) by (auto simp: settled_elsewhere_def named_by_def)
        ultimately show ?thesis
          using 3 Some False instances_ok_insert[OF Cons.prems(1) 3(1) a(2,3)] by (auto simp: Let_def logged_Inr[where m = "actual_assigned rc n si I", OF a(1)])
      qed
      then obtain I1 w1 where e: "fix_shares rc uri (n # names) S I c u w = fix_shares rc uri names S I1 (fst ?r) (snd ?r) w1"
        and g: "pointers_grow S I S I1" and i: "instances_ok I1" "mlookup I1 uri = mlookup I uri" "settled_elsewhere S I1 n uri" by blast
      obtain S' I' c' u' w' where f: "fix_shares rc uri names S I1 (fst ?r) (snd ?r) w1 = (Inr (S', I', c', u'), w')"
        and p: "fixed_shares uri names S I1 (fst ?r) (snd ?r) (S', I', c', u')"
        using Cons.IH[OF i(1) handles_ok_grow[OF g Cons.prems(2)] _ n(5,2) c(1)] Cons.prems(3) i(2) by (metis prod_cases4)
      note p = p[unfolded fixed_shares_def prod.case]
      have "settled_elsewhere S' I' n uri" using settled_elsewhere_grow i(3) p by blast
      then have "fixed_shares uri (n # names) S I c u (S', I', c', u')"
        using c(2) i(2) pointers_grow_trans[OF g] removeShare_step[OF n(4)] p unfolding fixed_shares_def by auto
      then show ?thesis using e f by auto
    qed
  qed
qed

lemma fix_instances_spec:
  assumes api: "api_answers rc" and "instances_ok I" "handles_ok rc S I"
  shows "\<exists>S' I' w'. fix_instances rc ks S I w = (Inr (S', I'), w') \<and> pointers_grow S I S' I' \<and> instances_ok I'
    \<and> (\<forall>k \<in> set ks. mlookup I k \<noteq> None \<longrightarrow> pointed_back S' I' k)"
  using assms(2,3)
proof (induction ks arbitrary: S I w)
  case Nil
  then show ?case using pointers_grow_refl by auto
next
  case (Cons k ks)
  text \<open>One visit, and then the induction hypothesis on the maps it leaves\<close>
  have rest: ?case
    if e: "fix_instances rc (k # ks) S I w = fix_instances rc ks S1 I1 w1" and g: "pointers_grow S I S1 I1"
      and i: "instances_ok I1" and b: "mlookup I k \<noteq> None \<Longrightarrow> pointed_back S1 I1 k" for S1 I1 w1
  proof -
    obtain S' I' w' where f: "fix_instances rc ks S1 I1 w1 = (Inr (S', I'), w')" "pointers_grow S1 I1 S' I'" "instances_ok I'"
      "\<forall>k \<in> set ks. mlookup I1 k \<noteq> None \<longrightarrow> pointed_back S' I' k"
      using Cons.IH[OF i handles_ok_grow[OF g Cons.prems(2)]] by blast
    have "pointed_back S' I' k" if "mlookup I k \<noteq> None"
    proof -
      have "k \<noteq> []" using that Cons.prems(1) by (auto simp: instances_ok_def)
      then show ?thesis using pointed_back_grow[OF f(2) b[OF that]] by blast
    qed
    then show ?thesis using e f pointers_grow_trans[OF g f(2)] grow_instanceD(1)[OF g] by auto
  qed
  show ?case
  proof (cases "mlookup I k")
    case None
    then show ?thesis using pointers_grow_refl Cons.prems(1) by (intro rest) auto
  next
    case (Some ii)
    have uri: "InstanceInfoNameToInstanceURI (ifo_Name ii) = k" "k \<noteq> []" "distinct (share_names ii)" "CHR ''.'' \<notin> set k"
      using Some Cons.prems(1) name_uri_no_dot by (auto simp: instances_ok_def)
    show ?thesis
    proof (cases "ifo_Status ii = None")
      case True
      then have "pointed_back S I k" using Some
        by (simp add: pointed_back_def share_names_def instance_status_def empty_instance_status_def)
      then show ?thesis using Some True pointers_grow_refl Cons.prems(1) by (intro rest) auto
    next
      case False
      obtain S1 I1 c u w1 where f: "fix_shares rc k (share_names ii) S I ii False w = (Inr (S1, I1, c, u), w1)"
        and p: "fixed_shares k (share_names ii) S I ii False (S1, I1, c, u)"
        using fix_shares_spec[OF api uri(2,4) Cons.prems Some order_refl uri(3) order_refl] by (metis prod_cases4)
      note p = p[unfolded fixed_shares_def, simplified]
      show ?thesis
      proof (cases u)
        case True
        obtain w2 where u: "rc_instanceUpdateStatus rc c w1 = (Inr c, w2)" using api_answersD(2)[OF api] by blast
        have g: "pointers_grow S1 I1 S1 (minsert k c I1)"
          using p Some by (intro grow_instance) auto
        have "fix_instances rc (k # ks) S I w = fix_instances rc ks S1 (minsert k c I1) w2"
          using Some False True uri(1) by (auto simp: bind_Inr[where m = "fix_shares rc k (share_names ii) S I ii False", OF f] logged_Inr[where m = "rc_instanceUpdateStatus rc c", OF u])
        then show ?thesis
          using pointers_grow_trans[OF _ g] p uri by (intro rest) (auto simp: pointed_back_def intro!: instances_ok_insert)
      next
        case u: False
        then have c: "c = ii" using p by simp
        have "fix_instances rc (k # ks) S I w = fix_instances rc ks S1 I1 w1"
          using Some False u uri(1) by (auto simp: bind_Inr[where m = "fix_shares rc k (share_names ii) S I ii False", OF f])
        then show ?thesis using p Some c by (intro rest) (auto simp: pointed_back_def)
      qed
    qed
  qed
qed

lemma listed_stays_named:
  assumes g: "pointers_grow S I S' I'" and pointed: "pointed_back S' I' k"
    and k: "mlookup I k = Some ii" "n \<in> set (share_names ii)" and n: "mlookup S n = Some si" "handle_of si = [] \<or> \<not> sfo_Deleted si"
    and "k \<noteq> []"
  shows "named_by S' I' n"
proof -
  obtain si' where s: "mlookup S' n = Some si'" "sfo_Deleted si' = sfo_Deleted si"
      "handle_of si = [] \<longrightarrow> handle_of si' = [] \<or> named_by S' I' n"
    using grow_shareD[OF g n(1)] by blast
  obtain ii' where i: "mlookup I' k = Some ii'" "n \<in> set (share_names ii') \<or> settled_elsewhere S' I' n k"
    using grow_losesD[OF g k(1)] k(2) by blast
  from i(2) show ?thesis
  proof
    assume l: "n \<in> set (share_names ii')"
    then have "handle_of si' = k" using pointed i(1) s(1) by (simp add: pointed_back_def)
    then show ?thesis using s(1) i(1) l \<open>k \<noteq> []\<close> by (auto simp: named_by_def)
  next
    assume "settled_elsewhere S' I' n k"
    then show ?thesis using s n(2) by (auto simp: settled_elsewhere_def)
  qed
qed

text \<open>C6: The two pointers agree. Let the API server answer every update and creation, let the loop visit
  every instance, let each instance be stored under the URI of its name and list a share once, and let
  the handle of each share that is not being deleted have no dot and either an instance in the map or a
  storage class to make its object from. Then \<open>fixTwoWayPointers\<close> returns, and every share an instance
  lists points back to that instance. A share without a handle gets that of an instance that listed it. A share that
  points elsewhere than to an instance that lists it is moved: it is afterwards listed by the instance it
  points to, which is added to the map if it was not there, unless the share is being deleted, when it is
  only taken away. No share changes a handle it has; an instance loses only shares that point elsewhere,
  and gains only shares that point to it and are not being deleted.\<close>

theorem two_way_pointers_fixed:
  assumes "api_answers rc" "instances_ok I" "handles_ok rc S I" "set (keys I) \<subseteq> set (rc_visit rc (keys I))"
  shows "\<exists>S' I' w'. fixTwoWayPointers rc S I w = (Inr (S', I'), w') \<and> pointers_grow S I S' I' \<and> (\<forall>k. pointed_back S' I' k)
    \<and> (\<forall>k ii n si. mlookup I k = Some ii \<longrightarrow> n \<in> set (share_names ii) \<longrightarrow> mlookup S n = Some si \<longrightarrow>
         handle_of si = [] \<or> \<not> sfo_Deleted si \<longrightarrow> named_by S' I' n)"
proof -
  obtain S' I' w' where f: "fix_instances rc (rc_visit rc (keys I)) S I w = (Inr (S', I'), w')" "pointers_grow S I S' I'"
    "\<forall>k \<in> set (rc_visit rc (keys I)). mlookup I k \<noteq> None \<longrightarrow> pointed_back S' I' k"
    using fix_instances_spec[OF assms(1-3)] by blast
  have pointed: "pointed_back S' I' k" for k
  proof (cases "mlookup I k")
    case None
    then show ?thesis using grow_instanceD(2)[OF f(2), of k] by (fastforce simp: pointed_back_def belongs_to_def)
  next
    case (Some ii)
    then show ?thesis using f(3) assms(4) mlookup_Some_keys[OF Some] by auto
  qed
  have "named_by S' I' n" if k: "mlookup I k = Some ii" "n \<in> set (share_names ii)"
    and n: "mlookup S n = Some si" "handle_of si = [] \<or> \<not> sfo_Deleted si" for k ii n si
    using listed_stays_named[OF f(2) pointed k n] assms(2) k(1) unfolding instances_ok_def by blast
  then show ?thesis using f pointed by (auto simp: fixTwoWayPointers_def)
qed

text \<open>A client that accepts everything, and two instances of which the first names a share of the second\<close>

definition demo_recon :: "'w ReconClient" where
  "demo_recon = \<lparr>rc_shares = demo_sic (demo_share_info READY False), rc_shareList = ret [], rc_shareUpdateStatus = ret,
     rc_instanceLister = (\<lambda>n. fail (GoogleApiErr 404 n [''notFound''])), rc_instanceList = ret [],
     rc_instanceGet = (\<lambda>n. fail (GoogleApiErr 404 n [''notFound''])), rc_instanceCreate = ret, rc_instanceUpdate = ret,
     rc_instanceUpdateStatus = ret, rc_instanceDelete = (\<lambda>n. ret ()),
     rc_scGet = (\<lambda>n. ret \<lparr>sc_Name = n, sc_Parameters = [(ParamMultishareInstanceScLabel, ''sc'')]\<rparr>),
     rc_scList = ret [\<lparr>sc_Name = ''class'', sc_Parameters = [(ParamMultishareInstanceScLabel, ''sc'')]\<rparr>],
     rc_uuid = ret ''7'', rc_visit = rev, rc_old = (\<lambda>_. False)\<rparr>"

definition demo_instance_info :: "string \<Rightarrow> string list \<Rightarrow> InstanceInfo" where
  "demo_instance_info uri names = \<lparr>ifo_Name = InstanceURIToInstanceInfoName uri,
     ifo_Finalizers = [FilestoreResourceCleanupFinalizer], ifo_Labels = [(ParamMultishareInstanceScLabel, ''sc'')],
     ifo_Deleted = False, ifo_CapacityBytes = MinMultishareInstanceSizeBytes, ifo_StorageClassName = ''class'',
     ifo_Parameters = [], ifo_Status = Some (empty_instance_status\<lparr>ist_ShareNames := names\<rparr>)\<rparr>"

lemma demo_recon_answers: "api_answers demo_recon"
  by (simp add: api_answers_def demo_recon_def)

lemma demo_instance_names [simp]: "share_names (demo_instance_info uri names) = names"
  by (simp add: demo_instance_info_def share_names_def instance_status_def)

lemma demo_instance_name [simp]: "ifo_Name (demo_instance_info uri names) = InstanceURIToInstanceInfoName uri"
  by (simp add: demo_instance_info_def)

lemma demo_kept: "\<not> sfo_Deleted (demo_share_info s False)"
  by (simp add: demo_share_info_def)

lemma mlookup_demo: "mlookup [(k, v)] k = Some v"
  by simp

theorem two_way_pointers_fixed_witness:
  "\<exists>S' I' w'. fixTwoWayPointers demo_recon [(''pvc-1'', demo_share_info READY False)]
     [(''b'', demo_instance_info ''b'' [''pvc-1''])] () = (Inr (S', I'), w') \<and> (\<forall>k. pointed_back S' I' k)
     \<and> named_by S' I' ''pvc-1''"
proof -
  let ?S = "[(''pvc-1'', demo_share_info READY False)]" and ?I = "[(''b'', demo_instance_info ''b'' [''pvc-1''])]"
  have "instances_ok ?I" using uri_of_name[of "''b''"] by (simp add: instances_ok_def)
  moreover have "class_found (demo_recon :: unit ReconClient) ''sc''"
    by (simp add: class_found_def demo_recon_def storageClassFromTag_def mget_def)
  then have "handles_ok (demo_recon :: unit ReconClient) ?S ?I"
    by (simp add: handles_ok_def demo_share_info_def handle_of_def share_status_def)
  moreover have "set (keys ?I) \<subseteq> set (rc_visit (demo_recon :: unit ReconClient) (keys ?I))" by (simp add: demo_recon_def)
  ultimately show ?thesis
    using two_way_pointers_fixed[where rc = demo_recon and S = ?S and I = ?I and w = "()", OF demo_recon_answers]
    by (metis demo_instance_names demo_kept list.set_intros(1) mlookup_demo)
qed

end
