(* ===== verification/Reconciler_Rounds.thy ===== *)
theory Reconciler_Rounds
  imports Reconciler_Pointers
begin

text \<open>
  What a round of the reconciler guarantees: every share gets an instance, no instance gets more
  shares than it may have, the objects of shares reflect the listed shares, no operation starts on a
  resource with a running one, only what is marked is deleted, and ranges are released.
\<close>

section \<open>Every share gets an instance\<close>

text \<open>The hypotheses: every loop over a map visits each key; each instance is stored under the URI of its
  name; \<open>uuid\<close> returns names not used before, without slash and dot, where \<open>used\<close> is what the outside world
  knows of the used ones; and the instances of the map have used ones.\<close>

definition visits_all :: "'w ReconClient \<Rightarrow> bool" where
  "visits_all rc = (\<forall>ks. set ks \<subseteq> set (rc_visit rc ks))"

definition keyed :: "instance_infos \<Rightarrow> bool" where
  "keyed I = (\<forall>k ii. mlookup I k = Some ii \<longrightarrow> k \<noteq> [] \<and> InstanceInfoNameToInstanceURI (ifo_Name ii) = k)"

definition uuids_fresh :: "'w ReconClient \<Rightarrow> ('w \<Rightarrow> string set) \<Rightarrow> bool" where
  "uuids_fresh rc used = ((\<forall>w u w'. rc_uuid rc w = (Inr u, w') \<longrightarrow>
       u \<notin> used w \<and> insert u (used w) \<subseteq> used w' \<and> set u \<inter> {CHR ''/'', CHR ''.''} = {})
     \<and> (\<forall>si w r w'. rc_shareUpdateStatus rc si w = (r, w') \<longrightarrow> used w \<subseteq> used w')
     \<and> (\<forall>ii w r w'. rc_instanceUpdateStatus rc ii w = (r, w') \<longrightarrow> used w \<subseteq> used w')
     \<and> (\<forall>ii w r w'. rc_instanceCreate rc ii w = (r, w') \<longrightarrow> used w \<subseteq> used w')
     \<and> (\<forall>w r w'. rc_scList rc w = (r, w') \<longrightarrow> used w \<subseteq> used w'))"

lemma uuids_freshD:
  assumes "uuids_fresh rc used"
  shows "rc_uuid rc w = (Inr u, w') \<Longrightarrow> u \<notin> used w \<and> insert u (used w) \<subseteq> used w' \<and> set u \<inter> {CHR ''/'', CHR ''.''} = {}"
    "rc_shareUpdateStatus rc si w = (r, w') \<Longrightarrow> used w \<subseteq> used w'"
    "rc_instanceUpdateStatus rc ii w = (ri, w') \<Longrightarrow> used w \<subseteq> used w'"
    "rc_instanceCreate rc ii w = (ri, w') \<Longrightarrow> used w \<subseteq> used w'"
    "rc_scList rc w = (rs, w') \<Longrightarrow> used w \<subseteq> used w'"
proof -
  note f = assms[unfolded uuids_fresh_def]
  note f2 = f[THEN conjunct2] note f3 = f2[THEN conjunct2] note f4 = f3[THEN conjunct2]
  show "rc_uuid rc w = (Inr u, w') \<Longrightarrow> u \<notin> used w \<and> insert u (used w) \<subseteq> used w' \<and> set u \<inter> {CHR ''/'', CHR ''.''} = {}"
    by (rule f[THEN conjunct1, rule_format])
  show "rc_shareUpdateStatus rc si w = (r, w') \<Longrightarrow> used w \<subseteq> used w'" by (rule f2[THEN conjunct1, rule_format])
  show "rc_instanceUpdateStatus rc ii w = (ri, w') \<Longrightarrow> used w \<subseteq> used w'" by (rule f3[THEN conjunct1, rule_format])
  show "rc_instanceCreate rc ii w = (ri, w') \<Longrightarrow> used w \<subseteq> used w'" by (rule f4[THEN conjunct1, rule_format])
  show "rc_scList rc w = (rs, w') \<Longrightarrow> used w \<subseteq> used w'" by (rule f4[THEN conjunct2, rule_format])
qed

definition names_used :: "instance_infos \<Rightarrow> string set \<Rightarrow> bool" where
  "names_used I U = (\<forall>k u. mlookup I k \<noteq> None \<longrightarrow> last (split (CHR ''/'') k) = ''fs-'' @ u \<longrightarrow> u \<in> U)"

text \<open>A share is found under its name, and when it waits for an instance it has a region, without a dot,
  and a storage class with its tag.\<close>

definition waits :: "ShareInfo \<Rightarrow> bool" where
  "waits si = (handle_of si = [] \<and> \<not> sfo_Deleted si \<and> sfo_InstancePoolTag si \<noteq> [])"

definition assignable :: "'w ReconClient \<Rightarrow> string \<Rightarrow> ShareInfo \<Rightarrow> bool" where
  "assignable rc n si = (sfo_Name si = n \<and> (waits si \<longrightarrow>
     sfo_Region si \<noteq> [] \<and> CHR ''.'' \<notin> set (sfo_Region si) \<and> class_found rc (sfo_InstancePoolTag si)))"

subsection \<open>What changes\<close>

text \<open>An instance only gets share names at the end of its list.\<close>

definition with_names :: "InstanceInfo \<Rightarrow> string list \<Rightarrow> InstanceInfo" where
  "with_names ii ns = ii\<lparr>ifo_Status := Some ((instance_status ii)\<lparr>ist_ShareNames := share_names ii @ ns\<rparr>)\<rparr>"

definition grown :: "InstanceInfo \<Rightarrow> InstanceInfo \<Rightarrow> bool" where
  "grown ii ii' = (ii' = ii \<or> (\<exists>ns. ii' = with_names ii ns))"

lemma with_names_simps [simp]:
  "share_names (with_names ii ns) = share_names ii @ ns" "ifo_Name (with_names ii ns) = ifo_Name ii"
  "ifo_Labels (with_names ii ns) = ifo_Labels ii" "ifo_Deleted (with_names ii ns) = ifo_Deleted ii"
  "ifo_Parameters (with_names ii ns) = ifo_Parameters ii" "with_names (with_names ii ns) ms = with_names ii (ns @ ms)"
  by (simp_all add: with_names_def share_names_def instance_status_def)

lemma grown_refl: "grown ii ii"
  by (simp add: grown_def)

lemma grown_trans: "grown a b \<Longrightarrow> grown b c \<Longrightarrow> grown a c"
  unfolding grown_def by (metis with_names_simps(6))

lemma grownD:
  assumes "grown ii ii'"
  shows "set (share_names ii) \<subseteq> set (share_names ii')" "ifo_Name ii' = ifo_Name ii" "ifo_Labels ii' = ifo_Labels ii"
    "ifo_Deleted ii' = ifo_Deleted ii"
  using assms by (auto simp: grown_def)

lemma grown_fits: "grown ii ii' \<Longrightarrow> instanceFitShare ext cfg ii' si \<Longrightarrow> instanceFitShare ext cfg ii si"
  by (cases "ifo_Status ii") (auto simp: grown_def with_names_def instanceFitShare_def share_names_def instance_status_def split: if_splits)

definition all_grown :: "instance_infos \<Rightarrow> instance_infos \<Rightarrow> bool" where
  "all_grown I I' = (\<forall>k ii. mlookup I k = Some ii \<longrightarrow> (\<exists>ii'. mlookup I' k = Some ii' \<and> grown ii ii'))"

lemma all_grownD: "all_grown I I' \<Longrightarrow> mlookup I k = Some ii \<Longrightarrow> \<exists>ii'. mlookup I' k = Some ii' \<and> grown ii ii'"
  by (simp add: all_grown_def)

lemma all_grown_refl: "all_grown I I"
  by (simp add: all_grown_def grown_refl)

lemma all_grown_trans: "all_grown I J \<Longrightarrow> all_grown J K \<Longrightarrow> all_grown I K"
  unfolding all_grown_def using grown_trans by metis

lemma all_grown_None: "all_grown I J \<Longrightarrow> mlookup J k = None \<Longrightarrow> mlookup I k = None"
  unfolding all_grown_def by (metis option.collapse option.discI)

lemma all_grown_insert:
  "mlookup I k = None \<or> (\<exists>ii0. mlookup I k = Some ii0 \<and> grown ii0 ii) \<Longrightarrow> all_grown I (minsert k ii I)"
  by (auto simp: all_grown_def grown_refl)

text \<open>The share \<open>si\<close> is listed by the instance \<open>uri\<close>, which is to stay, is of the class of the share, and could
  take it if it was there before.\<close>

definition placed_in :: "'ts externals \<Rightarrow> config \<Rightarrow> instance_infos \<Rightarrow> instance_infos \<Rightarrow> ShareInfo \<Rightarrow> string \<Rightarrow> bool" where
  "placed_in ext cfg I I' si uri = (uri \<noteq> []
     \<and> (\<exists>ii'. mlookup I' uri = Some ii' \<and> sfo_Name si \<in> set (share_names ii') \<and> \<not> ifo_Deleted ii'
          \<and> mget (ifo_Labels ii') ParamMultishareInstanceScLabel = sfo_InstancePoolTag si)
     \<and> (\<forall>ii. mlookup I uri = Some ii \<longrightarrow> instanceFitShare ext cfg ii si))"

text \<open>The instance \<open>k\<close> is new, in the project of the driver and the region of a waiting share that none of the instances
  that were there could take, and still none can.\<close>

definition new_uri :: "config \<Rightarrow> ShareInfo \<Rightarrow> string \<Rightarrow> string" where
  "new_uri cfg si u = instanceURI (cfg_Project cfg) (sfo_Region si) (''fs-'' @ u)"

definition made_for :: "'ts externals \<Rightarrow> config \<Rightarrow> share_infos \<Rightarrow> instance_infos \<Rightarrow> instance_infos \<Rightarrow> string \<Rightarrow> bool" where
  "made_for ext cfg S I I' k = (\<exists>m si u. mlookup S m = Some si \<and> waits si \<and> k = new_uri cfg si u
     \<and> (\<forall>j ii'. mlookup I j \<noteq> None \<longrightarrow> mlookup I' j = Some ii' \<longrightarrow> \<not> instanceFitShare ext cfg ii' si))"

lemma placed_grown:
  assumes "placed_in ext cfg I I1 si uri" "all_grown I1 I'"
  shows "placed_in ext cfg I I' si uri"
proof -
  obtain ii1 where "mlookup I1 uri = Some ii1" "sfo_Name si \<in> set (share_names ii1)" "\<not> ifo_Deleted ii1"
      "mget (ifo_Labels ii1) ParamMultishareInstanceScLabel = sfo_InstancePoolTag si"
    using assms(1) by (auto simp: placed_in_def)
  moreover obtain ii' where "mlookup I' uri = Some ii'" "grown ii1 ii'" using all_grownD[OF assms(2)] calculation(1) by blast
  ultimately show ?thesis using assms(1) grownD[of ii1 ii'] by (auto simp: placed_in_def)
qed

lemma placed_before: "all_grown I I1 \<Longrightarrow> placed_in ext cfg I1 I' si uri \<Longrightarrow> placed_in ext cfg I I' si uri"
  unfolding placed_in_def using all_grownD grown_fits by metis

lemma made_for_grown:
  assumes "made_for ext cfg S I I1 k" "all_grown I I1" "all_grown I1 I'"
  shows "made_for ext cfg S I I' k"
proof -
  obtain m si u where m: "mlookup S m = Some si" "waits si" "k = new_uri cfg si u"
      "\<forall>j ii'. mlookup I j \<noteq> None \<longrightarrow> mlookup I1 j = Some ii' \<longrightarrow> \<not> instanceFitShare ext cfg ii' si"
    using assms(1) unfolding made_for_def by blast
  have "\<not> instanceFitShare ext cfg ii' si" if j: "mlookup I j \<noteq> None" "mlookup I' j = Some ii'" for j ii'
  proof -
    obtain ii1 where i1: "mlookup I1 j = Some ii1" using j(1) all_grown_None[OF assms(2)] by fastforce
    then have "grown ii1 ii'" using all_grownD[OF assms(3) i1] j(2) by auto
    then show ?thesis using m(4) j(1) i1 grown_fits by blast
  qed
  then show ?thesis using m unfolding made_for_def by blast
qed

lemma made_for_before:
  assumes "made_for ext cfg S1 I1 I' k" "all_grown I I1" "\<And>m si. mlookup S1 m = Some si \<Longrightarrow> waits si \<Longrightarrow> mlookup S m = Some si"
  shows "made_for ext cfg S I I' k"
  using assms all_grown_None[OF assms(2)] unfolding made_for_def by metis

subsection \<open>One share\<close>

definition pointed :: "ShareInfo \<Rightarrow> string \<Rightarrow> ShareInfo" where
  "pointed si uri = si\<lparr>sfo_Status := Some ((share_status si)\<lparr>st_InstanceHandle := uri\<rparr>)\<rparr>"

lemma pointed_not_waits: "uri \<noteq> [] \<Longrightarrow> \<not> waits (pointed si uri)"
  by (simp add: waits_def pointed_def)

lemma assignShare_grown:
  assumes api: "api_answers rc" and fresh: "uuids_fresh rc used"
  shows "\<exists>ii' w'. assignShareToInstanceInfo rc ii n w = (Inr ii', w') \<and> grown ii ii' \<and> n \<in> set (share_names ii') \<and> used w \<subseteq> used w'"
proof (cases "n \<in> set (share_names ii)")
  case True
  then show ?thesis by (simp add: assignShareToInstanceInfo_def share_names_def Let_def grown_refl)
next
  case False
  obtain w' where u: "rc_instanceUpdateStatus rc (with_names ii [n]) w = (Inr (with_names ii [n]), w')"
    using api_answersD(2)[OF api] by blast
  then have "assignShareToInstanceInfo rc ii n w = (Inr (with_names ii [n]), w')"
    using False by (simp add: assignShareToInstanceInfo_def with_names_def share_names_def Let_def)
  then show ?thesis using uuids_freshD(3)[OF fresh u] by (auto simp: grown_def)
qed

lemma pick_instance_spec:
  assumes api: "api_answers rc" "uuids_fresh rc used" and k: "keyed I"
  shows "\<exists>uri I' w'. pick_instance ext cfg rc si I ks [] False w = (Inr (uri, False, I'), w') \<and> used w \<subseteq> used w'
    \<and> (uri = [] \<and> I' = I \<and> (\<forall>j \<in> set ks. \<forall>ii. mlookup I j = Some ii \<longrightarrow> \<not> instanceFitShare ext cfg ii si)
       \<or> uri \<noteq> [] \<and> (\<exists>ii ii'. mlookup I uri = Some ii \<and> instanceFitShare ext cfg ii si \<and> I' = minsert uri ii' I
            \<and> grown ii ii' \<and> sfo_Name si \<in> set (share_names ii')))"
proof (induction ks arbitrary: w)
  case Nil
  then show ?case by simp
next
  case (Cons j ks)
  show ?case
  proof (cases "\<exists>ii. mlookup I j = Some ii \<and> instanceFitShare ext cfg ii si")
    case True
    then obtain ii where ii: "mlookup I j = Some ii" "instanceFitShare ext cfg ii si" by blast
    obtain ii' w1 where a: "assignShareToInstanceInfo rc ii (sfo_Name si) w = (Inr ii', w1)" "grown ii ii'"
        "sfo_Name si \<in> set (share_names ii')" "used w \<subseteq> used w1"
      using assignShare_grown[OF api] by blast
    have "InstanceInfoNameToInstanceURI (ifo_Name ii) = j" "j \<noteq> []" using k ii(1) by (simp_all add: keyed_def)
    then show ?thesis
      using ii a by (simp add: Let_def logged_Inr[where m = "assignShareToInstanceInfo rc ii (sfo_Name si)", OF a(1)])
        blast
  next
    case False
    then show ?thesis using Cons.IH[of w] by (auto split: option.splits)
  qed
qed

lemma storage_class_loop_tag: "storage_class_loop t scs = Inr sc \<Longrightarrow> mget (sc_Parameters sc) ParamMultishareInstanceScLabel = t"
  by (induction t scs rule: storage_class_loop.induct) (auto split: if_splits)

lemma generateInstance_fresh:
  assumes api: "api_answers rc" "uuids_fresh rc used" "class_found rc tag"
  shows "\<exists>ii w'. generateInstanceInfo rc uri tag params w = (Inr ii, w') \<and> ifo_Name ii = InstanceURIToInstanceInfoName uri
    \<and> \<not> ifo_Deleted ii \<and> mget (ifo_Labels ii) ParamMultishareInstanceScLabel = tag \<and> used w \<subseteq> used w'"
proof -
  obtain sc w1 where c: "storageClassFromTag rc tag w = (Inr sc, w1)" using api(3) unfolding class_found_def by blast
  then have t: "mget (sc_Parameters sc) ParamMultishareInstanceScLabel = tag" and u: "used w \<subseteq> used w1"
    using uuids_freshD(5)[OF api(2)] storage_class_loop_tag
    by (auto simp: storageClassFromTag_def bind_Inr_iff lift_Inr split: if_splits)
  obtain ii w2 where i: "rc_instanceCreate rc ii w1 = (Inr ii, w2)"
    "ii = \<lparr>ifo_Name = InstanceURIToInstanceInfoName uri, ifo_Finalizers = [FilestoreResourceCleanupFinalizer],
        ifo_Labels = [(ParamMultishareInstanceScLabel, mget (sc_Parameters sc) ParamMultishareInstanceScLabel)],
        ifo_Deleted = False, ifo_CapacityBytes = MinMultishareInstanceSizeBytes, ifo_StorageClassName = sc_Name sc,
        ifo_Parameters = params, ifo_Status = None\<rparr>"
    using api_answersD(3)[OF api(1)] by blast
  have "generateInstanceInfo rc uri tag params w = (Inr ii, w2)"
    using c i by (simp add: generateInstanceInfo_def bind_Inr[where m = "storageClassFromTag rc tag", OF c])
  moreover have "mget (ifo_Labels ii) ParamMultishareInstanceScLabel = tag" using t by (simp add: i(2) mget_def)
  ultimately show ?thesis using uuids_freshD(4)[OF api(2) i(1)] u by (auto simp: i(2))
qed

lemma new_instance_spec:
  assumes api: "api_answers rc" "uuids_fresh rc used" and p: "cfg_Project cfg \<noteq> []" "sfo_Region si \<noteq> []"
    and c: "class_found rc (sfo_InstancePoolTag si)"
  shows "\<exists>u ii w'. new_instance_for cfg rc si w = (Inr (Some (new_uri cfg si u, ii)), w')
    \<and> u \<notin> used w \<and> insert u (used w) \<subseteq> used w' \<and> set u \<inter> {CHR ''/'', CHR ''.''} = {}
    \<and> ifo_Name ii = InstanceURIToInstanceInfoName (new_uri cfg si u) \<and> \<not> ifo_Deleted ii
    \<and> mget (ifo_Labels ii) ParamMultishareInstanceScLabel = sfo_InstancePoolTag si \<and> sfo_Name si \<in> set (share_names ii)"
proof -
  obtain u w2 where u: "rc_uuid rc w = (Inr u, w2)" using api_answersD(4)[OF api(1)] by blast
  have uri: "uri_or_empty (empty_instance\<lparr>mi_Project := cfg_Project cfg, mi_Location := sfo_Region si, mi_Name := ''fs-'' @ u\<rparr>)
      = new_uri cfg si u"
    using p by (simp add: uri_or_empty_def GenerateMultishareInstanceURI_def new_uri_def)
  obtain ii w3 where g: "generateInstanceInfo rc (new_uri cfg si u) (sfo_InstancePoolTag si) (sfo_Parameters si) w2 = (Inr ii, w3)"
    "ifo_Name ii = InstanceURIToInstanceInfoName (new_uri cfg si u)" "\<not> ifo_Deleted ii"
    "mget (ifo_Labels ii) ParamMultishareInstanceScLabel = sfo_InstancePoolTag si" "used w2 \<subseteq> used w3"
    using generateInstance_fresh[OF api c] by blast
  obtain ii' w4 where h: "assignShareToInstanceInfo rc ii (sfo_Name si) w3 = (Inr ii', w4)" "grown ii ii'"
    "sfo_Name si \<in> set (share_names ii')" "used w3 \<subseteq> used w4"
    using assignShare_grown[OF api] by blast
  have "new_instance_for cfg rc si w = (Inr (Some (new_uri cfg si u, ii')), w4)"
    using u g(1) h(1) uri by (simp add: new_instance_for_def Let_def logged_def attempt_eq bind_def)
  moreover have "u \<notin> used w \<and> insert u (used w) \<subseteq> used w4 \<and> set u \<inter> {CHR ''/'', CHR ''.''} = {}"
    using uuids_freshD(1)[OF api(2) u] g(5) h(4) by auto
  ultimately show ?thesis using g(2-4) h(3) grownD[OF h(2)] by (intro exI[of _ u] exI[of _ ii'] exI[of _ w4]) simp
qed

lemma new_uri_facts:
  assumes "set u \<inter> {CHR ''/'', CHR ''.''} = {}" "CHR ''.'' \<notin> set (cfg_Project cfg)" "CHR ''.'' \<notin> set (sfo_Region si)"
  shows "new_uri cfg si u \<noteq> []" "last (split (CHR ''/'') (new_uri cfg si u)) = ''fs-'' @ u"
    "InstanceInfoNameToInstanceURI (InstanceURIToInstanceInfoName (new_uri cfg si u)) = new_uri cfg si u"
proof -
  have e: "new_uri cfg si u = (''projects/'' @ cfg_Project cfg @ ''/locations/'' @ sfo_Region si @ ''/instances'') @ CHR ''/'' # (''fs-'' @ u)"
    by (simp add: new_uri_def instanceURI_def)
  show "new_uri cfg si u \<noteq> []" by (simp add: e)
  show "last (split (CHR ''/'') (new_uri cfg si u)) = ''fs-'' @ u"
    unfolding e split_append_sep using assms(1) by (simp add: split_no_sep)
  show "InstanceInfoNameToInstanceURI (InstanceURIToInstanceInfoName (new_uri cfg si u)) = new_uri cfg si u"
    using assms by (intro uri_of_name) (simp add: e)
qed

lemma keyed_grown:
  "keyed I \<Longrightarrow> mlookup I k = Some ii \<Longrightarrow> grown ii ii' \<Longrightarrow> keyed (minsert k ii' I)"
  using grownD(2) by (auto simp: keyed_def)

lemma assign_share_spec:
  assumes api: "api_answers rc" "uuids_fresh rc used" "visits_all rc" and I: "keyed I" "names_used I (used w)"
    and p: "cfg_Project cfg \<noteq> []" "CHR ''.'' \<notin> set (cfg_Project cfg)" and s: "waits si" "assignable rc n si"
  shows "\<exists>uri I' w'. assign_share ext cfg rc si S I w = (Inr (minsert n (pointed si uri) S, I'), w')
    \<and> keyed I' \<and> names_used I' (used w') \<and> all_grown I I' \<and> placed_in ext cfg I I' si uri
    \<and> (\<forall>k. mlookup I k = None \<longrightarrow> mlookup I' k \<noteq> None \<longrightarrow> (\<exists>u. k = new_uri cfg si u)
         \<and> (\<forall>j ii'. mlookup I j \<noteq> None \<longrightarrow> mlookup I' j = Some ii' \<longrightarrow> \<not> instanceFitShare ext cfg ii' si))"
proof -
  have w: "handle_of si = []" "\<not> sfo_Deleted si" "sfo_InstancePoolTag si \<noteq> []" "sfo_Name si = n"
      "sfo_Region si \<noteq> []" "CHR ''.'' \<notin> set (sfo_Region si)" "class_found rc (sfo_InstancePoolTag si)"
    using s by (auto simp: waits_def assignable_def)
  let ?ks = "rc_visit rc (keys I)"
  obtain uri I1 w1 where k: "pick_instance ext cfg rc si I ?ks [] False w = (Inr (uri, False, I1), w1)" "used w \<subseteq> used w1"
      and r: "uri = [] \<and> I1 = I \<and> (\<forall>j \<in> set ?ks. \<forall>ii. mlookup I j = Some ii \<longrightarrow> \<not> instanceFitShare ext cfg ii si)
       \<or> uri \<noteq> [] \<and> (\<exists>ii ii'. mlookup I uri = Some ii \<and> instanceFitShare ext cfg ii si \<and> I1 = minsert uri ii' I
            \<and> grown ii ii' \<and> sfo_Name si \<in> set (share_names ii'))"
    using pick_instance_spec[OF api(1,2) I(1), of ext cfg si ?ks w] by (elim exE conjE) (rule that; assumption)
  have answered: "\<exists>w'. assignInstanceToShareInfo rc si u v = (Inr (pointed si u), w') \<and> used v \<subseteq> used w'" for u v
  proof -
    obtain w' where "assignInstanceToShareInfo rc si u v = (Inr (pointed si u), w')"
      using assignInstance_step[OF api(1), of si u v] by (auto simp: pointed_def)
    then show ?thesis using uuids_freshD(2)[OF api(2)] by (auto simp: assignInstanceToShareInfo_def)
  qed
  have run: "assign_share ext cfg rc si S I w = (if uri \<noteq> [] then logged (assignInstanceToShareInfo rc si uri)
         (\<lambda>_. ret (S, I1)) (\<lambda>si'. ret (minsert (sfo_Name si') si' S, I1))
       else bind (new_instance_for cfg rc si) (\<lambda>new. case new of None \<Rightarrow> ret (S, I1)
         | Some (uri', ii) \<Rightarrow> logged (assignInstanceToShareInfo rc si uri')
             (\<lambda>_. ret (S, minsert uri' ii I1)) (\<lambda>si'. ret (minsert (sfo_Name si') si' S, minsert uri' ii I1)))) w1"
    using w(1-3) by (simp add: assign_share_def Let_def bind_Inr[where m = "pick_instance ext cfg rc si I ?ks [] False", OF k(1)])
  have nm: "sfo_Name (pointed si u) = n" for u using w(4) by (simp add: pointed_def)
  from r show ?thesis
  proof
    assume "uri \<noteq> [] \<and> (\<exists>ii ii'. mlookup I uri = Some ii \<and> instanceFitShare ext cfg ii si \<and> I1 = minsert uri ii' I
            \<and> grown ii ii' \<and> sfo_Name si \<in> set (share_names ii'))"
    then obtain ii ii' where i: "uri \<noteq> []" "mlookup I uri = Some ii" "instanceFitShare ext cfg ii si" "I1 = minsert uri ii' I"
        "grown ii ii'" "sfo_Name si \<in> set (share_names ii')" by blast
    obtain w2 where a: "assignInstanceToShareInfo rc si uri w1 = (Inr (pointed si uri), w2)" "used w1 \<subseteq> used w2" using answered by blast
    have "assign_share ext cfg rc si S I w = (Inr (minsert n (pointed si uri) S, I1), w2)"
      using run i(1) by (simp add: logged_Inr[where m = "assignInstanceToShareInfo rc si uri", OF a(1)] nm)
    moreover have "keyed I1" "all_grown I I1" using keyed_grown[OF I(1) i(2,5)] all_grown_insert i(2,4,5) by auto
    moreover have "names_used I1 (used w2)" using I(2) i(2,4) k(2) a(2) by (auto simp: names_used_def)
    moreover have "placed_in ext cfg I I1 si uri"
      using i grownD[OF i(5)] by (auto simp: placed_in_def instanceFitShare_def split: if_splits)
    moreover have "mlookup I1 j \<noteq> None \<Longrightarrow> mlookup I j \<noteq> None" for j using i(2,4) by (auto split: if_splits)
    ultimately show ?thesis by blast
  next
    assume r: "uri = [] \<and> I1 = I \<and> (\<forall>j \<in> set ?ks. \<forall>ii. mlookup I j = Some ii \<longrightarrow> \<not> instanceFitShare ext cfg ii si)"
    obtain u ii w2 where n: "new_instance_for cfg rc si w1 = (Inr (Some (new_uri cfg si u, ii)), w2)"
        "u \<notin> used w1" "insert u (used w1) \<subseteq> used w2" "set u \<inter> {CHR ''/'', CHR ''.''} = {}"
        "ifo_Name ii = InstanceURIToInstanceInfoName (new_uri cfg si u)" "\<not> ifo_Deleted ii"
        "mget (ifo_Labels ii) ParamMultishareInstanceScLabel = sfo_InstancePoolTag si" "sfo_Name si \<in> set (share_names ii)"
      using new_instance_spec[OF api(1,2) p(1) w(5,7), of w1] by (elim exE conjE) (rule that; assumption)
    let ?U = "new_uri cfg si u"
    note U = new_uri_facts[OF n(4) p(2) w(6)]
    obtain w3 where a: "assignInstanceToShareInfo rc si ?U w2 = (Inr (pointed si ?U), w3)" "used w2 \<subseteq> used w3" using answered by blast
    have free: "mlookup I ?U = None"
    proof (rule ccontr)
      assume "mlookup I ?U \<noteq> None"
      then have "u \<in> used w" using I(2) U(2) unfolding names_used_def by blast
      then show False using n(2) k(2) by blast
    qed
    have R: "assign_share ext cfg rc si S I w = (Inr (minsert n (pointed si ?U) S, minsert ?U ii I), w3)"
      using run r by (simp add: bind_Inr[where m = "new_instance_for cfg rc si", OF n(1)]
          logged_Inr[where m = "assignInstanceToShareInfo rc si ?U", OF a(1)] nm)
    have K: "keyed (minsert ?U ii I)" using I(1) U n(5) by (auto simp: keyed_def)
    have G: "all_grown I (minsert ?U ii I)" using free by (intro all_grown_insert) simp
    have N: "names_used (minsert ?U ii I) (used w3)" using I(2) U(2) k(2) n(3) a(2) by (fastforce simp: names_used_def)
    have P: "placed_in ext cfg I (minsert ?U ii I) si ?U" using U(1) n(6-8) free by (simp add: placed_in_def)
    have full: "\<not> instanceFitShare ext cfg ii' si" if "mlookup I j \<noteq> None" "mlookup (minsert ?U ii I) j = Some ii'" for j ii'
    proof -
      have j: "mlookup I j = Some ii'" using that free by (auto split: if_splits)
      then have "j \<in> set ?ks" using api(3) mlookup_Some_keys[OF j] by (auto simp: visits_all_def)
      then show ?thesis using r j by simp
    qed
    have J: "j = ?U" if "mlookup I j = None" "mlookup (minsert ?U ii I) j \<noteq> None" for j using that by (auto split: if_splits)
    show ?thesis
    proof (rule exI[of _ ?U], rule exI[of _ "minsert ?U ii I"], rule exI[of _ w3], intro conjI allI impI R K N G P)
      fix j assume j: "mlookup I j = None" "mlookup (minsert ?U ii I) j \<noteq> None"
      show "\<exists>u. j = new_uri cfg si u" using J[OF j] by blast
      show "\<not> instanceFitShare ext cfg ii' si" if "mlookup I i \<noteq> None" "mlookup (minsert ?U ii I) i = Some ii'" for i ii'
        by (rule full[OF that])
    qed
  qed
qed

subsection \<open>All shares\<close>

definition all_placed ::
  "'ts externals \<Rightarrow> config \<Rightarrow> string set \<Rightarrow> share_infos \<Rightarrow> instance_infos \<Rightarrow> share_infos \<Rightarrow> instance_infos \<Rightarrow> bool" where
  "all_placed ext cfg visited S I S' I' =
     ((\<forall>n. mlookup S n = None \<longrightarrow> mlookup S' n = None)
      \<and> (\<forall>n si. mlookup S n = Some si \<longrightarrow> (if waits si \<and> n \<in> visited
           then \<exists>uri. mlookup S' n = Some (pointed si uri) \<and> placed_in ext cfg I I' si uri
           else mlookup S' n = Some si)))"

lemma assign_shares_spec:
  assumes api: "api_answers rc" "uuids_fresh rc used" "visits_all rc" and p: "cfg_Project cfg \<noteq> []" "CHR ''.'' \<notin> set (cfg_Project cfg)"
    and "keyed I" "names_used I (used w)" "\<forall>n si. mlookup S n = Some si \<longrightarrow> assignable rc n si"
  shows "\<exists>S' I' w'. assign_shares ext cfg rc ks S I w = (Inr (S', I'), w') \<and> all_grown I I'
    \<and> all_placed ext cfg (set ks) S I S' I'
    \<and> (\<forall>k. mlookup I k = None \<longrightarrow> mlookup I' k \<noteq> None \<longrightarrow> made_for ext cfg S I I' k)"
  using assms(6-8)
proof (induction ks arbitrary: S I w)
  case Nil
  then show ?case by (simp add: all_placed_def all_grown_refl)
next
  case (Cons k ks)
  show ?case
  proof (cases "\<exists>si. mlookup S k = Some si \<and> waits si")
    case False
    obtain S' I' w' where f: "assign_shares ext cfg rc ks S I w = (Inr (S', I'), w')" "all_grown I I'"
        "all_placed ext cfg (set ks) S I S' I'" "\<forall>k. mlookup I k = None \<longrightarrow> mlookup I' k \<noteq> None \<longrightarrow> made_for ext cfg S I I' k"
      using Cons.IH[OF Cons.prems] by blast
    have "assign_shares ext cfg rc (k # ks) S I w = assign_shares ext cfg rc ks S I w"
      using False by (auto simp: assign_share_def waits_def split: option.split)
    moreover have "all_placed ext cfg (set (k # ks)) S I S' I'" using f(3) False by (auto simp: all_placed_def)
    ultimately show ?thesis using f by auto
  next
    case True
    then obtain si where si: "mlookup S k = Some si" "waits si" by blast
    obtain uri I1 w1 where a: "assign_share ext cfg rc si S I w = (Inr (minsert k (pointed si uri) S, I1), w1)"
        "keyed I1" "names_used I1 (used w1)" "all_grown I I1" "placed_in ext cfg I I1 si uri"
      and made: "\<forall>j. mlookup I j = None \<longrightarrow> mlookup I1 j \<noteq> None \<longrightarrow> (\<exists>u. j = new_uri cfg si u)
         \<and> (\<forall>i ii'. mlookup I i \<noteq> None \<longrightarrow> mlookup I1 i = Some ii' \<longrightarrow> \<not> instanceFitShare ext cfg ii' si)"
      using assign_share_spec[OF api Cons.prems(1,2) p si(2)] Cons.prems(3) si(1) by blast
    let ?S = "minsert k (pointed si uri) S"
    have nw: "\<not> waits (pointed si uri)" using a(5) by (intro pointed_not_waits) (simp add: placed_in_def)
    have "assignable rc k (pointed si uri)" using Cons.prems(3) si(1) nw by (simp add: assignable_def pointed_def)
    then have ok: "\<forall>n si. mlookup ?S n = Some si \<longrightarrow> assignable rc n si" using Cons.prems(3) by auto
    obtain S' I' w' where f: "assign_shares ext cfg rc ks ?S I1 w1 = (Inr (S', I'), w')" "all_grown I1 I'"
        "all_placed ext cfg (set ks) ?S I1 S' I'" "\<forall>j. mlookup I1 j = None \<longrightarrow> mlookup I' j \<noteq> None \<longrightarrow> made_for ext cfg ?S I1 I' j"
      using Cons.IH[OF a(2,3) ok] by blast
    have "assign_shares ext cfg rc (k # ks) S I w = (Inr (S', I'), w')"
      using si f(1) by (simp add: bind_Inr[where m = "assign_share ext cfg rc si S I", OF a(1)])
    moreover have "all_placed ext cfg (set (k # ks)) S I S' I'"
      unfolding all_placed_def
    proof (intro conjI allI impI)
      show "mlookup S' n = None" if "mlookup S n = None" for n
      proof -
        have "mlookup ?S n = None" using that si(1) by auto
        then show ?thesis using f(3) by (simp add: all_placed_def)
      qed
      fix n sn assume n: "mlookup S n = Some sn"
      show "if waits sn \<and> n \<in> set (k # ks) then \<exists>uri. mlookup S' n = Some (pointed sn uri) \<and> placed_in ext cfg I I' sn uri
            else mlookup S' n = Some sn"
      proof (cases "n = k")
        case True
        then have "mlookup S' n = Some (pointed si uri)" using f(3) nw by (auto simp: all_placed_def)
        then show ?thesis using True n si placed_grown[OF a(5) f(2)] by auto
      next
        case False
        then have "mlookup ?S n = Some sn" using n by simp
        then have "if waits sn \<and> n \<in> set ks then \<exists>uri. mlookup S' n = Some (pointed sn uri) \<and> placed_in ext cfg I1 I' sn uri
            else mlookup S' n = Some sn" using f(3) by (simp add: all_placed_def)
        moreover have "n \<in> set (k # ks) \<longleftrightarrow> n \<in> set ks" using False by simp
        ultimately show ?thesis using placed_before[OF a(4), of ext cfg I' sn] by (metis (full_types))
      qed
    qed
    moreover have "made_for ext cfg S I I' j" if j: "mlookup I j = None" "mlookup I' j \<noteq> None" for j
    proof (cases "mlookup I1 j = None")
      case True
      then have "made_for ext cfg ?S I1 I' j" using f(4) j(2) by blast
      moreover have "mlookup S m = Some sm" if "mlookup ?S m = Some sm" "waits sm" for m sm using that nw by (auto split: if_splits)
      ultimately show ?thesis by (rule made_for_before[OF _ a(4)])
    next
      case False
      then have "made_for ext cfg S I I1 j" using made j(1) si unfolding made_for_def by blast
      then show ?thesis by (rule made_for_grown[OF _ a(4) f(2)])
    qed
    ultimately show ?thesis using all_grown_trans[OF a(4) f(2)] by blast
  qed
qed

text \<open>C7: Every share gets an instance in a round. Let the API server answer every update and creation, let every
  loop over a map visit each key, let the instances be stored under the URIs of their names, let \<open>uuid\<close>
  return names that are not used yet, and let each waiting share (not being deleted, with a tag, without a
  handle) have a storage class with its tag and a region, neither the region nor the project with a dot. Then
  \<open>assignSharesToEligibleOrNewInstances\<close> returns. Every waiting share is given the handle of an instance of the
  resulting map that lists the share, has its tag and is not being deleted; an instance that was there before could
  take the share. A new instance is in the project and the region of a waiting share that none of those there
  before can take. Shares that did not wait are unchanged, no share and no instance is lost, and an instance only gets share
  names at the end of its list.\<close>

theorem every_share_assigned:
  assumes "api_answers rc" "uuids_fresh rc used" "visits_all rc" "cfg_Project cfg \<noteq> []" "CHR ''.'' \<notin> set (cfg_Project cfg)"
    and "keyed I" "names_used I (used w)" "\<forall>n si. mlookup S n = Some si \<longrightarrow> assignable rc n si"
  shows "\<exists>S' I' w'. assignSharesToEligibleOrNewInstances ext cfg rc S I w = (Inr (S', I'), w')
    \<and> (\<forall>n. mlookup S n = None \<longrightarrow> mlookup S' n = None)
    \<and> (\<forall>n si. mlookup S n = Some si \<longrightarrow> (if waits si
         then \<exists>uri. mlookup S' n = Some (pointed si uri) \<and> placed_in ext cfg I I' si uri
         else mlookup S' n = Some si))
    \<and> all_grown I I'
    \<and> (\<forall>k. mlookup I k = None \<longrightarrow> mlookup I' k \<noteq> None \<longrightarrow> made_for ext cfg S I I' k)"
proof -
  obtain S' I' w' where f: "assign_shares ext cfg rc (rc_visit rc (keys S)) S I w = (Inr (S', I'), w')" "all_grown I I'"
      "all_placed ext cfg (set (rc_visit rc (keys S))) S I S' I'"
      "\<forall>k. mlookup I k = None \<longrightarrow> mlookup I' k \<noteq> None \<longrightarrow> made_for ext cfg S I I' k"
    using assign_shares_spec[OF assms, of ext "rc_visit rc (keys S)"] by (elim exE conjE) (rule that; assumption)
  have "n \<in> set (rc_visit rc (keys S))" if "mlookup S n = Some si" for n si
    using assms(3) mlookup_Some_keys[OF that] by (auto simp: visits_all_def)
  then have "all_placed ext cfg UNIV S I S' I'" using f(3) by (auto simp: all_placed_def)
  then show ?thesis using f(1,2,4) by (intro exI[of _ S'] exI[of _ I'] exI[of _ w']) (simp add: all_placed_def assignSharesToEligibleOrNewInstances_def)
qed

definition demo_waiting :: ShareInfo where
  "demo_waiting = (demo_share_info FS_Unset False)\<lparr>sfo_Status := None\<rparr>"

text \<open>The client of before with identifiers that get longer: the outside world is the length of the next one.\<close>

definition counting_recon :: "nat ReconClient" where
  "counting_recon = demo_recon\<lparr>rc_uuid := (\<lambda>n. (Inr (replicate n (CHR ''a'')), Suc n))\<rparr>"

definition shorter :: "nat \<Rightarrow> string set" where
  "shorter n = {u. length u < n}"

lemma counting_recon_ok: "api_answers counting_recon" "uuids_fresh counting_recon shorter" "visits_all counting_recon"
  by (auto simp: api_answers_def uuids_fresh_def visits_all_def counting_recon_def demo_recon_def shorter_def ret_def)

theorem every_share_assigned_witness:
  "\<exists>S' I' w' uri. assignSharesToEligibleOrNewInstances demo_externals demo_config counting_recon [(''pvc-1'', demo_waiting)] [] 0
       = (Inr (S', I'), w') \<and> mlookup S' ''pvc-1'' = Some (pointed demo_waiting uri)
     \<and> placed_in demo_externals demo_config [] I' demo_waiting uri"
proof -
  let ?S = "[(''pvc-1'', demo_waiting)]"
  have w: "waits demo_waiting" by (simp add: waits_def demo_waiting_def demo_share_info_def handle_of_def share_status_def empty_share_status_def)
  have "\<forall>n si. mlookup ?S n = Some si \<longrightarrow> assignable counting_recon n si"
    by (auto simp: assignable_def class_found_def counting_recon_def demo_recon_def storageClassFromTag_def mget_def demo_waiting_def demo_share_info_def)
  moreover have "keyed []" "names_used [] (shorter 0)" by (simp_all add: keyed_def names_used_def)
  moreover have "cfg_Project demo_config \<noteq> []" "CHR ''.'' \<notin> set (cfg_Project demo_config)" by (simp_all add: demo_config_def)
  ultimately obtain S' I' w' where "assignSharesToEligibleOrNewInstances demo_externals demo_config counting_recon ?S [] 0 = (Inr (S', I'), w')"
      "\<forall>n si. mlookup ?S n = Some si \<longrightarrow> (if waits si
         then \<exists>uri. mlookup S' n = Some (pointed si uri) \<and> placed_in demo_externals demo_config [] I' si uri
         else mlookup S' n = Some si)"
    using every_share_assigned[where rc = counting_recon and used = shorter and S = ?S and I = "[]" and w = 0 and ext = demo_externals
        and cfg = demo_config, OF counting_recon_ok] by blast
  then show ?thesis using w by fastforce
qed

section \<open>No instance gets too many shares\<close>

text \<open>An update or creation of an InstanceInfo that succeeds returns the object as it was sent.\<close>

definition api_echoes :: "'w ReconClient \<Rightarrow> bool" where
  "api_echoes rc = (\<forall>ii w ii' w'. (rc_instanceUpdateStatus rc ii w = (Inr ii', w') \<longrightarrow> ii' = ii)
     \<and> (rc_instanceCreate rc ii w = (Inr ii', w') \<longrightarrow> ii' = ii))"

lemma api_echoesD:
  assumes "api_echoes rc"
  shows "rc_instanceUpdateStatus rc ii w = (Inr ii', w') \<Longrightarrow> ii' = ii" "rc_instanceCreate rc ii w = (Inr ii', w') \<Longrightarrow> ii' = ii"
  using assms unfolding api_echoes_def by blast+

definition within_limit :: "'ts externals \<Rightarrow> config \<Rightarrow> instance_infos \<Rightarrow> bool" where
  "within_limit ext cfg I = (\<forall>k ii. mlookup I k = Some ii \<longrightarrow>
     int (length (share_names ii)) \<le> parseMaxSharePerInstance ext cfg (ifo_Parameters ii))"

lemma max_share_pos: "1 \<le> parseMaxSharePerInstance ext cfg params"
  by (auto simp: parseMaxSharePerInstance_def multishare_consts split: sum.split dest: parseMax_spec)

lemma assigned_length:
  assumes "api_echoes rc" "assignShareToInstanceInfo rc ii n w = (Inr ii', w')"
  shows "length (share_names ii') \<le> Suc (length (share_names ii)) \<and> ifo_Parameters ii' = ifo_Parameters ii"
proof (cases "n \<in> set (share_names ii)")
  case False
  then have "ii' = ii\<lparr>ifo_Status := Some ((instance_status ii)\<lparr>ist_ShareNames := share_names ii @ [n]\<rparr>)\<rparr>"
    using assms(2) api_echoesD(1)[OF assms(1)] by (auto simp: assignShareToInstanceInfo_def Let_def share_names_def)
  then show ?thesis by (simp add: share_names_def instance_status_def)
qed (use assms(2) in \<open>simp add: assignShareToInstanceInfo_def Let_def share_names_def\<close>)

lemma fit_length:
  "instanceFitShare ext cfg ii si \<Longrightarrow> int (Suc (length (share_names ii))) \<le> parseMaxSharePerInstance ext cfg (ifo_Parameters ii)"
  using max_share_pos[of ext cfg "ifo_Parameters ii"]
  by (auto simp: instanceFitShare_def share_names_def instance_status_def empty_instance_status_def split: option.splits if_splits)

lemma pick_within_limit:
  assumes "api_echoes rc" "within_limit ext cfg I" "pick_instance ext cfg rc si I ks uri failed w = (Inr (uri', failed', I'), w')"
  shows "within_limit ext cfg I'"
  using assms(3)
proof (induction ks arbitrary: uri failed w)
  case Nil
  then show ?case using assms(2) by simp
next
  case (Cons k ks)
  show ?case
  proof (cases "\<exists>ii. mlookup I k = Some ii \<and> instanceFitShare ext cfg ii si")
    case False
    then show ?thesis using Cons by (auto split: option.splits if_splits)
  next
    case True
    then obtain ii where ii: "mlookup I k = Some ii" "instanceFitShare ext cfg ii si" by blast
    let ?u = "InstanceInfoNameToInstanceURI (ifo_Name ii)"
    have "logged (assignShareToInstanceInfo rc ii (sfo_Name si)) (\<lambda>_. pick_instance ext cfg rc si I ks ?u True)
        (\<lambda>ii. ret (?u, False, minsert ?u ii I)) w = (Inr (uri', failed', I'), w')"
      using Cons.prems ii by (simp add: Let_def)
    then show ?thesis
    proof (rule logged_Inr_cases)
      fix ii' w1
      assume a: "assignShareToInstanceInfo rc ii (sfo_Name si) w = (Inr ii', w1)"
        and "ret (?u, False, minsert ?u ii' I) w1 = (Inr (uri', failed', I'), w')"
      then have "I' = minsert ?u ii' I" by auto
      moreover have "int (length (share_names ii')) \<le> parseMaxSharePerInstance ext cfg (ifo_Parameters ii')"
        using assigned_length[OF assms(1) a] fit_length[OF ii(2)] by simp
      ultimately show ?thesis using assms(2) by (auto simp: within_limit_def)
    qed (use Cons.IH in blast)
  qed
qed

lemma new_within_limit:
  assumes e: "api_echoes rc" and n: "new_instance_for cfg rc si w = (Inr (Some (uri, ii)), w')"
  shows "int (length (share_names ii)) \<le> parseMaxSharePerInstance ext cfg (ifo_Parameters ii)"
proof -
  obtain uri' ii0 w1 w2 w3 where g: "generateInstanceInfo rc uri' (sfo_InstancePoolTag si) (sfo_Parameters si) w1 = (Inr ii0, w2)"
    and a: "assignShareToInstanceInfo rc ii0 (sfo_Name si) w2 = (Inr ii, w3)"
    using n by (auto simp: new_instance_for_def Let_def bind_Inr_iff elim!: logged_Inr_cases)
  have "share_names ii0 = []"
    using g by (auto simp: generateInstanceInfo_def bind_Inr_iff share_names_def instance_status_def empty_instance_status_def
        dest!: api_echoesD(2)[OF e])
  then show ?thesis using assigned_length[OF e a] max_share_pos[of ext cfg "ifo_Parameters ii"] by simp
qed

lemma assign_share_within_limit:
  assumes "api_echoes rc" "within_limit ext cfg I" "assign_share ext cfg rc si S I w = (Inr (S', I'), w')"
  shows "within_limit ext cfg I'"
proof (cases "handle_of si \<noteq> [] \<or> sfo_Deleted si \<or> sfo_InstancePoolTag si = []")
  case True
  then show ?thesis using assms by (simp add: assign_share_def)
next
  case False
  obtain uri failed I1 w1 where p: "pick_instance ext cfg rc si I (rc_visit rc (keys I)) [] False w = (Inr (uri, failed, I1), w1)"
    using assms(3) False by (auto simp: assign_share_def Let_def bind_Inr_iff)
  note l = pick_within_limit[OF assms(1,2) p]
  show ?thesis
    using assms(3) False l new_within_limit[OF assms(1), of cfg si _ _ _ _ ext]
    by (auto simp: assign_share_def Let_def bind_Inr_iff p within_limit_def split: if_splits option.splits elim!: logged_Inr_cases)
qed

text \<open>C27: The limit on shares. When the objects the API server returns are those it was sent, the assignment of
  shares never takes an instance above the number of shares its parameters allow, a freshly created
  instance included and whatever calls fail on the way.\<close>

theorem assignment_within_limit:
  assumes "api_echoes rc" "within_limit ext cfg I"
    and "assignSharesToEligibleOrNewInstances ext cfg rc S I w = (Inr (S', I'), w')"
  shows "within_limit ext cfg I'"
proof -
  have "assign_shares ext cfg rc ks S I w = (Inr (S', I'), w') \<Longrightarrow> within_limit ext cfg I \<Longrightarrow> within_limit ext cfg I'" for ks
  proof (induction ks arbitrary: S I w)
    case (Cons k ks)
    then show ?case
      using assign_share_within_limit[OF assms(1)] by (fastforce simp: bind_Inr_iff split: option.splits)
  qed simp
  then show ?thesis using assms by (auto simp: assignSharesToEligibleOrNewInstances_def)
qed

theorem assignment_within_limit_witness:
  "\<exists>S' I' w'. assignSharesToEligibleOrNewInstances demo_externals demo_config demo_recon [(''pvc-1'', demo_waiting)]
       [(''b'', demo_instance_info ''b'' (replicate 10 ''x''))] () = (Inr (S', I'), w') \<and> within_limit demo_externals demo_config I'"
proof -
  let ?I = "[(''b'', demo_instance_info ''b'' (replicate 10 ''x''))]"
  let ?x = "assignSharesToEligibleOrNewInstances demo_externals demo_config demo_recon [(''pvc-1'', demo_waiting)] ?I ()"
  have c: "case fst ?x of Inl e \<Rightarrow> False | Inr r \<Rightarrow> True" by code_simp
  then obtain S' I' w' where x: "?x = (Inr (S', I'), w')" by (cases "?x") (auto split: sum.splits)
  have "api_echoes (demo_recon :: unit ReconClient)" by (simp add: api_echoes_def demo_recon_def)
  moreover have "parseMaxSharePerInstance demo_externals demo_config [] = 10"
    by (simp add: parseMaxSharePerInstance_def parseMaxVolumeSizeParam_def multishare_consts)
  then have "within_limit demo_externals demo_config ?I"
    by (simp add: within_limit_def) (simp add: demo_instance_info_def)
  ultimately show ?thesis using assignment_within_limit[OF _ _ x] x by blast
qed

section \<open>One operation at a time\<close>

lemma running_op_found:
  "op \<in> set ops \<Longrightarrow> ro_Target op = uri \<Longrightarrow> ro_Err op = None \<Longrightarrow> fst (running_op uri ops err) \<noteq> None"
  by (induction ops arbitrary: err) (auto split: option.split)

text \<open>C28: No second operation. While an operation runs on a resource, the reconciler does not use the service for it:
  what it does for a share or an instance is then the same with every other service, so that it
  starts nothing and only records errors.\<close>

theorem reconciler_waits_for_running:
  assumes "op \<in> set ops" "ro_Err op = None"
  shows "(ro_Target op = InstanceInfoNameToInstanceURI (ifo_Name ii) \<longrightarrow>
      send_instance ext cfg svc rc ops ii = send_instance ext cfg svc' rc ops ii)
    \<and> (\<forall>parts. ParseInstanceURI (handle_of si) = Inr parts \<longrightarrow> GenerateShareURI (Some (share_of_info si parts)) = Inr (ro_Target op) \<longrightarrow>
      request_share svc rc ops si assigned = request_share svc' rc ops si assigned)"
proof -
  have f: "\<exists>op' err. runningOpMaybeErrForTarget (ro_Target op) ops = (Some op', err)"
    using running_op_found[OF assms(1) refl assms(2), of None]
    by (cases "running_op (ro_Target op) ops None") (auto simp: runningOpMaybeErrForTarget_def)
  then show ?thesis by (auto simp: send_instance_def request_share_def Let_def)
qed

definition demo_op :: "string \<Rightarrow> ReconOp" where
  "demo_op uri = \<lparr>ro_Id = ''op'', ro_Type = InstanceUpdate, ro_Target = uri, ro_Err = None\<rparr>"

theorem reconciler_waits_for_running_witness:
  "\<forall>svc svc' :: unit Service. send_instance demo_externals demo_config svc demo_recon [demo_op ''b''] (demo_instance_info ''b'' [''pvc-1''])
     = send_instance demo_externals demo_config svc' demo_recon [demo_op ''b''] (demo_instance_info ''b'' [''pvc-1''])"
proof (intro allI)
  fix svc svc' :: "unit Service"
  have u: "ro_Target (demo_op ''b'') = InstanceInfoNameToInstanceURI (ifo_Name (demo_instance_info ''b'' [''pvc-1'']))"
    using uri_of_name[of "''b''"] by (simp add: demo_op_def)
  have o: "demo_op ''b'' \<in> set [demo_op ''b'']" "ro_Err (demo_op ''b'') = None" by (simp_all add: demo_op_def)
  show "send_instance demo_externals demo_config svc demo_recon [demo_op ''b''] (demo_instance_info ''b'' [''pvc-1''])
     = send_instance demo_externals demo_config svc' demo_recon [demo_op ''b''] (demo_instance_info ''b'' [''pvc-1''])"
    using reconciler_waits_for_running[OF o] u by blast
qed

section \<open>Only what is marked is deleted\<close>

lemma reserve_other_delete [simp]: "reserveIPRange (svc\<lparr>svc_StartDeleteMultishareInstanceOp := f\<rparr>) = reserveIPRange svc"
  by (simp add: fun_eq_iff reserveIPRange_def getCloudInstancesReservedIPRanges_def)

lemma recon_reserve_other [simp]: "recon_reserve (svc\<lparr>svc_StartDeleteMultishareInstanceOp := f\<rparr>) = recon_reserve svc"
  by (simp add: fun_eq_iff recon_reserve_def split: option.split)

lemma recon_reserve_other_delete [simp]:
  "recon_generateNewMultishareInstance ext cfg (svc\<lparr>svc_StartDeleteMultishareInstanceOp := f\<rparr>) rc ii
     = recon_generateNewMultishareInstance ext cfg svc rc ii"
  by (simp add: recon_generateNewMultishareInstance_def)

lemma start_instance_other_delete:
  "\<not> ifo_Deleted ii \<Longrightarrow> start_instance_op ext cfg (svc\<lparr>svc_StartDeleteMultishareInstanceOp := f\<rparr>) rc ii = start_instance_op ext cfg svc rc ii"
  by (cases "basicMultishareInstanceFromInstanceInfo ii") (simp_all add: start_instance_op_def)

lemma send_instance_other_delete:
  "\<not> ifo_Deleted ii \<Longrightarrow> send_instance ext cfg (svc\<lparr>svc_StartDeleteMultishareInstanceOp := f\<rparr>) rc ops ii = send_instance ext cfg svc rc ops ii"
  by (cases "runningOpMaybeErrForTarget (InstanceInfoNameToInstanceURI (ifo_Name ii)) ops")
    (simp add: send_instance_def start_instance_other_delete)

lemma start_share_other_delete [simp]:
  "\<not> sfo_Deleted si \<Longrightarrow> start_share_op (svc\<lparr>svc_StartDeleteShareOp := f\<rparr>) si = start_share_op svc si"
  by (simp add: fun_eq_iff start_share_op_def)

lemma request_share_other_delete:
  "\<not> sfo_Deleted si \<Longrightarrow> request_share (svc\<lparr>svc_StartDeleteShareOp := f\<rparr>) rc ops si ii = request_share svc rc ops si ii"
  by (cases "ParseInstanceURI (handle_of si)") (auto simp: request_share_def Let_def split: prod.split)

lemma send_share_other_delete:
  "\<not> sfo_Deleted si \<Longrightarrow> send_share (svc\<lparr>svc_StartDeleteShareOp := f\<rparr>) rc iss ops si I = send_share svc rc iss ops si I"
  by (cases "mlookup I (handle_of si)") (simp_all add: send_share_def Let_def request_share_other_delete)

text \<open>C29: Only what is marked is deleted. When no InstanceInfo carries a deletion timestamp, the requests for
  instances do not depend on the service's deletion of instances, and likewise for shares: the
  reconciler calls neither. And it only asks the API server to delete an InstanceInfo whose status
  lists no share.\<close>

theorem reconciler_deletes_marked:
  "((\<forall>k ii. mlookup I k = Some ii \<longrightarrow> \<not> ifo_Deleted ii) \<longrightarrow>
      sendInstanceRequests ext cfg (svc\<lparr>svc_StartDeleteMultishareInstanceOp := f\<rparr>) rc I ops = sendInstanceRequests ext cfg svc rc I ops)
   \<and> ((\<forall>k si. mlookup S k = Some si \<longrightarrow> \<not> sfo_Deleted si) \<longrightarrow>
      sendShareRequests (svc\<lparr>svc_StartDeleteShareOp := g\<rparr>) rc I S iss ops = sendShareRequests svc rc I S iss ops)
   \<and> (share_names ii \<noteq> [] \<longrightarrow> delete_or_resize (rc\<lparr>rc_instanceDelete := h\<rparr>) uri ii I = delete_or_resize rc uri ii I)"
proof (intro conjI impI)
  assume a: "\<forall>k ii. mlookup I k = Some ii \<longrightarrow> \<not> ifo_Deleted ii"
  have "send_instances ext cfg (svc\<lparr>svc_StartDeleteMultishareInstanceOp := f\<rparr>) rc ops I ks ds = send_instances ext cfg svc rc ops I ks ds" for ks ds
    by (induction ks arbitrary: ds) (use a in \<open>auto simp: send_instance_other_delete split: option.split\<close>)
  then show "sendInstanceRequests ext cfg (svc\<lparr>svc_StartDeleteMultishareInstanceOp := f\<rparr>) rc I ops = sendInstanceRequests ext cfg svc rc I ops"
    by (simp add: sendInstanceRequests_def)
next
  assume a: "\<forall>k si. mlookup S k = Some si \<longrightarrow> \<not> sfo_Deleted si"
  have "send_shares (svc\<lparr>svc_StartDeleteShareOp := g\<rparr>) rc iss ops S ks I = send_shares svc rc iss ops S ks I" for ks I
    by (induction ks arbitrary: I) (use a in \<open>auto simp: send_share_other_delete fun_eq_iff bind_def split: option.split prod.split sum.split\<close>)
  then show "sendShareRequests (svc\<lparr>svc_StartDeleteShareOp := g\<rparr>) rc I S iss ops = sendShareRequests svc rc I S iss ops"
    by (simp add: sendShareRequests_def)
next
  assume "share_names ii \<noteq> []"
  then have "\<not> instanceEmpty ii" by (auto simp: instanceEmpty_def share_names_def instance_status_def split: option.splits)
  moreover have "sum_shares (rc\<lparr>rc_instanceDelete := h\<rparr>) ns n = sum_shares rc ns n" for ns n
    by (induction ns arbitrary: n) simp_all
  then have "instanceInfoNewCapacity (rc\<lparr>rc_instanceDelete := h\<rparr>) ii = instanceInfoNewCapacity rc ii"
    by (simp add: instanceInfoNewCapacity_def)
  ultimately show "delete_or_resize (rc\<lparr>rc_instanceDelete := h\<rparr>) uri ii I = delete_or_resize rc uri ii I"
    by (simp add: delete_or_resize_def case_prod_unfold cong: if_cong)
qed

theorem reconciler_deletes_marked_witness:
  "\<forall>h. delete_or_resize (demo_recon\<lparr>rc_instanceDelete := h\<rparr>) ''b'' (demo_instance_info ''b'' [''pvc-1'']) []
     = (delete_or_resize demo_recon ''b'' (demo_instance_info ''b'' [''pvc-1'']) [] :: (unit, instance_infos) eff)"
proof
  fix h
  have "share_names (demo_instance_info ''b'' [''pvc-1'']) \<noteq> []" by simp
  then show "delete_or_resize (demo_recon\<lparr>rc_instanceDelete := h\<rparr>) ''b'' (demo_instance_info ''b'' [''pvc-1'']) []
     = (delete_or_resize demo_recon ''b'' (demo_instance_info ''b'' [''pvc-1'']) [] :: (unit, instance_infos) eff)"
    using reconciler_deletes_marked[THEN conjunct2, THEN conjunct2] by blast
qed

section \<open>Ranges\<close>

lemma reserve_held:
  assumes "reserveIPRange svc filer cidr d = (res, d')"
  shows "case res of Inl e \<Rightarrow> held_ranges d' = held_ranges d | Inr r \<Rightarrow> held_ranges d' = insert r (held_ranges d)"
proof -
  obtain x d1 where g: "getCloudInstancesReservedIPRanges svc filer d = (x, d1)" by force
  have h: "held_ranges d1 = held_ranges d" using keepsD[OF keeps_reserve_list(2) g] .
  show ?thesis
  proof (cases x)
    case (Inl e)
    then show ?thesis using assms g h by (auto simp: reserveIPRange_def bind_def)
  next
    case (Inr m)
    then have "allocate cidr (ipRangeSizeForTier (si_Tier filer)) m d1 = (res, d')"
      using assms g by (simp add: reserveIPRange_def bind_def)
    from allocate_held[OF ipRangeSizeForTier_bounds this] show ?thesis using h by (auto split: sum.splits)
  qed
qed

lemma on_world_held [simp]: "on_world m d = (r, d') \<Longrightarrow> held_ranges d' = held_ranges d"
  using keepsD[OF keeps_on_world(2)] by blast

lemma recon_reserve_held:
  assumes "recon_reserve svc ii params i d = (res, d')"
  shows "case res of Inl e \<Rightarrow> held_ranges d' = held_ranges d
    | Inr i' \<Rightarrow> held_ranges d' \<subseteq> insert (ReservedIpRange (mi_Network i')) (held_ranges d)"
proof -
  have b: "case res of Inl e \<Rightarrow> held_ranges d' = held_ranges d
      | Inr i' \<Rightarrow> held_ranges d' \<subseteq> insert (ReservedIpRange (mi_Network i')) (held_ranges d)"
    if "bind (reserveIPRange svc (as_service_instance i) cidr) (\<lambda>r. ret (with_range r i)) d = (res, d')" for cidr
    using that reserve_held[of svc "as_service_instance i" cidr d]
    by (auto simp: bind_def with_range_def split: prod.splits sum.splits)
  show ?thesis
    using assms b by (auto simp: recon_reserve_def split: if_splits option.splits sum.splits)
qed

lemma generate_held:
  assumes "recon_generateNewMultishareInstance ext cfg svc rc ii d = (res, d')"
  shows "case res of Inl e \<Rightarrow> held_ranges d' = held_ranges d
    | Inr i' \<Rightarrow> held_ranges d' \<subseteq> insert (ReservedIpRange (mi_Network i')) (held_ranges d)"
  using assms
  by (auto simp: recon_generateNewMultishareInstance_def bind_def bind_err_def lift_def
      split: prod.splits sum.splits dest!: recon_reserve_held)

lemma start_held:
  assumes "start_instance_op ext cfg svc rc ii d = (Inr r, d')"
  shows "held_ranges d' \<subseteq> held_ranges d \<union> (case r of None \<Rightarrow> {} | Some (e, ranges) \<Rightarrow> set ranges)"
  using assms
  by (auto simp: start_instance_op_def bind_Inr_iff split: sum.splits if_splits option.splits elim!: logged_Inr_cases
      dest!: generate_held)

lemma when_err_held: "when_err oe (\<lambda>e. on_world (f e)) d = (r, d') \<Longrightarrow> held_ranges d' = held_ranges d"
  by (cases oe) (auto simp: when_err_def)

lemma send_instance_held:
  assumes "send_instance ext cfg svc rc ops ii d = (Inr ranges, d')"
  shows "held_ranges d' \<subseteq> held_ranges d \<union> set ranges"
  using assms
  by (auto simp: send_instance_def Let_def bind_Inr_iff split: if_splits prod.splits option.splits
      dest!: start_held when_err_held) blast+

lemma release_all: "held_ranges (fold release_ip rs d) = held_ranges d - set rs"
  by (induction rs arbitrary: d) (auto simp: held_release)

text \<open>C30: The reconciler leaks no range. Every range \<open>sendInstanceRequests\<close> reserves for the instances it creates is
  released when the function returns, whether the creations were accepted or not: no range is held
  afterwards that was not held before.\<close>

theorem reconciler_releases_ranges:
  assumes "sendInstanceRequests ext cfg svc rc I ops d = (Inr (), d')"
  shows "held_ranges d' \<subseteq> held_ranges d"
proof -
  have "send_instances ext cfg svc rc ops I ks deferred d = (Inr (), d') \<Longrightarrow> held_ranges d' \<subseteq> held_ranges d - set deferred" for ks deferred
  proof (induction ks arbitrary: deferred d)
    case Nil
    then show ?case using release_all[of deferred d] by auto
  next
    case (Cons k ks)
    then show ?case
      using send_instance_held by (fastforce simp: bind_Inr_iff split: option.splits)
  qed
  then show ?thesis using assms by (fastforce simp: sendInstanceRequests_def)
qed

text \<open>An instance that is to be created, with a range its status already has\<close>

definition demo_new_instance :: InstanceInfo where
  "demo_new_instance = (demo_instance_info ''projects/p/locations/us-c1/instances/a'' [''pvc-1''])\<lparr>ifo_Status :=
     Some (empty_instance_status\<lparr>ist_Cidr := ''10.0.0.0/26''\<rparr>)\<rparr>"

definition cidr_recon :: "'w ReconClient" where
  "cidr_recon = demo_recon\<lparr>rc_scGet := (\<lambda>n. ret \<lparr>sc_Name = n, sc_Parameters = [(ParamReservedIPV4CIDR, ''10.0.0.0/24'')]\<rparr>)\<rparr>"

theorem reconciler_releases_ranges_witness:
  "\<exists>d'. sendInstanceRequests demo_externals demo_config demo_service cidr_recon [(''a'', demo_new_instance)] []
       (demo_driver NewFakeService) = (Inr (), d') \<and> held_ranges d' \<subseteq> held_ranges (demo_driver NewFakeService)"
proof -
  let ?x = "sendInstanceRequests demo_externals demo_config demo_service cidr_recon [(''a'', demo_new_instance)] [] (demo_driver NewFakeService)"
  have c: "case fst ?x of Inl e \<Rightarrow> False | Inr r \<Rightarrow> True" by code_simp
  then obtain d' where x: "?x = (Inr (), d')" by (cases "?x") (auto split: sum.splits)
  then show ?thesis using reconciler_releases_ranges[OF x] by blast
qed

section \<open>Objects reflect shares\<close>

text \<open>The status of an object says what the service says of the share: its size, its state and its
  instance.\<close>

definition reflects :: "Share \<Rightarrow> ShareInfo \<Rightarrow> bool" where
  "reflects share si = (case sfo_Status si of
       None \<Rightarrow> False
     | Some st \<Rightarrow> st_CapacityBytes st = sh_CapacityBytes share
         \<and> ShareStateToCRDStatus (sh_State share) = Inr (st_ShareStatus st)
         \<and> GenerateMultishareInstanceURI (sh_Parent share) = Inr (st_InstanceHandle st))"

definition readable :: "Share \<Rightarrow> bool" where
  "readable share = ((\<exists>st. ShareStateToCRDStatus (sh_State share) = Inr st)
     \<and> (\<exists>uri. GenerateMultishareInstanceURI (sh_Parent share) = Inr uri))"

lemma maybeUpdate_reflects:
  assumes "api_answers rc" "readable share"
  shows "\<exists>si' w'. maybeUpdateShareInfoStatus rc share si w = (Inr si', w') \<and> reflects share si'"
proof -
  obtain st uri where s: "ShareStateToCRDStatus (sh_State share) = Inr st" "GenerateMultishareInstanceURI (sh_Parent share) = Inr uri"
    using assms(2) by (auto simp: readable_def)
  let ?new = "si\<lparr>sfo_Status := Some \<lparr>st_InstanceHandle = uri, st_CapacityBytes = sh_CapacityBytes share,
    st_ShareStatus = st, st_Error = st_Error (share_status si)\<rparr>\<rparr>"
  obtain w1 where u: "rc_shareUpdateStatus rc ?new w = (Inr ?new, w1)" using api_answersD(1)[OF assms(1)] by blast
  show ?thesis
  proof (cases "sfo_Status si \<noteq> None \<and> sh_CapacityBytes share = st_CapacityBytes (share_status si)
      \<and> st = st_ShareStatus (share_status si) \<and> uri = st_InstanceHandle (share_status si)")
    case True
    then have "maybeUpdateShareInfoStatus rc share si w = (Inr si, w)" "reflects share si"
      using s by (auto simp: maybeUpdateShareInfoStatus_def bind_def bind_err_def reflects_def share_status_def)
    then show ?thesis by blast
  next
    case False
    then have "maybeUpdateShareInfoStatus rc share si w = (Inr ?new, w1)"
      using s u by (auto simp: maybeUpdateShareInfoStatus_def bind_def bind_err_def Let_def)
    moreover have "reflects share ?new" using s by (simp add: reflects_def)
    ultimately show ?thesis by blast
  qed
qed

text \<open>C26: The objects refine the service. When the API server answers and every listed share has a state and an instance
  the driver knows, each object \<open>createAndUpdateShareInfos\<close> returns is that of a listed share, under
  its name, and its status is exactly the abstraction of that share: size, state and instance.\<close>

theorem share_infos_reflect:
  assumes "api_answers rc" "\<forall>share \<in> set shares. readable share"
    and "createAndUpdateShareInfos rc shares [] w = (Inr S, w')"
  shows "\<forall>n si. mlookup S n = Some si \<longrightarrow> (\<exists>share \<in> set shares. ShareToShareInfoName (sh_Name share) = n \<and> reflects share si)"
proof -
  let ?P = "\<lambda>shares S. \<forall>n si. mlookup S n = Some si \<longrightarrow> (\<exists>share \<in> set shares. ShareToShareInfoName (sh_Name share) = n \<and> reflects share si)"
  have "createAndUpdateShareInfos rc ss S0 w0 = (Inr S, w') \<Longrightarrow> set ss \<subseteq> set shares \<Longrightarrow> ?P shares S0 \<Longrightarrow> ?P shares S" for ss S0 w0
  proof (induction ss arbitrary: S0 w0)
    case (Cons share ss)
    let ?n = "ShareToShareInfoName (sh_Name share)"
    have rest: "set ss \<subseteq> set shares" using Cons.prems(2) by simp
    have r: "readable share" using Cons.prems(2) assms(2) by auto
    have step: "?P shares S" if u: "logged (maybeUpdateShareInfoStatus rc share si)
          (\<lambda>_. createAndUpdateShareInfos rc ss (minsert ?n si S0))
          (\<lambda>si'. createAndUpdateShareInfos rc ss (minsert ?n si' S0)) w1 = (Inr S, w')" for si w1
    proof -
      obtain si' w2 where m: "maybeUpdateShareInfoStatus rc share si w1 = (Inr si', w2)" "reflects share si'"
        using maybeUpdate_reflects[OF assms(1) r] by blast
      have "createAndUpdateShareInfos rc ss (minsert ?n si' S0) w2 = (Inr S, w')"
        using u by (simp add: logged_Inr[where m = "maybeUpdateShareInfoStatus rc share si", OF m(1)])
      moreover have "share \<in> set shares" using Cons.prems(2) by simp
      then have "?P shares (minsert ?n si' S0)" using Cons.prems(3) m(2) by (metis mlookup_minsert option.inject)
      ultimately show ?thesis by (rule Cons.IH[OF _ rest])
    qed
    from Cons.prems(1) show ?case
      unfolding createAndUpdateShareInfos.simps Let_def
    proof (rule logged_Inr_cases)
      fix si w1
      assume "logged (maybeUpdateShareInfoStatus rc share si)
          (\<lambda>_. createAndUpdateShareInfos rc ss (minsert ?n si S0))
          (\<lambda>si'. createAndUpdateShareInfos rc ss (minsert ?n si' S0)) w1 = (Inr S, w')"
      then show "?P shares S" by (rule step)
    next
      fix w1
      assume "createAndUpdateShareInfos rc ss S0 w1 = (Inr S, w')"
      then show "?P shares S" by (rule Cons.IH[OF _ rest Cons.prems(3)])
    qed
  qed simp
  from this[OF assms(3) subset_refl] show ?thesis by simp
qed

theorem share_infos_reflect_witness:
  "\<exists>S w'. createAndUpdateShareInfos demo_recon [demo_share] [] () = (Inr S, w')
     \<and> (\<forall>n si. mlookup S n = Some si \<longrightarrow> reflects demo_share si)"
proof -
  let ?x = "createAndUpdateShareInfos demo_recon [demo_share] [] ()"
  have c: "case fst ?x of Inl e \<Rightarrow> False | Inr r \<Rightarrow> True" by code_simp
  then obtain S w' where x: "?x = (Inr S, w')" by (cases "?x") (auto split: sum.splits)
  have "case ShareStateToCRDStatus (sh_State demo_share) of Inl e \<Rightarrow> False | Inr r \<Rightarrow> True"
    "case GenerateMultishareInstanceURI (sh_Parent demo_share) of Inl e \<Rightarrow> False | Inr r \<Rightarrow> True" by code_simp+
  then have "\<forall>share \<in> set [demo_share]. readable share" by (auto simp: readable_def split: sum.splits)
  then show ?thesis using share_infos_reflect[OF demo_recon_answers _ x] x by auto
qed

end
