(* ===== verification/Stateful_Path.thy ===== *)
theory Stateful_Path
  imports Reconciler_Rounds "HOL-Library.Sublist"
begin

text \<open>
  The life of one volume in the stateful mode: requests to the stateful controller, rounds of the
  reconciler and completions of operations, in any order, on an API server and a Filestore service in
  memory. The API server keeps the objects as the definitions of the custom resources say
  (\<open>stateful/crd/crd.yaml\<close>): the status is a subresource, so that an update leaves the status alone and
  an update of the status leaves the rest alone; an object with finalizers is only marked when it is
  deleted, and goes with its last finalizer. An operation that the service has started runs until it is
  completed; it does not fail. The volume is the one of a fixed request, in a cluster that has nothing else.
\<close>

section \<open>The API server and the service\<close>

record api_objects =
  ao_shares :: share_infos
  ao_instances :: instance_infos
  ao_classes :: "StorageClass list"
  ao_uuids :: nat

text \<open>What the API server does to an object does not depend on its kind.\<close>

record 'o object_kind =
  ok_all :: "api_objects \<Rightarrow> (string, 'o) gomap"
  ok_store :: "(string, 'o) gomap \<Rightarrow> api_objects \<Rightarrow> api_objects"
  ok_name :: "'o \<Rightarrow> string"
  ok_finalizers :: "'o \<Rightarrow> string list"
  ok_deleted :: "'o \<Rightarrow> bool"
  ok_mark :: "'o \<Rightarrow> 'o"
  ok_fresh :: "'o \<Rightarrow> 'o"
  ok_main :: "'o \<Rightarrow> 'o \<Rightarrow> 'o"
  ok_status :: "'o \<Rightarrow> 'o \<Rightarrow> 'o"

definition object_missing :: "string \<Rightarrow> go_error" where
  "object_missing n = GoogleApiErr 404 n [''notFound'']"

definition is_object_missing :: "go_error \<Rightarrow> bool" where
  "is_object_missing e = (case e of GoogleApiErr code _ _ \<Rightarrow> code = 404 | _ \<Rightarrow> False)"

definition object_get :: "'o object_kind \<Rightarrow> string \<Rightarrow> (api_objects, 'o) eff" where
  "object_get k n a = (case mlookup (ok_all k a) n of None \<Rightarrow> (Inl (object_missing n), a) | Some obj \<Rightarrow> (Inr obj, a))"

definition object_list :: "'o object_kind \<Rightarrow> (api_objects, 'o list) eff" where
  "object_list k a = (Inr (map snd (ok_all k a)), a)"

definition object_put :: "'o object_kind \<Rightarrow> 'o \<Rightarrow> (api_objects, 'o) eff" where
  "object_put k obj a = (Inr obj,
     if ok_deleted k obj \<and> ok_finalizers k obj = [] then ok_store k (mdelete (ok_name k obj) (ok_all k a)) a
     else ok_store k (minsert (ok_name k obj) obj (ok_all k a)) a)"

definition object_create :: "'o object_kind \<Rightarrow> 'o \<Rightarrow> (api_objects, 'o) eff" where
  "object_create k obj = attempt (object_get k (ok_name k obj)) (\<lambda>r. case r of
     Inr _ \<Rightarrow> fail (ErrText ''already exists'')
   | Inl _ \<Rightarrow> object_put k (ok_fresh k obj))"

definition object_update :: "'o object_kind \<Rightarrow> 'o \<Rightarrow> (api_objects, 'o) eff" where
  "object_update k obj = bind (object_get k (ok_name k obj)) (\<lambda>old. object_put k (ok_main k old obj))"

definition object_update_status :: "'o object_kind \<Rightarrow> 'o \<Rightarrow> (api_objects, 'o) eff" where
  "object_update_status k obj = bind (object_get k (ok_name k obj)) (\<lambda>old. object_put k (ok_status k old obj))"

definition object_delete :: "'o object_kind \<Rightarrow> string \<Rightarrow> (api_objects, unit) eff" where
  "object_delete k n = bind (object_get k n) (\<lambda>old. bind (object_put k (ok_mark k old)) (\<lambda>_. ret ()))"

definition share_kind :: "ShareInfo object_kind" where
  "share_kind = \<lparr>ok_all = ao_shares, ok_store = (\<lambda>m a. a\<lparr>ao_shares := m\<rparr>), ok_name = sfo_Name,
     ok_finalizers = sfo_Finalizers, ok_deleted = sfo_Deleted, ok_mark = (\<lambda>s. s\<lparr>sfo_Deleted := True\<rparr>),
     ok_fresh = (\<lambda>s. s\<lparr>sfo_Deleted := False, sfo_Status := None\<rparr>),
     ok_main = (\<lambda>old s. s\<lparr>sfo_Deleted := sfo_Deleted old, sfo_Status := sfo_Status old\<rparr>),
     ok_status = (\<lambda>old s. old\<lparr>sfo_Status := sfo_Status s\<rparr>)\<rparr>"

definition instance_kind :: "InstanceInfo object_kind" where
  "instance_kind = \<lparr>ok_all = ao_instances, ok_store = (\<lambda>m a. a\<lparr>ao_instances := m\<rparr>), ok_name = ifo_Name,
     ok_finalizers = ifo_Finalizers, ok_deleted = ifo_Deleted, ok_mark = (\<lambda>i. i\<lparr>ifo_Deleted := True\<rparr>),
     ok_fresh = (\<lambda>i. i\<lparr>ifo_Deleted := False, ifo_Status := None\<rparr>),
     ok_main = (\<lambda>old i. i\<lparr>ifo_Deleted := ifo_Deleted old, ifo_Status := ifo_Status old\<rparr>),
     ok_status = (\<lambda>old i. old\<lparr>ifo_Status := ifo_Status i\<rparr>)\<rparr>"

text \<open>The outside world has two parts, and each call changes one of them.\<close>

type_synonym outside = "api_objects \<times> fakeServiceManager"

definition on_api :: "(api_objects, 'a) eff \<Rightarrow> (outside, 'a) eff" where
  "on_api m = (\<lambda>(a, f). case m a of (r, a') \<Rightarrow> (r, (a', f)))"

definition on_filestore :: "(fakeServiceManager, 'a) eff \<Rightarrow> (outside, 'a) eff" where
  "on_filestore m = (\<lambda>(a, f). case m f of (r, f') \<Rightarrow> (r, (a, f')))"

definition memory_shares :: "outside ShareInfoClient" where
  "memory_shares = \<lparr>sic_Lister = on_api \<circ> object_get share_kind, sic_Get = on_api \<circ> object_get share_kind,
     sic_Create = on_api \<circ> object_create share_kind, sic_Update = on_api \<circ> object_update share_kind,
     sic_Delete = on_api \<circ> object_delete share_kind, sic_IsNotFound = is_object_missing\<rparr>"

definition class_get :: "string \<Rightarrow> (api_objects, StorageClass) eff" where
  "class_get n a = (case filter (\<lambda>c. sc_Name c = n) (ao_classes a) of
     [] \<Rightarrow> (Inl (object_missing n), a) | c # _ \<Rightarrow> (Inr c, a))"

definition fresh_uuid :: "(api_objects, string) eff" where
  "fresh_uuid a = (Inr (''u'' @ show_nat (ao_uuids a)), a\<lparr>ao_uuids := ao_uuids a + 1\<rparr>)"

definition memory_api :: "outside ReconClient" where
  "memory_api = \<lparr>rc_shares = memory_shares, rc_shareList = on_api (object_list share_kind),
     rc_shareUpdateStatus = on_api \<circ> object_update_status share_kind,
     rc_instanceLister = on_api \<circ> object_get instance_kind, rc_instanceList = on_api (object_list instance_kind),
     rc_instanceGet = on_api \<circ> object_get instance_kind, rc_instanceCreate = on_api \<circ> object_create instance_kind,
     rc_instanceUpdate = on_api \<circ> object_update instance_kind,
     rc_instanceUpdateStatus = on_api \<circ> object_update_status instance_kind,
     rc_instanceDelete = on_api \<circ> object_delete instance_kind,
     rc_scGet = on_api \<circ> class_get, rc_scList = on_api (\<lambda>a. (Inr (ao_classes a), a)),
     rc_uuid = on_api fresh_uuid, rc_visit = id, rc_old = (\<lambda>_. False)\<rparr>"

text \<open>The service of \<open>fake.go\<close>, whose operations are done at once, with operations that run until they are
  completed: until then the instance or the share is there, in state CREATING or DELETING, and the
  operation is in the list.\<close>

definition begun :: "(fakeServiceManager, Operation) eff \<Rightarrow> string \<Rightarrow> string
    \<Rightarrow> (fakeServiceManager \<Rightarrow> fakeServiceManager \<Rightarrow> fakeServiceManager) \<Rightarrow> (fakeServiceManager, Operation) eff" where
  "begun call target verb change m = (case call m of
       (Inl e, m') \<Rightarrow> (Inl e, m)
     | (Inr opn, m') \<Rightarrow> (let opn' = opn\<lparr>op_Done := False, op_Meta := Some (Inr (target, verb))\<rparr> in
         (Inr opn', AddMultishareOps [opn'] (change m m'))))"

definition instance_state :: "string \<Rightarrow> string \<Rightarrow> fakeServiceManager \<Rightarrow> fakeServiceManager" where
  "instance_state n s m = m\<lparr>createdMultishareInstance :=
     map (\<lambda>(k, i). (k, if k = n then i\<lparr>mi_State := s\<rparr> else i)) (createdMultishareInstance m)\<rparr>"

definition share_state :: "string \<Rightarrow> string \<Rightarrow> fakeServiceManager \<Rightarrow> fakeServiceManager" where
  "share_state n s m = m\<lparr>createdMultishares :=
     map (\<lambda>(k, t). (k, if k = n then t\<lparr>sh_State := s\<rparr> else t)) (createdMultishares m)\<rparr>"

definition instance_target :: "MultishareInstance \<Rightarrow> string" where
  "instance_target i = instanceURI (mi_Project i) (mi_Location i) (mi_Name i)"

definition share_target :: "Share \<Rightarrow> string" where
  "share_target s = (case sh_Parent s of None \<Rightarrow> []
     | Some p \<Rightarrow> shareURI (mi_Project p) (mi_Location p) (mi_Name p) (sh_Name s))"

definition timed_service :: "fakeServiceManager Service" where
  "timed_service = demo_service\<lparr>
     svc_StartCreateMultishareInstanceOp := (\<lambda>i. begun (svc_StartCreateMultishareInstanceOp demo_service i)
        (instance_target i) ''create'' (\<lambda>m m'. instance_state (mi_Name i) ''CREATING'' m')),
     svc_StartResizeMultishareInstanceOp := (\<lambda>i. begun (svc_StartResizeMultishareInstanceOp demo_service i)
        (instance_target i) ''update'' (\<lambda>m m'. m')),
     svc_StartDeleteMultishareInstanceOp := (\<lambda>i. begun (svc_StartDeleteMultishareInstanceOp demo_service i)
        (instance_target i) ''delete'' (\<lambda>m m'. (instance_state (mi_Name i) ''DELETING'' m)\<lparr>op_count := op_count m'\<rparr>)),
     svc_StartCreateShareOp := (\<lambda>s. begun (svc_StartCreateShareOp demo_service s)
        (share_target s) ''create'' (\<lambda>m m'. share_state (sh_Name s) ''CREATING'' m')),
     svc_StartResizeShareOp := (\<lambda>s. begun (svc_StartResizeShareOp demo_service s)
        (share_target s) ''update'' (\<lambda>m m'. m')),
     svc_StartDeleteShareOp := (\<lambda>s. begun (svc_StartDeleteShareOp demo_service s)
        (share_target s) ''delete'' (\<lambda>m m'. (share_state (sh_Name s) ''DELETING'' m)\<lparr>op_count := op_count m'\<rparr>))\<rparr>"

text \<open>All operations that run are completed: what is being created is ready, what is being deleted is gone.\<close>

definition operations_complete :: "fakeServiceManager \<Rightarrow> fakeServiceManager" where
  "operations_complete m = m\<lparr>multishareops := [],
     createdMultishareInstance := map (\<lambda>(k, i). (k, i\<lparr>mi_State := ''READY''\<rparr>))
       (filter (\<lambda>(k, i). mi_State i \<noteq> ''DELETING'') (createdMultishareInstance m)),
     createdMultishares := map (\<lambda>(k, t). (k, t\<lparr>sh_State := ''READY''\<rparr>))
       (filter (\<lambda>(k, t). sh_State t \<noteq> ''DELETING'') (createdMultishares m))\<rparr>"

definition memory_service :: "outside Service" where
  "memory_service = (let f = timed_service in
    \<lparr>svc_CreateInstance = on_filestore \<circ> svc_CreateInstance f, svc_DeleteInstance = on_filestore \<circ> svc_DeleteInstance f,
     svc_GetInstance = on_filestore \<circ> svc_GetInstance f, svc_ListInstances = on_filestore \<circ> svc_ListInstances f,
     svc_ResizeInstance = on_filestore \<circ> svc_ResizeInstance f,
     svc_UpdateInstancePerformance = (\<lambda>i p. on_filestore (svc_UpdateInstancePerformance f i p)),
     svc_GetBackup = on_filestore \<circ> svc_GetBackup f, svc_CreateBackup = on_filestore \<circ> svc_CreateBackup f,
     svc_DeleteBackup = on_filestore \<circ> svc_DeleteBackup f,
     svc_HasOperations = (\<lambda>i s b. on_filestore (svc_HasOperations f i s b)),
     svc_GetMultishareInstance = on_filestore \<circ> svc_GetMultishareInstance f,
     svc_ListMultishareInstances = on_filestore \<circ> svc_ListMultishareInstances f,
     svc_StartCreateMultishareInstanceOp = on_filestore \<circ> svc_StartCreateMultishareInstanceOp f,
     svc_StartDeleteMultishareInstanceOp = on_filestore \<circ> svc_StartDeleteMultishareInstanceOp f,
     svc_StartResizeMultishareInstanceOp = on_filestore \<circ> svc_StartResizeMultishareInstanceOp f,
     svc_ListShares = on_filestore \<circ> svc_ListShares f, svc_GetShare = on_filestore \<circ> svc_GetShare f,
     svc_StartCreateShareOp = on_filestore \<circ> svc_StartCreateShareOp f,
     svc_StartDeleteShareOp = on_filestore \<circ> svc_StartDeleteShareOp f,
     svc_StartResizeShareOp = on_filestore \<circ> svc_StartResizeShareOp f,
     svc_WaitForOpWithOpts = (\<lambda>n t. on_filestore (svc_WaitForOpWithOpts f n t)),
     svc_GetOp = on_filestore \<circ> svc_GetOp f, svc_ListOps = on_filestore \<circ> svc_ListOps f\<rparr>)"

section \<open>What happens to a volume\<close>

definition stateful_config :: config where
  "stateful_config = demo_config\<lparr>cfg_Project := ''test-project'', cfg_statefulEnabled := True\<rparr>"

definition stateful_request :: CreateVolumeRequest where
  "stateful_request = demo_create\<lparr>cr_Parameters := [(ParamMultishareInstanceScLabel, ''sc'')],
     cr_CapacityRange := Some \<lparr>RequiredBytes = 107374182400, LimitBytes = 0\<rparr>\<rparr>"

definition stateful_handle :: string where
  "stateful_handle = ''modeMultishare/sc/test-project/us-central1/fs-u0/pvc_1''"

text \<open>The provisioner asks for the volume or for its deletion, as often as it likes, the reconciler makes its
  rounds, and the operation that runs is completed, any time after it was started.\<close>

datatype event = AskCreate | AskDelete | Round | Finish

definition ask_create :: "(outside driver, CsiVolume) eff" where
  "ask_create = on_world (stateful_CreateVolume demo_externals stateful_config memory_service memory_shares stateful_request)"

definition ask_delete :: "(outside driver, unit) eff" where
  "ask_delete = on_world (stateful_DeleteVolume memory_service memory_shares stateful_handle)"

definition reconcile_round :: "(outside driver, unit) eff" where
  "reconcile_round = reconcileWorker demo_externals stateful_config memory_service memory_api"

fun happens :: "event \<Rightarrow> outside driver \<Rightarrow> outside driver" where
  "happens AskCreate d = snd (ask_create d)"
| "happens AskDelete d = snd (ask_delete d)"
| "happens Round d = snd (reconcile_round d)"
| "happens Finish d = d\<lparr>world := (fst (world d), operations_complete (snd (world d)))\<rparr>"

definition history :: "event list \<Rightarrow> outside driver \<Rightarrow> outside driver" where
  "history = fold happens"

section \<open>The phases of its life\<close>

text \<open>What is left of the instance once its last share is gone: all of it; its object is marked; its deletion
  runs; only its object is left; nothing. The flag says that the object shows that the operation runs.\<close>

datatype leftover = Whole | Marked | Undoing bool | ObjectOnly bool | Nothing

text \<open>An absent volume is wanted once it is asked for, placed when its instance exists, built when its share
  exists, and ready when its object says so. Its object is then marked, its share removed, and the removal
  reported in the status of the object; when the deletion is confirmed the object goes, in any of the phases
  of the instance. In between an operation is running; the flag as above.\<close>

datatype life = Absent | Wanted | Placing bool | Placed bool | Building bool | Built bool | Ready
  | Leaving | Removing bool | Removed bool | Reported leftover | Confirmed leftover

fun dwindles :: "event \<Rightarrow> leftover \<Rightarrow> leftover" where
  "dwindles Round Whole = Marked"
| "dwindles Round Marked = Undoing False"
| "dwindles Round (Undoing b) = Undoing True"
| "dwindles Finish (Undoing b) = ObjectOnly b"
| "dwindles Round (ObjectOnly b) = Nothing"
| "dwindles _ l = l"

fun lives :: "event \<Rightarrow> life \<Rightarrow> life" where
  "lives AskCreate Absent = Wanted"
| "lives Round Wanted = Placing False"
| "lives Round (Placing b) = Placing True"
| "lives Finish (Placing b) = Placed b"
| "lives Round (Placed b) = Building False"
| "lives Round (Building b) = Building True"
| "lives Finish (Building b) = Built b"
| "lives Round (Built b) = Ready"
| "lives AskDelete Ready = Leaving"
| "lives Round Leaving = Removing False"
| "lives Round (Removing b) = Removing True"
| "lives Finish (Removing b) = Removed b"
| "lives Round (Removed b) = Reported Whole"
| "lives AskDelete (Reported l) = Confirmed l"
| "lives e (Reported l) = Reported (dwindles e l)"
| "lives e (Confirmed l) = Confirmed (dwindles e l)"
| "lives _ p = p"

text \<open>The handle of a volume is known once its creation has succeeded, and its deletion cannot be asked for
  before that. After a confirmed deletion, a creation would begin another life.\<close>

fun expected :: "event \<Rightarrow> life \<Rightarrow> bool" where
  "expected AskDelete p = (case p of Wanted \<Rightarrow> False | Placing b \<Rightarrow> False | Placed b \<Rightarrow> False
     | Building b \<Rightarrow> False | Built b \<Rightarrow> False | _ \<Rightarrow> True)"
| "expected AskCreate (Confirmed l) = False"
| "expected _ p = True"

section \<open>What exists in each phase\<close>

definition volume_object :: "bool \<Rightarrow> ShareInfoStatus option \<Rightarrow> ShareInfo" where
  "volume_object deleted status = \<lparr>sfo_Name = ''pvc-1'', sfo_Finalizers = [FilestoreResourceCleanupFinalizer],
     sfo_Labels = [], sfo_Deleted = deleted, sfo_ShareName = ''pvc_1'', sfo_CapacityBytes = 107374182400,
     sfo_InstancePoolTag = ''sc'', sfo_Region = ''us-central1'',
     sfo_Parameters = [(ParamMultishareInstanceScLabel, ''sc'')], sfo_Status = status\<rparr>"

definition volume_status :: "FilestoreStatus \<Rightarrow> int \<Rightarrow> ShareInfoStatus option" where
  "volume_status s bytes = Some \<lparr>st_InstanceHandle = ''projects/test-project/locations/us-central1/instances/fs-u0'',
     st_CapacityBytes = bytes, st_ShareStatus = s, st_Error = []\<rparr>"

definition volume_size :: int where "volume_size = 107374182400"
definition home_size :: int where "home_size = 1099511627776"

fun volume_objects :: "life \<Rightarrow> ShareInfo list" where
  "volume_objects Absent = []"
| "volume_objects Wanted = [volume_object False None]"
| "volume_objects (Placing b) = [volume_object False (volume_status FS_Unset 0)]"
| "volume_objects (Placed b) = [volume_object False (volume_status FS_Unset 0)]"
| "volume_objects (Building b) = [volume_object False (if b then volume_status CREATING volume_size else volume_status FS_Unset 0)]"
| "volume_objects (Built b) = [volume_object False (if b then volume_status CREATING volume_size else volume_status FS_Unset 0)]"
| "volume_objects Ready = [volume_object False (volume_status READY volume_size)]"
| "volume_objects Leaving = [volume_object True (volume_status READY volume_size)]"
| "volume_objects (Removing b) = [volume_object True (volume_status (if b then UPDATING else READY) volume_size)]"
| "volume_objects (Removed b) = [volume_object True (volume_status (if b then UPDATING else READY) volume_size)]"
| "volume_objects (Reported l) = [volume_object True (volume_status DELETED volume_size)]"
| "volume_objects (Confirmed l) = []"

definition home_object :: "bool \<Rightarrow> FilestoreStatus \<Rightarrow> int \<Rightarrow> string list \<Rightarrow> InstanceInfo" where
  "home_object deleted s bytes shares = \<lparr>ifo_Name = ''projects.test-project.locations.us-central1.instances.fs-u0'',
     ifo_Finalizers = [FilestoreResourceCleanupFinalizer], ifo_Labels = [(ParamMultishareInstanceScLabel, ''sc'')],
     ifo_Deleted = deleted, ifo_CapacityBytes = 1099511627776, ifo_StorageClassName = ''class'',
     ifo_Parameters = [(ParamMultishareInstanceScLabel, ''sc'')],
     ifo_Status = Some \<lparr>ist_ShareNames = shares, ist_CapacityBytes = bytes, ist_InstanceStatus = s,
       ist_CapacityStepSizeGb = 0, ist_Cidr = [], ist_Error = []\<rparr>\<rparr>"

fun leftover_objects :: "leftover \<Rightarrow> InstanceInfo list" where
  "leftover_objects Whole = [home_object False READY home_size []]"
| "leftover_objects Marked = [home_object True READY home_size []]"
| "leftover_objects (Undoing b) = [home_object True (if b then UPDATING else READY) home_size []]"
| "leftover_objects (ObjectOnly b) = [home_object True (if b then UPDATING else READY) home_size []]"
| "leftover_objects Nothing = []"

fun home_objects :: "life \<Rightarrow> InstanceInfo list" where
  "home_objects Absent = []"
| "home_objects Wanted = []"
| "home_objects (Placing b) = [if b then home_object False CREATING home_size [''pvc-1''] else home_object False FS_Unset 0 [''pvc-1'']]"
| "home_objects (Placed b) = [if b then home_object False CREATING home_size [''pvc-1''] else home_object False FS_Unset 0 [''pvc-1'']]"
| "home_objects (Reported l) = leftover_objects l"
| "home_objects (Confirmed l) = leftover_objects l"
| "home_objects _ = [home_object False READY home_size [''pvc-1'']]"

definition home_instance :: "string \<Rightarrow> MultishareInstance" where
  "home_instance state = \<lparr>mi_Project = ''test-project'', mi_Name = ''fs-u0'', mi_Location = ''us-central1'',
     mi_Tier = ''enterprise'', mi_Network = \<lparr>net_Name = ''default'', ConnectMode = ''DIRECT_PEERING'',
       ReservedIpRange = [], Ip = []\<rparr>,
     mi_CapacityBytes = 1099511627776, mi_MaxCapacityBytes = 0, mi_CapacityStepSizeGb = 0,
     mi_Labels = [(''storage_gke_io_storage-class-id'', ''sc''),
       (''storage_gke_io_created-by'', ''filestore_csi_storage_gke_io''),
       (''storage_gke_io_cluster_name'', ''c''), (''storage_gke_io_cluster_location'', ''us-central1-c'')],
     mi_State = state, mi_KmsKeyName = [], mi_Description = [], mi_MaxShareCount = 0, mi_Protocol = []\<rparr>"

definition volume_file_share :: "string \<Rightarrow> Share" where
  "volume_file_share state = empty_share\<lparr>sh_Name := ''pvc_1'', sh_Parent := Some (empty_instance\<lparr>mi_Project := ''test-project'',
     mi_Name := ''fs-u0'', mi_Location := ''us-central1'', mi_CapacityBytes := 107374182400, mi_State := ''READY''\<rparr>),
     sh_State := state, sh_MountPointName := ''pvc_1'', sh_CapacityBytes := 107374182400\<rparr>"

fun leftover_instances :: "leftover \<Rightarrow> MultishareInstance list" where
  "leftover_instances (Undoing b) = [home_instance ''DELETING'']"
| "leftover_instances (ObjectOnly b) = []"
| "leftover_instances Nothing = []"
| "leftover_instances _ = [home_instance ''READY'']"

fun service_instances :: "life \<Rightarrow> MultishareInstance list" where
  "service_instances Absent = []"
| "service_instances Wanted = []"
| "service_instances (Placing b) = [home_instance ''CREATING'']"
| "service_instances (Reported l) = leftover_instances l"
| "service_instances (Confirmed l) = leftover_instances l"
| "service_instances _ = [home_instance ''READY'']"

fun service_shares :: "life \<Rightarrow> Share list" where
  "service_shares (Building b) = [volume_file_share ''CREATING'']"
| "service_shares (Built b) = [volume_file_share ''READY'']"
| "service_shares Ready = [volume_file_share ''READY'']"
| "service_shares Leaving = [volume_file_share ''READY'']"
| "service_shares (Removing b) = [volume_file_share ''DELETING'']"
| "service_shares _ = []"

fun operations_started :: "life \<Rightarrow> nat" where
  "operations_started Absent = 0"
| "operations_started Wanted = 0"
| "operations_started (Placing b) = 1"
| "operations_started (Placed b) = 1"
| "operations_started (Removing b) = 3"
| "operations_started (Removed b) = 3"
| "operations_started (Reported l) = (if l \<in> {Whole, Marked} then 3 else 4)"
| "operations_started (Confirmed l) = (if l \<in> {Whole, Marked} then 3 else 4)"
| "operations_started _ = 2"

definition running_operation :: "string \<Rightarrow> string \<Rightarrow> Operation" where
  "running_operation target verb = \<lparr>op_Name = ''operation-x'', op_Done = False, op_Error = None,
     op_Meta = Some (Inr (''projects/test-project/locations/us-central1/instances/fs-u0'' @ target, verb)), op_CreateTime = []\<rparr>"

fun service_operations :: "life \<Rightarrow> Operation list" where
  "service_operations (Placing b) = [running_operation [] ''create'']"
| "service_operations (Building b) = [running_operation ''/shares/pvc_1'' ''create'']"
| "service_operations (Removing b) = [running_operation ''/shares/pvc_1'' ''delete'']"
| "service_operations (Reported (Undoing b)) = [running_operation [] ''delete'']"
| "service_operations (Confirmed (Undoing b)) = [running_operation [] ''delete'']"
| "service_operations _ = []"

definition outside_at :: "life \<Rightarrow> outside" where
  "outside_at p = (\<lparr>ao_shares = map (\<lambda>s. (sfo_Name s, s)) (volume_objects p),
       ao_instances = map (\<lambda>i. (ifo_Name i, i)) (home_objects p),
       ao_classes = [\<lparr>sc_Name = ''class'', sc_Parameters = [(ParamMultishareInstanceScLabel, ''sc'')]\<rparr>],
       ao_uuids = (if p \<in> {Absent, Wanted} then 0 else 1)\<rparr>,
     (NewFakeServiceForMultishare (service_instances p) (service_shares p) (service_operations p))\<lparr>op_count := operations_started p\<rparr>)"

definition driver_at :: "life \<Rightarrow> outside driver" where
  "driver_at p = demo_driver (outside_at p)"

section \<open>The driver goes through the phases\<close>

text \<open>Each event takes the driver from what exists in a phase to what exists in the next: the code of the
  controller and of the reconciler, evaluated in every phase.\<close>

definition follows :: "event \<Rightarrow> life \<Rightarrow> bool" where
  "follows e p = (happens e (driver_at p) = driver_at (lives e p))"

lemma round_creating1: "list_all (follows Round) [Absent, Wanted, Placing False]"
  by code_simp

lemma round_creating2: "list_all (follows Round) [Placing True, Placed False, Placed True]"
  by code_simp

lemma round_building1: "list_all (follows Round) [Building False, Building True]"
  by code_simp

lemma round_building2: "list_all (follows Round) [Built False, Built True, Ready]"
  by code_simp

lemma round_deleting1: "list_all (follows Round) [Leaving, Removing False, Removing True]"
  by code_simp

lemma round_deleting2: "list_all (follows Round) [Removed False, Removed True]"
  by code_simp

lemma round_reported1: "list_all (follows Round) [Reported Whole, Reported Marked, Reported Nothing]"
  by code_simp

lemma round_reported2: "list_all (follows Round) [Reported (Undoing False), Reported (Undoing True)]"
  by code_simp

lemma round_reported3: "list_all (follows Round) [Reported (ObjectOnly False), Reported (ObjectOnly True)]"
  by code_simp

lemma round_confirmed1: "list_all (follows Round) [Confirmed Whole, Confirmed Marked, Confirmed Nothing]"
  by code_simp

lemma round_confirmed2: "list_all (follows Round) [Confirmed (Undoing False), Confirmed (Undoing True)]"
  by code_simp

lemma round_confirmed3: "list_all (follows Round) [Confirmed (ObjectOnly False), Confirmed (ObjectOnly True)]"
  by code_simp

lemma create_creating:
  "list_all (follows AskCreate) [Absent, Wanted, Placing False, Placing True, Placed False, Placed True,
     Building False, Building True, Built False, Built True, Ready]"
  by code_simp

lemma create_deleting:
  "list_all (follows AskCreate) [Leaving, Removing False, Removing True, Removed False, Removed True,
     Reported Whole, Reported Marked, Reported (Undoing False), Reported (Undoing True),
     Reported (ObjectOnly False), Reported (ObjectOnly True), Reported Nothing]"
  by code_simp

lemma delete_deleting:
  "list_all (follows AskDelete) [Absent, Ready, Leaving, Removing False, Removing True, Removed False, Removed True]"
  by code_simp

lemma delete_deleted:
  "list_all (follows AskDelete) [Reported Whole, Reported Marked, Reported (Undoing False), Reported (Undoing True),
     Reported (ObjectOnly False), Reported (ObjectOnly True), Reported Nothing,
     Confirmed Whole, Confirmed Marked, Confirmed (Undoing False), Confirmed (Undoing True),
     Confirmed (ObjectOnly False), Confirmed (ObjectOnly True), Confirmed Nothing]"
  by code_simp

lemma finish_creating:
  "list_all (follows Finish) [Absent, Wanted, Placing False, Placing True, Placed False, Placed True,
     Building False, Building True, Built False, Built True, Ready, Leaving,
     Removing False, Removing True, Removed False, Removed True]"
  by code_simp

lemma finish_deleted:
  "list_all (follows Finish) [Reported Whole, Reported Marked, Reported (Undoing False), Reported (Undoing True),
     Reported (ObjectOnly False), Reported (ObjectOnly True), Reported Nothing,
     Confirmed Whole, Confirmed Marked, Confirmed (Undoing False), Confirmed (Undoing True),
     Confirmed (ObjectOnly False), Confirmed (ObjectOnly True), Confirmed Nothing]"
  by code_simp

lemmas phases_follow = round_creating1 round_creating2 round_building1 round_building2 round_deleting1 round_deleting2
  round_reported1 round_reported2 round_reported3 round_confirmed1 round_confirmed2 round_confirmed3
  create_creating create_deleting delete_deleting delete_deleted finish_creating finish_deleted

text \<open>There are finitely many phases.\<close>

definition every_leftover :: "leftover list" where
  "every_leftover = [Whole, Marked, Undoing False, Undoing True, ObjectOnly False, ObjectOnly True, Nothing]"

lemma every_leftover: "l \<in> set every_leftover"
proof (cases l)
  case (Undoing b)
  then show ?thesis by (cases b) (simp_all add: every_leftover_def)
next
  case (ObjectOnly b)
  then show ?thesis by (cases b) (simp_all add: every_leftover_def)
qed (simp_all add: every_leftover_def)

lemma phase_cases:
  "p \<in> set [Absent, Wanted, Placing False, Placing True, Placed False, Placed True, Building False, Building True,
     Built False, Built True, Ready, Leaving, Removing False, Removing True, Removed False, Removed True]
   \<or> p \<in> set (map Reported every_leftover @ map Confirmed every_leftover)"
proof (cases p)
  case (Reported l)
  then show ?thesis using every_leftover by simp
next
  case (Confirmed l)
  then show ?thesis using every_leftover by simp
qed auto

lemma phases_follow_each: "expected e p \<Longrightarrow> follows e p"
  using phase_cases[of p] phases_follow by (cases e) (auto simp: every_leftover_def)

lemma happens_at: "expected e p \<Longrightarrow> happens e (driver_at p) = driver_at (lives e p)"
  using phases_follow_each by (simp add: follows_def)

text \<open>The phases of a history are those of its events, as long as each is expected where it happens.\<close>

fun all_expected :: "event list \<Rightarrow> life \<Rightarrow> bool" where
  "all_expected [] p = True"
| "all_expected (e # es) p = (expected e p \<and> all_expected es (lives e p))"

lemma history_at: "all_expected es p \<Longrightarrow> history es (driver_at p) = driver_at (fold lives es p)"
  by (induction es arbitrary: p) (simp_all add: history_def happens_at del: happens.simps)

section \<open>What the requests are answered\<close>

definition stateful_volume :: CsiVolume where
  "stateful_volume = \<lparr>cv_VolumeId = stateful_handle, cv_CapacityBytes = 0,
     cv_VolumeContext = [(attrIP, []), (attrFileProtocol, v3FileProtocol)], cv_ContentSource = None\<rparr>"

definition is_aborted :: "go_error + 'a \<Rightarrow> bool" where
  "is_aborted r = (case r of Inl (StatusErr c _) \<Rightarrow> c = Aborted | _ \<Rightarrow> False)"

lemma create_aborted:
  "list_all (\<lambda>p. is_aborted (fst (ask_create (driver_at p)))) [Wanted, Placing False, Placing True, Placed False, Placed True,
     Building False, Building True, Built False, Built True]"
  by code_simp

lemma create_succeeds: "list_all (\<lambda>p. fst (ask_create (driver_at p)) = Inr stateful_volume) [Ready, Leaving]"
  by code_simp

lemma delete_aborted:
  "list_all (\<lambda>p. is_aborted (fst (ask_delete (driver_at p)))) [Ready, Leaving, Removing False, Removing True, Removed False, Removed True]"
  by code_simp

lemma delete_reported:
  "list_all (\<lambda>p. fst (ask_delete (driver_at p)) = Inr ()) (map Reported every_leftover)"
  by code_simp

lemma delete_confirmed:
  "list_all (\<lambda>p. fst (ask_delete (driver_at p)) = Inr ()) (map Confirmed every_leftover)"
  by code_simp

section \<open>What has to happen\<close>

text \<open>Rounds and completions have to take turns, with any other events between them: the events in the list
  that still have to happen are taken off as they come.\<close>

fun takes_off :: "event \<Rightarrow> event list \<Rightarrow> event list" where
  "takes_off e [] = []"
| "takes_off e (x # xs) = (if e = x then xs else x # xs)"

lemma subseq_takes_off: "subseq xs (e # es) \<longleftrightarrow> subseq (takes_off e xs) es"
  by (cases xs) auto

lemma takes_off_length: "length (takes_off e xs) \<le> length xs"
  by (cases xs) auto

lemma fold_takes_off_length: "length (fold takes_off es xs) \<le> length xs"
proof (induction es arbitrary: xs)
  case (Cons e es)
  then show ?case using le_trans[OF Cons.IH takes_off_length] by simp
qed simp

lemma fold_takes_off: "length (fold takes_off es (xs @ ys)) \<le> length ys \<longleftrightarrow> subseq xs es"
proof (induction es arbitrary: xs ys)
  case Nil
  show ?case by (cases xs) simp_all
next
  case (Cons e es)
  show ?case
  proof (cases xs)
    case Nil
    then show ?thesis using fold_takes_off_length[of es "takes_off e ys"] takes_off_length[of e ys] by simp
  next
    case (Cons x zs)
    then have "takes_off e (xs @ ys) = takes_off e xs @ ys" by simp
    then show ?thesis using Cons.IH[of "takes_off e xs" ys] subseq_takes_off[of xs e es] by simp
  qed
qed

definition creation_steps :: "event list" where
  "creation_steps = [Round, Finish, Round, Finish, Round]"

definition removal_steps :: "event list" where
  "removal_steps = [Round, Finish, Round]"

definition cleanup_steps :: "event list" where
  "cleanup_steps = [Round, Round, Finish, Round]"

fun to_undo :: "leftover \<Rightarrow> event list" where
  "to_undo Whole = cleanup_steps"
| "to_undo Marked = [Round, Finish, Round]"
| "to_undo (Undoing b) = [Finish, Round]"
| "to_undo (ObjectOnly b) = [Round]"
| "to_undo Nothing = []"

fun to_happen :: "life \<Rightarrow> event list" where
  "to_happen Absent = []"
| "to_happen Wanted = creation_steps"
| "to_happen (Placing b) = [Finish, Round, Finish, Round]"
| "to_happen (Placed b) = [Round, Finish, Round]"
| "to_happen (Building b) = [Finish, Round]"
| "to_happen (Built b) = [Round]"
| "to_happen Ready = []"
| "to_happen Leaving = removal_steps @ cleanup_steps"
| "to_happen (Removing b) = [Finish, Round] @ cleanup_steps"
| "to_happen (Removed b) = [Round] @ cleanup_steps"
| "to_happen (Reported l) = to_undo l"
| "to_happen (Confirmed l) = to_undo l"

fun being_made :: "life \<Rightarrow> bool" where
  "being_made Absent = False"
| "being_made Leaving = False"
| "being_made (Removing b) = False"
| "being_made (Removed b) = False"
| "being_made (Reported l) = False"
| "being_made (Confirmed l) = False"
| "being_made p = True"

fun being_undone :: "life \<Rightarrow> bool" where
  "being_undone Leaving = True"
| "being_undone (Removing b) = True"
| "being_undone (Removed b) = True"
| "being_undone (Reported l) = True"
| "being_undone (Confirmed l) = True"
| "being_undone p = False"

lemmas steps_defs = creation_steps_def removal_steps_def cleanup_steps_def

lemma to_undo_dwindles: "e \<noteq> AskDelete \<Longrightarrow> to_undo (dwindles e l) = takes_off e (to_undo l)"
  by (cases e; cases l) (simp_all add: steps_defs)

lemma lives_making:
  assumes "being_made p" "AskDelete \<noteq> e"
  shows "being_made (lives e p)" "to_happen (lives e p) = takes_off e (to_happen p)" "expected e p"
  using assms by (cases p; cases e; simp add: steps_defs)+

lemma lives_undoing:
  assumes "being_undone p" "AskCreate \<noteq> e"
  shows "being_undone (lives e p)" "to_happen (lives e p) = takes_off e (to_happen p)" "expected e p"
proof -
  have t: "takes_off AskDelete (to_undo l) = to_undo l" "dwindles AskDelete l = l" for l by (cases l; simp add: steps_defs)+
  show "being_undone (lives e p)" "to_happen (lives e p) = takes_off e (to_happen p)" "expected e p"
    using assms by (cases p; cases e; simp add: steps_defs t to_undo_dwindles)+
qed

lemma fold_making:
  "AskDelete \<notin> set es \<Longrightarrow> being_made p \<Longrightarrow> being_made (fold lives es p) \<and> all_expected es p
     \<and> to_happen (fold lives es p) = fold takes_off es (to_happen p)"
  by (induction es arbitrary: p) (simp_all add: lives_making del: lives.simps)

lemma fold_undoing:
  "AskCreate \<notin> set es \<Longrightarrow> being_undone p \<Longrightarrow> being_undone (fold lives es p) \<and> all_expected es p
     \<and> to_happen (fold lives es p) = fold takes_off es (to_happen p)"
  by (induction es arbitrary: p) (simp_all add: lives_undoing del: lives.simps)

lemma made_when: "being_made p \<Longrightarrow> to_happen p = [] \<longleftrightarrow> p = Ready"
  by (cases p) (simp_all add: steps_defs)

lemma made_not_yet: "being_made p \<Longrightarrow> p \<noteq> Ready \<Longrightarrow> is_aborted (fst (ask_create (driver_at p)))"
  using phase_cases[of p] create_aborted by (auto simp: every_leftover_def)

lemma undone_when: "being_undone p \<Longrightarrow> length (to_happen p) \<le> length cleanup_steps \<longleftrightarrow> (\<exists>l. p \<in> {Reported l, Confirmed l})"
proof -
  have "length (to_undo l) \<le> length cleanup_steps" for l by (cases l) (simp_all add: steps_defs)
  then show "being_undone p \<Longrightarrow> ?thesis" by (cases p) (auto simp: steps_defs)
qed

lemma undone_not_yet:
  "being_undone p \<Longrightarrow> \<nexists>l. p \<in> {Reported l, Confirmed l} \<Longrightarrow> is_aborted (fst (ask_delete (driver_at p)))"
  using phase_cases[of p] delete_aborted by (auto simp: every_leftover_def)

lemma nothing_left_when: "being_undone p \<Longrightarrow> to_happen p = [] \<longleftrightarrow> p \<in> {Reported Nothing, Confirmed Nothing}"
proof -
  have "to_undo l = [] \<longleftrightarrow> l = Nothing" for l by (cases l) (simp_all add: steps_defs)
  then show "being_undone p \<Longrightarrow> ?thesis" by (cases p) (auto simp: steps_defs)
qed

lemma delete_confirmed_at:
  assumes "p \<in> {Reported l, Confirmed l}"
  shows "fst (ask_delete (driver_at p)) = Inr ()" "snd (ask_delete (driver_at p)) = driver_at (Confirmed l)"
proof -
  show "fst (ask_delete (driver_at p)) = Inr ()"
    using assms delete_reported delete_confirmed every_leftover[of l] by (auto simp: list_all_iff)
  have "dwindles AskDelete l = l" by (cases l) simp_all
  then show "snd (ask_delete (driver_at p)) = driver_at (Confirmed l)"
    using happens_at[of AskDelete p] assms by auto
qed

lemma share_exists_when_ready:
  "createdMultishares (snd (world (driver_at Ready))) = [(''pvc_1'', volume_file_share ''READY'')]"
  by code_simp

lemma nothing_remains:
  "p \<in> {Reported l, Confirmed l} \<Longrightarrow> createdMultishares (snd (world (driver_at p))) = []"
  "ao_shares (fst (world (driver_at (Confirmed l)))) = []"
  "ao_instances (fst (world (driver_at (Confirmed Nothing)))) = []"
  "createdMultishareInstance (snd (world (driver_at (Confirmed Nothing)))) = []"
  "multishareops (snd (world (driver_at (Confirmed Nothing)))) = []"
  "ipAllocator (driver_at p) = NewIPAllocator []" "volumeLocks (driver_at p) = NewVolumeLocks"
  by (auto simp: driver_at_def demo_driver_def outside_at_def NewFakeServiceForMultishare_def)

section \<open>A volume and its object\<close>

lemma ParseInstanceURI_parts:
  assumes "ParseInstanceURI uri = Inr (p, l, i)"
  shows "\<forall>x \<in> {p, l, i}. x \<noteq> [] \<and> CHR ''/'' \<notin> set x"
proof -
  let ?ps = "split (CHR ''/'') uri"
  have "length ?ps = 6" "p = ?ps ! 1" "l = ?ps ! 3" "i = ?ps ! 5" "p \<noteq> []" "l \<noteq> []" "i \<noteq> []"
    using assms by (auto simp: ParseInstanceURI_def Let_def split: if_splits)
  then show ?thesis using set_split[where c = "CHR ''/''" and s = uri] by auto
qed

text \<open>The names that Kubernetes gives to volumes are names of its objects: small letters, digits, and minus.\<close>

definition object_name :: "string \<Rightarrow> bool" where
  "object_name n = (n \<noteq> [] \<and> toLower n = n \<and> CHR ''_'' \<notin> set n \<and> CHR ''/'' \<notin> set n)"

lemma share_name_of_object_name:
  assumes "object_name n"
  shows "ShareToShareInfoName (ConvertVolToShareName n) = n" "ConvertVolToShareName n \<noteq> []"
    "CHR ''/'' \<notin> set (ConvertVolToShareName n)"
  using assms by (auto simp: object_name_def ShareToShareInfoName_def ConvertVolToShareName_def replace_char_inv)
    (auto simp: replace_char_def split: if_splits)

text \<open>What a successful creation has read.\<close>

lemma stateful_created_from:
  assumes "stateful_CreateVolume ext cfg svc sic req w = (Inr vol, w')"
    and "\<forall>s v. \<forall>si v'. sic_Create sic s v = (Inr si, v') \<longrightarrow> sfo_Status si = None"
  shows "\<exists>label maxSize si st share1 share w1. getInstanceSCLabel req = Inr label
    \<and> find_share_info sic (cr_Name req) w = (Inr (Some si), w1) \<and> sfo_Status si = Some st
    \<and> st_ShareStatus st = READY \<and> generateFileShareFromShareInfo si = Inr share1
    \<and> svc_GetShare svc share1 w1 = (Inr share, w') \<and> sh_State share = ''READY''
    \<and> generateCSICreateVolumeResponse cfg label share1 maxSize = Inr vol"
proof -
  obtain label maxSize reqBytes si w1 where o: "getInstanceSCLabel req = Inr label"
      "obtain_share_info ext cfg sic req reqBytes label w = (Inr si, w1)"
      and c: "created_from_status cfg svc (cr_Name req) label maxSize si w1 = (Inr vol, w')"
    using assms(1) by (auto simp: stateful_CreateVolume_def bind_err_Inr_iff bind_Inr_iff lift_Inr split: if_splits option.splits)
  from c obtain st share1 share where s: "sfo_Status si = Some st" "st_ShareStatus st = READY"
      "generateFileShareFromShareInfo si = Inr share1" "svc_GetShare svc share1 w1 = (Inr share, w')"
      "sh_State share = ''READY''" "generateCSICreateVolumeResponse cfg label share1 maxSize = Inr vol"
    by (auto simp: created_from_status_def getShareAndGenerateCSICreateVolumeResponse_def Let_def bind_err_Inr_iff
        bind_Inr_iff lift_Inr split: option.splits if_splits)
  have "find_share_info sic (cr_Name req) w = (Inr (Some si), w1)"
  proof (cases "find_share_info sic (cr_Name req) w")
    case (Pair r w2)
    then obtain found where f: "r = Inr found" using o(2) by (cases r) (auto simp: obtain_share_info_def bind_def)
    have "\<not> sic_Create sic obj v = (Inr si, v')" for obj v v' using assms(2) s(1) by (metis option.distinct(1))
    then have "found \<noteq> None"
      using o(2) Pair f
      by (cases found) (auto simp: obtain_share_info_def bind_err_Inr_iff bind_Inr_iff lift_Inr createShareInfo_def)
    then show ?thesis
      using o(2) Pair f by (auto simp: obtain_share_info_def bind_Inr_iff)
  qed
  then show ?thesis using o(1) s by blast
qed

lemma stateful_handle_parses:
  assumes "generateCSICreateVolumeResponse cfg label (volume_share (label', p, l, i, n)) maxSize = Inr vol"
    and "CHR ''/'' \<notin> set label" "\<forall>x \<in> {p, l, i, n}. x \<noteq> [] \<and> CHR ''/'' \<notin> set x"
  shows "parseMultishareVolId (cv_VolumeId vol) = Inr (label, p, l, i, n)"
proof -
  let ?s = "volume_share (label', p, l, i, n)"
  obtain vid where v: "generateMultishareVolumeIdFromShare label (Some ?s) = Inr vid" "cv_VolumeId vol = vid"
    using assms(1) by (auto simp: generateCSICreateVolumeResponse_def volume_share_def split: sum.splits)
  then have "label \<noteq> []" by (auto simp: generateMultishareVolumeIdFromShare_def split: if_splits)
  then have "\<exists>vid. generateMultishareVolumeIdFromShare label (Some ?s) = Inr vid
      \<and> parseMultishareVolId vid = Inr (label, p, l, i, n) \<and> isMultishareVolId vid"
    using volume_id_roundtrip[where mode = modeInstance and obj = empty_service_instance and s = ?s and pfx = label
        and p = "empty_instance\<lparr>mi_Project := p, mi_Location := l, mi_Name := i\<rparr>", THEN conjunct2] assms(2,3)
    by (simp add: volume_share_def empty_service_instance_def)
  then show ?thesis using v by simp
qed

section \<open>Properties\<close>

text \<open>C36: A volume of the stateful mode can be traced. A creation that succeeds has found the object of the volume, whose
  status says READY, and the service has answered that the share is ready at the instance the status names; the
  handle it answers carries the label of the class, that instance and the name of the share. From this handle a
  deletion, at any later time, comes back to the object of the same name: it goes on with the object that the
  informer has, and where there is none it asks the service for the same share.\<close>

theorem stateful_volume_traced:
  assumes created: "stateful_CreateVolume ext cfg svc sic req w = (Inr vol, w')"
    and cleared: "\<forall>s v. \<forall>si v'. sic_Create sic s v = (Inr si, v') \<longrightarrow> sfo_Status si = None"
    and named: "\<forall>si w1. find_share_info sic (cr_Name req) w = (Inr (Some si), w1)
        \<longrightarrow> sfo_ShareName si = ConvertVolToShareName (cr_Name req)"
    and names: "object_name (cr_Name req)" "\<forall>label. getInstanceSCLabel req = Inr label \<longrightarrow> CHR ''/'' \<notin> set label"
  shows "\<exists>label project location inst si st share w1.
      let v = (label, project, location, inst, ConvertVolToShareName (cr_Name req)) in
      getInstanceSCLabel req = Inr label \<and> find_share_info sic (cr_Name req) w = (Inr (Some si), w1)
    \<and> sfo_Status si = Some st \<and> st_ShareStatus st = READY
    \<and> ParseInstanceURI (st_InstanceHandle st) = Inr (project, location, inst)
    \<and> svc_GetShare svc (volume_share v) w1 = (Inr share, w') \<and> sh_State share = ''READY''
    \<and> parseMultishareVolId (cv_VolumeId vol) = Inr v
    \<and> (\<forall>u si' u'. sic_Lister sic (cr_Name req) u = (Inr si', u') \<longrightarrow>
        stateful_DeleteVolume svc sic (cv_VolumeId vol) u = deleted_from_object sic (cv_VolumeId vol) (cr_Name req) si' u')
    \<and> (\<forall>u e u'. sic_Lister sic (cr_Name req) u = (Inl e, u') \<and> sic_IsNotFound sic e \<longrightarrow>
        stateful_DeleteVolume svc sic (cv_VolumeId vol) u = deleted_already svc (cv_VolumeId vol) (volume_share v) u')"
proof -
  obtain label maxSize si st share1 share w1 where c: "getInstanceSCLabel req = Inr label"
      "find_share_info sic (cr_Name req) w = (Inr (Some si), w1)" "sfo_Status si = Some st" "st_ShareStatus st = READY"
      "generateFileShareFromShareInfo si = Inr share1" "svc_GetShare svc share1 w1 = (Inr share, w')"
      "sh_State share = ''READY''" "generateCSICreateVolumeResponse cfg label share1 maxSize = Inr vol"
    using stateful_created_from[OF created cleared] by blast
  then obtain p l i where uri: "ParseInstanceURI (st_InstanceHandle st) = Inr (p, l, i)"
    by (cases "ParseInstanceURI (st_InstanceHandle st)") (auto simp: generateFileShareFromShareInfo_def)
  let ?v = "(label, p, l, i, ConvertVolToShareName (cr_Name req))"
  have share1: "share1 = volume_share ?v"
    using c uri named by (simp add: generateFileShareFromShareInfo_def volume_share_def empty_share_def)
  have "parseMultishareVolId (cv_VolumeId vol) = Inr ?v"
    using stateful_handle_parses[OF c(8)[unfolded share1]] c(1) names share_name_of_object_name(2,3)[OF names(1)]
      ParseInstanceURI_parts[OF uri] by simp
  moreover have "ShareToShareInfoName (sh_Name (volume_share ?v)) = cr_Name req"
    using share_name_of_object_name(1)[OF names(1)] by (simp add: volume_share_def)
  ultimately show ?thesis
    using c uri share1
    by (intro exI[of _ label] exI[of _ p] exI[of _ l] exI[of _ i] exI[of _ si] exI[of _ st] exI[of _ share] exI[of _ w1])
      (simp add: stateful_DeleteVolume_def Let_def bind_err_def lift_def attempt_eq)
qed

lemma memory_create_clears: "sic_Create memory_shares s v = (Inr si, v') \<Longrightarrow> sfo_Status si = None"
  by (cases v) (auto simp: memory_shares_def on_api_def object_create_def attempt_def object_get_def object_put_def fail_def
      share_kind_def split: option.splits prod.splits sum.splits if_splits)

lemma found_when_ready:
  "fst (find_share_info memory_shares (cr_Name stateful_request) (outside_at Ready))
     = Inr (Some (volume_object False (volume_status READY volume_size)))"
  by code_simp

lemma ready_object:
  "sfo_ShareName (volume_object False (volume_status READY volume_size)) = ConvertVolToShareName (cr_Name stateful_request)"
  "sfo_Status (volume_object False (volume_status READY volume_size)) = volume_status READY volume_size"
  by code_simp+

theorem stateful_volume_traced_witness:
  "\<exists>w'. stateful_CreateVolume demo_externals stateful_config memory_service memory_shares stateful_request (outside_at Ready)
       = (Inr stateful_volume, w')
   \<and> parseMultishareVolId stateful_handle
       = Inr (''sc'', ''test-project'', ''us-central1'', ''fs-u0'', ConvertVolToShareName (cr_Name stateful_request))"
proof -
  let ?c = "stateful_CreateVolume demo_externals stateful_config memory_service memory_shares stateful_request (outside_at Ready)"
  have "fst ?c = Inr stateful_volume"
    using create_succeeds by (simp add: ask_create_def on_world_def driver_at_def demo_driver_def split: prod.splits)
  then obtain w' where c: "?c = (Inr stateful_volume, w')" by (cases ?c) auto
  have n: "object_name (cr_Name stateful_request)" "getInstanceSCLabel stateful_request = Inr ''sc''" by code_simp+
  have f: "\<forall>si w1. find_share_info memory_shares (cr_Name stateful_request) (outside_at Ready) = (Inr (Some si), w1) \<longrightarrow>
      sfo_ShareName si = ConvertVolToShareName (cr_Name stateful_request)
      \<and> sfo_Status si = volume_status READY volume_size"
    using found_when_ready ready_object by auto
  have u: "ParseInstanceURI (st_InstanceHandle (the (volume_status READY volume_size))) = Inr (''test-project'', ''us-central1'', ''fs-u0'')"
    by code_simp
  have cleared: "\<forall>s v. \<forall>si v'. sic_Create memory_shares s v = (Inr si, v') \<longrightarrow> sfo_Status si = None"
    using memory_create_clears by blast
  have named: "\<forall>si w1. find_share_info memory_shares (cr_Name stateful_request) (outside_at Ready) = (Inr (Some si), w1) \<longrightarrow>
      sfo_ShareName si = ConvertVolToShareName (cr_Name stateful_request)" using f by blast
  have label: "\<forall>label. getInstanceSCLabel stateful_request = Inr label \<longrightarrow> CHR ''/'' \<notin> set label" using n(2) by simp
  obtain label project location inst si st w1 where t: "getInstanceSCLabel stateful_request = Inr label"
      "find_share_info memory_shares (cr_Name stateful_request) (outside_at Ready) = (Inr (Some si), w1)"
      "sfo_Status si = Some st" "ParseInstanceURI (st_InstanceHandle st) = Inr (project, location, inst)"
      "parseMultishareVolId (cv_VolumeId stateful_volume)
        = Inr (label, project, location, inst, ConvertVolToShareName (cr_Name stateful_request))"
    using stateful_volume_traced[OF c cleared named n(1) label] unfolding Let_def by blast
  have "volume_status READY volume_size = Some st" using f t(2,3) by auto
  then have "project = ''test-project'' \<and> location = ''us-central1'' \<and> inst = ''fs-u0''" using u t(4) by simp
  then show ?thesis using c t(1,5) n(2) by (simp add: stateful_volume_def)
qed

text \<open>C14: One volume of the stateful mode, followed to its end: a fixed request, for 100 GiB in the one
  storage class, in an empty cluster and project, on an API server and a service in memory where no call
  and no operation fails, and an operation runs until it is completed. Requests, rounds of the
  reconciler and completions happen in any number and order; the deletion follows the creation. Until a
  round, a completion, a round, a completion and a round have happened in this order, with any events
  between them, a request is told to come back; from then on it gets the volume, whose share exists. The
  deletion is told to come back until a round, a completion and a round have happened; from then on
  it is confirmed, the share is gone, and its object too; after two more rounds, a completion and a round
  nothing is left of the volume and of its instance, no operation runs, no range is held and no lock.
  Just after its deletion was asked for, a creation of the volume still succeeds.\<close>

theorem stateful_lifecycle:
  assumes "AskDelete \<notin> set es" "AskCreate \<notin> set fs"
  shows "let wanted = history (AskCreate # es) (driver_at Absent); left = history (AskDelete # fs) wanted;
             gone = snd (ask_delete left) in
    (\<not> subseq [Round, Finish, Round, Finish, Round] es \<longrightarrow> is_aborted (fst (ask_create wanted)))
    \<and> (subseq [Round, Finish, Round, Finish, Round] es \<longrightarrow>
        fst (ask_create wanted) = Inr stateful_volume
        \<and> createdMultishares (snd (world wanted)) = [(''pvc_1'', volume_file_share ''READY'')]
        \<and> fst (ask_create (history [AskDelete] wanted)) = Inr stateful_volume
        \<and> (\<not> subseq [Round, Finish, Round] fs \<longrightarrow> is_aborted (fst (ask_delete left)))
        \<and> (subseq [Round, Finish, Round] fs \<longrightarrow> fst (ask_delete left) = Inr () \<and> createdMultishares (snd (world left)) = []
            \<and> ao_shares (fst (world gone)) = [])
        \<and> (subseq [Round, Finish, Round, Round, Round, Finish, Round] fs \<longrightarrow> ao_instances (fst (world gone)) = []
            \<and> createdMultishareInstance (snd (world gone)) = [] \<and> multishareops (snd (world gone)) = []
            \<and> ipAllocator gone = NewIPAllocator [] \<and> volumeLocks gone = NewVolumeLocks))"
proof -
  let ?w = "history (AskCreate # es) (driver_at Absent)" and ?p = "fold lives es Wanted"
  let ?l = "history (AskDelete # fs) ?w" and ?q = "fold lives fs Leaving"
  note made = fold_making[OF assms(1), of Wanted, simplified]
  have w: "?w = driver_at ?p" using history_at[of "AskCreate # es" Absent] made by simp
  have wanted: "?p = Ready \<longleftrightarrow> subseq [Round, Finish, Round, Finish, Round] es"
    using made_when[of ?p] made fold_takes_off[of es creation_steps "[]"] by (simp add: creation_steps_def)
  have early: "is_aborted (fst (ask_create ?w))" if "?p \<noteq> Ready" using made_not_yet[of ?p] made that w by simp
  note undone = fold_undoing[OF assms(2), of Leaving, simplified]
  have mid: "history [AskDelete] (driver_at Ready) = driver_at Leaving"
    using happens_at[of AskDelete Ready] by (simp add: history_def)
  have l: "?l = driver_at ?q" if "?p = Ready"
    using history_at[of "AskDelete # fs" Ready] undone w that by simp
  have reported: "(\<exists>l. ?q \<in> {Reported l, Confirmed l}) \<longleftrightarrow> subseq [Round, Finish, Round] fs"
    using undone_when[of ?q] undone fold_takes_off[of fs removal_steps cleanup_steps] by (simp add: removal_steps_def)
  have gone: "?q \<in> {Reported Nothing, Confirmed Nothing} \<longleftrightarrow> subseq [Round, Finish, Round, Round, Round, Finish, Round] fs"
    using nothing_left_when[of ?q] undone fold_takes_off[of fs "removal_steps @ cleanup_steps" "[]"]
    by (simp add: removal_steps_def cleanup_steps_def)
  have created: "fst (ask_create ?w) = Inr stateful_volume
      \<and> createdMultishares (snd (world ?w)) = [(''pvc_1'', volume_file_share ''READY'')]
      \<and> fst (ask_create (history [AskDelete] ?w)) = Inr stateful_volume" if "?p = Ready"
    using create_succeeds share_exists_when_ready mid w that by simp
  have refused: "is_aborted (fst (ask_delete ?l))" if "?p = Ready" "\<nexists>l. ?q \<in> {Reported l, Confirmed l}"
    using undone_not_yet[of ?q] undone l[OF that(1)] that(2) by simp
  have confirmed: "fst (ask_delete ?l) = Inr () \<and> createdMultishares (snd (world ?l)) = []
      \<and> snd (ask_delete ?l) = driver_at (Confirmed l)" if "?p = Ready" "?q \<in> {Reported l, Confirmed l}" for l
    using delete_confirmed_at[OF that(2)] nothing_remains(1)[OF that(2)] l[OF that(1)] by simp
  show ?thesis unfolding Let_def wanted[symmetric] reported[symmetric] gone[symmetric]
    using early created refused confirmed by (auto simp: nothing_remains)
qed

theorem stateful_lifecycle_witness:
  "fst (ask_create (history [AskCreate, Round, Round, Finish, AskCreate, Round, Finish, Round] (driver_at Absent))) = Inr stateful_volume
   \<and> ao_instances (fst (world (snd (ask_delete (history [AskDelete, Round, Round, Finish, Round, AskDelete, Round, Round, Finish, Round]
       (history [AskCreate, Round, Round, Finish, AskCreate, Round, Finish, Round] (driver_at Absent))))))) = []"
  using stateful_lifecycle[of "[Round, Round, Finish, AskCreate, Round, Finish, Round]"
      "[Round, Round, Finish, Round, AskDelete, Round, Round, Finish, Round]"]
  by (simp add: Let_def)

end
