(* ===== verification/Lock_Release.thy ===== *)
theory Lock_Release
  imports Lock_Info Driver_State
begin

text \<open>
  \<open>pkg/releaselock/rpc.go\<close> and \<open>controller.go\<close>: the controller that releases the NFS locks of nodes
  that are gone. It runs the periodic round over all config maps (\<open>syncLockInfo\<close>), and two workers on
  queues of node events (creation and update), which hand each entry of a node's map to an
  \<open>EventProcessor\<close>. The API server, the RPC library and the queues are records of functions. The
  locale \<open>entry_processor\<close> states what the event handlers rely on, and is interpreted on the two
  methods of \<open>DefaultEventProcessor\<close>.
\<close>

section \<open>The RPC to the Filestore instance\<close>

definition inbandLockReleaseProgramNumber :: nat where "inbandLockReleaseProgramNumber = 200002"
definition inbandLockReleaseProgramVersion :: nat where "inbandLockReleaseProgramVersion = 1"
definition inbandLockReleaseProcedureNumber :: nat where "inbandLockReleaseProcedureNumber = 1"
definition inbandLockReleaseProcedureName :: string where
  "inbandLockReleaseProcedureName = ''IN_BAND_PROPRIETARY_LOCK_OPS_PROG.RELEASE_ALL_LOCKS''"
definition pmapProgramNumber :: nat where "pmapProgramNumber = 100021"
definition pmapProgramVersion :: nat where "pmapProgramVersion = 4"
definition pmapPort :: string where "pmapPort = ''111''"

record releaseLockResponse =
  rl_status :: "32 word"

text \<open>The calls of \<open>sunrpc\<close> and \<open>net\<close>: a connection is a number; \<open>rpc_ReadResponseBody\<close> fills in the
  structure it is given; \<open>rpc_request_text\<close> is the rendering of a request in error texts.\<close>

record 'w RpcLib =
  rpc_RegisterProcedure :: "nat \<Rightarrow> nat \<Rightarrow> nat \<Rightarrow> string \<Rightarrow> ('w, unit) eff"
  rpc_PmapGetPort :: "string \<Rightarrow> nat \<Rightarrow> nat \<Rightarrow> ('w, nat) eff"
  rpc_DialTimeout :: "string \<Rightarrow> ('w, nat) eff"
  rpc_WriteRequest :: "nat \<Rightarrow> string \<Rightarrow> 32 word \<Rightarrow> ('w, unit) eff"
  rpc_ReadResponseHeader :: "nat \<Rightarrow> ('w, unit) eff"
  rpc_ReadResponseBody :: "nat \<Rightarrow> releaseLockResponse \<Rightarrow> ('w, releaseLockResponse) eff"
  rpc_Close :: "nat \<Rightarrow> 'w \<Rightarrow> 'w"
  rpc_request_text :: string

definition RegisterLockReleaseProcedure :: "'w RpcLib \<Rightarrow> ('w, unit) eff" where
  "RegisterLockReleaseProcedure rpc =
     bind_err (\<lambda>e. ErrWrap ''failed to register procedure: '' e [])
       (rpc_RegisterProcedure rpc inbandLockReleaseProgramNumber inbandLockReleaseProgramVersion
          inbandLockReleaseProcedureNumber inbandLockReleaseProcedureName) ret"

text \<open>\<open>net.JoinHostPort\<close>\<close>

definition JoinHostPort :: "string \<Rightarrow> string \<Rightarrow> string" where
  "JoinHostPort host port =
     (if CHR '':'' \<in> set host \<or> CHR ''%'' \<in> set host then ''['' @ host @ '']:'' @ port else host @ '':'' @ port)"

text \<open>The exchange on an open connection\<close>

definition call_release :: "'w RpcLib \<Rightarrow> nat \<Rightarrow> string \<Rightarrow> string \<Rightarrow> ('w, unit) eff" where
  "call_release rpc conn hostIP clientIP =
     (case net_ParseIP clientIP of
        None \<Rightarrow> fail (ErrText (''invalid GKE node IP '' @ clientIP))
      | Some ip \<Rightarrow> (case To4 ip of
          None \<Rightarrow> fail (ErrText (''invalid GKE node IPv4 address '' @ clientIP))
        | Some ipBinary \<Rightarrow>
            let who = ''for GKE node IP '' @ clientIP @ '' Filestore IP '' @ hostIP in
            bind_err (\<lambda>e. ErrWrap (''failed to write RPC request '' @ rpc_request_text rpc @ '' '' @ who @ '', err: '') e [])
              (rpc_WriteRequest rpc conn inbandLockReleaseProcedureName ipBinary) (\<lambda>_.
            bind_err (\<lambda>e. ErrWrap (''failed to read RPC response header '' @ who @ '', err: '') e [])
              (rpc_ReadResponseHeader rpc conn) (\<lambda>_.
            bind_err (\<lambda>e. ErrWrap (''failed to read RPC response body '' @ who @ '', err: '') e [])
              (rpc_ReadResponseBody rpc conn \<lparr>rl_status = 0\<rparr>) (\<lambda>res.
            if rl_status res \<noteq> 0
            then fail (ErrText (''failed to release all locks '' @ who @ '', err: permission denied''))
            else ret ())))))"

text \<open>The connection is closed on every return after it is open.\<close>

definition ReleaseLock :: "'w RpcLib \<Rightarrow> string \<Rightarrow> string \<Rightarrow> ('w, unit) eff" where
  "ReleaseLock rpc hostIP clientIP =
     (if net_ParseIP hostIP = None then fail (ErrText (''invalid Filestore IP address '' @ hostIP))
      else let hostAddress = hostIP @ '':'' @ pmapPort in
        bind_err (\<lambda>e. ErrWrap (''failed to get port for host '' @ hostAddress @ '': '') e [])
          (rpc_PmapGetPort rpc hostAddress pmapProgramNumber pmapProgramVersion) (\<lambda>port.
        let serverAddress = JoinHostPort hostIP (show_nat port) in
        bind_err (\<lambda>e. ErrWrap (''failed to connect to Filestore at address '' @ serverAddress @ '': '') e [])
          (rpc_DialTimeout rpc serverAddress) (\<lambda>conn w.
            case call_release rpc conn hostIP clientIP w of (r, w') \<Rightarrow> (r, rpc_Close rpc conn w'))))"

section \<open>Nodes\<close>

definition gceInstanceIDKey :: string where "gceInstanceIDKey = ''container.googleapis.com/instance_id''"

definition rootCA :: string where "rootCA = ''kube-root-ca.crt''"

definition verifyNodeExists :: "Node option \<Rightarrow> string \<Rightarrow> string \<Rightarrow> go_error + bool" where
  "verifyNodeExists node expectedGCEInstanceID expectedNodeInternalIP = (case node of
       None \<Rightarrow> Inr False
     | Some nd \<Rightarrow> (case nd_Annotations nd of
         None \<Rightarrow> Inl (ErrText (''node '' @ nd_Name nd @ '' annotations is nil''))
       | Some ann \<Rightarrow> (case mlookup ann gceInstanceIDKey of
           None \<Rightarrow> Inr False
         | Some instanceID \<Rightarrow>
             if instanceID \<noteq> expectedGCEInstanceID then Inr False
             else Inr (list_ex (\<lambda>(t, a). t = ''InternalIP'' \<and> a = expectedNodeInternalIP) (nd_Addresses nd)))))"

definition verifyConfigMapEntry :: "Node option \<Rightarrow> string \<Rightarrow> string \<Rightarrow> go_error + bool" where
  "verifyConfigMapEntry node expectedGCEInstanceID expectedNodeInternalIP = (case node of
       None \<Rightarrow> Inr False
     | Some nd \<Rightarrow> (case nd_Annotations nd of
         None \<Rightarrow> Inl (ErrText (''node '' @ nd_Name nd @ '' annotations is nil''))
       | Some ann \<Rightarrow> (case mlookup ann gceInstanceIDKey of
           None \<Rightarrow> Inr False
         | Some instanceID \<Rightarrow>
             if instanceID \<noteq> expectedGCEInstanceID then Inr False
             else Inr (list_ex (\<lambda>(t, a). t = ''InternalIP'' \<and> a = expectedNodeInternalIP) (nd_Addresses nd)))))"

section \<open>The controller\<close>

record 'w LockController =
  lc_id :: string
  lc_hostname :: string
  lc_client :: "'w KubeClient"
  lc_lockService :: "string \<Rightarrow> string \<Rightarrow> ('w, unit) eff"

definition NewLockReleaseController ::
  "'w RpcLib \<Rightarrow> ('w, string) eff \<Rightarrow> string \<Rightarrow> 'w KubeClient \<Rightarrow> ('w, 'w LockController) eff" where
  "NewLockReleaseController rpc os_Hostname uuid client =
     bind (RegisterLockReleaseProcedure rpc) (\<lambda>_.
     bind os_Hostname (\<lambda>hostname.
     ret \<lparr>lc_id = hostname @ ''_'' @ uuid, lc_hostname = hostname, lc_client = client,
          lc_lockService = ReleaseLock rpc\<rparr>))"

text \<open>The release of the locks of an entry and the removal of its key; \<open>h\<close> is how the caller renders an
  error with a prefix.\<close>

definition text_of :: "string \<Rightarrow> go_error \<Rightarrow> go_error" where
  "text_of pre e = ErrText (pre @ error_text e)"

definition wrap_of :: "string \<Rightarrow> go_error \<Rightarrow> go_error" where
  "wrap_of pre e = ErrWrap pre e []"

definition release_and_remove ::
  "'w LockController \<Rightarrow> (string \<Rightarrow> go_error \<Rightarrow> go_error) \<Rightarrow> string \<Rightarrow> string \<Rightarrow> LockKey \<Rightarrow> ConfigMap \<Rightarrow> ('w, unit) eff" where
  "release_and_remove c h key filestoreIP k cm =
     bind_err (h ''failed to release lock: '') (lc_lockService c filestoreIP (lk_GkeNodeInternalIP k)) (\<lambda>_.
     bind_err (h (''failed to remove key '' @ key @ '' from configmap '' @ cm_Namespace cm @ ''/'' @ cm_Name cm @ '': ''))
       (RemoveKeyFromConfigMapWithRetry (lc_client c) cm key) ret)"

definition cannot_verify :: "Node \<Rightarrow> LockKey \<Rightarrow> string" where
  "cannot_verify node k = ''failed to verify GKE node '' @ nd_Name node @ '' with nodeId '' @ lk_GkeNodeID k
     @ '' nodeInternalIP '' @ lk_GkeNodeInternalIP k @ '' still exists: ''"

definition entry_matches :: "Node \<Rightarrow> LockKey \<Rightarrow> go_error + bool" where
  "entry_matches node k = verifyConfigMapEntry (Some node) (lk_GkeNodeID k) (lk_GkeNodeInternalIP k)"

text \<open>\<open>DefaultEventProcessor\<close>: its controller is nil until \<open>SetController\<close>.\<close>

definition processConfigMapEntryOnNodeCreation ::
  "'w LockController option \<Rightarrow> string \<Rightarrow> string \<Rightarrow> Node \<Rightarrow> ConfigMap \<Rightarrow> ('w, unit) eff" where
  "processConfigMapEntryOnNodeCreation ctrl key filestoreIP node cm = (case ctrl of
       None \<Rightarrow> fail (ErrText ''controller not set'')
     | Some c \<Rightarrow>
         bind_err (text_of (''failed to parse configmap key '' @ key @ '': '')) (lift (ParseConfigMapKey key)) (\<lambda>k.
         bind_err (text_of (cannot_verify node k)) (lift (entry_matches node k)) (\<lambda>matches.
         if matches then ret ()
         else attempt (kc_GetNode (lc_client c) (nd_Name node)) (\<lambda>r. case r of
             Inl e \<Rightarrow> if kc_IsNotFound (lc_client c) e then ret ()
               else fail (rewrite_err (text_of ''failed to get node in namespace '') e)
           | Inr latestNode \<Rightarrow>
               bind_err (text_of (cannot_verify node k)) (lift (entry_matches latestNode k)) (\<lambda>matchesLatest.
               if matchesLatest then ret ()
               else release_and_remove c text_of key filestoreIP k cm)))))"

definition processConfigMapEntryOnNodeUpdate ::
  "'w LockController option \<Rightarrow> string \<Rightarrow> string \<Rightarrow> Node \<Rightarrow> Node \<Rightarrow> ConfigMap \<Rightarrow> ('w, unit) eff" where
  "processConfigMapEntryOnNodeUpdate ctrl key filestoreIP newNode oldNode cm = (case ctrl of
       None \<Rightarrow> fail (ErrText ''controller not set'')
     | Some c \<Rightarrow>
         bind_err (wrap_of (''failed to parse configmap key '' @ key @ '': '')) (lift (ParseConfigMapKey key)) (\<lambda>k.
         bind_err (wrap_of (cannot_verify newNode k)) (lift (entry_matches newNode k)) (\<lambda>matchesNew.
         if matchesNew then ret ()
         else bind_err (text_of (cannot_verify newNode k)) (lift (entry_matches oldNode k)) (\<lambda>matchesOld.
           if matchesOld then release_and_remove c wrap_of key filestoreIP k cm else ret ()))))"

record 'w EventProcessor =
  ep_onNodeCreation :: "string \<Rightarrow> string \<Rightarrow> Node \<Rightarrow> ConfigMap \<Rightarrow> ('w, unit) eff"
  ep_onNodeUpdate :: "string \<Rightarrow> string \<Rightarrow> Node \<Rightarrow> Node \<Rightarrow> ConfigMap \<Rightarrow> ('w, unit) eff"

definition DefaultEventProcessor :: "'w LockController option \<Rightarrow> 'w EventProcessor" where
  "DefaultEventProcessor ctrl =
     \<lparr>ep_onNodeCreation = processConfigMapEntryOnNodeCreation ctrl,
      ep_onNodeUpdate = processConfigMapEntryOnNodeUpdate ctrl\<rparr>"

section \<open>The periodic round\<close>

text \<open>An entry of a map: errors are logged and the loop goes on.\<close>

definition sync_entry :: "'w LockController \<Rightarrow> ConfigMap \<Rightarrow> Node option \<Rightarrow> string \<times> string \<Rightarrow> ('w, unit) eff" where
  "sync_entry c cm node = (\<lambda>(key, filestoreIP). case ParseConfigMapKey key of
       Inl e \<Rightarrow> ret ()
     | Inr k \<Rightarrow> (case verifyNodeExists node (lk_GkeNodeID k) (lk_GkeNodeInternalIP k) of
         Inl e \<Rightarrow> ret ()
       | Inr nodeExists \<Rightarrow>
           if nodeExists then ret ()
           else logged (lc_lockService c filestoreIP (lk_GkeNodeInternalIP k)) (\<lambda>e. ret ()) (\<lambda>_.
             logged (RemoveKeyFromConfigMapWithRetry (lc_client c) cm key) (\<lambda>e. ret ()) ret)))"

fun each :: "('a \<Rightarrow> ('w, unit) eff) \<Rightarrow> 'a list \<Rightarrow> ('w, unit) eff" where
  "each f [] = ret ()"
| "each f (x # xs) = bind (f x) (\<lambda>_. each f xs)"

definition syncLockInfo :: "'w LockController \<Rightarrow> ConfigMap \<Rightarrow> (string, Node) gomap \<Rightarrow> ('w, unit) eff" where
  "syncLockInfo c cm nodes =
     bind (lift (GKENodeNameFromConfigMap cm)) (\<lambda>nodeName.
       each (sync_entry c cm (mlookup nodes nodeName)) (cm_data cm))"

definition listNodes :: "'w LockController \<Rightarrow> ('w, (string, Node) gomap) eff" where
  "listNodes c = bind (kc_ListNodes (lc_client c)) (\<lambda>nodeList.
     ret (fold (\<lambda>nd m. minsert (nd_Name nd) nd m) nodeList []))"

text \<open>The body of the loop of \<open>Run\<close>, which \<open>wait.Forever\<close> repeats each \<open>SyncPeriod\<close> while this
  controller is the leader\<close>

definition sync_round :: "'w LockController \<Rightarrow> ('w, unit) eff" where
  "sync_round c =
     logged (kc_ListConfigMaps (lc_client c) ManagedFilestoreCSINamespace) (\<lambda>e. ret ()) (\<lambda>cms.
     logged (listNodes c) (\<lambda>e. ret ()) (\<lambda>nodes.
       each (\<lambda>cm. if cm_Name cm = rootCA then ret () else logged (syncLockInfo c cm nodes) (\<lambda>e. ret ()) ret) cms))"

section \<open>Node events\<close>

text \<open>The objects of the queues; a type assertion on another object panics.\<close>

datatype event_obj = NodeObj Node | UpdatePair Node Node | OtherObj

fun process_entries :: "(string \<Rightarrow> string \<Rightarrow> ('w, unit) eff) \<Rightarrow> labels \<Rightarrow> ('w, go_error list) eff" where
  "process_entries f [] = ret []"
| "process_entries f ((key, filestoreIP) # data) =
     logged (f key filestoreIP) (\<lambda>e. bind (process_entries f data) (\<lambda>es. ret (e # es)))
       (\<lambda>_. process_entries f data)"

text \<open>\<open>errors.Join\<close>, whose text has one error in each line; nothing looks into the result.\<close>

definition join_errors :: "go_error list \<Rightarrow> ('w, unit) eff" where
  "join_errors es = (if es = [] then ret () else fail (ErrText (join [CHR 0x0A] (map error_text es))))"

definition handle_entries ::
  "'w KubeClient \<Rightarrow> string \<Rightarrow> (ConfigMap \<Rightarrow> string \<Rightarrow> string \<Rightarrow> ('w, unit) eff) \<Rightarrow> ('w, unit) eff" where
  "handle_entries kc nodeName process =
     attempt (kc_GetConfigMap kc ManagedFilestoreCSINamespace (ConfigMapNamePrefix @ nodeName)) (\<lambda>r. case r of
       Inl e \<Rightarrow> if kc_IsNotFound kc e then ret ()
         else fail (rewrite_err (wrap_of (''failed to get configmap in namespace '' @ ManagedFilestoreCSINamespace @ '': '')) e)
     | Inr cm \<Rightarrow> bind (process_entries (process cm) (cm_data cm)) join_errors)"

definition handleCreateEvent :: "'w KubeClient \<Rightarrow> 'w EventProcessor \<Rightarrow> event_obj \<Rightarrow> ('w, unit) eff" where
  "handleCreateEvent kc ep obj = (case obj of
       NodeObj node \<Rightarrow> handle_entries kc (nd_Name node) (\<lambda>cm key ip. ep_onNodeCreation ep key ip node cm)
     | _ \<Rightarrow> fail (Panic ''interface conversion''))"

definition handleUpdateEvent :: "'w KubeClient \<Rightarrow> 'w EventProcessor \<Rightarrow> Node \<Rightarrow> Node \<Rightarrow> ('w, unit) eff" where
  "handleUpdateEvent kc ep oldNode newNode =
     handle_entries kc (nd_Name newNode) (\<lambda>cm key ip. ep_onNodeUpdate ep key ip newNode oldNode cm)"

text \<open>The queues of \<open>workqueue\<close>\<close>

record 'w WorkQueue =
  wq_Get :: "'w \<Rightarrow> (event_obj \<times> bool) \<times> 'w"
  wq_Add :: "event_obj \<Rightarrow> 'w \<Rightarrow> 'w"
  wq_Done :: "event_obj \<Rightarrow> 'w \<Rightarrow> 'w"
  wq_Forget :: "event_obj \<Rightarrow> 'w \<Rightarrow> 'w"
  wq_AddRateLimited :: "event_obj \<Rightarrow> 'w \<Rightarrow> 'w"

text \<open>What happens to an item after its handler: \<open>Forget\<close> on success, again into the queue on an error,
  and \<open>Done\<close> in all cases\<close>

definition finish_item :: "'w WorkQueue \<Rightarrow> event_obj \<Rightarrow> (go_error + unit) \<times> 'w \<Rightarrow> (go_error + bool) \<times> 'w" where
  "finish_item q obj = (\<lambda>(r, w). case r of
       Inr u \<Rightarrow> (Inr True, wq_Done q obj (wq_Forget q obj w))
     | Inl e \<Rightarrow> (case e of
         Panic p \<Rightarrow> (Inl (Panic p), wq_Done q obj w)
       | _ \<Rightarrow> (Inr True, wq_Done q obj (wq_AddRateLimited q obj w))))"

definition processNextCreateEvent :: "'w KubeClient \<Rightarrow> 'w EventProcessor \<Rightarrow> 'w WorkQueue \<Rightarrow> ('w, bool) eff" where
  "processNextCreateEvent kc ep q w = (case wq_Get q w of ((obj, shutdown), w1) \<Rightarrow>
       if shutdown then (Inr False, w1) else finish_item q obj (handleCreateEvent kc ep obj w1))"

definition processNextUpdateEventWorkItem ::
  "'w KubeClient \<Rightarrow> 'w EventProcessor \<Rightarrow> 'w WorkQueue \<Rightarrow> ('w, bool) eff" where
  "processNextUpdateEventWorkItem kc ep q w = (case wq_Get q w of ((obj, shutdown), w1) \<Rightarrow>
       if shutdown then (Inr False, w1)
       else (case obj of
           UpdatePair oldObj newObj \<Rightarrow> finish_item q obj (handleUpdateEvent kc ep oldObj newObj w1)
         | _ \<Rightarrow> (Inr True, wq_Done q obj w1)))"

text \<open>A worker runs until its queue shuts down: None when it never does.\<close>

partial_function (option) run_worker :: "('w, bool) eff \<Rightarrow> 'w \<Rightarrow> ((go_error + unit) \<times> 'w) option" where
  "run_worker step w = (case step w of
       (Inl e, w') \<Rightarrow> Some (Inl e, w')
     | (Inr again, w') \<Rightarrow> if again then run_worker step w' else Some (Inr (), w'))"

definition runCreateEventWorker ::
  "'w KubeClient \<Rightarrow> 'w EventProcessor \<Rightarrow> 'w WorkQueue \<Rightarrow> 'w \<Rightarrow> ((go_error + unit) \<times> 'w) option" where
  "runCreateEventWorker kc ep q = run_worker (processNextCreateEvent kc ep q)"

definition runUpdateEventWorker ::
  "'w KubeClient \<Rightarrow> 'w EventProcessor \<Rightarrow> 'w WorkQueue \<Rightarrow> 'w \<Rightarrow> ((go_error + unit) \<times> 'w) option" where
  "runUpdateEventWorker kc ep q = run_worker (processNextUpdateEventWorkItem kc ep q)"

definition EnqueueCreateEventObject :: "'w WorkQueue \<Rightarrow> event_obj \<Rightarrow> ('w, unit) eff" where
  "EnqueueCreateEventObject q obj = (\<lambda>w. (Inr (), wq_Add q obj w))"

definition EnqueueUpdateEventObject :: "'w WorkQueue \<Rightarrow> event_obj \<Rightarrow> event_obj \<Rightarrow> ('w, unit) eff" where
  "EnqueueUpdateEventObject q oldObj newObj = (case (oldObj, newObj) of
       (NodeObj oldNode, NodeObj newNode) \<Rightarrow> (\<lambda>w. (Inr (), wq_Add q (UpdatePair oldNode newNode) w))
     | _ \<Rightarrow> fail (Panic ''interface conversion''))"

end
