(* ===== verification/Lock_Rounds.thy ===== *)
theory Lock_Rounds
  imports Lock_Release
begin

text \<open>
  What the lock release controller guarantees: the locks of a node are released only when its entry is
  dead (no such node, or one with another id or without the address), a round removes the dead entries
  whose locks it has released and nothing else, and a node event that is handled without an error
  leaves no entry of the node that the node does not hold.
\<close>

section \<open>Dead entries\<close>

definition node_holds :: "Node \<Rightarrow> LockKey \<Rightarrow> bool" where
  "node_holds nd k = ((case nd_Annotations nd of None \<Rightarrow> False
       | Some ann \<Rightarrow> mlookup ann gceInstanceIDKey = Some (lk_GkeNodeID k))
     \<and> (''InternalIP'', lk_GkeNodeInternalIP k) \<in> set (nd_Addresses nd))"

definition entry_dead :: "Node option \<Rightarrow> LockKey \<Rightarrow> bool" where
  "entry_dead node k = (case node of None \<Rightarrow> True | Some nd \<Rightarrow> nd_Annotations nd \<noteq> None \<and> \<not> node_holds nd k)"

lemma verify_same: "verifyConfigMapEntry = verifyNodeExists"
  by (simp add: fun_eq_iff verifyConfigMapEntry_def verifyNodeExists_def)

lemma verifyNodeExists_False:
  "verifyNodeExists node (lk_GkeNodeID k) (lk_GkeNodeInternalIP k) = Inr False \<longleftrightarrow> entry_dead node k"
  by (auto simp: verifyNodeExists_def entry_dead_def node_holds_def list_ex_iff split: option.splits)

lemma verifyNodeExists_True:
  "verifyNodeExists (Some nd) (lk_GkeNodeID k) (lk_GkeNodeInternalIP k) = Inr True \<longleftrightarrow> node_holds nd k"
  by (auto simp: verifyNodeExists_def node_holds_def list_ex_iff split: option.splits)

lemma entry_matches_iff:
  "entry_matches nd k = Inr False \<longleftrightarrow> entry_dead (Some nd) k" "entry_matches nd k = Inr True \<longleftrightarrow> node_holds nd k"
  unfolding entry_matches_def verify_same verifyNodeExists_False verifyNodeExists_True by (rule refl)+

lemma entry_matches_cases:
  obtains e where "entry_matches nd k = Inl e" | "entry_matches nd k = Inr True" "node_holds nd k"
  | "entry_matches nd k = Inr False" "\<not> node_holds nd k"
  using entry_matches_iff[of nd k] by (cases "entry_matches nd k") (auto simp: entry_dead_def)

lemma holds_not_dead: "node_holds nd k \<Longrightarrow> \<not> entry_dead (Some nd) k"
  by (simp add: entry_dead_def)

lemma dead_sync_entry:
  "sync_entry c cm node (key, fip) = (case ParseConfigMapKey key of
       Inl e \<Rightarrow> ret ()
     | Inr k \<Rightarrow>
         if entry_dead node k
         then logged (lc_lockService c fip (lk_GkeNodeInternalIP k)) (\<lambda>e. ret ()) (\<lambda>_.
             logged (RemoveKeyFromConfigMapWithRetry (lc_client c) cm key) (\<lambda>e. ret ()) ret)
         else ret ())"
  by (auto simp: sync_entry_def verifyNodeExists_False[symmetric] split: sum.splits)

section \<open>Locks are released for dead entries only\<close>

lemma each_cong: "(\<And>x. x \<in> set xs \<Longrightarrow> f x = g x) \<Longrightarrow> each f xs = each g xs"
  by (induction xs) auto

lemma create_ignores_service:
  assumes "ParseConfigMapKey key = Inr k"
    "node_holds node k \<or> (\<forall>w latest w'. kc_GetNode (lc_client c) (nd_Name node) w = (Inr latest, w') \<longrightarrow> node_holds latest k)"
  shows "processConfigMapEntryOnNodeCreation (Some (c\<lparr>lc_lockService := ls\<rparr>)) key fip node cm
    = processConfigMapEntryOnNodeCreation (Some c) key fip node cm"
proof (cases rule: entry_matches_cases[of node k])
  case 3
  have "entry_matches latest k = Inr True"
    if "kc_GetNode (lc_client c) (nd_Name node) w = (Inr latest, w')" for w latest w'
    using assms(2) 3 that by (auto simp: entry_matches_iff)
  then show ?thesis
    by (auto simp: fun_eq_iff processConfigMapEntryOnNodeCreation_def assms(1) bind_err_def attempt_def
        split: prod.splits sum.splits)
qed (auto simp: fun_eq_iff processConfigMapEntryOnNodeCreation_def assms(1) bind_err_def)

lemma update_ignores_service:
  assumes "ParseConfigMapKey key = Inr k" "node_holds newNode k \<or> \<not> node_holds oldNode k"
  shows "processConfigMapEntryOnNodeUpdate (Some (c\<lparr>lc_lockService := ls\<rparr>)) key fip newNode oldNode cm
    = processConfigMapEntryOnNodeUpdate (Some c) key fip newNode oldNode cm"
  using assms(2)
  by (cases rule: entry_matches_cases[of newNode k]; cases rule: entry_matches_cases[of oldNode k])
    (auto simp: fun_eq_iff processConfigMapEntryOnNodeUpdate_def assms(1) bind_err_def)

text \<open>C9: The locks of a node that is alive are never released. The round calls the lock service only
  for entries of its map that are dead: it runs the same with any other lock service that agrees on
  these. The creation event calls it only when neither the node of the event nor the node that the
  API server has now holds the entry, and the update event only when the old node held it and the new
  one does not.\<close>

theorem locks_released_only_dead:
  "(GKENodeNameFromConfigMap cm = Inr n
      \<and> (\<forall>key' fip' k'. (key', fip') \<in> set (cm_data cm) \<and> ParseConfigMapKey key' = Inr k' \<and> entry_dead (mlookup nodes n) k'
          \<longrightarrow> ls fip' (lk_GkeNodeInternalIP k') = lc_lockService c fip' (lk_GkeNodeInternalIP k')) \<longrightarrow>
      syncLockInfo (c\<lparr>lc_lockService := ls\<rparr>) cm nodes = syncLockInfo c cm nodes)
   \<and> (ParseConfigMapKey key = Inr k
      \<and> (node_holds node k \<or> (\<forall>w latest w'. kc_GetNode (lc_client c) (nd_Name node) w = (Inr latest, w') \<longrightarrow> node_holds latest k)) \<longrightarrow>
      processConfigMapEntryOnNodeCreation (Some (c\<lparr>lc_lockService := ls\<rparr>)) key fip node cm
        = processConfigMapEntryOnNodeCreation (Some c) key fip node cm)
   \<and> (ParseConfigMapKey key = Inr k \<and> (node_holds newNode k \<or> \<not> node_holds oldNode k) \<longrightarrow>
      processConfigMapEntryOnNodeUpdate (Some (c\<lparr>lc_lockService := ls\<rparr>)) key fip newNode oldNode cm
        = processConfigMapEntryOnNodeUpdate (Some c) key fip newNode oldNode cm)"
proof (intro conjI impI)
  assume a: "GKENodeNameFromConfigMap cm = Inr n
      \<and> (\<forall>key' fip' k'. (key', fip') \<in> set (cm_data cm) \<and> ParseConfigMapKey key' = Inr k' \<and> entry_dead (mlookup nodes n) k'
          \<longrightarrow> ls fip' (lk_GkeNodeInternalIP k') = lc_lockService c fip' (lk_GkeNodeInternalIP k'))"
  have "each (sync_entry (c\<lparr>lc_lockService := ls\<rparr>) cm (mlookup nodes n)) (cm_data cm)
      = each (sync_entry c cm (mlookup nodes n)) (cm_data cm)"
    using a by (intro each_cong) (auto simp: dead_sync_entry split: sum.split)
  then show "syncLockInfo (c\<lparr>lc_lockService := ls\<rparr>) cm nodes = syncLockInfo c cm nodes"
    using a by (simp add: syncLockInfo_def bind_def lift_def)
qed (blast intro: create_ignores_service update_ignores_service)+

text \<open>A store with one list of entries for each map, and the log of the locks released\<close>

type_synonym demo_cluster = "((string \<times> string), labels) gomap \<times> (string \<times> string) list"

definition demo_map :: "demo_cluster \<Rightarrow> string \<Rightarrow> string \<Rightarrow> labels" where
  "demo_map w ns n = (case mlookup (fst w) (ns, n) of None \<Rightarrow> [] | Some m \<Rightarrow> m)"

definition demo_cm :: "demo_cluster \<Rightarrow> string \<Rightarrow> string \<Rightarrow> ConfigMap" where
  "demo_cm w ns n = \<lparr>cm_Name = n, cm_Namespace = ns, cm_ResourceVersion = [], cm_Finalizers = [], cm_Data = Some (demo_map w ns n)\<rparr>"

definition demo_node :: Node where
  "demo_node = \<lparr>nd_Name = ''n1'', nd_Annotations = Some [(gceInstanceIDKey, ''4712'')], nd_Addresses = [(''InternalIP'', ''10.0.0.7'')]\<rparr>"

definition demo_kube :: "demo_cluster KubeClient" where
  "demo_kube = \<lparr>kc_GetConfigMap = (\<lambda>ns n w. (Inr (demo_cm w ns n), w)),
     kc_CreateConfigMap = (\<lambda>ns cm w. (Inr cm, (minsert (ns, cm_Name cm) (cm_data cm) (fst w), snd w))),
     kc_UpdateConfigMap = (\<lambda>ns cm w. (Inr cm, (minsert (ns, cm_Name cm) (cm_data cm) (fst w), snd w))),
     kc_ListConfigMaps = (\<lambda>ns w. (Inr (map (\<lambda>((ns, n), m). demo_cm w ns n) (fst w)), w)),
     kc_GetNode = (\<lambda>n. if n = ''n1'' then ret demo_node else fail (ErrText ''not found'')),
     kc_ListNodes = ret [demo_node],
     kc_IsNotFound = (\<lambda>e. e = ErrText ''not found''), kc_IsConflict = (\<lambda>e. e = ErrText ''conflict'')\<rparr>"

definition demo_lock_controller :: "demo_cluster LockController" where
  "demo_lock_controller = \<lparr>lc_id = ''c'', lc_hostname = ''h'', lc_client = demo_kube,
     lc_lockService = (\<lambda>f n w. (Inr (), (fst w, (f, n) # snd w)))\<rparr>"

definition demo_dead_key :: string where "demo_dead_key = ''p.l.f.s.4711.10_0_0_7''"
definition demo_live_key :: string where "demo_live_key = ''p.l.f.s.4712.10_0_0_7''"

definition demo_world :: demo_cluster where
  "demo_world = ([((ManagedFilestoreCSINamespace, ''fscsi-n1''), [(demo_dead_key, ''10.1.0.2''), (demo_live_key, ''10.1.0.2'')])], [])"

definition demo_lock_map :: ConfigMap where "demo_lock_map = demo_cm demo_world ManagedFilestoreCSINamespace ''fscsi-n1''"

definition demo_key :: "string \<Rightarrow> LockKey" where
  "demo_key g = \<lparr>lk_ProjectID = ''p'', lk_Location = ''l'', lk_FilestoreName = ''f'', lk_ShareName = ''s'', lk_GkeNodeID = g,
     lk_GkeNodeInternalIP = ''10.0.0.7''\<rparr>"

lemma demo_ip: "net_ParseIP ''10.0.0.7'' \<noteq> None"
proof -
  have ip: "show_ip (ip_of_bytes 10 0 0 7) = ''10.0.0.7''" by code_simp
  show ?thesis using net_ParseIP_show_not_None[of "ip_of_bytes 10 0 0 7"] unfolding ip .
qed

lemma demo_keys [simp]:
  "ParseConfigMapKey demo_dead_key = Inr (demo_key ''4711'')" "ParseConfigMapKey demo_live_key = Inr (demo_key ''4712'')"
  using demo_ip
  by (simp_all add: ParseConfigMapKey_def demo_dead_key_def demo_live_key_def demo_key_def totalKeyElements_def replace_char_def Let_def)

lemma demo_holds [simp]: "node_holds demo_node (demo_key g) \<longleftrightarrow> g = ''4712''"
  by (auto simp: node_holds_def demo_node_def demo_key_def)

lemma demo_data [simp]: "cm_data demo_lock_map = [(demo_dead_key, ''10.1.0.2''), (demo_live_key, ''10.1.0.2'')]"
  by (simp add: demo_lock_map_def demo_cm_def demo_world_def demo_map_def cm_data_def)

lemma demo_node_name [simp]: "GKENodeNameFromConfigMap demo_lock_map = Inr ''n1''"
  by (simp add: GKENodeNameFromConfigMap_def demo_lock_map_def demo_cm_def ConfigMapNamePrefix_def hasPrefix_def)

theorem locks_released_only_dead_witness:
  "syncLockInfo (demo_lock_controller\<lparr>lc_lockService := (\<lambda>f n. if (f, n) = (''10.1.0.2'', ''10.0.0.7'')
       then lc_lockService demo_lock_controller f n else fail (ErrText ''never called''))\<rparr>) demo_lock_map [(''n1'', demo_node)]
     = syncLockInfo demo_lock_controller demo_lock_map [(''n1'', demo_node)]
   \<and> processConfigMapEntryOnNodeCreation (Some (demo_lock_controller\<lparr>lc_lockService := (\<lambda>f n. fail (ErrText ''never called''))\<rparr>))
       demo_live_key ''10.1.0.2'' demo_node demo_lock_map
     = processConfigMapEntryOnNodeCreation (Some demo_lock_controller) demo_live_key ''10.1.0.2'' demo_node demo_lock_map"
proof -
  let ?ls = "\<lambda>f n. if (f, n) = (''10.1.0.2'', ''10.0.0.7'') then lc_lockService demo_lock_controller f n else fail (ErrText ''never called'')"
  have "syncLockInfo (demo_lock_controller\<lparr>lc_lockService := ?ls\<rparr>) demo_lock_map [(''n1'', demo_node)]
      = syncLockInfo demo_lock_controller demo_lock_map [(''n1'', demo_node)]"
    by (rule locks_released_only_dead[THEN conjunct1, rule_format, where n = "''n1''"]) (auto simp: demo_key_def)
  then show ?thesis
    using locks_released_only_dead[THEN conjunct2, THEN conjunct1, rule_format,
        of demo_live_key "demo_key ''4712''" demo_node demo_lock_controller] by auto
qed

section \<open>Entries disappear only after their locks\<close>

text \<open>What the controller relies on: the store of config maps, a node that the API server returns is the
  one it has, and a release that succeeds is one more released lock. No call touches what is not its
  own.\<close>

definition cluster_ok :: "'w LockController \<Rightarrow> 'w entries \<Rightarrow> ('w \<Rightarrow> string \<Rightarrow> Node option)
    \<Rightarrow> ('w \<Rightarrow> (string \<times> string) set) \<Rightarrow> bool" where
  "cluster_ok c ent nodes released =
     (config_map_store (lc_client c) ent
    \<and> (\<forall>ns n. keeps nodes (kc_GetConfigMap (lc_client c) ns n) \<and> keeps released (kc_GetConfigMap (lc_client c) ns n))
    \<and> (\<forall>ns cm. keeps nodes (kc_UpdateConfigMap (lc_client c) ns cm) \<and> keeps released (kc_UpdateConfigMap (lc_client c) ns cm))
    \<and> (\<forall>n w. case kc_GetNode (lc_client c) n w of
          (Inr nd, w') \<Rightarrow> nodes w' = nodes w \<and> released w' = released w \<and> nodes w n = Some nd
        | (Inl e, w') \<Rightarrow> nodes w' = nodes w \<and> released w' = released w \<and> (kc_IsNotFound (lc_client c) e \<longrightarrow> nodes w n = None))
    \<and> (\<forall>f n w. case lc_lockService c f n w of
          (Inr u, w') \<Rightarrow> ent w' = ent w \<and> nodes w' = nodes w \<and> released w' = insert (f, n) (released w)
        | (Inl e, w') \<Rightarrow> ent w' = ent w \<and> nodes w' = nodes w \<and> released w' = released w))"

lemma cluster_store: "cluster_ok c ent nodes released \<Longrightarrow> config_map_store (lc_client c) ent"
  by (simp add: cluster_ok_def)

lemma cluster_keeps:
  assumes "cluster_ok c ent nodes released"
  shows "keeps nodes (kc_GetConfigMap (lc_client c) ns n)" "keeps released (kc_GetConfigMap (lc_client c) ns n)"
    "keeps nodes (kc_UpdateConfigMap (lc_client c) ns cm)" "keeps released (kc_UpdateConfigMap (lc_client c) ns cm)"
  using assms by (auto simp: cluster_ok_def)

lemma cluster_node:
  assumes "cluster_ok c ent nodes released" "kc_GetNode (lc_client c) n w = (r, w')"
  shows "nodes w' = nodes w" "released w' = released w" "ent w' = ent w"
    "r = Inr nd \<Longrightarrow> nodes w n = Some nd" "r = Inl e \<Longrightarrow> kc_IsNotFound (lc_client c) e \<Longrightarrow> nodes w n = None"
proof -
  have "case kc_GetNode (lc_client c) n w of
          (Inr nd, w') \<Rightarrow> nodes w' = nodes w \<and> released w' = released w \<and> nodes w n = Some nd
        | (Inl e, w') \<Rightarrow> nodes w' = nodes w \<and> released w' = released w \<and> (kc_IsNotFound (lc_client c) e \<longrightarrow> nodes w n = None)"
    using assms(1)[unfolded cluster_ok_def, THEN conjunct2, THEN conjunct2, THEN conjunct2, THEN conjunct1] by (elim allE)
  then show "nodes w' = nodes w" "released w' = released w" "r = Inr nd \<Longrightarrow> nodes w n = Some nd"
      "r = Inl e \<Longrightarrow> kc_IsNotFound (lc_client c) e \<Longrightarrow> nodes w n = None"
    using assms(2) by (auto split: sum.splits)
  show "ent w' = ent w" by (rule store_node[OF cluster_store[OF assms(1)] assms(2)])
qed

lemma cluster_service:
  assumes "cluster_ok c ent nodes released" "lc_lockService c f n w = (r, w')"
  shows "ent w' = ent w" "nodes w' = nodes w" "released w' = (case r of Inl e \<Rightarrow> released w | Inr u \<Rightarrow> insert (f, n) (released w))"
proof -
  have "case lc_lockService c f n w of
          (Inr u, w') \<Rightarrow> ent w' = ent w \<and> nodes w' = nodes w \<and> released w' = insert (f, n) (released w)
        | (Inl e, w') \<Rightarrow> ent w' = ent w \<and> nodes w' = nodes w \<and> released w' = released w"
    using assms(1)[unfolded cluster_ok_def, THEN conjunct2, THEN conjunct2, THEN conjunct2, THEN conjunct2] by (elim allE)
  then show "ent w' = ent w" "nodes w' = nodes w" "released w' = (case r of Inl e \<Rightarrow> released w | Inr u \<Rightarrow> insert (f, n) (released w))"
    using assms(2) by (auto split: sum.splits)
qed

lemma keeps_retry: "keeps f m \<Longrightarrow> keeps f (retry_on_conflict n conflict m)"
  by (induction n) (auto intro!: keeps_intros split: sum.split)

lemma remove_keeps:
  assumes "cluster_ok c ent nodes released"
  shows "keeps nodes (RemoveKeyFromConfigMapWithRetry (lc_client c) cm key)"
    "keeps released (RemoveKeyFromConfigMapWithRetry (lc_client c) cm key)"
  unfolding RemoveKeyFromConfigMapWithRetry_def remove_key_once_def remove_from_latest_def
  by (auto intro!: keeps_retry keeps_intros cluster_keeps[OF assms])

text \<open>One entry: it stays, or it is removed after its lock was released.\<close>

definition took :: "'w entries \<Rightarrow> ('w \<Rightarrow> string \<Rightarrow> Node option) \<Rightarrow> ('w \<Rightarrow> (string \<times> string) set) \<Rightarrow> ConfigMap \<Rightarrow> string
    \<Rightarrow> string \<Rightarrow> LockKey \<Rightarrow> 'w \<Rightarrow> 'w \<Rightarrow> bool \<Rightarrow> bool" where
  "took ent nodes released cm key fip k w w' gone = (nodes w' = nodes w \<and> released w \<subseteq> released w' \<and>
     (if gone then ent w' = put_entry (cm_Namespace cm) (cm_Name cm) key None (ent w) \<and> (fip, lk_GkeNodeInternalIP k) \<in> released w'
      else ent w' = ent w))"

lemma release_and_remove_spec:
  assumes "cluster_ok c ent nodes released" "mlookup (cm_data cm) key \<noteq> None" "release_and_remove c h key fip k cm w = (r, w')"
  shows "took ent nodes released cm key fip k w w' (case r of Inl e \<Rightarrow> False | Inr u \<Rightarrow> True)"
proof -
  obtain r1 w1 where l: "lc_lockService c fip (lk_GkeNodeInternalIP k) w = (r1, w1)" by force
  note ls = cluster_service[OF assms(1) l]
  show ?thesis
  proof (cases r1)
    case (Inl e)
    then have "w' = w1" "\<exists>e'. r = Inl e'" using assms(3) l by (auto simp: release_and_remove_def bind_err_def)
    then show ?thesis using ls Inl unfolding took_def by (elim exE) (simp only: sum.case if_False, simp)
  next
    case (Inr u)
    obtain r2 w2 where rm: "RemoveKeyFromConfigMapWithRetry (lc_client c) cm key w1 = (r2, w2)" by force
    have kept: "nodes w2 = nodes w" "released w2 = insert (fip, lk_GkeNodeInternalIP k) (released w)"
      using keepsD[OF remove_keeps(1)[OF assms(1)] rm] keepsD[OF remove_keeps(2)[OF assms(1)] rm] ls(2,3) Inr by simp_all
    have e: "ent w2 = (case r2 of Inl e \<Rightarrow> ent w | Inr u \<Rightarrow> put_entry (cm_Namespace cm) (cm_Name cm) key None (ent w))"
      using RemoveKeyFromConfigMapWithRetry_spec[OF cluster_store[OF assms(1)] assms(2) rm] unfolding ls(1) .
    have w': "w' = w2" "(case r of Inl e \<Rightarrow> False | Inr u \<Rightarrow> True) = (case r2 of Inl e \<Rightarrow> False | Inr u \<Rightarrow> True)"
      using assms(3) l Inr rm by (auto simp: release_and_remove_def bind_err_def split: sum.splits)
    show ?thesis unfolding took_def w' kept e by (cases r2) auto
  qed
qed

lemma sync_entry_state:
  "snd (logged (lc_lockService c fip (lk_GkeNodeInternalIP k)) (\<lambda>e. ret ()) (\<lambda>_.
       logged (RemoveKeyFromConfigMapWithRetry (lc_client c) cm key) (\<lambda>e. ret ()) ret) w)
   = snd (release_and_remove c wrap_of key fip k cm w)"
  by (simp add: logged_def attempt_eq release_and_remove_def bind_err_def split: prod.split sum.split go_error.split)

lemma sync_entry_spec:
  assumes "cluster_ok c ent nodes released" "mlookup (cm_data cm) key \<noteq> None" "sync_entry c cm node (key, fip) w = (r, w')"
  shows "(nodes w' = nodes w \<and> released w' = released w \<and> ent w' = ent w) \<or>
    (\<exists>k gone. ParseConfigMapKey key = Inr k \<and> entry_dead node k \<and> took ent nodes released cm key fip k w w' gone)"
proof (cases "ParseConfigMapKey key")
  case (Inr k)
  show ?thesis
  proof (cases "entry_dead node k")
    case True
    obtain r1 where rel: "release_and_remove c wrap_of key fip k cm w = (r1, w')"
      using sync_entry_state[of c fip k cm key w] assms(3) Inr True by (cases "release_and_remove c wrap_of key fip k cm w") (simp add: dead_sync_entry)
    show ?thesis using release_and_remove_spec[OF assms(1,2) rel] Inr True by blast
  qed (use assms(3) Inr in \<open>simp add: dead_sync_entry\<close>)
qed (use assms(3) in \<open>simp add: dead_sync_entry\<close>)

text \<open>What a round over entries of a map does: only entries of the map that are dead and whose locks were
  released are gone.\<close>

definition cleaned :: "'w entries \<Rightarrow> ('w \<Rightarrow> (string \<times> string) set) \<Rightarrow> ConfigMap \<Rightarrow> Node option \<Rightarrow> 'w \<Rightarrow> 'w \<Rightarrow> bool" where
  "cleaned ent released cm node w w' = (released w \<subseteq> released w' \<and> (\<forall>ns n key. ent w' ns n key = ent w ns n key \<or>
     (ns = cm_Namespace cm \<and> n = cm_Name cm \<and> ent w' ns n key = None \<and> (\<exists>fip k. mlookup (cm_data cm) key = Some fip
        \<and> ParseConfigMapKey key = Inr k \<and> entry_dead node k \<and> (fip, lk_GkeNodeInternalIP k) \<in> released w'))))"

lemma cleaned_refl [simp]: "cleaned ent released cm node w w"
  by (simp add: cleaned_def)

lemma cleaned_trans:
  assumes "cleaned ent released cm node w w1" "cleaned ent released cm node w1 w2"
  shows "cleaned ent released cm node w w2"
proof -
  have sub: "released w \<subseteq> released w1" "released w1 \<subseteq> released w2" using assms by (auto simp: cleaned_def)
  have "ent w2 ns n key = ent w ns n key \<or> (ns = cm_Namespace cm \<and> n = cm_Name cm \<and> ent w2 ns n key = None
      \<and> (\<exists>fip k. mlookup (cm_data cm) key = Some fip
        \<and> ParseConfigMapKey key = Inr k \<and> entry_dead node k \<and> (fip, lk_GkeNodeInternalIP k) \<in> released w2))" for ns n key
  proof (cases "ent w2 ns n key = ent w1 ns n key")
    case True
    then show ?thesis using assms(1) sub unfolding cleaned_def by (metis subsetD)
  next
    case False
    then show ?thesis using assms(2) unfolding cleaned_def by metis
  qed
  then show ?thesis using sub unfolding cleaned_def by blast
qed

lemma sync_entry_cleaned:
  assumes "cluster_ok c ent nodes released" "mlookup (cm_data cm) key = Some fip" "sync_entry c cm node (key, fip) w = (r, w')"
  shows "cleaned ent released cm node w w'"
proof -
  have "mlookup (cm_data cm) key \<noteq> None" using assms(2) by simp
  from sync_entry_spec[OF assms(1) this assms(3)] show ?thesis
  proof (elim disjE exE conjE)
    assume "nodes w' = nodes w" "released w' = released w" "ent w' = ent w"
    then show ?thesis by (simp add: cleaned_def)
  next
    fix k gone
    assume k: "ParseConfigMapKey key = Inr k" "entry_dead node k" and t: "took ent nodes released cm key fip k w w' gone"
    then show ?thesis using assms(2) by (cases gone) (auto simp: took_def cleaned_def)
  qed
qed

lemma each_cleaned:
  assumes "cluster_ok c ent nodes released" "\<forall>(key, fip) \<in> set es. mlookup (cm_data cm) key = Some fip"
    "each (sync_entry c cm node) es w = (r, w')"
  shows "cleaned ent released cm node w w'"
  using assms(2,3)
proof (induction es arbitrary: w)
  case (Cons x es)
  obtain key fip where x: "x = (key, fip)" by force
  obtain r1 w1 where s: "sync_entry c cm node x w = (r1, w1)" by force
  have c1: "cleaned ent released cm node w w1"
    using sync_entry_cleaned[OF assms(1), of cm key fip] s Cons.prems(1) by (simp add: x)
  show ?case
  proof (cases r1)
    case (Inl e)
    then show ?thesis using c1 Cons.prems(2) s by (simp add: bind_def)
  next
    case (Inr u)
    then have "cleaned ent released cm node w1 w'" using Cons s by (simp add: bind_def)
    then show ?thesis by (rule cleaned_trans[OF c1])
  qed
qed simp

text \<open>The calls for an entry succeed.\<close>

definition calls_succeed :: "'w LockController \<Rightarrow> ConfigMap \<Rightarrow> Node option \<Rightarrow> bool" where
  "calls_succeed c cm node = (\<forall>key fip k w. mlookup (cm_data cm) key = Some fip \<and> ParseConfigMapKey key = Inr k \<and> entry_dead node k \<longrightarrow>
     fst (lc_lockService c fip (lk_GkeNodeInternalIP k) w) = Inr () \<and> fst (RemoveKeyFromConfigMapWithRetry (lc_client c) cm key w) = Inr ())"

lemma sync_entry_success:
  assumes "cluster_ok c ent nodes released" "mlookup (cm_data cm) key = Some fip" "calls_succeed c cm node"
    "sync_entry c cm node (key, fip) w = (r, w')"
  shows "r = Inr () \<and> (\<forall>k. ParseConfigMapKey key = Inr k \<and> entry_dead node k \<longrightarrow> ent w' (cm_Namespace cm) (cm_Name cm) key = None)"
proof (cases "\<exists>k. ParseConfigMapKey key = Inr k \<and> entry_dead node k")
  case True
  then obtain k where k: "ParseConfigMapKey key = Inr k" "entry_dead node k" by blast
  obtain u1 w1 where l: "lc_lockService c fip (lk_GkeNodeInternalIP k) w = (u1, w1)" by force
  obtain u2 w2 where rm: "RemoveKeyFromConfigMapWithRetry (lc_client c) cm key w1 = (u2, w2)" by force
  have u: "u1 = Inr ()" "u2 = Inr ()"
    using assms(2,3) k l rm unfolding calls_succeed_def by (metis fst_conv)+
  have "w' = w2" "r = Inr ()"
    using assms(4) k l rm u by (simp_all add: dead_sync_entry logged_def attempt_eq)
  moreover have "ent w2 (cm_Namespace cm) (cm_Name cm) key = None"
    using RemoveKeyFromConfigMapWithRetry_spec[OF cluster_store[OF assms(1)] _ rm] assms(2) u by simp
  ultimately show ?thesis by simp
next
  case False
  then show ?thesis using assms(4) by (auto simp: dead_sync_entry split: sum.splits)
qed

lemma each_success:
  assumes "cluster_ok c ent nodes released" "calls_succeed c cm node" "\<forall>(key, fip) \<in> set es. mlookup (cm_data cm) key = Some fip"
    "each (sync_entry c cm node) es w = (r, w')"
  shows "r = Inr () \<and> (\<forall>(key, fip) \<in> set es. \<forall>k. ParseConfigMapKey key = Inr k \<and> entry_dead node k
    \<longrightarrow> ent w' (cm_Namespace cm) (cm_Name cm) key = None)"
  using assms(3,4)
proof (induction es arbitrary: w)
  case (Cons x es)
  obtain key fip where x: "x = (key, fip)" by force
  obtain r1 w1 where s: "sync_entry c cm node x w = (r1, w1)" by force
  have one: "r1 = Inr ()" "\<forall>k. ParseConfigMapKey key = Inr k \<and> entry_dead node k \<longrightarrow> ent w1 (cm_Namespace cm) (cm_Name cm) key = None"
    using sync_entry_success[OF assms(1) _ assms(2)] s Cons.prems(1) by (auto simp: x)
  then have rest: "each (sync_entry c cm node) es w1 = (r, w')" using Cons.prems(2) s by (simp add: bind_def)
  have "cleaned ent released cm node w1 w'" using each_cleaned[OF assms(1) _ rest] Cons.prems(1) by simp
  then have "ent w1 (cm_Namespace cm) (cm_Name cm) key = None \<Longrightarrow> ent w' (cm_Namespace cm) (cm_Name cm) key = None"
    unfolding cleaned_def by metis
  then show ?case using one Cons.IH[OF _ rest] Cons.prems(1) by (auto simp: x)
qed simp

lemma syncLockInfo_runs:
  assumes "cluster_ok c ent nodes released" "go_map (cm_data cm)" "GKENodeNameFromConfigMap cm = Inr n"
    "syncLockInfo c cm nds w = (r, w')"
  shows "cleaned ent released cm (mlookup nds n) w w'"
    "calls_succeed c cm (mlookup nds n) \<Longrightarrow> r = Inr () \<and> (\<forall>key k. key \<in> set (keys (cm_data cm))
        \<and> ParseConfigMapKey key = Inr k \<and> entry_dead (mlookup nds n) k \<longrightarrow> ent w' (cm_Namespace cm) (cm_Name cm) key = None)"
proof -
  have each: "each (sync_entry c cm (mlookup nds n)) (cm_data cm) w = (r, w')"
    using assms(3,4) by (simp add: syncLockInfo_def bind_def)
  have es: "\<forall>(key, fip) \<in> set (cm_data cm). mlookup (cm_data cm) key = Some fip"
    using assms(2) by (auto simp: go_map_def mlookup_def keys_def)
  show "cleaned ent released cm (mlookup nds n) w w'" by (rule each_cleaned[OF assms(1) es each])
  assume "calls_succeed c cm (mlookup nds n)"
  then show "r = Inr () \<and> (\<forall>key k. key \<in> set (keys (cm_data cm)) \<and> ParseConfigMapKey key = Inr k \<and> entry_dead (mlookup nds n) k
      \<longrightarrow> ent w' (cm_Namespace cm) (cm_Name cm) key = None)"
    using each_success[OF assms(1) _ es each] by (fastforce simp: keys_def)
qed

text \<open>C22: A round frees what dead nodes left, and nothing else. Whatever fails, every entry that the
  round over the map of a node changes is an entry of this map that is dead, it is removed, and its
  locks were released before; all other entries of all maps stay. When the calls for the dead entries
  succeed, the round succeeds and no dead entry is left.\<close>

theorem round_removes_dead:
  assumes ok: "cluster_ok c ent nodes released" and map: "go_map (cm_data cm)" "GKENodeNameFromConfigMap cm = Inr n"
    and run: "syncLockInfo c cm nds w = (r, w')"
  shows "(\<forall>ns m key. ent w' ns m key = ent w ns m key \<or>
      (ns = cm_Namespace cm \<and> m = cm_Name cm \<and> ent w' ns m key = None \<and> (\<exists>fip k. mlookup (cm_data cm) key = Some fip
        \<and> ParseConfigMapKey key = Inr k \<and> entry_dead (mlookup nds n) k \<and> (fip, lk_GkeNodeInternalIP k) \<in> released w')))
    \<and> (calls_succeed c cm (mlookup nds n) \<longrightarrow> r = Inr () \<and> (\<forall>key k. key \<in> set (keys (cm_data cm))
        \<and> ParseConfigMapKey key = Inr k \<and> entry_dead (mlookup nds n) k \<longrightarrow> ent w' (cm_Namespace cm) (cm_Name cm) key = None))"
  using syncLockInfo_runs[OF ok map run] unfolding cleaned_def by blast

definition demo_ent :: "demo_cluster entries" where
  "demo_ent w ns n = mlookup (demo_map w ns n)"

lemma demo_ent_insert: "demo_ent (minsert (ns, n) m (fst w), l) = (demo_ent w)(ns := (demo_ent w ns)(n := mlookup m))"
  by (auto simp: demo_ent_def demo_map_def fun_eq_iff)

lemma demo_cm_simps [simp]:
  "cm_Name (demo_cm w ns n) = n" "cm_Namespace (demo_cm w ns n) = ns" "cm_data (demo_cm w ns n) = demo_map w ns n"
  by (simp_all add: demo_cm_def cm_data_def)

lemma demo_cluster_ok:
  "cluster_ok demo_lock_controller demo_ent (\<lambda>w n. if n = ''n1'' then Some demo_node else None) (\<lambda>w. set (snd w))"
proof -
  have ent: "demo_ent (fst w, l) = demo_ent w" for w l by (simp add: fun_eq_iff demo_ent_def demo_map_def)
  have map: "mlookup (demo_map w ns n) = demo_ent w ns n" for w ns n by (simp add: demo_ent_def)
  show ?thesis
    by (auto simp: cluster_ok_def config_map_store_def demo_lock_controller_def demo_kube_def keeps_def demo_ent_insert ent map)
qed

theorem round_removes_dead_witness:
  "\<exists>w'. syncLockInfo demo_lock_controller demo_lock_map [(''n1'', demo_node)] demo_world = (Inr (), w')
     \<and> demo_ent w' ManagedFilestoreCSINamespace ''fscsi-n1'' demo_dead_key = None
     \<and> demo_ent w' ManagedFilestoreCSINamespace ''fscsi-n1'' demo_live_key = Some ''10.1.0.2''"
proof -
  obtain r w' where run: "syncLockInfo demo_lock_controller demo_lock_map [(''n1'', demo_node)] demo_world = (r, w')"
    by (cases "syncLockInfo demo_lock_controller demo_lock_map [(''n1'', demo_node)] demo_world")
  have map: "go_map (cm_data demo_lock_map)" by (simp add: go_map_def keys_def demo_dead_key_def demo_live_key_def)
  have names: "cm_Namespace demo_lock_map = ManagedFilestoreCSINamespace" "cm_Name demo_lock_map = ''fscsi-n1''"
    by (simp_all add: demo_lock_map_def)
  have ne: "demo_live_key \<noteq> demo_dead_key" by (simp add: demo_live_key_def demo_dead_key_def)
  have "fst (RemoveKeyFromConfigMapWithRetry demo_kube demo_lock_map key w) = Inr ()" for key w
    by (simp add: RemoveKeyFromConfigMapWithRetry_def DefaultRetry_Steps_def eval_nat_numeral attempt_eq remove_key_once_def remove_from_latest_def
        bind_def demo_kube_def)
  then have "calls_succeed demo_lock_controller demo_lock_map (mlookup [(''n1'', demo_node)] ''n1'')"
    by (simp add: calls_succeed_def demo_lock_controller_def)
  then have "r = Inr ()" "demo_ent w' ManagedFilestoreCSINamespace ''fscsi-n1'' demo_dead_key = None"
    using round_removes_dead[OF demo_cluster_ok map demo_node_name run]
    by (auto simp: names entry_dead_def demo_node_def[THEN arg_cong[where f = nd_Annotations]])
  moreover have "demo_ent w' ManagedFilestoreCSINamespace ''fscsi-n1'' demo_live_key
      = demo_ent demo_world ManagedFilestoreCSINamespace ''fscsi-n1'' demo_live_key"
    using round_removes_dead[OF demo_cluster_ok map demo_node_name run, THEN conjunct1, rule_format,
        of ManagedFilestoreCSINamespace "''fscsi-n1''" demo_live_key]
    by (auto simp: entry_dead_def)
  moreover have "demo_ent demo_world ManagedFilestoreCSINamespace ''fscsi-n1'' demo_live_key = Some ''10.1.0.2''"
    using ne by (simp add: demo_ent_def demo_map_def demo_world_def)
  ultimately show ?thesis using run by auto
qed

section \<open>Node events\<close>

text \<open>What the event handlers rely on in their \<open>EventProcessor\<close>: an entry it processes without an error
  is settled, and stays so while it processes others.\<close>

locale entry_processor =
  fixes process :: "string \<Rightarrow> string \<Rightarrow> ('w, unit) eff"
    and settled :: "'w \<Rightarrow> string \<Rightarrow> bool"
  assumes process_settles: "process key fip w = (Inr (), w') \<Longrightarrow> settled w' key"
    and process_keeps: "settled w key' \<Longrightarrow> process key fip w = (r, w') \<Longrightarrow> settled w' key'"
begin

lemma entries_keep: "settled w k \<Longrightarrow> process_entries process data w = (r, w') \<Longrightarrow> settled w' k"
proof (induction data arbitrary: w r)
  case (Cons x data)
  obtain key fip where x: "x = (key, fip)" by force
  obtain r1 w1 where p: "process key fip w = (r1, w1)" by force
  have s: "settled w1 k" by (rule process_keeps[OF Cons.prems(1) p])
  show ?case
    using Cons.prems(2) p s Cons.IH[of w1]
    by (cases r1; cases "process_entries process data w1")
       (auto simp: x logged_def attempt_eq bind_def split: go_error.splits sum.splits)
qed simp

lemma entries_settle:
  "process_entries process data w = (Inr [], w') \<Longrightarrow> key \<in> set (keys data) \<Longrightarrow> settled w' key"
proof (induction data arbitrary: w)
  case (Cons x data)
  obtain k fip where x: "x = (k, fip)" by force
  obtain r1 w1 where p: "process k fip w = (r1, w1)" by force
  have r: "r1 = Inr ()" "process_entries process data w1 = (Inr [], w')"
    using Cons.prems(1) p by (auto simp: x logged_def attempt_eq bind_def split: go_error.splits sum.splits prod.splits)
  then have "settled w1 k" using process_settles p by simp
  then show ?case using Cons.IH[OF r(2)] Cons.prems(2) entries_keep[OF _ r(2)] by (auto simp: x)
qed simp

end

text \<open>Entries only disappear, and nodes stay.\<close>

definition shrinks :: "'w entries \<Rightarrow> ('w \<Rightarrow> string \<Rightarrow> Node option) \<Rightarrow> 'w \<Rightarrow> 'w \<Rightarrow> bool" where
  "shrinks ent nodes w w' = (nodes w' = nodes w \<and> (\<forall>ns n k. ent w' ns n k = ent w ns n k \<or> ent w' ns n k = None))"

lemma shrinks_trans: "shrinks ent nodes w w1 \<Longrightarrow> shrinks ent nodes w1 w2 \<Longrightarrow> shrinks ent nodes w w2"
  unfolding shrinks_def by metis

lemma shrinks_same: "ent w' = ent w \<Longrightarrow> nodes w' = nodes w \<Longrightarrow> shrinks ent nodes w w'"
  by (simp add: shrinks_def)

lemma remove_absent:
  assumes "config_map_store kc ent" "mlookup (cm_data cm) key = None" "RemoveKeyFromConfigMapWithRetry kc cm key w = (r, w')"
  shows "ent w' = ent w"
proof -
  have once: "ent w2 = (case r of Inl e \<Rightarrow> ent w1 | Inr u \<Rightarrow> ent w1)" if "remove_key_once kc cm key w1 = (r, w2)" for r w1 w2
    using that assms(2) by (auto simp: remove_key_once_def remove_from_latest_def bind_def split: prod.splits sum.splits dest: store_get(1)[OF assms(1)])
  show ?thesis
    using retry_spec[where f = "remove_key_once kc cm key" and g = "\<lambda>e. e", OF once] assms(3)
    by (simp add: RemoveKeyFromConfigMapWithRetry_def DefaultRetry_Steps_def eval_nat_numeral sum.case_eq_if del: retry_on_conflict.simps)
qed

lemma release_and_remove_shrinks:
  assumes "cluster_ok c ent nodes released" "release_and_remove c h key fip k cm w = (r, w')"
  shows "shrinks ent nodes w w'"
proof (cases "mlookup (cm_data cm) key")
  case None
  obtain r1 w1 where l: "lc_lockService c fip (lk_GkeNodeInternalIP k) w = (r1, w1)" by force
  note ls = cluster_service[OF assms(1) l]
  obtain r2 w2 where rm: "RemoveKeyFromConfigMapWithRetry (lc_client c) cm key w1 = (r2, w2)" by force
  have "w' = w1 \<or> w' = w2" using assms(2) l rm by (auto simp: release_and_remove_def bind_err_def split: sum.splits)
  moreover have "nodes w2 = nodes w" "ent w2 = ent w"
    using keepsD[OF remove_keeps(1)[OF assms(1)] rm] remove_absent[OF cluster_store[OF assms(1)] None rm] ls(1,2) by simp_all
  ultimately show ?thesis using ls(1,2) by (auto intro: shrinks_same)
next
  case (Some v)
  then have "mlookup (cm_data cm) key \<noteq> None" by simp
  from release_and_remove_spec[OF assms(1) this assms(2)] show ?thesis
    by (cases r) (auto simp: took_def shrinks_def)
qed

text \<open>The two methods of the default processor: when they end without an error, the entry is gone, or it
  is held by the node of the event or by the node the API server has (creation), or it was not held by
  the node before the update.\<close>

definition created_settled :: "'w LockController \<Rightarrow> 'w entries \<Rightarrow> ('w \<Rightarrow> string \<Rightarrow> Node option) \<Rightarrow> ('w \<Rightarrow> (string \<times> string) set)
    \<Rightarrow> Node \<Rightarrow> ConfigMap \<Rightarrow> 'w \<Rightarrow> string \<Rightarrow> bool" where
  "created_settled c ent nodes released node cm w key = (cluster_ok c ent nodes released \<and> key \<in> set (keys (cm_data cm)) \<longrightarrow>
     (\<exists>k. ParseConfigMapKey key = Inr k \<and> (ent w (cm_Namespace cm) (cm_Name cm) key = None \<or> node_holds node k
        \<or> (case nodes w (nd_Name node) of None \<Rightarrow> True | Some nd \<Rightarrow> node_holds nd k))))"

definition updated_settled :: "'w LockController \<Rightarrow> 'w entries \<Rightarrow> ('w \<Rightarrow> string \<Rightarrow> Node option) \<Rightarrow> ('w \<Rightarrow> (string \<times> string) set)
    \<Rightarrow> Node \<Rightarrow> Node \<Rightarrow> ConfigMap \<Rightarrow> 'w \<Rightarrow> string \<Rightarrow> bool" where
  "updated_settled c ent nodes released newNode oldNode cm w key = (cluster_ok c ent nodes released \<and> key \<in> set (keys (cm_data cm)) \<longrightarrow>
     (\<exists>k. ParseConfigMapKey key = Inr k \<and> (ent w (cm_Namespace cm) (cm_Name cm) key = None \<or> node_holds newNode k
        \<or> \<not> node_holds oldNode k)))"

lemma release_and_remove_gone:
  assumes "cluster_ok c ent nodes released" "mlookup (cm_data cm) key \<noteq> None" "release_and_remove c h key fip k cm w = (Inr u, w')"
  shows "ent w' (cm_Namespace cm) (cm_Name cm) key = None"
  using release_and_remove_spec[OF assms] by (simp add: took_def)

lemma create_run:
  assumes ok: "cluster_ok c ent nodes released"
    and run: "processConfigMapEntryOnNodeCreation (Some c) key fip node cm w = (r, w')"
  shows "shrinks ent nodes w w' \<and> (r = Inr () \<longrightarrow> (\<exists>k. ParseConfigMapKey key = Inr k \<and> (node_holds node k
     \<or> (case nodes w (nd_Name node) of None \<Rightarrow> True | Some nd \<Rightarrow> node_holds nd k)
     \<or> (mlookup (cm_data cm) key \<noteq> None \<longrightarrow> ent w' (cm_Namespace cm) (cm_Name cm) key = None))))"
proof (cases "ParseConfigMapKey key")
  case (Inl e)
  then show ?thesis using run by (auto simp: processConfigMapEntryOnNodeCreation_def bind_err_def intro: shrinks_same)
next
  case (Inr k)
  note parse = Inr
  show ?thesis
  proof (cases rule: entry_matches_cases[of node k])
    case 3
    obtain r1 w1 where g: "kc_GetNode (lc_client c) (nd_Name node) w = (r1, w1)" by force
    note node = cluster_node[OF ok g]
    have s1: "shrinks ent nodes w w1" using node(1,3) by (rule shrinks_same[rotated])
    show ?thesis
    proof (cases r1)
      case (Inl e)
      then have "w' = w1" "r = Inr () \<Longrightarrow> nodes w (nd_Name node) = None"
        using run parse 3 g node(5)[OF Inl]
        by (auto simp: processConfigMapEntryOnNodeCreation_def bind_err_def attempt_eq split: if_splits)
      then show ?thesis using s1 parse by auto
    next
      case (Inr latest)
      have n: "nodes w (nd_Name node) = Some latest" by (rule node(4)[OF Inr])
      show ?thesis
      proof (cases rule: entry_matches_cases[of latest k])
        case [simp]: 3
        have "release_and_remove c text_of key fip k cm w1 = (r, w')"
          using run parse \<open>entry_matches node k = Inr False\<close> g Inr
          by (simp add: processConfigMapEntryOnNodeCreation_def bind_err_def attempt_eq)
        from release_and_remove_shrinks[OF ok this] release_and_remove_gone[OF ok, of cm key text_of fip k w1 "()" w'] this
        show ?thesis using parse shrinks_trans[OF s1] by (cases "mlookup (cm_data cm) key") auto
      qed (use run parse 3 g Inr n s1 in \<open>auto simp: processConfigMapEntryOnNodeCreation_def bind_err_def attempt_eq\<close>)
    qed
  qed (use run parse in \<open>auto simp: processConfigMapEntryOnNodeCreation_def bind_err_def intro: shrinks_same\<close>)
qed

lemma update_run:
  assumes ok: "cluster_ok c ent nodes released"
    and run: "processConfigMapEntryOnNodeUpdate (Some c) key fip newNode oldNode cm w = (r, w')"
  shows "shrinks ent nodes w w' \<and> (r = Inr () \<longrightarrow> (\<exists>k. ParseConfigMapKey key = Inr k \<and> (node_holds newNode k
     \<or> \<not> node_holds oldNode k
     \<or> (mlookup (cm_data cm) key \<noteq> None \<longrightarrow> ent w' (cm_Namespace cm) (cm_Name cm) key = None))))"
proof (cases "ParseConfigMapKey key")
  case (Inl e)
  then show ?thesis using run by (auto simp: processConfigMapEntryOnNodeUpdate_def bind_err_def intro: shrinks_same)
next
  case (Inr k)
  note parse = Inr
  show ?thesis
  proof (cases rule: entry_matches_cases[of newNode k])
    case 3
    note new = 3
    show ?thesis
    proof (cases rule: entry_matches_cases[of oldNode k])
      case 2
      have "release_and_remove c wrap_of key fip k cm w = (r, w')"
        using run parse new(1) 2 by (simp add: processConfigMapEntryOnNodeUpdate_def bind_err_def)
      from release_and_remove_shrinks[OF ok this] release_and_remove_gone[OF ok, of cm key wrap_of fip k w "()" w'] this
      show ?thesis using parse by (cases "mlookup (cm_data cm) key") auto
    qed (use run parse new in \<open>auto simp: processConfigMapEntryOnNodeUpdate_def bind_err_def intro: shrinks_same\<close>)
  qed (use run parse in \<open>auto simp: processConfigMapEntryOnNodeUpdate_def bind_err_def intro: shrinks_same\<close>)
qed

lemma shrinks_None: "shrinks ent nodes w w' \<Longrightarrow> ent w ns n k = None \<Longrightarrow> ent w' ns n k = None"
  unfolding shrinks_def by metis

lemma key_present: "key \<in> set (keys m) \<Longrightarrow> mlookup m key \<noteq> None"
  by (simp add: mlookup_None_keys)

lemma created_settled_shrinks:
  assumes "cluster_ok c ent nodes released \<Longrightarrow> shrinks ent nodes w w'" "created_settled c ent nodes released node cm w key"
  shows "created_settled c ent nodes released node cm w' key"
  unfolding created_settled_def
proof (intro impI, elim conjE)
  assume ok: "cluster_ok c ent nodes released" "key \<in> set (keys (cm_data cm))"
  obtain k where k: "ParseConfigMapKey key = Inr k" "ent w (cm_Namespace cm) (cm_Name cm) key = None \<or> node_holds node k
      \<or> (case nodes w (nd_Name node) of None \<Rightarrow> True | Some nd \<Rightarrow> node_holds nd k)"
    using assms(2) ok by (auto simp: created_settled_def)
  moreover have "nodes w' = nodes w" using assms(1)[OF ok(1)] by (simp add: shrinks_def)
  ultimately show "\<exists>k. ParseConfigMapKey key = Inr k \<and> (ent w' (cm_Namespace cm) (cm_Name cm) key = None \<or> node_holds node k
      \<or> (case nodes w' (nd_Name node) of None \<Rightarrow> True | Some nd \<Rightarrow> node_holds nd k))"
    using shrinks_None[OF assms(1)[OF ok(1)], of "cm_Namespace cm" "cm_Name cm" key] by (intro exI[of _ k]) auto
qed

lemma updated_settled_shrinks:
  assumes "cluster_ok c ent nodes released \<Longrightarrow> shrinks ent nodes w w'" "updated_settled c ent nodes released newNode oldNode cm w key"
  shows "updated_settled c ent nodes released newNode oldNode cm w' key"
  unfolding updated_settled_def
proof (intro impI, elim conjE)
  assume ok: "cluster_ok c ent nodes released" "key \<in> set (keys (cm_data cm))"
  obtain k where k: "ParseConfigMapKey key = Inr k" "ent w (cm_Namespace cm) (cm_Name cm) key = None \<or> node_holds newNode k
      \<or> \<not> node_holds oldNode k"
    using assms(2) ok by (auto simp: updated_settled_def)
  then show "\<exists>k. ParseConfigMapKey key = Inr k \<and> (ent w' (cm_Namespace cm) (cm_Name cm) key = None \<or> node_holds newNode k
      \<or> \<not> node_holds oldNode k)"
    using shrinks_None[OF assms(1)[OF ok(1)], of "cm_Namespace cm" "cm_Name cm" key] by (intro exI[of _ k]) auto
qed

interpretation created: entry_processor
    "\<lambda>key fip. processConfigMapEntryOnNodeCreation (Some c) key fip node cm"
    "created_settled c ent nodes released node cm"
proof
  fix key fip w w'
  assume p: "processConfigMapEntryOnNodeCreation (Some c) key fip node cm w = (Inr (), w')"
  show "created_settled c ent nodes released node cm w' key"
    unfolding created_settled_def
  proof (intro impI, elim conjE)
    assume ok: "cluster_ok c ent nodes released" and key: "key \<in> set (keys (cm_data cm))"
    note run = create_run[OF ok p]
    moreover have "nodes w' = nodes w" using run by (simp add: shrinks_def)
    ultimately show "\<exists>k. ParseConfigMapKey key = Inr k \<and> (ent w' (cm_Namespace cm) (cm_Name cm) key = None \<or> node_holds node k
        \<or> (case nodes w' (nd_Name node) of None \<Rightarrow> True | Some nd \<Rightarrow> node_holds nd k))"
      using key_present[OF key] by auto
  qed
next
  fix key key' fip w w' and r :: "go_error + unit"
  assume "created_settled c ent nodes released node cm w key'"
    "processConfigMapEntryOnNodeCreation (Some c) key fip node cm w = (r, w')"
  then show "created_settled c ent nodes released node cm w' key'"
    using create_run created_settled_shrinks by meson
qed

interpretation updated: entry_processor
    "\<lambda>key fip. processConfigMapEntryOnNodeUpdate (Some c) key fip newNode oldNode cm"
    "updated_settled c ent nodes released newNode oldNode cm"
proof
  fix key fip w w'
  assume p: "processConfigMapEntryOnNodeUpdate (Some c) key fip newNode oldNode cm w = (Inr (), w')"
  show "updated_settled c ent nodes released newNode oldNode cm w' key"
    unfolding updated_settled_def using update_run[of c ent nodes released, OF _ p] key_present[of key "cm_data cm"] by auto
next
  fix key key' fip w w' and r :: "go_error + unit"
  assume "updated_settled c ent nodes released newNode oldNode cm w key'"
    "processConfigMapEntryOnNodeUpdate (Some c) key fip newNode oldNode cm w = (r, w')"
  then show "updated_settled c ent nodes released newNode oldNode cm w' key'"
    using update_run updated_settled_shrinks by meson
qed

text \<open>Processing entries only removes entries.\<close>

lemma process_entries_shrinks:
  assumes "\<And>key fip w r w'. f key fip w = (r, w') \<Longrightarrow> shrinks ent nodes w w'" "process_entries f data w = (r, w')"
  shows "shrinks ent nodes w w'"
  using assms(2)
proof (induction data arbitrary: w r)
  case (Cons x data)
  obtain key fip where x: "x = (key, fip)" by force
  obtain r1 w1 where p: "f key fip w = (r1, w1)" by force
  have s: "shrinks ent nodes w w1" by (rule assms(1)[OF p])
  show ?case
    using Cons.prems p s shrinks_trans[OF s] Cons.IH[of w1]
    by (cases r1; cases "process_entries f data w1")
       (auto simp: x logged_def attempt_eq bind_def split: go_error.splits sum.splits)
qed (auto intro: shrinks_same)

lemma handled_entries:
  assumes "config_map_store kc ent" "handle_entries kc n process w = (Inr (), w')"
  obtains (none) "ent w ManagedFilestoreCSINamespace (ConfigMapNamePrefix @ n) = (\<lambda>k. None)" "ent w' = ent w"
  | (some) cm w1 where "cm_Namespace cm = ManagedFilestoreCSINamespace" "cm_Name cm = ConfigMapNamePrefix @ n"
      "mlookup (cm_data cm) = ent w ManagedFilestoreCSINamespace (ConfigMapNamePrefix @ n)" "ent w1 = ent w"
      "process_entries (process cm) (cm_data cm) w1 = (Inr [], w')"
proof -
  obtain r w1 where g: "kc_GetConfigMap kc ManagedFilestoreCSINamespace (ConfigMapNamePrefix @ n) w = (r, w1)" by force
  note get = store_get[OF assms(1) g]
  show ?thesis
  proof (cases r)
    case (Inl e)
    then show ?thesis using assms(2) g get(1) get(3)[OF Inl] none by (auto simp: handle_entries_def attempt_eq split: if_splits)
  next
    case (Inr cm)
    then show ?thesis using assms(2) g get(1) get(2)[OF Inr] some[of cm w1]
      by (auto simp: handle_entries_def attempt_eq bind_Inr_iff join_errors_def split: if_splits)
  qed
qed

text \<open>C23: A node event that is handled without an error leaves the map of the node in order. After a
  creation event every entry that is left parses and is held by the node of the event or by the node
  that the API server has, unless there is none (then the round removes it); after an update every
  entry that is left is held by the new node or was not held by the old one. No entry is added.\<close>

theorem node_events_settle:
  assumes ok: "cluster_ok c ent nodes released"
  shows "(handleCreateEvent (lc_client c) (DefaultEventProcessor (Some c)) (NodeObj node) w = (Inr (), w') \<longrightarrow>
      (\<forall>key v. ent w' ManagedFilestoreCSINamespace (ConfigMapNamePrefix @ nd_Name node) key = Some v \<longrightarrow>
        ent w ManagedFilestoreCSINamespace (ConfigMapNamePrefix @ nd_Name node) key = Some v
        \<and> (\<exists>k. ParseConfigMapKey key = Inr k \<and> (node_holds node k
          \<or> (case nodes w' (nd_Name node) of None \<Rightarrow> True | Some nd \<Rightarrow> node_holds nd k)))))
    \<and> (handleUpdateEvent (lc_client c) (DefaultEventProcessor (Some c)) oldNode newNode w = (Inr (), w') \<longrightarrow>
      (\<forall>key v. ent w' ManagedFilestoreCSINamespace (ConfigMapNamePrefix @ nd_Name newNode) key = Some v \<longrightarrow>
        ent w ManagedFilestoreCSINamespace (ConfigMapNamePrefix @ nd_Name newNode) key = Some v
        \<and> (\<exists>k. ParseConfigMapKey key = Inr k \<and> (node_holds newNode k \<or> \<not> node_holds oldNode k))))"
proof (intro conjI impI allI)
  fix key v
  let ?ns = ManagedFilestoreCSINamespace and ?n = "ConfigMapNamePrefix @ nd_Name node"
  assume run: "handleCreateEvent (lc_client c) (DefaultEventProcessor (Some c)) (NodeObj node) w = (Inr (), w')"
    and v: "ent w' ?ns ?n key = Some v"
  have "ent w ?ns ?n key = Some v \<and> (\<exists>k. ParseConfigMapKey key = Inr k \<and> (node_holds node k
      \<or> (case nodes w' (nd_Name node) of None \<Rightarrow> True | Some nd \<Rightarrow> node_holds nd k)))"
  proof (cases rule: handled_entries[OF cluster_store[OF ok] run[unfolded handleCreateEvent_def DefaultEventProcessor_def
      event_obj.case EventProcessor.simps]])
    case 1
    then show ?thesis using v by simp
  next
    case (2 cm w1)
    have "shrinks ent nodes w1 w'" using process_entries_shrinks[OF _ 2(5)] create_run[OF ok] by meson
    then have old: "ent w ?ns ?n key = Some v" using v 2(4) unfolding shrinks_def by (metis option.distinct(1))
    then have "key \<in> set (keys (cm_data cm))" using 2(3) mlookup_Some_keys[of "cm_data cm" key v] by simp
    moreover from this have "created_settled c ent nodes released node cm w' key" by (rule created.entries_settle[OF 2(5)])
    ultimately show ?thesis using ok old v 2(1,2) by (auto simp: created_settled_def)
  qed
  then show "ent w ?ns ?n key = Some v" "\<exists>k. ParseConfigMapKey key = Inr k \<and> (node_holds node k
      \<or> (case nodes w' (nd_Name node) of None \<Rightarrow> True | Some nd \<Rightarrow> node_holds nd k))" by auto
next
  fix key v
  let ?ns = ManagedFilestoreCSINamespace and ?n = "ConfigMapNamePrefix @ nd_Name newNode"
  assume run: "handleUpdateEvent (lc_client c) (DefaultEventProcessor (Some c)) oldNode newNode w = (Inr (), w')"
    and v: "ent w' ?ns ?n key = Some v"
  have "ent w ?ns ?n key = Some v \<and> (\<exists>k. ParseConfigMapKey key = Inr k \<and> (node_holds newNode k \<or> \<not> node_holds oldNode k))"
  proof (cases rule: handled_entries[OF cluster_store[OF ok] run[unfolded handleUpdateEvent_def DefaultEventProcessor_def EventProcessor.simps]])
    case 1
    then show ?thesis using v by simp
  next
    case (2 cm w1)
    have "shrinks ent nodes w1 w'" using process_entries_shrinks[OF _ 2(5)] update_run[OF ok] by meson
    then have old: "ent w ?ns ?n key = Some v" using v 2(4) unfolding shrinks_def by (metis option.distinct(1))
    then have "key \<in> set (keys (cm_data cm))" using 2(3) mlookup_Some_keys[of "cm_data cm" key v] by simp
    moreover from this have "updated_settled c ent nodes released newNode oldNode cm w' key" by (rule updated.entries_settle[OF 2(5)])
    ultimately show ?thesis using ok old v 2(1,2) by (auto simp: updated_settled_def)
  qed
  then show "ent w ?ns ?n key = Some v" "\<exists>k. ParseConfigMapKey key = Inr k \<and> (node_holds newNode k \<or> \<not> node_holds oldNode k)"
    by auto
qed

lemma demo_matches [simp]:
  "entry_matches demo_node (demo_key g) = Inr (g = ''4712'')"
  using entry_matches_iff[of demo_node "demo_key g"]
  by (cases "g = ''4712''") (auto simp: entry_dead_def demo_node_def[THEN arg_cong[where f = nd_Annotations]])

lemma demo_remove [simp]:
  "RemoveKeyFromConfigMapWithRetry demo_kube cm key w = (Inr (), if mlookup (cm_data cm) key = None then w
     else (minsert (cm_Namespace cm, cm_Name cm) (mdelete key (demo_map w (cm_Namespace cm) (cm_Name cm))) (fst w), snd w))"
  by (simp add: RemoveKeyFromConfigMapWithRetry_def DefaultRetry_Steps_def eval_nat_numeral attempt_eq remove_key_once_def remove_from_latest_def
      bind_def demo_kube_def)

theorem node_events_settle_witness:
  "\<exists>w'. handleCreateEvent demo_kube (DefaultEventProcessor (Some demo_lock_controller)) (NodeObj demo_node) demo_world = (Inr (), w')
     \<and> (\<forall>key v. demo_ent w' ManagedFilestoreCSINamespace ''fscsi-n1'' key = Some v \<longrightarrow> (\<exists>k. ParseConfigMapKey key = Inr k \<and> node_holds demo_node k))"
proof -
  let ?c = demo_lock_controller and ?ep = "DefaultEventProcessor (Some demo_lock_controller)"
  have n: "nd_Name demo_node = ''n1''" "ConfigMapNamePrefix @ ''n1'' = ''fscsi-n1''" by (simp_all add: demo_node_def ConfigMapNamePrefix_def)
  have c: "lc_client ?c = demo_kube" "\<And>f ip w. lc_lockService ?c f ip w = (Inr (), (fst w, (f, ip) # snd w))"
    by (simp_all add: demo_lock_controller_def)
  have g: "kc_GetConfigMap demo_kube ns m w = (Inr (demo_cm w ns m), w)" "kc_GetNode demo_kube ''n1'' w = (Inr demo_node, w)" for ns m w
    by (simp_all add: demo_kube_def)
  have cm: "cm_data (demo_cm demo_world ManagedFilestoreCSINamespace ''fscsi-n1'') = [(demo_dead_key, ''10.1.0.2''), (demo_live_key, ''10.1.0.2'')]"
    using demo_data by (simp add: demo_lock_map_def)
  have "\<exists>w'. handleCreateEvent demo_kube ?ep (NodeObj demo_node) demo_world = (Inr (), w')"
    by (simp add: handleCreateEvent_def DefaultEventProcessor_def handle_entries_def attempt_eq g cm n bind_def logged_def
        processConfigMapEntryOnNodeCreation_def bind_err_def c release_and_remove_def join_errors_def del: demo_cm_simps(3))
  then obtain w' where run: "handleCreateEvent demo_kube ?ep (NodeObj demo_node) demo_world = (Inr (), w')" by blast
  show ?thesis
    using node_events_settle[OF demo_cluster_ok, THEN conjunct1, rule_format, of demo_node demo_world w'] run
    by (intro exI[of _ w']) (auto simp: c n)
qed

section \<open>The exchange with the Filestore instance\<close>

text \<open>The exchange with the instance went through: the request for the address \<open>a\<close> was written to a
  connection to the port that the port mapper gave, and header and body of the answer were read.\<close>

definition exchanged :: "'w RpcLib \<Rightarrow> string \<Rightarrow> 32 word \<Rightarrow> 'w \<Rightarrow> nat \<Rightarrow> releaseLockResponse \<Rightarrow> 'w \<Rightarrow> bool" where
  "exchanged rpc hostIP a w conn res w' = (\<exists>port w1 w2 w3 w4.
     rpc_PmapGetPort rpc (hostIP @ '':'' @ pmapPort) pmapProgramNumber pmapProgramVersion w = (Inr port, w1)
     \<and> rpc_DialTimeout rpc (JoinHostPort hostIP (show_nat port)) w1 = (Inr conn, w2)
     \<and> rpc_WriteRequest rpc conn inbandLockReleaseProcedureName a w2 = (Inr (), w3)
     \<and> rpc_ReadResponseHeader rpc conn w3 = (Inr (), w4)
     \<and> rpc_ReadResponseBody rpc conn \<lparr>rl_status = 0\<rparr> w4 = (Inr res, w'))"

lemma call_release_show:
  "call_release rpc conn hostIP (show_ip a) w = (Inr (), w') \<longleftrightarrow> (\<exists>w1 w2 res.
     rpc_WriteRequest rpc conn inbandLockReleaseProcedureName a w = (Inr (), w1) \<and> rpc_ReadResponseHeader rpc conn w1 = (Inr (), w2)
     \<and> rpc_ReadResponseBody rpc conn \<lparr>rl_status = 0\<rparr> w2 = (Inr res, w') \<and> rl_status res = 0)"
proof -
  obtain bs where b: "net_ParseIP (show_ip a) = Some bs" "To4 bs = Some a"
    using To4_show[of a] by (cases "net_ParseIP (show_ip a)") auto
  show ?thesis by (auto simp: call_release_def b Let_def bind_err_Inr_iff split: if_splits)
qed

text \<open>C35: A release that succeeds was sent for the right node, and a refusal is not seen. \<open>ReleaseLock\<close>
  succeeds for a node address exactly when the request with this address was exchanged with the
  instance and the status of the response is 0; the connection is closed then. The codec of the
  library fills in exported fields only, and the status is not exported: with a codec that leaves the
  structure as it is, the call succeeds whenever the exchange does, whatever the server answered.\<close>

theorem ReleaseLock_exchange:
  assumes "net_ParseIP hostIP \<noteq> None"
  shows "(ReleaseLock rpc hostIP (show_ip a) w = (Inr (), w') \<longleftrightarrow>
      (\<exists>conn res w1. exchanged rpc hostIP a w conn res w1 \<and> rl_status res = 0 \<and> w' = rpc_Close rpc conn w1))
   \<and> ((\<forall>conn res v res' v'. rpc_ReadResponseBody rpc conn res v = (Inr res', v') \<longrightarrow> res' = res) \<longrightarrow>
      exchanged rpc hostIP a w conn res w1 \<longrightarrow> ReleaseLock rpc hostIP (show_ip a) w = (Inr (), rpc_Close rpc conn w1))"
proof -
  obtain b where b: "net_ParseIP hostIP = Some b" using assms by auto
  have main: "ReleaseLock rpc hostIP (show_ip a) w = (Inr (), w') \<longleftrightarrow>
      (\<exists>conn res w1. exchanged rpc hostIP a w conn res w1 \<and> rl_status res = 0 \<and> w' = rpc_Close rpc conn w1)" for w'
  proof -
    have fin: "(case m w2 of (r, w3) \<Rightarrow> (r, cl w3)) = (Inr (), w') \<longleftrightarrow> (\<exists>w3. m w2 = (Inr (), w3) \<and> w' = cl w3)"
      for m :: "('a, unit) eff" and cl w2 by (auto split: prod.split)
    have r: "ReleaseLock rpc hostIP (show_ip a) w = (Inr (), w') \<longleftrightarrow> (\<exists>port w1.
        rpc_PmapGetPort rpc (hostIP @ '':'' @ pmapPort) pmapProgramNumber pmapProgramVersion w = (Inr port, w1) \<and> (\<exists>conn w2.
        rpc_DialTimeout rpc (JoinHostPort hostIP (show_nat port)) w1 = (Inr conn, w2) \<and> (\<exists>w5.
          call_release rpc conn hostIP (show_ip a) w2 = (Inr (), w5) \<and> w' = rpc_Close rpc conn w5)))"
      by (simp add: ReleaseLock_def b Let_def bind_err_Inr_iff fin)
    show ?thesis unfolding r call_release_show exchanged_def
      by (rule iffI; elim exE conjE) ((intro exI conjI; assumption)+)
  qed
  have "rl_status res = 0" if t: "\<forall>conn res v res' v'. rpc_ReadResponseBody rpc conn res v = (Inr res', v') \<longrightarrow> res' = res"
    "exchanged rpc hostIP a w conn res w1" for conn res w1
  proof -
    obtain v where "rpc_ReadResponseBody rpc conn \<lparr>rl_status = 0\<rparr> v = (Inr res, w1)"
      using t(2) by (auto simp: exchanged_def)
    then have "res = \<lparr>rl_status = 0\<rparr>" using t(1) by blast
    then show ?thesis by simp
  qed
  then show ?thesis using main by blast
qed

text \<open>A server that answers with status 13, read by a codec that skips the field: the state is the status
  sent and the number of connections closed.\<close>

definition demo_rpc :: "(nat \<times> nat) RpcLib" where
  "demo_rpc = \<lparr>rpc_RegisterProcedure = (\<lambda>pr ve pc nm. ret ()), rpc_PmapGetPort = (\<lambda>h pr ve. ret 2049), rpc_DialTimeout = (\<lambda>a. ret 1),
     rpc_WriteRequest = (\<lambda>c m ip w. (Inr (), (13, snd w))), rpc_ReadResponseHeader = (\<lambda>c. ret ()),
     rpc_ReadResponseBody = (\<lambda>c res. ret res), rpc_Close = (\<lambda>c w. (fst w, Suc (snd w))), rpc_request_text = []\<rparr>"

theorem ReleaseLock_exchange_witness:
  "ReleaseLock demo_rpc ''10.0.0.7'' (show_ip 5) (0, 0) = (Inr (), (13, 1))"
proof -
  have "exchanged demo_rpc ''10.0.0.7'' 5 (0, 0) 1 \<lparr>rl_status = 0\<rparr> (13, 0)"
    by (simp add: exchanged_def demo_rpc_def)
  then show ?thesis
    using ReleaseLock_exchange[OF demo_ip, of demo_rpc 5 "(0, 0)" _ 1 "\<lparr>rl_status = 0\<rparr>" "(13, 0)", THEN conjunct2]
    by (simp add: demo_rpc_def)
qed

end
