(* ===== verification/Node_Mounts.thy ===== *)
theory Node_Mounts
  imports Node_Server Lock_Rounds
begin

text \<open>
  What the node server guarantees. Its mount table maps a path to the source mounted there, and its
  config map holds the NFS mounts whose locks a dead node would leave: \<open>node_env_ok\<close> says what the
  mount library and the API server are trusted for. Staging, publishing, and their inverses are
  followed on both, together with the controller that releases the locks of a node that is gone.
\<close>

section \<open>The mount table\<close>

type_synonym 'w mounts = "'w \<Rightarrow> string \<Rightarrow> string option"

text \<open>
  What the mount library and the API server are trusted for. A failed mount or cleanup changes no
  mount. The check of a mount point is a heuristic of the mount library: only a path that is mounted
  is reported as mounted (the paths of the node server are directories and no symbolic links), but a
  mounted path may go unnoticed, as a bind mount within one file system does. A path whose mount is
  always noticed is \<open>detectable\<close>: the library compares the device of the path with that of its parent
  directory, so this holds of the mounts of this driver, an NFS share mounted at a staging path and
  bound to target paths, all below directories of the kubelet on another device.\<close>

definition node_env_ok :: "'w NodeEnv \<Rightarrow> 'w mounts \<Rightarrow> 'w entries \<Rightarrow> bool" where
  "node_env_ok env mounts ent =
     ((\<forall>p w. case ne_IsLikelyNotMountPoint env p w of
          (Inr b, w') \<Rightarrow> mounts w' = mounts w \<and> ent w' = ent w \<and> (\<not> b \<longrightarrow> mounts w p \<noteq> None)
        | (Inl e, w') \<Rightarrow> mounts w' = mounts w \<and> ent w' = ent w \<and> (ne_IsNotExist env e \<longrightarrow> mounts w p = None))
    \<and> (\<forall>s p t opts w. case ne_Mount env s p t opts w of
          (Inr u, w') \<Rightarrow> mounts w' = (mounts w)(p \<mapsto> s) \<and> ent w' = ent w
        | (Inl e, w') \<Rightarrow> mounts w' = mounts w \<and> ent w' = ent w)
    \<and> (\<forall>p w. case ne_CleanupMountPoint env p w of
          (Inr u, w') \<Rightarrow> mounts w' = (mounts w)(p := None) \<and> ent w' = ent w
        | (Inl e, w') \<Rightarrow> mounts w' = mounts w \<and> ent w' = ent w)
    \<and> (\<forall>p. keeps mounts (ne_MkdirAll env p) \<and> keeps ent (ne_MkdirAll env p))
    \<and> config_map_store (ne_kube env) ent
    \<and> (\<forall>ns n cm. keeps mounts (kc_GetConfigMap (ne_kube env) ns n) \<and> keeps mounts (kc_UpdateConfigMap (ne_kube env) ns cm)
        \<and> keeps mounts (kc_CreateConfigMap (ne_kube env) ns cm)))"

definition detectable :: "'w NodeEnv \<Rightarrow> 'w mounts \<Rightarrow> string \<Rightarrow> bool" where
  "detectable env mounts p = (\<forall>w w'. ne_IsLikelyNotMountPoint env p w = (Inr True, w') \<longrightarrow> mounts w p = None)"

lemma env_mounted:
  assumes "node_env_ok env mounts ent" "isDirMounted env p w = (r, w')"
  shows "mounts w' = mounts w \<and> ent w' = ent w \<and>
    (case r of Inl e \<Rightarrow> ne_IsNotExist env e \<longrightarrow> mounts w p = None | Inr m \<Rightarrow> m \<longrightarrow> mounts w p \<noteq> None)"
proof -
  have "case ne_IsLikelyNotMountPoint env p w of
          (Inr b, w') \<Rightarrow> mounts w' = mounts w \<and> ent w' = ent w \<and> (\<not> b \<longrightarrow> mounts w p \<noteq> None)
        | (Inl e, w') \<Rightarrow> mounts w' = mounts w \<and> ent w' = ent w \<and> (ne_IsNotExist env e \<longrightarrow> mounts w p = None)"
    using assms(1)[unfolded node_env_ok_def, THEN conjunct1] by (elim allE)
  then show ?thesis using assms(2) by (auto simp: isDirMounted_def bind_def split: prod.splits sum.splits)
qed

lemma env_mount:
  assumes "node_env_ok env mounts ent" "ne_Mount env s p t opts w = (r, w')"
  shows "mounts w' = (case r of Inl e \<Rightarrow> mounts w | Inr u \<Rightarrow> (mounts w)(p \<mapsto> s)) \<and> ent w' = ent w"
proof -
  have "case ne_Mount env s p t opts w of
          (Inr u, w') \<Rightarrow> mounts w' = (mounts w)(p \<mapsto> s) \<and> ent w' = ent w
        | (Inl e, w') \<Rightarrow> mounts w' = mounts w \<and> ent w' = ent w"
    using assms(1)[unfolded node_env_ok_def, THEN conjunct2, THEN conjunct1] by (elim allE)
  then show ?thesis using assms(2) by (auto split: sum.splits)
qed

lemma env_cleanup:
  assumes "node_env_ok env mounts ent" "ne_CleanupMountPoint env p w = (r, w')"
  shows "mounts w' = (case r of Inl e \<Rightarrow> mounts w | Inr u \<Rightarrow> (mounts w)(p := None)) \<and> ent w' = ent w"
proof -
  have "case ne_CleanupMountPoint env p w of
          (Inr u, w') \<Rightarrow> mounts w' = (mounts w)(p := None) \<and> ent w' = ent w
        | (Inl e, w') \<Rightarrow> mounts w' = mounts w \<and> ent w' = ent w"
    using assms(1)[unfolded node_env_ok_def, THEN conjunct2, THEN conjunct2, THEN conjunct1] by (elim allE)
  then show ?thesis using assms(2) by (auto split: sum.splits)
qed

lemma env_mkdir:
  assumes "node_env_ok env mounts ent" "ne_MkdirAll env p w = (r, w')"
  shows "mounts w' = mounts w \<and> ent w' = ent w"
  using assms keepsD[of mounts "ne_MkdirAll env p" w r w'] keepsD[of ent "ne_MkdirAll env p" w r w']
  by (simp add: node_env_ok_def)

lemma env_store: "node_env_ok env mounts ent \<Longrightarrow> config_map_store (ne_kube env) ent"
  by (simp add: node_env_ok_def)

lemma env_kube:
  assumes "node_env_ok env mounts ent"
  shows "keeps mounts (kc_GetConfigMap (ne_kube env) ns n)" "keeps mounts (kc_UpdateConfigMap (ne_kube env) ns cm)"
    "keeps mounts (kc_CreateConfigMap (ne_kube env) ns cm)"
  using assms by (simp_all add: node_env_ok_def)

lemma lock_info_keeps_mounts:
  assumes "node_env_ok env mounts ent"
  shows "keeps mounts (nodeStageVolumeUpdateLockInfo env req)" "keeps mounts (nodeUnstageVolumeUpdateLockInfo env v)"
    "keeps mounts (stage_lock_info env req)"
  unfolding stage_lock_info_def nodeStageVolumeUpdateLockInfo_def nodeUnstageVolumeUpdateLockInfo_def GetConfigMap_def
    CreateConfigMapWithData_def UpdateConfigMapWithKeyValue_def RemoveKeyFromConfigMap_def Let_def
  by (auto intro!: keeps_intros env_kube[OF assms] split: sum.split option.split)

text \<open>\<open>mount_or_clean\<close>: the result is the result of the mount, with its error rewritten; a failure leaves
  the path of the cleanup unmounted, or as it was when the cleanup fails too.\<close>

lemma mount_or_clean_run:
  assumes "node_env_ok env mounts ent" "mount_or_clean env cleanup h (ne_Mount env s p t opts) w = (r, w')"
  shows "ent w' = ent w \<and> (case r of
      Inr u \<Rightarrow> mounts w' = (mounts w)(p \<mapsto> s)
    | Inl e \<Rightarrow> mounts w' = mounts w \<or> mounts w' = (mounts w)(cleanup := None))"
proof -
  obtain r1 w1 where m: "ne_Mount env s p t opts w = (r1, w1)" by force
  obtain r2 w2 where c: "ne_CleanupMountPoint env cleanup w1 = (r2, w2)" by force
  note em = env_mount[OF assms(1) m] and ec = env_cleanup[OF assms(1) c]
  show ?thesis
  proof (cases r1)
    case (Inr u)
    then show ?thesis using assms(2) m em by (auto simp: mount_or_clean_def logged_def attempt_eq)
  next
    case (Inl e)
    have "(w' = w1 \<or> w' = w2) \<and> (\<exists>e'. r = Inl e')"
      using assms(2) m c Inl by (auto simp: mount_or_clean_def logged_def attempt_eq split: go_error.splits sum.splits)
    then show ?thesis using em ec Inl by (auto split: sum.splits)
  qed
qed

section \<open>Staging and publishing\<close>

lemma with_lock_run:
  assumes "with_lock v (on_world m) d = (r, d')"
  shows "(r = Inl (lock_taken v) \<and> world d' = world d) \<or> m (world d) = (r, world d')"
  using assms by (auto simp: with_lock_def on_world_def split: prod.splits if_splits)

lemma stage_locked_run:
  assumes ok: "node_env_ok env mounts ent" and run: "stage_locked env req vc source w = (r, w')"
  shows "(\<forall>p. p \<noteq> ns_StagingTargetPath req \<longrightarrow> mounts w' p = mounts w p)
    \<and> (r = Inr () \<longrightarrow> (mounts w' (ns_StagingTargetPath req) = Some source
        \<or> mounts w (ns_StagingTargetPath req) \<noteq> None \<and> mounts w' (ns_StagingTargetPath req) = mounts w (ns_StagingTargetPath req))
      \<and> (\<exists>w1. ent w1 = ent w \<and> stage_lock_info env req w1 = (Inr (), w')))"
proof -
  let ?p = "ns_StagingTargetPath req"
  let ?h = "\<lambda>e. StatusErr Internal (''mount '' @ quote ?p @ '' failed on node '' @ ne_NodeName env @ '': '' @ error_text e)"
  let ?mount = "bind (mount_or_clean env ?p ?h (ne_Mount env source ?p ''nfs'' (stage_options vc (ns_VolumeContext req))))
    (\<lambda>_. stage_lock_info env req)"
  have mnt: "(\<forall>p. p \<noteq> ?p \<longrightarrow> mounts w' p = mounts w1 p) \<and> (r = Inr () \<longrightarrow> mounts w' ?p = Some source
      \<and> (\<exists>w2. ent w2 = ent w1 \<and> stage_lock_info env req w2 = (Inr (), w')))" if m: "?mount w1 = (r, w')" for w1
  proof -
    obtain r2 w2 where c: "mount_or_clean env ?p ?h (ne_Mount env source ?p ''nfs'' (stage_options vc (ns_VolumeContext req))) w1 = (r2, w2)" by force
    note mc = mount_or_clean_run[OF ok c]
    show ?thesis
    proof (cases r2)
      case (Inl e)
      then show ?thesis using m c mc by (auto simp: bind_def)
    next
      case (Inr u)
      then have "stage_lock_info env req w2 = (r, w')" using m c by (simp add: bind_def)
      moreover from this have "mounts w' = mounts w2" by (rule keepsD[OF lock_info_keeps_mounts(3)[OF ok]])
      ultimately show ?thesis using mc Inr by auto
    qed
  qed
  obtain r1 w1 where d: "isDirMounted env ?p w = (r1, w1)" by force
  note em = env_mounted[OF ok d]
  show ?thesis
  proof (cases r1)
    case (Inr m)
    show ?thesis
    proof (cases m)
      case True
      then have s: "stage_lock_info env req w1 = (r, w')" using run d Inr by (simp add: stage_locked_def Let_def attempt_eq)
      have "mounts w' = mounts w1" by (rule keepsD[OF lock_info_keeps_mounts(3)[OF ok] s])
      then show ?thesis using s em Inr True by auto
    next
      case False
      then have "?mount w1 = (r, w')" using run d Inr by (simp add: stage_locked_def Let_def attempt_eq)
      from mnt[OF this] show ?thesis using em Inr False by auto
    qed
  next
    case (Inl e)
    show ?thesis
    proof (cases "ne_IsNotExist env e")
      case False
      then show ?thesis using run d Inl em by (auto simp: stage_locked_def Let_def attempt_eq)
    next
      case True
      obtain r2 w2 where k: "ne_MkdirAll env ?p w1 = (r2, w2)" by force
      note ek = env_mkdir[OF ok k]
      show ?thesis
      proof (cases r2)
        case (Inl e')
        then show ?thesis using run d \<open>r1 = Inl e\<close> True em k ek
          by (auto simp: stage_locked_def Let_def attempt_eq bind_err_def)
      next
        case (Inr u)
        then have "?mount w2 = (r, w')"
          using run d \<open>r1 = Inl e\<close> True k by (simp add: stage_locked_def Let_def attempt_eq bind_err_def)
        from mnt[OF this] show ?thesis using em ek \<open>r1 = Inl e\<close> True by auto
      qed
    qed
  qed
qed

text \<open>Publishing on a system other than Windows\<close>

lemma publish_locked_run:
  assumes ok: "node_env_ok env mounts ent" and os: "ne_goOs env \<noteq> ''windows''"
    and run: "publish_locked env req w = (r, w')"
  shows "ent w' = ent w \<and> (case r of
      Inr u \<Rightarrow> mounts w' = (mounts w)(np_TargetPath req \<mapsto> np_StagingTargetPath req)
        \<or> mounts w (np_TargetPath req) \<noteq> None \<and> mounts w' = mounts w
    | Inl e \<Rightarrow> mounts w' = mounts w \<or> mounts w' = (mounts w)(np_StagingTargetPath req := None))"
proof -
  let ?s = "np_StagingTargetPath req" and ?t = "np_TargetPath req"
  let ?h = "\<lambda>e. StatusErr Internal (''mount '' @ quote ?t @ '' failed: '' @ error_text e)"
  let ?m = "mount_or_clean env ?s ?h (ne_Mount env ?s ?t ''nfs'' (publish_options req [''bind'']))"
  obtain r1 w1 where d: "isDirMounted env ?t w = (r1, w1)" by force
  note em = env_mounted[OF ok d]
  have body: "publish_locked env req w = bind (prepare_target env req) (\<lambda>prepared. case prepared of None \<Rightarrow> ret ()
      | Some (options, sens) \<Rightarrow> mount_or_clean env ?s ?h (if length sens > 0
          then ne_MountSensitive env ?s ?t ''nfs'' (publish_options req options) sens
          else ne_Mount env ?s ?t ''nfs'' (publish_options req options))) w"
    by (simp only: publish_locked_def Let_def os if_False)
  show ?thesis
  proof (cases r1)
    case (Inr m)
    show ?thesis
    proof (cases m)
      case True
      then show ?thesis using run em Inr d os by (auto simp: body prepare_target_def Let_def attempt_eq bind_def)
    next
      case False
      then have "?m w1 = (r, w')" using run Inr d os by (simp add: body prepare_target_def Let_def attempt_eq bind_def)
      from mount_or_clean_run[OF ok this] show ?thesis using em Inr False by (auto split: sum.splits)
    qed
  next
    case (Inl e)
    show ?thesis
    proof (cases "ne_IsNotExist env e")
      case False
      then show ?thesis using run d Inl em os by (auto simp: body prepare_target_def Let_def attempt_eq bind_def)
    next
      case True
      obtain r2 w2 where k: "ne_MkdirAll env ?t w1 = (r2, w2)" by force
      note ek = env_mkdir[OF ok k]
      show ?thesis
      proof (cases r2)
        case (Inl e')
        then show ?thesis using run d \<open>r1 = Inl e\<close> True em k ek os
          by (auto simp: body prepare_target_def Let_def attempt_eq bind_def bind_err_def)
      next
        case (Inr u)
        then have "?m w2 = (r, w')"
          using run d \<open>r1 = Inl e\<close> True k os by (simp add: body prepare_target_def Let_def attempt_eq bind_def bind_err_def)
        from mount_or_clean_run[OF ok this] show ?thesis using em ek \<open>r1 = Inl e\<close> True by (auto split: sum.splits)
      qed
    qed
  qed
qed

section \<open>Lock information\<close>

abbreviation node_entry :: "'w NodeEnv \<Rightarrow> 'w entries \<Rightarrow> 'w \<Rightarrow> string \<Rightarrow> string option" where
  "node_entry env ent w \<equiv> ent w ManagedFilestoreCSINamespace (ConfigMapNamePrefix @ ne_NodeName env)"

abbreviation put_node_entry :: "'w NodeEnv \<Rightarrow> string \<Rightarrow> string option \<Rightarrow> _" where
  "put_node_entry env \<equiv> put_entry ManagedFilestoreCSINamespace (ConfigMapNamePrefix @ ne_NodeName env)"

lemma GetConfigMap_run:
  assumes "config_map_store kc ent" "GetConfigMap kc n ns w = (Inr cmo, w')"
  shows "ent w' = ent w \<and> (case cmo of None \<Rightarrow> ent w ns n = (\<lambda>k. None)
    | Some cm \<Rightarrow> cm_Name cm = n \<and> cm_Namespace cm = ns \<and> mlookup (cm_data cm) = ent w ns n)"
proof -
  obtain r w1 where g: "kc_GetConfigMap kc ns n w = (r, w1)" by force
  note get = store_get[OF assms(1) g]
  show ?thesis
  proof (cases r)
    case (Inl e)
    then show ?thesis using assms(2) g get(1) get(3)[OF Inl] by (auto simp: GetConfigMap_def attempt_eq split: if_splits)
  next
    case (Inr cm)
    then show ?thesis using assms(2) g get(1) get(2)[OF Inr] by (auto simp: GetConfigMap_def attempt_eq)
  qed
qed

lemma put_entry_same: "e ns n k = v \<Longrightarrow> put_entry ns n k v e = e"
  by (auto simp: put_entry_def)

lemma put_entry_put [simp]: "put_entry ns n k v (put_entry ns n k v' e) = put_entry ns n k v e"
  by (simp add: put_entry_def)

definition records_lock :: "'w NodeEnv \<Rightarrow> labels \<Rightarrow> bool" where
  "records_lock env attr = (stage_protocol env attr = v3FileProtocol \<and> ne_FeatureLockRelease env \<and> supports_lock_release attr)"

lemma stage_lock_info_run:
  assumes ok: "config_map_store (ne_kube env) ent" and run: "stage_lock_info env req w = (Inr (), w')"
  shows "if records_lock env (ns_VolumeContext req)
    then (\<exists>key. generateLockInfoKeyFromVolumeID env (ns_VolumeId req) = Inr key \<and>
       ent w' = (if node_entry env ent w key = None then put_node_entry env key (Some (mget (ns_VolumeContext req) attrIP)) (ent w) else ent w))
    else ent w' = ent w"
proof (cases "records_lock env (ns_VolumeContext req)")
  case False
  then show ?thesis using run
    by (auto simp: records_lock_def stage_lock_info_def nodeStageVolumeUpdateLockInfo_def bind_err_def split: if_splits)
next
  case True
  let ?kc = "ne_kube env" and ?n = "ConfigMapNamePrefix @ ne_NodeName env" and ?ns = ManagedFilestoreCSINamespace
  let ?ip = "mget (ns_VolumeContext req) attrIP"
  obtain cmo key w1 where g: "GetConfigMap ?kc ?n ?ns w = (Inr cmo, w1)" and key: "generateLockInfoKeyFromVolumeID env (ns_VolumeId req) = Inr key"
    and rest: "(case cmo of None \<Rightarrow> bind (CreateConfigMapWithData ?kc ?n ?ns [(key, ?ip)]) (\<lambda>_. ret ())
       | Some m \<Rightarrow> UpdateConfigMapWithKeyValue ?kc m key ?ip) w1 = (Inr (), w')"
    using run True
    by (auto simp: records_lock_def stage_lock_info_def nodeStageVolumeUpdateLockInfo_def Let_def bind_Inr_iff bind_err_Inr_iff lift_Inr)
  note get = GetConfigMap_run[OF ok g]
  show ?thesis
  proof (cases cmo)
    case None
    then obtain cm' where "kc_CreateConfigMap ?kc ?ns \<lparr>cm_Name = ?n, cm_Namespace = ?ns, cm_ResourceVersion = [],
        cm_Finalizers = [ConfigMapFinalzer], cm_Data = Some [(key, ?ip)]\<rparr> w1 = (Inr cm', w')"
      using rest by (auto simp: CreateConfigMapWithData_def bind_Inr_iff)
    from store_create(1)[OF ok this refl] show ?thesis
      using get None True key by (auto simp: cm_data_def put_entry_def fun_eq_iff)
  next
    case (Some m)
    show ?thesis
    proof (cases "mlookup (cm_data m) key = None")
      case True
      then obtain cm' where "kc_UpdateConfigMap ?kc (cm_Namespace m) (m\<lparr>cm_Data := Some (minsert key ?ip (cm_data m))\<rparr>) w1 = (Inr cm', w')"
        using rest Some by (auto simp: UpdateConfigMapWithKeyValue_def bind_Inr_iff)
      from store_update(1)[OF ok this refl] show ?thesis
        using get Some True key \<open>records_lock env (ns_VolumeContext req)\<close> by (auto simp: put_entry_def fun_eq_iff)
    next
      case False
      then show ?thesis using get Some rest key \<open>records_lock env (ns_VolumeContext req)\<close>
        by (auto simp: UpdateConfigMapWithKeyValue_def)
    qed
  qed
qed

lemma unstage_lock_info_run:
  assumes ok: "config_map_store (ne_kube env) ent" and run: "nodeUnstageVolumeUpdateLockInfo env v w = (Inr (), w')"
  shows "ent w' = (case generateLockInfoKeyFromVolumeID env v of Inl e \<Rightarrow> ent w | Inr key \<Rightarrow> put_node_entry env key None (ent w))"
proof -
  let ?kc = "ne_kube env" and ?n = "ConfigMapNamePrefix @ ne_NodeName env" and ?ns = ManagedFilestoreCSINamespace
  obtain cmo w1 where g: "GetConfigMap ?kc ?n ?ns w = (Inr cmo, w1)"
    and rest: "(case cmo of None \<Rightarrow> ret () | Some m \<Rightarrow> bind (lift (generateLockInfoKeyFromVolumeID env v)) (\<lambda>key.
        RemoveKeyFromConfigMap ?kc m key)) w1 = (Inr (), w')"
    using run by (auto simp: nodeUnstageVolumeUpdateLockInfo_def bind_Inr_iff)
  note get = GetConfigMap_run[OF ok g]
  show ?thesis
  proof (cases cmo)
    case None
    then show ?thesis using get rest by (auto simp: put_entry_same split: sum.split)
  next
    case (Some m)
    then obtain key where key: "generateLockInfoKeyFromVolumeID env v = Inr key" and rm: "RemoveKeyFromConfigMap ?kc m key w1 = (Inr (), w')"
      using rest by (auto simp: bind_Inr_iff lift_Inr)
    show ?thesis
    proof (cases "mlookup (cm_data m) key = None")
      case True
      then have "node_entry env ent w key = None" using get Some by auto
      then show ?thesis using rm True get Some key by (auto simp: RemoveKeyFromConfigMap_def put_entry_same)
    next
      case False
      then obtain cm' where "kc_UpdateConfigMap ?kc (cm_Namespace m) (m\<lparr>cm_Data := Some (mdelete key (cm_data m))\<rparr>) w1 = (Inr cm', w')"
        using rm by (auto simp: RemoveKeyFromConfigMap_def bind_Inr_iff)
      from store_update(1)[OF ok this refl] show ?thesis
        using get Some key by (auto simp: put_entry_def fun_eq_iff)
    qed
  qed
qed

section \<open>The handlers\<close>

lemma NodeStage_run:
  assumes "NodeStageVolume env req d = (Inr (), d')"
  obtains vc source where "stage_source (ns_VolumeId req) (ns_VolumeContext req) = Inr source"
    "stage_locked env req vc source (world d) = (Inr (), world d')"
  using assms by (auto simp: NodeStageVolume_def bind_Inr_iff lift_Inr split: if_splits option.splits dest: with_lock_run)

lemma NodePublish_run:
  assumes "NodePublishVolume cfg env req d = (Inr (), d')"
  shows "publish_locked env req (world d) = (Inr (), world d')"
  using assms by (auto simp: NodePublishVolume_def bind_Inr_iff required_def split: if_splits option.splits dest: with_lock_run)

lemma NodeUnpublish_run:
  assumes "node_env_ok env mounts ent" "NodeUnpublishVolume env p d = (Inr (), d')"
  shows "mounts (world d') = (mounts (world d))(p := None) \<and> ent (world d') = ent (world d)"
  using assms(2) env_cleanup[OF assms(1), of p "world d"]
  by (auto simp: NodeUnpublishVolume_def bind_err_Inr_iff split: if_splits dest!: with_lock_run)

lemma NodeUnstage_run:
  assumes "node_env_ok env mounts ent" "NodeUnstageVolume env v p d = (Inr (), d')"
  shows "mounts (world d') = (mounts (world d))(p := None) \<and> ent (world d') = (if ne_FeatureLockRelease env
    then (case generateLockInfoKeyFromVolumeID env v of Inl e \<Rightarrow> ent (world d) | Inr key \<Rightarrow> put_node_entry env key None (ent (world d)))
    else ent (world d))"
proof -
  have u: "unstage_locked env v p (world d) = (Inr (), world d')"
    using assms(2) by (auto simp: NodeUnstageVolume_def split: if_splits dest: with_lock_run)
  obtain u1 w1 where c: "ne_CleanupMountPoint env p (world d) = (Inr u1, w1)"
    and l: "(if ne_FeatureLockRelease env then nodeUnstageVolumeUpdateLockInfo env v w1 = (Inr (), world d') else world d' = w1)"
    using u by (auto simp: unstage_locked_def bind_err_Inr_iff split: if_splits)
  show ?thesis
  proof (cases "ne_FeatureLockRelease env")
    case True
    then have l: "nodeUnstageVolumeUpdateLockInfo env v w1 = (Inr (), world d')" using l by simp
    have "mounts (world d') = mounts w1" by (rule keepsD[OF lock_info_keeps_mounts(2)[OF assms(1)] l])
    moreover have "mounts w1 = (mounts (world d))(p := None)" and e: "ent w1 = ent (world d)"
      using env_cleanup[OF assms(1) c] by simp_all
    ultimately show ?thesis
      using True unstage_lock_info_run[OF env_store[OF assms(1)] l, unfolded e] by simp
  next
    case False
    then show ?thesis using l env_cleanup[OF assms(1) c] by simp
  qed
qed

lemma NodeStage_state:
  assumes ok: "node_env_ok env mounts ent" and run: "NodeStageVolume env req d = (Inr (), d')"
  obtains source where "stage_source (ns_VolumeId req) (ns_VolumeContext req) = Inr source"
    "mounts (world d') = (mounts (world d))(ns_StagingTargetPath req \<mapsto> source)
      \<or> mounts (world d) (ns_StagingTargetPath req) \<noteq> None \<and> mounts (world d') = mounts (world d)"
    "if records_lock env (ns_VolumeContext req)
     then (\<exists>key. generateLockInfoKeyFromVolumeID env (ns_VolumeId req) = Inr key \<and> ent (world d') =
        (if node_entry env ent (world d) key = None
         then put_node_entry env key (Some (mget (ns_VolumeContext req) attrIP)) (ent (world d)) else ent (world d)))
     else ent (world d') = ent (world d)"
proof -
  obtain vc source where s: "stage_source (ns_VolumeId req) (ns_VolumeContext req) = Inr source"
    and l: "stage_locked env req vc source (world d) = (Inr (), world d')" by (rule NodeStage_run[OF run])
  note st = stage_locked_run[OF ok l]
  then obtain w1 where w1: "ent w1 = ent (world d)" "stage_lock_info env req w1 = (Inr (), world d')" by auto
  note li = stage_lock_info_run[OF env_store[OF ok] w1(2), unfolded w1(1)]
  have "mounts (world d') = (mounts (world d))(ns_StagingTargetPath req \<mapsto> source)
      \<or> mounts (world d) (ns_StagingTargetPath req) \<noteq> None \<and> mounts (world d') = mounts (world d)"
  proof (cases "mounts (world d') (ns_StagingTargetPath req) = Some source")
    case True
    then show ?thesis using st by (intro disjI1 ext) simp
  next
    case False
    then have "mounts (world d) (ns_StagingTargetPath req) \<noteq> None"
      "mounts (world d') (ns_StagingTargetPath req) = mounts (world d) (ns_StagingTargetPath req)" using st by auto
    moreover have "mounts (world d') p = mounts (world d) p" for p using st calculation(2) by (cases "p = ns_StagingTargetPath req") auto
    ultimately show ?thesis by blast
  qed
  then show ?thesis using that[OF s _ li] by blast
qed

text \<open>C10: A volume that is staged, published, unpublished and unstaged leaves no trace. Staging mounts the
  source of the volume at the staging path and records the NFS mount in the map of the node (for a
  volume that supports lock release, when the feature is on); publishing mounts the staging path at the
  target; after unpublishing and unstaging all mounts and all entries of all config maps are those of
  the beginning.\<close>

theorem volume_lifecycle:
  assumes ok: "node_env_ok env mounts ent" "ne_goOs env \<noteq> ''windows''"
    and paths: "np_StagingTargetPath pub = ns_StagingTargetPath req" "np_TargetPath pub \<noteq> ns_StagingTargetPath req"
    and fresh: "mounts (world d0) (ns_StagingTargetPath req) = None" "mounts (world d0) (np_TargetPath pub) = None"
      "\<And>key. generateLockInfoKeyFromVolumeID env (ns_VolumeId req) = Inr key \<Longrightarrow> node_entry env ent (world d0) key = None"
    and run: "NodeStageVolume env req d0 = (Inr (), d1)" "NodePublishVolume cfg env pub d1 = (Inr (), d2)"
      "NodeUnpublishVolume env (np_TargetPath pub) d2 = (Inr (), d3)"
      "NodeUnstageVolume env (ns_VolumeId req) (ns_StagingTargetPath req) d3 = (Inr (), d4)"
  shows "(\<exists>source. stage_source (ns_VolumeId req) (ns_VolumeContext req) = Inr source
      \<and> mounts (world d1) = (mounts (world d0))(ns_StagingTargetPath req \<mapsto> source))
    \<and> mounts (world d2) = (mounts (world d1))(np_TargetPath pub \<mapsto> ns_StagingTargetPath req)
    \<and> (records_lock env (ns_VolumeContext req) \<longrightarrow> (\<exists>key. generateLockInfoKeyFromVolumeID env (ns_VolumeId req) = Inr key
        \<and> node_entry env ent (world d2) key = Some (mget (ns_VolumeContext req) attrIP)))
    \<and> mounts (world d4) = mounts (world d0) \<and> ent (world d4) = ent (world d0)"
proof -
  let ?s = "ns_StagingTargetPath req" and ?t = "np_TargetPath pub" and ?attr = "ns_VolumeContext req"
  obtain source where src: "stage_source (ns_VolumeId req) ?attr = Inr source" and m1: "mounts (world d1) = (mounts (world d0))(?s \<mapsto> source)"
    and e1: "if records_lock env ?attr then (\<exists>key. generateLockInfoKeyFromVolumeID env (ns_VolumeId req) = Inr key \<and> ent (world d1) =
        (if node_entry env ent (world d0) key = None then put_node_entry env key (Some (mget ?attr attrIP)) (ent (world d0)) else ent (world d0)))
      else ent (world d1) = ent (world d0)"
    using NodeStage_state[OF ok(1) run(1)] fresh(1) by metis
  have p: "mounts (world d2) = (mounts (world d1))(?t \<mapsto> ?s)" "ent (world d2) = ent (world d1)"
    using publish_locked_run[OF ok NodePublish_run[OF run(2)]] paths fresh(2) m1 by auto
  have m4: "mounts (world d4) = mounts (world d0)"
    using NodeUnpublish_run[OF ok(1) run(3)] NodeUnstage_run[OF ok(1) run(4)] p m1 fresh(1,2) paths(2) by (auto simp: fun_eq_iff)
  have e3: "ent (world d3) = ent (world d1)" using NodeUnpublish_run[OF ok(1) run(3)] p by simp
  have e4: "ent (world d4) = ent (world d0)"
  proof (cases "records_lock env ?attr")
    case True
    then obtain key where k: "generateLockInfoKeyFromVolumeID env (ns_VolumeId req) = Inr key"
        "ent (world d1) = put_node_entry env key (Some (mget ?attr attrIP)) (ent (world d0))"
      using e1 fresh(3) by auto
    then show ?thesis
      using NodeUnstage_run[OF ok(1) run(4)] e3 fresh(3)[OF k(1)] True by (simp add: records_lock_def put_entry_same)
  next
    case False
    then show ?thesis
      using NodeUnstage_run[OF ok(1) run(4)] e1 e3 fresh(3) by (auto simp: put_entry_same split: if_splits sum.splits)
  qed
  show ?thesis using src m1 p m4 e4 e1 fresh(3) by auto
qed

text \<open>C33: A failed publish unmounts the staging path. On a system other than Windows, when the target path is
  not mounted, its bind mount fails with a plain error and the cleanup that follows succeeds, the node
  server has cleaned up the staging path and not the target path: the caller gets code Internal with
  the error of the mount, and the mount at the staging path, which had not failed and from which a retry
  would bind, is gone. All other mounts are as before, those of other targets included.\<close>

theorem failed_publish_unmounts_staging:
  assumes ok: "node_env_ok env mounts ent" "ne_goOs env \<noteq> ''windows''"
    and req: "np_TargetPath req \<noteq> []" "np_StagingTargetPath req \<noteq> []"
      "validateVolumeCapabilities cfg [map_option VolumeCapability.truncate (np_VolumeCapability req)] = None"
      "np_TargetPath req \<notin> busy_volumes d"
    and calls: "ne_IsLikelyNotMountPoint env (np_TargetPath req) (world d) = (Inr True, w1)"
      "ne_Mount env (np_StagingTargetPath req) (np_TargetPath req) ''nfs'' (publish_options req [''bind'']) w1 = (Inl (ErrText m), w2)"
      "ne_CleanupMountPoint env (np_StagingTargetPath req) w2 = (Inr (), w3)"
  shows "\<exists>d'. NodePublishVolume cfg env req d
      = (Inl (StatusErr Internal (''mount '' @ quote (np_TargetPath req) @ '' failed: '' @ m)), d')
    \<and> world d' = w3 \<and> mounts (world d') (np_StagingTargetPath req) = None
    \<and> (\<forall>p. p \<noteq> np_StagingTargetPath req \<longrightarrow> mounts (world d') p = mounts (world d) p)"
proof -
  let ?h = "\<lambda>e. StatusErr Internal (''mount '' @ quote (np_TargetPath req) @ '' failed: '' @ error_text e)"
  have "isDirMounted env (np_TargetPath req) (world d) = (Inr False, w1)" using calls(1) by (simp add: isDirMounted_def bind_def)
  then have prep: "prepare_target env req (world d) = (Inr (Some ([''bind''], [])), w1)"
    using ok(2) by (simp add: prepare_target_def Let_def attempt_eq)
  have "publish_locked env req (world d) = mount_or_clean env (np_StagingTargetPath req) ?h
      (ne_Mount env (np_StagingTargetPath req) (np_TargetPath req) ''nfs'' (publish_options req [''bind''])) w1"
    unfolding publish_locked_def Let_def using prep ok(2) by (simp add: bind_def)
  also have "\<dots> = (Inl (?h (ErrText m)), w3)"
    using calls(2,3) by (simp add: mount_or_clean_def logged_def attempt_eq)
  finally have run: "publish_locked env req (world d) = (Inl (?h (ErrText m)), w3)" .
  have "mounts w3 = (mounts (world d))(np_StagingTargetPath req := None)"
    using env_mounted[OF ok(1) \<open>isDirMounted env (np_TargetPath req) (world d) = (Inr False, w1)\<close>]
      env_mount[OF ok(1) calls(2)] env_cleanup[OF ok(1) calls(3)] by simp
  then show ?thesis
    using run req by (simp add: NodePublishVolume_def required_def as_invalid_def with_lock_def TryAcquire_def busy_volumes_def on_world_def)
qed

text \<open>On a path that is found mounted, staging and publishing make no call that mounts, unmounts or creates
  a directory: they do the same for all behaviours of these calls.\<close>

definition found_mounted :: "'w NodeEnv \<Rightarrow> string \<Rightarrow> 'w \<Rightarrow> bool" where
  "found_mounted env p w = (case fst (isDirMounted env p w) of Inr m \<Rightarrow> m | Inl e \<Rightarrow> \<not> ne_IsNotExist env e)"

abbreviation remounting :: "'w NodeEnv \<Rightarrow> (string \<Rightarrow> string \<Rightarrow> string \<Rightarrow> string list \<Rightarrow> ('w, unit) eff) \<Rightarrow>
    (string \<Rightarrow> string \<Rightarrow> string \<Rightarrow> string list \<Rightarrow> string list \<Rightarrow> ('w, unit) eff) \<Rightarrow> (string \<Rightarrow> ('w, unit) eff) \<Rightarrow>
    (string \<Rightarrow> ('w, unit) eff) \<Rightarrow> 'w NodeEnv" where
  "remounting env mount mountSensitive cleanup mkdir \<equiv> env\<lparr>ne_Mount := mount, ne_MountSensitive := mountSensitive,
     ne_CleanupMountPoint := cleanup, ne_MkdirAll := mkdir\<rparr>"

lemma detectable_found:
  assumes "node_env_ok env mounts ent" "detectable env mounts p" "mounts w p \<noteq> None"
  shows "found_mounted env p w"
proof -
  obtain r w1 where d: "isDirMounted env p w = (r, w1)" by force
  have "r \<noteq> Inr False"
    using d assms(2,3) unfolding detectable_def by (auto simp: isDirMounted_def bind_def split: prod.splits sum.splits)
  then show ?thesis using env_mounted[OF assms(1) d] assms(3) d by (auto simp: found_mounted_def split: sum.splits)
qed

lemma stage_found:
  assumes "found_mounted env (ns_StagingTargetPath req) w" "isDirMounted env (ns_StagingTargetPath req) w = (r, w1)"
  shows "stage_locked (remounting env m s c k) req vc source w = (case r of Inl e \<Rightarrow> (Inl e, w1) | Inr _ \<Rightarrow> stage_lock_info env req w1)"
proof -
  have d: "isDirMounted (remounting env m s c k) (ns_StagingTargetPath req) w = (r, w1)" using assms(2) by (simp add: isDirMounted_def)
  have "generateLockInfoKeyFromVolumeID (remounting env m s c k) v = generateLockInfoKeyFromVolumeID env v" for v
    by (simp add: generateLockInfoKeyFromVolumeID_def)
  then have "nodeStageVolumeUpdateLockInfo (remounting env m s c k) req = nodeStageVolumeUpdateLockInfo env req"
    by (simp add: nodeStageVolumeUpdateLockInfo_def cong del: if_weak_cong option.case_cong_weak)
  then have i: "stage_lock_info (remounting env m s c k) req = stage_lock_info env req"
    by (simp add: stage_lock_info_def stage_protocol_def cong del: if_weak_cong option.case_cong_weak)
  show ?thesis
    using assms by (auto simp: stage_locked_def Let_def attempt_eq d i found_mounted_def split: sum.splits)
qed

lemma publish_found:
  assumes "found_mounted env (np_TargetPath req) w" "isDirMounted env (np_TargetPath req) w = (r, w1)" "ne_goOs env \<noteq> ''windows''"
  shows "publish_locked (remounting env m s c k) req w = (case r of Inl e \<Rightarrow> (Inl e, w1) | Inr _ \<Rightarrow> (Inr (), w1))"
proof -
  have d: "isDirMounted (remounting env m s c k) (np_TargetPath req) w = (r, w1)" using assms(2) by (simp add: isDirMounted_def)
  show ?thesis
    using assms by (auto simp: publish_locked_def prepare_target_def Let_def attempt_eq bind_def d found_mounted_def split: sum.splits)
qed

lemma with_lock_busy: "v \<in> busy_volumes d \<Longrightarrow> with_lock v body d = (Inl (lock_taken v), d)"
  by (simp add: with_lock_def TryAcquire_def busy_volumes_def)

text \<open>What a second call does, when the path of the first one is detectable\<close>

lemma stage_again:
  assumes ok: "node_env_ok env mounts ent" "detectable env mounts (ns_StagingTargetPath req)" and run: "NodeStageVolume env req d = (Inr (), d1)"
  shows "NodeStageVolume (remounting env m s c k) req d1 = NodeStageVolume env req d1"
    "NodeStageVolume env req d1 = (Inr (), d2) \<Longrightarrow> mounts (world d2) = mounts (world d1) \<and> ent (world d2) = ent (world d1)"
proof -
  let ?p = "ns_StagingTargetPath req"
  have "mounts (world d1) ?p \<noteq> None" by (rule NodeStage_state[OF ok(1) run]) auto
  then have f: "found_mounted env ?p (world d1)" by (rule detectable_found[OF ok])
  obtain r w1 where d: "isDirMounted env ?p (world d1) = (r, w1)" by force
  have "remounting env (ne_Mount env) (ne_MountSensitive env) (ne_CleanupMountPoint env) (ne_MkdirAll env) = env" by simp
  note same = stage_found[OF f d, where m = "ne_Mount env" and s = "ne_MountSensitive env" and c = "ne_CleanupMountPoint env" and k = "ne_MkdirAll env", unfolded this]
  have "with_lock (ns_VolumeId req) (on_world (stage_locked (remounting env m s c k) req vc source)) d1
      = with_lock (ns_VolumeId req) (on_world (stage_locked env req vc source)) d1" for vc source
    by (simp add: with_lock_def on_world_def stage_found[OF f d] same split: prod.split)
  then show "NodeStageVolume (remounting env m s c k) req d1 = NodeStageVolume env req d1"
    by (simp add: NodeStageVolume_def bind_def lift_def split: option.split sum.split)
  assume two: "NodeStageVolume env req d1 = (Inr (), d2)"
  have "mounts (world d2) = mounts (world d1)"
  proof (rule NodeStage_run[OF two])
    fix vc source assume "stage_locked env req vc source (world d1) = (Inr (), world d2)"
    then have "stage_lock_info env req w1 = (Inr (), world d2)" by (simp add: same split: sum.splits)
    then have "mounts (world d2) = mounts w1" by (rule keepsD[OF lock_info_keeps_mounts(3)[OF ok(1)]])
    then show ?thesis using env_mounted[OF ok(1) d] by simp
  qed
  moreover have "ent (world d2) = ent (world d1)"
    by (rule NodeStage_state[OF ok(1) run], rule NodeStage_state[OF ok(1) two]) (auto split: if_splits)
  ultimately show "mounts (world d2) = mounts (world d1) \<and> ent (world d2) = ent (world d1)" ..
qed

lemma publish_again:
  assumes ok: "node_env_ok env mounts ent" "detectable env mounts (np_TargetPath pub)" "ne_goOs env \<noteq> ''windows''"
    and run: "NodePublishVolume cfg env pub d = (Inr (), d1)"
  shows "NodePublishVolume cfg (remounting env m s c k) pub d1 = NodePublishVolume cfg env pub d1"
    "NodePublishVolume cfg env pub d1 = (r2, d2) \<Longrightarrow> mounts (world d2) = mounts (world d1) \<and> ent (world d2) = ent (world d1)
       \<and> (r2 = Inr () \<longleftrightarrow> (\<exists>n w1. ne_IsLikelyNotMountPoint env (np_TargetPath pub) (world d1) = (Inr n, w1)))"
proof -
  let ?p = "np_TargetPath pub"
  have m1: "mounts (world d1) ?p \<noteq> None" using publish_locked_run[OF ok(1,3) NodePublish_run[OF run]] by auto
  have f: "found_mounted env ?p (world d1)" by (rule detectable_found[OF ok(1,2) m1])
  obtain r w1 where d: "isDirMounted env ?p (world d1) = (r, w1)" by force
  have "remounting env (ne_Mount env) (ne_MountSensitive env) (ne_CleanupMountPoint env) (ne_MkdirAll env) = env" by simp
  note same = publish_found[OF f d ok(3), where m = "ne_Mount env" and s = "ne_MountSensitive env" and c = "ne_CleanupMountPoint env"
      and k = "ne_MkdirAll env", unfolded this]
  show "NodePublishVolume cfg (remounting env m s c k) pub d1 = NodePublishVolume cfg env pub d1"
    by (simp add: NodePublishVolume_def bind_def required_def with_lock_def on_world_def publish_found[OF f d ok(3)] same split: option.split prod.split)
  have "keeps busy_volumes (NodePublishVolume cfg env pub)"
    by (auto simp: NodePublishVolume_def required_def intro!: keeps_intros split: option.split)
  then have "busy_volumes d1 = busy_volumes d" using run by (rule keepsD)
  moreover have req: "?p \<notin> busy_volumes d" "?p \<noteq> []" "np_StagingTargetPath pub \<noteq> []"
    "validateVolumeCapabilities cfg [map_option VolumeCapability.truncate (np_VolumeCapability pub)] = None"
    using run by (auto simp: NodePublishVolume_def bind_Inr_iff required_def as_invalid_def with_lock_busy split: if_splits option.splits)
  ultimately have free: "?p \<notin> locks (volumeLocks d1)" by (simp add: busy_volumes_def)
  assume two: "NodePublishVolume cfg env pub d1 = (r2, d2)"
  have "world d2 = w1 \<and> r2 = map_sum id (\<lambda>_. ()) r"
    using two req free same
    by (auto simp: NodePublishVolume_def bind_def required_def as_invalid_def with_lock_def TryAcquire_def on_world_def split: sum.splits)
  then show "mounts (world d2) = mounts (world d1) \<and> ent (world d2) = ent (world d1)
       \<and> (r2 = Inr () \<longleftrightarrow> (\<exists>n w1. ne_IsLikelyNotMountPoint env ?p (world d1) = (Inr n, w1)))"
    using env_mounted[OF ok(1) d] d by (auto simp: isDirMounted_def bind_def split: prod.splits sum.splits)
qed

text \<open>C21: Stage, publish, unpublish and unstage calls may be repeated. On a system other than Windows, let the
  check of the mount point notice a mount at the staging path and at the target path: it compares the
  device of a path with that of its parent, so it sees the NFS mounts of this driver in directories of the
  kubelet, while it would miss a bind mount within one file system. A stage or publish call that is
  made again after it succeeded finds the path mounted and mounts, unmounts and creates nothing: what it
  does is the same for all behaviours of the calls that would, and on Linux a second mount would stack
  on the first. The second publish succeeds exactly when the check does. And when the second call
  of any of the four succeeds, all mounts and all entries of the config maps are as after the first one.\<close>

theorem node_calls_idempotent:
  assumes ok: "node_env_ok env mounts ent" "ne_goOs env \<noteq> ''windows''"
    and seen: "detectable env mounts (ns_StagingTargetPath req)" "detectable env mounts (np_TargetPath pub)"
  shows "(NodeStageVolume env req d = (Inr (), d1) \<longrightarrow>
      (\<forall>m s c k. NodeStageVolume (env\<lparr>ne_Mount := m, ne_MountSensitive := s, ne_CleanupMountPoint := c, ne_MkdirAll := k\<rparr>) req d1
          = NodeStageVolume env req d1)
      \<and> (NodeStageVolume env req d1 = (Inr (), d2) \<longrightarrow> mounts (world d2) = mounts (world d1) \<and> ent (world d2) = ent (world d1)))
    \<and> (NodePublishVolume cfg env pub d = (Inr (), d1) \<longrightarrow>
      (\<forall>m s c k. NodePublishVolume cfg (env\<lparr>ne_Mount := m, ne_MountSensitive := s, ne_CleanupMountPoint := c, ne_MkdirAll := k\<rparr>) pub d1
          = NodePublishVolume cfg env pub d1)
      \<and> (NodePublishVolume cfg env pub d1 = (r2, d2) \<longrightarrow> mounts (world d2) = mounts (world d1) \<and> ent (world d2) = ent (world d1)
          \<and> (r2 = Inr () \<longleftrightarrow> (\<exists>n w1. ne_IsLikelyNotMountPoint env (np_TargetPath pub) (world d1) = (Inr n, w1)))))
    \<and> (NodeUnpublishVolume env p d = (Inr (), d1) \<and> NodeUnpublishVolume env p d1 = (Inr (), d2) \<longrightarrow>
      mounts (world d2) = mounts (world d1) \<and> ent (world d2) = ent (world d1))
    \<and> (NodeUnstageVolume env v p d = (Inr (), d1) \<and> NodeUnstageVolume env v p d1 = (Inr (), d2) \<longrightarrow>
      mounts (world d2) = mounts (world d1) \<and> ent (world d2) = ent (world d1))"
proof (intro conjI[of "_ \<longrightarrow> _"] impI conjI[of "\<forall>m. _ m"] allI; (elim conjE)?)
  fix m s c k assume "NodeStageVolume env req d = (Inr (), d1)"
  then show "NodeStageVolume (remounting env m s c k) req d1 = NodeStageVolume env req d1" by (rule stage_again(1)[OF ok(1) seen(1)])
next
  assume "NodeStageVolume env req d = (Inr (), d1)" "NodeStageVolume env req d1 = (Inr (), d2)"
  then show "mounts (world d2) = mounts (world d1) \<and> ent (world d2) = ent (world d1)" by (rule stage_again(2)[OF ok(1) seen(1)])
next
  fix m s c k assume "NodePublishVolume cfg env pub d = (Inr (), d1)"
  then show "NodePublishVolume cfg (remounting env m s c k) pub d1 = NodePublishVolume cfg env pub d1"
    by (rule publish_again(1)[OF ok(1) seen(2) ok(2)])
next
  assume "NodePublishVolume cfg env pub d = (Inr (), d1)" "NodePublishVolume cfg env pub d1 = (r2, d2)"
  then show "mounts (world d2) = mounts (world d1) \<and> ent (world d2) = ent (world d1)
      \<and> (r2 = Inr () \<longleftrightarrow> (\<exists>n w1. ne_IsLikelyNotMountPoint env (np_TargetPath pub) (world d1) = (Inr n, w1)))"
    by (rule publish_again(2)[OF ok(1) seen(2) ok(2)])
next
  assume "NodeUnpublishVolume env p d = (Inr (), d1)" "NodeUnpublishVolume env p d1 = (Inr (), d2)"
  then show "mounts (world d2) = mounts (world d1) \<and> ent (world d2) = ent (world d1)"
    using NodeUnpublish_run[OF ok(1), of p d d1] NodeUnpublish_run[OF ok(1), of p d1 d2] by simp
next
  assume "NodeUnstageVolume env v p d = (Inr (), d1)" "NodeUnstageVolume env v p d1 = (Inr (), d2)"
  then show "mounts (world d2) = mounts (world d1) \<and> ent (world d2) = ent (world d1)"
    using NodeUnstage_run[OF ok(1), of v p d d1] NodeUnstage_run[OF ok(1), of v p d1 d2] by (auto split: sum.split)
qed

section \<open>From the node to the lock release controller\<close>

text \<open>C8: What a staged volume leaves behind is found when its node is gone. After a successful stage that
  records the mount, let the controller run its round over the map of this node, with calls that
  succeed. If the node is still there with its id and address the entry stays; if it is gone, or came
  back with another id or address, the lock of the node on the instance is released and the entry is
  removed.\<close>

theorem staged_lock_released:
  assumes ok: "node_env_ok env mounts ent" "cluster_ok c ent nodes released" "lc_client c = ne_kube env"
    and stage: "NodeStageVolume env req d = (Inr (), d')" "records_lock env (ns_VolumeContext req)"
      "generateLockInfoKeyFromVolumeID env (ns_VolumeId req) = Inr key" "ParseConfigMapKey key = Inr k"
    and map: "cm_Name cm = ConfigMapNamePrefix @ ne_NodeName env" "cm_Namespace cm = ManagedFilestoreCSINamespace"
      "mlookup (cm_data cm) = node_entry env ent (world d')" "go_map (cm_data cm)" "ne_NodeName env \<noteq> []"
    and round: "syncLockInfo c cm nds (world d') = (r, w')" "calls_succeed c cm (mlookup nds (ne_NodeName env))"
  shows "\<exists>ip. node_entry env ent (world d') key = Some ip
    \<and> (node_entry env ent (world d) key = None \<longrightarrow> ip = mget (ns_VolumeContext req) attrIP)
    \<and> (if entry_dead (mlookup nds (ne_NodeName env)) k
       then node_entry env ent w' key = None \<and> (ip, lk_GkeNodeInternalIP k) \<in> released w'
       else node_entry env ent w' key = Some ip)"
proof -
  have "\<exists>ip. node_entry env ent (world d') key = Some ip \<and> (node_entry env ent (world d) key = None \<longrightarrow> ip = mget (ns_VolumeContext req) attrIP)"
  proof (rule NodeStage_state[OF ok(1) stage(1)])
    assume st: "if records_lock env (ns_VolumeContext req)
     then (\<exists>key. generateLockInfoKeyFromVolumeID env (ns_VolumeId req) = Inr key \<and> ent (world d') =
        (if node_entry env ent (world d) key = None
         then put_node_entry env key (Some (mget (ns_VolumeContext req) attrIP)) (ent (world d)) else ent (world d)))
     else ent (world d') = ent (world d)"
    have e: "ent (world d') = (if node_entry env ent (world d) key = None
         then put_node_entry env key (Some (mget (ns_VolumeContext req) attrIP)) (ent (world d)) else ent (world d))"
      using st[unfolded if_P[OF stage(2)] stage(3) sum.inject] by (elim exE conjE, hypsubst)
    show ?thesis unfolding e by (cases "node_entry env ent (world d) key") simp_all
  qed
  then obtain ip where both: "node_entry env ent (world d') key = Some ip \<and>
    (node_entry env ent (world d) key = None \<longrightarrow> ip = mget (ns_VolumeContext req) attrIP)" ..
  note ip = both[THEN conjunct1] both[THEN conjunct2]
  have n: "GKENodeNameFromConfigMap cm = Inr (ne_NodeName env)"
    using map(1,5) by (simp add: GKENodeNameFromConfigMap_def)
  note runs = syncLockInfo_runs[OF ok(2) map(4) n round(1)]
  have key: "key \<in> set (keys (cm_data cm))" using ip(1) map(3) mlookup_Some_keys[of "cm_data cm" key ip] by simp
  have cl: "node_entry env ent w' key = Some ip \<or> (node_entry env ent w' key = None \<and> entry_dead (mlookup nds (ne_NodeName env)) k
      \<and> (ip, lk_GkeNodeInternalIP k) \<in> released w')"
    using runs(1)[unfolded cleaned_def, THEN conjunct2, rule_format,
        of ManagedFilestoreCSINamespace "ConfigMapNamePrefix @ ne_NodeName env" key]
    by (auto simp: ip(1) stage(4) map(3))
  have "entry_dead (mlookup nds (ne_NodeName env)) k \<Longrightarrow> node_entry env ent w' key = None"
    using runs(2)[OF round(2), THEN conjunct2, rule_format, of key k] key stage(4) unfolding map(1,2) by simp
  then show ?thesis using cl ip by auto
qed

section \<open>Locks and statistics\<close>

text \<open>No two node calls work on the same key. Every call gives back the lock it took; while another
  call holds the volume id (staging) or the target path (publishing), a call fails and does nothing to
  the machine.\<close>

theorem node_handlers_exclusive:
  "keeps busy_volumes (NodeStageVolume env req) \<and> keeps busy_volumes (NodeUnstageVolume env v p)
   \<and> keeps busy_volumes (NodePublishVolume cfg env pub) \<and> keeps busy_volumes (NodeUnpublishVolume env p)
   \<and> (ns_VolumeId req \<in> busy_volumes d \<longrightarrow> (\<exists>e. NodeStageVolume env req d = (Inl e, d)))
   \<and> (v \<in> busy_volumes d \<longrightarrow> (\<exists>e. NodeUnstageVolume env v p d = (Inl e, d)))
   \<and> (np_TargetPath pub \<in> busy_volumes d \<longrightarrow> (\<exists>e. NodePublishVolume cfg env pub d = (Inl e, d)))
   \<and> (p \<in> busy_volumes d \<longrightarrow> (\<exists>e. NodeUnpublishVolume env p d = (Inl e, d)))"
proof (intro conjI impI)
  show "keeps busy_volumes (NodeStageVolume env req)" "keeps busy_volumes (NodeUnstageVolume env v p)"
    "keeps busy_volumes (NodePublishVolume cfg env pub)" "keeps busy_volumes (NodeUnpublishVolume env p)"
    by (auto simp: NodeStageVolume_def NodeUnstageVolume_def NodePublishVolume_def NodeUnpublishVolume_def required_def
        intro!: keeps_intros split: option.split)
qed (auto simp: NodeStageVolume_def NodeUnstageVolume_def NodePublishVolume_def NodeUnpublishVolume_def required_def
        with_lock_busy bind_def lift_def split: option.split sum.split)

lemma i64_sint: "i64 (sint a + sint b) = sint (a + b :: 64 word)"
  by (simp add: sint_word_ariths(1) i64_def signed_take_bit_eq_take_bit_shift take_bit_eq_mod)

lemma sint_small: "uint (a :: 64 word) < 2 ^ 63 \<Longrightarrow> sint a = uint a"
  unfolding sint_uint by (intro signed_take_bit_int_eq_self order_trans[OF _ uint_ge_0]) auto

text \<open>The statistics add up. Used and available bytes, and used and free inodes, sum to the totals in
  the arithmetic of int64; and when the size of the file system is below 2 to the 63 bytes and no more
  blocks are free than there are, the three byte counts are the exact products and none is
  negative.\<close>

theorem volume_stats_consistent:
  assumes "NodeGetVolumeStats env volumeId path w = (Inr (bytes, inodes), w')"
  shows "i64 (vu_Used bytes + vu_Available bytes) = vu_Total bytes \<and> i64 (vu_Used inodes + vu_Available inodes) = vu_Total inodes
    \<and> (\<exists>st w1. ne_Statfs env path w1 = (Inr st, w') \<and>
      (uint (Bfree st) \<le> uint (Blocks st) \<and> uint (Blocks st) * uint (Bsize st) < 2 ^ 63 \<longrightarrow>
        vu_Total bytes = uint (Blocks st) * uint (Bsize st) \<and> vu_Available bytes = uint (Bfree st) * uint (Bsize st)
        \<and> vu_Used bytes = (uint (Blocks st) - uint (Bfree st)) * uint (Bsize st)))"
proof -
  obtain st w1 where st: "ne_Statfs env path w1 = (Inr st, w')"
    and b: "bytes = \<lparr>vu_Available = sint (Bfree st * Bsize st), vu_Total = sint (Blocks st * Bsize st),
        vu_Used = sint ((Blocks st - Bfree st) * Bsize st)\<rparr>"
    and i: "inodes = \<lparr>vu_Available = sint (Ffree st), vu_Total = sint (Files st), vu_Used = sint (Files st - Ffree st)\<rparr>"
    using assms by (auto simp: NodeGetVolumeStats_def getFSStat_def bind_err_Inr_iff split: if_splits)
  have sums: "(Blocks st - Bfree st) * Bsize st + Bfree st * Bsize st = Blocks st * Bsize st" by (simp add: left_diff_distrib)
  have exact: "vu_Total bytes = uint (Blocks st) * uint (Bsize st) \<and> vu_Available bytes = uint (Bfree st) * uint (Bsize st)
      \<and> vu_Used bytes = (uint (Blocks st) - uint (Bfree st)) * uint (Bsize st)"
    if le: "uint (Bfree st) \<le> uint (Blocks st)" and small: "uint (Blocks st) * uint (Bsize st) < 2 ^ 63"
  proof -
    have f: "uint (Bfree st) * uint (Bsize st) < 2 ^ 63"
      using le small mult_right_mono[OF le, of "uint (Bsize st)"] by simp
    have u: "(uint (Blocks st) - uint (Bfree st)) * uint (Bsize st) < 2 ^ 63"
      using small by (simp add: left_diff_distrib) (smt (verit) mult_nonneg_nonneg uint_ge_0)
    have "uint (Blocks st - Bfree st) = uint (Blocks st) - uint (Bfree st)"
      using le by (simp add: uint_sub_lem[THEN iffD1])
    then have "uint ((Blocks st - Bfree st) * Bsize st) = (uint (Blocks st) - uint (Bfree st)) * uint (Bsize st)"
      using u by (subst uint_mult_lem[THEN iffD1]) auto
    moreover have "uint (Blocks st * Bsize st) = uint (Blocks st) * uint (Bsize st)" "uint (Bfree st * Bsize st) = uint (Bfree st) * uint (Bsize st)"
      using small f by (auto simp: uint_mult_lem[THEN iffD1])
    ultimately show ?thesis using b small f u by (simp add: sint_small)
  qed
  show ?thesis using st exact by (auto simp: b i i64_sint sums)
qed

section \<open>A machine for the examples\<close>

type_synonym demo_machine = "labels \<times> demo_cluster"

definition on_snd :: "('b, 'x) eff \<Rightarrow> ('a \<times> 'b, 'x) eff" where
  "on_snd m = (\<lambda>(a, b). case m b of (r, b') \<Rightarrow> (r, (a, b')))"

definition demo_machine_kube :: "demo_machine KubeClient" where
  "demo_machine_kube = \<lparr>kc_GetConfigMap = (\<lambda>ns n. on_snd (kc_GetConfigMap demo_kube ns n)),
     kc_CreateConfigMap = (\<lambda>ns cm. on_snd (kc_CreateConfigMap demo_kube ns cm)),
     kc_UpdateConfigMap = (\<lambda>ns cm. on_snd (kc_UpdateConfigMap demo_kube ns cm)),
     kc_ListConfigMaps = (\<lambda>ns. on_snd (kc_ListConfigMaps demo_kube ns)),
     kc_GetNode = (\<lambda>n. on_snd (kc_GetNode demo_kube n)), kc_ListNodes = on_snd (kc_ListNodes demo_kube),
     kc_IsNotFound = kc_IsNotFound demo_kube, kc_IsConflict = kc_IsConflict demo_kube\<rparr>"

text \<open>The mount at the path \<open>/bad\<close> fails.\<close>

definition demo_env :: "demo_machine NodeEnv" where
  "demo_env = \<lparr>ne_Mount = (\<lambda>s p t opts w. if p = ''/bad'' then (Inl (ErrText ''denied''), w) else (Inr (), (minsert p s (fst w), snd w))),
     ne_MountSensitive = (\<lambda>s p t opts sens. fail (ErrText ''unused'')),
     ne_IsLikelyNotMountPoint = (\<lambda>p w. (Inr (mlookup (fst w) p = None), w)),
     ne_CleanupMountPoint = (\<lambda>p w. (Inr (), (mdelete p (fst w), snd w))),
     ne_Remove = (\<lambda>p. ret ()), ne_MkdirAll = (\<lambda>p. ret ()), ne_Lstat = (\<lambda>p. ret ()),
     ne_Statfs = (\<lambda>p. ret \<lparr>Blocks = 1000, Bfree = 400, Bsize = 4096, Files = 50, Ffree = 20\<rparr>),
     ne_IsNotExist = (\<lambda>e. False), ne_Zone = ''us-c1-a'', ne_InstanceID = ''4711'', ne_InternalIP = ''::7'',
     ne_Project = ''p'', ne_goOs = ''linux'', ne_NodeName = ''n1'', ne_FeatureNFSv4Support = None,
     ne_FeatureLockRelease = True, ne_kube = demo_machine_kube\<rparr>"

definition demo_mounts :: "demo_machine mounts" where "demo_mounts w = mlookup (fst w)"

definition machine_ent :: "demo_machine entries" where "machine_ent w = demo_ent (snd w)"

lemma demo_env_ok: "node_env_ok demo_env demo_mounts machine_ent"
proof -
  have ent: "demo_ent (fst w, l) = demo_ent w" for w l by (simp add: fun_eq_iff demo_ent_def demo_map_def)
  have map: "mlookup (demo_map w ns n) = demo_ent w ns n" for w ns n by (simp add: demo_ent_def)
  show ?thesis
    by (auto simp: node_env_ok_def demo_env_def demo_mounts_def machine_ent_def keeps_def mlookup_minsert_fun mlookup_mdelete_fun
        config_map_store_def demo_machine_kube_def on_snd_def demo_kube_def demo_ent_insert[where w = "(a, b)" for a b, simplified] ent map
        split: prod.splits)
qed

definition demo_cap :: NodeCapability where
  "demo_cap = \<lparr>cap_AccessMode = Some ''MULTI_NODE_MULTI_WRITER'', cap_AccessType = Some (MountAccess (Some [])), cap_MountFlags = []\<rparr>"

definition demo_stage :: NodeStageVolumeRequest where
  "demo_stage = \<lparr>ns_VolumeId = ''modeInstance/us-c1/fs/vol1'', ns_StagingTargetPath = ''/staging'', ns_VolumeCapability = Some demo_cap,
     ns_VolumeContext = [(attrIP, ''::2''), (attrVolume, ''vol1''), (attrSupportLockRelease, ''True'')]\<rparr>"

definition demo_publish :: "string \<Rightarrow> NodePublishVolumeRequest" where
  "demo_publish p = \<lparr>np_Readonly = False, np_TargetPath = p, np_StagingTargetPath = ''/staging'', np_VolumeContext = [],
     np_VolumeCapability = Some demo_cap, np_Secrets = []\<rparr>"

definition demo_start :: "demo_machine driver" where "demo_start = demo_driver ([], ([], []))"

definition demo_staged_key :: string where "demo_staged_key = ''p.us-c1.fs.vol1.4711.::7''"

definition demo_staged :: "demo_machine driver" where
  "demo_staged = demo_driver ([(''/staging'', ''::2:/vol1'')],
     ([((ManagedFilestoreCSINamespace, ''fscsi-n1''), [(demo_staged_key, ''::2'')])], []))"

definition demo_published :: "demo_machine driver" where
  "demo_published = demo_driver ([(''/staging'', ''::2:/vol1''), (''/pods/a'', ''/staging'')],
     ([((ManagedFilestoreCSINamespace, ''fscsi-n1''), [(demo_staged_key, ''::2'')])], []))"

definition demo_unstaged :: "demo_machine driver" where
  "demo_unstaged = demo_driver ([], ([((ManagedFilestoreCSINamespace, ''fscsi-n1''), [])], []))"

lemma demo_runs:
  "NodeStageVolume demo_env demo_stage demo_start = (Inr (), demo_staged)"
  "NodePublishVolume demo_config demo_env (demo_publish ''/pods/a'') demo_staged = (Inr (), demo_published)"
  "NodeUnpublishVolume demo_env ''/pods/a'' demo_published = (Inr (), demo_staged)"
  "NodeUnstageVolume demo_env ''modeInstance/us-c1/fs/vol1'' ''/staging'' demo_staged = (Inr (), demo_unstaged)"
  "NodeStageVolume demo_env demo_stage demo_staged = (Inr (), demo_staged)"
  by code_simp+

lemma demo_key_of_stage:
  "generateLockInfoKeyFromVolumeID demo_env (ns_VolumeId demo_stage) = Inr demo_staged_key"
  "ParseConfigMapKey demo_staged_key = Inr \<lparr>lk_ProjectID = ''p'', lk_Location = ''us-c1'', lk_FilestoreName = ''fs'',
     lk_ShareName = ''vol1'', lk_GkeNodeID = ''4711'', lk_GkeNodeInternalIP = ''::7''\<rparr>"
  "records_lock demo_env (ns_VolumeContext demo_stage)"
  by code_simp+

lemma demo_world_simps [simp]: "world (demo_driver w) = w"
  by (simp add: demo_driver_def)

theorem volume_lifecycle_witness:
  "demo_mounts (world demo_published) ''/pods/a'' = Some ''/staging''
   \<and> demo_mounts (world demo_unstaged) = demo_mounts (world demo_start) \<and> machine_ent (world demo_unstaged) = machine_ent (world demo_start)"
proof -
  have req: "ns_StagingTargetPath demo_stage = ''/staging''" "ns_VolumeId demo_stage = ''modeInstance/us-c1/fs/vol1''"
    "np_TargetPath (demo_publish ''/pods/a'') = ''/pods/a''" "np_StagingTargetPath (demo_publish p) = ''/staging''" "ne_goOs demo_env \<noteq> ''windows''" for p
    by (simp_all add: demo_stage_def demo_publish_def demo_env_def)
  have start: "demo_mounts (world demo_start) p = None" "machine_ent (world demo_start) ns n k = None" for p ns n k
    by (simp_all add: demo_start_def demo_mounts_def machine_ent_def demo_ent_def demo_map_def)
  show ?thesis
    using volume_lifecycle[OF demo_env_ok req(5), of "demo_publish ''/pods/a''" demo_stage demo_start demo_staged demo_config
        demo_published demo_staged demo_unstaged] demo_runs by (simp add: req start)
qed

theorem failed_publish_unmounts_staging_witness:
  "\<exists>d'. NodePublishVolume demo_config demo_env (demo_publish ''/bad'') demo_published
       = (Inl (StatusErr Internal (''mount '' @ quote ''/bad'' @ '' failed: '' @ ''denied'')), d')
     \<and> demo_mounts (world demo_published) ''/staging'' = Some ''::2:/vol1'' \<and> demo_mounts (world d') ''/staging'' = None
     \<and> demo_mounts (world d') ''/pods/a'' = Some ''/staging''"
proof -
  have req: "np_TargetPath (demo_publish ''/bad'') = ''/bad''" "np_StagingTargetPath (demo_publish ''/bad'') = ''/staging''"
    "ne_goOs demo_env \<noteq> ''windows''"
    by (simp_all add: demo_publish_def demo_env_def)
  have v: "validateVolumeCapabilities demo_config [map_option VolumeCapability.truncate (np_VolumeCapability (demo_publish ''/bad''))] = None"
    by code_simp
  show ?thesis
    using failed_publish_unmounts_staging[OF demo_env_ok req(3), of "demo_publish ''/bad''" demo_config demo_published
        "world demo_published" "''denied''" "world demo_published" "(mdelete ''/staging'' (fst (world demo_published)), snd (world demo_published))"] v
    by (auto simp: req demo_published_def busy_volumes_def demo_driver_def NewVolumeLocks_def demo_mounts_def demo_env_def
        simp del: append.simps)
qed

lemma demo_detectable: "detectable demo_env demo_mounts p"
  by (simp add: detectable_def demo_env_def demo_mounts_def)

text \<open>Staging and publishing again on a machine where every mount would fail\<close>

theorem node_calls_idempotent_witness:
  "NodeStageVolume (demo_env\<lparr>ne_Mount := \<lambda>s p t opts. fail (ErrText ''busy'')\<rparr>) demo_stage demo_staged = (Inr (), demo_staged)
   \<and> (\<exists>d2. NodePublishVolume demo_config (demo_env\<lparr>ne_Mount := \<lambda>s p t opts. fail (ErrText ''busy'')\<rparr>) (demo_publish ''/pods/a'') demo_published
        = (Inr (), d2) \<and> demo_mounts (world d2) = demo_mounts (world demo_published))"
proof -
  let ?pub = "demo_publish ''/pods/a''"
  have os: "ne_goOs demo_env \<noteq> ''windows''" by (simp add: demo_env_def)
  have keep: "demo_env\<lparr>ne_Mount := m, ne_MountSensitive := ne_MountSensitive demo_env,
      ne_CleanupMountPoint := ne_CleanupMountPoint demo_env, ne_MkdirAll := ne_MkdirAll demo_env\<rparr> = demo_env\<lparr>ne_Mount := m\<rparr>" for m
    by simp
  obtain r2 d2 where two: "NodePublishVolume demo_config demo_env ?pub demo_published = (r2, d2)" by force
  have "ne_IsLikelyNotMountPoint demo_env p w = (Inr (mlookup (fst w) p = None), w)" for p w by (simp add: demo_env_def)
  then have check: "\<exists>n w1. ne_IsLikelyNotMountPoint demo_env p w = (Inr n, w1)" for p w by blast
  note rep = node_calls_idempotent[OF demo_env_ok os demo_detectable demo_detectable]
  note stage = rep[THEN conjunct1, of demo_stage demo_start demo_staged, rule_format, OF demo_runs(1), THEN conjunct1, rule_format,
      where s = "ne_MountSensitive demo_env" and c = "ne_CleanupMountPoint demo_env" and k = "ne_MkdirAll demo_env", unfolded keep demo_runs(5)]
  note publish = rep[THEN conjunct2, THEN conjunct1, rule_format, OF demo_runs(2)]
  note publish1 = publish[THEN conjunct1, rule_format, where s = "ne_MountSensitive demo_env" and c = "ne_CleanupMountPoint demo_env" and k = "ne_MkdirAll demo_env",
      unfolded keep two]
  show ?thesis using stage publish1 publish[THEN conjunct2, rule_format, OF two] check by auto
qed

definition demo_machine_controller :: "demo_machine LockController" where
  "demo_machine_controller = \<lparr>lc_id = ''c'', lc_hostname = ''h'', lc_client = demo_machine_kube,
     lc_lockService = (\<lambda>f n. on_snd (lc_lockService demo_lock_controller f n))\<rparr>"

lemma demo_machine_cluster:
  "cluster_ok demo_machine_controller machine_ent (\<lambda>w n. if n = ''n1'' then Some demo_node else None) (\<lambda>w. set (snd (snd w)))"
proof -
  have ent: "demo_ent (fst w, l) = demo_ent w" for w l by (simp add: fun_eq_iff demo_ent_def demo_map_def)
  have map: "mlookup (demo_map w ns n) = demo_ent w ns n" for w ns n by (simp add: demo_ent_def)
  show ?thesis
    by (auto simp: cluster_ok_def demo_machine_controller_def demo_lock_controller_def machine_ent_def keeps_def
        config_map_store_def demo_machine_kube_def on_snd_def demo_kube_def demo_ent_insert[where w = "(a, b)" for a b, simplified] ent map
        split: prod.splits)
qed

theorem staged_lock_released_witness:
  "\<exists>w'. syncLockInfo demo_machine_controller (demo_cm (snd (world demo_staged)) ManagedFilestoreCSINamespace ''fscsi-n1'')
       [(''n1'', demo_node)] (world demo_staged) = (Inr (), w')
     \<and> machine_ent w' ManagedFilestoreCSINamespace ''fscsi-n1'' demo_staged_key = None \<and> (''::2'', ''::7'') \<in> set (snd (snd w'))"
proof -
  let ?cm = "demo_cm (snd (world demo_staged)) ManagedFilestoreCSINamespace ''fscsi-n1''"
  have n: "ConfigMapNamePrefix @ ne_NodeName demo_env = ''fscsi-n1''" "ne_NodeName demo_env = ''n1''"
    by (simp_all add: ConfigMapNamePrefix_def demo_env_def)
  have rm: "fst (RemoveKeyFromConfigMapWithRetry demo_machine_kube cm key w) = Inr ()" for cm key w
    by (cases w) (simp add: RemoveKeyFromConfigMapWithRetry_def DefaultRetry_Steps_def eval_nat_numeral attempt_eq remove_key_once_def remove_from_latest_def
        bind_def demo_machine_kube_def demo_kube_def on_snd_def)
  have s: "calls_succeed demo_machine_controller ?cm (mlookup [(''n1'', demo_node)] (ne_NodeName demo_env))"
    using rm by (auto simp: calls_succeed_def demo_machine_controller_def demo_lock_controller_def on_snd_def split: prod.split)
  obtain r w' where run: "syncLockInfo demo_machine_controller ?cm [(''n1'', demo_node)] (world demo_staged) = (r, w')"
    by (cases "syncLockInfo demo_machine_controller ?cm [(''n1'', demo_node)] (world demo_staged)")
  have "fst (syncLockInfo demo_machine_controller ?cm [(''n1'', demo_node)] (world demo_staged)) = Inr ()" by code_simp
  then have r: "r = Inr ()" using run by simp
  let ?k = "\<lparr>lk_ProjectID = ''p'', lk_Location = ''us-c1'', lk_FilestoreName = ''fs'',
     lk_ShareName = ''vol1'', lk_GkeNodeID = ''4711'', lk_GkeNodeInternalIP = ''::7''\<rparr>"
  have dead: "entry_dead (mlookup [(''n1'', demo_node)] (ne_NodeName demo_env)) ?k"
    by (simp add: n entry_dead_def demo_node_def node_holds_def)
  have map: "mlookup (cm_data ?cm) = node_entry demo_env machine_ent (world demo_staged)"
    by (simp add: machine_ent_def n(1) demo_ent_def)
  have gm: "go_map (cm_data ?cm)" by (simp add: demo_staged_def demo_map_def go_map_def)
  have start: "node_entry demo_env machine_ent (world demo_start) demo_staged_key = None" "mget (ns_VolumeContext demo_stage) attrIP = ''::2''"
    by (simp_all add: demo_start_def machine_ent_def demo_ent_def demo_map_def demo_stage_def mget_def)
  have client: "lc_client demo_machine_controller = demo_machine_kube" "ne_kube demo_env = demo_machine_kube"
    by (simp_all add: demo_machine_controller_def demo_env_def)
  have "machine_ent w' ManagedFilestoreCSINamespace ''fscsi-n1'' demo_staged_key = None \<and> (''::2'', ''::7'') \<in> set (snd (snd w'))"
    using staged_lock_released[OF demo_env_ok demo_machine_cluster _ demo_runs(1) demo_key_of_stage(3,1,2) _ _ map gm _ run s] dead start client
    by (auto simp: n(2) ConfigMapNamePrefix_def)
  then show ?thesis using run r by blast
qed

theorem node_handlers_exclusive_witness:
  "\<exists>e. NodeStageVolume demo_env demo_stage (demo_start\<lparr>volumeLocks := \<lparr>locks = {''modeInstance/us-c1/fs/vol1''}\<rparr>\<rparr>)
     = (Inl e, demo_start\<lparr>volumeLocks := \<lparr>locks = {''modeInstance/us-c1/fs/vol1''}\<rparr>\<rparr>)"
  using node_handlers_exclusive[THEN conjunct2, THEN conjunct2, THEN conjunct2, THEN conjunct2, THEN conjunct1, rule_format,
      of demo_stage "demo_start\<lparr>volumeLocks := \<lparr>locks = {''modeInstance/us-c1/fs/vol1''}\<rparr>\<rparr>" demo_env]
  by (simp add: demo_stage_def busy_volumes_def)

theorem volume_stats_consistent_witness:
  "\<exists>bytes inodes. NodeGetVolumeStats demo_env ''v'' ''/staging'' ([], ([], [])) = (Inr (bytes, inodes), ([], ([], [])))
     \<and> i64 (vu_Used bytes + vu_Available bytes) = vu_Total bytes"
proof -
  obtain bytes inodes where "NodeGetVolumeStats demo_env ''v'' ''/staging'' ([], ([], [])) = (Inr (bytes, inodes), ([], ([], [])))"
    by (auto simp: NodeGetVolumeStats_def getFSStat_def bind_err_def demo_env_def)
  then show ?thesis using volume_stats_consistent[of demo_env "''v''" "''/staging''"] by blast
qed

end
