(* ===== verification/Volume_Path.thy ===== *)
theory Volume_Path
  imports Node_Mounts
begin

text \<open>
  A volume from the controller to the node and back: what the controller answers to a creation is what
  the node server is given when it stages the volume, and what the controller is given when the volume
  is deleted. \<open>instance_api_ok\<close> says what the service of instances is trusted for.
\<close>

section \<open>The service of instances\<close>

definition resource_name :: "string \<Rightarrow> bool" where
  "resource_name x = (x \<noteq> [] \<and> (\<forall>c \<in> set x. c \<in> set ''abcdefghijklmnopqrstuvwxyz0123456789-_''))"

definition instance_key :: "ServiceInstance \<Rightarrow> string" where
  "instance_key i = si_Location i @ ''/'' @ si_Name i"

definition well_named :: "ServiceInstance \<Rightarrow> bool" where
  "well_named i = (resource_name (si_Location i) \<and> resource_name (si_Name i) \<and> resource_name (vol_Name (si_Volume i)))"

text \<open>\<open>stored w u\<close> is the instance at the location and name \<open>u\<close>. A read returns it, and fails with a not-found
  error only when there is none; a successful creation stores an instance that is ready; a successful
  deletion removes it. Instances have the names of resources and sit where they are found, and a ready
  one has an address. Tags are kept elsewhere.\<close>

definition instance_api_ok :: "'w Service \<Rightarrow> 'w TagService \<Rightarrow> ('w \<Rightarrow> string \<Rightarrow> ServiceInstance option) \<Rightarrow> bool" where
  "instance_api_ok svc tags stored =
     ((\<forall>obj w. case svc_GetInstance svc obj w of
          (Inr i, w') \<Rightarrow> stored w' = stored w \<and> stored w (instance_key obj) = Some i
        | (Inl e, w') \<Rightarrow> stored w' = stored w \<and> (IsNotFoundErr e \<longrightarrow> stored w (instance_key obj) = None))
    \<and> (\<forall>obj w i w'. svc_CreateInstance svc obj w = (Inr i, w') \<longrightarrow>
          stored w' = (stored w)(instance_key obj \<mapsto> i) \<and> si_State i = ''READY'')
    \<and> (\<forall>obj w u w'. svc_DeleteInstance svc obj w = (Inr u, w') \<longrightarrow> stored w' = (stored w)(instance_key obj := None))
    \<and> (\<forall>w u i. stored w u = Some i \<longrightarrow> instance_key i = u \<and> well_named i
          \<and> (si_State i = ''READY'' \<longrightarrow> net_ParseIP (Ip (si_Network i)) \<noteq> None))
    \<and> (\<forall>r t. keeps stored (tag_ValidateResourceTags tags r t))
    \<and> (\<forall>k n l q m. keeps stored (tag_AttachResourceTags tags k n l q m)))"

lemma instances_get:
  assumes "instance_api_ok svc tags stored" "svc_GetInstance svc obj w = (r, w')"
  shows "stored w' = stored w \<and> (case r of Inr i \<Rightarrow> stored w (instance_key obj) = Some i
    | Inl e \<Rightarrow> IsNotFoundErr e \<longrightarrow> stored w (instance_key obj) = None)"
proof -
  have "case svc_GetInstance svc obj w of
          (Inr i, w') \<Rightarrow> stored w' = stored w \<and> stored w (instance_key obj) = Some i
        | (Inl e, w') \<Rightarrow> stored w' = stored w \<and> (IsNotFoundErr e \<longrightarrow> stored w (instance_key obj) = None)"
    using assms(1)[unfolded instance_api_ok_def, THEN conjunct1] by (elim allE)
  then show ?thesis using assms(2) by (auto split: prod.splits sum.splits)
qed

lemma instances_create:
  assumes "instance_api_ok svc tags stored" "svc_CreateInstance svc obj w = (Inr i, w')"
  shows "stored w' = (stored w)(instance_key obj \<mapsto> i)" "si_State i = ''READY''"
  using assms(1)[unfolded instance_api_ok_def, THEN conjunct2, THEN conjunct1, rule_format, OF assms(2)] by simp_all

lemma instances_delete:
  assumes "instance_api_ok svc tags stored" "svc_DeleteInstance svc obj w = (Inr u, w')"
  shows "stored w' = (stored w)(instance_key obj := None)"
  by (rule assms(1)[unfolded instance_api_ok_def, THEN conjunct2, THEN conjunct2, THEN conjunct1, rule_format, OF assms(2)])

lemma instances_named:
  assumes "instance_api_ok svc tags stored" "stored w u = Some i"
  shows "instance_key i = u" "well_named i" "si_State i = ''READY'' \<Longrightarrow> net_ParseIP (Ip (si_Network i)) \<noteq> None"
  using assms(1)[unfolded instance_api_ok_def, THEN conjunct2, THEN conjunct2, THEN conjunct2, THEN conjunct1, rule_format, OF assms(2)]
  by simp_all

lemma instances_tags:
  assumes "instance_api_ok svc tags stored"
  shows "keeps stored (tag_ValidateResourceTags tags r t)" "keeps stored (tag_AttachResourceTags tags k n l q m)"
  using assms[unfolded instance_api_ok_def, THEN conjunct2, THEN conjunct2, THEN conjunct2, THEN conjunct2] by simp_all

lemma resource_name_chars:
  assumes "resource_name x"
  shows "CHR ''/'' \<notin> set x" "CHR ''.'' \<notin> set x" "CHR ''M'' \<notin> set x" "x \<noteq> []"
proof -
  have "CHR ''/'' \<notin> set ''abcdefghijklmnopqrstuvwxyz0123456789-_''" "CHR ''.'' \<notin> set ''abcdefghijklmnopqrstuvwxyz0123456789-_''"
    "CHR ''M'' \<notin> set ''abcdefghijklmnopqrstuvwxyz0123456789-_''" by simp_all
  then show "CHR ''/'' \<notin> set x" "CHR ''.'' \<notin> set x" "CHR ''M'' \<notin> set x" "x \<noteq> []"
    using assms unfolding resource_name_def by blast+
qed

section \<open>What a creation answers\<close>

definition served :: "config \<Rightarrow> CreateVolumeRequest \<Rightarrow> ('w \<Rightarrow> string \<Rightarrow> ServiceInstance option) \<Rightarrow> CsiVolume \<Rightarrow> 'w
    \<Rightarrow> ServiceInstance \<Rightarrow> bool" where
  "served cfg req stored vol w i = (vol = volume_of cfg req i \<and> stored w (instance_key i) = Some i \<and> si_State i = ''READY'')"

lemma finish_served:
  assumes "instance_api_ok svc tags stored" "finish_create_volume cfg tags req i d = (Inr vol, d')"
    "stored (world d) u = Some i" "si_State i = ''READY''"
  shows "served cfg req stored vol (world d') i"
proof -
  have "stored (world d') = stored (world d)" "vol = volume_of cfg req i"
    using assms(2) keepsD[OF instances_tags(2)[OF assms(1)]]
    by (auto simp: finish_create_volume_def bind_err_Inr_iff on_world_Inr volume_of_def)
  then show ?thesis using assms(3,4) instances_named(1)[OF assms(1,3)] by (simp add: served_def)
qed

lemma create_and_served:
  assumes "instance_api_ok svc tags stored" "create_and cfg svc p (finish_create_volume cfg tags req) nf d = (Inr vol, d')"
  shows "\<exists>i. served cfg req stored vol (world d') i"
proof -
  obtain obj i w1 where c: "svc_CreateInstance svc obj (world d) = (Inr i, w1)"
      "finish_create_volume cfg tags req i (d\<lparr>world := w1\<rparr>) = (Inr vol, d')"
    using assms(2) by (auto simp: create_and_def bind_err_Inr_iff lift_Inr on_world_Inr)
  have "stored (world (d\<lparr>world := w1\<rparr>)) (instance_key obj) = Some i" "si_State i = ''READY''"
    using instances_create[OF assms(1) c(1)] by simp_all
  from finish_served[OF assms(1) c(2) this] show ?thesis by blast
qed

lemma with_reserved_Inr:
  "with_reserved h m body d = (Inr a, d') \<Longrightarrow> \<exists>r d0 d1. body r d0 = (Inr a, d1) \<and> world d' = world d1"
  by (auto simp: with_reserved_def release_ip_def split: prod.splits sum.splits) (metis driver.select_convs(1))

lemma create_new_served:
  assumes "instance_api_ok svc tags stored" "create_new cfg svc p (finish_create_volume cfg tags req) nf d = (Inr vol, d')"
  shows "\<exists>i. served cfg req stored vol (world d') i"
proof -
  have "\<exists>nf' d0 d1. create_and cfg svc p (finish_create_volume cfg tags req) nf' d0 = (Inr vol, d1) \<and> world d' = world d1"
    using assms(2) by (auto simp: create_new_def split: if_splits option.splits dest!: with_reserved_Inr)
  then obtain nf' d0 d1 where "create_and cfg svc p (finish_create_volume cfg tags req) nf' d0 = (Inr vol, d1)" "world d' = world d1"
    by blast
  then show ?thesis using create_and_served[OF assms(1)] by metis
qed

lemma create_served:
  assumes ok: "instance_api_ok (sv_svc sv) (sv_tags sv) stored" and run: "single_CreateVolume sv req d = (Inr vol, d')"
  shows "\<exists>i. served (sv_cfg sv) req stored vol (world d') i"
proof -
  obtain nf d0 d1 where "create_locked (sv_cfg sv) (sv_svc sv) (sv_tags sv) req nf d0 = (Inr vol, d1)" and w: "world d' = world d1"
    using run by (auto simp: single_CreateVolume_def bind_err_Inr_iff lift_Inr split: if_splits option.splits dest!: with_lock_Inr)
  then obtain nf' d2 existing d3 u d4 where
      l: "lookup_instance (sv_svc sv) nf' d2 = (Inr existing, d3)" and t: "validate_tags (sv_tags sv) (cr_Parameters req) d3 = (Inr u, d4)"
    and rest: "(case existing of
         Some filer \<Rightarrow> bind (lift (use_existing (cr_Name req) nf' filer)) (finish_create_volume (sv_cfg sv) (sv_tags sv) req)
       | None \<Rightarrow> create_new (sv_cfg sv) (sv_svc sv) (cr_Parameters req) (finish_create_volume (sv_cfg sv) (sv_tags sv) req) nf') d4 = (Inr vol, d1)"
    by (auto simp: create_locked_def bind_Inr_iff)
  show ?thesis
  proof (cases existing)
    case None
    then show ?thesis using create_new_served[OF ok] rest w by fastforce
  next
    case (Some filer)
    then have "use_existing (cr_Name req) nf' filer = Inr filer" and f: "finish_create_volume (sv_cfg sv) (sv_tags sv) req filer d4 = (Inr vol, d1)"
      using rest by (auto simp: bind_Inr_iff lift_Inr use_existing_def Let_def split: option.splits if_splits)
    then have ready: "si_State filer = ''READY''" by (auto simp: use_existing_def Let_def split: option.splits if_splits)
    obtain w3 where g: "svc_GetInstance (sv_svc sv) nf' (world d2) = (Inr filer, w3)" "world d3 = w3"
      using l Some by (auto simp: lookup_instance_def attempt_def on_world_def split: prod.splits sum.splits if_splits)
    have "stored (world d4) = stored (world d3)"
      using t keepsD[OF instances_tags(1)[OF ok]] by (auto simp: validate_tags_def bind_err_Inr_iff on_world_Inr split: option.splits)
    then have "stored (world d4) (instance_key nf') = Some filer" using instances_get[OF ok g(1)] g(2) by simp
    from finish_served[OF ok f this ready] show ?thesis using w by auto
  qed
qed

section \<open>The handle and the attributes of a volume\<close>

lemma handle_of_instance:
  assumes "well_named i"
  shows "\<not> isMultishareVolId (getVolumeIDFromFileInstance i modeInstance)"
    "\<exists>f. getFileInstanceFromID (getVolumeIDFromFileInstance i modeInstance) = Inr (f, modeInstance)
       \<and> si_Location f = si_Location i \<and> si_Name f = si_Name i \<and> vol_Name (si_Volume f) = vol_Name (si_Volume i)"
    "getVolumeIDFromFileInstance i modeInstance \<noteq> []"
proof -
  let ?v = "getVolumeIDFromFileInstance i modeInstance"
  have n: "\<forall>x \<in> {si_Location i, si_Name i, vol_Name (si_Volume i)}. CHR ''/'' \<notin> set x \<and> CHR ''M'' \<notin> set x"
    using assms resource_name_chars by (auto simp: well_named_def)
  then have "CHR ''M'' \<notin> set ?v" by (simp add: getVolumeIDFromFileInstance_def modeInstance_def)
  then show "\<not> isMultishareVolId ?v"
    by (auto simp: isMultishareVolId_def contains_sublist sublist_def)
  have "split (CHR ''/'') ?v = [modeInstance, si_Location i, si_Name i, vol_Name (si_Volume i)]"
    unfolding getVolumeIDFromFileInstance_def using n by (intro split_join) auto
  then show "\<exists>f. getFileInstanceFromID ?v = Inr (f, modeInstance) \<and> si_Location f = si_Location i \<and> si_Name f = si_Name i
      \<and> vol_Name (si_Volume f) = vol_Name (si_Volume i)"
    by (simp add: getFileInstanceFromID_def)
  show "?v \<noteq> []" by (simp add: getVolumeIDFromFileInstance_def modeInstance_def)
qed

lemma volume_of_simps:
  "cv_VolumeId (volume_of cfg req i) = getVolumeIDFromFileInstance i modeInstance"
  "mlookup (cv_VolumeContext (volume_of cfg req i)) attrIP = Some (Ip (si_Network i))"
  "mlookup (cv_VolumeContext (volume_of cfg req i)) attrVolume = Some (vol_Name (si_Volume i))"
  by (simp_all add: volume_of_def mount_options_def fileInstanceToCSIVolume_def Let_def attrIP_def attrVolume_def attrMountOptions_def)

lemma volume_source:
  assumes "instance_api_ok svc tags stored" "served cfg req stored vol w i"
  shows "stage_source (cv_VolumeId vol) (cv_VolumeContext vol) = Inr (Ip (si_Network i) @ '':/'' @ vol_Name (si_Volume i))"
proof -
  have st: "stored w (instance_key i) = Some i" "si_State i = ''READY''" and v: "vol = volume_of cfg req i"
    using assms(2) by (simp_all add: served_def)
  note n = instances_named(2,3)[OF assms(1) st(1)]
  have "vol_Name (si_Volume i) \<noteq> []" using n(1) resource_name_chars by (auto simp: well_named_def)
  then show ?thesis
    using handle_of_instance(1)[OF n(1)] n(2)[OF st(2)]
    by (simp add: stage_source_def v validateVolumeAttributes_def mget_def volume_of_simps)
qed

lemma volume_lock_key:
  assumes "well_named i" "resource_name (ne_Project env)" "resource_name (ne_InstanceID env)"
    "net_ParseIP (ne_InternalIP env) \<noteq> None" "CHR ''_'' \<notin> set (ne_InternalIP env)"
  shows "\<exists>key. generateLockInfoKeyFromVolumeID env (getVolumeIDFromFileInstance i modeInstance) = Inr key
    \<and> ParseConfigMapKey key = Inr \<lparr>lk_ProjectID = ne_Project env, lk_Location = si_Location i, lk_FilestoreName = si_Name i,
        lk_ShareName = vol_Name (si_Volume i), lk_GkeNodeID = ne_InstanceID env, lk_GkeNodeInternalIP = ne_InternalIP env\<rparr>"
proof -
  obtain f where f: "getFileInstanceFromID (getVolumeIDFromFileInstance i modeInstance) = Inr (f, modeInstance)"
    "si_Location f = si_Location i" "si_Name f = si_Name i" "vol_Name (si_Volume f) = vol_Name (si_Volume i)"
    using handle_of_instance(2)[OF assms(1)] by blast
  have "\<forall>x \<in> {ne_Project env, si_Location i, si_Name i, vol_Name (si_Volume i), ne_InstanceID env}. x \<noteq> [] \<and> CHR ''.'' \<notin> set x"
    using assms(1-3) resource_name_chars by (auto simp: well_named_def)
  from parse_generated_key[OF this assms(4,5)] show ?thesis
    using f handle_of_instance(1)[OF assms(1)] by (simp add: generateLockInfoKeyFromVolumeID_def)
qed

section \<open>From creation to the node\<close>

text \<open>C5: A created volume can be mounted, and its locks can be traced. Whatever path the creation of a
  volume with its own instance took, the service then stores an instance that the answer is about; the
  node server accepts the answer, with its handle and attributes, and a successful stage mounts the share
  of this instance from its address. Where the mount is recorded for the lock release, the key of the
  record parses back to the project, location, name and share of this instance and to the node.\<close>

theorem created_volume_mounts:
  assumes create: "CreateVolume sv req dc = (Inr vol, dc')" "toLower (mget (cr_Parameters req) ''multishare'') \<noteq> ''true''"
    and svc: "instance_api_ok (sv_svc sv) (sv_tags sv) stored"
    and env: "node_env_ok env mounts ent" "resource_name (ne_Project env)" "resource_name (ne_InstanceID env)"
      "net_ParseIP (ne_InternalIP env) \<noteq> None" "CHR ''_'' \<notin> set (ne_InternalIP env)"
    and stage: "ns_VolumeId sreq = cv_VolumeId vol" "ns_VolumeContext sreq = cv_VolumeContext vol"
      "mounts (world dn) (ns_StagingTargetPath sreq) = None"
  shows "\<exists>i source. stored (world dc') (instance_key i) = Some i \<and> source = Ip (si_Network i) @ '':/'' @ vol_Name (si_Volume i)
    \<and> stage_source (ns_VolumeId sreq) (ns_VolumeContext sreq) = Inr source
    \<and> (\<forall>dn'. NodeStageVolume env sreq dn = (Inr (), dn') \<longrightarrow>
         mounts (world dn') = (mounts (world dn))(ns_StagingTargetPath sreq \<mapsto> source)
         \<and> (records_lock env (cv_VolumeContext vol) \<longrightarrow> (\<exists>key.
              ParseConfigMapKey key = Inr \<lparr>lk_ProjectID = ne_Project env, lk_Location = si_Location i, lk_FilestoreName = si_Name i,
                lk_ShareName = vol_Name (si_Volume i), lk_GkeNodeID = ne_InstanceID env, lk_GkeNodeInternalIP = ne_InternalIP env\<rparr>
              \<and> (node_entry env ent (world dn) key = None \<longrightarrow>
                   node_entry env ent (world dn') key = Some (Ip (si_Network i))))))"
proof -
  have "single_CreateVolume sv req dc = (Inr vol, dc')" using create by (simp add: CreateVolume_def)
  then obtain i where i: "served (sv_cfg sv) req stored vol (world dc') i" using create_served[OF svc] by blast
  then have st: "stored (world dc') (instance_key i) = Some i" and v: "vol = volume_of (sv_cfg sv) req i"
    by (simp_all add: served_def)
  obtain key where key: "generateLockInfoKeyFromVolumeID env (cv_VolumeId vol) = Inr key"
    "ParseConfigMapKey key = Inr \<lparr>lk_ProjectID = ne_Project env, lk_Location = si_Location i, lk_FilestoreName = si_Name i,
        lk_ShareName = vol_Name (si_Volume i), lk_GkeNodeID = ne_InstanceID env, lk_GkeNodeInternalIP = ne_InternalIP env\<rparr>"
    using volume_lock_key[OF instances_named(2)[OF svc st] env(2-5)] by (auto simp: v volume_of_simps)
  have ip: "mget (cv_VolumeContext vol) attrIP = Ip (si_Network i)" by (simp add: v mget_def volume_of_simps)
  note src = volume_source[OF svc i]
  have "mounts (world dn') = (mounts (world dn))(ns_StagingTargetPath sreq \<mapsto> Ip (si_Network i) @ '':/'' @ vol_Name (si_Volume i))
      \<and> (records_lock env (cv_VolumeContext vol) \<longrightarrow> node_entry env ent (world dn) key = None \<longrightarrow>
           node_entry env ent (world dn') key = Some (Ip (si_Network i)))"
    if "NodeStageVolume env sreq dn = (Inr (), dn')" for dn'
    by (rule NodeStage_state[OF env(1) that, unfolded stage(1,2) src key(1) ip]) (auto simp: stage(3) split: if_splits)
  then show ?thesis using st src key(2) stage(1,2) by metis
qed

text \<open>C18: Deletion takes back a creation. The handle that a creation answered names its instance in any later
  state of the service: a successful deletion of the handle removes this instance and nothing else.\<close>

theorem created_volume_deleted:
  assumes create: "CreateVolume sv req d0 = (Inr vol, d1)" "toLower (mget (cr_Parameters req) ''multishare'') \<noteq> ''true''"
    and svc: "instance_api_ok (sv_svc sv) (sv_tags sv) stored"
    and del: "DeleteVolume sv (cv_VolumeId vol) d2 = (Inr (), d3)"
  shows "\<exists>i. stored (world d1) (instance_key i) = Some i \<and> vol = volume_of (sv_cfg sv) req i
    \<and> stored (world d3) = (stored (world d2))(instance_key i := None)"
proof -
  have "single_CreateVolume sv req d0 = (Inr vol, d1)" using create by (simp add: CreateVolume_def)
  then obtain i where "served (sv_cfg sv) req stored vol (world d1) i" using create_served[OF svc] by blast
  then have st: "stored (world d1) (instance_key i) = Some i" and v: "vol = volume_of (sv_cfg sv) req i"
    by (simp_all add: served_def)
  note h = handle_of_instance[OF instances_named(2)[OF svc st]]
  obtain f where f: "getFileInstanceFromID (cv_VolumeId vol) = Inr (f, modeInstance)"
    "instance_key (f\<lparr>si_Project := p\<rparr>) = instance_key i" for p
    using h(2) by (auto simp: v volume_of_simps instance_key_def)
  have "single_DeleteVolume sv (cv_VolumeId vol) d2 = (Inr (), d3)"
    using del h(1,3) by (simp add: DeleteVolume_def v volume_of_simps)
  then have "delete_locked (sv_cfg sv) (sv_svc sv) (cv_VolumeId vol) f (world d2) = (Inr (), world d3)"
    by (auto simp: single_DeleteVolume_def f(1) dest: with_lock_run)
  then obtain r w1 where g: "svc_GetInstance (sv_svc sv) (f\<lparr>si_Project := cfg_Project (sv_cfg sv)\<rparr>) (world d2) = (r, w1)"
    and rest: "(case r of Inl e \<Rightarrow> if IsNotFoundErr e then ret () else fail (to_status e)
       | Inr filer \<Rightarrow> if si_State filer = ''DELETING''
           then fail (StatusErr DeadlineExceeded (''Volume '' @ cv_VolumeId vol @ '' is in state: '' @ si_State filer))
           else bind_err to_status (svc_DeleteInstance (sv_svc sv) filer) ret) w1 = (Inr (), world d3)"
    by (auto simp: delete_locked_def attempt_def split: prod.splits)
  note get = instances_get[OF svc g, unfolded f(2)]
  have "stored (world d3) = (stored (world d2))(instance_key i := None)"
  proof (cases r)
    case (Inl e)
    then have "IsNotFoundErr e" "world d3 = w1" using rest by (auto split: if_splits)
    then show ?thesis using get Inl by auto
  next
    case (Inr filer)
    then have "svc_DeleteInstance (sv_svc sv) filer w1 = (Inr (), world d3)"
      using rest by (auto simp: bind_err_Inr_iff split: if_splits)
    moreover have "instance_key filer = instance_key i" using instances_named(1)[OF svc] get Inr by auto
    ultimately show ?thesis using instances_delete[OF svc] get by simp
  qed
  then show ?thesis using st v by blast
qed

section \<open>A share on a new instance\<close>

lemma set_reserved_Ip [simp]: "Ip (mi_Network (set_reserved r i)) = Ip (mi_Network i)"
  by (simp add: set_reserved_def)

lemma started_create_instance:
  assumes "create_instance_workflow svc param ops i d = (Inr w, d')"
  shows "\<exists>i'. wf_instance w = Some i' \<and> Ip (mi_Network i') = Ip (mi_Network i)"
proof -
  have s: "\<exists>i'. wf_instance w = Some i' \<and> Ip (mi_Network i') = Ip (mi_Network i)"
    if "startInstanceWorkflow svc (instance_workflow j InstanceCreate) ops w0 = (Inr w, w1)" "Ip (mi_Network j) = Ip (mi_Network i)"
    for j w0 w1
    using startInstanceWorkflow_Inr[OF that(1)] that(2) by (auto simp: instance_workflow_def)
  show ?thesis
    using assms by (auto simp: create_instance_workflow_def Let_def on_world_Inr intro!: s split: if_splits option.splits dest!: with_reserved_Inr)
qed

lemma setup_new_instance:
  assumes "setupEligibleInstanceAndStartWorkflow ext cfg svc req i src d = (Inr (Inr w), d')" "wf_opType w = InstanceCreate"
  shows "\<exists>i'. wf_instance w = Some i' \<and> Ip (mi_Network i') = Ip (mi_Network i)"
proof -
  have no: False if "place_share ext svc req n src ops j w0 = (Inr w, w1)" for n ops j w0 w1
    using that assms(2)
    by (auto simp: place_share_def bind_Inr_iff bind_err_Inr_iff instance_workflow_def share_workflow_def split: if_splits
        dest!: startInstanceWorkflow_Inr startShareWorkflow_Inr)
  show ?thesis
    using assms(1)
    by (auto simp: setupEligibleInstanceAndStartWorkflow_def Let_def bind_Inr_iff bind_err_Inr_iff on_world_Inr
        split: option.splits if_splits dest: no started_create_instance)
qed

text \<open>C34: A share whose creation made a new instance cannot be mounted. Its volume is answered with the
  address of the instance as it was requested, which is empty, and every node refuses to stage it, with
  InvalidArgument and no effect.\<close>

theorem new_instance_volume_refused:
  assumes create: "generateNewMultishareInstance ext cfg (''fs-'' @ ext_uuid ext) req maxShares = Inr i0"
      "override_description cfg i0 = Inr i"
      "setupEligibleInstanceAndStartWorkflow ext cfg svc req i src d = (Inr (Inr w), d1)" "wf_opType w = InstanceCreate"
      "ms_create_locked ext cfg svc req src scPrefix maxShares maxSize d = (Inr vol, d')"
    and stage: "ns_VolumeId sreq = cv_VolumeId vol" "ns_VolumeContext sreq = cv_VolumeContext vol"
  shows "\<exists>msg. NodeStageVolume env sreq dn = (Inl (StatusErr InvalidArgument msg), dn)"
proof -
  have "Ip (mi_Network i0) = []"
    using create(1) by (auto simp: generateNewMultishareInstance_def rbind_Inr empty_network_def Let_def split: if_splits)
  then have "Ip (mi_Network i) = []" using create(2) by (auto simp: override_description_def rbind_Inr split: if_splits)
  then obtain i' where i': "wf_instance w = Some i'" "Ip (mi_Network i') = []" using setup_new_instance[OF create(3,4)] by auto
  have "finish_create ext cfg svc req src scPrefix maxSize w (world d1) = (Inr vol, world d')"
    using create(1-3,5) by (auto simp: ms_create_locked_def bind_err_Inr_iff bind_Inr_iff lift_Inr on_world_Inr)
  then obtain sh s1 s2 where "generateNewShare ext (ConvertVolToShareName (cr_Name req)) (Some i') req src = Inr sh"
      and g: "getShareAndGenerateCSICreateVolumeResponse cfg svc scPrefix sh maxSize s1 = (Inr vol, s2)"
    using create(4) i'(1) by (auto simp: finish_create_def Let_def bind_err_Inr_iff lift_Inr split: if_splits)
  then have "sh_Parent sh = Some i'" "generateCSICreateVolumeResponse cfg scPrefix sh maxSize = Inr vol"
    by (auto simp: generateNewShare_def rbind_Inr getShareAndGenerateCSICreateVolumeResponse_def bind_err_Inr_iff
        lift_Inr split: if_splits)
  then have "mlookup (cv_VolumeContext vol) attrIP = Some []" "isMultishareVolId (cv_VolumeId vol)"
    using i'(2) by (auto simp: generateCSICreateVolumeResponse_def generateMultishareVolumeIdFromShare_def isMultishareVolId_def
        modeMultishare_def split: sum.splits if_splits)
  then have "\<exists>msg. stage_source (ns_VolumeId sreq) (ns_VolumeContext sreq) = Inl (StatusErr InvalidArgument msg)"
    by (simp add: stage stage_source_def validateMultishareVolumeAttributes_def)
  then show ?thesis
    by (auto simp: NodeStageVolume_def bind_def split: option.split)
qed

section \<open>An example\<close>

text \<open>The in-memory service with instances found by location and name, which can be deleted\<close>

definition placed :: "fakeServiceManager \<Rightarrow> string \<Rightarrow> ServiceInstance option" where
  "placed m u = (case mlookup (createdInstances m) u of None \<Rightarrow> None
     | Some i \<Rightarrow> if instance_key i = u \<and> well_named i \<and> net_ParseIP (Ip (si_Network i)) \<noteq> None then Some i else None)"

definition placed_service :: "fakeServiceManager Service" where
  "placed_service = demo_service\<lparr>
     svc_GetInstance := (\<lambda>obj m. case placed m (instance_key obj) of Some i \<Rightarrow> (Inr i, m) | None \<Rightarrow> (Inl notFoundError, m)),
     svc_CreateInstance := (\<lambda>obj m.
       if well_named obj
       then (let i = (fake_instance obj)\<lparr>si_Location := si_Location obj\<rparr> in
             (Inr i, m\<lparr>createdInstances := minsert (instance_key obj) i (createdInstances m)\<rparr>))
       else (Inl (StatusErr InvalidArgument ''invalid name''), m)),
     svc_DeleteInstance := (\<lambda>obj m. (Inr (), m\<lparr>createdInstances := mdelete (instance_key obj) (createdInstances m)\<rparr>))\<rparr>"

lemma placed_service_ok: "instance_api_ok placed_service demo_tags placed"
proof -
  have ip: "net_ParseIP ''1.1.1.1'' \<noteq> None" by code_simp
  show ?thesis
    using ip by (auto simp: instance_api_ok_def placed_service_def placed_def fun_eq_iff Let_def keeps_def demo_tags_def mlookup_upd
        instance_key_def well_named_def fake_instance_def empty_service_instance_def split: option.splits if_splits)
qed

definition placed_server :: "(fakeServiceManager, nat) server" where
  "placed_server = demo_server\<lparr>sv_svc := placed_service, sv_cfg := demo_config\<lparr>cfg_lockRelease := True\<rparr>\<rparr>"

definition enterprise_create :: CreateVolumeRequest where
  "enterprise_create = demo_create\<lparr>cr_Parameters := [(''tier'', ''enterprise'')]\<rparr>"

definition enterprise_volume :: CsiVolume where
  "enterprise_volume = \<lparr>cv_VolumeId = ''modeInstance/us-central1/pvc-1/vol1'', cv_CapacityBytes = 1099511627776,
     cv_VolumeContext = [(''ip'', ''1.1.1.1''), (''volume'', ''vol1''), (''fileProtocol'', ''NFS_V3''), (''supportLockRelease'', ''true'')],
     cv_ContentSource = None\<rparr>"

lemma enterprise_created:
  "fst (CreateVolume placed_server enterprise_create (demo_driver NewFakeService)) = Inr enterprise_volume"
  by code_simp

definition enterprise_stage :: NodeStageVolumeRequest where
  "enterprise_stage = demo_stage\<lparr>ns_VolumeId := cv_VolumeId enterprise_volume, ns_VolumeContext := cv_VolumeContext enterprise_volume\<rparr>"

lemma enterprise_staged:
  "fst (NodeStageVolume demo_env enterprise_stage demo_start) = Inr ()"
  by code_simp

theorem created_volume_mounts_witness:
  "\<exists>dn' key k ip. NodeStageVolume demo_env enterprise_stage demo_start = (Inr (), dn')
     \<and> demo_mounts (world dn') ''/staging'' = Some ''1.1.1.1:/vol1''
     \<and> ParseConfigMapKey key = Inr k \<and> lk_GkeNodeID k = ''4711'' \<and> node_entry demo_env machine_ent (world dn') key = Some ip"
proof -
  obtain dc' where c: "CreateVolume placed_server enterprise_create (demo_driver NewFakeService) = (Inr enterprise_volume, dc')"
    using enterprise_created by (metis prod.collapse)
  obtain dn' where n: "NodeStageVolume demo_env enterprise_stage demo_start = (Inr (), dn')"
    using enterprise_staged by (metis prod.collapse)
  have srv: "sv_svc placed_server = placed_service" "sv_tags placed_server = demo_tags"
    by (simp_all add: placed_server_def demo_server_def)
  have e: "toLower (mget (cr_Parameters enterprise_create) ''multishare'') \<noteq> ''true''"
    "resource_name (ne_Project demo_env)" "resource_name (ne_InstanceID demo_env)"
    "net_ParseIP (ne_InternalIP demo_env) \<noteq> None" "CHR ''_'' \<notin> set (ne_InternalIP demo_env)"
    "stage_source (ns_VolumeId enterprise_stage) (ns_VolumeContext enterprise_stage) = Inr ''1.1.1.1:/vol1''"
    "records_lock demo_env (cv_VolumeContext enterprise_volume)" "ns_StagingTargetPath enterprise_stage = ''/staging''"
    by code_simp+
  have f: "demo_mounts (world demo_start) p = None" "node_entry demo_env machine_ent (world demo_start) k = None" for p k
    by (simp_all add: demo_start_def demo_mounts_def machine_ent_def demo_ent_def demo_map_def)
  have r: "ns_VolumeId enterprise_stage = cv_VolumeId enterprise_volume" "ns_VolumeContext enterprise_stage = cv_VolumeContext enterprise_volume"
    by (simp_all add: enterprise_stage_def)
  have id: "ne_InstanceID demo_env = ''4711''" by (simp add: demo_env_def)
  show ?thesis
    using created_volume_mounts[OF c e(1) placed_service_ok[folded srv] demo_env_ok e(2-5) r f(1)] n e(6-8) f(2) id
    by (fastforce simp: e(6))
qed

theorem created_volume_deleted_witness:
  "\<exists>d1 d3 u. placed (world d1) u \<noteq> None \<and> DeleteVolume placed_server ''modeInstance/us-central1/pvc-1/vol1'' d1 = (Inr (), d3)
     \<and> placed (world d3) u = None"
proof -
  obtain d1 where c: "CreateVolume placed_server enterprise_create (demo_driver NewFakeService) = (Inr enterprise_volume, d1)"
    using enterprise_created by (metis prod.collapse)
  have "fst (DeleteVolume placed_server (cv_VolumeId enterprise_volume)
      (snd (CreateVolume placed_server enterprise_create (demo_driver NewFakeService)))) = Inr ()"
    by code_simp
  then obtain d3 where d: "DeleteVolume placed_server (cv_VolumeId enterprise_volume) d1 = (Inr (), d3)"
    unfolding c by (metis prod.collapse snd_conv)
  have srv: "sv_svc placed_server = placed_service" "sv_tags placed_server = demo_tags"
    by (simp_all add: placed_server_def demo_server_def)
  have e: "toLower (mget (cr_Parameters enterprise_create) ''multishare'') \<noteq> ''true''" by code_simp
  show ?thesis
    using created_volume_deleted[OF c e placed_service_ok[folded srv] d] d
    by (intro exI[of _ d1] exI[of _ d3]) (auto simp: enterprise_volume_def)
qed

lemma new_instance_example:
  "case generateNewMultishareInstance demo_externals demo_config (''fs-'' @ ext_uuid demo_externals) demo_create 10 of
     Inl e \<Rightarrow> False
   | Inr i \<Rightarrow> override_description demo_config i = Inr i
      \<and> (case fst (setupEligibleInstanceAndStartWorkflow demo_externals demo_config demo_service demo_create i [] (demo_driver NewFakeService)) of
           Inr (Inr w) \<Rightarrow> wf_opType w = InstanceCreate | _ \<Rightarrow> False)"
  "case fst (ms_create_locked demo_externals demo_config demo_service demo_create [] ''sc'' 10 MaxShareSizeBytes (demo_driver NewFakeService)) of
     Inl e \<Rightarrow> False | Inr vol \<Rightarrow> True"
  by code_simp+

theorem new_instance_volume_refused_witness:
  "\<exists>vol d'. ms_create_locked demo_externals demo_config demo_service demo_create [] ''sc'' 10 MaxShareSizeBytes
        (demo_driver NewFakeService) = (Inr vol, d')
     \<and> (\<exists>msg. NodeStageVolume demo_env (demo_stage\<lparr>ns_VolumeId := cv_VolumeId vol, ns_VolumeContext := cv_VolumeContext vol\<rparr>) demo_start
          = (Inl (StatusErr InvalidArgument msg), demo_start))"
proof -
  let ?d = "demo_driver NewFakeService"
  obtain i where i: "generateNewMultishareInstance demo_externals demo_config (''fs-'' @ ext_uuid demo_externals) demo_create 10 = Inr i"
      "override_description demo_config i = Inr i"
      "case fst (setupEligibleInstanceAndStartWorkflow demo_externals demo_config demo_service demo_create i [] ?d) of
           Inr (Inr w) \<Rightarrow> wf_opType w = InstanceCreate | _ \<Rightarrow> False"
    using new_instance_example(1) by (auto split: sum.splits)
  then obtain w d1 where w: "setupEligibleInstanceAndStartWorkflow demo_externals demo_config demo_service demo_create i [] ?d = (Inr (Inr w), d1)"
      "wf_opType w = InstanceCreate"
    by (auto split: sum.splits dest: surjective_pairing[THEN trans]) (metis prod.collapse)
  obtain vol d' where v: "ms_create_locked demo_externals demo_config demo_service demo_create [] ''sc'' 10 MaxShareSizeBytes ?d = (Inr vol, d')"
    using new_instance_example(2) by (auto split: sum.splits) (metis prod.collapse)
  let ?req = "demo_stage\<lparr>ns_VolumeId := cv_VolumeId vol, ns_VolumeContext := cv_VolumeContext vol\<rparr>"
  have "\<exists>msg. NodeStageVolume demo_env ?req demo_start = (Inl (StatusErr InvalidArgument msg), demo_start)"
    by (rule new_instance_volume_refused[OF i(1,2) w v]) simp_all
  then show ?thesis using v by blast
qed

end
