(* ===== verification/Webhook.thy ===== *)
theory Webhook
  imports Multishare_Controller
begin

text \<open>
  \<open>pkg/webhook\<close>: the admission webhook for storage classes (\<open>storageclass.go\<close>) and the HTTP part that
  calls it (\<open>webhook.go\<close>). A class of this driver for multishare volumes is checked, and gets the
  label of its instances when it names none. The regular expression of labels is a value of a small
  datatype with its matcher; the decoders, \<open>json.Marshal\<close> and \<open>resource.ParseQuantity\<close> are
  parameters.
\<close>

section \<open>Regular expressions\<close>

datatype rexp = Cls "char list" | Seq rexp rexp | Opt rexp | Rep nat rexp

primrec repeat :: "nat \<Rightarrow> (string \<Rightarrow> string list) \<Rightarrow> string \<Rightarrow> string list" where
  "repeat 0 f s = [s]"
| "repeat (Suc n) f s = s # concat (map (repeat n f) (f s))"

text \<open>What is left of a string after each match of a prefix\<close>

primrec rmatch :: "rexp \<Rightarrow> string \<Rightarrow> string list" where
  "rmatch (Cls cs) s = (case s of [] \<Rightarrow> [] | c # t \<Rightarrow> if c \<in> set cs then [t] else [])"
| "rmatch (Seq r1 r2) s = concat (map (rmatch r2) (rmatch r1 s))"
| "rmatch (Opt r) s = s # rmatch r s"
| "rmatch (Rep n r) s = repeat n (rmatch r) s"

definition lowers :: string where "lowers = ''abcdefghijklmnopqrstuvwxyz''"
definition digits :: string where "digits = ''0123456789''"

text \<open>\<open>^(([a-z][a-z0-9_-]{0,61})?[a-z0-9])?$\<close>\<close>

definition label_rexp :: rexp where
  "label_rexp = Opt (Seq (Opt (Seq (Cls lowers) (Rep 61 (Cls (lowers @ digits @ ''_-''))))) (Cls (lowers @ digits)))"

definition validateInstanceLabel :: "string \<Rightarrow> bool" where
  "validateInstanceLabel label = ([] \<in> set (rmatch label_rexp label))"

section \<open>Admission\<close>

definition FilestoreCSIDriver :: string where "FilestoreCSIDriver = ''filestore.csi.storage.gke.io''"
definition TierEnterprise :: string where "TierEnterprise = ''enterprise''"
definition InstanceStorageClassLabel :: string where "InstanceStorageClassLabel = ''instance-storageclass-label''"
definition Multishare :: string where "Multishare = ''multishare''"
definition MaxVolumeSize :: string where "MaxVolumeSize = ''max-volume-size''"
definition StorageClassV1GVR :: "string \<times> string \<times> string" where
  "StorageClassV1GVR = (''storage.k8s.io'', ''v1'', ''storageclasses'')"

record AdmittedClass =
  ac_Name :: string
  ac_Provisioner :: string
  ac_Parameters :: labels

record AdmissionRequest =
  ar_UID :: string
  ar_Operation :: string
  ar_Resource :: "string \<times> string \<times> string"
  ar_Raw :: string

text \<open>The response: whether the object is admitted, the message of its result, and the JSON patch with its
  type\<close>

record AdmissionResponse =
  rs_UID :: string
  rs_Allowed :: bool
  rs_Message :: string
  rs_Patch :: "string option"
  rs_PatchType :: "string option"

definition reviewResponse :: AdmissionResponse where
  "reviewResponse = \<lparr>rs_UID = [], rs_Allowed = True, rs_Message = [], rs_Patch = None, rs_PatchType = None\<rparr>"

definition rejectV1AdmissionResponse :: "string \<Rightarrow> AdmissionResponse" where
  "rejectV1AdmissionResponse err = reviewResponse\<lparr>rs_Allowed := False, rs_Message := err\<rparr>"

text \<open>\<open>parseQuantity\<close> is \<open>resource.ParseQuantity\<close> followed by \<open>Value\<close>, and \<open>feature\<close> the flag for shares of
  configurable size.\<close>

definition validateMaxVolumeSizeParam :: "(string \<Rightarrow> string + int) \<Rightarrow> bool \<Rightarrow> AdmittedClass \<Rightarrow> string option" where
  "validateMaxVolumeSizeParam parseQuantity feature sc = (case mlookup (ac_Parameters sc) MaxVolumeSize of
       None \<Rightarrow> None
     | Some v \<Rightarrow>
         if \<not> feature then Some (CHR 0x27 # ''max-volume-size'' @ CHR 0x27 # '' parameter is not supported'')
         else (case parseQuantity v of
             Inl err \<Rightarrow> Some err
           | Inr valBytes \<Rightarrow>
               if valBytes \<in> set [128 * Gb, 256 * Gb, 512 * Gb, 1024 * Gb] then None
               else Some (''invalid '' @ CHR 0x27 # ''max-volume-size'' @ CHR 0x27 # '' '' @ v @ '', allowed sizes are ''
                 @ CHR 0x27 # ''128Gi'' @ CHR 0x27 # '', '' @ CHR 0x27 # ''256Gi'' @ CHR 0x27 # '', '' @ CHR 0x27 # ''512Gi''
                 @ CHR 0x27 # '', '' @ CHR 0x27 # ''1Ti'' @ [CHR 0x27])))"

definition label_patch :: "string \<Rightarrow> string" where
  "label_patch instanceLabel = ''[{'' @ quote ''op'' @ '':'' @ quote ''add'' @ '', '' @ quote ''path'' @ '':''
     @ quote (''/parameters/'' @ InstanceStorageClassLabel) @ '','' @ quote ''value'' @ '': '' @ CHR 0x22 # instanceLabel @ CHR 0x22 # ''}]''"

definition applyV1StorageClassPatch :: "(string \<Rightarrow> string + int) \<Rightarrow> bool \<Rightarrow> AdmittedClass \<Rightarrow> AdmissionResponse" where
  "applyV1StorageClassPatch parseQuantity feature sc =
     (if ac_Provisioner sc \<noteq> FilestoreCSIDriver then reviewResponse
      else (case mlookup (ac_Parameters sc) Multishare of
          None \<Rightarrow> reviewResponse
        | Some isMultishare \<Rightarrow>
            if toLower isMultishare = ''false'' then reviewResponse
            else if toLower isMultishare \<noteq> ''true''
            then rejectV1AdmissionResponse (''the acceptable values for '' @ quote Multishare @ '' are ''
              @ CHR 0x27 # ''True'' @ CHR 0x27 # '', '' @ CHR 0x27 # ''true'' @ CHR 0x27 # '', '' @ CHR 0x27 # ''false'' @ CHR 0x27 # '' or ''
              @ CHR 0x27 # ''False'' @ [CHR 0x27])
            else if mlookup (ac_Parameters sc) ''tier'' \<noteq> Some TierEnterprise
            then rejectV1AdmissionResponse (''mutlishare is only supported on '' @ quote TierEnterprise @ '' tier instances'')
            else (case validateMaxVolumeSizeParam parseQuantity feature sc of
                Some err \<Rightarrow> rejectV1AdmissionResponse err
              | None \<Rightarrow> (case mlookup (ac_Parameters sc) InstanceStorageClassLabel of
                  Some instanceLabel \<Rightarrow>
                    if validateInstanceLabel instanceLabel then reviewResponse
                    else rejectV1AdmissionResponse (quote InstanceStorageClassLabel @ '' can contain only lowercase letters, numeric characters, underscores, and dashes and have a maximum length of 63 characters'')
                | None \<Rightarrow>
                    let instanceLabel = toLower (ac_Name sc) in
                    if \<not> validateInstanceLabel instanceLabel
                    then rejectV1AdmissionResponse (''if using storageclass name as '' @ quote InstanceStorageClassLabel
                      @ '', it can contain only letters, numeric characters, underscores, and dashes and have a maximum length of 63 characters'')
                    else reviewResponse\<lparr>rs_Patch := Some (label_patch instanceLabel), rs_PatchType := Some ''JSONPatch''\<rparr>))))"

text \<open>A review without a request is a nil dereference. \<open>decode\<close> is the decoder for a storage class.\<close>

definition mutateStorageClass ::
  "(string \<Rightarrow> string + AdmittedClass) \<Rightarrow> (string \<Rightarrow> string + int) \<Rightarrow> bool \<Rightarrow> AdmissionRequest option \<Rightarrow> go_error + AdmissionResponse" where
  "mutateStorageClass decode parseQuantity feature ar = (case ar of
       None \<Rightarrow> Inl (Panic ''nil dereference'')
     | Some req \<Rightarrow> Inr (
         if ar_Operation req \<noteq> ''CREATE'' then reviewResponse
         else if ar_Resource req = StorageClassV1GVR then
           (case decode (ar_Raw req) of
              Inl err \<Rightarrow> rejectV1AdmissionResponse err
            | Inr sc \<Rightarrow> applyV1StorageClassPatch parseQuantity feature sc)
         else rejectV1AdmissionResponse (''expect resource to be {'' @ fst StorageClassV1GVR @ '' ''
             @ fst (snd StorageClassV1GVR) @ '' '' @ snd (snd StorageClassV1GVR) @ ''}'')))"

section \<open>The HTTP handler\<close>

text \<open>A body is nil, or it is read with the bytes so far and possibly an error. A decoded body is a review
  of version v1, an object that is none although its kind says so, or of another kind.\<close>

record HttpRequest =
  hr_Body :: "(string \<times> string option) option"
  hr_ContentType :: string

datatype decoded = Review "AdmissionRequest option" | NoReview string | OtherKind string

datatype http_write = HttpError nat string | HttpOK string

definition StatusBadRequest :: nat where "StatusBadRequest = 400"
definition StatusInternalServerError :: nat where "StatusInternalServerError = 500"

definition serve_body ::
  "(string \<Rightarrow> string + decoded) \<Rightarrow> (AdmissionResponse \<Rightarrow> string + string)
    \<Rightarrow> (AdmissionRequest option \<Rightarrow> go_error + AdmissionResponse) \<Rightarrow> string \<Rightarrow> string \<Rightarrow> go_error + http_write list" where
  "serve_body decode marshal admit contentType body =
     (if contentType \<noteq> ''application/json''
      then Inr [HttpError StatusBadRequest (''contentType='' @ contentType @ '', expect application/json'')]
      else (case decode body of
          Inl err \<Rightarrow> Inr [HttpError StatusBadRequest (''Request could not be decoded: '' @ err)]
        | Inr (NoReview t) \<Rightarrow> Inr [HttpError StatusBadRequest (''Expected v1.AdmissionReview but got: '' @ t)]
        | Inr (OtherKind gvk) \<Rightarrow> Inr [HttpError StatusBadRequest (''Unsupported group version kind: '' @ gvk)]
        | Inr (Review ar) \<Rightarrow> rbind (admit ar) (\<lambda>response. (case ar of
              None \<Rightarrow> Inl (Panic ''nil dereference'')
            | Some req \<Rightarrow> (case marshal (response\<lparr>rs_UID := ar_UID req\<rparr>) of
                Inl err \<Rightarrow> Inr [HttpError StatusInternalServerError err]
              | Inr respBytes \<Rightarrow> Inr [HttpOK respBytes])))))"

text \<open>A body that cannot be read is answered with an error, and then handled all the same: the code does
  not return.\<close>

definition serve ::
  "(string \<Rightarrow> string + decoded) \<Rightarrow> (AdmissionResponse \<Rightarrow> string + string)
    \<Rightarrow> (AdmissionRequest option \<Rightarrow> go_error + AdmissionResponse) \<Rightarrow> HttpRequest \<Rightarrow> go_error + http_write list" where
  "serve decode marshal admit r = (case hr_Body r of
       None \<Rightarrow> Inl (Panic ''read of a nil body'')
     | Some (body, readErr) \<Rightarrow>
         rbind (serve_body decode marshal admit (hr_ContentType r) body) (\<lambda>ws.
           Inr ((case readErr of None \<Rightarrow> [] | Some err \<Rightarrow> [HttpError StatusBadRequest (''Request could not be decoded: '' @ err)]) @ ws)))"

section \<open>The language of labels\<close>

lemma cls_match: "t \<in> set (rmatch (Cls cs) s) \<longleftrightarrow> (\<exists>c \<in> set cs. s = c # t)"
  by (cases s) auto

lemma cls_Cons: "rmatch (Cls cs) (c # s) = (if c \<in> set cs then [s] else [])"
  by simp

lemma repeat_cls: "t \<in> set (repeat n (rmatch (Cls cs)) s) \<longleftrightarrow> (\<exists>u. s = u @ t \<and> length u \<le> n \<and> set u \<subseteq> set cs)"
proof (induction n arbitrary: s)
  case 0
  then show ?case by auto
next
  case (Suc n)
  show ?case
  proof (cases s)
    case Nil
    then show ?thesis by auto
  next
    case (Cons c s')
    have "t \<in> set (repeat (Suc n) (rmatch (Cls cs)) s) \<longleftrightarrow> t = s \<or> (c \<in> set cs \<and> (\<exists>u. s' = u @ t \<and> length u \<le> n \<and> set u \<subseteq> set cs))"
      unfolding Suc.IH[symmetric] by (simp add: Cons cls_Cons del: rmatch.simps)
    also have "\<dots> \<longleftrightarrow> (\<exists>u. s = u @ t \<and> length u \<le> Suc n \<and> set u \<subseteq> set cs)"
    proof
      assume "t = s \<or> (c \<in> set cs \<and> (\<exists>u. s' = u @ t \<and> length u \<le> n \<and> set u \<subseteq> set cs))"
      then show "\<exists>u. s = u @ t \<and> length u \<le> Suc n \<and> set u \<subseteq> set cs"
      proof
        assume "c \<in> set cs \<and> (\<exists>u. s' = u @ t \<and> length u \<le> n \<and> set u \<subseteq> set cs)"
        then obtain u where "s' = u @ t" "length u \<le> n" "set u \<subseteq> set cs" "c \<in> set cs" by blast
        then show ?thesis by (intro exI[of _ "c # u"]) (simp add: Cons)
      qed (auto intro: exI[of _ "[]"])
    next
      assume "\<exists>u. s = u @ t \<and> length u \<le> Suc n \<and> set u \<subseteq> set cs"
      then obtain u where u: "s = u @ t" "length u \<le> Suc n" "set u \<subseteq> set cs" by blast
      then show "t = s \<or> (c \<in> set cs \<and> (\<exists>u. s' = u @ t \<and> length u \<le> n \<and> set u \<subseteq> set cs))"
        by (cases u) (auto simp: Cons)
    qed
    finally show ?thesis .
  qed
qed

abbreviation label_chars :: string where "label_chars \<equiv> lowers @ digits @ ''_-''"

lemma label_iff:
  "validateInstanceLabel label \<longleftrightarrow> label = [] \<or> (\<exists>d. d \<in> set (lowers @ digits) \<and> (label = [d]
     \<or> (\<exists>c u. c \<in> set lowers \<and> label = c # u @ [d] \<and> length u \<le> 61 \<and> set u \<subseteq> set label_chars)))"
  (is "_ \<longleftrightarrow> _ \<or> (\<exists>d. _ \<and> (_ \<or> ?long d))")
proof -
  have rep: "t \<in> set (rmatch (Rep 61 (Cls label_chars)) s) \<longleftrightarrow> (\<exists>u. s = u @ t \<and> length u \<le> 61 \<and> set u \<subseteq> set label_chars)" for s t
    unfolding rmatch.simps(4) by (rule repeat_cls)
  have "validateInstanceLabel label \<longleftrightarrow> label = [] \<or> (\<exists>t. (t = label \<or> (\<exists>s'. s' \<in> set (rmatch (Cls lowers) label)
      \<and> t \<in> set (rmatch (Rep 61 (Cls label_chars)) s'))) \<and> [] \<in> set (rmatch (Cls (lowers @ digits)) t))"
    unfolding validateInstanceLabel_def label_rexp_def rmatch.simps(2,3) by auto
  also have "\<dots> \<longleftrightarrow> label = [] \<or> (\<exists>d. d \<in> set (lowers @ digits) \<and> (label = [d] \<or> ?long d))"
    unfolding rep cls_match by (auto 4 4)
  finally show ?thesis .
qed

text \<open>C39: The regular expression of instance labels is what the documentation of labels says, in most
  cases: a label of at most 63 of the allowed characters that starts with a lower-case letter and ends
  with a letter or digit. A single digit, and the empty label, are accepted too.\<close>

theorem validateInstanceLabel_language:
  "validateInstanceLabel label \<longleftrightarrow> label = [] \<or> (length label \<le> 63 \<and> set label \<subseteq> set (lowers @ digits @ ''_-'')
     \<and> last label \<in> set (lowers @ digits) \<and> (length label = 1 \<or> hd label \<in> set lowers))"
proof -
  have "(\<exists>d. d \<in> set (lowers @ digits) \<and> (label = [d] \<or> (\<exists>c u. c \<in> set lowers \<and> label = c # u @ [d] \<and> length u \<le> 61
      \<and> set u \<subseteq> set label_chars))) \<longleftrightarrow> (length label \<le> 63 \<and> set label \<subseteq> set label_chars
     \<and> last label \<in> set (lowers @ digits) \<and> (length label = 1 \<or> hd label \<in> set lowers))" if t: "label \<noteq> []"
  proof (cases "length label = 1")
    case True
    then obtain d where "label = [d]" by (cases label) auto
    then show ?thesis by auto
  next
    case False
    then obtain c u d where l: "label = c # u @ [d]"
      using t by (cases label; cases "tl label" rule: rev_cases) auto
    then show ?thesis by auto
  qed
  then show ?thesis unfolding label_iff by (cases "label = []") simp_all
qed

section \<open>Admitted classes\<close>

text \<open>The label of the instances of a class, and its parameters after the patch\<close>

definition class_label :: "AdmittedClass \<Rightarrow> string" where
  "class_label sc = (case mlookup (ac_Parameters sc) InstanceStorageClassLabel of Some l \<Rightarrow> l | None \<Rightarrow> toLower (ac_Name sc))"

definition patched_parameters :: "AdmittedClass \<Rightarrow> labels" where
  "patched_parameters sc = (case mlookup (ac_Parameters sc) InstanceStorageClassLabel of
       Some l \<Rightarrow> ac_Parameters sc | None \<Rightarrow> minsert InstanceStorageClassLabel (toLower (ac_Name sc)) (ac_Parameters sc))"

lemma label_chars_ok: "c \<in> set label_chars \<Longrightarrow> label_char c \<and> c \<noteq> CHR ''/'' \<and> c \<noteq> CHR 0x22 \<and> c \<noteq> CHR 0x5C"
proof -
  have "list_all (\<lambda>c. label_char c \<and> c \<noteq> CHR ''/'' \<and> c \<noteq> CHR 0x22 \<and> c \<noteq> CHR 0x5C) label_chars" by code_simp
  then show "c \<in> set label_chars \<Longrightarrow> label_char c \<and> c \<noteq> CHR ''/'' \<and> c \<noteq> CHR 0x22 \<and> c \<noteq> CHR 0x5C"
    unfolding list_all_iff by (rule bspec)
qed

lemma valid_label_chars:
  assumes "validateInstanceLabel l"
  shows "set l \<subseteq> set label_chars" "length l \<le> 63"
proof -
  have low: "set lowers \<subseteq> set label_chars" "set (lowers @ digits) \<subseteq> set label_chars" by auto
  show "set l \<subseteq> set label_chars" "length l \<le> 63" using assms low by (auto simp: label_iff)
qed

text \<open>The size of a class may be left out; with the feature on it may be one of the four.\<close>

definition size_admissible :: "(string \<Rightarrow> string + int) \<Rightarrow> bool \<Rightarrow> AdmittedClass \<Rightarrow> bool" where
  "size_admissible pq feature sc = (case mlookup (ac_Parameters sc) MaxVolumeSize of
       None \<Rightarrow> True
     | Some q \<Rightarrow> feature \<and> (\<exists>bytes \<in> {128 * 2 ^ 30, 256 * 2 ^ 30, 512 * 2 ^ 30, 2 ^ 40}. pq q = Inr bytes))"

lemma validateMaxVolumeSizeParam_admissible:
  "validateMaxVolumeSizeParam pq feature sc = None \<longleftrightarrow> size_admissible pq feature sc"
  by (auto simp: validateMaxVolumeSizeParam_def size_admissible_def Gb_val split: option.split sum.split)

lemma admitted_size:
  assumes "size_admissible pq feature sc" "pq [] = Inl e"
  shows "\<exists>n m. parseMaxVolumeSizeParam (\<lambda>v. map_err ErrText (pq v)) feature (patched_parameters sc) = Inr (n, m)
    \<and> n * m = 10 * 2 ^ 40
    \<and> (case mlookup (ac_Parameters sc) MaxVolumeSize of None \<Rightarrow> m = 2 ^ 40 | Some q \<Rightarrow> pq q = Inr m)"
proof -
  have look: "mlookup (patched_parameters sc) MaxVolumeSize = mlookup (ac_Parameters sc) MaxVolumeSize"
    by (simp add: patched_parameters_def MaxVolumeSize_def InstanceStorageClassLabel_def split: option.split)
  show ?thesis
  proof (cases "mlookup (ac_Parameters sc) MaxVolumeSize")
    case None
    then show ?thesis using look
      by (simp add: parseMaxVolumeSizeParam_def MaxVolumeSize_def MaxSharesPerInstance_def MaxShareSizeBytes_def Tb_val)
  next
    case (Some q)
    then obtain b where b: "feature" "pq q = Inr b" "b \<in> {128 * 2 ^ 30, 256 * 2 ^ 30, 512 * 2 ^ 30, 2 ^ 40}"
      using assms(1) by (auto simp: size_admissible_def)
    have "isValidMaxVolSize b" using b(3) by (auto simp: isValidMaxVolSize_def Gb_val Tb_val)
    moreover have "(MaxMultishareInstanceSizeBytes sdiv b) * b = 10 * 2 ^ 40"
      using b(3) by (auto simp: MaxMultishareInstanceSizeBytes_def Tb_val signed_divide_int_def)
    moreover have "q \<noteq> []" using b(2) assms(2) by auto
    ultimately show ?thesis using look Some b
      by (simp add: parseMaxVolumeSizeParam_def MaxVolumeSize_def getSharesPerInstance_def)
  qed
qed

text \<open>C20: The webhook admits what the driver can use. A multishare class of this driver is admitted exactly
  when its flag says true, its tier is enterprise, the label of its instances (the one it names, or its own
  name in lower case, which the patch then adds) matches the expression, and it gives no volume size or,
  where shares have configurable sizes, one of 128, 256 and 512 GiB and 1 TiB. For an admitted class the
  driver, with the same feature flag, finds the size of the class, 1 TiB when it gives none, and a number of
  shares that fill 10 TiB; it accepts the value of the label, and reads the label from a volume
  request, unless the label is empty: an empty label is admitted and refused by the driver. A label
  contains no slash, no quote and no backslash, so that the patch is well formed and volume handles parse.
  The parser of quantities refuses the empty string.\<close>

theorem webhook_admits_usable:
  assumes sc: "ac_Provisioner sc = FilestoreCSIDriver" "mlookup (ac_Parameters sc) Multishare = Some v" "toLower v \<noteq> ''false''"
    and pq: "pq [] = Inl e"
  shows "(rs_Allowed (applyV1StorageClassPatch pq feature sc) \<longleftrightarrow> toLower v = ''true''
      \<and> mlookup (ac_Parameters sc) ''tier'' = Some ''enterprise'' \<and> size_admissible pq feature sc
      \<and> validateInstanceLabel (class_label sc))
    \<and> (rs_Allowed (applyV1StorageClassPatch pq feature sc) \<longrightarrow>
        rs_Patch (applyV1StorageClassPatch pq feature sc) = (if mlookup (ac_Parameters sc) InstanceStorageClassLabel = None
          then Some (label_patch (toLower (ac_Name sc))) else None)
        \<and> (\<exists>n m. parseMaxVolumeSizeParam (\<lambda>q. map_err ErrText (pq q)) feature (patched_parameters sc) = Inr (n, m)
             \<and> n * m = 10 * 2 ^ 40
             \<and> (case mlookup (ac_Parameters sc) MaxVolumeSize of None \<Rightarrow> m = 2 ^ 40 | Some q \<Rightarrow> pq q = Inr m))
        \<and> CheckLabelValueRegex (class_label sc) = None
        \<and> getInstanceSCLabel (req\<lparr>cr_Parameters := patched_parameters sc\<rparr>)
            = (if class_label sc = [] then Inl (ErrText ''instance prefix is empty'') else Inr (class_label sc))
        \<and> set (class_label sc) \<inter> {CHR ''/'', CHR 0x22, CHR 0x5C} = {})"
proof -
  let ?r = "applyV1StorageClassPatch pq feature sc"
  have allowed: "rs_Allowed ?r \<longleftrightarrow> toLower v = ''true''
      \<and> mlookup (ac_Parameters sc) ''tier'' = Some ''enterprise'' \<and> size_admissible pq feature sc
      \<and> validateInstanceLabel (class_label sc)"
    unfolding validateMaxVolumeSizeParam_admissible[symmetric]
    using sc by (auto simp: applyV1StorageClassPatch_def reviewResponse_def rejectV1AdmissionResponse_def TierEnterprise_def
        class_label_def Let_def split: option.split)
  have "rs_Patch ?r = (if mlookup (ac_Parameters sc) InstanceStorageClassLabel = None then Some (label_patch (toLower (ac_Name sc))) else None)"
    if "rs_Allowed ?r"
    using that sc by (auto simp: applyV1StorageClassPatch_def reviewResponse_def rejectV1AdmissionResponse_def TierEnterprise_def
        Let_def split: option.splits if_splits)
  note patch = this
  have "mlookup (patched_parameters sc) ParamMultishareInstanceScLabel = Some (class_label sc)"
    by (auto simp: patched_parameters_def class_label_def ParamMultishareInstanceScLabel_def InstanceStorageClassLabel_def split: option.split)
  then have label: "getInstanceSCLabel (req\<lparr>cr_Parameters := patched_parameters sc\<rparr>)
            = (if class_label sc = [] then Inl (ErrText ''instance prefix is empty'') else Inr (class_label sc))"
    by (simp add: getInstanceSCLabel_def)
  have chars: "CheckLabelValueRegex (class_label sc) = None \<and> set (class_label sc) \<inter> {CHR ''/'', CHR 0x22, CHR 0x5C} = {}"
    if "validateInstanceLabel (class_label sc)"
  proof -
    have c: "label_char c \<and> c \<noteq> CHR ''/'' \<and> c \<noteq> CHR 0x22 \<and> c \<noteq> CHR 0x5C" if "c \<in> set (class_label sc)" for c
      by (rule label_chars_ok, rule subsetD[OF valid_label_chars(1)[OF \<open>validateInstanceLabel (class_label sc)\<close>] that])
    show ?thesis using c valid_label_chars(2)[OF that] by (auto simp: CheckLabelValueRegex_def regexValue_def list_all_iff)
  qed
  show ?thesis
  proof (intro conjI impI allowed)
    assume a: "rs_Allowed ?r"
    note v = a[unfolded allowed, THEN conjunct2, THEN conjunct2, THEN conjunct1]
      a[unfolded allowed, THEN conjunct2, THEN conjunct2, THEN conjunct2]
    show "\<exists>n m. parseMaxVolumeSizeParam (\<lambda>q. map_err ErrText (pq q)) feature (patched_parameters sc) = Inr (n, m)
        \<and> n * m = 10 * 2 ^ 40 \<and> (case mlookup (ac_Parameters sc) MaxVolumeSize of None \<Rightarrow> m = 2 ^ 40 | Some q \<Rightarrow> pq q = Inr m)"
      by (rule admitted_size[where pq = pq, OF v(1) pq])
    show "CheckLabelValueRegex (class_label sc) = None" by (rule chars[OF v(2), THEN conjunct1])
    show "set (class_label sc) \<inter> {CHR ''/'', CHR 0x22, CHR 0x5C} = {}" by (rule chars[OF v(2), THEN conjunct2])
    show "rs_Patch ?r = (if mlookup (ac_Parameters sc) InstanceStorageClassLabel = None then Some (label_patch (toLower (ac_Name sc))) else None)"
      by (rule patch[OF a])
  qed (rule label)
qed

theorem webhook_admits_usable_witness:
  "rs_Patch (applyV1StorageClassPatch (\<lambda>q. if q = ''256Gi'' then Inr (256 * Gb) else Inl ''parse'') True
      \<lparr>ac_Name = ''Gold'', ac_Provisioner = FilestoreCSIDriver,
       ac_Parameters = [(''multishare'', ''True''), (''tier'', ''enterprise''), (''max-volume-size'', ''256Gi'')]\<rparr>)
     = Some (label_patch ''gold'')"
proof -
  let ?pq = "\<lambda>q. if q = ''256Gi'' then Inr (256 * Gb) else Inl ''parse''"
  let ?sc = "\<lparr>ac_Name = ''Gold'', ac_Provisioner = FilestoreCSIDriver,
       ac_Parameters = [(''multishare'', ''True''), (''tier'', ''enterprise''), (''max-volume-size'', ''256Gi'')]\<rparr>"
  have g: "toLower ''Gold'' = ''gold''" "toLower ''True'' = ''true''" by code_simp+
  have v: "validateInstanceLabel ''gold''" by code_simp
  have size: "size_admissible ?pq True ?sc"
    by (simp add: size_admissible_def MaxVolumeSize_def Gb_val)
  have sc: "ac_Provisioner ?sc = FilestoreCSIDriver" "mlookup (ac_Parameters ?sc) Multishare = Some ''True''"
    "mlookup (ac_Parameters ?sc) ''tier'' = Some ''enterprise''" "mlookup (ac_Parameters ?sc) InstanceStorageClassLabel = None"
    by (simp_all add: Multishare_def InstanceStorageClassLabel_def)
  have l: "class_label ?sc = ''gold''" using sc(4) g by (simp add: class_label_def)
  have low: "toLower ''True'' \<noteq> ''false''" by (simp add: g)
  have pq: "?pq [] = Inl ''parse''" by simp
  note adm = webhook_admits_usable[OF sc(1,2) low, of ?pq "''parse''" True, OF pq]
  have "rs_Allowed (applyV1StorageClassPatch ?pq True ?sc)"
    by (rule iffD2[OF adm[THEN conjunct1]], intro conjI g(2) sc(3) size) (simp only: l v)
  then show ?thesis using adm[THEN conjunct2] sc(4) g by simp
qed

end
