(* ===== verification/Driver_Start.thy ===== *)
theory Driver_Start
  imports Controller File_Service User_Tags Node_Server Lock_Release
begin

text \<open>
  The start of the process: \<open>cmd/main.go\<close>, the construction of the cloud provider
  (\<open>pkg/cloud_provider/cloud.go\<close>, \<open>metadata/metadata.go\<close>, \<open>NewGCFSService\<close> of \<open>file.go\<close>), of the
  driver with its capabilities and servers (\<open>gcfs_driver.go\<close>, \<open>identity.go\<close>, \<open>server.go\<close>,
  \<open>controller_unimpl.go\<close>). What the process finds around it (the flags, the metadata server, files, the libraries that build clients) is the
  record \<open>StartEnv\<close>. \<open>klog.Fatalf\<close> and \<open>os.Exit(1)\<close> end the process: they are the error Panic, which
  nothing rewrites.
\<close>

section \<open>Flags, files and the libraries\<close>

text \<open>The flags of \<open>cmd/main.go\<close> that decide what is run; the others are passed on to libraries.\<close>

record Flags =
  fl_endpoint :: string
  fl_nodeID :: string
  fl_runController :: bool
  fl_runNode :: bool
  fl_cloudConfigFilePath :: string
  fl_enableMultishare :: bool
  fl_testFilestoreServiceEndpoint :: string
  fl_primaryFilestoreServiceEndpoint :: string
  fl_ecfsDescription :: string
  fl_isRegional :: bool
  fl_gkeClusterName :: string
  fl_extraVolumeLabelsStr :: string
  fl_resourceTagsStr :: string
  fl_featureLockRelease :: bool
  fl_featureLockReleaseStandalone :: bool
  fl_featureMaxSharePerInstance :: bool
  fl_descOverrideMaxShareCount :: string
  fl_descOverrideMinShareSizeGB :: string
  fl_featureNFSv4Support :: bool
  fl_featureMultishareBackups :: bool
  fl_featureNFSExportOptionsOnCreate :: bool
  fl_featureStateful :: bool
  fl_kubeconfig :: string
  fl_version :: string

definition driverName :: string where "driverName = ''filestore.csi.storage.gke.io''"

record ConfigFile =
  gc_TokenURL :: string
  gc_TokenBody :: string
  gc_ProjectId :: string
  gc_Zone :: string

datatype TokenSource = AltTokenSource string string | DefaultTokenSource

text \<open>\<open>se_token_tries\<close> is how often \<open>PollImmediate\<close> tries in its thirty seconds, which depends on the
  clock. A client of the libraries is built or not; \<open>se_NewService\<close> takes the endpoint option.\<close>

record 'w StartEnv =
  se_Open :: "string \<Rightarrow> ('w, unit) eff"
  se_ReadInto :: "string \<Rightarrow> ('w, ConfigFile) eff"
  se_DefaultTokenSource :: "('w, unit) eff"
  se_Token :: "TokenSource \<Rightarrow> ('w, unit) eff"
  se_token_tries :: nat
  se_NewService :: "string option \<Rightarrow> ('w, unit) eff"
  se_NewMultishareService :: "string option \<Rightarrow> ('w, unit) eff"
  se_metadata_Zone :: "('w, string) eff"
  se_metadata_ProjectID :: "('w, string) eff"
  se_metadata_InstanceID :: "('w, string) eff"
  se_metadata_InternalIP :: "('w, string) eff"
  se_BuildConfigFromFlags :: "string \<Rightarrow> ('w, unit) eff"
  se_InClusterConfig :: "('w, unit) eff"
  se_kubernetes_NewForConfig :: "('w, unit) eff"
  se_clientset_NewForConfig :: "('w, unit) eff"
  se_List_ShareInfos :: "('w, unit) eff"
  se_Hostname :: "('w, string) eff"
  se_uuid :: string
  se_rpc :: "'w RpcLib"
  se_kube :: "'w KubeClient"
  se_url_Parse :: "string \<Rightarrow> go_error + (string \<times> string \<times> string)"
  se_Remove :: "string \<Rightarrow> ('w, unit) eff"
  se_IsNotExist :: "go_error \<Rightarrow> bool"
  se_net_Listen :: "string \<Rightarrow> string \<Rightarrow> ('w, unit) eff"

definition exit_with :: "string \<Rightarrow> go_error" where
  "exit_with m = Panic (''exit: '' @ m)"

text \<open>A call whose error ends the process with a message\<close>

definition or_exit :: "(string \<Rightarrow> string) \<Rightarrow> ('w, 'a) eff \<Rightarrow> ('a \<Rightarrow> ('w, 'b) eff) \<Rightarrow> ('w, 'b) eff" where
  "or_exit h = bind_err (\<lambda>e. exit_with (h (error_text e)))"

text \<open>\<open>PollImmediate\<close> and \<open>ExponentialBackoff\<close> with a condition that logs its errors: it is tried until
  it holds, at most a number of times.\<close>

fun try_until :: "nat \<Rightarrow> ('w, unit) eff \<Rightarrow> ('w, unit) eff" where
  "try_until 0 condition w = (Inl (ErrText ''timed out waiting for the condition''), w)"
| "try_until (Suc n) condition w = (case condition w of
     (Inr _, w') \<Rightarrow> (Inr (), w') | (Inl _, w') \<Rightarrow> try_until n condition w')"

section \<open>The cloud provider\<close>

record Cloud =
  cl_Config :: "ConfigFile option"
  cl_FileEndpoint :: "string option"
  cl_Project :: string
  cl_Zone :: string

definition maybeReadConfig :: "'w StartEnv \<Rightarrow> string \<Rightarrow> ('w, ConfigFile option) eff" where
  "maybeReadConfig env configPath =
     (if configPath = [] then ret None
      else bind_err (\<lambda>e. ErrWrap (''couldn't open cloud provider configuration at '' @ configPath @ '': '') e [])
             (se_Open env configPath) (\<lambda>_.
           bind_err (\<lambda>e. ErrWrap (''couldn't read cloud provider configuration at '' @ configPath @ '': '') e [])
             (se_ReadInto env configPath) (\<lambda>cfg. ret (Some cfg))))"

definition generateTokenSource :: "'w StartEnv \<Rightarrow> ConfigFile option \<Rightarrow> ('w, TokenSource) eff" where
  "generateTokenSource env configFile =
     (case configFile of
        Some c \<Rightarrow> if gc_TokenURL c \<noteq> [] \<and> gc_TokenURL c \<noteq> ''nil''
                 then ret (AltTokenSource (gc_TokenURL c) (gc_TokenBody c))
                 else bind (se_DefaultTokenSource env) (\<lambda>_. ret DefaultTokenSource)
      | None \<Rightarrow> bind (se_DefaultTokenSource env) (\<lambda>_. ret DefaultTokenSource))"

definition newOauthClient :: "'w StartEnv \<Rightarrow> TokenSource \<Rightarrow> ('w, unit) eff" where
  "newOauthClient env tokenSource = try_until (se_token_tries env) (se_Token env tokenSource)"

text \<open>The service manager is known by the endpoint its clients use.\<close>

definition NewGCFSService :: "'w StartEnv \<Rightarrow> string \<Rightarrow> string \<Rightarrow> ('w, string option) eff" where
  "NewGCFSService env primaryFilestoreServiceEndpoint testFilestoreServiceEndpoint =
     bind (if primaryFilestoreServiceEndpoint \<noteq> [] then ret (Some primaryFilestoreServiceEndpoint)
           else if testFilestoreServiceEndpoint \<noteq> []
           then bind (lift (createFilestoreEndpointUrlBasePath testFilestoreServiceEndpoint)) (\<lambda>endpoint. ret (Some endpoint))
           else ret None) (\<lambda>endpoint.
     bind (se_NewService env endpoint) (\<lambda>_.
     bind (se_NewMultishareService env endpoint) (\<lambda>_.
     ret endpoint)))"

definition getProjectAndZone :: "'w StartEnv \<Rightarrow> ConfigFile option \<Rightarrow> ('w, string \<times> string) eff" where
  "getProjectAndZone env configFile =
     bind (case configFile of
             Some c \<Rightarrow> if gc_Zone c = [] then se_metadata_Zone env else ret (gc_Zone c)
           | None \<Rightarrow> se_metadata_Zone env) (\<lambda>zone.
     bind (case configFile of
             Some c \<Rightarrow> if gc_ProjectId c = [] then se_metadata_ProjectID env else ret (gc_ProjectId c)
           | None \<Rightarrow> se_metadata_ProjectID env) (\<lambda>projectID.
     ret (projectID, zone)))"

definition NewCloud :: "'w StartEnv \<Rightarrow> string \<Rightarrow> string \<Rightarrow> string \<Rightarrow> ('w, Cloud) eff" where
  "NewCloud env configPath primaryFilestoreServiceEndpoint testFilestoreServiceEndpoint =
     bind (maybeReadConfig env configPath) (\<lambda>configFile.
     bind (generateTokenSource env configFile) (\<lambda>tokenSource.
     bind (newOauthClient env tokenSource) (\<lambda>_.
     bind_err (\<lambda>e. ErrWrap ''failed to initialize Filestore service: '' e [])
       (NewGCFSService env primaryFilestoreServiceEndpoint testFilestoreServiceEndpoint) (\<lambda>endpoint.
     bind_err (\<lambda>e. ErrWrap ''failed to initialize project information: '' e [])
       (getProjectAndZone env configFile) (\<lambda>(project, zone).
     ret \<lparr>cl_Config = configFile, cl_FileEndpoint = endpoint, cl_Project = project, cl_Zone = zone\<rparr>)))))"

record metadataServiceManager =
  md_zone :: string
  md_project :: string
  md_instanceID :: string
  md_internalIP :: string

definition NewMetadataService :: "'w StartEnv \<Rightarrow> ('w, metadataServiceManager) eff" where
  "NewMetadataService env =
     bind_err (\<lambda>e. ErrWrap ''failed to get current zone: '' e []) (se_metadata_Zone env) (\<lambda>zone.
     bind_err (\<lambda>e. ErrWrap ''failed to get project: '' e []) (se_metadata_ProjectID env) (\<lambda>projectID.
     bind_err (\<lambda>e. ErrWrap ''failed to get instance id: '' e []) (se_metadata_InstanceID env) (\<lambda>instanceID.
     bind_err (\<lambda>e. ErrWrap ''failed to get internal IP: '' e []) (se_metadata_InternalIP env) (\<lambda>internalIP.
     ret \<lparr>md_zone = zone, md_project = projectID, md_instanceID = instanceID, md_internalIP = internalIP\<rparr>))))"

section \<open>The configuration of the driver\<close>

definition BuildConfig :: "'w StartEnv \<Rightarrow> string \<Rightarrow> ('w, unit) eff" where
  "BuildConfig env kubeconfig =
     (if kubeconfig \<noteq> [] then se_BuildConfigFromFlags env kubeconfig else se_InClusterConfig env)"

text \<open>The features, each a flag; \<open>main\<close> sets all of them, so that none is nil. The sub-records of the
  code hold what the libraries need besides.\<close>

record GCFSDriverFeatureOptions =
  fo_LockRelease :: bool
  fo_LockReleaseStandalone :: bool
  fo_MaxSharesPerInstance :: bool
  fo_DescOverrideMaxSharesPerInstance :: string
  fo_DescOverrideMinShareSizeGB :: string
  fo_Stateful :: bool
  fo_KubeConfig :: string
  fo_MultishareBackups :: bool
  fo_NFSExportOptionsOnCreate :: bool
  fo_NFSv4Support :: bool

record GCFSDriverConfig =
  gd_Name :: string
  gd_Version :: string
  gd_NodeName :: string
  gd_RunController :: bool
  gd_RunNode :: bool
  gd_Cloud :: "Cloud option"
  gd_MetadataService :: "metadataServiceManager option"
  gd_EnableMultishare :: bool
  gd_EcfsDescription :: string
  gd_IsRegional :: bool
  gd_ClusterName :: string
  gd_FeatureOptions :: GCFSDriverFeatureOptions
  gd_ExtraVolumeLabels :: labels
  gd_TagManager :: "tagServiceManager option"

text \<open>Which of the controllers a controller server has: the multishare controller, the stateful
  controller, and the reconciler it is set in\<close>

record controllerServer =
  cs_multiShareController :: bool
  cs_statefulController :: bool
  cs_reconciler :: bool

record 'w nodeServer =
  nsv_metaService :: "metadataServiceManager option"
  nsv_lockReleaseController :: "'w LockController option"

record 'w GCFSDriver =
  dr_config :: GCFSDriverConfig
  dr_cs :: "controllerServer option"
  dr_ns :: "'w nodeServer option"
  dr_recon :: bool
  dr_vcap :: "(string, string) gomap"
  dr_cscap :: "string list"
  dr_nscap :: "string list"

section \<open>Capabilities\<close>

text \<open>\<open>NewVolumeCapabilityAccessMode\<close>, \<open>NewControllerServiceCapability\<close> and \<open>NewNodeServiceCapability\<close> wrap
  a value of an enumeration, here its name.\<close>

definition addVolumeCapabilityAccessModes :: "string list \<Rightarrow> 'w GCFSDriver \<Rightarrow> 'w GCFSDriver" where
  "addVolumeCapabilityAccessModes vc d = d\<lparr>dr_vcap := fold (\<lambda>c m. minsert c c m) vc (dr_vcap d)\<rparr>"

definition addControllerServiceCapabilities :: "string list \<Rightarrow> 'w GCFSDriver \<Rightarrow> 'w GCFSDriver" where
  "addControllerServiceCapabilities cl d = d\<lparr>dr_cscap := cl\<rparr>"

definition addNodeServiceCapabilities :: "string list \<Rightarrow> 'w GCFSDriver \<Rightarrow> 'w GCFSDriver" where
  "addNodeServiceCapabilities nl d = d\<lparr>dr_nscap := nl\<rparr>"

definition ValidateControllerServiceRequest :: "'w GCFSDriver \<Rightarrow> string \<Rightarrow> go_error option" where
  "ValidateControllerServiceRequest d c =
     (if c = ''UNKNOWN'' then None
      else if list_ex (\<lambda>cap. c = cap) (dr_cscap d) then None
      else Some (StatusErr InvalidArgument ''Invalid controller service request''))"

definition ControllerGetCapabilities :: "'w GCFSDriver \<Rightarrow> string list" where
  "ControllerGetCapabilities d = dr_cscap d"

definition NodeGetCapabilities :: "'w GCFSDriver \<Rightarrow> string list" where
  "NodeGetCapabilities d = dr_nscap d"

section \<open>The driver\<close>

text \<open>\<open>steps\<close> of \<open>ensureCustomResourceDefinitionsExist\<close>: the logarithm of the ratio of the two times to
  the base 3/2, rounded up, is the least exponent that reaches the ratio; at least one.\<close>

definition crdCheckInitialDurationMs :: int where "crdCheckInitialDurationMs = 100"

definition crd_steps :: "int \<Rightarrow> nat" where
  "crd_steps maxMs =
     (let m = max maxMs crdCheckInitialDurationMs in
      max 1 (case find (\<lambda>n. m * 2 ^ n \<le> crdCheckInitialDurationMs * 3 ^ n) [0..<64] of Some n \<Rightarrow> n | None \<Rightarrow> 64))"

definition ensureCustomResourceDefinitionsExist :: "'w StartEnv \<Rightarrow> ('w, unit) eff" where
  "ensureCustomResourceDefinitionsExist env = try_until (crd_steps 5000) (se_List_ShareInfos env)"

definition initMultishareReconciler :: "'w StartEnv \<Rightarrow> GCFSDriverConfig \<Rightarrow> ('w, unit) eff" where
  "initMultishareReconciler env cfg =
     or_exit id (BuildConfig env (fo_KubeConfig (gd_FeatureOptions cfg))) (\<lambda>_.
     or_exit id (se_kubernetes_NewForConfig env) (\<lambda>_.
     or_exit id (se_clientset_NewForConfig env) (\<lambda>_.
     or_exit id (se_clientset_NewForConfig env) (\<lambda>_.
     or_exit (\<lambda>e. ''Exiting due to failure to ensure CRDs exist during startup: '' @ e)
       (ensureCustomResourceDefinitionsExist env) ret))))"

definition newNodeServer ::
  "'w StartEnv \<Rightarrow> metadataServiceManager option \<Rightarrow> GCFSDriverFeatureOptions \<Rightarrow> ('w, 'w nodeServer) eff" where
  "newNodeServer env metaService featureOptions =
     (if fo_LockRelease featureOptions
      then bind (se_InClusterConfig env) (\<lambda>_.
           bind (se_kubernetes_NewForConfig env) (\<lambda>_.
           bind (NewLockReleaseController (se_rpc env) (se_Hostname env) (se_uuid env) (se_kube env)) (\<lambda>lc.
           ret \<lparr>nsv_metaService = metaService, nsv_lockReleaseController = Some lc\<rparr>)))
      else ret \<lparr>nsv_metaService = metaService, nsv_lockReleaseController = None\<rparr>)"

text \<open>\<open>newControllerServer\<close>: the reconciler of the configuration is the one that was initialised.\<close>

definition newControllerServer :: "GCFSDriverConfig \<Rightarrow> bool \<Rightarrow> controllerServer" where
  "newControllerServer cfg reconciler =
     \<lparr>cs_multiShareController = gd_EnableMultishare cfg,
      cs_statefulController = (gd_EnableMultishare cfg \<and> fo_Stateful (gd_FeatureOptions cfg)),
      cs_reconciler = reconciler\<rparr>"

definition access_modes :: "string list" where
  "access_modes = [''SINGLE_NODE_WRITER'', ''SINGLE_NODE_READER_ONLY'', ''MULTI_NODE_READER_ONLY'',
     ''MULTI_NODE_SINGLE_WRITER'', ''MULTI_NODE_MULTI_WRITER'']"

definition node_capabilities :: "string list" where
  "node_capabilities = [''STAGE_UNSTAGE_VOLUME'', ''GET_VOLUME_STATS'']"

definition controller_capabilities :: "string list" where
  "controller_capabilities = [''CREATE_DELETE_VOLUME'', ''EXPAND_VOLUME'', ''CREATE_DELETE_SNAPSHOT'', ''MODIFY_VOLUME'']"

definition add_node :: "'w StartEnv \<Rightarrow> 'w GCFSDriver \<Rightarrow> ('w, 'w GCFSDriver) eff" where
  "add_node env d =
     (if gd_RunNode (dr_config d)
      then bind (newNodeServer env (gd_MetadataService (dr_config d)) (gd_FeatureOptions (dr_config d))) (\<lambda>ns.
           ret (addNodeServiceCapabilities node_capabilities (d\<lparr>dr_ns := Some ns\<rparr>)))
      else ret d)"

text \<open>The file service of a nil cloud is a nil dereference.\<close>

definition add_controller :: "'w StartEnv \<Rightarrow> 'w GCFSDriver \<Rightarrow> ('w, 'w GCFSDriver) eff" where
  "add_controller env d =
     (if gd_RunController (dr_config d)
      then bind (if fo_Stateful (gd_FeatureOptions (dr_config d))
                 then bind (initMultishareReconciler env (dr_config d)) (\<lambda>_. ret True) else ret False) (\<lambda>recon.
           if gd_Cloud (dr_config d) = None then fail (Panic ''nil pointer dereference'')
           else ret ((addControllerServiceCapabilities controller_capabilities d)
                      \<lparr>dr_recon := recon, dr_cs := Some (newControllerServer (dr_config d) recon)\<rparr>))
      else ret d)"

definition NewGCFSDriver :: "'w StartEnv \<Rightarrow> GCFSDriverConfig \<Rightarrow> ('w, 'w GCFSDriver) eff" where
  "NewGCFSDriver env cfg =
     (if gd_Name cfg = [] then fail (ErrText ''driver name missing'')
      else if gd_Version cfg = [] then fail (ErrText ''driver version missing'')
      else if \<not> gd_RunController cfg \<and> \<not> gd_RunNode cfg
      then fail (ErrText ''must run at least one controller or node service'')
      else bind (add_node env (addVolumeCapabilityAccessModes access_modes
             \<lparr>dr_config = cfg, dr_cs = None, dr_ns = None, dr_recon = False, dr_vcap = [], dr_cscap = [], dr_nscap = []\<rparr>))
           (add_controller env))"

section \<open>The program\<close>

text \<open>The controller's part of \<open>main\<close>. The error of \<open>NewCloud\<close> is looked at after the tags of the
  command line: their validation asks the provider for its configuration, and a failed
  \<open>NewCloud\<close> has none.\<close>

definition main_controller ::
  "'w TagApi \<Rightarrow> 'w StartEnv \<Rightarrow> Flags \<Rightarrow> ('w, Cloud \<times> labels \<times> tagServiceManager) eff" where
  "main_controller api env fl =
     (if fl_enableMultishare fl \<and> fl_gkeClusterName fl = []
      then fail (exit_with ''gke-cluster-name has to be set when multishare feature is enabled'')
      else or_exit (\<lambda>e. ''Bad extra volume labels: '' @ e) (lift (ConvertLabelsStringToMap (fl_extraVolumeLabelsStr fl)))
        (\<lambda>extraVolumeLabels.
        attempt (NewCloud env (fl_cloudConfigFilePath fl) (fl_primaryFilestoreServiceEndpoint fl)
                   (fl_testFilestoreServiceEndpoint fl)) (\<lambda>provider.
        or_exit (\<lambda>e. ''failed to parse resource tags provided in command line: '' @ e)
          (ValidateResourceTags
             (case provider of Inl _ \<Rightarrow> api\<lparr>ta_values_client := \<lambda>_. fail (Panic ''nil pointer dereference'')\<rparr>
                             | Inr _ \<Rightarrow> api) ''command line'' (fl_resourceTagsStr fl)) (\<lambda>tags.
        or_exit (\<lambda>e. ''Failed to initialize cloud provider: '' @ e) (lift provider) (\<lambda>cloud.
        ret (cloud, extraVolumeLabels, \<lparr>tm_Project = cl_Project cloud, tm_tags = tags\<rparr>)))))) "

definition main_node :: "'w StartEnv \<Rightarrow> Flags \<Rightarrow> ('w, metadataServiceManager) eff" where
  "main_node env fl =
     (if fl_nodeID fl = [] then fail (exit_with ''nodeid cannot be empty for node service'')
      else if length (fl_extraVolumeLabelsStr fl) > 0
      then fail (exit_with ''Extra volume labels provided but not running controller'')
      else if length (fl_resourceTagsStr fl) > 0
      then fail (exit_with ''Resource tags provided but not running controller'')
      else or_exit (\<lambda>e. ''Failed to set up metadata service: '' @ e) (NewMetadataService env) ret)"

definition main_kubeClient :: "'w StartEnv \<Rightarrow> Flags \<Rightarrow> ('w, unit) eff" where
  "main_kubeClient env fl =
     (if fl_featureMaxSharePerInstance fl \<and> fl_runController fl \<and> fl_enableMultishare fl
      then or_exit id (BuildConfig env (fl_kubeconfig fl)) (\<lambda>_. or_exit id (se_kubernetes_NewForConfig env) ret)
      else ret ())"

definition featureOptions :: "Flags \<Rightarrow> GCFSDriverFeatureOptions" where
  "featureOptions fl =
     \<lparr>fo_LockRelease = fl_featureLockRelease fl, fo_LockReleaseStandalone = fl_featureLockReleaseStandalone fl,
      fo_MaxSharesPerInstance = fl_featureMaxSharePerInstance fl,
      fo_DescOverrideMaxSharesPerInstance = fl_descOverrideMaxShareCount fl,
      fo_DescOverrideMinShareSizeGB = fl_descOverrideMinShareSizeGB fl,
      fo_Stateful = fl_featureStateful fl, fo_KubeConfig = fl_kubeconfig fl,
      fo_MultishareBackups = fl_featureMultishareBackups fl,
      fo_NFSExportOptionsOnCreate = fl_featureNFSExportOptionsOnCreate fl, fo_NFSv4Support = fl_featureNFSv4Support fl\<rparr>"

definition main_config :: "Flags \<Rightarrow> GCFSDriverConfig" where
  "main_config fl =
     \<lparr>gd_Name = driverName, gd_Version = fl_version fl, gd_NodeName = fl_nodeID fl,
      gd_RunController = fl_runController fl, gd_RunNode = fl_runNode fl,
      gd_Cloud = None, gd_MetadataService = None, gd_EnableMultishare = fl_enableMultishare fl,
      gd_EcfsDescription = fl_ecfsDescription fl, gd_IsRegional = fl_isRegional fl,
      gd_ClusterName = fl_gkeClusterName fl, gd_FeatureOptions = featureOptions fl,
      gd_ExtraVolumeLabels = [], gd_TagManager = None\<rparr>"

text \<open>\<open>main\<close> up to the call of \<open>Run\<close>\<close>

definition main :: "'w TagApi \<Rightarrow> 'w StartEnv \<Rightarrow> Flags \<Rightarrow> ('w, 'w GCFSDriver) eff" where
  "main api env fl =
     bind (if fl_runController fl
           then bind (main_controller api env fl) (\<lambda>(cloud, extraVolumeLabels, tagMgr).
                ret ((main_config fl)\<lparr>gd_Cloud := Some cloud, gd_ExtraVolumeLabels := extraVolumeLabels,
                                      gd_TagManager := Some tagMgr\<rparr>))
           else bind (main_node env fl) (\<lambda>meta. ret ((main_config fl)\<lparr>gd_MetadataService := Some meta\<rparr>))) (\<lambda>cfg.
     bind (main_kubeClient env fl) (\<lambda>_.
     or_exit (\<lambda>e. ''Failed to initialize Cloud Filestore CSI Driver: '' @ e) (NewGCFSDriver env cfg) ret))"

section \<open>What runs\<close>

datatype background = ReconcilerLoop | PvInformers | LockReleaseLoop
datatype service = IdentityService | ControllerService | NodeService

text \<open>The loops that \<open>Run\<close> starts: those of the reconciler (\<open>runMultishareReconciler\<close>), of the informers
  of the multishare controller and of the lock release controller on a node\<close>

definition background_loops :: "'w GCFSDriver \<Rightarrow> background list" where
  "background_loops d =
     (if gd_RunController (dr_config d)
      then (if dr_recon d then [ReconcilerLoop] else [])
         @ (case dr_cs d of Some cs \<Rightarrow> if cs_multiShareController cs \<and> fo_MaxSharesPerInstance (gd_FeatureOptions (dr_config d))
                                      then [PvInformers] else []
                          | None \<Rightarrow> [])
      else [])
     @ (if gd_RunNode (dr_config d) \<and> fo_LockRelease (gd_FeatureOptions (dr_config d))
            \<and> \<not> fo_LockReleaseStandalone (gd_FeatureOptions (dr_config d))
        then [LockReleaseLoop] else [])"

text \<open>The listener's network and address with the services registered\<close>

definition serve_grpc :: "'w StartEnv \<Rightarrow> string \<Rightarrow> 'w GCFSDriver \<Rightarrow> ('w, (string \<times> string) \<times> service list) eff" where
  "serve_grpc env endpoint d =
     or_exit id (lift (se_url_Parse env endpoint)) (\<lambda>(scheme, path, host).
     bind (if scheme = ''unix''
           then attempt (se_Remove env path) (\<lambda>r. case r of
                  Inl e \<Rightarrow> if se_IsNotExist env e then ret path
                          else fail (exit_with (''Failed to remove '' @ path @ '', error: '' @ error_text e))
                | Inr _ \<Rightarrow> ret path)
           else if scheme = ''tcp'' then ret host
           else fail (exit_with (scheme @ '' endpoint scheme not supported''))) (\<lambda>addr.
     or_exit (\<lambda>e. ''Failed to listen: '' @ e) (se_net_Listen env scheme addr) (\<lambda>_.
     ret ((scheme, addr), [IdentityService] @ (if dr_cs d = None then [] else [ControllerService])
                        @ (if dr_ns d = None then [] else [NodeService])))))"

section \<open>Identity and the calls the driver does not support\<close>

definition GetPluginInfo :: "'w GCFSDriver \<Rightarrow> string \<times> string" where
  "GetPluginInfo d = (gd_Name (dr_config d), gd_Version (dr_config d))"

datatype plugin_capability = PluginService string | PluginVolumeExpansion string

definition GetPluginCapabilities :: "plugin_capability list" where
  "GetPluginCapabilities = [PluginService ''CONTROLLER_SERVICE'', PluginVolumeExpansion ''ONLINE'',
     PluginVolumeExpansion ''OFFLINE'', PluginService ''VOLUME_ACCESSIBILITY_CONSTRAINTS'']"

definition Probe :: "('w, unit) eff" where "Probe = ret ()"

definition ControllerPublishVolume :: "('w, unit) eff" where
  "ControllerPublishVolume = fail (StatusErr Unimplemented ''ControllerPublishVolume unsupported'')"
definition ControllerUnpublishVolume :: "('w, unit) eff" where
  "ControllerUnpublishVolume = fail (StatusErr Unimplemented ''ControllerUnpublishVolume unsupported'')"
definition ListVolumes :: "('w, unit) eff" where
  "ListVolumes = fail (StatusErr Unimplemented [])"
definition GetCapacity :: "('w, unit) eff" where
  "GetCapacity = fail (StatusErr Unimplemented [])"
definition ListSnapshots :: "('w, unit) eff" where
  "ListSnapshots = fail (StatusErr Unimplemented ''ListSnapshots unsupported'')"
definition ControllerGetVolume :: "('w, unit) eff" where
  "ControllerGetVolume = fail (StatusErr Unimplemented ''ControllerGetVolume unsupported'')"

section \<open>What the handlers see\<close>

text \<open>The configuration of the handlers of \<open>Controller\<close>, and the environment of those of \<open>Node_Server\<close>
  with the zone, project, instance and address of its metadata service\<close>

definition server_config :: "'w GCFSDriver \<Rightarrow> Cloud \<Rightarrow> config" where
  "server_config d cloud = (let c = dr_config d; f = gd_FeatureOptions c in
     \<lparr>cfg_Name = gd_Name c, cfg_Project = cl_Project cloud, cfg_Zone = cl_Zone cloud,
      cfg_extraVolumeLabels = gd_ExtraVolumeLabels c, cfg_isRegional = gd_IsRegional c,
      cfg_clusterName = gd_ClusterName c, cfg_ecfsDescription = gd_EcfsDescription c,
      cfg_vcap = map fst (dr_vcap d), cfg_nfsExportOptionsOnCreate = fo_NFSExportOptionsOnCreate f,
      cfg_nfsv4Support = fo_NFSv4Support f, cfg_lockRelease = fo_LockRelease f,
      cfg_maxSharesPerInstance = fo_MaxSharesPerInstance f, cfg_multishareBackups = fo_MultishareBackups f,
      cfg_multishareEnabled = gd_EnableMultishare c, cfg_statefulEnabled = fo_Stateful f,
      cfg_descOverrideMaxSharesPerInstance = fo_DescOverrideMaxSharesPerInstance f,
      cfg_descOverrideMinShareSizeBytes = fo_DescOverrideMinShareSizeGB f\<rparr>)"

definition node_env :: "'w GCFSDriver \<Rightarrow> metadataServiceManager \<Rightarrow> 'w NodeEnv \<Rightarrow> 'w NodeEnv" where
  "node_env d md env = env\<lparr>ne_Zone := md_zone md, ne_Project := md_project md, ne_InstanceID := md_instanceID md,
     ne_InternalIP := md_internalIP md, ne_NodeName := gd_NodeName (dr_config d)\<rparr>"

text \<open>\<open>NodeGetInfo\<close> of the node server of the driver: the metadata service may be nil.\<close>

definition node_info :: "'w GCFSDriver \<Rightarrow> 'w nodeServer \<Rightarrow> 'w NodeEnv \<Rightarrow> go_error + (string \<times> labels)" where
  "node_info d ns env = (case nsv_metaService ns of
       None \<Rightarrow> Inl (Panic ''nil pointer dereference'')
     | Some md \<Rightarrow> Inr (NodeGetInfo (node_env d md env)))"

section \<open>A driver that starts is ready\<close>

text \<open>The shape of a driver that \<open>NewGCFSDriver\<close> returns\<close>

definition driver_wf :: "'w GCFSDriver \<Rightarrow> bool" where
  "driver_wf d = (let c = dr_config d; f = gd_FeatureOptions c in
     map fst (dr_vcap d) = access_modes
     \<and> dr_recon d = (gd_RunController c \<and> fo_Stateful f)
     \<and> dr_cs d = (if gd_RunController c then Some (newControllerServer c (fo_Stateful f)) else None)
     \<and> dr_cscap d = (if gd_RunController c then controller_capabilities else [])
     \<and> dr_nscap d = (if gd_RunNode c then node_capabilities else [])
     \<and> (gd_RunNode c \<longleftrightarrow> dr_ns d \<noteq> None)
     \<and> (\<forall>ns. dr_ns d = Some ns \<longrightarrow> nsv_metaService ns = gd_MetadataService c
          \<and> (fo_LockRelease f \<longleftrightarrow> nsv_lockReleaseController ns \<noteq> None)))"

lemma or_exit_Inr: "or_exit h m f w = (Inr b, w') \<Longrightarrow> \<exists>a w1. m w = (Inr a, w1) \<and> f a w1 = (Inr b, w')"
  by (simp add: or_exit_def bind_err_Inr_iff)

lemma access_modes_registered: "map fst (fold (\<lambda>c m. minsert c c m) access_modes []) = access_modes"
  by code_simp

lemma newNodeServer_Inr:
  assumes "newNodeServer env md f w = (Inr ns, w')"
  shows "nsv_metaService ns = md \<and> (fo_LockRelease f \<longleftrightarrow> nsv_lockReleaseController ns \<noteq> None)"
  using assms by (auto simp: newNodeServer_def bind_Inr_iff split: if_splits)

lemma add_node_Inr:
  assumes "add_node env d w = (Inr d', w')" "dr_ns d = None" "dr_nscap d = []"
  shows "dr_config d' = dr_config d \<and> dr_vcap d' = dr_vcap d \<and> dr_cs d' = dr_cs d \<and> dr_recon d' = dr_recon d
    \<and> dr_cscap d' = dr_cscap d \<and> dr_nscap d' = (if gd_RunNode (dr_config d) then node_capabilities else [])
    \<and> (gd_RunNode (dr_config d) \<longleftrightarrow> dr_ns d' \<noteq> None)
    \<and> (\<forall>ns. dr_ns d' = Some ns \<longrightarrow> nsv_metaService ns = gd_MetadataService (dr_config d)
         \<and> (fo_LockRelease (gd_FeatureOptions (dr_config d)) \<longleftrightarrow> nsv_lockReleaseController ns \<noteq> None))"
  using assms by (auto simp: add_node_def bind_Inr_iff addNodeServiceCapabilities_def split: if_splits dest: newNodeServer_Inr)

lemma add_controller_Inr:
  assumes "add_controller env d w = (Inr d', w')" "dr_cs d = None" "dr_cscap d = []" "\<not> dr_recon d"
  shows "dr_config d' = dr_config d \<and> dr_vcap d' = dr_vcap d \<and> dr_ns d' = dr_ns d \<and> dr_nscap d' = dr_nscap d
    \<and> dr_recon d' = (gd_RunController (dr_config d) \<and> fo_Stateful (gd_FeatureOptions (dr_config d)))
    \<and> dr_cs d' = (if gd_RunController (dr_config d)
         then Some (newControllerServer (dr_config d) (fo_Stateful (gd_FeatureOptions (dr_config d)))) else None)
    \<and> dr_cscap d' = (if gd_RunController (dr_config d) then controller_capabilities else [])"
  using assms by (auto simp: add_controller_def bind_Inr_iff addControllerServiceCapabilities_def split: if_splits)

lemma NewGCFSDriver_wf:
  assumes "NewGCFSDriver env cfg w = (Inr d, w')"
  shows "dr_config d = cfg \<and> driver_wf d \<and> (gd_RunController cfg \<or> gd_RunNode cfg)"
proof -
  let ?d0 = "addVolumeCapabilityAccessModes access_modes
     \<lparr>dr_config = cfg, dr_cs = None, dr_ns = None, dr_recon = False, dr_vcap = [], dr_cscap = [], dr_nscap = []\<rparr>"
  have z: "dr_config ?d0 = cfg" "map fst (dr_vcap ?d0) = access_modes" "dr_cs ?d0 = None" "dr_ns ?d0 = None"
      "\<not> dr_recon ?d0" "dr_cscap ?d0 = []" "dr_nscap ?d0 = []"
    by (simp_all add: addVolumeCapabilityAccessModes_def access_modes_registered)
  from assms obtain d1 w1 where a: "add_node env ?d0 w = (Inr d1, w1)" "add_controller env d1 w1 = (Inr d, w')"
      and r: "gd_RunController cfg \<or> gd_RunNode cfg"
    by (auto simp: NewGCFSDriver_def bind_Inr_iff split: if_splits)
  note n = add_node_Inr[OF a(1) z(4) z(7)]
  have "dr_cs d1 = None" "dr_cscap d1 = []" "\<not> dr_recon d1" using n z by simp_all
  from n z add_controller_Inr[OF a(2) this] r show ?thesis
    by (simp add: driver_wf_def Let_def)
qed

lemma labels_of_string:
  assumes "ConvertLabelsStringToMap s = Inr m"
  shows "valid_labels m \<and> length m \<le> 64"
  using assms by (auto simp: ConvertLabelsStringToMap_def rbind_Inr_iff dest!: convert_pieces_valid split: if_splits)

text \<open>What \<open>main\<close> hands to \<open>NewGCFSDriver\<close>\<close>

lemma command_line_tags:
  assumes "ValidateResourceTags api tagsSource s w = (Inr tags, w')"
  shows "go_map tags \<and> (\<forall>t \<in> set (keys tags). vetted t)"
proof (cases "s = []")
  case True
  with assms show ?thesis by (auto simp: ValidateResourceTags_def go_map_def)
next
  case False
  from ValidateResourceTags_spec[OF assms False] show ?thesis
    by (auto simp: least_tags_def slashes_vetted)
qed

lemma main_config_of:
  assumes "main api env fl w = (Inr d, w')"
  obtains cfg w1 where "NewGCFSDriver env cfg w1 = (Inr d, w')"
    "gd_Name cfg = driverName" "gd_Version cfg = fl_version fl" "gd_RunController cfg = fl_runController fl"
    "gd_RunNode cfg = fl_runNode fl" "gd_EnableMultishare cfg = fl_enableMultishare fl"
    "gd_FeatureOptions cfg = featureOptions fl" "gd_ClusterName cfg = fl_gkeClusterName fl"
    "gd_MetadataService cfg = None \<longleftrightarrow> fl_runController fl" "gd_Cloud cfg \<noteq> None \<longleftrightarrow> fl_runController fl"
    "fl_runController fl \<Longrightarrow> ConvertLabelsStringToMap (fl_extraVolumeLabelsStr fl) = Inr (gd_ExtraVolumeLabels cfg)"
    "\<And>cloud. gd_Cloud cfg = Some cloud \<Longrightarrow> \<exists>tm. gd_TagManager cfg = Some tm \<and> tm_Project tm = cl_Project cloud
       \<and> go_map (tm_tags tm) \<and> (\<forall>t \<in> set (keys (tm_tags tm)). vetted t)"
    "fl_runController fl \<Longrightarrow> fl_enableMultishare fl \<Longrightarrow> fl_gkeClusterName fl \<noteq> []"
proof (cases "fl_runController fl")
  case True
  from assms[unfolded main_def] obtain cloud labels tm wa wb w1 where
      c: "main_controller api env fl wa = (Inr (cloud, labels, tm), wb)"
      and d: "NewGCFSDriver env ((main_config fl)\<lparr>gd_Cloud := Some cloud, gd_ExtraVolumeLabels := labels,
                 gd_TagManager := Some tm\<rparr>) w1 = (Inr d, w')"
    by (fastforce simp: True bind_Inr_iff dest!: or_exit_Inr)
  from c have "ConvertLabelsStringToMap (fl_extraVolumeLabelsStr fl) = Inr labels"
      "fl_enableMultishare fl \<Longrightarrow> fl_gkeClusterName fl \<noteq> []"
      "tm_Project tm = cl_Project cloud \<and> go_map (tm_tags tm) \<and> (\<forall>t \<in> set (keys (tm_tags tm)). vetted t)"
    by (auto simp: main_controller_def attempt_def split: if_splits prod.splits dest!: or_exit_Inr)
      (blast dest: command_line_tags)+
  with d True show thesis by (intro that[OF d]) (simp_all add: main_config_def)
next
  case False
  from assms[unfolded main_def] obtain md w1 where
      d: "NewGCFSDriver env ((main_config fl)\<lparr>gd_MetadataService := Some md\<rparr>) w1 = (Inr d, w')"
    by (fastforce simp: False bind_Inr_iff dest!: or_exit_Inr)
  with False show thesis by (intro that[OF d]) (simp_all add: main_config_def)
qed

lemma main_features:
  assumes "main api env fl w = (Inr d, w')"
  shows "gd_RunNode (dr_config d) = fl_runNode fl \<and> gd_FeatureOptions (dr_config d) = featureOptions fl"
  using main_config_of[OF assms] NewGCFSDriver_wf by metis

text \<open>C15: A driver that starts is ready for the requests it announces. When \<open>main\<close> reaches \<open>Run\<close>, the
  driver reports its name and version; it has a controller server exactly with \<open>-controller\<close> and a
  node server exactly with \<open>-node\<close>, and at least one of them; it accepts the volume capabilities with
  one of the five access modes and a mount type and no others; a call of the controller service is
  valid exactly when its capability is announced. With a controller, the extra labels are valid, a
  cluster name is set for multishare, the multishare and stateful controllers that the handlers
  dispatch to exist, and the tags of the command line are a map of well-formed tags. The lock
  release loop runs only with its controller. But the node information is available only when the
  process runs no controller: with both services the metadata service is nil and \<open>NodeGetInfo\<close>
  panics.\<close>

theorem driver_starts_ready:
  assumes "main api env fl w = (Inr d, w')"
  shows "GetPluginInfo d = (''filestore.csi.storage.gke.io'', fl_version fl)
    \<and> (dr_cs d \<noteq> None \<longleftrightarrow> fl_runController fl) \<and> (dr_ns d \<noteq> None \<longleftrightarrow> fl_runNode fl)
    \<and> (fl_runController fl \<or> fl_runNode fl)
    \<and> (\<forall>cloud cap. validateVolumeCapability (server_config d cloud) (Some cap) = None \<longleftrightarrow>
         (\<exists>mode \<in> set access_modes. \<exists>fs. cap_AccessMode cap = Some mode \<and> cap_AccessType cap = Some (MountAccess (Some fs))))
    \<and> (\<forall>t. ValidateControllerServiceRequest d t = None \<longleftrightarrow> t = ''UNKNOWN'' \<or> t \<in> set (ControllerGetCapabilities d))
    \<and> (\<forall>cs cloud. dr_cs d = Some cs \<longrightarrow> gd_Cloud (dr_config d) = Some cloud \<longrightarrow>
         (let cfg = server_config d cloud in
          valid_labels (cfg_extraVolumeLabels cfg) \<and> length (cfg_extraVolumeLabels cfg) \<le> 64
          \<and> (cfg_multishareEnabled cfg \<longrightarrow> cs_multiShareController cs \<and> cfg_clusterName cfg \<noteq> [])
          \<and> (cfg_multishareEnabled cfg \<and> cfg_statefulEnabled cfg \<longrightarrow> cs_statefulController cs \<and> dr_recon d)
          \<and> (\<exists>tm. gd_TagManager (dr_config d) = Some tm \<and> tm_Project tm = cfg_Project cfg
               \<and> go_map (tm_tags tm) \<and> (\<forall>t \<in> set (keys (tm_tags tm)). vetted t))))
    \<and> (LockReleaseLoop \<in> set (background_loops d) \<longrightarrow>
         (\<exists>ns. dr_ns d = Some ns \<and> nsv_lockReleaseController ns \<noteq> None))
    \<and> (\<forall>ns nenv. dr_ns d = Some ns \<longrightarrow> ((\<exists>info. node_info d ns nenv = Inr info) \<longleftrightarrow> \<not> fl_runController fl))"
proof -
  obtain cfg w1 where cfg: "NewGCFSDriver env cfg w1 = (Inr d, w')"
    "gd_Name cfg = driverName" "gd_Version cfg = fl_version fl" "gd_RunController cfg = fl_runController fl"
    "gd_RunNode cfg = fl_runNode fl" "gd_EnableMultishare cfg = fl_enableMultishare fl"
    "gd_FeatureOptions cfg = featureOptions fl" "gd_ClusterName cfg = fl_gkeClusterName fl"
    "gd_MetadataService cfg = None \<longleftrightarrow> fl_runController fl" "gd_Cloud cfg \<noteq> None \<longleftrightarrow> fl_runController fl"
    "fl_runController fl \<Longrightarrow> ConvertLabelsStringToMap (fl_extraVolumeLabelsStr fl) = Inr (gd_ExtraVolumeLabels cfg)"
    "\<And>cloud. gd_Cloud cfg = Some cloud \<Longrightarrow> \<exists>tm. gd_TagManager cfg = Some tm \<and> tm_Project tm = cl_Project cloud
       \<and> go_map (tm_tags tm) \<and> (\<forall>t \<in> set (keys (tm_tags tm)). vetted t)"
    "fl_runController fl \<Longrightarrow> fl_enableMultishare fl \<Longrightarrow> fl_gkeClusterName fl \<noteq> []"
    using main_config_of[OF assms] by metis
  have d: "dr_config d = cfg" "driver_wf d" "fl_runController fl \<or> fl_runNode fl"
    using NewGCFSDriver_wf[OF cfg(1)] cfg(4,5) by simp_all
  note wf = d(2)[unfolded driver_wf_def d(1) Let_def]
  have caps: "validateVolumeCapability (server_config d cloud) (Some cap) = None \<longleftrightarrow>
      (\<exists>mode \<in> set access_modes. \<exists>fs. cap_AccessMode cap = Some mode \<and> cap_AccessType cap = Some (MountAccess (Some fs)))"
    for cloud cap
    using wf by (auto simp: validateVolumeCapability_def server_config_def Let_def split: option.splits access_type.splits)
  have rpcs: "ValidateControllerServiceRequest d t = None \<longleftrightarrow> t = ''UNKNOWN'' \<or> t \<in> set (ControllerGetCapabilities d)" for t
    by (auto simp: ValidateControllerServiceRequest_def ControllerGetCapabilities_def list_ex_iff)
  have labels: "valid_labels (gd_ExtraVolumeLabels cfg) \<and> length (gd_ExtraVolumeLabels cfg) \<le> 64" if "fl_runController fl"
    using cfg(11)[OF that] by (rule labels_of_string)
  have loop: "\<exists>ns. dr_ns d = Some ns \<and> nsv_lockReleaseController ns \<noteq> None" if "LockReleaseLoop \<in> set (background_loops d)"
    using that wf by (fastforce simp: background_loops_def d(1) split: if_splits option.splits)
  have info: "(\<exists>info. node_info d ns nenv = Inr info) \<longleftrightarrow> \<not> fl_runController fl" if "dr_ns d = Some ns" for ns nenv
    using that wf cfg(9) by (auto simp: node_info_def split: option.splits)
  have server: "let c = server_config d cloud in
          valid_labels (cfg_extraVolumeLabels c) \<and> length (cfg_extraVolumeLabels c) \<le> 64
          \<and> (cfg_multishareEnabled c \<longrightarrow> cs_multiShareController cs \<and> cfg_clusterName c \<noteq> [])
          \<and> (cfg_multishareEnabled c \<and> cfg_statefulEnabled c \<longrightarrow> cs_statefulController cs \<and> dr_recon d)
          \<and> (\<exists>tm. gd_TagManager (dr_config d) = Some tm \<and> tm_Project tm = cfg_Project c
               \<and> go_map (tm_tags tm) \<and> (\<forall>t \<in> set (keys (tm_tags tm)). vetted t))"
    if cs: "dr_cs d = Some cs" "gd_Cloud (dr_config d) = Some cloud" for cs cloud
  proof -
    have r: "fl_runController fl" using cs(1) wf cfg(4) by (auto split: if_splits)
    have "cs = newControllerServer cfg (fo_Stateful (gd_FeatureOptions cfg))" using cs(1) wf cfg(4) r by simp
    with r wf labels[OF r] cfg(4,6,8,13) cfg(12)[of cloud] cs(2) show ?thesis
      by (simp add: server_config_def newControllerServer_def Let_def d(1))
  qed
  have i: "GetPluginInfo d = (''filestore.csi.storage.gke.io'', fl_version fl)"
    by (simp only: GetPluginInfo_def d(1) cfg(2,3) driverName_def)
  have "dr_cs d \<noteq> None \<longleftrightarrow> fl_runController fl" "dr_ns d \<noteq> None \<longleftrightarrow> fl_runNode fl" using wf cfg(4,5) by simp_all
  with i d(3) caps rpcs server loop info show ?thesis by blast
qed

text \<open>A process in which every call of a library succeeds, except that the definitions of the custom
  resources are there only after four calls\<close>

definition demo_start_rpc :: "'w RpcLib" where
  "demo_start_rpc = \<lparr>rpc_RegisterProcedure = (\<lambda>pr ve pc nm. ret ()), rpc_PmapGetPort = (\<lambda>h pr ve. ret 2049),
     rpc_DialTimeout = (\<lambda>a. ret 1), rpc_WriteRequest = (\<lambda>c m ip. ret ()), rpc_ReadResponseHeader = (\<lambda>c. ret ()),
     rpc_ReadResponseBody = (\<lambda>c res. ret res), rpc_Close = (\<lambda>c w. w), rpc_request_text = []\<rparr>"

definition demo_start_kube :: "'w KubeClient" where
  "demo_start_kube = \<lparr>kc_GetConfigMap = (\<lambda>ns n. fail (ErrText ''not found'')), kc_CreateConfigMap = (\<lambda>ns cm. ret cm),
     kc_UpdateConfigMap = (\<lambda>ns cm. ret cm), kc_ListConfigMaps = (\<lambda>ns. ret []),
     kc_GetNode = (\<lambda>n. fail (ErrText ''not found'')), kc_ListNodes = ret [],
     kc_IsNotFound = (\<lambda>e. e = ErrText ''not found''), kc_IsConflict = (\<lambda>e. False)\<rparr>"

definition demo_start_env :: "(string \<times> string) list StartEnv" where
  "demo_start_env = \<lparr>se_Open = (\<lambda>p. ret ()),
     se_ReadInto = (\<lambda>p. ret \<lparr>gc_TokenURL = [], gc_TokenBody = [], gc_ProjectId = ''p'', gc_Zone = ''z''\<rparr>),
     se_DefaultTokenSource = ret (), se_Token = (\<lambda>ts. ret ()), se_token_tries = 7, se_NewService = (\<lambda>ep. ret ()),
     se_NewMultishareService = (\<lambda>ep. ret ()), se_metadata_Zone = ret ''z'', se_metadata_ProjectID = ret ''p'',
     se_metadata_InstanceID = ret ''1'', se_metadata_InternalIP = ret ''::1'', se_BuildConfigFromFlags = (\<lambda>f. ret ()),
     se_InClusterConfig = ret (), se_kubernetes_NewForConfig = ret (), se_clientset_NewForConfig = ret (),
     se_List_ShareInfos = (\<lambda>w. if length w < 4 then (Inl (ErrText ''no such resource''), ([], []) # w) else (Inr (), w)),
     se_Hostname = ret ''h'', se_uuid = ''u'', se_rpc = demo_start_rpc, se_kube = demo_start_kube,
     se_url_Parse = (\<lambda>u. Inr (''unix'', u, [])), se_Remove = (\<lambda>p. ret ()), se_IsNotExist = (\<lambda>e. False),
     se_net_Listen = (\<lambda>n a. ret ())\<rparr>"

definition demo_flags :: Flags where
  "demo_flags = \<lparr>fl_endpoint = ''/s'', fl_nodeID = ''n'', fl_runController = True, fl_runNode = True,
     fl_cloudConfigFilePath = [], fl_enableMultishare = True, fl_testFilestoreServiceEndpoint = [],
     fl_primaryFilestoreServiceEndpoint = [], fl_ecfsDescription = [], fl_isRegional = False, fl_gkeClusterName = ''c'',
     fl_extraVolumeLabelsStr = ''a=b'', fl_resourceTagsStr = ''1/e/t'', fl_featureLockRelease = True,
     fl_featureLockReleaseStandalone = False, fl_featureMaxSharePerInstance = True, fl_descOverrideMaxShareCount = [],
     fl_descOverrideMinShareSizeGB = [], fl_featureNFSv4Support = False, fl_featureMultishareBackups = True,
     fl_featureNFSExportOptionsOnCreate = False, fl_featureStateful = True, fl_kubeconfig = [], fl_version = ''v1''\<rparr>"

lemma demo_main_controller:
  "main_controller example_tag_api demo_start_env demo_flags [] =
     (Inr (\<lparr>cl_Config = None, cl_FileEndpoint = None, cl_Project = ''p'', cl_Zone = ''z''\<rparr>, [(''a'', ''b'')],
        \<lparr>tm_Project = ''p'', tm_tags = [(''1/e/t'', ())]\<rparr>), [])"
  by code_simp

lemma crd_steps_value: "crd_steps 5000 = 10"
  by code_simp

lemma demo_node: "\<exists>ns. newNodeServer demo_start_env None (featureOptions demo_flags) w = (Inr ns, w)"
  by (simp add: newNodeServer_def featureOptions_def demo_flags_def demo_start_env_def bind_def
      NewLockReleaseController_def RegisterLockReleaseProcedure_def bind_err_def demo_start_rpc_def)

lemma demo_recon: "initMultishareReconciler demo_start_env cfg [] = (Inr (), replicate 4 ([], []))"
proof -
  have "try_until 10 (se_List_ShareInfos demo_start_env) [] = (Inr (), replicate 4 ([], []))" by code_simp
  then show ?thesis
    by (simp add: initMultishareReconciler_def ensureCustomResourceDefinitionsExist_def crd_steps_value or_exit_def
        bind_err_def BuildConfig_def demo_start_env_def)
qed

lemma demo_starts: "\<exists>d w'. main example_tag_api demo_start_env demo_flags [] = (Inr d, w')"
proof -
  obtain ns where ns: "newNodeServer demo_start_env None (featureOptions demo_flags) [] = (Inr ns, [])"
    using demo_node by blast
  have k: "main_kubeClient demo_start_env demo_flags [] = (Inr (), [])"
    by (simp add: main_kubeClient_def or_exit_def bind_err_def BuildConfig_def demo_start_env_def)
  have f: "fl_runController demo_flags" "fl_runNode demo_flags" "fo_Stateful (featureOptions demo_flags)"
      "fl_version demo_flags = ''v1''"
    by (simp_all add: demo_flags_def featureOptions_def)
  show ?thesis
    by (simp add: main_def demo_main_controller bind_def k f or_exit_def bind_err_def NewGCFSDriver_def main_config_def
        driverName_def add_node_def addVolumeCapabilityAccessModes_def ns add_controller_def
        addNodeServiceCapabilities_def demo_recon)
qed

theorem driver_starts_ready_witness:
  "\<exists>d w' ns. main example_tag_api demo_start_env demo_flags [] = (Inr d, w') \<and> dr_ns d = Some ns \<and> dr_cs d \<noteq> None
     \<and> LockReleaseLoop \<in> set (background_loops d) \<and> (\<forall>nenv. \<nexists>info. node_info d ns nenv = Inr info)"
proof -
  obtain d w' where m: "main example_tag_api demo_start_env demo_flags [] = (Inr d, w')"
    using demo_starts by blast
  have f: "fl_runController demo_flags" "fl_runNode demo_flags" by (simp_all add: demo_flags_def)
  have "LockReleaseLoop \<in> set (background_loops d)"
    using main_features[OF m] f by (simp add: background_loops_def featureOptions_def demo_flags_def)
  note r = driver_starts_ready[OF m]
  have "dr_cs d \<noteq> None" "dr_ns d \<noteq> None" using r f by blast+
  moreover have "(\<exists>info. node_info d ns nenv = Inr info) \<longleftrightarrow> \<not> fl_runController demo_flags" if "dr_ns d = Some ns" for ns nenv
    using r that by blast
  ultimately show ?thesis using m f \<open>LockReleaseLoop \<in> _\<close> by auto
qed

section \<open>The wait for the custom resources\<close>

lemma find_map_Suc: "find P (map Suc xs) = map_option Suc (find (\<lambda>n. P (Suc n)) xs)"
  by (induction xs) auto

lemma try_until_find:
  "try_until n condition w =
     (case find (\<lambda>i. \<not> isl (fst (condition (((\<lambda>w. snd (condition w)) ^^ i) w)))) [0..<n] of
        Some i \<Rightarrow> (Inr (), ((\<lambda>w. snd (condition w)) ^^ Suc i) w)
      | None \<Rightarrow> (Inl (ErrText ''timed out waiting for the condition''), ((\<lambda>w. snd (condition w)) ^^ n) w))"
proof (induction n arbitrary: w)
  case 0
  show ?case by simp
next
  case (Suc n)
  obtain r w1 where c: "condition w = (r, w1)" by force
  have u: "[0..<Suc n] = 0 # map Suc [0..<n]" by (simp add: map_Suc_upt upt_conv_Cons del: upt_Suc)
  show ?case
  proof (cases r)
    case (Inl e)
    have g: "((\<lambda>w. snd (condition w)) ^^ Suc i) w = ((\<lambda>w. snd (condition w)) ^^ i) w1" for i
      by (simp add: funpow_Suc_right c del: funpow.simps)
    let ?ok = "\<lambda>w i. \<not> isl (fst (condition (((\<lambda>w. snd (condition w)) ^^ i) w)))"
    have "\<not> ?ok w 0" by (simp add: Inl c)
    then have f: "find (?ok w) [0..<Suc n] = map_option Suc (find (?ok w1) [0..<n])"
      by (simp only: u find.simps find_map_Suc g if_False)
    have "try_until (Suc n) condition w = try_until n condition w1" by (simp add: c Inl)
    then show ?thesis unfolding f case_map_option comp_def g Suc.IH[of w1] .
  next
    case (Inr x)
    then show ?thesis unfolding u by (simp add: c)
  qed
qed

text \<open>The wait for the custom resource definitions ends. \<open>ensureCustomResourceDefinitionsExist\<close> lists
  the objects at most ten times, the least number of steps with which the delay of 100 ms, grown by
  half each time, reaches five seconds; it succeeds with the first list that succeeds, without a
  further call, and fails after ten lists that fail.\<close>

theorem crd_wait_ends:
  "ensureCustomResourceDefinitionsExist env w =
     (let after = (\<lambda>i. ((\<lambda>w. snd (se_List_ShareInfos env w)) ^^ i) w) in
      case find (\<lambda>i. \<not> isl (fst (se_List_ShareInfos env (after i)))) [0..<10] of
        Some i \<Rightarrow> (Inr (), after (Suc i))
      | None \<Rightarrow> (Inl (ErrText ''timed out waiting for the condition''), after 10))"
  unfolding ensureCustomResourceDefinitionsExist_def crd_steps_value try_until_find Let_def ..

end
