(* ===== verification/Metrics.thy ===== *)
theory Metrics
  imports Driver_State
begin

text \<open>
  \<open>pkg/metrics/metrics.go\<close>: the labels under which an operation is counted. The registries, histograms
  and counters are the Prometheus library's; a recorded value is here the list of its labels.
\<close>

section \<open>Labels\<close>

definition successStatusCode :: string where "successStatusCode = ''success''"
definition failureStatusCode :: string where "failureStatusCode = ''failure''"
definition envGKEFilestoreCSIVersion :: string where "envGKEFilestoreCSIVersion = ''GKE_FILESTORECSI_VERSION''"

definition getErrorCode :: "go_error option \<Rightarrow> string" where
  "getErrorCode err = (case err of
     None \<Rightarrow> code_name OK
   | Some e \<Rightarrow> (case fromError_code e of None \<Rightarrow> ''unknown-non-grpc'' | Some c \<Rightarrow> code_name c))"

definition errorCodeLabelValue :: "go_error option \<Rightarrow> string" where
  "errorCodeLabelValue operationErr = (case operationErr of
     None \<Rightarrow> code_name OK
   | Some e \<Rightarrow> getErrorCode (StatusError (Some (case as_temporary e of Some (_, cause) \<Rightarrow> cause | None \<Rightarrow> e))))"

definition RecordOperationMetrics :: "go_error option \<Rightarrow> string \<Rightarrow> string \<Rightarrow> string list" where
  "RecordOperationMetrics opErr methodName filestoreMode = [errorCodeLabelValue opErr, methodName, filestoreMode]"

definition RecordKubeAPIMetrics :: "go_error option \<Rightarrow> string \<Rightarrow> string \<Rightarrow> string \<Rightarrow> string list" where
  "RecordKubeAPIMetrics opErr resourceType opType opSource =
     [if opErr = None then successStatusCode else failureStatusCode, resourceType, opType, opSource]"

definition RecordLockReleaseMetrics :: "go_error option \<Rightarrow> string list" where
  "RecordLockReleaseMetrics opErr = [if opErr = None then successStatusCode else failureStatusCode]"

text \<open>\<open>os.LookupEnv\<close> is a function of the environment; a missing variable is empty.\<close>

definition getEnvVar :: "(string \<Rightarrow> string option) \<Rightarrow> string \<Rightarrow> string" where
  "getEnvVar lookupEnv envVarName = (case lookupEnv envVarName of None \<Rightarrow> [] | Some v \<Rightarrow> v)"

definition IsGKEComponentVersionAvailable :: "(string \<Rightarrow> string option) \<Rightarrow> bool" where
  "IsGKEComponentVersionAvailable lookupEnv = (getEnvVar lookupEnv envGKEFilestoreCSIVersion \<noteq> [])"

text \<open>The label of the component version, or the error\<close>

definition recordComponentVersionMetric :: "(string \<Rightarrow> string option) \<Rightarrow> go_error + string" where
  "recordComponentVersionMetric lookupEnv =
     (let v = getEnvVar lookupEnv envGKEFilestoreCSIVersion in
      if v = [] then Inl (ErrText (''Failed to register GKE component version metric, env variable ''
        @ envGKEFilestoreCSIVersion @ '' not defined''))
      else Inr v)"

definition EmitGKEComponentVersion :: "(string \<Rightarrow> string option) \<Rightarrow> go_error + string" where
  "EmitGKEComponentVersion lookupEnv = recordComponentVersionMetric lookupEnv"

section \<open>What the labels say\<close>

lemma getErrorCode_StatusError:
  "err_wf e \<Longrightarrow> getErrorCode (StatusError (Some e)) = code_name (codeForError e)"
  by (simp add: getErrorCode_def StatusError_def status_err_def codeForError_not_OK)

lemma as_temporary_wf: "as_temporary e = Some (c, e') \<Longrightarrow> err_wf e \<Longrightarrow> err_wf e'"
  by (induction e) auto

lemma code_name_inject [simp]: "code_name c = code_name d \<longleftrightarrow> c = d"
  by (cases c; cases d) simp_all

lemma code_name_OK [simp]: "code_name c = ''OK'' \<longleftrightarrow> c = OK"
  by (cases c) simp_all

lemma code_name_not_unknown: "code_name c \<noteq> ''unknown-non-grpc''"
  by (cases c) simp_all

text \<open>The metrics count causes, the callers see codes. For an error of a handler the label of the
  metric is the name of a code, never that of success nor the label for errors that are no statuses.
  Without a temporary error in its chain it names the code that the caller gets. For a temporary
  error, however often wrapped, the caller gets the temporary code and the metric the code of the
  cause: a poll that ran into its deadline is answered as Unavailable and counted as
  DeadlineExceeded.\<close>

theorem metric_label_names_cause:
  assumes "err_wf e" "\<forall>m. e \<noteq> Panic m"
  shows "(\<exists>c. c \<noteq> OK \<and> errorCodeLabelValue (Some e) = code_name c)
    \<and> errorCodeLabelValue (Some e) \<noteq> errorCodeLabelValue None
    \<and> errorCodeLabelValue (Some e) \<noteq> ''unknown-non-grpc''
    \<and> (as_temporary e = None \<longrightarrow> (\<exists>c m. to_status e = StatusErr c m \<and> errorCodeLabelValue (Some e) = code_name c))
    \<and> (\<forall>ws c cause. e = wraps ws (TemporaryErr c cause) \<longrightarrow>
         (\<exists>m. to_status e = StatusErr c m) \<and> errorCodeLabelValue (Some e) = code_name (codeForError cause))"
proof -
  let ?cause = "case as_temporary e of Some (_, cause) \<Rightarrow> cause | None \<Rightarrow> e"
  have wf: "err_wf ?cause" using assms(1) as_temporary_wf by (auto split: option.split)
  have l: "errorCodeLabelValue (Some e) = code_name (codeForError ?cause)"
    by (simp add: errorCodeLabelValue_def getErrorCode_StatusError[OF wf])
  have s: "to_status e = StatusErr (codeForError e) (error_text e)"
    using assms(2) by (simp add: to_status_def rewrite_err_def split: go_error.split)
  have "codeForError ?cause \<noteq> OK" using wf by (rule codeForError_not_OK)
  then have "(\<exists>c. c \<noteq> OK \<and> errorCodeLabelValue (Some e) = code_name c)"
    "errorCodeLabelValue (Some e) \<noteq> errorCodeLabelValue None"
    "errorCodeLabelValue (Some e) \<noteq> ''unknown-non-grpc''"
    unfolding l by (auto simp: errorCodeLabelValue_def code_name_not_unknown)
  moreover have "\<exists>c m. to_status e = StatusErr c m \<and> errorCodeLabelValue (Some e) = code_name c" if "as_temporary e = None"
    by (simp add: l s that)
  moreover have "(\<exists>m. to_status e = StatusErr c m) \<and> errorCodeLabelValue (Some e) = code_name (codeForError cause)"
    if e: "e = wraps ws (TemporaryErr c cause)" for ws c cause
  proof -
    have "as_temporary e = Some (c, cause)" "codeForError e = c" by (simp_all add: e)
    then show ?thesis unfolding l s by simp
  qed
  ultimately show ?thesis by blast
qed

definition demo_poll_error :: go_error where
  "demo_poll_error = ErrWrap ''create: '' (TemporaryErr Unavailable (ErrText ''context deadline exceeded'')) []"

theorem metric_label_names_cause_witness:
  "(\<exists>m. to_status demo_poll_error = StatusErr Unavailable m)
   \<and> RecordOperationMetrics (Some demo_poll_error) ''CreateVolume'' ''multishare''
       = [''DeadlineExceeded'', ''CreateVolume'', ''multishare'']"
proof -
  have w: "demo_poll_error = wraps [(''create: '', [])] (TemporaryErr Unavailable (ErrText ''context deadline exceeded''))"
    by (simp only: demo_poll_error_def wraps.simps)
  have c: "codeForError (ErrText ''context deadline exceeded'') = DeadlineExceeded" by code_simp
  have e: "err_wf demo_poll_error" "\<forall>m. demo_poll_error \<noteq> Panic m"
    by (simp_all add: demo_poll_error_def)
  have "(\<exists>m. to_status demo_poll_error = StatusErr Unavailable m) \<and>
      errorCodeLabelValue (Some demo_poll_error) = code_name (codeForError (ErrText ''context deadline exceeded''))"
    using metric_label_names_cause[OF e] w by blast
  then show ?thesis by (simp only: RecordOperationMetrics_def c code_name.simps simp_thms)
qed

end
