(* ===== verification/Spec2Isabelle.thy ===== *)
theory Spec2Isabelle
  imports Controller File_Service User_Tags Ops_Interleaving Lock_Interleaving Ip_Interleaving Reconciler_Rounds Stateful_Path Volume_Path Webhook Driver_Start Metrics
begin

text \<open>
  The GCP Filestore CSI driver.

  The program is a CSI driver: a gRPC server that Kubernetes calls to create, delete, expand,
  modify and snapshot volumes, which are Filestore instances (one volume per instance, NFS) or
  shares of a Filestore instance that several volumes use together (multishare). A request enters
  the controller server (pkg/csi_driver/controller.go). A multishare request is handed to the
  multishare controller (multishare_controller.go) with its operations manager
  (multishare_ops_manager.go), or, where the stateful mode is on, to the stateful controller
  (multishare_stateful_controller.go), which records the wish as a ShareInfo object for the
  reconciler. All of them share a lock set on volume ids (pkg/util/volume_lock.go), an allocator
  of address ranges that creations in progress hold (pkg/util/ip_reservation.go) and the client of
  the Filestore API (pkg/cloud_provider/file/file.go). The reconciler (reconciler.go) runs in rounds:
  it brings the ShareInfo and InstanceInfo objects and the instances and shares of the service
  together. On a node the node server (node.go) mounts volumes, with the same kind of lock set, and
  records each NFSv3 mount in the config map of its node; the lock release controller
  (pkg/releaselock) finds entries whose node is gone, asks the Filestore server over SunRPC to
  release their locks, and removes them. The webhook (pkg/webhook) checks and patches storage
  classes before the driver sees them. cmd/main.go builds the parts from its flags.

  Theories, from the bottom up, with the files they model:

    Prelude             generic lemmas and functions on strings, lists, maps (Go's strings package)
    Error_Codes         pkg/common/errors.go and the error functions of file.go: kinds of errors as
                        a datatype, searches through chains of wrapped errors, codeForError,
                        StatusError; the result type error + 'a and its binds
    Util                pkg/util/util.go, multishare_defs.go: units on int64, label parsing, names
                        of the custom resources, operation types and timeouts, AlignBytes
    Ip_Net              the functions of Go's package net that the driver uses, on IPv4
    Ip_Reservation      pkg/util/ip_reservation.go: the scan of a CIDR and the set of held ranges
    Volume_Locks        pkg/util/volume_lock.go, and the interleavings of any number of handlers
    File_Types          the objects of file.go, their URIs, comparisons and conversions
    File_Service        gcfsServiceManager of file.go over a record of the REST calls: polling of
                        operations, paging, endpoints, performance settings
    Fake_Service        fake.go; the locales instance_service and share_service state what a
                        store of instances and shares promises, and are interpreted on it
    Capacity            capacity ranges of the tiers, request sizes, IOPS (controller.go, utils.go,
                        multishare_controller.go)
    Volume_Id           volume_id.go: handles of volumes and of backups
    Labels              topology, zones and regions, extraction and merging of labels
    Driver_State        requests, the state of the driver, its lock and range handling
    Ops_Manager         multishare_ops_manager.go, every entry point
    Pairwise            collections of which no two members conflict
    Ip_Interleaving     the reservations of concurrent requests, at each call: the ranges in use stay
                        apart when the lists are complete and releases are timely, and the race when
                        a release is not
    Ops_Interleaving    the entry points of the manager in any order, with operations that complete at
                        any time: no two running operations conflict
    Multishare_Controller   multishare_controller.go, every handler
    Stateful_Controller     multishare_stateful_controller.go, every handler
    Controller          controller.go, every handler, with the dispatch to the two above
    User_Tags           user_tags.go: validation, merging and binding of resource tags
    Reconciler          reconciler.go, every function of a round
    Reconciler_Pointers the pointers between ShareInfo and InstanceInfo objects
    Reconciler_Rounds   what a round does: assignment, limits, requests, statuses
    Stateful_Path       the life of one volume in the stateful mode: requests to the controller, rounds
                        of the reconciler and completions of operations in any order, on an API server
                        and a service in memory
    Ip_Parse            net.ParseIP with both families of addresses
    Lock_Info           configmap_util.go: keys and config maps of the lock release
    Lock_Release        rpc.go and controller.go of pkg/releaselock: release, round, event workers
    Lock_Rounds         what the round and the event handlers do to the entries of dead nodes
    Lock_Interleaving   the config map of a node under concurrent writers: no update is lost
    Node_Server         node.go: every call of the node service
    Node_Mounts         the life of a volume on a node, and its meeting with the lock release
    Volume_Path         a volume from its creation by the controller to its mount on a node and to its
                        deletion
    Webhook             storageclass.go and the HTTP handler of webhook.go
    Metrics             the labels of metrics.go
    Driver_Start        cmd/main.go up to Run, cloud.go, metadata.go, gcfs_driver.go, identity.go,
                        server.go, controller_unimpl.go

  State. A handler is a function from the driver's state to a result and a new state. The state
  ('w driver) has three parts: world, the state of everything outside the process, of a type 'w
  that stays a parameter; ipAllocator, the set of the ranges held; volumeLocks, the set of the
  volume ids locked. The Filestore API, the tag service, the stores of PersistentVolumes and of
  ShareInfo objects are records of functions on 'w (Service, TagService, PvClient,
  ShareInfoClient): code outside the driver, of which nothing is assumed unless a theorem says so.
  Likewise the calls of Kubernetes (KubeClient, ReconClient), of the mounter and the file system
  (NodeEnv), of the Resource Manager (TagApi), of SunRPC (RpcLib) and of what a starting process
  finds (StartEnv) are records of functions.
  The properties therefore hold for every behaviour of these services, failures included. An error
  is a value of the datatype go_error; Panic is the error of a Go panic (a nil dereference or an
  index out of range) or of the end of the process, and no handler turns it into another error.

  Contracts. Where a property needs a service to behave, it says so with a named predicate, which a
  model of the service meets in the property's witness: config_map_store (a config map reads back
  what was written, a conflict changes nothing), optimistic_store (which gives it, and checks the resource
  version of an update when others write too), cluster_ok (the store, the nodes and the lock
  service do not interfere), instance_api_ok (an instance that was created is found at its location and
  name until it is deleted), node_env_ok (a mounted path is mounted, a cleaned one is not, and only a
  mounted path is reported as mounted; that a mount is noticed is the separate detectable, since the
  mount library misses bind mounts within one file system), pointers as the reconciler makes them
  (instances_ok, class_found and handles_ok in Reconciler_Pointers; visits_all, keyed, uuids_fresh and
  assignable in Reconciler_Rounds: instances under the URIs of their names, storage classes for the shares),
  tag_api_ok (a binding that was created is bound). The locales instance_service and share_service
  (Fake_Service) state what a store of instances and shares promises, operation_log (Ops_Interleaving)
  that a service lists the operations that run, range_service (Ip_Interleaving) that a
  call adds no range but that of the instance it creates (that a list names every instance of the network is
  a condition on a run, since instances of an unreachable location may be missing), entry_processor (Lock_Rounds) what an event handler
  needs of its processor; each is interpreted on the code's definitions.

  Concurrency. Handlers run concurrently in the program. What they share is the lock set, the
  allocator and the outside world. Volume_Locks and Ip_Reservation prove their invariants for
  every sequence of operations of any number of callers, because each operation holds the mutex of
  its structure; Node_Mounts uses them for the node server. The operations manager holds its mutex
  during each entry point, which is one step here; Ops_Interleaving takes any sequence of these
  steps, with completions before, between and inside them. A reservation is split in Ip_Interleaving at
  each call of the service and each use of the allocator, for any number of requests. The writers of a config map are interleaved at
  each call of the API server in Lock_Interleaving. Elsewhere a handler is one function of the state: its
  own sequence of steps, not an interleaving.

  Lemmas. The predicates keeps and errors_in of Driver_State are a small calculus: keeps P f
  says that the action f leaves P of the state as it was, errors_in S f that its failures are in S;
  the collection keeps_intros carries both through binds, locks and reservations, so that the
  statements on whole handlers (handlers_release, handler_errors_are_statuses) are proved by
  following the code. bind_Inr_iff and its relatives decompose a successful run into its steps.

  Bounds. Sizes are Isabelle integers where the code converts between units inside the range that
  validation has established, and words where it relies on the width. The polling of an
  operation takes fuel, the number of polls that the timeout and interval of the code allow: 60
  for an instance or a backup (five minutes, every five seconds), and the quotient of the
  configured timeout and interval for the operations of the multishare service.
  RetryOnConflict makes at most five attempts (retry.DefaultRetry); the wait for the custom resource
  definitions makes ten, as crd_steps computes from the delays of the code. A worker of the lock
  release queues runs until its queue shuts down: it is a partial function, None when it never does.
  The scan of a CIDR is total: its termination is proved with the distance to the end of the
  address space. The driver's ranges are IPv4; the code computes on four bytes. Node addresses may
  be of both families.

  Not modelled: logs, and the recording of metrics beyond their labels; how libraries build HTTP,
  gRPC and Kubernetes clients, fetch tokens (token_source.go) and elect leaders; the generated
  clients of the custom resources; the TLS server of the webhook; the doubles and tools of the
  tests (the fake tag service, the blocking service, test/, hack/). They have no logic of the driver:
  they are calls of libraries, generated code, or not part of the program.
\<close>

end
